(* ===== verification/Prelude.thy ===== *)
theory Prelude
  imports Main "HOL-Library.Word" "HOL-Library.Char_ord"
begin

text \<open>
  Shared material of the development: Go errors as values, Go's \<open>time.Time\<close> and
  \<open>time.Duration\<close>, PostgreSQL's \<open>timestamptz\<close> with its infinities as a linear order, and the
  generic lemmas on lists and sums that the component theories use.

  A Go error built by \<open>fmt.Errorf("m")\<close> is \<open>Fail m\<close>, one built by \<open>fmt.Errorf("m: %w", e)\<close>
  is \<open>Wrap m e\<close>, \<open>errors.Join(d, e)\<close> is \<open>Join d e\<close>, a database error of class 23505, 23503 or
  23514 on a constraint \<open>c\<close> is \<open>UniqueViolation c\<close>, \<open>ForeignKeyViolation c\<close> or \<open>CheckViolation c\<close> and any
  other is a \<open>DbFault\<close>, a package-level \<open>errors.New\<close> value is \<open>Sentinel s\<close>, and the typed errors
  of \<open>internal/forum\<close> have constructors of their own. \<open>err_is\<close> is \<open>errors.Is\<close>.
\<close>

named_theorems inv_intro \<open>introduction rules for the preservation of invariants\<close>
named_theorems tx_unfold \<open>definitions unfolded to run one transaction\<close>

subsection \<open>Errors\<close>

datatype sentinel =
    InvalidPublishingInputClass
  | PublishingDenied
  | PublicationRateLimitedClass
  | BlockedDestinationClass
  | PostEditDenied
  | PostEditConflict
  | PostDeleteDenied
  | PostDeleteConflict
  | NoRows
  | InvalidActivityCursor
  | InvalidSearchQuery
  | TopicModerationInput
  | TopicModerationDenied
  | TopicModerationConflict
  | UserModerationInput
  | UserModerationDenied
  | UserModerationConflict
  | AdministratorContinuity
  | ReportInput
  | ReportDenied
  | ReportDuplicate
  | ReportLimit
  | ReportConflict
  | AccountInput
  | AccountDenied
  | AccountNotFound
  | AccountConflict
  | AccountContinuity
  | AccountUnavailable
  | AreaInput
  | AreaDenied
  | AreaConflict
  | AdminDenied
  | AdminInput
  | AdminNotFound
  | AdminConflict
  | AdminUnavailable
  | RegistrationInput
  | RegistrationDenied
  | RegistrationConflict
  | RegistrationRemote
  | RegistrationUnavailable
  | RemoteUnavailable
  | RemoteConflict
  | RemoteAbsent
  | RemoteInvalid
  | RemoteRequest
  | ControlUnavailable
  | ControlInput
  | ControlDenied
  | ControlConflict
  | SetupClosed
  | SetupDenied
  | RebindDenied
  | Canceled
  | RegistrationNotApproved
  | TxClosed

datatype go_error =
    Fail string
  | Wrap string go_error
  | Sentinel sentinel
  | DbFault string
  | UniqueViolation string
  | ForeignKeyViolation string
  | CheckViolation string
  | InvalidPublishingInput string
  | PublicationRateLimitError int
  | BlockedDestinationError
  | Join go_error go_error

text \<open>
  \<open>errors.Is\<close>: the chain of wrapped errors is searched for the target. The typed errors of
  \<open>internal/forum/publish.go\<close> unwrap to their classes, and a blocked destination also answers
  to the class of the \<open>abuse\<close> package.
\<close>

fun err_is :: "go_error \<Rightarrow> sentinel \<Rightarrow> bool" where
  "err_is (Fail _) s = False"
| "err_is (Wrap _ e) s = err_is e s"
| "err_is (Sentinel t) s = (t = s)"
| "err_is (DbFault _) s = False"
| "err_is (UniqueViolation _) s = False"
| "err_is (ForeignKeyViolation _) s = False"
| "err_is (CheckViolation _) s = False"
| "err_is (InvalidPublishingInput _) s = (s = InvalidPublishingInputClass)"
| "err_is (PublicationRateLimitError _) s = (s = PublicationRateLimitedClass)"
| "err_is (Join d e) s = (err_is d s \<or> err_is e s)"
| "err_is BlockedDestinationError s = (s = BlockedDestinationClass \<or> s = InvalidPublishingInputClass)"

subsection \<open>Go time\<close>

text \<open>
  \<open>time.Time\<close> is an integer count of nanoseconds since the Unix epoch, in UTC (every clock value
  the modelled code stores or compares passes through \<open>UTC()\<close>; \<open>Before\<close>, \<open>After\<close>, \<open>Equal\<close>
  and \<open>Sub\<close> do not depend on the location). A \<open>time.Duration\<close> is an \<open>int64\<close> count of
  nanoseconds: \<open>Sub\<close> saturates at its ends.
\<close>

type_synonym gotime = int
type_synonym duration = int

definition min_duration :: int where "min_duration = - (2 ^ 63)"
definition max_duration :: int where "max_duration = 2 ^ 63 - 1"

definition ns_second :: int where "ns_second = 1000000000"
definition ns_minute :: int where "ns_minute = 60 * ns_second"
definition ns_hour :: int where "ns_hour = 60 * ns_minute"

definition time_sub :: "gotime \<Rightarrow> gotime \<Rightarrow> duration" where
  "time_sub t u =
     (if t - u < min_duration then min_duration
      else if max_duration < t - u then max_duration else t - u)"

text \<open>January 1 of year 1, the zero \<open>time.Time\<close>.\<close>

definition zero_time :: gotime where "zero_time = - 62135596800 * 1000000000"

text \<open>\<open>Truncate(time.Microsecond)\<close>: down to a multiple of a microsecond after the zero time.\<close>

definition truncate_us :: "gotime \<Rightarrow> gotime" where
  "truncate_us t = t - t mod 1000"

lemma truncate_us_bounds: "truncate_us t \<le> t" "t < truncate_us t + 1000"
  by (simp_all add: truncate_us_def)

lemma truncate_us_idem [simp]: "truncate_us (truncate_us t) = truncate_us t"
  by (simp add: truncate_us_def mod_diff_right_eq)

lemma time_sub_nonneg [simp]: "u \<le> t \<Longrightarrow> 0 \<le> time_sub t u"
  by (simp add: time_sub_def min_duration_def max_duration_def)

lemma time_sub_neg_iff [simp]: "time_sub t u < 0 \<longleftrightarrow> t < u"
  by (auto simp: time_sub_def min_duration_def max_duration_def)

lemma time_sub_less_iff:
  "\<bar>d\<bar> < max_duration \<Longrightarrow> time_sub t u < d \<longleftrightarrow> t - u < d"
  by (auto simp: time_sub_def min_duration_def max_duration_def)

lemma time_sub_eq:
  "min_duration \<le> t - u \<Longrightarrow> t - u \<le> max_duration \<Longrightarrow> time_sub t u = t - u"
  by (simp add: time_sub_def)

subsection \<open>PostgreSQL timestamps\<close>

text \<open>
  A non-null \<open>timestamptz\<close> is finite or one of the two infinities; a nullable column, and the
  Go type \<open>pgtype.Timestamptz\<close>, is an \<open>option\<close> of it. \<open>GREATEST\<close> is \<open>max\<close> of the order.
\<close>

datatype tstamp = NegInfinity | At (at_time: int) | Infinity

fun tstamp_le :: "tstamp \<Rightarrow> tstamp \<Rightarrow> bool" where
  "tstamp_le NegInfinity _ = True"
| "tstamp_le (At _) NegInfinity = False"
| "tstamp_le (At t) (At u) = (t \<le> u)"
| "tstamp_le (At _) Infinity = True"
| "tstamp_le Infinity t = (t = Infinity)"

instantiation tstamp :: linorder
begin

definition less_eq_tstamp :: "tstamp \<Rightarrow> tstamp \<Rightarrow> bool" where
  "less_eq_tstamp t u = tstamp_le t u"

definition less_tstamp :: "tstamp \<Rightarrow> tstamp \<Rightarrow> bool" where
  "less_tstamp t u = (tstamp_le t u \<and> \<not> tstamp_le u t)"

instance
proof
  fix t u v :: tstamp
  show "t < u \<longleftrightarrow> t \<le> u \<and> \<not> u \<le> t"
    by (simp add: less_eq_tstamp_def less_tstamp_def)
  show "t \<le> t"
    by (cases t) (simp_all add: less_eq_tstamp_def)
  show "t \<le> u \<Longrightarrow> u \<le> v \<Longrightarrow> t \<le> v"
    by (cases t; cases u; cases v) (simp_all add: less_eq_tstamp_def)
  show "t \<le> u \<Longrightarrow> u \<le> t \<Longrightarrow> t = u"
    by (cases t; cases u) (simp_all add: less_eq_tstamp_def)
  show "t \<le> u \<or> u \<le> t"
    by (cases t; cases u) (auto simp: less_eq_tstamp_def)
qed

end

lemma At_le_iff [simp]: "At t \<le> At u \<longleftrightarrow> t \<le> u"
  by (simp add: less_eq_tstamp_def)

lemma At_less_iff [simp]: "At t < At u \<longleftrightarrow> t < u"
  by (auto simp: less_tstamp_def)

lemma NegInfinity_le [simp]: "NegInfinity \<le> t"
  by (simp add: less_eq_tstamp_def)

lemma max_At [simp]: "max (At t) (At u) = At (max t u)"
  by (simp add: max_def)

lemma max_NegInfinity [simp]: "max t NegInfinity = t" "max NegInfinity t = t"
  by (cases t; simp add: max_def less_eq_tstamp_def)+

text \<open>
  \<open>finite_ts v\<close> is \<open>value.Valid && value.InfinityModifier == pgtype.Finite\<close>, and \<open>ts_time v\<close> is
  \<open>value.Time\<close>, which is the zero time in a null or an infinite value.
\<close>

fun finite_ts :: "tstamp option \<Rightarrow> bool" where
  "finite_ts (Some (At _)) = True"
| "finite_ts _ = False"

fun ts_time :: "tstamp option \<Rightarrow> gotime" where
  "ts_time (Some (At t)) = t"
| "ts_time _ = zero_time"

lemma finite_ts_iff: "finite_ts v \<longleftrightarrow> (\<exists>t. v = Some (At t))"
  by (cases v rule: finite_ts.cases) auto

lemma finite_tsE: "finite_ts v \<Longrightarrow> (\<And>t. v = Some (At t) \<Longrightarrow> P) \<Longrightarrow> P"
  by (auto simp: finite_ts_iff)

subsection \<open>Lists and tables\<close>

text \<open>
  A table is the list of its rows in insertion order. \<open>upd_where p f rows\<close> is
  \<open>UPDATE ... SET f WHERE p\<close>.
\<close>

definition upd_where :: "('r \<Rightarrow> bool) \<Rightarrow> ('r \<Rightarrow> 'r) \<Rightarrow> 'r list \<Rightarrow> 'r list" where
  "upd_where p f rows = map (\<lambda>r. if p r then f r else r) rows"

lemma length_upd_where [simp]: "length (upd_where p f rows) = length rows"
  by (simp add: upd_where_def)

lemma upd_where_Nil [simp]: "upd_where p f [] = []"
  by (simp add: upd_where_def)

lemma upd_where_Cons [simp]:
  "upd_where p f (r # rows) = (if p r then f r else r) # upd_where p f rows"
  by (simp add: upd_where_def)

lemma set_upd_where: "set (upd_where p f rows) = (\<lambda>r. if p r then f r else r) ` set rows"
  by (simp add: upd_where_def)

lemma map_upd_where:
  "(\<And>r. p r \<Longrightarrow> g (f r) = g r) \<Longrightarrow> map g (upd_where p f rows) = map g rows"
  by (simp add: upd_where_def)

lemma filter_upd_where:
  "(\<And>r. p r \<Longrightarrow> q (f r) = q r) \<Longrightarrow>
   filter q (upd_where p f rows) = upd_where p f (filter q rows)"
  by (induction rows) simp_all

lemma upd_where_id: "\<forall>r \<in> set rows. \<not> p r \<Longrightarrow> upd_where p f rows = rows"
  by (induction rows) simp_all

lemma find_Some_iff2: "find p xs = Some x \<Longrightarrow> x \<in> set xs \<and> p x"
  by (auto simp: find_Some_iff)

lemma find_None_iff2: "find p xs = None \<longleftrightarrow> (\<forall>x \<in> set xs. \<not> p x)"
  by (auto simp: find_None_iff)

text \<open>A lookup by a key that is distinct in the table finds the row that is there.\<close>

lemma find_distinct_key:
  "distinct (map k rows) \<Longrightarrow> r \<in> set rows \<Longrightarrow> find (\<lambda>x. k x = k r) rows = Some r"
  by (induction rows) (auto simp: image_iff)

lemma distinct_key_eq:
  "distinct (map k rows) \<Longrightarrow> r \<in> set rows \<Longrightarrow> r' \<in> set rows \<Longrightarrow> k r = k r' \<Longrightarrow> r = r'"
  by (auto simp: distinct_map inj_on_def)

lemma find_upd_where:
  "(\<And>r. p r \<Longrightarrow> q (f r) = q r) \<Longrightarrow>
   find q (upd_where p f rows) = map_option (\<lambda>r. if p r then f r else r) (find q rows)"
  by (induction rows) auto

text \<open>Every row of a table has a successor in another one, along a relation on rows.\<close>

definition rows_move :: "('r \<Rightarrow> 'r \<Rightarrow> bool) \<Rightarrow> 'r list \<Rightarrow> 'r list \<Rightarrow> bool" where
  "rows_move Q rows rows' \<longleftrightarrow> (\<forall>r \<in> set rows. \<exists>r' \<in> set rows'. Q r r')"

lemma rows_move_refl: "(\<And>r. Q r r) \<Longrightarrow> rows_move Q rows rows"
  by (auto simp: rows_move_def)

lemma rows_move_trans:
  assumes Q: "\<And>a b c. Q a b \<Longrightarrow> Q b c \<Longrightarrow> Q a c"
    and 1: "rows_move Q rows1 rows2" and 2: "rows_move Q rows2 rows3"
  shows "rows_move Q rows1 rows3"
  unfolding rows_move_def
proof
  fix r
  assume "r \<in> set rows1"
  with 1 obtain r' where r': "r' \<in> set rows2" "Q r r'" by (auto simp: rows_move_def)
  with 2 obtain r'' where "r'' \<in> set rows3" "Q r' r''" by (auto simp: rows_move_def)
  with r' show "\<exists>r'' \<in> set rows3. Q r r''" using Q by blast
qed

lemma rows_move_append: "(\<And>r. Q r r) \<Longrightarrow> rows_move Q rows (rows @ more)"
  by (auto simp: rows_move_def)

lemma rows_move_upd:
  assumes "\<And>r. Q r r" and "\<And>r. p r \<Longrightarrow> Q r (f r)"
  shows "rows_move Q rows (upd_where p f rows)"
  unfolding rows_move_def
proof
  fix r
  assume "r \<in> set rows"
  then have "(if p r then f r else r) \<in> set (upd_where p f rows)" by (auto simp: upd_where_def)
  moreover have "Q r (if p r then f r else r)" using assms by simp
  ultimately show "\<exists>r' \<in> set (upd_where p f rows). Q r r'" by blast
qed

subsection \<open>Machine integers\<close>

text \<open>Bounds of the signed integers of the database and of Go.\<close>

definition max_int32 :: int where "max_int32 = 2147483647"

type_synonym u32 = "32 word"

end
