(* ===== verification/FixedWindow.thy ===== *)
theory FixedWindow
  imports Prelude
begin

text \<open>
  The contract the two rate limits of the program share: a fixed window that opens at the first
  admission, admits up to a limit, and is replaced only after it has run out. The provider is a
  step function that answers one attempt at a time with the start of the window it was charged
  to, or with a rejection. \<open>window_run\<close> lists the windows charged over a run of attempts; the
  locale proves once that no window is charged above the limit and that windows do not overlap.
\<close>

fun window_run :: "('s \<Rightarrow> 'e \<Rightarrow> 's \<times> int option) \<Rightarrow> 's \<Rightarrow> 'e list \<Rightarrow> int list" where
  "window_run step s [] = []"
| "window_run step s (t # ts) =
     (case step s t of
        (s', Some u) \<Rightarrow> u # window_run step s' ts
      | (s', None) \<Rightarrow> window_run step s' ts)"

fun window_state :: "('s \<Rightarrow> 'e \<Rightarrow> 's \<times> int option) \<Rightarrow> 's \<Rightarrow> 'e list \<Rightarrow> 's" where
  "window_state step s [] = s"
| "window_state step s (t # ts) = window_state step (fst (step s t)) ts"

text \<open>
  \<open>evicts\<close> says whether the provider may drop a window that has run out before its owner
  comes back; only then does the contract need a clock that does not go backwards.
\<close>

locale fixed_window =
  fixes step :: "'s \<Rightarrow> 'e \<Rightarrow> 's \<times> int option"
    and at :: "'e \<Rightarrow> int"
    and inv :: "'s \<Rightarrow> bool"
    and started :: "'s \<Rightarrow> int option"
    and used :: "'s \<Rightarrow> nat"
    and limit :: nat
    and window :: int
    and evicts :: bool
  assumes window_pos: "inv s \<Longrightarrow> 0 < window"
    and step_inv: "inv s \<Longrightarrow> inv (fst (step s t))"
    and used_limit: "inv s \<Longrightarrow> started s \<noteq> None \<Longrightarrow> used s \<le> limit"
    and limit_pos: "inv s \<Longrightarrow> 0 < limit"
    and admitted: "inv s \<Longrightarrow> step s t = (s', Some u) \<Longrightarrow> started s' = Some u \<and>
          (started s = Some u \<and> used s' = Suc (used s) \<and> used s < limit \<or>
           u = at t \<and> used s' = 1 \<and> (case started s of None \<Rightarrow> True | Some v \<Rightarrow> v + window \<le> at t))"
    and rejected: "inv s \<Longrightarrow> step s t = (s', None) \<Longrightarrow>
          started s' = started s \<and> used s' = used s \<or>
          evicts \<and> started s' = None \<and> (\<exists>v. started s = Some v \<and> v + window \<le> at t)"
begin

lemma run_starts:
  assumes "inv s" and "evicts \<longrightarrow> sorted (lo # map at ts)" and "u \<in> set (window_run step s ts)"
  shows "case started s of Some v \<Rightarrow> u = v \<or> v + window \<le> u | None \<Rightarrow> evicts \<longrightarrow> lo \<le> u"
  using assms
proof (induction ts arbitrary: s lo)
  case Nil
  then show ?case by simp
next
  case (Cons t ts)
  obtain s' r where st: "step s t = (s', r)" by force
  have inv': "inv s'" using step_inv [OF Cons.prems(1), of t] st by simp
  have mono: "evicts \<longrightarrow> sorted (at t # map at ts)" using Cons.prems(2) by auto
  show ?case
  proof (cases r)
    case None
    have "u \<in> set (window_run step s' ts)" using Cons.prems(3) st None by simp
    from Cons.IH [OF inv' mono this] rejected [OF Cons.prems(1), of t s'] st None Cons.prems(2)
    show ?thesis by (auto split: option.splits)
  next
    case (Some w)
    note ad = admitted [OF Cons.prems(1), of t s' w] st Some
    from Cons.prems(3) st Some have "u = w \<or> u \<in> set (window_run step s' ts)" by simp
    then have "u = w \<or> w + window \<le> u"
      using Cons.IH [OF inv' mono] ad by auto
    with ad Cons.prems(2) window_pos [OF Cons.prems(1)] show ?thesis by (auto split: option.splits)
  qed
qed

lemma run_spaced:
  assumes "inv s" and "evicts \<longrightarrow> sorted (map at ts)"
  shows "sorted_wrt (\<lambda>u v. u = v \<or> u + window \<le> v) (window_run step s ts)"
  using assms
proof (induction ts arbitrary: s)
  case Nil
  then show ?case by simp
next
  case (Cons t ts)
  obtain s' r where st: "step s t = (s', r)" by force
  have inv': "inv s'" using step_inv [OF Cons.prems(1), of t] st by simp
  have mono: "evicts \<longrightarrow> sorted (at t # map at ts)" using Cons.prems(2) by simp
  have IH: "sorted_wrt (\<lambda>u v. u = v \<or> u + window \<le> v) (window_run step s' ts)"
    using Cons.IH [OF inv'] Cons.prems(2) by auto
  show ?case
  proof (cases r)
    case None
    with IH st show ?thesis by simp
  next
    case (Some w)
    then have "started s' = Some w" using admitted [OF Cons.prems(1), of t s' w] st by simp
    then have "v = w \<or> w + window \<le> v" if "v \<in> set (window_run step s' ts)" for v
      using run_starts [OF inv' mono that] by simp
    with IH st Some show ?thesis by auto
  qed
qed

lemma run_bounded:
  assumes "inv s" and "evicts \<longrightarrow> sorted (map at ts)"
  shows "count_list (window_run step s ts) u + (if started s = Some u then used s else 0) \<le> limit"
  using assms
proof (induction ts arbitrary: s)
  case Nil
  then show ?case using used_limit by auto
next
  case (Cons t ts)
  obtain s' r where st: "step s t = (s', r)" by force
  have inv': "inv s'" using step_inv [OF Cons.prems(1), of t] st by simp
  have mono: "evicts \<longrightarrow> sorted (at t # map at ts)" using Cons.prems(2) by simp
  have IH: "count_list (window_run step s' ts) u + (if started s' = Some u then used s' else 0) \<le> limit"
    using Cons.IH [OF inv'] Cons.prems(2) by auto
  have gone: "count_list (window_run step s' ts) v = 0"
    if "started s = Some v" "started s' \<noteq> Some v" "v + window \<le> at t" "started s' = None \<or> started s' = Some (at t)"
       "started s' = None \<longrightarrow> evicts" for v
  proof -
    have "v \<notin> set (window_run step s' ts)"
      using run_starts [OF inv' mono, of v] that window_pos [OF inv'] by (auto split: option.splits)
    then show ?thesis by (simp add: count_list_0_iff)
  qed
  show ?case
  proof (cases r)
    case None
    from rejected [OF Cons.prems(1), of t s'] st None
    consider "started s' = started s" "used s' = used s"
      | v where "evicts" "started s' = None" "started s = Some v" "v + window \<le> at t" by auto
    then show ?thesis
    proof cases
      case 1
      with IH st None show ?thesis by (cases "started s = Some u") simp_all
    next
      case (2 v)
      with gone [of v] IH st None used_limit [OF Cons.prems(1)] show ?thesis by auto
    qed
  next
    case (Some w)
    from admitted [OF Cons.prems(1), of t s' w] st Some have
      s': "started s' = Some w" and
      cs: "started s = Some w \<and> used s' = Suc (used s) \<or>
       w = at t \<and> used s' = 1 \<and> (case started s of None \<Rightarrow> True | Some v \<Rightarrow> v + window \<le> at t)" by auto
    from cs show ?thesis
    proof
      assume "started s = Some w \<and> used s' = Suc (used s)"
      with s' IH st Some show ?thesis by auto
    next
      assume new: "w = at t \<and> used s' = 1 \<and> (case started s of None \<Rightarrow> True | Some v \<Rightarrow> v + window \<le> at t)"
      show ?thesis
      proof (cases "started s = Some u")
        case True
        with new window_pos [OF inv'] s' gone [of u] have "count_list (window_run step s' ts) u = 0" "u \<noteq> at t"
          by auto
        with True new st Some used_limit [OF Cons.prems(1)] show ?thesis by auto
      next
        case False
        with new s' IH st Some show ?thesis by auto
      qed
    qed
  qed
qed

end

end
