(* ===== verification/Bytes.thy ===== *)
theory Bytes
  imports Prelude
begin

unbundle bit_operations_syntax

text \<open>
  Byte sequences: strings as bytes, and the fixed-width big-endian encodings of
  \<open>encoding/binary\<close> with the lemma that decoding inverts encoding.
\<close>

type_synonym bytes = "8 word list"

definition string_bytes :: "string \<Rightarrow> bytes" where
  "string_bytes s = map of_char s"

text \<open>\<open>binary.BigEndian.PutUintN\<close>: the \<open>n\<close> low bytes, most significant first; and \<open>UintN\<close>.\<close>

definition be_bytes :: "nat \<Rightarrow> 'a::len word \<Rightarrow> bytes" where
  "be_bytes n w = map (\<lambda>i. ucast (drop_bit (8 * i) w)) (rev [0..<n])"

definition be_uint :: "bytes \<Rightarrow> 'a::len word" where
  "be_uint bs = foldl (\<lambda>acc b. push_bit 8 acc OR ucast b) 0 bs"

lemma length_string_bytes [simp]: "length (string_bytes s) = length s"
  by (simp add: string_bytes_def)

lemma length_be_bytes [simp]: "length (be_bytes n w) = n"
  by (simp add: be_bytes_def)

lemma nth_be_bytes: "i < n \<Longrightarrow> be_bytes n w ! i = ucast (drop_bit (8 * (n - Suc i)) w)"
  by (simp add: be_bytes_def rev_nth)

lemma be_uint_Nil [simp]: "be_uint [] = 0"
  by (simp add: be_uint_def)

lemma be_uint_snoc: "be_uint (bs @ [b]) = push_bit 8 (be_uint bs) OR ucast b"
  by (simp add: be_uint_def)

lemma bit_be_uint:
  "i < LENGTH('a) \<Longrightarrow>
   bit (be_uint bs :: 'a::len word) i \<longleftrightarrow>
     i div 8 < length bs \<and> bit (bs ! (length bs - Suc (i div 8))) (i mod 8)"
proof (induction bs arbitrary: i rule: rev_induct)
  case Nil
  then show ?case by simp
next
  case (snoc b bs)
  show ?case
  proof (cases "i < 8")
    case True
    with snoc.prems show ?thesis
      by (simp add: be_uint_snoc bit_or_iff bit_push_bit_iff bit_ucast_iff nth_append)
  next
    case False
    define j where "j = i - 8"
    have j: "i = j + 8" "j < LENGTH('a)" using False snoc.prems by (simp_all add: j_def)
    have nb: "\<not> bit (ucast b :: 'a word) i"
      using False bit_imp_le_length [of b i] by (auto simp: bit_ucast_iff)
    have "bit (be_uint (bs @ [b]) :: 'a word) i \<longleftrightarrow> bit (be_uint bs :: 'a word) j"
      using nb j snoc.prems by (simp add: be_uint_snoc bit_or_iff bit_push_bit_iff)
    also have "\<dots> \<longleftrightarrow> j div 8 < length bs \<and> bit (bs ! (length bs - Suc (j div 8))) (j mod 8)"
      by (rule snoc.IH [OF j(2)])
    finally have "bit (be_uint (bs @ [b]) :: 'a word) i \<longleftrightarrow>
        j div 8 < length bs \<and> bit (bs ! (length bs - Suc (j div 8))) (j mod 8)" .
    moreover have "i div 8 = Suc (j div 8)" "i mod 8 = j mod 8" using j(1) by simp_all
    ultimately show ?thesis by (auto simp: nth_append)
  qed
qed

lemma be_uint_be_bytes [simp]:
  fixes w :: "'a::len word"
  assumes "LENGTH('a) \<le> 8 * n"
  shows "be_uint (be_bytes n w) = w"
proof (rule bit_word_eqI)
  fix i assume i: "i < LENGTH('a)"
  define q where "q = i div 8"
  define r where "r = i mod 8"
  have r: "r < 8" and eq: "8 * q + r = i" by (simp_all add: q_def r_def)
  have lt: "q < n" using assms i eq by linarith
  then have "be_bytes n w ! (n - Suc q) = ucast (drop_bit (8 * q) w)"
    by (simp add: nth_be_bytes Suc_diff_Suc)
  then have "bit (be_bytes n w ! (n - Suc q)) r = bit w i"
    using r by (simp only: bit_ucast_iff bit_drop_bit_eq o_def eq) simp
  then show "bit (be_uint (be_bytes n w) :: 'a word) i = bit w i"
    using lt unfolding bit_be_uint [OF i] q_def [symmetric] r_def [symmetric] by simp
qed

lemma be_bytes_inject:
  fixes w v :: "'a::len word"
  assumes "LENGTH('a) \<le> 8 * n"
  shows "be_bytes n w = be_bytes n v \<longleftrightarrow> w = v"
  by (metis be_uint_be_bytes [OF assms])

text \<open>Decoding as many bytes as fit into the word loses nothing.\<close>

lemma be_bytes_be_uint [simp]:
  assumes n: "length bs = n" and fit: "8 * n \<le> LENGTH('a::len)"
  shows "be_bytes n (be_uint bs :: 'a word) = bs"
proof (rule nth_equalityI)
  show "length (be_bytes n (be_uint bs :: 'a word)) = length bs" using n by simp
  fix i
  assume "i < length (be_bytes n (be_uint bs :: 'a word))"
  then have i: "i < n" by simp
  show "be_bytes n (be_uint bs :: 'a word) ! i = bs ! i"
  proof (rule bit_word_eqI)
    fix k assume "k < LENGTH(8)"
    then have k: "k < 8" by simp
    define j where "j = 8 * (n - Suc i) + k"
    have j: "j < LENGTH('a)" "j div 8 = n - Suc i" "j mod 8 = k"
      using i k fit by (simp_all add: j_def)
    have "bit (be_bytes n (be_uint bs :: 'a word) ! i) k = bit (be_uint bs :: 'a word) j"
      using i k by (simp add: nth_be_bytes bit_simps j_def add.commute)
    also have "\<dots> = bit (bs ! i) k"
      using i n by (simp only: bit_be_uint [OF j(1)] j) (simp add: Suc_diff_Suc)
    finally show "bit (be_bytes n (be_uint bs :: 'a word) ! i) k = bit (bs ! i) k" .
  qed
qed

end
