(* ===== verification/RequestLimiter.thy ===== *)
theory RequestLimiter
  imports FixedWindow Bytes "HOL-Library.AList"
begin

unbundle bit_operations_syntax

text \<open>
  The process-local request limiter, \<open>internal/abuse/request_limiter.go\<close>. Its Go map from digest
  to window is an association list with distinct keys, \<open>uint32\<close> fields are 32-bit words, and one
  call of \<open>Admit\<close>, which holds the mutex, is one step taking the clock reading as an argument.
  HMAC-SHA-256 is the parameter \<open>hmac\<close>.
\<close>

subsection \<open>Addresses\<close>

text \<open>\<open>netip.Addr\<close>: the zero value, an IPv4 address, or an IPv6 address with its zone.\<close>

datatype addr = AddrInvalid | Addr4 "32 word" | Addr6 "128 word" string

fun addr_is_valid :: "addr \<Rightarrow> bool" where
  "addr_is_valid AddrInvalid = False"
| "addr_is_valid _ = True"

fun addr_zone :: "addr \<Rightarrow> string" where
  "addr_zone (Addr6 _ z) = z"
| "addr_zone _ = ''''"

fun addr_unmap :: "addr \<Rightarrow> addr" where
  "addr_unmap (Addr6 w z) = (if drop_bit 32 w = 0xFFFF then Addr4 (ucast w) else Addr6 w z)"
| "addr_unmap a = a"

fun addr_bytes :: "addr \<Rightarrow> bytes" where
  "addr_bytes (Addr4 w) = be_bytes 4 w"
| "addr_bytes (Addr6 w _) = be_bytes 16 w"
| "addr_bytes AddrInvalid = be_bytes 16 (0 :: 128 word)"

definition requestClientDomain :: string where
  "requestClientDomain = ''gotth-bb/request-client/v1''"

definition request_message :: "addr \<Rightarrow> bytes" where
  "request_message a = string_bytes requestClientDomain @ [0] @ addr_bytes a"

definition requestDigest :: "(bytes \<Rightarrow> bytes \<Rightarrow> bytes) \<Rightarrow> bytes \<Rightarrow> addr \<Rightarrow> bytes" where
  "requestDigest hmac key address = hmac key (request_message address)"

subsection \<open>State and operations\<close>

datatype request_decision = RequestAllowed | RequestRateLimited | RequestCapacityLimited

record request_window =
  rw_started :: gotime
  rw_count :: u32

record request_limiter =
  rl_key :: bytes
  rl_entries :: "(bytes \<times> request_window) list"
  rl_capacity :: u32
  rl_limit :: u32
  rl_window :: duration
  rl_earliest :: gotime
  rl_earliest_valid :: bool

text \<open>The entropy source is nil, fails, or yields the 32 key bytes.\<close>

datatype entropy = EntropyNil | EntropyFails | EntropyBytes bytes

definition NewRequestLimiter ::
  "entropy \<Rightarrow> u32 \<Rightarrow> u32 \<Rightarrow> duration \<Rightarrow> bool \<Rightarrow> go_error + request_limiter" where
  "NewRequestLimiter entropy capacity limit window clock_given =
     (if entropy = EntropyNil \<or> \<not> clock_given \<or> capacity = 0 \<or> capacity > 65536 \<or>
         limit = 0 \<or> limit > 100000 \<or> window < ns_second \<or> window > 24 * ns_hour
      then Inl (Fail ''request limiter configuration is invalid'')
      else case entropy of
        EntropyBytes key \<Rightarrow>
          Inr \<lparr>rl_key = key, rl_entries = [], rl_capacity = capacity, rl_limit = limit,
               rl_window = window, rl_earliest = zero_time, rl_earliest_valid = False\<rparr>
      | _ \<Rightarrow> Inl (Fail ''request limiter entropy is unavailable''))"

definition boundedRetry :: "gotime \<Rightarrow> gotime \<Rightarrow> duration \<Rightarrow> duration" where
  "boundedRetry started now window =
     (let elapsed = time_sub now started in
      if elapsed \<ge> window then ns_second
      else let remaining = (if elapsed > 0 then window - elapsed else window);
               seconds = remaining div ns_second;
               seconds = (if remaining mod ns_second \<noteq> 0 then seconds + 1 else seconds);
               seconds = (if seconds < 1 then 1 else seconds)
           in seconds * ns_second)"

fun reclaim_loop ::
  "duration \<Rightarrow> gotime \<Rightarrow> (bytes \<times> request_window) list \<Rightarrow> gotime \<times> bool \<Rightarrow>
   (bytes \<times> request_window) list \<times> gotime \<times> bool" where
  "reclaim_loop window now [] (earliest, valid) = ([], earliest, valid)"
| "reclaim_loop window now ((digest, entry) # es) (earliest, valid) =
     (let expires = rw_started entry + window in
      if \<not> now < expires then reclaim_loop window now es (earliest, valid)
      else let acc = (if \<not> valid \<or> expires < earliest then (expires, True) else (earliest, valid));
               (kept, e, v) = reclaim_loop window now es acc
           in ((digest, entry) # kept, e, v))"

definition reclaim :: "request_limiter \<Rightarrow> gotime \<Rightarrow> request_limiter" where
  "reclaim limiter now =
     (let (kept, e, v) = reclaim_loop (rl_window limiter) now (rl_entries limiter) (zero_time, False)
      in limiter\<lparr>rl_entries := kept, rl_earliest := e, rl_earliest_valid := v\<rparr>)"

definition entries_len :: "request_limiter \<Rightarrow> u32" where
  "entries_len limiter = word_of_nat (length (rl_entries limiter))"

definition insert_client :: "request_limiter \<Rightarrow> bytes \<Rightarrow> gotime \<Rightarrow> request_limiter" where
  "insert_client limiter digest now =
     (let l = limiter\<lparr>rl_entries := AList.update digest \<lparr>rw_started = now, rw_count = 1\<rparr> (rl_entries limiter)\<rparr>;
          expires = now + rl_window limiter
      in if \<not> rl_earliest_valid l \<or> expires < rl_earliest l
         then l\<lparr>rl_earliest := expires, rl_earliest_valid := True\<rparr> else l)"

text \<open>The part of \<open>Admit\<close> under the mutex, for one digest and one clock reading.\<close>

definition admit_digest ::
  "request_limiter \<Rightarrow> bytes \<Rightarrow> gotime \<Rightarrow> request_limiter \<times> request_decision \<times> duration" where
  "admit_digest limiter digest now =
     (case map_of (rl_entries limiter) digest of
        Some entry \<Rightarrow>
          if \<not> now < rw_started entry + rl_window limiter
          then (limiter\<lparr>rl_entries := AList.update digest \<lparr>rw_started = now, rw_count = 1\<rparr> (rl_entries limiter),
                        rl_earliest_valid := False\<rparr>, RequestAllowed, 0)
          else if rw_count entry \<ge> rl_limit limiter
          then (limiter, RequestRateLimited, boundedRetry (rw_started entry) now (rl_window limiter))
          else (limiter\<lparr>rl_entries := AList.update digest (entry\<lparr>rw_count := rw_count entry + 1\<rparr>) (rl_entries limiter)\<rparr>,
                RequestAllowed, 0)
      | None \<Rightarrow>
          if entries_len limiter \<ge> rl_capacity limiter
          then if rl_earliest_valid limiter \<and> now < rl_earliest limiter
               then (limiter, RequestCapacityLimited, ns_second)
               else let l = reclaim limiter now in
                    if entries_len l \<ge> rl_capacity l then (l, RequestCapacityLimited, ns_second)
                    else (insert_client l digest now, RequestAllowed, 0)
          else (insert_client limiter digest now, RequestAllowed, 0))"

definition Admit ::
  "(bytes \<Rightarrow> bytes \<Rightarrow> bytes) \<Rightarrow> request_limiter \<Rightarrow> addr \<Rightarrow> gotime \<Rightarrow>
   request_limiter \<times> request_decision \<times> duration" where
  "Admit hmac limiter address now =
     (if \<not> addr_is_valid address \<or> addr_zone address \<noteq> ''''
      then (limiter, RequestCapacityLimited, ns_second)
      else admit_digest limiter (requestDigest hmac (rl_key limiter) (addr_unmap address)) now)"

subsection \<open>Lemmas\<close>

lemma reclaim_loop_entries:
  "fst (reclaim_loop w now es acc) = filter (\<lambda>(d, e). now < rw_started e + w) es"
  by (induction w now es acc rule: reclaim_loop.induct) (auto simp: Let_def split: prod.splits)

lemma reclaim_loop_earliest:
  assumes "reclaim_loop w now es (e, v) = (kept, e', v')"
  shows "(v' \<longleftrightarrow> v \<or> kept \<noteq> []) \<and> (v \<longrightarrow> e' \<le> e) \<and>
    (\<forall>(d, x) \<in> set kept. e' \<le> rw_started x + w)"
  using assms
proof (induction es arbitrary: e v kept)
  case Nil
  then show ?case by simp
next
  case (Cons de es)
  obtain d x where de: "de = (d, x)" by force
  show ?case
  proof (cases "now < rw_started x + w")
    case False
    with Cons de show ?thesis by (auto simp: Let_def)
  next
    case True
    define acc where "acc = (if \<not> v \<or> rw_started x + w < e then (rw_started x + w, True) else (e, v))"
    obtain a b where ab: "acc = (a, b)" by force
    obtain k where k: "reclaim_loop w now es (a, b) = (k, e', v')" "kept = (d, x) # k"
      using Cons.prems True de ab by (auto simp: Let_def acc_def split: prod.splits)
    from Cons.IH [OF k(1)] k(2) ab show ?thesis
      by (auto simp: acc_def split: if_splits)
  qed
qed

lemma reclaim_entries [simp]:
  "rl_entries (reclaim l now) = filter (\<lambda>(d, e). now < rw_started e + rl_window l) (rl_entries l)"
  using reclaim_loop_entries [of "rl_window l" now "rl_entries l" "(zero_time, False)"]
  by (auto simp: reclaim_def split: prod.splits)

lemma reclaim_fields [simp]:
  "rl_key (reclaim l now) = rl_key l" "rl_capacity (reclaim l now) = rl_capacity l"
  "rl_limit (reclaim l now) = rl_limit l" "rl_window (reclaim l now) = rl_window l"
  by (auto simp: reclaim_def split: prod.splits)

lemma insert_client_fields [simp]:
  "rl_entries (insert_client l d now) = AList.update d \<lparr>rw_started = now, rw_count = 1\<rparr> (rl_entries l)"
  "rl_key (insert_client l d now) = rl_key l" "rl_capacity (insert_client l d now) = rl_capacity l"
  "rl_limit (insert_client l d now) = rl_limit l" "rl_window (insert_client l d now) = rl_window l"
  by (auto simp: insert_client_def Let_def)

lemma map_of_filter_distinct:
  "distinct (map fst es) \<Longrightarrow>
   map_of (filter p es) k = (case map_of es k of None \<Rightarrow> None | Some v \<Rightarrow> if p (k, v) then Some v else None)"
proof (induction es)
  case Nil
  then show ?case by simp
next
  case (Cons kv es)
  obtain a b where kv: "kv = (a, b)" by force
  have "k \<notin> fst ` set es \<Longrightarrow> map_of (filter p es) k = None"
    by (auto simp: map_of_eq_None_iff)
  with Cons kv show ?case by (auto split: option.splits)
qed

lemma length_update_new: "map_of es k = None \<Longrightarrow> length (AList.update k v es) = Suc (length es)"
  by (induction es) (auto split: if_splits)

lemma length_update_old: "map_of es k \<noteq> None \<Longrightarrow> length (AList.update k v es) = length es"
  by (induction es) (auto split: if_splits)

subsection \<open>The invariant\<close>

definition limiter_inv :: "request_limiter \<Rightarrow> bool" where
  "limiter_inv l \<longleftrightarrow>
     distinct (map fst (rl_entries l)) \<and>
     length (rl_entries l) \<le> unat (rl_capacity l) \<and> rl_capacity l \<le> 65536 \<and>
     0 < rl_limit l \<and> rl_limit l \<le> 100000 \<and>
     ns_second \<le> rl_window l \<and> rl_window l \<le> 24 * ns_hour \<and>
     (\<forall>(d, e) \<in> set (rl_entries l). 0 < rw_count e \<and> rw_count e \<le> rl_limit l)"

lemma entries_len_ge_iff:
  "limiter_inv l \<Longrightarrow> entries_len l \<ge> rl_capacity l \<longleftrightarrow> length (rl_entries l) = unat (rl_capacity l)"
proof -
  assume inv: "limiter_inv l"
  then have "unat (rl_capacity l) \<le> 65536"
    by (simp add: limiter_inv_def word_le_nat_alt)
  with inv have "unat (entries_len l) = length (rl_entries l)"
    by (simp add: entries_len_def limiter_inv_def unat_of_nat)
  with inv show ?thesis by (auto simp: word_le_nat_alt limiter_inv_def)
qed

lemma set_update_subset: "set (AList.update k v es) \<subseteq> insert (k, v) (set es)"
  by (induction es) auto

lemma limiter_inv_update:
  assumes "limiter_inv l" and "0 < rw_count e" and "rw_count e \<le> rl_limit l"
    and "map_of (rl_entries l) d = None \<Longrightarrow> length (rl_entries l) < unat (rl_capacity l)"
  shows "limiter_inv (l\<lparr>rl_entries := AList.update d e (rl_entries l), rl_earliest := t, rl_earliest_valid := b\<rparr>)"
proof -
  have "length (AList.update d e (rl_entries l)) \<le> unat (rl_capacity l)"
    using assms length_update_new [of "rl_entries l" d e] length_update_old [of "rl_entries l" d e]
    by (cases "map_of (rl_entries l) d") (auto simp: limiter_inv_def)
  moreover have "0 < rw_count x \<and> rw_count x \<le> rl_limit l"
    if "(k, x) \<in> set (AList.update d e (rl_entries l))" for k x
    using subsetD [OF set_update_subset that] assms by (auto simp: limiter_inv_def)
  ultimately show ?thesis
    using assms(1) by (auto simp: limiter_inv_def distinct_update)
qed

lemma limiter_inv_reclaim: "limiter_inv l \<Longrightarrow> limiter_inv (reclaim l now)"
  by (auto simp: limiter_inv_def distinct_map_filter intro: order_trans [OF length_filter_le])

lemma limiter_inv_insert:
  "limiter_inv l \<Longrightarrow> length (rl_entries l) < unat (rl_capacity l) \<Longrightarrow> limiter_inv (insert_client l d now)"
proof -
  assume inv: "limiter_inv l" and len: "length (rl_entries l) < unat (rl_capacity l)"
  have c: "(0 :: u32) < 1" "1 \<le> rl_limit l"
    using inv by (simp_all add: limiter_inv_def word_le_nat_alt word_less_nat_alt)
  let ?u = "AList.update d \<lparr>rw_started = now, rw_count = 1\<rparr> (rl_entries l)"
  have "insert_client l d now =
      l\<lparr>rl_entries := ?u,
        rl_earliest := if \<not> rl_earliest_valid l \<or> now + rl_window l < rl_earliest l
                       then now + rl_window l else rl_earliest l,
        rl_earliest_valid := True\<rparr>"
    by (cases l) (auto simp: insert_client_def Let_def)
  with limiter_inv_update [OF inv, of "\<lparr>rw_started = now, rw_count = 1\<rparr>" d] c len show ?thesis
    by auto
qed

lemma limiter_inv_entry:
  "limiter_inv l \<Longrightarrow> map_of (rl_entries l) d = Some e \<Longrightarrow> 0 < rw_count e \<and> rw_count e \<le> rl_limit l"
  by (auto simp: limiter_inv_def dest!: map_of_SomeD)

lemma u32_suc: "(c :: u32) < l \<Longrightarrow> unat (c + 1) = Suc (unat c) \<and> 0 < c + 1 \<and> c + 1 \<le> l"
proof -
  assume less: "c < l"
  then have "unat c < unat l" by (simp add: word_less_nat_alt)
  moreover have "unat l < 2 ^ LENGTH(32)" by (rule unsigned_less)
  then have "unat l < 4294967296" by simp
  ultimately have "unat (c + 1) = Suc (unat c)" "Suc (unat c) \<le> unat l"
    by (simp_all add: unat_word_ariths)
  then show ?thesis by (simp add: word_less_nat_alt word_le_nat_alt)
qed

lemma admit_fields:
  "admit_digest l d now = (l', dec, r) \<Longrightarrow>
   rl_key l' = rl_key l \<and> rl_limit l' = rl_limit l \<and> rl_window l' = rl_window l \<and> rl_capacity l' = rl_capacity l"
  by (auto simp: admit_digest_def Let_def split: option.splits if_splits)

text \<open>One admission keeps the limiter well formed, for every digest and clock reading.\<close>

lemma admit_preserves:
  "limiter_inv l \<Longrightarrow>
   limiter_inv (fst (admit_digest l d now)) \<and>
   length (rl_entries (fst (admit_digest l d now))) \<le> unat (rl_capacity l) \<and>
   rl_key (fst (admit_digest l d now)) = rl_key l"
proof -
  assume inv: "limiter_inv l"
  obtain l' dec r where a: "admit_digest l d now = (l', dec, r)" by (metis prod_cases3)
  note full = entries_len_ge_iff [OF inv] entries_len_ge_iff [OF limiter_inv_reclaim [OF inv, of now]]
  have "limiter_inv l'"
  proof (cases "map_of (rl_entries l) d")
    case None
    have "length (rl_entries l) < unat (rl_capacity l)" if "\<not> entries_len l \<ge> rl_capacity l"
      using that full(1) inv by (simp add: limiter_inv_def)
    moreover have "length (rl_entries (reclaim l now)) < unat (rl_capacity (reclaim l now))"
      if "\<not> entries_len (reclaim l now) \<ge> rl_capacity (reclaim l now)"
      using that full(2) limiter_inv_reclaim [OF inv, of now] unfolding limiter_inv_def by linarith
    ultimately show ?thesis
      using a None inv limiter_inv_insert limiter_inv_reclaim [OF inv, of now]
      by (auto simp: admit_digest_def Let_def split: if_splits)
  next
    case (Some e)
    have c: "(0 :: u32) < 1" "1 \<le> rl_limit l"
      using inv by (simp_all add: limiter_inv_def word_le_nat_alt word_less_nat_alt)
    have new: "limiter_inv (l\<lparr>rl_entries := AList.update d \<lparr>rw_started = now, rw_count = 1\<rparr> (rl_entries l),
          rl_earliest_valid := False\<rparr>)"
      using limiter_inv_update [OF inv, of "\<lparr>rw_started = now, rw_count = 1\<rparr>" d,
          where t = "rl_earliest l" and b = False] c Some
      by simp
    have up: "limiter_inv (l\<lparr>rl_entries := AList.update d (e\<lparr>rw_count := rw_count e + 1\<rparr>) (rl_entries l)\<rparr>)"
      if "rw_count e < rl_limit l"
      using limiter_inv_update [OF inv, of "e\<lparr>rw_count := rw_count e + 1\<rparr>" d,
          where t = "rl_earliest l" and b = "rl_earliest_valid l"]
        u32_suc [OF that] Some by simp
    show ?thesis
      using a Some inv new up by (auto simp: admit_digest_def not_le split: if_splits)
  qed
  with a admit_fields [OF a] show ?thesis by (simp add: limiter_inv_def)
qed

subsection \<open>Runs of a limiter\<close>

definition admit_run ::
  "(bytes \<Rightarrow> bytes \<Rightarrow> bytes) \<Rightarrow> (addr \<times> gotime) list \<Rightarrow> request_limiter \<Rightarrow> request_limiter" where
  "admit_run hmac reqs l = fold (\<lambda>(a, t) l. fst (Admit hmac l a t)) reqs l"

lemma Admit_preserves:
  "limiter_inv l \<Longrightarrow> limiter_inv (fst (Admit hmac l a t)) \<and>
   rl_capacity (fst (Admit hmac l a t)) = rl_capacity l \<and> rl_key (fst (Admit hmac l a t)) = rl_key l"
  using admit_preserves [of l] admit_fields [of l _ t] by (auto simp: Admit_def) (metis prod_cases3 fst_conv)+

lemma admit_run_preserves:
  "limiter_inv l \<Longrightarrow> limiter_inv (admit_run hmac reqs l) \<and>
   rl_capacity (admit_run hmac reqs l) = rl_capacity l \<and> rl_key (admit_run hmac reqs l) = rl_key l"
proof (induction reqs arbitrary: l)
  case (Cons r rs)
  obtain a t where r: "r = (a, t)" by (cases r)
  from Cons.IH [of "fst (Admit hmac l a t)"] Admit_preserves [OF Cons.prems, of hmac a t] r
  show ?case by (simp add: admit_run_def)
qed (simp add: admit_run_def)

text \<open>
  A limiter stays well formed and bounded for its whole life: whatever addresses ask at
  whatever clock readings after a successful construction, the number of retained windows never
  exceeds the configured capacity, keys stay unique, every retained count stays between one and
  the limit, and the capacity and the digest key never change.
\<close>

lemma admit_run_bounded:
  assumes "NewRequestLimiter (EntropyBytes key) capacity limit window clock = Inr l"
  shows "limiter_inv (admit_run hmac reqs l) \<and>
    length (rl_entries (admit_run hmac reqs l)) \<le> unat capacity \<and> rl_key (admit_run hmac reqs l) = key"
proof -
  have l: "limiter_inv l" "rl_capacity l = capacity" "rl_key l = key"
    using assms by (auto simp: NewRequestLimiter_def limiter_inv_def word_neq_0_conv split: if_splits)
  have r: "limiter_inv (admit_run hmac reqs l)" "rl_capacity (admit_run hmac reqs l) = capacity"
    "rl_key (admit_run hmac reqs l) = key"
    using admit_run_preserves [OF l(1), of hmac reqs] l(2,3) by simp_all
  from r(1) have "length (rl_entries (admit_run hmac reqs l)) \<le> unat (rl_capacity (admit_run hmac reqs l))"
    by (simp add: limiter_inv_def)
  with r show ?thesis by simp
qed

lemma admit_run_bounded_witness:
  "\<exists>l. NewRequestLimiter (EntropyBytes [7]) 1 2 ns_second True = Inr l \<and>
     length (rl_entries (admit_run (\<lambda>k m. m) [(Addr4 1, 0), (Addr4 2, 1)] l)) \<le> 1 \<and>
     map fst (rl_entries (admit_run (\<lambda>k m. m) [(Addr4 1, 0), (Addr4 2, 1)] l)) = [request_message (Addr4 1)]"
proof -
  define l where "l = projr (NewRequestLimiter (EntropyBytes [7]) 1 2 ns_second True)"
  have n: "NewRequestLimiter (EntropyBytes [7]) 1 2 ns_second True = Inr l"
    unfolding l_def by (simp add: NewRequestLimiter_def ns_second_def ns_hour_def ns_minute_def)
  have "map fst (rl_entries (admit_run (\<lambda>k m. m) [(Addr4 1, 0), (Addr4 2, 1)] l)) = [request_message (Addr4 1)]"
    unfolding l_def by code_simp
  with n admit_run_bounded [OF n, of "\<lambda>k m. m" "[(Addr4 1, 0), (Addr4 2, 1)]"] show ?thesis by auto
qed

subsection \<open>One client's windows among all the clients\<close>

text \<open>
  The run of a limiter over the requests of every client, watched from one client's digest: an
  event is a digest and the clock reading of its admission, and the step answers with the
  start of the window when the event is the watched client's and it was admitted.
\<close>

definition client_started :: "bytes \<Rightarrow> request_limiter \<Rightarrow> gotime option" where
  "client_started d l = map_option rw_started (map_of (rl_entries l) d)"

definition client_used :: "bytes \<Rightarrow> request_limiter \<Rightarrow> nat" where
  "client_used d l = (case map_of (rl_entries l) d of None \<Rightarrow> 0 | Some e \<Rightarrow> unat (rw_count e))"

definition client_step ::
  "bytes \<Rightarrow> request_limiter \<Rightarrow> bytes \<times> gotime \<Rightarrow> request_limiter \<times> gotime option" where
  "client_step d l ev =
     (let (l', dec, r) = admit_digest l (fst ev) (snd ev)
      in (l', if fst ev = d \<and> dec = RequestAllowed then client_started d l' else None))"

definition limiter_config :: "u32 \<Rightarrow> duration \<Rightarrow> request_limiter \<Rightarrow> bool" where
  "limiter_config lim w l = (limiter_inv l \<and> rl_limit l = lim \<and> rl_window l = w)"

lemma map_of_update_other: "k \<noteq> d \<Longrightarrow> map_of (AList.update k v es) d = map_of es d"
  by (simp add: update_conv')

lemma map_of_update_same [simp]: "map_of (AList.update d v es) d = Some v"
  by (simp add: update_conv')

lemma admit_own:
  assumes "limiter_inv l" and "admit_digest l d now = (l', dec, r)"
  shows "dec = RequestAllowed \<and> client_started d l' = Some now \<and> client_used d l' = 1 \<and>
           (\<forall>u. client_started d l = Some u \<longrightarrow> u + rl_window l \<le> now) \<or>
         dec = RequestAllowed \<and> client_started d l \<noteq> None \<and> client_started d l' = client_started d l \<and>
           client_used d l' = Suc (client_used d l) \<and> client_used d l < unat (rl_limit l) \<or>
         dec \<noteq> RequestAllowed \<and> client_started d l' = client_started d l \<and> client_used d l' = client_used d l"
proof (cases "map_of (rl_entries l) d")
  case None
  have "map_of (filter (\<lambda>(d, e). now < rw_started e + rl_window l) (rl_entries l)) d = None"
    using None assms(1) by (simp add: limiter_inv_def map_of_filter_distinct)
  with assms(2) None show ?thesis
    by (auto simp: admit_digest_def client_started_def client_used_def Let_def split: if_splits)
next
  case (Some e)
  then show ?thesis
    using assms(2) u32_suc [of "rw_count e" "rl_limit l"]
    by (auto simp: admit_digest_def client_started_def client_used_def not_le not_less
        word_less_nat_alt split: if_splits)
qed

lemma admit_other:
  assumes "limiter_inv l" and "admit_digest l k now = (l', dec, r)" and "k \<noteq> d"
  shows "client_started d l' = client_started d l \<and> client_used d l' = client_used d l \<or>
         client_started d l' = None \<and> (\<exists>u. client_started d l = Some u \<and> u + rl_window l \<le> now)"
proof -
  have dist: "distinct (map fst (rl_entries l))" using assms(1) by (simp add: limiter_inv_def)
  show ?thesis
    using assms(2,3) map_of_filter_distinct [OF dist, of "\<lambda>(d, e). now < rw_started e + rl_window l" d]
    by (auto simp: admit_digest_def client_started_def client_used_def Let_def map_of_update_other
        split: option.splits if_splits)
qed

lemma client_used_le: "limiter_inv l \<Longrightarrow> client_used d l \<le> unat (rl_limit l)"
  using limiter_inv_entry [of l d] by (auto simp: client_used_def word_le_nat_alt split: option.splits)

interpretation client: fixed_window "client_step d" snd "limiter_config lim w" "client_started d"
  "client_used d" "unat lim" w True for d lim w
proof
  fix s s' :: request_limiter and ev :: "bytes \<times> gotime" and u
  assume c: "limiter_config lim w s"
  then have inv: "limiter_inv s" and lw: "rl_limit s = lim" "rl_window s = w"
    by (simp_all add: limiter_config_def)
  obtain k t where ev: "ev = (k, t)" by force
  obtain l' dec r where a: "admit_digest s k t = (l', dec, r)" by (metis prod_cases3)
  note own = admit_own [OF inv] and other = admit_other [OF inv a]
  show "0 < w" using inv lw by (auto simp: limiter_inv_def ns_second_def)
  show "limiter_config lim w (fst (client_step d s ev))"
    using c admit_preserves [OF inv, of k t] admit_fields [OF a] a ev
    by (simp add: client_step_def limiter_config_def)
  show "client_started d s \<noteq> None \<Longrightarrow> client_used d s \<le> unat lim"
    using client_used_le [OF inv, of d] lw by simp
  show "0 < unat lim" using inv lw by (simp add: limiter_inv_def word_less_nat_alt)
  show "client_step d s ev = (s', Some u) \<Longrightarrow> client_started d s' = Some u \<and>
      (client_started d s = Some u \<and> client_used d s' = Suc (client_used d s) \<and> client_used d s < unat lim \<or>
       u = snd ev \<and> client_used d s' = 1 \<and>
       (case client_started d s of None \<Rightarrow> True | Some v \<Rightarrow> v + w \<le> snd ev))"
    using own [of d t l' dec r] a ev lw by (auto simp: client_step_def split: if_splits option.splits)
  show "client_step d s ev = (s', None) \<Longrightarrow>
      client_started d s' = client_started d s \<and> client_used d s' = client_used d s \<or>
      True \<and> client_started d s' = None \<and> (\<exists>v. client_started d s = Some v \<and> v + w \<le> snd ev)"
    using own [of d t l' dec r] other [of d] a ev lw
    by (cases "k = d") (auto simp: client_step_def split: if_splits)
qed

text \<open>
  C34. Whatever the other clients do, and although full limiters drop windows, one client is never
  admitted above the request limit in one window, and the windows charged to it are at least the
  window length apart: over any run of admissions with a clock that does not go backwards,
  starting from a well-formed limiter.
\<close>

theorem request_rate_bound:
  assumes "limiter_inv l" and "sorted (map snd evs)"
  shows "count_list (window_run (client_step d) l evs) u \<le> unat (rl_limit l) \<and>
         sorted_wrt (\<lambda>u v. u = v \<or> u + rl_window l \<le> v) (window_run (client_step d) l evs)"
proof -
  have c: "limiter_config (rl_limit l) (rl_window l) l"
    using assms(1) by (simp add: limiter_config_def)
  from client.run_bounded [OF c, of evs d u] client.run_spaced [OF c, of evs d] assms(2)
  show ?thesis by auto
qed

definition example_limiter :: request_limiter where
  "example_limiter = \<lparr>rl_key = [], rl_entries = [], rl_capacity = 3, rl_limit = 2,
     rl_window = 10 * ns_second, rl_earliest = zero_time, rl_earliest_valid = False\<rparr>"

lemma example_limiter_inv: "limiter_inv example_limiter"
  by (simp add: example_limiter_def limiter_inv_def ns_second_def ns_minute_def ns_hour_def)

theorem request_rate_bound_witness:
  "window_run (client_step [1]) example_limiter [([1], 5), ([2], 5), ([1], 6), ([1], 7)] = [5, 5] \<and>
   count_list (window_run (client_step [1]) example_limiter [([1], 5), ([2], 5), ([1], 6), ([1], 7)]) 5 \<le> 2"
proof -
  have "window_run (client_step [1]) example_limiter [([1], 5), ([2], 5), ([1], 6), ([1], 7)] = [5, 5]"
    by code_simp
  with request_rate_bound [OF example_limiter_inv, of "[([1], 5), ([2], 5), ([1], 6), ([1], 7)]" "[1]" 5]
  show ?thesis by (simp add: example_limiter_def)
qed

text \<open>
  A retained window that has not run out is never dropped or shortened by an admission of
  another client, and a client with a retained window is never refused for capacity: under
  capacity pressure only unseen clients are refused, and only by a full limiter.
\<close>

lemma admit_never_evicts_live:
  assumes "limiter_inv l" and "admit_digest l k now = (l', dec, r)"
    and "map_of (rl_entries l) d = Some e" and "now < rw_started e + rl_window l"
  shows "(k \<noteq> d \<longrightarrow> map_of (rl_entries l') d = Some e) \<and>
         (k = d \<longrightarrow> dec \<noteq> RequestCapacityLimited) \<and>
         (dec = RequestCapacityLimited \<longrightarrow>
            map_of (rl_entries l) k = None \<and> length (rl_entries l) = unat (rl_capacity l))"
proof -
  have dist: "distinct (map fst (rl_entries l))" using assms(1) by (simp add: limiter_inv_def)
  note full = entries_len_ge_iff [OF assms(1)]
  show ?thesis
    using assms(2-4) full map_of_filter_distinct [OF dist, of "\<lambda>(d, e). now < rw_started e + rl_window l" d]
    by (auto simp: admit_digest_def Let_def map_of_update_other split: option.splits if_splits)
qed

lemma admit_never_evicts_live_witness:
  "snd (admit_digest (example_limiter\<lparr>rl_entries := [([1], \<lparr>rw_started = 5, rw_count = 1\<rparr>),
       ([2], \<lparr>rw_started = 5, rw_count = 1\<rparr>), ([3], \<lparr>rw_started = 5, rw_count = 1\<rparr>)]\<rparr>) [4] 6) =
     (RequestCapacityLimited, ns_second) \<and>
   map_of (rl_entries (fst (admit_digest (example_limiter\<lparr>rl_entries := [([1], \<lparr>rw_started = 5, rw_count = 1\<rparr>),
       ([2], \<lparr>rw_started = 5, rw_count = 1\<rparr>), ([3], \<lparr>rw_started = 5, rw_count = 1\<rparr>)]\<rparr>) [4] 6))) [2] =
     Some \<lparr>rw_started = 5, rw_count = 1\<rparr>"
proof -
  define l where "l = example_limiter\<lparr>rl_entries := [([1], \<lparr>rw_started = 5, rw_count = 1\<rparr>),
       ([2], \<lparr>rw_started = 5, rw_count = 1\<rparr>), ([3], \<lparr>rw_started = 5, rw_count = 1\<rparr>)]\<rparr>"
  have inv: "limiter_inv l"
    by (simp add: l_def example_limiter_def limiter_inv_def ns_second_def ns_minute_def ns_hour_def)
  obtain l' dec r where a: "admit_digest l [4] 6 = (l', dec, r)" by (metis prod_cases3)
  have res: "snd (admit_digest l [4] 6) = (RequestCapacityLimited, ns_second)"
    unfolding l_def by code_simp
  have "map_of (rl_entries l) [2] = Some \<lparr>rw_started = 5, rw_count = 1\<rparr>"
    by (simp add: l_def)
  from admit_never_evicts_live [OF inv a this] a res show ?thesis
    by (simp add: l_def [symmetric]) (simp add: l_def example_limiter_def ns_second_def)
qed

text \<open>
  A rejected client is told to retry after a whole number of seconds, at least one and at
  most the window rounded up, that covers the rest of its window, also when the clock has gone
  backwards; with a clock at or after the window's start the time given lies less than a second
  past the window's end.
\<close>

lemma boundedRetry_bounds:
  assumes "ns_second \<le> window" and "window \<le> 24 * ns_hour"
  shows "boundedRetry started now window mod ns_second = 0 \<and>
         ns_second \<le> boundedRetry started now window \<and>
         boundedRetry started now window < window + ns_second \<and>
         (started \<le> now \<longrightarrow> started + window \<le> now + boundedRetry started now window) \<and>
         (started \<le> now \<and> now < started + window \<longrightarrow>
            now + boundedRetry started now window < started + window + ns_second)"
proof -
  define rest where "rest = (if started < now then window - (now - started) else window)"
  have sub: "window \<le> time_sub now started \<longleftrightarrow> window \<le> now - started"
    "0 < time_sub now started \<longleftrightarrow> started < now"
    "now - started < window \<Longrightarrow> started < now \<Longrightarrow> time_sub now started = now - started"
    using assms by (auto simp: time_sub_def min_duration_def max_duration_def ns_second_def
        ns_minute_def ns_hour_def)
  show ?thesis
  proof (cases "window \<le> now - started")
    case True
    with sub(1) have "boundedRetry started now window = ns_second"
      by (simp add: boundedRetry_def)
    with True assms show ?thesis by (auto simp: ns_second_def)
  next
    case False
    define q m where "q = rest div ns_second" and "m = rest mod ns_second"
    have rest: "rest = 1000000000 * q + m" "0 \<le> m" "m < 1000000000"
      by (simp_all add: q_def m_def ns_second_def)
    have pos: "0 < rest" "rest \<le> window"
      using False assms by (auto simp: rest_def ns_second_def)
    have "boundedRetry started now window =
        (let s = (if m \<noteq> 0 then q + 1 else q) in (if s < 1 then 1 else s)) * ns_second"
      using False sub by (auto simp: boundedRetry_def Let_def rest_def q_def m_def)
    moreover have "1 \<le> (if m \<noteq> 0 then q + 1 else q)" using pos rest by auto
    ultimately have r: "boundedRetry started now window = (if m \<noteq> 0 then q + 1 else q) * 1000000000"
      by (simp add: Let_def ns_second_def)
    then have "rest \<le> boundedRetry started now window" "boundedRetry started now window < rest + 1000000000"
      using rest by (auto split: if_splits)
    moreover have "ns_second \<le> boundedRetry started now window"
      using r \<open>1 \<le> (if m \<noteq> 0 then q + 1 else q)\<close> by (simp add: ns_second_def)
    moreover have "boundedRetry started now window mod ns_second = 0"
      unfolding r by (simp add: ns_second_def)
    ultimately show ?thesis
      using False pos by (auto simp: rest_def ns_second_def split: if_splits)
  qed
qed

lemma boundedRetry_bounds_witness:
  "boundedRetry 0 250000000 (10 * ns_second) = 10 * ns_second \<and>
   ns_second \<le> boundedRetry 0 250000000 (10 * ns_second)"
proof -
  have "boundedRetry 0 250000000 (10 * ns_second) = 10 * ns_second" by code_simp
  with boundedRetry_bounds [of "10 * ns_second" 0 250000000] show ?thesis
    by (simp add: ns_second_def ns_minute_def ns_hour_def)
qed

text \<open>
  The cached earliest expiry is not conservative: it is forgotten when a known client's
  window is replaced, and the next insertion sets it from the new entry alone although older
  entries expire before it. In a limiter of capacity three and window ten seconds, two clients
  arrive at 0 and 5 seconds, the first returns at 12 and a third arrives at 13; at 16 seconds an
  unseen client is refused for capacity although the second client's window ran out at 15 and a
  reclaiming pass would have made room.
\<close>

definition stale_run :: request_limiter where
  "stale_run = fst (admit_digest (fst (admit_digest (fst (admit_digest (fst (admit_digest
     example_limiter [1] 0)) [2] (5 * ns_second))) [1] (12 * ns_second))) [3] (13 * ns_second))"

lemma stale_earliest_refuses:
  "snd (admit_digest stale_run [4] (16 * ns_second)) = (RequestCapacityLimited, ns_second) \<and>
   fst (admit_digest stale_run [4] (16 * ns_second)) = stale_run \<and>
   map_of (rl_entries stale_run) [2] = Some \<lparr>rw_started = 5 * ns_second, rw_count = 1\<rparr> \<and>
   5 * ns_second + rl_window stale_run \<le> 16 * ns_second \<and>
   length (rl_entries (reclaim stale_run (16 * ns_second))) < unat (rl_capacity stale_run)"
  by code_simp

subsection \<open>Digest inputs\<close>

definition addr_canonical :: "addr \<Rightarrow> bool" where
  "addr_canonical a = (addr_is_valid a \<and> addr_zone a = '''' \<and> addr_unmap a = a)"

text \<open>
  Two clients share a window only if their addresses are the same up to the IPv4-mapped form
  or HMAC-SHA-256 collides: the messages digested for two canonical addresses differ whenever
  the addresses differ, and \<open>Admit\<close> digests the canonical form of every address it charges.
\<close>

lemma request_message_injective:
  assumes "addr_canonical a" and "addr_canonical b"
  shows "request_message a = request_message b \<longleftrightarrow> a = b"
proof -
  have len: "be_bytes 4 (x :: 32 word) \<noteq> be_bytes 16 (y :: 128 word)" for x y
  proof
    assume "be_bytes 4 x = be_bytes 16 y"
    from arg_cong [OF this, of length] show False by simp
  qed
  then have "be_bytes 16 (y :: 128 word) \<noteq> be_bytes 4 (x :: 32 word)" for x y by metis
  with len show ?thesis
    using assms by (cases a; cases b) (simp_all add: request_message_def addr_canonical_def be_bytes_inject)
qed

lemma request_message_injective_witness:
  "addr_canonical (Addr4 0x7F000001) \<and> addr_unmap (Addr6 0xFFFF7F000001 '''') = Addr4 0x7F000001 \<and>
   request_message (Addr4 0x7F000001) \<noteq> request_message (Addr6 1 '''')"
proof -
  have c: "addr_canonical (Addr4 0x7F000001)" "addr_canonical (Addr6 1 '''')"
    by (simp_all add: addr_canonical_def)
  from request_message_injective [OF c] c show ?thesis by simp
qed

end
