(* ===== verification/GoStrings.thy ===== *)
theory GoStrings
  imports Prelude
begin

text \<open>
  The parts of Go's \<open>strings\<close> package the modelled code uses, on byte strings (\<open>char list\<close>).
\<close>

text \<open>\<open>strings.Split(s, sep)\<close> for a separator of one byte, and \<open>strings.Join(parts, sep)\<close>.\<close>

fun split_on :: "char \<Rightarrow> string \<Rightarrow> string list" where
  "split_on sep [] = [[]]"
| "split_on sep (c # cs) =
     (if c = sep then [] # split_on sep cs
      else case split_on sep cs of [] \<Rightarrow> [[c]] | w # ws \<Rightarrow> (c # w) # ws)"

fun join_with :: "char \<Rightarrow> string list \<Rightarrow> string" where
  "join_with sep [] = []"
| "join_with sep [w] = w"
| "join_with sep (w # v # ws) = w @ sep # join_with sep (v # ws)"

definition has_prefix :: "string \<Rightarrow> string \<Rightarrow> bool" where
  "has_prefix s p = (take (length p) s = p)"

definition has_suffix :: "string \<Rightarrow> string \<Rightarrow> bool" where
  "has_suffix s p = (length p \<le> length s \<and> drop (length s - length p) s = p)"

definition trim_prefix :: "string \<Rightarrow> string \<Rightarrow> string" where
  "trim_prefix s p = (if has_prefix s p then drop (length p) s else s)"

definition trim_suffix :: "string \<Rightarrow> string \<Rightarrow> string" where
  "trim_suffix s p = (if has_suffix s p then take (length s - length p) s else s)"

definition in_range :: "char \<Rightarrow> char \<Rightarrow> char \<Rightarrow> bool" where
  "in_range lo hi c = (lo \<le> c \<and> c \<le> hi)"

subsection \<open>Lemmas\<close>

lemma split_on_not_Nil [simp]: "split_on sep s \<noteq> []"
  by (cases s) (auto split: list.splits)

lemma join_with_Cons: "ws \<noteq> [] \<Longrightarrow> join_with sep (w # ws) = w @ sep # join_with sep ws"
  by (cases ws) simp_all

lemma join_with_snoc: "ws \<noteq> [] \<Longrightarrow> join_with sep (ws @ [w]) = join_with sep ws @ sep # w"
  by (induction sep ws rule: join_with.induct) (simp_all add: join_with_Cons)

lemma join_with_Cons_char: "join_with sep ((c # w) # ws) = c # join_with sep (w # ws)"
  by (cases ws) simp_all

text \<open>Splitting loses nothing, and the words hold no separator.\<close>

lemma join_split [simp]: "join_with sep (split_on sep s) = s"
proof (induction s)
  case Nil
  then show ?case by simp
next
  case (Cons c cs)
  then show ?case
    by (cases "split_on sep cs") (auto simp: join_with_Cons join_with_Cons_char)
qed

lemma split_on_no_sep: "w \<in> set (split_on sep s) \<Longrightarrow> sep \<notin> set w"
  by (induction s arbitrary: w) (auto split: list.splits if_splits)

lemma split_on_word: "sep \<notin> set w \<Longrightarrow> split_on sep w = [w]"
  by (induction w) auto

lemma split_on_append_sep: "sep \<notin> set w \<Longrightarrow> split_on sep (w @ sep # s) = w # split_on sep s"
  by (induction w) auto

text \<open>On words without the separator, splitting undoes joining.\<close>

lemma split_join:
  "ws \<noteq> [] \<Longrightarrow> \<forall>w \<in> set ws. sep \<notin> set w \<Longrightarrow> split_on sep (join_with sep ws) = ws"
  by (induction sep ws rule: join_with.induct) (simp_all add: split_on_word split_on_append_sep)

lemma split_on_concat_chars: "set s = (if sep \<in> set s then {sep} else {}) \<union> \<Union> (set ` set (split_on sep s))"
proof (induction s)
  case Nil
  then show ?case by simp
next
  case (Cons c cs)
  show ?case
  proof (cases "split_on sep cs")
    case Nil
    then show ?thesis by simp
  next
    case (Cons w ws)
    with Cons.IH show ?thesis by (auto split: if_splits)
  qed
qed

lemma has_prefix_iff: "has_prefix s p \<longleftrightarrow> (\<exists>r. s = p @ r)"
  by (auto simp: has_prefix_def) (metis append_take_drop_id)

lemma has_suffix_iff: "has_suffix s p \<longleftrightarrow> (\<exists>r. s = r @ p)"
  by (auto simp: has_suffix_def) (metis append_take_drop_id)

lemma trim_prefix_append [simp]: "trim_prefix (p @ r) p = r"
  by (simp add: trim_prefix_def has_prefix_def)

lemma trim_suffix_append [simp]: "trim_suffix (r @ p) p = r"
  by (simp add: trim_suffix_def has_suffix_def)

end
