(* ===== verification/Policy.thy ===== *)
theory Policy
  imports GoStrings
begin

text \<open>
  The access policy, \<open>internal/policy/*.go\<close>: the actor's access snapshot, the closed sets of
  roles, visibilities, posting modes and topic states, and the decisions taken from them.
  The Go types are open (\<open>Role\<close> is a \<open>uint8\<close>, the others are strings), so the model keeps
  bytes and strings and the decisions have to reject the values outside the closed sets.
\<close>

type_synonym role = "8 word"

definition RoleMember :: role where "RoleMember = 1"
definition RoleModerator :: role where "RoleModerator = 2"
definition RoleAdministrator :: role where "RoleAdministrator = 3"

record access_context =
  ac_authenticated :: bool
  ac_user_id :: int
  ac_role :: role
  ac_group_ids :: "int list"
  ac_suspended :: bool
  ac_muted_until :: "gotime option"
  ac_validated_at :: gotime

definition VisibilityPublic :: string where "VisibilityPublic = ''public''"
definition VisibilityAuthenticated :: string where "VisibilityAuthenticated = ''authenticated''"
definition VisibilityGroups :: string where "VisibilityGroups = ''groups''"

definition PostingNormal :: string where "PostingNormal = ''normal''"
definition PostingReadOnly :: string where "PostingReadOnly = ''read_only''"
definition PostingArchived :: string where "PostingArchived = ''archived''"

record area_policy =
  ap_visibility :: string
  ap_posting_mode :: string
  ap_group_ids :: "int list"

definition TopicOpen :: string where "TopicOpen = ''open''"
definition TopicLocked :: string where "TopicLocked = ''locked''"
definition TopicHidden :: string where "TopicHidden = ''hidden''"
definition TopicArchived :: string where "TopicArchived = ''archived''"

definition PostVisible :: string where "PostVisible = ''visible''"
definition PostDeleted :: string where "PostDeleted = ''deleted''"

lemmas policy_values =
  RoleMember_def RoleModerator_def RoleAdministrator_def
  VisibilityPublic_def VisibilityAuthenticated_def VisibilityGroups_def
  PostingNormal_def PostingReadOnly_def PostingArchived_def
  TopicOpen_def TopicLocked_def TopicHidden_def TopicArchived_def
  PostVisible_def PostDeleted_def

lemma role_values_distinct [simp]:
  "RoleMember \<noteq> RoleModerator" "RoleModerator \<noteq> RoleMember"
  "RoleMember \<noteq> RoleAdministrator" "RoleAdministrator \<noteq> RoleMember"
  "RoleModerator \<noteq> RoleAdministrator" "RoleAdministrator \<noteq> RoleModerator"
  by (simp_all add: policy_values)

lemma policy_strings_distinct [simp]:
  "PostingNormal \<noteq> PostingReadOnly" "PostingReadOnly \<noteq> PostingNormal"
  "PostingNormal \<noteq> PostingArchived" "PostingArchived \<noteq> PostingNormal"
  "PostingReadOnly \<noteq> PostingArchived" "PostingArchived \<noteq> PostingReadOnly"
  "VisibilityPublic \<noteq> VisibilityAuthenticated" "VisibilityAuthenticated \<noteq> VisibilityPublic"
  "VisibilityPublic \<noteq> VisibilityGroups" "VisibilityGroups \<noteq> VisibilityPublic"
  "VisibilityAuthenticated \<noteq> VisibilityGroups" "VisibilityGroups \<noteq> VisibilityAuthenticated"
  "TopicOpen \<noteq> TopicLocked" "TopicLocked \<noteq> TopicOpen"
  "TopicOpen \<noteq> TopicHidden" "TopicHidden \<noteq> TopicOpen"
  "TopicOpen \<noteq> TopicArchived" "TopicArchived \<noteq> TopicOpen"
  "TopicLocked \<noteq> TopicHidden" "TopicHidden \<noteq> TopicLocked"
  "TopicLocked \<noteq> TopicArchived" "TopicArchived \<noteq> TopicLocked"
  "TopicHidden \<noteq> TopicArchived" "TopicArchived \<noteq> TopicHidden"
  by (simp_all add: policy_values)

subsection \<open>Decisions\<close>

definition Valid :: "access_context \<Rightarrow> bool" where
  "Valid actor =
     (if \<not> ac_authenticated actor
      then ac_user_id actor = 0 \<and> ac_role actor = 0 \<and> length (ac_group_ids actor) = 0
      else if ac_user_id actor \<le> 0 \<or>
              (ac_role actor \<noteq> RoleMember \<and> ac_role actor \<noteq> RoleModerator \<and>
               ac_role actor \<noteq> RoleAdministrator)
      then False
      else list_all (\<lambda>g. \<not> g \<le> 0) (ac_group_ids actor))"

definition is_staff :: "access_context \<Rightarrow> bool" where
  "is_staff actor = (ac_role actor = RoleModerator \<or> ac_role actor = RoleAdministrator)"

definition CanAdminister :: "access_context \<Rightarrow> bool" where
  "CanAdminister actor =
     (Valid actor \<and> ac_authenticated actor \<and> \<not> ac_suspended actor \<and>
      ac_muted_until actor = None \<and> ac_role actor = RoleAdministrator)"

definition CanViewArea :: "access_context \<Rightarrow> area_policy \<Rightarrow> bool" where
  "CanViewArea actor p =
     (if ap_posting_mode p \<noteq> PostingNormal \<and> ap_posting_mode p \<noteq> PostingReadOnly \<and>
         ap_posting_mode p \<noteq> PostingArchived then False
      else if ap_visibility p \<noteq> VisibilityPublic \<and> ap_visibility p \<noteq> VisibilityAuthenticated \<and>
              ap_visibility p \<noteq> VisibilityGroups then False
      else if ap_visibility p \<noteq> VisibilityGroups \<and> length (ap_group_ids p) \<noteq> 0 then False
      else if \<not> list_all (\<lambda>g. \<not> g \<le> 0) (ap_group_ids p) then False
      else if \<not> Valid actor then False
      else if \<not> ac_authenticated actor then ap_visibility p = VisibilityPublic
      else if ac_role actor = RoleModerator \<or> ac_role actor = RoleAdministrator then True
      else if ap_visibility p = VisibilityPublic \<or> ap_visibility p = VisibilityAuthenticated
      then True
      else list_ex (\<lambda>a. list_ex (\<lambda>g. a = g) (ap_group_ids p)) (ac_group_ids actor))"

definition CanCreateTopic :: "access_context \<Rightarrow> area_policy \<Rightarrow> bool" where
  "CanCreateTopic actor p =
     (if \<not> ac_authenticated actor \<or> ac_suspended actor \<or> ac_muted_until actor \<noteq> None then False
      else if \<not> CanViewArea actor p then False
      else if ap_posting_mode p = PostingArchived then False
      else if ap_posting_mode p = PostingReadOnly
      then ac_role actor = RoleModerator \<or> ac_role actor = RoleAdministrator
      else True)"

definition CanReply :: "access_context \<Rightarrow> area_policy \<Rightarrow> string \<Rightarrow> bool" where
  "CanReply actor p st =
     (if st \<noteq> TopicOpen \<and> st \<noteq> TopicLocked \<and> st \<noteq> TopicHidden \<and> st \<noteq> TopicArchived
      then False
      else if st = TopicArchived \<or> \<not> CanCreateTopic actor p then False
      else if st = TopicOpen then True
      else ac_role actor = RoleModerator \<or> ac_role actor = RoleAdministrator)"

definition CanViewTopic :: "access_context \<Rightarrow> string \<Rightarrow> bool" where
  "CanViewTopic actor st =
     (if \<not> Valid actor then False
      else if st = TopicOpen \<or> st = TopicLocked \<or> st = TopicArchived then True
      else if st = TopicHidden
      then ac_role actor = RoleModerator \<or> ac_role actor = RoleAdministrator
      else False)"

definition CanEditPost :: "access_context \<Rightarrow> int \<Rightarrow> string \<Rightarrow> bool" where
  "CanEditPost actor author_id st =
     (Valid actor \<and> ac_authenticated actor \<and> \<not> ac_suspended actor \<and>
      ac_muted_until actor = None \<and> author_id > 0 \<and> ac_user_id actor = author_id \<and>
      st = PostVisible)"

text \<open>
  \<open>ValidAreaSlug\<close>: the loop over the bytes, with the byte before the current one as the
  loop's memory of \<open>slug[index-1]\<close>; the first position has no byte before it.
\<close>

definition slug_alnum :: "char \<Rightarrow> bool" where
  "slug_alnum c =
     ((CHR ''a'' \<le> c \<and> c \<le> CHR ''z'') \<or> (CHR ''0'' \<le> c \<and> c \<le> CHR ''9''))"

fun slug_loop :: "char option \<Rightarrow> string \<Rightarrow> bool" where
  "slug_loop prev [] = True"
| "slug_loop prev (c # cs) =
     (if slug_alnum c then slug_loop (Some c) cs
      else if c \<noteq> CHR ''-'' \<or> prev = None \<or> cs = [] \<or> prev = Some (CHR ''-'') then False
      else slug_loop (Some c) cs)"

definition ValidAreaSlug :: "string \<Rightarrow> bool" where
  "ValidAreaSlug slug =
     (1 \<le> length slug \<and> length slug \<le> 80 \<and> slug_loop None slug)"


subsection \<open>The abstract policy and the refinement to it\<close>

text \<open>
  What the decisions promise, on values that are well formed by construction: a viewer is
  anonymous, a member of some groups or staff, and an area is open to everyone, to the signed
  in, or to the members of some groups.
\<close>

datatype viewer = Anonymous | Member "int set" | Staff
datatype audience = Everyone | SignedIn | GroupsOnly "int set"

fun may_view :: "viewer \<Rightarrow> audience \<Rightarrow> bool" where
  "may_view _ Everyone = True"
| "may_view Anonymous _ = False"
| "may_view Staff _ = True"
| "may_view (Member _) SignedIn = True"
| "may_view (Member gs) (GroupsOnly hs) = (gs \<inter> hs \<noteq> {})"

definition abs_viewer :: "access_context \<Rightarrow> viewer option" where
  "abs_viewer a =
     (if \<not> Valid a then None
      else if \<not> ac_authenticated a then Some Anonymous
      else if is_staff a then Some Staff else Some (Member (set (ac_group_ids a))))"

definition abs_audience :: "area_policy \<Rightarrow> audience option" where
  "abs_audience p =
     (if ap_posting_mode p \<notin> {PostingNormal, PostingReadOnly, PostingArchived} then None
      else if ap_visibility p = VisibilityGroups
      then if \<forall>g \<in> set (ap_group_ids p). 0 < g then Some (GroupsOnly (set (ap_group_ids p)))
           else None
      else if ap_group_ids p \<noteq> [] then None
      else if ap_visibility p = VisibilityPublic then Some Everyone
      else if ap_visibility p = VisibilityAuthenticated then Some SignedIn else None)"

lemma list_all_pos_iff: "list_all (\<lambda>g. \<not> g \<le> (0::int)) gs \<longleftrightarrow> (\<forall>g \<in> set gs. 0 < g)"
  by (auto simp: list_all_iff)

lemma list_ex_inter_iff:
  "list_ex (\<lambda>a. list_ex (\<lambda>g. a = g) ps) gs \<longleftrightarrow> set gs \<inter> set ps \<noteq> {}"
  by (auto simp: list_ex_iff)

lemma list_ex_False [simp]: "\<not> list_ex (\<lambda>x. False) xs"
  by (simp add: list_ex_iff)

lemma Valid_anonymous: "Valid a \<Longrightarrow> \<not> ac_authenticated a \<Longrightarrow> ac_role a = 0 \<and> ac_user_id a = 0"
  by (simp add: Valid_def)

lemma Valid_user_id_pos: "Valid a \<Longrightarrow> ac_authenticated a \<Longrightarrow> 0 < ac_user_id a"
  by (auto simp: Valid_def split: if_splits)

lemma CanViewArea_Valid: "CanViewArea a p \<Longrightarrow> Valid a"
  by (auto simp: CanViewArea_def split: if_splits)

lemma CanCreateTopic_view: "CanCreateTopic a p \<Longrightarrow> CanViewArea a p"
  by (auto simp: CanCreateTopic_def split: if_splits)

lemma CanReply_create: "CanReply a p st \<Longrightarrow> CanCreateTopic a p"
  by (auto simp: CanReply_def split: if_splits)

lemma CanViewArea_mode:
  "CanViewArea a p \<Longrightarrow> ap_posting_mode p \<in> {PostingNormal, PostingReadOnly, PostingArchived}"
  by (auto simp: CanViewArea_def split: if_splits)

lemma CanCreateTopic_mode:
  "CanCreateTopic a p \<Longrightarrow>
     ap_posting_mode p = PostingNormal \<or> ap_posting_mode p = PostingReadOnly \<and> is_staff a"
  using CanViewArea_mode [of a p] by (auto simp: CanCreateTopic_def is_staff_def split: if_splits)

lemma CanReply_topic:
  "CanReply a p st \<Longrightarrow> st = TopicOpen \<or> st \<in> {TopicLocked, TopicHidden} \<and> is_staff a"
  by (auto simp: CanReply_def is_staff_def split: if_splits)

lemma CanCreateTopic_active:
  "CanCreateTopic a p \<Longrightarrow> ac_authenticated a \<and> \<not> ac_suspended a \<and> ac_muted_until a = None"
  by (auto simp: CanCreateTopic_def split: if_splits)

text \<open>
  The area visibility decision of \<open>CanViewArea\<close> is exactly the abstract policy: it admits
  an actor when the actor snapshot and the stored area policy are both well formed and the
  abstract policy admits that viewer to that audience, and it fails closed on every malformed
  value (unknown role, visibility or posting mode, nonpositive group, contradictory identity,
  groups attached to an area whose visibility is not by group).
\<close>

lemma CanViewArea_refines:
  "CanViewArea a p \<longleftrightarrow>
     (case (abs_viewer a, abs_audience p) of
        (Some v, Some au) \<Rightarrow> may_view v au
      | _ \<Rightarrow> False)"
proof (cases "Valid a")
  case False
  then show ?thesis by (simp add: CanViewArea_def abs_viewer_def)
next
  case True
  then show ?thesis
    by (auto simp: CanViewArea_def abs_viewer_def abs_audience_def is_staff_def
        list_all_pos_iff list_ex_inter_iff)
qed

text \<open>
  Publishing is never wider than reading, and never open to a restricted account: an actor
  who may reply somewhere is authenticated, structurally valid, neither suspended nor muted,
  may view the area, and the area and the topic are not archived; beyond normal areas and open
  topics the actor is staff.
\<close>

lemma CanReply_sound:
  "CanReply a p st \<Longrightarrow>
     Valid a \<and> ac_authenticated a \<and> \<not> ac_suspended a \<and> ac_muted_until a = None \<and>
     CanViewArea a p \<and> CanCreateTopic a p \<and> CanViewTopic a st \<and>
     ap_posting_mode p \<in> {PostingNormal, PostingReadOnly} \<and> st \<in> {TopicOpen, TopicLocked, TopicHidden} \<and>
     (is_staff a \<or> ap_posting_mode p = PostingNormal \<and> st = TopicOpen)"
proof -
  assume r: "CanReply a p st"
  note c = CanReply_create [OF r]
  note v = CanCreateTopic_view [OF c]
  note m = CanCreateTopic_mode [OF c]
  note t = CanReply_topic [OF r]
  have "CanViewTopic a st"
    using t CanViewArea_Valid [OF v] by (auto simp: CanViewTopic_def is_staff_def)
  then show ?thesis
    using c v m t CanCreateTopic_active [OF c] CanViewArea_Valid [OF v] by blast
qed

lemma CanReply_sound_witness:
  "\<exists>a p. CanReply a p TopicLocked \<and> is_staff a \<and> CanViewArea a p"
proof -
  define a where "a = \<lparr>ac_authenticated = True, ac_user_id = 7, ac_role = RoleModerator,
    ac_group_ids = [], ac_suspended = False, ac_muted_until = None, ac_validated_at = 0\<rparr>"
  define p where "p = \<lparr>ap_visibility = VisibilityGroups, ap_posting_mode = PostingReadOnly,
    ap_group_ids = [3]\<rparr>"
  have h: "CanReply a p TopicLocked"
    by (simp add: a_def p_def CanReply_def CanCreateTopic_def CanViewArea_def Valid_def)
  from CanReply_sound [OF h] h show ?thesis by auto
qed

subsection \<open>Area slugs\<close>

text \<open>The grammar of the areas table: alphanumeric words joined by single hyphens.\<close>

definition slug_grammar :: "string \<Rightarrow> bool" where
  "slug_grammar s \<longleftrightarrow> (\<forall>w \<in> set (split_on CHR ''-'' s). w \<noteq> [] \<and> list_all slug_alnum w)"

lemma hyphen_not_alnum [simp]: "\<not> slug_alnum CHR ''-''"
  by (simp add: slug_alnum_def less_eq_char_def)

lemma slug_loop_Some:
  "slug_loop (Some q) s \<longleftrightarrow>
     (case split_on CHR ''-'' s of
        w # ws \<Rightarrow> list_all slug_alnum w \<and> (w = [] \<and> ws \<noteq> [] \<longrightarrow> q \<noteq> CHR ''-'') \<and>
                  (\<forall>v \<in> set ws. v \<noteq> [] \<and> list_all slug_alnum v)
      | [] \<Rightarrow> False)"
proof (induction s arbitrary: q)
  case Nil
  then show ?case by simp
next
  case (Cons c cs)
  obtain w ws where sp: "split_on CHR ''-'' cs = w # ws"
    by (cases "split_on CHR ''-'' cs") auto
  show ?case
  proof (cases "c = CHR ''-''")
    case True
    have "cs = [] \<longleftrightarrow> w = [] \<and> ws = []"
      using sp by (metis join_split join_with.simps(2) split_on.simps(1) list.inject)
    with True sp Cons.IH [of c] show ?thesis by auto
  next
    case False
    with sp Cons.IH [of c] show ?thesis by auto
  qed
qed

text \<open>
  \<open>ValidAreaSlug\<close> accepts exactly the slugs of 1 to 80 bytes that are nonempty words of
  lowercase letters and digits joined by single hyphens: its one-pass loop with the look-back at
  the previous byte decides the grammar of the areas table.
\<close>

lemma ValidAreaSlug_grammar:
  "ValidAreaSlug s \<longleftrightarrow> length s \<in> {1..80} \<and> slug_grammar s"
proof (cases s)
  case Nil
  then show ?thesis by (simp add: ValidAreaSlug_def)
next
  case (Cons c cs)
  obtain w ws where sp: "split_on CHR ''-'' cs = w # ws"
    by (cases "split_on CHR ''-'' cs") auto
  have "slug_loop None s \<longleftrightarrow> slug_grammar s"
    using Cons sp slug_loop_Some [of c cs] by (auto simp: slug_grammar_def)
  then show ?thesis by (auto simp: ValidAreaSlug_def)
qed

end
