(* ===== verification/Publication.thy ===== *)
theory Publication
  imports FixedWindow
begin

text \<open>
  The durable publication limit, \<open>internal/abuse/publication.go\<close>: the validated policy, the pure
  decision on one account's stored window, and the retry rounding. Limits are \<open>uint32\<close>, the
  stored count is an \<open>int32\<close> held here as an integer (it is incremented only after it was found
  to be at most 100000), times and durations are nanoseconds.
\<close>

record publication_policy =
  pp_established_limit :: u32
  pp_new_account_limit :: u32
  pp_window :: duration
  pp_new_account_period :: duration

record publication_decision =
  pd_started_at :: gotime
  pd_count :: int
  pd_retry_after :: duration

definition PublicationPolicyValid :: "publication_policy \<Rightarrow> bool" where
  "PublicationPolicyValid p =
     (pp_established_limit p > 0 \<and> pp_established_limit p \<le> 100000 \<and>
      pp_new_account_limit p > 0 \<and> pp_new_account_limit p \<le> pp_established_limit p \<and>
      pp_window p \<ge> ns_second \<and> pp_window p \<le> 24 * ns_hour \<and>
      pp_new_account_period p \<ge> ns_minute \<and> pp_new_account_period p \<le> 30 * 24 * ns_hour)"

definition NewPublicationPolicy ::
  "u32 \<Rightarrow> u32 \<Rightarrow> duration \<Rightarrow> duration \<Rightarrow> go_error + publication_policy" where
  "NewPublicationPolicy established newacct window period =
     (let p = \<lparr>pp_established_limit = established, pp_new_account_limit = newacct,
               pp_window = window, pp_new_account_period = period\<rparr>
      in if \<not> PublicationPolicyValid p then Inl (Fail ''publication policy is invalid'')
         else Inr p)"

definition DecidePublication ::
  "publication_policy \<Rightarrow> gotime \<Rightarrow> gotime \<Rightarrow> gotime option \<Rightarrow> int \<Rightarrow> go_error + publication_decision"
where
  "DecidePublication p createdAt databaseNow windowStartedAt count =
     (if \<not> PublicationPolicyValid p
      then Inl (Fail ''publication admission state is invalid'')
      else if databaseNow < createdAt
      then Inl (Fail ''publication database time precedes account creation'')
      else let accountAge = time_sub databaseNow createdAt in
      if accountAge < 0 then Inl (Fail ''publication account age overflowed'')
      else let limit = (if accountAge < pp_new_account_period p then pp_new_account_limit p
                        else pp_established_limit p) in
      case windowStartedAt of
        None \<Rightarrow>
          if count \<noteq> 0 then Inl (Fail ''publication window tuple is invalid'')
          else Inr \<lparr>pd_started_at = databaseNow, pd_count = 1, pd_retry_after = 0\<rparr>
      | Some startedAt \<Rightarrow>
          if startedAt < createdAt \<or> count < 1 \<or> count > 100000
          then Inl (Fail ''publication window tuple is invalid'')
          else if startedAt > databaseNow
          then let future = time_sub startedAt databaseNow in
               if future \<le> 0 \<or> future > pp_window p
               then Inl (Fail ''publication window clock regression is invalid'')
               else if (word_of_int count :: u32) < limit
               then Inr \<lparr>pd_started_at = startedAt, pd_count = count + 1, pd_retry_after = 0\<rparr>
               else Inr \<lparr>pd_started_at = zero_time, pd_count = 0, pd_retry_after = pp_window p\<rparr>
          else let age = time_sub databaseNow startedAt in
               if age < 0 then Inl (Fail ''publication window age overflowed'')
               else if age \<ge> pp_window p
               then Inr \<lparr>pd_started_at = databaseNow, pd_count = 1, pd_retry_after = 0\<rparr>
               else if (word_of_int count :: u32) < limit
               then Inr \<lparr>pd_started_at = startedAt, pd_count = count + 1, pd_retry_after = 0\<rparr>
               else let remaining = pp_window p - age in
                    if remaining \<le> 0 \<or> remaining > pp_window p
                    then Inl (Fail ''publication retry interval is invalid'')
                    else Inr \<lparr>pd_started_at = zero_time, pd_count = 0, pd_retry_after = remaining\<rparr>)"

text \<open>Go's \<open>/\<close> and \<open>%\<close> on a positive duration are \<open>div\<close> and \<open>mod\<close>.\<close>

definition RetryAfterSeconds :: "publication_decision \<Rightarrow> int" where
  "RetryAfterSeconds d =
     (if pd_retry_after d \<le> 0 then 0
      else let seconds = pd_retry_after d div ns_second
           in if pd_retry_after d mod ns_second \<noteq> 0 then seconds + 1 else seconds)"

subsection \<open>Lemmas\<close>

lemma PublicationPolicy_window:
  "PublicationPolicyValid p \<Longrightarrow> 0 < pp_window p \<and> pp_window p \<le> 86400000000000"
  by (simp add: PublicationPolicyValid_def ns_second_def ns_minute_def ns_hour_def)

lemma u32_count_less_iff:
  "0 \<le> count \<Longrightarrow> count \<le> 100000 \<Longrightarrow> (word_of_int count :: u32) < l \<longleftrightarrow> count < uint l"
  by (simp add: word_less_alt uint_word_of_int)

text \<open>The limit that applies to an account of a given age.\<close>

definition effective_limit :: "publication_policy \<Rightarrow> gotime \<Rightarrow> gotime \<Rightarrow> int" where
  "effective_limit p createdAt now =
     uint (if now - createdAt < pp_new_account_period p then pp_new_account_limit p
           else pp_established_limit p)"

lemma effective_limit_bounds:
  assumes "PublicationPolicyValid p"
  shows "0 < effective_limit p c n" "effective_limit p c n \<le> uint (pp_established_limit p)"
    "uint (pp_established_limit p) \<le> 100000"
proof -
  have "uint (pp_established_limit p) \<le> uint (100000 :: u32)"
    using assms by (simp add: PublicationPolicyValid_def word_le_def)
  then show "uint (pp_established_limit p) \<le> 100000" by simp
  show "0 < effective_limit p c n" "effective_limit p c n \<le> uint (pp_established_limit p)"
    using assms by (auto simp: PublicationPolicyValid_def effective_limit_def word_le_def word_less_alt)
qed

text \<open>
  The decision as a table: on a valid policy, a database time not before the account and a
  consistent stored tuple, which of the five outcomes is taken and with which numbers.
\<close>

definition decision_table ::
  "publication_policy \<Rightarrow> gotime \<Rightarrow> gotime \<Rightarrow> (gotime \<times> int) option \<Rightarrow> publication_decision option"
where
  "decision_table p c now w =
     (let admit = (\<lambda>s n. Some \<lparr>pd_started_at = s, pd_count = n, pd_retry_after = 0\<rparr>);
          reject = (\<lambda>d. Some \<lparr>pd_started_at = zero_time, pd_count = 0, pd_retry_after = d\<rparr>)
      in case w of
           None \<Rightarrow> admit now 1
         | Some (s, n) \<Rightarrow>
             if s + pp_window p \<le> now then admit now 1
             else if now + pp_window p < s then None
             else if n < effective_limit p c now then admit s (n + 1)
             else reject (if now < s then pp_window p else s + pp_window p - now))"

lemma DecidePublication_table:
  assumes v: "PublicationPolicyValid p" and c: "c \<le> now"
    and w: "case w of None \<Rightarrow> n = 0 | Some s \<Rightarrow> c \<le> s \<and> 1 \<le> n \<and> n \<le> 100000"
  shows "(case DecidePublication p c now w n of Inl _ \<Rightarrow> None | Inr d \<Rightarrow> Some d) =
         decision_table p c now (map_option (\<lambda>s. (s, n)) w)"
proof -
  note win = PublicationPolicy_window [OF v]
  have period: "\<bar>pp_new_account_period p\<bar> < max_duration"
    using v by (simp add: PublicationPolicyValid_def ns_second_def ns_minute_def ns_hour_def max_duration_def)
  have lim: "(if time_sub now c < pp_new_account_period p then pp_new_account_limit p
              else pp_established_limit p) =
             (if now - c < pp_new_account_period p then pp_new_account_limit p
              else pp_established_limit p)"
    by (simp only: time_sub_less_iff [OF period])
  have sub: "time_sub t u \<le> 0 \<longleftrightarrow> t \<le> u" "pp_window p < time_sub t u \<longleftrightarrow> pp_window p < t - u"
    "pp_window p \<le> time_sub t u \<longleftrightarrow> pp_window p \<le> t - u" for t u
    using win by (auto simp: time_sub_def min_duration_def max_duration_def)
  have age: "u \<le> t \<Longrightarrow> t - u < pp_window p \<Longrightarrow> time_sub t u = t - u" for t u
    using win by (simp add: time_sub_def min_duration_def max_duration_def)
  show ?thesis
  proof (cases w)
    case None
    with v c w show ?thesis by (simp add: DecidePublication_def decision_table_def Let_def)
  next
    case (Some s)
    with w have sn: "c \<le> s" "1 \<le> n" "n \<le> 100000" by auto
    have less: "(word_of_int n :: u32) < l \<longleftrightarrow> n < uint l" for l
      using sn by (simp add: u32_count_less_iff)
    show ?thesis
      using v c sn win Some
      by (auto simp: DecidePublication_def decision_table_def Let_def lim sub age less
          effective_limit_def not_less)
  qed
qed

text \<open>
  C35. A decision on a consistent account never fails but for a stored window that lies more than
  one window in the future of the database clock, and it is the fixed-window rule: open a window
  at the database time when there is none or the old one has run out, count up inside a window
  while the count is below the limit of the account's age, and otherwise reject for the rest of
  the window (the whole window when the clock went backwards), never for longer than one window.
\<close>

theorem DecidePublication_fixed_window:
  assumes "PublicationPolicyValid p" and "c \<le> now"
    and "case w of None \<Rightarrow> n = 0 | Some s \<Rightarrow> c \<le> s \<and> 1 \<le> n \<and> n \<le> 100000"
  shows "(case DecidePublication p c now w n of Inl _ \<Rightarrow> None | Inr d \<Rightarrow> Some d) =
         decision_table p c now (map_option (\<lambda>s. (s, n)) w) \<and>
         (\<forall>d. DecidePublication p c now w n = Inr d \<longrightarrow>
              0 \<le> pd_retry_after d \<and> pd_retry_after d \<le> pp_window p)"
proof -
  note eq = DecidePublication_table [OF assms]
  moreover have "0 \<le> pd_retry_after d \<and> pd_retry_after d \<le> pp_window p"
    if "DecidePublication p c now w n = Inr d" for d
  proof -
    from that eq have "decision_table p c now (map_option (\<lambda>s. (s, n)) w) = Some d" by simp
    then show ?thesis
      using PublicationPolicy_window [OF assms(1)]
      by (auto simp: decision_table_def Let_def split: option.splits if_splits)
  qed
  ultimately show ?thesis by blast
qed

definition example_policy :: publication_policy where
  "example_policy = \<lparr>pp_established_limit = 30, pp_new_account_limit = 2,
     pp_window = 600 * ns_second, pp_new_account_period = 24 * ns_hour\<rparr>"

lemma example_policy_valid: "PublicationPolicyValid example_policy"
  by (simp add: example_policy_def PublicationPolicyValid_def ns_second_def ns_minute_def ns_hour_def)

theorem DecidePublication_fixed_window_witness:
  "DecidePublication example_policy 0 (100 * ns_second) (Some (10 * ns_second)) 2 =
   Inr \<lparr>pd_started_at = zero_time, pd_count = 0, pd_retry_after = 510 * ns_second\<rparr>"
proof -
  have t: "decision_table example_policy 0 (100 * ns_second) (Some (10 * ns_second, 2)) =
        Some \<lparr>pd_started_at = zero_time, pd_count = 0, pd_retry_after = 510 * ns_second\<rparr>"
    by (simp add: decision_table_def effective_limit_def example_policy_def ns_second_def
        ns_minute_def ns_hour_def)
  have "(case DecidePublication example_policy 0 (100 * ns_second) (Some (10 * ns_second)) 2 of
          Inl _ \<Rightarrow> None | Inr d \<Rightarrow> Some d) = decision_table example_policy 0 (100 * ns_second) (Some (10 * ns_second, 2))"
    using DecidePublication_fixed_window [OF example_policy_valid,
        where c = 0 and now = "100 * ns_second" and w = "Some (10 * ns_second)" and n = 2]
    by (simp add: ns_second_def)
  with t show ?thesis by (simp split: sum.splits)
qed

text \<open>
  The retry reported to the client is the remaining time rounded up to whole seconds: it is
  positive exactly for a rejection, at least the remaining time and less than a second more.
\<close>

lemma RetryAfterSeconds_ceiling:
  "(0 < RetryAfterSeconds d \<longleftrightarrow> 0 < pd_retry_after d) \<and>
   (if 0 < pd_retry_after d
    then pd_retry_after d \<le> RetryAfterSeconds d * ns_second \<and>
         RetryAfterSeconds d * ns_second < pd_retry_after d + ns_second
    else RetryAfterSeconds d = 0)"
proof -
  define q m where "q = pd_retry_after d div ns_second" and "m = pd_retry_after d mod ns_second"
  have r: "pd_retry_after d = 1000000000 * q + m"
    by (simp add: q_def m_def ns_second_def)
  have m: "0 \<le> m" "m < 1000000000"
    by (simp_all add: m_def ns_second_def)
  have "RetryAfterSeconds d = (if pd_retry_after d \<le> 0 then 0 else if m \<noteq> 0 then q + 1 else q)"
    by (simp add: RetryAfterSeconds_def Let_def q_def m_def)
  with m show ?thesis
    unfolding r by (auto simp: ns_second_def)
qed

subsection \<open>The account's window over a run of attempts\<close>

text \<open>
  The stored tuple of one account and one attempt at a database time: the replacement tuple is
  written when the decision admits, and nothing changes when it rejects or fails, as in
  \<open>admitPublication\<close> of \<open>internal/forum/publish.go\<close>.
\<close>

definition publication_step ::
  "publication_policy \<Rightarrow> gotime \<Rightarrow> (gotime option \<times> int) \<Rightarrow> gotime \<Rightarrow> (gotime option \<times> int) \<times> gotime option"
where
  "publication_step p createdAt s now =
     (case DecidePublication p createdAt now (fst s) (snd s) of
        Inl _ \<Rightarrow> (s, None)
      | Inr d \<Rightarrow>
          if RetryAfterSeconds d > 0 then (s, None)
          else ((Some (pd_started_at d), pd_count d), Some (pd_started_at d)))"

definition publication_inv :: "publication_policy \<Rightarrow> gotime \<Rightarrow> (gotime option \<times> int) \<Rightarrow> bool" where
  "publication_inv p createdAt s =
     (PublicationPolicyValid p \<and>
      (case fst s of
         None \<Rightarrow> snd s = 0
       | Some u \<Rightarrow> createdAt \<le> u \<and> 1 \<le> snd s \<and> snd s \<le> uint (pp_established_limit p)))"

lemma RetryAfterSeconds_pos: "0 < RetryAfterSeconds d \<longleftrightarrow> 0 < pd_retry_after d"
proof -
  have "0 < r div ns_second" if "0 < r" "r mod ns_second = 0" for r :: int
    using that div_mult_mod_eq [of r ns_second] by (cases "0 < r div ns_second") (auto simp: ns_second_def not_less)
  moreover have "0 \<le> r div ns_second" if "0 < r" for r :: int
    using that by (simp add: ns_second_def)
  ultimately show ?thesis by (auto simp: RetryAfterSeconds_def Let_def)
qed

lemma publication_step_cases:
  assumes "publication_inv p c s"
  shows "publication_step p c s now = (s, None) \<or>
    publication_step p c s now = ((Some now, 1), Some now) \<and> c \<le> now \<and>
      (\<forall>u. fst s = Some u \<longrightarrow> u + pp_window p \<le> now) \<or>
    (\<exists>u. fst s = Some u \<and> snd s < uint (pp_established_limit p) \<and>
       publication_step p c s now = ((Some u, snd s + 1), Some u))"
proof (cases "c \<le> now")
  case False
  then show ?thesis by (simp add: publication_step_def DecidePublication_def)
next
  case True
  obtain w n where s: "s = (w, n)" by force
  have v: "PublicationPolicyValid p" using assms by (simp add: publication_inv_def)
  have w: "case w of None \<Rightarrow> n = 0 | Some u \<Rightarrow> c \<le> u \<and> 1 \<le> n \<and> n \<le> 100000"
    using assms s effective_limit_bounds(3) [OF v] by (auto simp: publication_inv_def split: option.splits)
  note eq = DecidePublication_table [OF v True w]
  note lim = effective_limit_bounds(1,2) [OF v, of c now]
  show ?thesis
  proof (cases "DecidePublication p c now w n")
    case (Inl e)
    then show ?thesis by (simp add: publication_step_def s)
  next
    case (Inr d)
    with eq have "decision_table p c now (map_option (\<lambda>u. (u, n)) w) = Some d" by simp
    then show ?thesis
      using Inr s lim True RetryAfterSeconds_pos [of d]
      by (auto simp: publication_step_def decision_table_def Let_def RetryAfterSeconds_def
          split: option.splits if_splits)
  qed
qed

lemma publication_step_inv:
  "publication_inv p c s \<Longrightarrow> publication_inv p c (fst (publication_step p c s now))"
proof -
  assume inv: "publication_inv p c s"
  then have v: "PublicationPolicyValid p" by (simp add: publication_inv_def)
  have "1 \<le> uint (pp_established_limit p)"
    using effective_limit_bounds(1,2) [OF v, of 0 0] by linarith
  then show ?thesis
    using publication_step_cases [OF inv, of now] inv
    by (auto simp: publication_inv_def split: option.splits)
qed

lemma nat_le_unat: "k \<le> uint (l :: u32) \<Longrightarrow> nat k \<le> unat l"
  by (metis nat_mono nat_uint_eq)

lemma nat_less_unat: "0 \<le> k \<Longrightarrow> k < uint (l :: u32) \<Longrightarrow> nat k < unat l"
  by (metis nat_mono_iff nat_uint_eq order.strict_trans1)

interpretation pub: fixed_window "publication_step p c" "\<lambda>t. t" "publication_inv p c" fst "\<lambda>s. nat (snd s)"
  "unat (pp_established_limit p)" "pp_window p" False for p c
proof
  fix s t s' u
  assume inv: "publication_inv p c s"
  then have v: "PublicationPolicyValid p" by (simp add: publication_inv_def)
  note lim = effective_limit_bounds [OF v]
  show "0 < pp_window p" using PublicationPolicy_window [OF v] by simp
  show "publication_inv p c (fst (publication_step p c s t))"
    by (rule publication_step_inv [OF inv])
  show "fst s \<noteq> None \<Longrightarrow> nat (snd s) \<le> unat (pp_established_limit p)"
    using inv nat_le_unat by (auto simp: publication_inv_def)
  show "0 < unat (pp_established_limit p)"
    using lim(1,2) [of 0 0] by (metis nat_less_unat nat_0 order.refl order.strict_trans2)
  show "publication_step p c s t = (s', Some u) \<Longrightarrow> fst s' = Some u \<and>
      (fst s = Some u \<and> nat (snd s') = Suc (nat (snd s)) \<and> nat (snd s) < unat (pp_established_limit p) \<or>
       u = t \<and> nat (snd s') = 1 \<and> (case fst s of None \<Rightarrow> True | Some v \<Rightarrow> v + pp_window p \<le> t))"
    using publication_step_cases [OF inv, of t] inv nat_less_unat
    by (auto simp: publication_inv_def split: option.splits)
  show "publication_step p c s t = (s', None) \<Longrightarrow>
      fst s' = fst s \<and> nat (snd s') = nat (snd s) \<or>
      False \<and> fst s' = None \<and> (\<exists>v. fst s = Some v \<and> v + pp_window p \<le> t)"
    using publication_step_cases [OF inv, of t] by auto
qed



end
