(* ===== verification/ForumDb.thy ===== *)
theory ForumDb
  imports Bytes "HOL-Library.List_Lexorder"
begin

text \<open>
  The relational state the forum and moderation services work on: one record per table row and
  one list of rows per table, with the columns the modelled statements read or write. Identity
  columns draw from sequences that are not part of a transaction. The statements themselves are
  modelled beside the services that issue them.

  \<open>search_vector\<close> columns hold the text handed to \<open>to_tsvector\<close>, on which the vector depends.
\<close>

record user_row =
  u_id :: int
  u_display_name :: string
  u_email :: "string option"
  u_avatar_url :: "string option"
  u_last_login_at :: tstamp
  u_role :: string
  u_suspended_at :: "tstamp option"
  u_suspended_until :: "tstamp option"
  u_suspension_reason :: "string option"
  u_muted_until :: "tstamp option"
  u_created_at :: tstamp
  u_updated_at :: tstamp
  u_window_started_at :: "tstamp option"
  u_publication_count :: int
  u_administration_revision :: int
  u_sync_state :: string
  u_sync_last_attempt_at :: "tstamp option"
  u_sync_next_attempt_at :: "tstamp option"
  u_sync_failure_class :: "string option"

record area_row =
  a_id :: int
  a_slug :: string
  a_name :: string
  a_description :: string
  a_display_order :: int
  a_visibility :: string
  a_posting_mode :: string
  a_created_by :: int
  a_updated_by :: int
  a_created_at :: tstamp
  a_updated_at :: tstamp
  a_revision :: int

record group_row =
  g_id :: int
  g_name :: string
  g_created_by :: int
  g_created_at :: tstamp
  g_updated_at :: tstamp
  g_revision :: int

record topic_row =
  t_id :: int
  t_area_id :: int
  t_author_id :: int
  t_title :: string
  t_slug :: "string option"
  t_state :: string
  t_first_post_id :: int
  t_latest_post_id :: int
  t_reply_count :: int
  t_next_post_number :: int
  t_pinned_at :: "tstamp option"
  t_created_at :: tstamp
  t_updated_at :: tstamp
  t_last_activity_at :: tstamp
  t_deleted_at :: "tstamp option"
  t_search_text :: string
  t_search_version :: "string option"

record post_row =
  p_id :: int
  p_topic_id :: int
  p_author_id :: int
  p_number :: int
  p_markdown :: string
  p_html :: string
  p_renderer :: string
  p_search_text :: string
  p_search_version :: "string option"
  p_revision :: int
  p_parent :: "int option"
  p_path :: "int list"
  p_created_at :: tstamp
  p_updated_at :: tstamp
  p_edited_at :: "tstamp option"
  p_deleted_at :: "tstamp option"
  p_deleted_by :: "int option"
  p_deletion_reason :: "string option"
  p_redacted_at :: "tstamp option"
  p_redacted_by :: "int option"
  p_redaction_reason :: "string option"

record session_row =
  s_id :: int
  s_token_hash :: bytes
  s_user_id :: int
  s_issued_at :: tstamp
  s_last_seen_at :: tstamp
  s_validated_at :: tstamp
  s_expires_at :: tstamp
  s_revoked_at :: "tstamp option"

text \<open>
  The link of an account to its identity at the provider, an attempt to log in or to revalidate a
  session, a registration that waits for approval (its \<open>uuid\<close> subject as its text), an invitation (its
  \<open>uuid\<close> key as a number), and the singleton settings row.
\<close>

record identity_row =
  id_user_id :: int
  id_issuer :: string
  id_subject :: string
  id_created_at :: tstamp
  id_last_verified_at :: tstamp

record attempt_row =
  la_state_hash :: bytes
  la_nonce :: bytes
  la_verifier :: bytes
  la_purpose :: string
  la_session_id :: "int option"
  la_return_path :: string
  la_created_at :: tstamp
  la_expires_at :: tstamp
  la_consumed_at :: "tstamp option"

record registration_row =
  pn_id :: int
  pn_user_id :: int
  pn_subject :: string
  pn_display_name :: string
  pn_email :: string
  pn_status :: string
  pn_revision :: int
  pn_intake_at :: tstamp
  pn_decided_at :: "tstamp option"
  pn_decided_by :: "int option"
  pn_request :: "int option"
  pn_class :: "string option"

record invitation_row =
  iv_key :: int
  iv_name :: string
  iv_state :: string
  iv_delivery :: string
  iv_flow :: string
  iv_expires_at :: tstamp
  iv_created_at :: tstamp
  iv_transitioned_at :: "tstamp option"
  iv_created_by :: int
  iv_revision :: int
  iv_fingerprint :: bytes
  iv_failure :: "string option"

record settings_row =
  st_registration_mode :: string
  st_maintenance_enabled :: bool
  st_maintenance_message :: string
  st_publish_rate_limit :: int
  st_new_account_publish_rate_limit :: int
  st_publish_window_seconds :: int
  st_new_account_period_seconds :: int
  st_session_idle_seconds :: int
  st_auth_revalidate_seconds :: int
  st_administration_revision :: int
  st_updated_at :: tstamp

record smtp_row =
  sm_host :: string
  sm_administration_revision :: int
  sm_verified_revision :: "int option"

text \<open>
  The \<open>jsonb\<close> snapshots of an audit row: the closed set of objects the modelled statements
  build.
\<close>

datatype audit_actor = ActorUser int | ActorOperator string

datatype audit_target =
    TargetTopic int | TargetPost int | TargetUser int | TargetReport int | TargetGroup int | TargetArea int
  | TargetSite

datatype audit_state =
    StateIs string
  | PinnedIs "tstamp option"
  | AreaIs int
  | DeletedIs "tstamp option" "int option"
  | RevisionIs int bool
  | MutedIs "tstamp option"
  | WarningIs int
  | SuspensionIs "tstamp option" "tstamp option" "string option" int
  | ReportIs string "int option" "int option"
  | NoteIs int
  | RoleIs string "int option"
  | GroupIs string int
  | MembershipIs int bool int
  | ProviderIs string "(int \<times> int) option"
  | SessionsRevoked int
  | ControlIs string bool string int int int int int int
  | AreaFieldsAre string string string int string string "int list"
  | AreaGroupIs int bool int
  | AreaDigestIs string string string int string string int int string
  | RegistrationIs string string "int option" "string option"
  | InvitationIs string string "int option" "string option" "string option"
  | SyncIs string int "string option"
  | SuspendedIs bool int
  | EmptyState

record audit_row =
  au_id :: int
  au_actor :: audit_actor
  au_target :: audit_target
  au_action :: string
  au_reason :: "string option"
  au_previous :: audit_state
  au_resulting :: audit_state
  au_request :: "int option"
  au_created_at :: tstamp

record warning_row =
  w_id :: int
  w_user_id :: int
  w_warned_by :: int
  w_reason :: string
  w_created_at :: tstamp

record report_row =
  rp_id :: int
  rp_reported_by :: int
  rp_topic :: "int option"
  rp_post :: "int option"
  rp_user :: "int option"
  rp_reason :: string
  rp_status :: string
  rp_assigned :: "int option"
  rp_resolution :: "string option"
  rp_resolved_by :: "int option"
  rp_created_at :: tstamp
  rp_updated_at :: tstamp
  rp_resolved_at :: "tstamp option"

record note_row =
  nt_id :: int
  nt_report :: int
  nt_author :: int
  nt_body :: string
  nt_created_at :: tstamp

datatype seq_name = TopicSeq | PostSeq | AuditSeq | WarningSeq | ReportSeq | NoteSeq | UserSeq | SessionSeq
  | GroupSeq | AreaSeq | RegistrationSeq

text \<open>The unread markers of \<open>topic_reads\<close>.\<close>

record read_row =
  rd_user :: int
  rd_topic :: int
  rd_last_read_id :: int
  rd_last_read_at :: tstamp

record forum_db =
  db_users :: "user_row list"
  db_areas :: "area_row list"
  db_area_groups :: "(int \<times> int) list"
  db_members :: "(int \<times> int) list"
  db_groups :: "group_row list"
  db_topics :: "topic_row list"
  db_posts :: "post_row list"
  db_sessions :: "session_row list"
  db_identities :: "identity_row list"
  db_login_attempts :: "attempt_row list"
  db_registrations :: "registration_row list"
  db_invitations :: "invitation_row list"
  db_settings :: "settings_row list"
  db_smtp :: "smtp_row list"
  db_audits :: "audit_row list"
  db_warnings :: "warning_row list"
  db_reports :: "report_row list"
  db_report_notes :: "note_row list"
  db_reads :: "read_row list"
  db_governance :: bool
  db_seqs :: "seq_name \<Rightarrow> int"

text \<open>\<open>nextval\<close>.\<close>

definition nextval :: "seq_name \<Rightarrow> forum_db \<Rightarrow> int \<times> forum_db" where
  "nextval s db = (db_seqs db s, db\<lparr>db_seqs := (db_seqs db)(s := db_seqs db s + 1)\<rparr>)"

text \<open>Rows of a table in insertion order; sorting for \<open>ORDER BY\<close> of an integer column.\<close>

definition group_ids_of_area :: "forum_db \<Rightarrow> int \<Rightarrow> int list" where
  "group_ids_of_area db area = sort (map snd (filter (\<lambda>m. fst m = area) (db_area_groups db)))"

definition group_ids_of_user :: "forum_db \<Rightarrow> int \<Rightarrow> int list" where
  "group_ids_of_user db user = sort (map snd (filter (\<lambda>m. fst m = user) (db_members db)))"

definition find_user :: "forum_db \<Rightarrow> int \<Rightarrow> user_row option" where
  "find_user db i = find (\<lambda>r. u_id r = i) (db_users db)"

definition find_area :: "forum_db \<Rightarrow> int \<Rightarrow> area_row option" where
  "find_area db i = find (\<lambda>r. a_id r = i) (db_areas db)"

definition find_area_slug :: "forum_db \<Rightarrow> string \<Rightarrow> area_row option" where
  "find_area_slug db s = find (\<lambda>r. a_slug r = s) (db_areas db)"

definition find_group :: "forum_db \<Rightarrow> int \<Rightarrow> group_row option" where
  "find_group db i = find (\<lambda>r. g_id r = i) (db_groups db)"

definition find_topic :: "forum_db \<Rightarrow> int \<Rightarrow> topic_row option" where
  "find_topic db i = find (\<lambda>r. t_id r = i) (db_topics db)"

definition find_post :: "forum_db \<Rightarrow> int \<Rightarrow> post_row option" where
  "find_post db i = find (\<lambda>r. p_id r = i) (db_posts db)"

definition topic_posts :: "forum_db \<Rightarrow> int \<Rightarrow> post_row list" where
  "topic_posts db i = filter (\<lambda>r. p_topic_id r = i) (db_posts db)"

text \<open>
  The tree position of a post: posts of the topic at or before its thread path that are shown,
  that is, not deleted or with a descendant that is not deleted.
\<close>

definition descends_from :: "post_row \<Rightarrow> post_row \<Rightarrow> bool" where
  "descends_from d n =
     (take (length (p_path n)) (p_path d) = p_path n \<and> length (p_path n) < length (p_path d))"

definition shown_node :: "post_row list \<Rightarrow> post_row \<Rightarrow> bool" where
  "shown_node ps n =
     (p_deleted_at n = None \<or> list_ex (\<lambda>d. p_deleted_at d = None \<and> descends_from d n) ps)"

definition shown_count :: "post_row list \<Rightarrow> int list \<Rightarrow> int" where
  "shown_count ps path = int (length (filter (\<lambda>n. p_path n \<le> path \<and> shown_node ps n) ps))"

lemmas table_finds =
  find_user_def find_area_def find_area_slug_def find_topic_def find_post_def

lemma nextval_tables [simp]:
  "db_users (snd (nextval s db)) = db_users db" "db_areas (snd (nextval s db)) = db_areas db"
  "db_members (snd (nextval s db)) = db_members db" "db_groups (snd (nextval s db)) = db_groups db"
  "db_area_groups (snd (nextval s db)) = db_area_groups db"
  "db_settings (snd (nextval s db)) = db_settings db"
  "db_topics (snd (nextval s db)) = db_topics db" "db_posts (snd (nextval s db)) = db_posts db"
  "db_audits (snd (nextval s db)) = db_audits db" "db_warnings (snd (nextval s db)) = db_warnings db"
  "db_reports (snd (nextval s db)) = db_reports db"
  "db_report_notes (snd (nextval s db)) = db_report_notes db"
  "db_sessions (snd (nextval s db)) = db_sessions db" "db_identities (snd (nextval s db)) = db_identities db"
  "db_login_attempts (snd (nextval s db)) = db_login_attempts db" "db_reads (snd (nextval s db)) = db_reads db"
  "db_registrations (snd (nextval s db)) = db_registrations db"
  "db_invitations (snd (nextval s db)) = db_invitations db"
  "fst (nextval s db) = db_seqs db s"
  by (simp_all add: nextval_def)

lemma shown_count_nonneg [simp]: "0 \<le> shown_count ps path"
  by (simp add: shown_count_def)

end
