(* ===== verification/Tx.thy ===== *)
theory Tx
  imports ForumDb
begin

text \<open>
  Transactions, \<open>internal/store/transaction.go\<close>, over the database as a state. A transaction body
  is a function of the world, which holds the committed tables, the readings the server's clock
  will give, and one fault flag per statement still to come: a statement whose flag is set fails
  with a database error, whatever the reason (a constraint, a timeout, a lost connection).
  A body runs alone: row locks serialise the transactions that touch the same rows, and each
  run of \<open>within_tx\<close> is one atomic step of the model. The steps inside it, with the deferred rollback and
  panics, are in \<open>Transaction\<close>, which shows that they amount to this one.
\<close>

record world =
  w_db :: forum_db
  w_clock :: "gotime list"
  w_faults :: "bool list"

type_synonym 'a tx = "world \<Rightarrow> (go_error + 'a) \<times> world"

definition tx_return :: "'a \<Rightarrow> 'a tx" where
  "tx_return x w = (Inr x, w)"

definition tx_fail :: "go_error \<Rightarrow> 'a tx" where
  "tx_fail e w = (Inl e, w)"

definition tx_bind :: "'a tx \<Rightarrow> ('a \<Rightarrow> 'b tx) \<Rightarrow> 'b tx" where
  "tx_bind m f w = (case m w of (Inl e, w') \<Rightarrow> (Inl e, w') | (Inr x, w') \<Rightarrow> f x w')"

text \<open>\<open>if c \{ return err \}\<close>, and \<open>fmt.Errorf("msg: %w", err)\<close> around the error of a call.\<close>

definition tx_guard :: "bool \<Rightarrow> go_error \<Rightarrow> unit tx" where
  "tx_guard c e w = (if c then (Inl e, w) else (Inr (), w))"

definition tx_wrap :: "string \<Rightarrow> 'a tx \<Rightarrow> 'a tx" where
  "tx_wrap msg m w = (case m w of (Inl e, w') \<Rightarrow> (Inl (Wrap msg e), w') | (Inr x, w') \<Rightarrow> (Inr x, w'))"

text \<open>Replacing every error of a call by a fixed one, where the code drops the cause.\<close>

definition tx_replace :: "go_error \<Rightarrow> 'a tx \<Rightarrow> 'a tx" where
  "tx_replace e m w = (case m w of (Inl _, w') \<Rightarrow> (Inl e, w') | (Inr x, w') \<Rightarrow> (Inr x, w'))"

text \<open>\<open>if errors.Is(err, pgx.ErrNoRows) \{ return e \}\<close> after a call; other errors pass through.\<close>

definition tx_no_rows :: "go_error \<Rightarrow> 'a tx \<Rightarrow> 'a tx" where
  "tx_no_rows e m w =
     (case m w of (Inl d, w') \<Rightarrow> (Inl (if err_is d NoRows then e else d), w') | (Inr x, w') \<Rightarrow> (Inr x, w'))"

text \<open>A call whose error goes through a function.\<close>

definition tx_map_error :: "(go_error \<Rightarrow> go_error) \<Rightarrow> 'a tx \<Rightarrow> 'a tx" where
  "tx_map_error f m w = (case m w of (Inl e, w') \<Rightarrow> (Inl (f e), w') | (Inr x, w') \<Rightarrow> (Inr x, w'))"

text \<open>A call whose failure has a continuation of its own.\<close>

definition tx_try :: "'a tx \<Rightarrow> (go_error \<Rightarrow> 'b tx) \<Rightarrow> ('a \<Rightarrow> 'b tx) \<Rightarrow> 'b tx" where
  "tx_try m h f w = (case m w of (Inl e, w') \<Rightarrow> h e w' | (Inr x, w') \<Rightarrow> f x w')"

text \<open>A computation on values only.\<close>

definition tx_lift :: "go_error + 'a \<Rightarrow> 'a tx" where
  "tx_lift r w = (r, w)"

text \<open>
  One statement: it fails when its flag is set and leaves the tables alone; otherwise it runs.
\<close>

definition statement :: "(forum_db \<Rightarrow> (go_error + 'a) \<times> forum_db) \<Rightarrow> 'a tx" where
  "statement q w =
     (let w' = w\<lparr>w_faults := tl (w_faults w)\<rparr> in
      if w_faults w \<noteq> [] \<and> hd (w_faults w) then (Inl (DbFault ''statement failed''), w')
      else let (r, db) = q (w_db w) in (r, w'\<lparr>w_db := db\<rparr>))"

text \<open>A statement that only reads, with \<open>pgx.ErrNoRows\<close> when a single row is missing.\<close>

definition select_one :: "(forum_db \<Rightarrow> 'a option) \<Rightarrow> 'a tx" where
  "select_one q = statement (\<lambda>db. (case q db of None \<Rightarrow> Inl (Sentinel NoRows) | Some x \<Rightarrow> Inr x, db))"

definition select_all :: "(forum_db \<Rightarrow> 'a) \<Rightarrow> 'a tx" where
  "select_all q = statement (\<lambda>db. (Inr (q db), db))"

text \<open>\<open>clock_timestamp()\<close>: the next reading of the server's clock, in microseconds.\<close>

definition read_clock :: "gotime tx" where
  "read_clock w =
     (case w_clock w of
        [] \<Rightarrow> (Inl (DbFault ''no clock reading''), w)
      | t # ts \<Rightarrow> (Inr (truncate_us t), w\<lparr>w_clock := ts\<rparr>))"

subsection \<open>Begin, commit, rollback\<close>

datatype begin_outcome = BeginOk | BeginNoTx "go_error option" | BeginTxErr go_error

text \<open>A failed commit has an unknown outcome: the flag says whether the server applied it.\<close>

datatype commit_outcome = CommitOk | CommitFailed go_error bool

record tx_env =
  te_context_given :: bool
  te_beginner_given :: bool
  te_context_error :: "go_error option"
  te_begin :: begin_outcome
  te_commit :: commit_outcome
  te_rollback_error :: "go_error option"

text \<open>A rollback restores every table; sequences keep what was drawn from them.\<close>

definition rolled_back :: "world \<Rightarrow> world \<Rightarrow> world" where
  "rolled_back w0 w = w\<lparr>w_db := (w_db w0)\<lparr>db_seqs := db_seqs (w_db w)\<rparr>\<rparr>"

text \<open>The deferred rollback: its own error is joined unless the transaction was already closed.\<close>

definition with_rollback :: "tx_env \<Rightarrow> go_error \<Rightarrow> go_error" where
  "with_rollback env e =
     (case te_rollback_error env of
        None \<Rightarrow> e
      | Some r \<Rightarrow> if err_is r TxClosed then e else Join e (Wrap ''rollback transaction'' r))"

definition within_tx :: "tx_env \<Rightarrow> 'a tx \<Rightarrow> 'a tx" where
  "within_tx env action w =
     (if \<not> te_context_given env then (Inl (Fail ''transaction context is required''), w)
      else if \<not> te_beginner_given env then (Inl (Fail ''transaction beginner is required''), w)
      else case te_context_error env of
        Some e \<Rightarrow> (Inl (Wrap ''transaction canceled'' e), w)
      | None \<Rightarrow>
        (case te_begin env of
           BeginNoTx (Some e) \<Rightarrow> (Inl (Wrap ''begin transaction'' e), w)
         | BeginNoTx None \<Rightarrow> (Inl (Fail ''transaction begin returned no transaction''), w)
         | BeginTxErr e \<Rightarrow> (Inl (with_rollback env (Wrap ''begin transaction'' e)), w)
         | BeginOk \<Rightarrow>
           (case action w of
              (Inl e, w') \<Rightarrow>
                (Inl (with_rollback env (Wrap ''transaction action failed'' e)), rolled_back w w')
            | (Inr x, w') \<Rightarrow>
                (case te_commit env of
                   CommitOk \<Rightarrow> (Inr x, w')
                 | CommitFailed e applied \<Rightarrow>
                     (Inl (with_rollback env (Wrap ''commit transaction (outcome unknown; inspect state before retry)'' e)),
                      if applied then w' else rolled_back w w')))))"

subsection \<open>Lemmas\<close>

lemmas tx_defs [tx_unfold] =
  tx_return_def tx_fail_def tx_bind_def tx_guard_def tx_wrap_def tx_replace_def tx_no_rows_def
  tx_map_error_def tx_try_def tx_lift_def statement_def
  select_one_def select_all_def read_clock_def Let_def

text \<open>
  What a successful run of a composed body says of its parts; the component theories invert
  runs with these.
\<close>

lemma tx_bind_Inr:
  "tx_bind m f w = (Inr y, w') \<longleftrightarrow> (\<exists>x w1. m w = (Inr x, w1) \<and> f x w1 = (Inr y, w'))"
  by (auto simp: tx_bind_def split: prod.splits sum.splits)

lemma tx_guard_Inr: "tx_guard c e w = (Inr u, w') \<longleftrightarrow> \<not> c \<and> w' = w"
  by (auto simp: tx_guard_def)

lemma tx_wrap_Inr: "tx_wrap msg m w = (Inr x, w') \<longleftrightarrow> m w = (Inr x, w')"
  by (auto simp: tx_wrap_def split: prod.splits sum.splits)

lemma tx_replace_Inr: "tx_replace e m w = (Inr x, w') \<longleftrightarrow> m w = (Inr x, w')"
  by (auto simp: tx_replace_def split: prod.splits sum.splits)

lemma tx_no_rows_Inr: "tx_no_rows e m w = (Inr x, w') \<longleftrightarrow> m w = (Inr x, w')"
  by (auto simp: tx_no_rows_def split: prod.splits sum.splits)

lemma tx_map_error_Inr: "tx_map_error f m w = (Inr x, w') \<longleftrightarrow> m w = (Inr x, w')"
  by (auto simp: tx_map_error_def split: prod.splits sum.splits)

lemma tx_try_Inr:
  "tx_try m h f w = (Inr y, w') \<longleftrightarrow>
     (\<exists>e w1. m w = (Inl e, w1) \<and> h e w1 = (Inr y, w')) \<or> (\<exists>x w1. m w = (Inr x, w1) \<and> f x w1 = (Inr y, w'))"
  by (auto simp: tx_try_def split: prod.splits sum.splits)

lemma tx_lift_Inr: "tx_lift r w = (Inr x, w') \<longleftrightarrow> r = Inr x \<and> w' = w"
  by (auto simp: tx_lift_def)

lemma tx_return_Inr: "tx_return x w = (Inr y, w') \<longleftrightarrow> y = x \<and> w' = w"
  by (auto simp: tx_return_def)

lemma tx_fail_Inr: "tx_fail e w \<noteq> (Inr y, w')"
  by (simp add: tx_fail_def)

text \<open>A statement ran: its flag was not set, and the world moved on to new tables.\<close>

definition fault_free :: "world \<Rightarrow> bool" where
  "fault_free w \<longleftrightarrow> \<not> (w_faults w \<noteq> [] \<and> hd (w_faults w))"

definition after_statement :: "world \<Rightarrow> forum_db \<Rightarrow> world" where
  "after_statement w db = w\<lparr>w_faults := tl (w_faults w), w_db := db\<rparr>"

lemma after_statement_simps [simp]:
  "w_db (after_statement w db) = db" "w_clock (after_statement w db) = w_clock w"
  by (simp_all add: after_statement_def)

lemma statement_Inr:
  "statement q w = (Inr x, w') \<longleftrightarrow>
     fault_free w \<and> (\<exists>db. q (w_db w) = (Inr x, db) \<and> w' = after_statement w db)"
  by (auto simp: statement_def Let_def fault_free_def after_statement_def split: prod.splits)

lemma select_one_Inr:
  "select_one q w = (Inr x, w') \<longleftrightarrow>
     fault_free w \<and> q (w_db w) = Some x \<and> w' = after_statement w (w_db w)"
  by (auto simp: select_one_def statement_Inr split: option.splits)

lemma select_all_Inr:
  "select_all q w = (Inr x, w') \<longleftrightarrow>
     fault_free w \<and> x = q (w_db w) \<and> w' = after_statement w (w_db w)"
  by (auto simp: select_all_def statement_Inr)

lemma read_clock_Inr:
  "read_clock w = (Inr t, w') \<longleftrightarrow>
     (\<exists>u us. w_clock w = u # us \<and> t = truncate_us u \<and> w' = w\<lparr>w_clock := us\<rparr>)"
  by (auto simp: read_clock_def split: list.splits)

lemma tx_case_sum_Inr:
  "(case s of Inl e \<Rightarrow> f e | Inr x \<Rightarrow> g x) w = (Inr y, w') \<longleftrightarrow>
     (\<exists>e. s = Inl e \<and> f e w = (Inr y, w')) \<or> (\<exists>x. s = Inr x \<and> g x w = (Inr y, w'))"
  by (cases s) auto

lemma tx_case_option_Inr:
  "(case s of None \<Rightarrow> f | Some x \<Rightarrow> g x) w = (Inr y, w') \<longleftrightarrow>
     (s = None \<and> f w = (Inr y, w')) \<or> (\<exists>x. s = Some x \<and> g x w = (Inr y, w'))"
  by (cases s) auto

lemma tx_case_prod_Inr: "(case s of (a, b) \<Rightarrow> f a b) w = (Inr y, w') \<longleftrightarrow> f (fst s) (snd s) w = (Inr y, w')"
  by (cases s) auto

lemma tx_if_Inr:
  "(if c then m else n) w = (Inr y, w') \<longleftrightarrow> (c \<and> m w = (Inr y, w')) \<or> (\<not> c \<and> n w = (Inr y, w'))"
  by simp

lemmas tx_inverts =
  tx_case_sum_Inr tx_case_option_Inr tx_case_prod_Inr tx_if_Inr
  tx_bind_Inr tx_guard_Inr tx_wrap_Inr tx_replace_Inr tx_no_rows_Inr tx_map_error_Inr tx_try_Inr tx_lift_Inr tx_return_Inr tx_fail_Inr statement_Inr
  select_one_Inr select_all_Inr read_clock_Inr

lemma within_tx_Inr:
  "within_tx env action w = (Inr x, w') \<longleftrightarrow>
     te_context_given env \<and> te_beginner_given env \<and> te_context_error env = None \<and>
     te_begin env = BeginOk \<and> te_commit env = CommitOk \<and> action w = (Inr x, w')"
  by (auto simp: within_tx_def split: option.splits begin_outcome.splits prod.splits sum.splits
      commit_outcome.splits)

subsection \<open>Atomicity\<close>

text \<open>The tables of a world, without the sequences.\<close>

definition same_tables :: "world \<Rightarrow> world \<Rightarrow> bool" where
  "same_tables w w' \<longleftrightarrow> w_db w' = (w_db w)\<lparr>db_seqs := db_seqs (w_db w')\<rparr>"

lemma same_tables_refl [simp]: "same_tables w w"
  by (simp add: same_tables_def)

lemma same_tables_rolled_back [simp]: "same_tables w (rolled_back w w')"
  by (simp add: same_tables_def rolled_back_def)

text \<open>
  A transaction is all or nothing: it reports success only after its body succeeded and the
  commit was confirmed, with exactly the body's effect; and when it reports an error the tables
  are unchanged, unless the commit itself failed with an unknown outcome, which is the one case
  where the body's whole effect may have been applied.
\<close>

lemma within_tx_atomic:
  "case within_tx env action w of
     (Inr x, w') \<Rightarrow> action w = (Inr x, w') \<and> te_commit env = CommitOk
   | (Inl e, w') \<Rightarrow>
       same_tables w w' \<or>
       (\<exists>x d. action w = (Inr x, w') \<and> te_commit env = CommitFailed d True)"
  by (auto simp: within_tx_def split: option.splits begin_outcome.splits prod.splits sum.splits
      commit_outcome.splits)

text \<open>
  The interface between the transactions and a relation between the tables before and after:
  \<open>relates R m\<close> says that every run of the body, successful or not, moves the tables along \<open>R\<close>.
  A relation that is reflexive and transitive and does not look at sequences passes through every
  combinator and through the rollback, so a service moves the tables along it as soon as its
  statements do. An invariant is the relation that keeps it.
\<close>

definition relates :: "(forum_db \<Rightarrow> forum_db \<Rightarrow> bool) \<Rightarrow> 'a tx \<Rightarrow> bool" where
  "relates R m \<longleftrightarrow> (\<forall>w. R (w_db w) (w_db (snd (m w))))"

lemma relatesI: "(\<And>w. R (w_db w) (w_db (snd (m w)))) \<Longrightarrow> relates R m"
  by (simp add: relates_def)

lemma relatesD: "relates R m \<Longrightarrow> R (w_db w) (w_db (snd (m w)))"
  by (simp add: relates_def)

lemma snd_tx_wrap [simp]: "snd (tx_wrap msg m w) = snd (m w)"
  by (auto simp: tx_wrap_def split: prod.splits sum.splits)

lemma snd_tx_replace [simp]: "snd (tx_replace e m w) = snd (m w)"
  by (auto simp: tx_replace_def split: prod.splits sum.splits)

lemma snd_tx_no_rows [simp]: "snd (tx_no_rows e m w) = snd (m w)"
  by (auto simp: tx_no_rows_def split: prod.splits sum.splits)

lemma snd_tx_map_error [simp]: "snd (tx_map_error f m w) = snd (m w)"
  by (auto simp: tx_map_error_def split: prod.splits sum.splits)

locale table_relation =
  fixes R :: "forum_db \<Rightarrow> forum_db \<Rightarrow> bool"
  assumes R_refl: "R db db"
    and R_trans: "R db1 db2 \<Longrightarrow> R db2 db3 \<Longrightarrow> R db1 db3"
    and R_seqs: "R db (db\<lparr>db_seqs := s\<rparr>)"
begin

lemma relates_return [inv_intro]: "relates R (tx_return x)"
  by (simp add: relates_def tx_return_def R_refl)

lemma relates_fail [inv_intro]: "relates R (tx_fail e)"
  by (simp add: relates_def tx_fail_def R_refl)

lemma relates_guard [inv_intro]: "relates R (tx_guard c e)"
  by (simp add: relates_def tx_guard_def R_refl)

lemma relates_lift [inv_intro]: "relates R (tx_lift r)"
  by (simp add: relates_def tx_lift_def R_refl)

lemma relates_clock [inv_intro]: "relates R read_clock"
  by (auto simp: relates_def read_clock_def R_refl split: list.splits)

lemma relates_bind [inv_intro]:
  assumes m: "relates R m" and f: "\<And>x. relates R (f x)"
  shows "relates R (tx_bind m f)"
proof (rule relatesI)
  fix w :: world
  obtain r w1 where run: "m w = (r, w1)" by force
  show "R (w_db w) (w_db (snd (tx_bind m f w)))"
  proof (cases r)
    case (Inl e)
    then show ?thesis using relatesD [OF m, of w] run by (simp add: tx_bind_def)
  next
    case (Inr x)
    then show ?thesis
      using relatesD [OF m, of w] relatesD [OF f [of x], of w1] run
      by (auto simp: tx_bind_def intro: R_trans)
  qed
qed

lemma relates_wrap [inv_intro]: "relates R m \<Longrightarrow> relates R (tx_wrap msg m)"
  by (simp add: relates_def)

lemma relates_replace [inv_intro]: "relates R m \<Longrightarrow> relates R (tx_replace e m)"
  by (simp add: relates_def)

lemma relates_no_rows [inv_intro]: "relates R m \<Longrightarrow> relates R (tx_no_rows e m)"
  by (simp add: relates_def)

lemma relates_map_error [inv_intro]: "relates R m \<Longrightarrow> relates R (tx_map_error f m)"
  by (simp add: relates_def)

lemma relates_try [inv_intro]:
  assumes m: "relates R m" and h: "\<And>e. relates R (h e)" and f: "\<And>x. relates R (f x)"
  shows "relates R (tx_try m h f)"
proof (rule relatesI)
  fix w :: world
  obtain r w1 where run: "m w = (r, w1)" by force
  from relatesD [OF m, of w] run have first: "R (w_db w) (w_db w1)" by simp
  show "R (w_db w) (w_db (snd (tx_try m h f w)))"
  proof (cases r)
    case (Inl e)
    then show ?thesis using run relatesD [OF h [of e], of w1] by (auto simp: tx_try_def intro: R_trans [OF first])
  next
    case (Inr x)
    then show ?thesis using run relatesD [OF f [of x], of w1] by (auto simp: tx_try_def intro: R_trans [OF first])
  qed
qed

lemma relates_statement:
  assumes "\<And>db. R db (snd (q db))"
  shows "relates R (statement q)"
proof (rule relatesI)
  fix w :: world
  show "R (w_db w) (w_db (snd (statement q w)))"
    using assms [of "w_db w"] by (auto simp: statement_def Let_def R_refl split: prod.splits)
qed

lemma relates_select_one [inv_intro]: "relates R (select_one q)"
  unfolding select_one_def by (rule relates_statement) (simp add: R_refl)

lemma relates_select_all [inv_intro]: "relates R (select_all q)"
  unfolding select_all_def by (rule relates_statement) (simp add: R_refl)

lemma relates_if [inv_intro]: "relates R m \<Longrightarrow> relates R n \<Longrightarrow> relates R (if c then m else n)"
  by simp

lemma relates_case_prod [inv_intro]:
  "(\<And>a b. relates R (f a b)) \<Longrightarrow> relates R (case x of (a, b) \<Rightarrow> f a b)"
  by (simp split: prod.split)

lemma relates_case_option [inv_intro]:
  "relates R m \<Longrightarrow> (\<And>y. relates R (f y)) \<Longrightarrow> relates R (case x of None \<Rightarrow> m | Some y \<Rightarrow> f y)"
  by (simp split: option.split)

lemma relates_case_sum [inv_intro]:
  "(\<And>e. relates R (m e)) \<Longrightarrow> (\<And>y. relates R (f y)) \<Longrightarrow>
   relates R (case x of Inl e \<Rightarrow> m e | Inr y \<Rightarrow> f y)"
  by (simp split: sum.split)

lemma relates_within_tx [inv_intro]:
  assumes "relates R m"
  shows "relates R (within_tx env m)"
proof (rule relatesI)
  fix w :: world
  obtain r w1 where m: "m w = (r, w1)" by force
  have "R (w_db w) (w_db w1)"
    using relatesD [OF assms, of w] m by simp
  moreover have "R (w_db w) (w_db (rolled_back w w1))"
    by (simp add: rolled_back_def R_seqs)
  ultimately show "R (w_db w) (w_db (snd (within_tx env m w)))"
    using m by (auto simp: within_tx_def R_refl split: option.splits begin_outcome.splits sum.splits
        commit_outcome.splits)
qed

end

end
