(* ===== verification/Utf8.thy ===== *)
theory Utf8
  imports GoStrings
begin

text \<open>
  Go strings as UTF-8: what the code uses of \<open>unicode/utf8\<close>, \<open>unicode\<close> and \<open>strings\<close> on the runes
  of a string. A \<open>string\<close> is the list of its bytes; decoding yields one entry per rune, \<open>None\<close> for a
  byte that does not start a valid encoding (Go yields \<open>RuneError\<close> with width 1 there).
\<close>

definition cont_byte :: "int \<Rightarrow> bool" where
  "cont_byte b \<longleftrightarrow> 128 \<le> b \<and> b \<le> 191"

text \<open>The rune that starts at a byte, with the number of further bytes it takes.\<close>

definition first_rune :: "int \<Rightarrow> int list \<Rightarrow> int option \<times> nat" where
  "first_rune b rest =
     (if b < 128 then (Some b, 0)
      else if 194 \<le> b \<and> b \<le> 223
      then (case rest of c # _ \<Rightarrow> if cont_byte c then (Some ((b - 192) * 64 + (c - 128)), 1) else (None, 0)
            | _ \<Rightarrow> (None, 0))
      else if 224 \<le> b \<and> b \<le> 239
      then (case rest of c # d # _ \<Rightarrow>
              if cont_byte c \<and> cont_byte d \<and> (b = 224 \<longrightarrow> 160 \<le> c) \<and> (b = 237 \<longrightarrow> c \<le> 159)
              then (Some ((b - 224) * 4096 + (c - 128) * 64 + (d - 128)), 2) else (None, 0)
            | _ \<Rightarrow> (None, 0))
      else if 240 \<le> b \<and> b \<le> 244
      then (case rest of c # d # e # _ \<Rightarrow>
              if cont_byte c \<and> cont_byte d \<and> cont_byte e \<and> (b = 240 \<longrightarrow> 144 \<le> c) \<and> (b = 244 \<longrightarrow> c \<le> 143)
              then (Some ((b - 240) * 262144 + (c - 128) * 4096 + (d - 128) * 64 + (e - 128)), 3)
              else (None, 0)
            | _ \<Rightarrow> (None, 0))
      else (None, 0))"

function decode_runes :: "int list \<Rightarrow> int option list" where
  "decode_runes [] = []"
| "decode_runes (b # rest) = fst (first_rune b rest) # decode_runes (drop (snd (first_rune b rest)) rest)"
  by pat_completeness auto
termination
  by (relation "measure length") auto

definition runes :: "string \<Rightarrow> int option list" where
  "runes s = decode_runes (map of_char s)"

text \<open>\<open>utf8.ValidString\<close> and \<open>utf8.RuneCountInString\<close>.\<close>

definition valid_utf8 :: "string \<Rightarrow> bool" where
  "valid_utf8 s = list_all (\<lambda>r. r \<noteq> None) (runes s)"

definition rune_count :: "string \<Rightarrow> int" where
  "rune_count s = int (length (runes s))"

text \<open>\<open>unicode.IsControl\<close> and \<open>unicode.IsSpace\<close>; \<open>RuneError\<close> is neither.\<close>

definition is_control :: "int option \<Rightarrow> bool" where
  "is_control r = (case r of None \<Rightarrow> False | Some c \<Rightarrow> c < 32 \<or> 127 \<le> c \<and> c < 160)"

definition is_space :: "int option \<Rightarrow> bool" where
  "is_space r = (case r of None \<Rightarrow> False
     | Some c \<Rightarrow> 9 \<le> c \<and> c \<le> 13 \<or> c = 32 \<or> c = 133 \<or> c = 160 \<or> c = 5760 \<or>
                 8192 \<le> c \<and> c \<le> 8202 \<or> c = 8232 \<or> c = 8233 \<or> c = 8239 \<or> c = 8287 \<or> c = 12288)"

text \<open>\<open>strings.TrimSpace(s) == ""\<close> and \<open>strings.IndexFunc(s, unicode.IsControl) >= 0\<close>.\<close>

definition blank :: "string \<Rightarrow> bool" where
  "blank s = list_all is_space (runes s)"

definition has_control :: "string \<Rightarrow> bool" where
  "has_control s = list_ex is_control (runes s)"

text \<open>\<open>strings.TrimSpace(s) == s\<close> for a valid string.\<close>

definition is_trimmed :: "string \<Rightarrow> bool" where
  "is_trimmed s =
     (let r = runes s in r = [] \<or> \<not> is_space (hd r) \<and> \<not> is_space (last r))"

lemma length_decode_runes: "length (decode_runes bs) \<le> length bs"
proof (induction bs rule: decode_runes.induct)
  case (2 b rest)
  then show ?case
    by (simp only: decode_runes.simps list.size length_drop)
qed simp

text \<open>A string of plain ASCII bytes decodes to its bytes.\<close>

lemma decode_runes_ascii: "\<forall>b \<in> set bs. b < 128 \<Longrightarrow> decode_runes bs = map Some bs"
  by (induction bs) (simp_all add: first_rune_def)

lemma rune_count_le: "rune_count s \<le> int (length s)"
  using length_decode_runes [of "map of_char s"] by (simp add: rune_count_def runes_def)

end
