(* ===== verification/Publish.thy ===== *)
theory Publish
  imports Policy Publication Tx Utf8
begin

text \<open>
  Publishing, \<open>internal/forum/publish.go\<close> over the statements of
  \<open>internal/store/db/publishing.sql.go\<close> and the thread trigger of
  \<open>migrations/000005_threaded_posts.sql\<close>: validation of the submitted fields, the revalidation of
  the actor under its row lock, the durable admission, and the two transactions that insert a
  topic with its first post or a reply.

  The Markdown renderer (\<open>render.RenderMarkdownForPublication\<close> for the destination policy in
  force) and the NFC normalisation of \<open>golang.org/x/text\<close> are arguments.
\<close>

subsection \<open>Draft validation\<close>

record rendered_markdown =
  rm_html :: string
  rm_search_text :: string

definition RendererVersion :: string where
  "RendererVersion = ''goldmark-v1.8.5-gfm-bluemonday-v1.0.27-p2''"

definition SearchProjectionVersion :: string where
  "SearchProjectionVersion = ''search-v1-pg17-simple-u15-p2''"

definition PersistenceValues :: "rendered_markdown \<Rightarrow> go_error + (string \<times> string)" where
  "PersistenceValues r =
     (if rm_html r = '''' then Inl (Fail ''rendered Markdown is not initialized'')
      else Inr (rm_html r, RendererVersion))"

definition SearchProjectionValues :: "rendered_markdown \<Rightarrow> go_error + (string \<times> string)" where
  "SearchProjectionValues r =
     (if rm_html r = '''' then Inl (Fail ''rendered Markdown is not initialized'')
      else Inr (rm_search_text r, SearchProjectionVersion))"

definition validTopicTitle :: "string \<Rightarrow> bool" where
  "validTopicTitle title =
     (if \<not> valid_utf8 title \<or> blank title then False
      else rune_count title \<le> 200 \<and> \<not> has_control title)"

definition validateTopicDraftFields :: "string \<Rightarrow> string \<Rightarrow> go_error + unit" where
  "validateTopicDraftFields areaSlug title =
     (if \<not> ValidAreaSlug areaSlug then Inl (InvalidPublishingInput ''area'')
      else if \<not> validTopicTitle title then Inl (InvalidPublishingInput ''title'')
      else Inr ())"

type_synonym renderer = "string \<Rightarrow> go_error + rendered_markdown"

definition renderPublishingDraft :: "renderer \<Rightarrow> string \<Rightarrow> go_error + rendered_markdown" where
  "renderPublishingDraft render markdown =
     (case render markdown of
        Inl e \<Rightarrow> if err_is e BlockedDestinationClass then Inl BlockedDestinationError
                 else Inl (InvalidPublishingInput ''markdown'')
      | Inr r \<Rightarrow> Inr r)"

definition RenderTopicDraft :: "renderer \<Rightarrow> string \<Rightarrow> string \<Rightarrow> string \<Rightarrow> go_error + rendered_markdown" where
  "RenderTopicDraft render areaSlug title markdown =
     (case validateTopicDraftFields areaSlug title of
        Inl e \<Rightarrow> Inl e
      | Inr _ \<Rightarrow> renderPublishingDraft render markdown)"

definition publishingRole :: "string \<Rightarrow> role option" where
  "publishingRole value =
     (if value = ''member'' then Some RoleMember
      else if value = ''moderator'' then Some RoleModerator
      else if value = ''administrator'' then Some RoleAdministrator
      else None)"

text \<open>The clock of the process, for edits and deletions; \<open>now.IsZero()\<close> is the zero time.\<close>

definition publishingTime :: "gotime \<Rightarrow> go_error + tstamp" where
  "publishingTime now =
     (if now = zero_time then Inl (Fail ''publishing clock returned a zero time'')
      else Inr (At (truncate_us now)))"

subsection \<open>The actor under its lock\<close>

record locked_actor =
  la_user :: user_row
  la_observed_at :: tstamp

definition LockPublicationActor :: "int \<Rightarrow> locked_actor tx" where
  "LockPublicationActor actor_id =
     tx_bind (select_one (\<lambda>db. find (\<lambda>u. u_id u = actor_id \<and> u_sync_state u = ''accepted'') (db_users db)))
       (\<lambda>u. tx_bind read_clock (\<lambda>now. tx_return \<lparr>la_user = u, la_observed_at = At now\<rparr>))"

definition ListLockedPublicationActorGroupIDs :: "int \<Rightarrow> int list tx" where
  "ListLockedPublicationActorGroupIDs actor_id = select_all (\<lambda>db. group_ids_of_user db actor_id)"

text \<open>The two bands of checks on the locked row, and the strictly ascending group list.\<close>

definition locked_window_invalid :: "int \<Rightarrow> locked_actor \<Rightarrow> bool" where
  "locked_window_invalid actor_id l =
     (let u = la_user l in
      u_id u \<noteq> actor_id \<or> u_id u \<le> 0 \<or> \<not> finite_ts (Some (u_created_at u)) \<or>
      \<not> finite_ts (Some (la_observed_at l)) \<or> u_publication_count u < 0 \<or>
      u_publication_count u > 100000 \<or>
      (u_window_started_at u \<noteq> None) \<noteq> (u_publication_count u > 0) \<or>
      (u_window_started_at u \<noteq> None \<and>
        (\<not> finite_ts (u_window_started_at u) \<or>
         ts_time (u_window_started_at u) < ts_time (Some (u_created_at u)))))"

definition locked_restrictions_invalid :: "locked_actor \<Rightarrow> bool" where
  "locked_restrictions_invalid l =
     (let u = la_user l; created = ts_time (Some (u_created_at u)) in
      (u_suspended_at u \<noteq> None \<and> \<not> finite_ts (u_suspended_at u)) \<or>
      (u_suspended_until u \<noteq> None \<and> \<not> finite_ts (u_suspended_until u)) \<or>
      (u_muted_until u \<noteq> None \<and> \<not> finite_ts (u_muted_until u)) \<or>
      (u_suspended_until u \<noteq> None \<and> u_suspended_at u = None) \<or>
      (u_suspended_at u \<noteq> None \<and> ts_time (u_suspended_at u) < created) \<or>
      (u_suspended_until u \<noteq> None \<and> \<not> ts_time (u_suspended_until u) > ts_time (u_suspended_at u)) \<or>
      (u_muted_until u \<noteq> None \<and> \<not> ts_time (u_muted_until u) > created) \<or>
      ts_time (Some (la_observed_at l)) < created)"

fun ascending_ids :: "int option \<Rightarrow> int list \<Rightarrow> bool" where
  "ascending_ids prev [] = True"
| "ascending_ids prev (g # gs) =
     (if g \<le> 0 \<or> (case prev of None \<Rightarrow> False | Some p \<Rightarrow> g \<le> p) then False
      else ascending_ids (Some g) gs)"

definition locked_suspended :: "locked_actor \<Rightarrow> bool" where
  "locked_suspended l =
     (let u = la_user l; observed = ts_time (Some (la_observed_at l)) in
      u_suspended_at u \<noteq> None \<and> \<not> ts_time (u_suspended_at u) > observed \<and>
      (u_suspended_until u = None \<or> ts_time (u_suspended_until u) > observed))"

definition locked_muted :: "locked_actor \<Rightarrow> bool" where
  "locked_muted l =
     (u_muted_until (la_user l) \<noteq> None \<and>
      ts_time (u_muted_until (la_user l)) > ts_time (Some (la_observed_at l)))"

definition locked_context :: "locked_actor \<Rightarrow> role \<Rightarrow> int list \<Rightarrow> access_context" where
  "locked_context l role groups =
     \<lparr>ac_authenticated = True, ac_user_id = u_id (la_user l), ac_role = role, ac_group_ids = groups,
      ac_suspended = locked_suspended l,
      ac_muted_until = (if locked_muted l then Some (ts_time (u_muted_until (la_user l))) else None),
      ac_validated_at = zero_time\<rparr>"

definition lockPublicationActor :: "access_context \<Rightarrow> (access_context \<times> locked_actor) tx" where
  "lockPublicationActor actor =
     tx_bind (tx_no_rows (Sentinel PublishingDenied) (LockPublicationActor (ac_user_id actor))) (\<lambda>locked.
     tx_bind (tx_guard (locked_window_invalid (ac_user_id actor) locked) (Sentinel PublishingDenied)) (\<lambda>_.
     case publishingRole (u_role (la_user locked)) of
       None \<Rightarrow> tx_fail (Sentinel PublishingDenied)
     | Some role \<Rightarrow>
         tx_bind (tx_guard (role \<noteq> ac_role actor) (Sentinel PublishingDenied)) (\<lambda>_.
         tx_bind (tx_guard (locked_restrictions_invalid locked) (Sentinel PublishingDenied)) (\<lambda>_.
         tx_bind (ListLockedPublicationActorGroupIDs (ac_user_id actor)) (\<lambda>groups.
         tx_bind (tx_guard (\<not> ascending_ids None groups) (Sentinel PublishingDenied)) (\<lambda>_.
         tx_bind (tx_guard (\<not> Valid (locked_context locked role groups)) (Sentinel PublishingDenied)) (\<lambda>_.
         tx_return (locked_context locked role groups, locked))))))))"

subsection \<open>Admission\<close>

definition ReplacePublicationWindow :: "gotime \<Rightarrow> int \<Rightarrow> int \<Rightarrow> (tstamp option \<times> int) tx" where
  "ReplacePublicationWindow started count actor_id =
     statement (\<lambda>db.
       case find_user db actor_id of
         None \<Rightarrow> (Inl (Sentinel NoRows), db)
       | Some _ \<Rightarrow>
           (Inr (Some (At (truncate_us started)), count),
            db\<lparr>db_users := upd_where (\<lambda>u. u_id u = actor_id)
                 (\<lambda>u. u\<lparr>u_window_started_at := Some (At (truncate_us started)), u_publication_count := count\<rparr>)
                 (db_users db)\<rparr>))"

definition admitPublication :: "publication_policy \<Rightarrow> locked_actor \<Rightarrow> tstamp tx" where
  "admitPublication p locked =
     tx_bind (tx_wrap ''read publication database time'' (statement (\<lambda>db. (Inr (), db)))) (\<lambda>_.
     tx_bind (tx_wrap ''read publication database time'' read_clock) (\<lambda>now.
     case DecidePublication p (ts_time (Some (u_created_at (la_user locked)))) now
            (map_option (\<lambda>t. ts_time (Some t)) (u_window_started_at (la_user locked)))
            (u_publication_count (la_user locked)) of
       Inl e \<Rightarrow> tx_fail (Wrap ''decide publication admission'' e)
     | Inr d \<Rightarrow>
         tx_bind (tx_guard (RetryAfterSeconds d > 0) (PublicationRateLimitError (RetryAfterSeconds d))) (\<lambda>_.
         tx_bind (tx_wrap ''replace publication window''
                   (ReplacePublicationWindow (pd_started_at d) (pd_count d) (u_id (la_user locked)))) (\<lambda>replaced.
         tx_bind (tx_guard (\<not> finite_ts (fst replaced) \<or> ts_time (fst replaced) \<noteq> pd_started_at d \<or>
                            snd replaced \<noteq> pd_count d)
                   (Fail ''publication window update returned an invalid result'')) (\<lambda>_.
         tx_return (At (truncate_us now)))))))"

subsection \<open>Areas\<close>

definition ListAreaGroupIDsForPublication :: "int \<Rightarrow> int list tx" where
  "ListAreaGroupIDsForPublication area = select_all (\<lambda>db. group_ids_of_area db area)"

definition lockedAreaPolicy :: "int \<Rightarrow> string \<Rightarrow> string \<Rightarrow> area_policy tx" where
  "lockedAreaPolicy area visibility mode =
     tx_bind (tx_wrap ''read area group mappings'' (ListAreaGroupIDsForPublication area)) (\<lambda>groups.
     tx_return \<lparr>ap_visibility = visibility, ap_posting_mode = mode, ap_group_ids = groups\<rparr>)"

definition LockAreaForTopicCreation :: "string \<Rightarrow> area_row tx" where
  "LockAreaForTopicCreation slug = select_one (\<lambda>db. find_area_slug db slug)"

subsection \<open>Insertion\<close>

text \<open>
  The row trigger \<open>gotth_prepare_post_thread\<close>: the thread path of a new post, from its number,
  its parent and the path the insert names, or the exception the trigger raises.
\<close>

definition prepare_post_thread ::
  "forum_db \<Rightarrow> int \<Rightarrow> int \<Rightarrow> int option \<Rightarrow> int list option \<Rightarrow> go_error + (int option \<times> int list)" where
  "prepare_post_thread db topic number parent path =
     (let fault = (\<lambda>m. Inl (DbFault m));
          finish = (\<lambda>par expected.
            if length expected > 32 then Inl (DbFault ''reply depth exceeds 32 levels'')
            else case path of
              None \<Rightarrow> Inr (par, expected)
            | Some given \<Rightarrow> if given \<noteq> expected then Inl (DbFault ''post thread path is inconsistent'')
                            else Inr (par, expected))
      in if number = 1
      then (if parent \<noteq> None then fault ''topic root cannot have a parent'' else finish None [1])
      else case (case parent of Some p \<Rightarrow> Some p | None \<Rightarrow> map_option t_first_post_id (find_topic db topic)) of
        None \<Rightarrow> fault ''reply topic does not exist''
      | Some p \<Rightarrow>
          (case find (\<lambda>r. p_topic_id r = topic \<and> p_id r = p) (db_posts db) of
             None \<Rightarrow> fault ''reply parent does not belong to topic''
           | Some r \<Rightarrow> finish (Some p) (p_path r @ [number])))"

record publish_result =
  pr_topic_id :: int
  pr_post_id :: int
  pr_post_number :: int
  pr_node_ordinal :: int

record new_body =
  nb_markdown :: string
  nb_html :: string
  nb_renderer :: string
  nb_search_text :: string
  nb_search_version :: string

definition new_post ::
  "int \<Rightarrow> int \<Rightarrow> int \<Rightarrow> int \<Rightarrow> new_body \<Rightarrow> int option \<Rightarrow> int list \<Rightarrow> tstamp \<Rightarrow> post_row" where
  "new_post i topic author number body parent path stamp =
     \<lparr>p_id = i, p_topic_id = topic, p_author_id = author, p_number = number,
      p_markdown = nb_markdown body, p_html = nb_html body, p_renderer = nb_renderer body,
      p_search_text = nb_search_text body, p_search_version = Some (nb_search_version body),
      p_revision = 1, p_parent = parent, p_path = path, p_created_at = stamp, p_updated_at = stamp,
      p_edited_at = None, p_deleted_at = None, p_deleted_by = None, p_deletion_reason = None,
      p_redacted_at = None, p_redacted_by = None, p_redaction_reason = None\<rparr>"

definition new_topic ::
  "int \<Rightarrow> int \<Rightarrow> int \<Rightarrow> string \<Rightarrow> int \<Rightarrow> string \<Rightarrow> string \<Rightarrow> tstamp \<Rightarrow> topic_row" where
  "new_topic i area author title post search version stamp =
     \<lparr>t_id = i, t_area_id = area, t_author_id = author, t_title = title, t_slug = None,
      t_state = ''open'', t_first_post_id = post, t_latest_post_id = post, t_reply_count = 0,
      t_next_post_number = 2, t_pinned_at = None, t_created_at = stamp, t_updated_at = stamp,
      t_last_activity_at = stamp, t_deleted_at = None, t_search_text = search,
      t_search_version = Some version\<rparr>"

text \<open>
  Primary keys are unique: inserting an identifier that is taken is a constraint violation, and
  so is a second post with a number the topic already has.
\<close>

definition topic_key_taken :: "forum_db \<Rightarrow> int \<Rightarrow> bool" where
  "topic_key_taken db i = list_ex (\<lambda>r. t_id r = i) (db_topics db)"

definition post_key_taken :: "forum_db \<Rightarrow> int \<Rightarrow> int \<Rightarrow> int \<Rightarrow> bool" where
  "post_key_taken db i topic number =
     list_ex (\<lambda>r. p_id r = i \<or> p_topic_id r = topic \<and> p_number r = number) (db_posts db)"

definition insert_topic ::
  "int \<Rightarrow> int \<Rightarrow> string \<Rightarrow> string \<Rightarrow> tstamp \<Rightarrow> new_body \<Rightarrow> forum_db \<Rightarrow> (go_error + publish_result) \<times> forum_db"
where
  "insert_topic area author title title_search stamp body db =
      (let (topic_id, db1) = nextval TopicSeq db;
           (post_id, db2) = nextval PostSeq db1
       in if topic_key_taken db2 topic_id \<or> post_key_taken db2 post_id topic_id 1
          then (Inl (DbFault ''duplicate key''), db2)
          else case prepare_post_thread db2 topic_id 1 None (Some [1]) of
            Inl e \<Rightarrow> (Inl e, db2)
          | Inr (parent, path) \<Rightarrow>
              (Inr \<lparr>pr_topic_id = topic_id, pr_post_id = post_id, pr_post_number = 1, pr_node_ordinal = 1\<rparr>,
               db2\<lparr>db_topics := db_topics db2 @
                     [new_topic topic_id area author title post_id title_search (nb_search_version body) stamp],
                   db_posts := db_posts db2 @
                     [new_post post_id topic_id author 1 body parent path stamp]\<rparr>))"

definition CreateTopicAndFirstPost ::
  "int \<Rightarrow> int \<Rightarrow> string \<Rightarrow> string \<Rightarrow> tstamp \<Rightarrow> new_body \<Rightarrow> publish_result tx" where
  "CreateTopicAndFirstPost area author title title_search stamp body =
     statement (insert_topic area author title title_search stamp body)"

text \<open>
  The parts of one statement read the tables as they were before it: the ordinal counts the older
  posts and adds one for the new post.
\<close>

definition insert_reply ::
  "int \<Rightarrow> new_body \<Rightarrow> int \<Rightarrow> tstamp \<Rightarrow> int \<Rightarrow> forum_db \<Rightarrow> (go_error + publish_result) \<times> forum_db" where
  "insert_reply author body parent_id stamp topic_id db =
      (case find_topic db topic_id of
         None \<Rightarrow> (Inl (Sentinel NoRows), db)
       | Some t \<Rightarrow>
           let (post_id, db1) = nextval PostSeq db;
               number = t_next_post_number t;
               created = max stamp (t_last_activity_at t)
           in if number + 1 > max_int32 then (Inl (DbFault ''integer out of range''), db1)
              else if post_key_taken db1 post_id topic_id number then (Inl (DbFault ''duplicate key''), db1)
              else case prepare_post_thread db1 topic_id number (Some parent_id) None of
                Inl e \<Rightarrow> (Inl e, db1)
              | Inr (parent, path) \<Rightarrow>
                  (Inr \<lparr>pr_topic_id = topic_id, pr_post_id = post_id, pr_post_number = number,
                        pr_node_ordinal = 1 + shown_count (topic_posts db topic_id) path\<rparr>,
                   db1\<lparr>db_topics := upd_where (\<lambda>r. t_id r = topic_id)
                         (\<lambda>r. r\<lparr>t_latest_post_id := post_id, t_reply_count := number - 1,
                               t_next_post_number := number + 1, t_updated_at := created,
                               t_last_activity_at := created\<rparr>)
                         (db_topics db1),
                       db_posts := db_posts db1 @
                         [new_post post_id topic_id author number body parent path created]\<rparr>))"

definition CreateReplyAndAdvanceTopic ::
  "int \<Rightarrow> new_body \<Rightarrow> int \<Rightarrow> tstamp \<Rightarrow> int \<Rightarrow> publish_result tx" where
  "CreateReplyAndAdvanceTopic author body parent_id stamp topic_id =
     statement (insert_reply author body parent_id stamp topic_id)"

subsection \<open>The services\<close>

text \<open>What the services are built with: the transaction machinery and the text libraries.\<close>

record publish_env =
  pe_tx :: tx_env
  pe_destination_valid :: bool
  pe_render :: renderer
  pe_nfc :: "string \<Rightarrow> string"

definition ConfigurePublicationTransaction :: "unit tx" where
  "ConfigurePublicationTransaction = select_all (\<lambda>db. ())"

definition load_policy :: "string \<Rightarrow> publication_policy tx \<Rightarrow> publication_policy tx" where
  "load_policy what loader =
     tx_bind (tx_replace (Fail (''load '' @ what @ '' publication policy failed'')) loader) (\<lambda>p.
     tx_bind (tx_guard (\<not> PublicationPolicyValid p)
               (Fail (''load '' @ what @ '' publication policy failed''))) (\<lambda>_.
     tx_return p))"

definition context_error :: "string \<Rightarrow> tx_env \<Rightarrow> unit tx" where
  "context_error msg env =
     (case te_context_error env of None \<Rightarrow> tx_return () | Some e \<Rightarrow> tx_fail (Wrap msg e))"

definition rendered_body :: "string \<Rightarrow> string \<Rightarrow> rendered_markdown \<Rightarrow> go_error + new_body" where
  "rendered_body what markdown r =
     (case PersistenceValues r of
        Inl e \<Rightarrow> Inl (Wrap (''create '' @ what @ '' body persistence'') e)
      | Inr (html, renderer) \<Rightarrow>
          (case SearchProjectionValues r of
             Inl e \<Rightarrow> Inl (Wrap (''create '' @ what @ '' search projection'') e)
           | Inr (search, version) \<Rightarrow>
               Inr \<lparr>nb_markdown = markdown, nb_html = html, nb_renderer = renderer,
                    nb_search_text = search, nb_search_version = version\<rparr>))"

definition createTopic_body ::
  "(string \<Rightarrow> string) \<Rightarrow> publication_policy tx \<Rightarrow> access_context \<Rightarrow> string \<Rightarrow> string \<Rightarrow> new_body \<Rightarrow> publish_result tx"
where
  "createTopic_body nfc loader actor areaSlug title body =
     tx_bind (tx_wrap ''configure topic publication transaction'' ConfigurePublicationTransaction) (\<lambda>_.
     tx_bind (load_policy ''topic'' loader) (\<lambda>p.
     tx_bind (tx_wrap ''lock topic publication actor'' (lockPublicationActor actor)) (\<lambda>(current, locked).
     tx_bind (tx_wrap ''lock topic area'' (LockAreaForTopicCreation areaSlug)) (\<lambda>area.
     tx_bind (tx_guard (a_id area \<le> 0) (Fail ''topic area lock returned an invalid result'')) (\<lambda>_.
     tx_bind (tx_wrap ''load topic area policy''
               (lockedAreaPolicy (a_id area) (a_visibility area) (a_posting_mode area))) (\<lambda>ap.
     tx_bind (tx_guard (\<not> CanCreateTopic current ap) (Sentinel PublishingDenied)) (\<lambda>_.
     tx_bind (admitPublication p locked) (\<lambda>stamp.
     tx_bind (tx_wrap ''insert topic and first post''
               (CreateTopicAndFirstPost (a_id area) (ac_user_id current) title (nfc title) stamp body)) (\<lambda>created.
     tx_bind (tx_guard (pr_topic_id created \<le> 0 \<or> pr_post_id created \<le> 0 \<or> pr_post_number created \<noteq> 1 \<or>
                        pr_node_ordinal created \<noteq> 1)
               (Fail ''topic creation returned an invalid result'')) (\<lambda>_.
     tx_return created))))))))))"

definition createTopic ::
  "publish_env \<Rightarrow> publication_policy tx option \<Rightarrow> access_context \<Rightarrow> string \<Rightarrow> string \<Rightarrow> string \<Rightarrow> publish_result tx"
where
  "createTopic env loader actor areaSlug title markdown =
     tx_bind (tx_guard (\<not> te_context_given (pe_tx env)) (Fail ''create topic context is required'')) (\<lambda>_.
     tx_bind (tx_guard (\<not> te_beginner_given (pe_tx env))
               (Fail ''create topic transaction beginner is required'')) (\<lambda>_.
     case loader of
       None \<Rightarrow> tx_fail (Fail ''create topic publication policy loader is required'')
     | Some load \<Rightarrow>
         tx_bind (tx_guard (\<not> pe_destination_valid env) (Fail ''create topic destination policy is invalid'')) (\<lambda>_.
         tx_bind (tx_guard (\<not> Valid actor \<or> \<not> ac_authenticated actor) (Fail ''create topic actor is invalid'')) (\<lambda>_.
         tx_bind (tx_lift (validateTopicDraftFields areaSlug title)) (\<lambda>_.
         tx_bind (context_error ''create topic'' (pe_tx env)) (\<lambda>_.
         tx_bind (tx_lift (renderPublishingDraft (pe_render env) markdown)) (\<lambda>rendered.
         tx_bind (tx_lift (rendered_body ''topic'' markdown rendered)) (\<lambda>body.
         tx_wrap ''create topic transaction''
           (within_tx (pe_tx env) (createTopic_body (pe_nfc env) load actor areaSlug title body))))))))))"

text \<open>\<open>CreateTopic\<close> with a fixed policy.\<close>

definition CreateTopic ::
  "publish_env \<Rightarrow> publication_policy \<Rightarrow> access_context \<Rightarrow> string \<Rightarrow> string \<Rightarrow> string \<Rightarrow> publish_result tx"
where
  "CreateTopic env p actor areaSlug title markdown =
     tx_bind (tx_guard (\<not> PublicationPolicyValid p) (Fail ''create topic publication policy is invalid'')) (\<lambda>_.
     createTopic env (Some (tx_return p)) actor areaSlug title markdown)"

record locked_reply_topic =
  lr_topic :: topic_row
  lr_area :: area_row
  lr_parent_id :: int
  lr_parent_depth :: int

definition LockTopicForReply :: "int \<Rightarrow> int \<Rightarrow> locked_reply_topic tx" where
  "LockTopicForReply parent_id topic_id =
     select_one (\<lambda>db.
       case find (\<lambda>t. t_id t = topic_id \<and> t_deleted_at t = None) (db_topics db) of
         None \<Rightarrow> None
       | Some t \<Rightarrow>
           (case find_area db (t_area_id t) of
              None \<Rightarrow> None
            | Some a \<Rightarrow>
                map_option (\<lambda>p. \<lparr>lr_topic = t, lr_area = a, lr_parent_id = p_id p,
                                 lr_parent_depth = int (length (p_path p))\<rparr>)
                  (find (\<lambda>p. p_topic_id p = t_id t \<and> p_id p = parent_id \<and> p_deleted_at p = None)
                     (db_posts db))))"

definition MaximumReplyDepth :: int where "MaximumReplyDepth = 32"

definition createReply_body ::
  "publication_policy tx \<Rightarrow> access_context \<Rightarrow> int \<Rightarrow> int \<Rightarrow> new_body \<Rightarrow> publish_result tx"
where
  "createReply_body loader actor topicID parentPostID body =
     tx_bind (tx_wrap ''configure reply publication transaction'' ConfigurePublicationTransaction) (\<lambda>_.
     tx_bind (load_policy ''reply'' loader) (\<lambda>p.
     tx_bind (tx_wrap ''lock reply publication actor'' (lockPublicationActor actor)) (\<lambda>(current, locked).
     tx_bind (tx_wrap ''lock reply topic'' (LockTopicForReply parentPostID topicID)) (\<lambda>topic.
     tx_bind (tx_guard (t_id (lr_topic topic) \<noteq> topicID \<or> a_id (lr_area topic) \<le> 0 \<or>
                        lr_parent_id topic \<noteq> parentPostID \<or> lr_parent_depth topic < 1 \<or>
                        lr_parent_depth topic \<ge> MaximumReplyDepth)
               (Fail ''reply topic lock returned an invalid result'')) (\<lambda>_.
     tx_bind (tx_wrap ''load reply area policy''
               (lockedAreaPolicy (a_id (lr_area topic)) (a_visibility (lr_area topic))
                  (a_posting_mode (lr_area topic)))) (\<lambda>ap.
     tx_bind (tx_guard (\<not> CanReply current ap (t_state (lr_topic topic))) (Sentinel PublishingDenied)) (\<lambda>_.
     tx_bind (admitPublication p locked) (\<lambda>stamp.
     tx_bind (tx_wrap ''insert reply and advance topic''
               (CreateReplyAndAdvanceTopic (ac_user_id current) body parentPostID stamp topicID)) (\<lambda>created.
     tx_bind (tx_guard (pr_topic_id created \<noteq> topicID \<or> pr_post_id created \<le> 0 \<or>
                        pr_post_number created < 2 \<or> pr_node_ordinal created < 2)
               (Fail ''reply creation returned an invalid result'')) (\<lambda>_.
     tx_return created))))))))))"

definition createReply ::
  "publish_env \<Rightarrow> publication_policy tx option \<Rightarrow> access_context \<Rightarrow> int \<Rightarrow> int \<Rightarrow> string \<Rightarrow> publish_result tx"
where
  "createReply env loader actor topicID parentPostID markdown =
     tx_bind (tx_guard (\<not> te_context_given (pe_tx env)) (Fail ''create reply context is required'')) (\<lambda>_.
     tx_bind (tx_guard (\<not> te_beginner_given (pe_tx env))
               (Fail ''create reply transaction beginner is required'')) (\<lambda>_.
     case loader of
       None \<Rightarrow> tx_fail (Fail ''create reply publication policy loader is required'')
     | Some load \<Rightarrow>
         tx_bind (tx_guard (\<not> pe_destination_valid env) (Fail ''create reply destination policy is invalid'')) (\<lambda>_.
         tx_bind (tx_guard (\<not> Valid actor \<or> \<not> ac_authenticated actor) (Fail ''create reply actor is invalid'')) (\<lambda>_.
         tx_bind (tx_guard (topicID \<le> 0) (InvalidPublishingInput ''topic'')) (\<lambda>_.
         tx_bind (tx_guard (parentPostID \<le> 0) (InvalidPublishingInput ''parent'')) (\<lambda>_.
         tx_bind (context_error ''create reply'' (pe_tx env)) (\<lambda>_.
         tx_bind (tx_lift (renderPublishingDraft (pe_render env) markdown)) (\<lambda>rendered.
         tx_bind (tx_lift (rendered_body ''reply'' markdown rendered)) (\<lambda>body.
         tx_wrap ''create reply transaction''
           (within_tx (pe_tx env) (createReply_body load actor topicID parentPostID body)))))))))))"

definition CreateReply ::
  "publish_env \<Rightarrow> publication_policy \<Rightarrow> access_context \<Rightarrow> int \<Rightarrow> int \<Rightarrow> string \<Rightarrow> publish_result tx"
where
  "CreateReply env p actor topicID parentPostID markdown =
     tx_bind (tx_guard (\<not> PublicationPolicyValid p) (Fail ''create reply publication policy is invalid'')) (\<lambda>_.
     createReply env (Some (tx_return p)) actor topicID parentPostID markdown)"

end
