(* ===== verification/Editing.thy ===== *)
theory Editing
  imports Publish
begin

text \<open>
  Editing and deleting one's own post, \<open>internal/forum/edit.go\<close> and \<open>delete.go\<close> over
  \<open>internal/store/db/editing.sql.go\<close>, with the read of the editable source.
\<close>

definition maximumPostRevision :: int where "maximumPostRevision = max_int32"

record locked_post =
  lp_post :: post_row
  lp_topic :: topic_row
  lp_area :: area_row

text \<open>The post with its live topic and its area; the join all the post statements share.\<close>

definition live_post :: "forum_db \<Rightarrow> int \<Rightarrow> locked_post option" where
  "live_post db i =
     (case find (\<lambda>p. p_id p = i \<and> p_deleted_at p = None) (db_posts db) of
        None \<Rightarrow> None
      | Some p \<Rightarrow>
          (case find (\<lambda>t. t_id t = p_topic_id p \<and> t_deleted_at t = None) (db_topics db) of
             None \<Rightarrow> None
           | Some t \<Rightarrow> map_option (\<lambda>a. \<lparr>lp_post = p, lp_topic = t, lp_area = a\<rparr>) (find_area db (t_area_id t))))"

definition LockPostForEdit :: "int \<Rightarrow> locked_post tx" where
  "LockPostForEdit postID = select_one (\<lambda>db. live_post db postID)"

record edit_result =
  er_topic_id :: int
  er_post_id :: int
  er_post_number :: int
  er_node_ordinal :: int
  er_revision :: int

text \<open>\<open>GREATEST(at, updated_at, COALESCE(edited_at, '-infinity'))\<close>.\<close>

definition edit_stamp :: "tstamp \<Rightarrow> post_row \<Rightarrow> tstamp" where
  "edit_stamp stamp p =
     max (max stamp (p_updated_at p)) (case p_edited_at p of None \<Rightarrow> NegInfinity | Some e \<Rightarrow> e)"

definition UpdatePostRevision :: "new_body \<Rightarrow> tstamp \<Rightarrow> int \<Rightarrow> int \<Rightarrow> edit_result tx" where
  "UpdatePostRevision body stamp postID expected =
     statement (\<lambda>db.
       let hit = (\<lambda>p. p_id p = postID \<and> p_revision p = expected \<and> p_deleted_at p = None) in
       case find hit (db_posts db) of
         None \<Rightarrow> (Inl (Sentinel NoRows), db)
       | Some p \<Rightarrow>
           if p_revision p + 1 > max_int32 then (Inl (DbFault ''integer out of range''), db)
           else
             (Inr \<lparr>er_topic_id = p_topic_id p, er_post_id = p_id p, er_post_number = p_number p,
                   er_node_ordinal = shown_count (topic_posts db (p_topic_id p)) (p_path p),
                   er_revision = p_revision p + 1\<rparr>,
              db\<lparr>db_posts := upd_where hit
                   (\<lambda>q. q\<lparr>p_markdown := nb_markdown body, p_html := nb_html body,
                         p_renderer := nb_renderer body, p_search_text := nb_search_text body,
                         p_search_version := Some (nb_search_version body),
                         p_revision := p_revision q + 1, p_updated_at := edit_stamp stamp q,
                         p_edited_at := Some (edit_stamp stamp q)\<rparr>)
                   (db_posts db)\<rparr>))"

definition locked_post_invalid :: "int \<Rightarrow> locked_post \<Rightarrow> bool" where
  "locked_post_invalid postID l =
     (p_id (lp_post l) \<noteq> postID \<or> p_author_id (lp_post l) \<le> 0 \<or> p_revision (lp_post l) \<le> 0 \<or>
      t_id (lp_topic l) \<le> 0 \<or> p_number (lp_post l) \<le> 0 \<or> a_id (lp_area l) \<le> 0)"

definition may_edit_locked :: "access_context \<Rightarrow> area_policy \<Rightarrow> locked_post \<Rightarrow> bool" where
  "may_edit_locked actor ap l =
     (CanViewArea actor ap \<and> CanViewTopic actor (t_state (lp_topic l)) \<and>
      CanEditPost actor (p_author_id (lp_post l)) PostVisible)"

definition editPost_body ::
  "access_context \<Rightarrow> int \<Rightarrow> int \<Rightarrow> new_body \<Rightarrow> tstamp \<Rightarrow> edit_result tx"
where
  "editPost_body actor postID expected body stamp =
     tx_bind (tx_wrap ''lock post for edit'' (LockPostForEdit postID)) (\<lambda>locked.
     tx_bind (tx_guard (locked_post_invalid postID locked) (Fail ''post edit lock returned an invalid result'')) (\<lambda>_.
     tx_bind (tx_wrap ''load post edit area policy''
               (lockedAreaPolicy (a_id (lp_area locked)) (a_visibility (lp_area locked))
                  (a_posting_mode (lp_area locked)))) (\<lambda>ap.
     tx_bind (tx_guard (\<not> may_edit_locked actor ap locked) (Sentinel PostEditDenied)) (\<lambda>_.
     tx_bind (tx_guard (p_revision (lp_post locked) \<noteq> expected) (Sentinel PostEditConflict)) (\<lambda>_.
     tx_bind (tx_wrap ''update post revision'' (UpdatePostRevision body stamp postID expected)) (\<lambda>updated.
     tx_bind (tx_guard (er_post_id updated \<noteq> postID \<or> er_topic_id updated \<noteq> t_id (lp_topic locked) \<or>
                        er_post_number updated \<noteq> p_number (lp_post locked) \<or>
                        er_node_ordinal updated \<le> 0 \<or> er_revision updated \<noteq> expected + 1)
               (Fail ''post edit returned an invalid result'')) (\<lambda>_.
     tx_return updated)))))))"

definition edit_rendered_body :: "string \<Rightarrow> rendered_markdown \<Rightarrow> go_error + new_body" where
  "edit_rendered_body markdown r =
     (case PersistenceValues r of
        Inl e \<Rightarrow> Inl (Wrap ''edit post body persistence'' e)
      | Inr (html, renderer) \<Rightarrow>
          (case SearchProjectionValues r of
             Inl e \<Rightarrow> Inl (Wrap ''edit post search projection'' e)
           | Inr (search, version) \<Rightarrow>
               Inr \<lparr>nb_markdown = markdown, nb_html = html, nb_renderer = renderer,
                    nb_search_text = search, nb_search_version = version\<rparr>))"

text \<open>The clock is the function given to the service; here the reading it returns.\<close>

definition EditPost ::
  "publish_env \<Rightarrow> gotime option \<Rightarrow> access_context \<Rightarrow> int \<Rightarrow> int \<Rightarrow> string \<Rightarrow> edit_result tx"
where
  "EditPost env clock actor postID expected markdown =
     tx_bind (tx_guard (\<not> te_context_given (pe_tx env)) (Fail ''edit post context is required'')) (\<lambda>_.
     tx_bind (tx_guard (\<not> te_beginner_given (pe_tx env))
               (Fail ''edit post transaction beginner is required'')) (\<lambda>_.
     case clock of
       None \<Rightarrow> tx_fail (Fail ''edit post clock is required'')
     | Some now \<Rightarrow>
         tx_bind (tx_guard (\<not> pe_destination_valid env) (Fail ''edit post destination policy is invalid'')) (\<lambda>_.
         tx_bind (tx_guard (\<not> Valid actor \<or> \<not> ac_authenticated actor) (Fail ''edit post actor is invalid'')) (\<lambda>_.
         tx_bind (tx_guard (postID \<le> 0) (InvalidPublishingInput ''post'')) (\<lambda>_.
         tx_bind (tx_guard (expected \<le> 0 \<or> expected = maximumPostRevision) (InvalidPublishingInput ''revision'')) (\<lambda>_.
         tx_bind (context_error ''edit post'' (pe_tx env)) (\<lambda>_.
         tx_bind (tx_lift (renderPublishingDraft (pe_render env) markdown)) (\<lambda>rendered.
         tx_bind (tx_lift (edit_rendered_body markdown rendered)) (\<lambda>body.
         tx_bind (tx_wrap ''edit post'' (tx_lift (publishingTime now))) (\<lambda>stamp.
         tx_wrap ''edit post transaction''
           (within_tx (pe_tx env) (editPost_body actor postID expected body stamp))))))))))))"

subsection \<open>Deletion\<close>

record delete_result =
  dr_topic_id :: int
  dr_post_id :: int
  dr_post_number :: int
  dr_revision :: int

definition delete_stamp :: "tstamp \<Rightarrow> post_row \<Rightarrow> tstamp" where
  "delete_stamp stamp p =
     max (max stamp (p_created_at p))
         (max (p_updated_at p) (case p_edited_at p of None \<Rightarrow> NegInfinity | Some e \<Rightarrow> e))"

definition SoftDeletePost :: "tstamp \<Rightarrow> int \<Rightarrow> int \<Rightarrow> int \<Rightarrow> delete_result tx" where
  "SoftDeletePost stamp author postID expected =
     statement (\<lambda>db.
       let hit = (\<lambda>p. p_id p = postID \<and> p_author_id p = author \<and> p_revision p = expected \<and>
                      p_deleted_at p = None) in
       case find hit (db_posts db) of
         None \<Rightarrow> (Inl (Sentinel NoRows), db)
       | Some p \<Rightarrow>
           (Inr \<lparr>dr_topic_id = p_topic_id p, dr_post_id = p_id p, dr_post_number = p_number p,
                 dr_revision = p_revision p\<rparr>,
            db\<lparr>db_posts := upd_where hit
                 (\<lambda>q. q\<lparr>p_deleted_at := Some (delete_stamp stamp q), p_deleted_by := Some author,
                       p_deletion_reason := Some ''Deleted by author''\<rparr>)
                 (db_posts db)\<rparr>))"

definition deletePost_body :: "access_context \<Rightarrow> int \<Rightarrow> int \<Rightarrow> tstamp \<Rightarrow> delete_result tx" where
  "deletePost_body actor postID expected stamp =
     tx_bind (tx_wrap ''lock post for delete'' (LockPostForEdit postID)) (\<lambda>locked.
     tx_bind (tx_guard (locked_post_invalid postID locked) (Fail ''post delete lock returned an invalid result'')) (\<lambda>_.
     tx_bind (tx_wrap ''load post delete area policy''
               (lockedAreaPolicy (a_id (lp_area locked)) (a_visibility (lp_area locked))
                  (a_posting_mode (lp_area locked)))) (\<lambda>ap.
     tx_bind (tx_guard (\<not> may_edit_locked actor ap locked) (Sentinel PostDeleteDenied)) (\<lambda>_.
     tx_bind (tx_guard (p_revision (lp_post locked) \<noteq> expected) (Sentinel PostDeleteConflict)) (\<lambda>_.
     tx_bind (tx_wrap ''soft delete post'' (SoftDeletePost stamp (ac_user_id actor) postID expected)) (\<lambda>deleted.
     tx_bind (tx_guard (dr_post_id deleted \<noteq> postID \<or> dr_topic_id deleted \<noteq> t_id (lp_topic locked) \<or>
                        dr_post_number deleted \<noteq> p_number (lp_post locked) \<or>
                        dr_revision deleted \<noteq> expected)
               (Fail ''post delete returned an invalid result'')) (\<lambda>_.
     tx_return deleted)))))))"

definition DeletePost ::
  "tx_env \<Rightarrow> gotime option \<Rightarrow> access_context \<Rightarrow> int \<Rightarrow> int \<Rightarrow> delete_result tx"
where
  "DeletePost env clock actor postID expected =
     tx_bind (tx_guard (\<not> te_context_given env) (Fail ''delete post context is required'')) (\<lambda>_.
     tx_bind (tx_guard (\<not> te_beginner_given env) (Fail ''delete post transaction beginner is required'')) (\<lambda>_.
     case clock of
       None \<Rightarrow> tx_fail (Fail ''delete post clock is required'')
     | Some now \<Rightarrow>
         tx_bind (tx_guard (\<not> Valid actor \<or> \<not> ac_authenticated actor) (Fail ''delete post actor is invalid'')) (\<lambda>_.
         tx_bind (tx_guard (postID \<le> 0) (InvalidPublishingInput ''post'')) (\<lambda>_.
         tx_bind (tx_guard (expected \<le> 0) (InvalidPublishingInput ''revision'')) (\<lambda>_.
         tx_bind (context_error ''delete post'' env) (\<lambda>_.
         tx_bind (tx_wrap ''delete post'' (tx_lift (publishingTime now))) (\<lambda>stamp.
         tx_wrap ''delete post transaction''
           (within_tx env (deletePost_body actor postID expected stamp)))))))))"

subsection \<open>The editable source\<close>

record editable_row =
  ed_post_id :: int
  ed_topic_id :: int
  ed_post_number :: int
  ed_markdown :: string
  ed_revision :: int
  ed_node_ordinal :: int

text \<open>\<open>area.visibility IN ... OR EXISTS (membership)\<close>, the viewer filter of the SQL reads.\<close>

definition sql_area_visible :: "forum_db \<Rightarrow> bool \<Rightarrow> int list \<Rightarrow> area_row \<Rightarrow> bool" where
  "sql_area_visible db staff groups a =
     (staff \<or> a_visibility a = ''public'' \<or> a_visibility a = ''authenticated'' \<or>
      (a_visibility a = ''groups'' \<and> groups \<noteq> [] \<and>
       list_ex (\<lambda>m. fst m = a_id a \<and> list_ex (\<lambda>g. snd m = g) groups) (db_area_groups db)))"

definition query_GetEditablePost :: "int \<Rightarrow> int \<Rightarrow> bool \<Rightarrow> int list \<Rightarrow> editable_row tx" where
  "query_GetEditablePost postID author staff groups =
     select_one (\<lambda>db.
       case live_post db postID of
         None \<Rightarrow> None
       | Some l \<Rightarrow>
           if p_author_id (lp_post l) = author \<and>
              (staff \<or> t_state (lp_topic l) \<noteq> ''hidden'') \<and>
              sql_area_visible db staff groups (lp_area l)
           then Some \<lparr>ed_post_id = p_id (lp_post l), ed_topic_id = p_topic_id (lp_post l),
                      ed_post_number = p_number (lp_post l), ed_markdown = p_markdown (lp_post l),
                      ed_revision = p_revision (lp_post l),
                      ed_node_ordinal = shown_count (topic_posts db (p_topic_id (lp_post l)))
                                          (p_path (lp_post l))\<rparr>
           else None)"

definition GetEditablePost :: "tx_env \<Rightarrow> int \<Rightarrow> access_context \<Rightarrow> editable_row tx" where
  "GetEditablePost env postID actor =
     tx_bind (tx_guard (\<not> te_context_given env) (Fail ''editable post context is required'')) (\<lambda>_.
     tx_bind (tx_guard (\<not> te_beginner_given env) (Fail ''editable post querier is required'')) (\<lambda>_.
     tx_bind (tx_guard (\<not> Valid actor) (Fail ''editable post access context is invalid'')) (\<lambda>_.
     tx_bind (context_error ''get editable post'' env) (\<lambda>_.
     tx_bind (tx_guard (postID \<le> 0 \<or> \<not> ac_authenticated actor \<or> ac_suspended actor \<or>
                        ac_muted_until actor \<noteq> None)
               (Wrap ''get editable post'' (Sentinel NoRows))) (\<lambda>_.
     tx_bind (tx_wrap ''query editable post''
               (query_GetEditablePost postID (ac_user_id actor) (is_staff actor) (ac_group_ids actor))) (\<lambda>row.
     tx_bind (tx_guard (ed_post_id row \<noteq> postID \<or> ed_topic_id row \<le> 0 \<or> ed_post_number row \<le> 0 \<or>
                        ed_node_ordinal row \<le> 0 \<or> ed_revision row \<le> 0 \<or>
                        ed_revision row = maximumPostRevision \<or> ed_markdown row = '''' \<or>
                        length (ed_markdown row) > 65536 \<or> \<not> valid_utf8 (ed_markdown row))
               (Fail ''editable post query returned an invalid row'')) (\<lambda>_.
     tx_return row)))))))"

end
