(* ===== verification/Moderation.thy ===== *)
theory Moderation
  imports Editing
begin

text \<open>
  Moderation of topics, posts and accounts: \<open>internal/moderation/topic_transition.go\<close>,
  \<open>extended_actions.go\<close> and \<open>user_suspension.go\<close> over the statements of
  \<open>internal/store/db/moderation.sql.go\<close> and \<open>moderation_completion.sql.go\<close>. Every statement that
  changes a row appends its audit row in the same statement.

  A request identifier (\<open>pgtype.UUID\<close>) is an optional number; the all-zero identifier is 0.
\<close>

subsection \<open>Validation shared by the services\<close>

definition validReason :: "string \<Rightarrow> bool" where
  "validReason reason =
     (if length reason = 0 \<or> length reason > 2000 \<or> \<not> valid_utf8 reason then False
      else \<not> blank reason \<and> is_trimmed reason \<and>
           \<not> list_ex (\<lambda>r. is_control r \<or> r = Some 8232 \<or> r = Some 8233) (runes reason))"

definition validSuspensionReason :: "string \<Rightarrow> bool" where
  "validSuspensionReason reason =
     (length reason \<le> 2000 \<and> validReason reason \<and> rune_count reason \<le> 500)"

definition validTopicState :: "string \<Rightarrow> bool" where
  "validTopicState st =
     (st = TopicOpen \<or> st = TopicLocked \<or> st = TopicHidden \<or> st = TopicArchived)"

definition finiteTimestamp :: "tstamp option \<Rightarrow> bool" where
  "finiteTimestamp v = (finite_ts v \<and> ts_time v \<noteq> zero_time)"

definition roleFromStorage :: "string \<Rightarrow> role option" where
  "roleFromStorage value =
     (if value = ''member'' then Some RoleMember
      else if value = ''moderator'' then Some RoleModerator
      else if value = ''administrator'' then Some RoleAdministrator
      else None)"

definition validUserRole :: "string \<Rightarrow> bool" where
  "validUserRole value = (roleFromStorage value \<noteq> None)"

definition validAuthentikSyncState :: "string \<Rightarrow> bool" where
  "validAuthentikSyncState st =
     (st = ''unknown'' \<or> st = ''accepted'' \<or> st = ''suspended'' \<or> st = ''removal_required'' \<or>
      st = ''grant_required'')"

definition userSuspendedAt :: "user_row \<Rightarrow> gotime \<Rightarrow> bool" where
  "userSuspendedAt u t =
     (u_suspended_at u \<noteq> None \<and> \<not> ts_time (u_suspended_at u) > t \<and>
      (u_suspended_until u = None \<or> ts_time (u_suspended_until u) > t))"

definition validSuspensionTarget :: "user_row \<Rightarrow> int \<Rightarrow> bool" where
  "validSuspensionTarget u expected =
     (let created = Some (u_created_at u); updated = Some (u_updated_at u) in
      if u_id u \<noteq> expected \<or> u_id u \<le> 0 \<or> \<not> validUserRole (u_role u) \<or>
         u_administration_revision u \<le> 0 \<or> \<not> validAuthentikSyncState (u_sync_state u) \<or>
         \<not> finiteTimestamp created \<or> \<not> finiteTimestamp updated \<or> ts_time updated < ts_time created \<or>
         (u_muted_until u \<noteq> None \<and>
           (\<not> finiteTimestamp (u_muted_until u) \<or> \<not> ts_time (u_muted_until u) > ts_time created))
      then False
      else if u_suspended_at u = None
      then u_suspended_until u = None \<and> u_suspension_reason u = None
      else finiteTimestamp (u_suspended_at u) \<and> \<not> ts_time (u_suspended_at u) < ts_time created \<and>
           (case u_suspension_reason u of None \<Rightarrow> False | Some r \<Rightarrow> validSuspensionReason r) \<and>
           (u_suspended_until u = None \<or>
            finiteTimestamp (u_suspended_until u) \<and>
            ts_time (u_suspended_until u) > ts_time (u_suspended_at u)))"

definition activeStaffActor :: "access_context \<Rightarrow> bool" where
  "activeStaffActor actor =
     (Valid actor \<and> ac_authenticated actor \<and> \<not> ac_suspended actor \<and>
      ac_muted_until actor = None \<and>
      (ac_role actor = RoleModerator \<or> ac_role actor = RoleAdministrator))"

definition persistedStaffMatches :: "user_row \<Rightarrow> access_context \<Rightarrow> gotime \<Rightarrow> bool" where
  "persistedStaffMatches u actor now =
     (validSuspensionTarget u (ac_user_id actor) \<and> u_sync_state u = ''accepted'' \<and>
      (case roleFromStorage (u_role u) of
         None \<Rightarrow> False
       | Some role \<Rightarrow>
           role = ac_role actor \<and>
           (\<not> userSuspendedAt u now \<and> (u_muted_until u = None \<or> \<not> ts_time (u_muted_until u) > now)) \<and>
           (role = RoleModerator \<or> role = RoleAdministrator)))"

definition request_invalid :: "int option \<Rightarrow> bool" where
  "request_invalid req = (req = None \<or> req = Some 0)"

text \<open>The instant a change is stamped with: never before the row's last update.\<close>

definition not_before :: "gotime \<Rightarrow> tstamp \<Rightarrow> gotime" where
  "not_before now prior = (if ts_time (Some prior) > now then truncate_us (ts_time (Some prior)) else now)"

subsection \<open>Statements\<close>

definition LockUserForSuspension :: "int \<Rightarrow> user_row tx" where
  "LockUserForSuspension user_id = select_one (\<lambda>db. find_user db user_id)"

definition LockTopicForModeration :: "int \<Rightarrow> topic_row tx" where
  "LockTopicForModeration topic_id =
     select_one (\<lambda>db. find (\<lambda>t. t_id t = topic_id \<and> t_deleted_at t = None) (db_topics db))"

record audit_input =
  ai_actor :: audit_actor
  ai_target :: audit_target
  ai_action :: string
  ai_reason :: "string option"
  ai_previous :: audit_state
  ai_resulting :: audit_state
  ai_request :: "int option"

text \<open>The audit insert of a statement: the new row's identifier and the table with it.\<close>

definition insert_audit :: "audit_input \<Rightarrow> tstamp \<Rightarrow> forum_db \<Rightarrow> int \<times> forum_db" where
  "insert_audit a created db =
     (let (i, db1) = nextval AuditSeq db in
      (i, db1\<lparr>db_audits := db_audits db1 @
            [\<lparr>au_id = i, au_actor = ai_actor a, au_target = ai_target a, au_action = ai_action a,
              au_reason = ai_reason a, au_previous = ai_previous a, au_resulting = ai_resulting a,
              au_request = ai_request a, au_created_at = created\<rparr>]\<rparr>))"

text \<open>
  The shape of these statements: update the rows that match, and return the changed row with the
  identifier of its audit row; no matching row is \<open>pgx.ErrNoRows\<close>.
\<close>

definition change_topic ::
  "(topic_row \<Rightarrow> bool) \<Rightarrow> (topic_row \<Rightarrow> topic_row) \<Rightarrow> (topic_row \<Rightarrow> audit_input) \<Rightarrow> (topic_row \<times> int) tx"
where
  "change_topic hit change audit =
     statement (\<lambda>db.
       case find hit (db_topics db) of
         None \<Rightarrow> (Inl (Sentinel NoRows), db)
       | Some t \<Rightarrow>
           let (i, db1) = insert_audit (audit (change t)) (t_updated_at (change t)) db in
           (Inr (change t, i), db1\<lparr>db_topics := upd_where hit change (db_topics db1)\<rparr>))"

definition change_post ::
  "(post_row \<Rightarrow> bool) \<Rightarrow> (post_row \<Rightarrow> post_row) \<Rightarrow> (post_row \<Rightarrow> audit_input) \<Rightarrow> (post_row \<times> int) tx"
where
  "change_post hit change audit =
     statement (\<lambda>db.
       case find hit (db_posts db) of
         None \<Rightarrow> (Inl (Sentinel NoRows), db)
       | Some p \<Rightarrow>
           if p_revision (change p) > max_int32 then (Inl (DbFault ''integer out of range''), db)
           else
             let (i, db1) = insert_audit (audit (change p)) (p_updated_at (change p)) db in
             (Inr (change p, i), db1\<lparr>db_posts := upd_where hit change (db_posts db1)\<rparr>))"

definition change_user ::
  "(user_row \<Rightarrow> bool) \<Rightarrow> (user_row \<Rightarrow> user_row) \<Rightarrow> (user_row \<Rightarrow> audit_input) \<Rightarrow> (user_row \<times> int) tx"
where
  "change_user hit change audit =
     statement (\<lambda>db.
       case find hit (db_users db) of
         None \<Rightarrow> (Inl (Sentinel NoRows), db)
       | Some u \<Rightarrow>
           let (i, db1) = insert_audit (audit (change u)) (u_updated_at (change u)) db in
           (Inr (change u, i), db1\<lparr>db_users := upd_where hit change (db_users db1)\<rparr>))"

definition ChangeTopicStateAndAudit ::
  "string \<Rightarrow> tstamp \<Rightarrow> int \<Rightarrow> string \<Rightarrow> int \<Rightarrow> string \<Rightarrow> string \<Rightarrow> int option \<Rightarrow> (topic_row \<times> int) tx"
where
  "ChangeTopicStateAndAudit resulting stamp topic_id previous actor action reason req =
     change_topic (\<lambda>t. t_id t = topic_id \<and> t_state t = previous \<and> t_deleted_at t = None)
       (\<lambda>t. t\<lparr>t_state := resulting, t_updated_at := max stamp (t_updated_at t)\<rparr>)
       (\<lambda>t. \<lparr>ai_actor = ActorUser actor, ai_target = TargetTopic (t_id t), ai_action = action, ai_reason = Some reason,
             ai_previous = StateIs previous, ai_resulting = StateIs (t_state t), ai_request = req\<rparr>)"

definition ChangeTopicPinAndAudit ::
  "tstamp option \<Rightarrow> tstamp \<Rightarrow> int \<Rightarrow> tstamp option \<Rightarrow> int \<Rightarrow> string \<Rightarrow> string \<Rightarrow> int option \<Rightarrow> (topic_row \<times> int) tx"
where
  "ChangeTopicPinAndAudit resulting stamp topic_id previous actor action reason req =
     change_topic (\<lambda>t. t_id t = topic_id \<and> t_pinned_at t = previous)
       (\<lambda>t. t\<lparr>t_pinned_at := resulting, t_updated_at := max stamp (t_updated_at t)\<rparr>)
       (\<lambda>t. \<lparr>ai_actor = ActorUser actor, ai_target = TargetTopic (t_id t), ai_action = action, ai_reason = Some reason,
             ai_previous = PinnedIs previous, ai_resulting = PinnedIs (t_pinned_at t), ai_request = req\<rparr>)"

definition MoveTopicAndAudit ::
  "int \<Rightarrow> tstamp \<Rightarrow> int \<Rightarrow> int \<Rightarrow> int \<Rightarrow> string \<Rightarrow> int option \<Rightarrow> (topic_row \<times> int) tx"
where
  "MoveTopicAndAudit area stamp topic_id previous actor reason req =
     change_topic (\<lambda>t. t_id t = topic_id \<and> t_area_id t = previous)
       (\<lambda>t. t\<lparr>t_area_id := area, t_slug := None, t_updated_at := max stamp (t_updated_at t)\<rparr>)
       (\<lambda>t. \<lparr>ai_actor = ActorUser actor, ai_target = TargetTopic (t_id t), ai_action = ''move_topic'',
             ai_reason = Some reason, ai_previous = AreaIs previous, ai_resulting = AreaIs (t_area_id t),
             ai_request = req\<rparr>)"

definition GetDestinationAreaBySlug :: "string \<Rightarrow> area_row tx" where
  "GetDestinationAreaBySlug slug = select_one (\<lambda>db. find_area_slug db slug)"

definition LockAreaForTopicMove :: "int \<Rightarrow> area_row tx" where
  "LockAreaForTopicMove area_id = select_one (\<lambda>db. find_area db area_id)"

text \<open>The ordinal here counts every post of the topic up to the post, tombstones included.\<close>

definition LockPostForModeration :: "int \<Rightarrow> (post_row \<times> int) tx" where
  "LockPostForModeration post_id =
     select_one (\<lambda>db.
       case find_post db post_id of
         None \<Rightarrow> None
       | Some p \<Rightarrow>
           (case find (\<lambda>t. t_id t = p_topic_id p \<and> t_deleted_at t = None) (db_topics db) of
              None \<Rightarrow> None
            | Some _ \<Rightarrow>
                Some (p, int (length (filter (\<lambda>q. p_path q \<le> p_path p) (topic_posts db (p_topic_id p)))))))"

definition ChangePostVisibilityAndAudit ::
  "tstamp option \<Rightarrow> int option \<Rightarrow> string option \<Rightarrow> tstamp \<Rightarrow> int \<Rightarrow> tstamp option \<Rightarrow> int \<Rightarrow> string \<Rightarrow> string \<Rightarrow>
   int option \<Rightarrow> int option \<Rightarrow> (post_row \<times> int) tx"
where
  "ChangePostVisibilityAndAudit deleted_at deleted_by deletion_reason stamp post_id previous actor action
     reason previous_by req =
     change_post (\<lambda>p. p_id p = post_id \<and> p_redacted_at p = None \<and> p_deleted_at p = previous)
       (\<lambda>p. p\<lparr>p_deleted_at := deleted_at, p_deleted_by := deleted_by, p_deletion_reason := deletion_reason,
             p_updated_at := max stamp (p_updated_at p)\<rparr>)
       (\<lambda>p. \<lparr>ai_actor = ActorUser actor, ai_target = TargetPost (p_id p), ai_action = action, ai_reason = Some reason,
             ai_previous = DeletedIs previous previous_by,
             ai_resulting = DeletedIs (p_deleted_at p) (p_deleted_by p), ai_request = req\<rparr>)"

definition RedactPostAndAudit ::
  "tstamp \<Rightarrow> int \<Rightarrow> string \<Rightarrow> int \<Rightarrow> int \<Rightarrow> int option \<Rightarrow> (post_row \<times> int) tx"
where
  "RedactPostAndAudit stamp actor reason post_id previous_revision req =
     change_post (\<lambda>p. p_id p = post_id \<and> p_deleted_at p = None \<and> p_redacted_at p = None)
       (\<lambda>p. let s = max stamp (p_updated_at p) in
            p\<lparr>p_markdown := ''[Content removed by moderation]'',
              p_html := ''<p>Content removed by moderation.</p>'',
              p_renderer := ''moderation-redaction-v1'', p_search_text := '''',
              p_search_version := Some ''search-v1-pg17-simple-u15-p2'', p_revision := p_revision p + 1,
              p_edited_at := Some s, p_deleted_at := Some s, p_deleted_by := Some actor,
              p_deletion_reason := Some reason, p_redacted_at := Some s, p_redacted_by := Some actor,
              p_redaction_reason := Some reason, p_updated_at := s\<rparr>)
       (\<lambda>p. \<lparr>ai_actor = ActorUser actor, ai_target = TargetPost (p_id p), ai_action = ''redact_post'',
             ai_reason = Some reason, ai_previous = RevisionIs previous_revision False,
             ai_resulting = RevisionIs (p_revision p) True, ai_request = req\<rparr>)"

definition WarnUserAndAudit :: "int \<Rightarrow> int \<Rightarrow> string \<Rightarrow> tstamp \<Rightarrow> int option \<Rightarrow> (int \<times> int \<times> int) tx" where
  "WarnUserAndAudit user_id actor reason stamp req =
     statement (\<lambda>db.
       let (w, db1) = nextval WarningSeq db;
           (i, db2) = insert_audit \<lparr>ai_actor = ActorUser actor, ai_target = TargetUser user_id, ai_action = ''warn_user'',
                        ai_reason = Some reason, ai_previous = EmptyState, ai_resulting = WarningIs w,
                        ai_request = req\<rparr> stamp db1
       in (Inr (w, user_id, i),
           db2\<lparr>db_warnings := db_warnings db2 @
             [\<lparr>w_id = w, w_user_id = user_id, w_warned_by = actor, w_reason = reason, w_created_at = stamp\<rparr>]\<rparr>))"

definition MuteUserAndAudit ::
  "tstamp \<Rightarrow> tstamp \<Rightarrow> int \<Rightarrow> tstamp \<Rightarrow> int \<Rightarrow> string \<Rightarrow> tstamp option \<Rightarrow> int option \<Rightarrow> (user_row \<times> int) tx"
where
  "MuteUserAndAudit until stamp user_id observed actor reason previous req =
     change_user
       (\<lambda>u. u_id u = user_id \<and> (case u_muted_until u of None \<Rightarrow> True | Some m \<Rightarrow> m \<le> observed))
       (\<lambda>u. u\<lparr>u_muted_until := Some until, u_updated_at := max stamp (u_updated_at u)\<rparr>)
       (\<lambda>u. \<lparr>ai_actor = ActorUser actor, ai_target = TargetUser (u_id u), ai_action = ''mute_user'',
             ai_reason = Some reason, ai_previous = MutedIs previous, ai_resulting = MutedIs (u_muted_until u),
             ai_request = req\<rparr>)"

subsection \<open>Topic states\<close>

record topic_transition =
  tt_previous :: string
  tt_resulting :: string
  tt_action :: string

record transition_result =
  tr_topic_id :: int
  tr_state :: string
  tr_audit_id :: int

definition changeTopicState_body ::
  "access_context \<Rightarrow> gotime \<Rightarrow> int \<Rightarrow> string \<Rightarrow> int option \<Rightarrow> topic_transition \<Rightarrow> transition_result tx"
where
  "changeTopicState_body actor now topicID reason req tr =
     tx_bind (tx_wrap ''lock topic moderation actor'' (LockUserForSuspension (ac_user_id actor))) (\<lambda>persisted.
     tx_bind (tx_guard (\<not> persistedStaffMatches persisted actor now) (Sentinel TopicModerationDenied)) (\<lambda>_.
     tx_bind (tx_wrap ''lock topic for moderation'' (LockTopicForModeration topicID)) (\<lambda>current.
     tx_bind (tx_guard (t_id current \<noteq> topicID \<or> \<not> validTopicState (t_state current))
               (Fail ''topic moderation lock returned an invalid result'')) (\<lambda>_.
     tx_bind (tx_guard (t_state current \<noteq> tt_previous tr) (Sentinel TopicModerationConflict)) (\<lambda>_.
     tx_bind (tx_wrap ''change topic state and audit''
               (ChangeTopicStateAndAudit (tt_resulting tr) (At (truncate_us now)) topicID (tt_previous tr)
                  (ac_user_id actor) (tt_action tr) reason req)) (\<lambda>(changed, audit_id).
     tx_bind (tx_guard (t_id changed \<noteq> topicID \<or> t_state changed \<noteq> tt_resulting tr \<or>
                        \<not> finite_ts (Some (t_updated_at changed)) \<or> audit_id \<le> 0)
               (Fail ''topic moderation returned an invalid result'')) (\<lambda>_.
     tx_return \<lparr>tr_topic_id = t_id changed, tr_state = t_state changed, tr_audit_id = audit_id\<rparr>)))))))"

definition changeTopicState ::
  "tx_env \<Rightarrow> gotime option \<Rightarrow> access_context \<Rightarrow> int \<Rightarrow> string \<Rightarrow> int option \<Rightarrow> topic_transition \<Rightarrow> transition_result tx"
where
  "changeTopicState env clock actor topicID reason req tr =
     tx_bind (tx_guard (\<not> te_context_given env) (Fail ''topic moderation context is required'')) (\<lambda>_.
     tx_bind (tx_guard (\<not> te_beginner_given env)
               (Fail ''topic moderation transaction beginner is required'')) (\<lambda>_.
     case clock of
       None \<Rightarrow> tx_fail (Fail ''topic moderation clock is required'')
     | Some now \<Rightarrow>
         tx_bind (tx_guard (\<not> Valid actor \<or> \<not> ac_authenticated actor)
                   (Fail ''topic moderation actor is invalid'')) (\<lambda>_.
         tx_bind (tx_guard (ac_suspended actor \<or> ac_muted_until actor \<noteq> None \<or>
                            ac_role actor \<noteq> RoleModerator \<and> ac_role actor \<noteq> RoleAdministrator)
                   (Sentinel TopicModerationDenied)) (\<lambda>_.
         tx_bind (tx_guard (topicID \<le> 0) (Wrap ''target'' (Sentinel TopicModerationInput))) (\<lambda>_.
         tx_bind (tx_guard (\<not> validReason reason) (Wrap ''reason'' (Sentinel TopicModerationInput))) (\<lambda>_.
         tx_bind (tx_guard (request_invalid req) (Fail ''topic moderation request ID is invalid'')) (\<lambda>_.
         tx_bind (context_error ''moderate topic'' env) (\<lambda>_.
         tx_bind (tx_guard (now = zero_time) (Fail ''topic moderation clock returned a zero time'')) (\<lambda>_.
         tx_wrap ''topic moderation transaction''
           (within_tx env (changeTopicState_body actor now topicID reason req tr)))))))))))"

definition ChangeTopicLock ::
  "tx_env \<Rightarrow> gotime option \<Rightarrow> access_context \<Rightarrow> int \<Rightarrow> bool \<Rightarrow> string \<Rightarrow> int option \<Rightarrow> transition_result tx"
where
  "ChangeTopicLock env clock actor topicID lock reason req =
     changeTopicState env clock actor topicID reason req
       (if lock then \<lparr>tt_previous = TopicOpen, tt_resulting = TopicLocked, tt_action = ''lock_topic''\<rparr>
        else \<lparr>tt_previous = TopicLocked, tt_resulting = TopicOpen, tt_action = ''unlock_topic''\<rparr>)"

definition ChangeTopicVisibility ::
  "tx_env \<Rightarrow> gotime option \<Rightarrow> access_context \<Rightarrow> int \<Rightarrow> bool \<Rightarrow> string \<Rightarrow> int option \<Rightarrow> transition_result tx"
where
  "ChangeTopicVisibility env clock actor topicID hide reason req =
     changeTopicState env clock actor topicID reason req
       (if hide then \<lparr>tt_previous = TopicOpen, tt_resulting = TopicHidden, tt_action = ''hide_topic''\<rparr>
        else \<lparr>tt_previous = TopicHidden, tt_resulting = TopicOpen, tt_action = ''restore_topic''\<rparr>)"

subsection \<open>Lemmas\<close>

lemma insert_audit_tables [simp]:
  "db_users (snd (insert_audit a c db)) = db_users db" "db_areas (snd (insert_audit a c db)) = db_areas db"
  "db_topics (snd (insert_audit a c db)) = db_topics db" "db_posts (snd (insert_audit a c db)) = db_posts db"
  "db_reports (snd (insert_audit a c db)) = db_reports db" "db_reads (snd (insert_audit a c db)) = db_reads db"
  "db_warnings (snd (insert_audit a c db)) = db_warnings db"
  "db_sessions (snd (insert_audit a c db)) = db_sessions db"
  "db_report_notes (snd (insert_audit a c db)) = db_report_notes db"
  "db_login_attempts (snd (insert_audit a c db)) = db_login_attempts db"
  "db_identities (snd (insert_audit a c db)) = db_identities db"
  "db_members (snd (insert_audit a c db)) = db_members db"
  "db_groups (snd (insert_audit a c db)) = db_groups db" "db_area_groups (snd (insert_audit a c db)) = db_area_groups db"
  "db_settings (snd (insert_audit a c db)) = db_settings db"
  "db_registrations (snd (insert_audit a c db)) = db_registrations db"
  "db_invitations (snd (insert_audit a c db)) = db_invitations db"
  by (simp_all add: insert_audit_def nextval_def)

lemma fst_insert_audit [simp]: "fst (insert_audit a c db) = db_seqs db AuditSeq"
  by (simp add: insert_audit_def nextval_def)

lemma insert_audit_audits:
  "db_audits (snd (insert_audit a c db)) = db_audits db @
     [\<lparr>au_id = db_seqs db AuditSeq, au_actor = ai_actor a, au_target = ai_target a, au_action = ai_action a,
       au_reason = ai_reason a, au_previous = ai_previous a, au_resulting = ai_resulting a,
       au_request = ai_request a, au_created_at = c\<rparr>]"
  by (simp add: insert_audit_def nextval_def)

end
