(* ===== verification/ModerationActions.thy ===== *)
theory ModerationActions
  imports Moderation
begin

text \<open>
  The remaining moderation actions: pins, moves, hiding, restoring and redacting posts, warnings and
  mutes (\<open>internal/moderation/extended_actions.go\<close>), and the suspension and reinstatement of
  accounts (\<open>user_suspension.go\<close>).
\<close>

definition PostPageSize :: int where "PostPageSize = 25"
definition MaximumPostPage :: int where "MaximumPostPage = 10000"

definition PinTopic :: string where "PinTopic = ''pin_topic''"
definition UnpinTopic :: string where "UnpinTopic = ''unpin_topic''"
definition MoveTopic :: string where "MoveTopic = ''move_topic''"
definition HidePost :: string where "HidePost = ''hide_post''"
definition RestorePost :: string where "RestorePost = ''restore_post''"
definition RedactPost :: string where "RedactPost = ''redact_post''"
definition WarnUser :: string where "WarnUser = ''warn_user''"
definition MuteUser :: string where "MuteUser = ''mute_user''"

lemmas extended_actions =
  PinTopic_def UnpinTopic_def MoveTopic_def HidePost_def RestorePost_def RedactPost_def WarnUser_def
  MuteUser_def

record extended_input =
  ei_action :: string
  ei_target :: int
  ei_reason :: string
  ei_destination :: string
  ei_mute_duration :: duration

record extended_result =
  xr_action :: string
  xr_target :: int
  xr_topic :: int
  xr_page :: int
  xr_audit :: int
  xr_warning :: int
  xr_muted_until :: "gotime option"

definition no_result :: "string \<Rightarrow> int \<Rightarrow> extended_result" where
  "no_result action target =
     \<lparr>xr_action = action, xr_target = target, xr_topic = 0, xr_page = 0, xr_audit = 0, xr_warning = 0,
      xr_muted_until = None\<rparr>"

definition validExtendedInput :: "extended_input \<Rightarrow> bool" where
  "validExtendedInput input =
     (let a = ei_action input in
      if a = PinTopic \<or> a = UnpinTopic \<or> a = HidePost \<or> a = RestorePost \<or> a = RedactPost \<or> a = WarnUser
      then ei_destination input = '''' \<and> ei_mute_duration input = 0
      else if a = MoveTopic
      then ValidAreaSlug (ei_destination input) \<and> ei_mute_duration input = 0
      else if a = MuteUser
      then ei_destination input = '''' \<and>
           (ei_mute_duration input = ns_hour \<or> ei_mute_duration input = 24 * ns_hour \<or>
            ei_mute_duration input = 7 * 24 * ns_hour \<or> ei_mute_duration input = 30 * 24 * ns_hour)
      else False)"

definition validExtendedReason :: "extended_input \<Rightarrow> bool" where
  "validExtendedReason input =
     (let a = ei_action input in
      if a = HidePost \<or> a = RestorePost \<or> a = RedactPost
      then validSuspensionReason (ei_reason input) else validReason (ei_reason input))"

definition validMoveArea :: "area_row \<Rightarrow> bool" where
  "validMoveArea a =
     (a_id a > 0 \<and> ValidAreaSlug (a_slug a) \<and> a_name a \<noteq> '''' \<and>
      (a_posting_mode a = ''normal'' \<or> a_posting_mode a = ''read_only'' \<or> a_posting_mode a = ''archived''))"

subsection \<open>Topics\<close>

definition LockTopicForExtendedModeration :: "int \<Rightarrow> topic_row tx" where
  "LockTopicForExtendedModeration topic_id =
     select_one (\<lambda>db. find (\<lambda>t. t_id t = topic_id \<and> t_deleted_at t = None) (db_topics db))"

definition topic_lock_invalid :: "int \<Rightarrow> topic_row \<Rightarrow> bool" where
  "topic_lock_invalid target t =
     (let created = Some (t_created_at t); updated = Some (t_updated_at t) in
      (t_id t \<noteq> target \<or> t_area_id t \<le> 0 \<or> \<not> validTopicState (t_state t) \<or>
       \<not> finiteTimestamp created \<or> \<not> finiteTimestamp updated \<or> ts_time updated < ts_time created) \<or>
      (t_pinned_at t \<noteq> None \<and>
       (\<not> finiteTimestamp (t_pinned_at t) \<or> ts_time (t_pinned_at t) < ts_time created)))"

definition applyPin ::
  "topic_row \<Rightarrow> tstamp \<Rightarrow> int \<Rightarrow> extended_input \<Rightarrow> int option \<Rightarrow> extended_result tx"
where
  "applyPin topic stamp actorID input req =
     (let pin = (ei_action input = PinTopic) in
      tx_bind (tx_guard (t_state topic = ''archived'' \<or> t_state topic = ''hidden'' \<or>
                         (pin \<and> t_pinned_at topic \<noteq> None) \<or>
                         (ei_action input = UnpinTopic \<and> t_pinned_at topic = None))
                (Sentinel TopicModerationConflict)) (\<lambda>_.
      tx_bind (tx_wrap ''change topic pin and audit''
                (ChangeTopicPinAndAudit (if pin then Some stamp else None) stamp (t_id topic)
                   (t_pinned_at topic) actorID (ei_action input) (ei_reason input) req)) (\<lambda>(changed, audit).
      tx_bind (tx_guard (t_id changed \<noteq> t_id topic \<or> audit \<le> 0 \<or>
                         (pin \<and> t_pinned_at changed = None) \<or>
                         (ei_action input = UnpinTopic \<and> t_pinned_at changed \<noteq> None))
                (Fail ''topic pin returned invalid result'')) (\<lambda>_.
      tx_return ((no_result (ei_action input) (t_id topic))\<lparr>xr_topic := t_id topic, xr_audit := audit\<rparr>)))))"

definition applyMove ::
  "topic_row \<Rightarrow> tstamp \<Rightarrow> int \<Rightarrow> extended_input \<Rightarrow> int option \<Rightarrow> extended_result tx"
where
  "applyMove topic stamp actorID input req =
     tx_bind (tx_guard (t_state topic = ''archived'') (Sentinel TopicModerationConflict)) (\<lambda>_.
     tx_bind (tx_wrap ''load move destination'' (GetDestinationAreaBySlug (ei_destination input))) (\<lambda>dest.
     tx_bind (tx_guard (\<not> validMoveArea dest \<or> a_id dest = t_area_id topic \<or>
                        a_slug dest \<noteq> ei_destination input \<or> a_posting_mode dest = ''archived'')
               (Sentinel TopicModerationConflict)) (\<lambda>_.
     let first = min (t_area_id topic) (a_id dest); second = max (t_area_id topic) (a_id dest) in
     tx_bind (tx_wrap ''lock first move area'' (LockAreaForTopicMove first)) (\<lambda>firstArea.
     tx_bind (tx_wrap ''lock second move area'' (LockAreaForTopicMove second)) (\<lambda>secondArea.
     tx_bind (tx_guard
               ((a_id firstArea \<noteq> first \<or> \<not> validMoveArea firstArea) \<or>
                (a_id secondArea \<noteq> second \<or> \<not> validMoveArea secondArea) \<or>
                (a_id firstArea = a_id dest \<and>
                  (a_slug firstArea \<noteq> a_slug dest \<or> a_posting_mode firstArea = ''archived'')) \<or>
                (a_id secondArea = a_id dest \<and>
                  (a_slug secondArea \<noteq> a_slug dest \<or> a_posting_mode secondArea = ''archived'')))
               (Sentinel TopicModerationConflict)) (\<lambda>_.
     tx_bind (tx_wrap ''move topic and audit''
               (MoveTopicAndAudit (a_id dest) stamp (t_id topic) (t_area_id topic) actorID
                  (ei_reason input) req)) (\<lambda>(changed, audit).
     tx_bind (tx_guard (t_id changed \<noteq> t_id topic \<or> t_area_id changed \<noteq> a_id dest \<or> audit \<le> 0)
               (Fail ''move topic returned invalid result'')) (\<lambda>_.
     tx_return ((no_result (ei_action input) (t_id topic))\<lparr>xr_topic := t_id topic, xr_audit := audit\<rparr>)))))))))"

definition applyTopicAction ::
  "gotime \<Rightarrow> int \<Rightarrow> extended_input \<Rightarrow> int option \<Rightarrow> extended_result tx"
where
  "applyTopicAction now actorID input req =
     tx_bind (tx_wrap ''lock topic for extended moderation'' (LockTopicForExtendedModeration (ei_target input))) (\<lambda>topic.
     tx_bind (tx_guard (topic_lock_invalid (ei_target input) topic)
               (Fail ''extended topic lock returned invalid state'')) (\<lambda>_.
     if ei_action input = PinTopic \<or> ei_action input = UnpinTopic
     then applyPin topic (At (not_before now (t_updated_at topic))) actorID input req
     else applyMove topic (At (not_before now (t_updated_at topic))) actorID input req))"

subsection \<open>Posts\<close>

definition post_lock_invalid :: "int \<Rightarrow> post_row \<Rightarrow> int \<Rightarrow> bool" where
  "post_lock_invalid target p ordinal =
     (let created = Some (p_created_at p); updated = Some (p_updated_at p) in
      p_id p \<noteq> target \<or> p_topic_id p \<le> 0 \<or> p_author_id p \<le> 0 \<or> p_revision p \<le> 0 \<or> ordinal \<le> 0 \<or>
      ordinal > MaximumPostPage * PostPageSize \<or> \<not> finiteTimestamp created \<or> \<not> finiteTimestamp updated \<or>
      ts_time updated < ts_time created)"

definition post_action_conflict :: "string \<Rightarrow> post_row \<Rightarrow> bool" where
  "post_action_conflict action p =
     (p_redacted_at p \<noteq> None \<or> (action = HidePost \<and> p_deleted_at p \<noteq> None) \<or>
      (action = RestorePost \<and> p_deleted_at p = None) \<or> (action = RedactPost \<and> p_deleted_at p \<noteq> None))"

definition applyPostAction ::
  "gotime \<Rightarrow> int \<Rightarrow> extended_input \<Rightarrow> int option \<Rightarrow> extended_result tx"
where
  "applyPostAction now actorID input req =
     tx_bind (tx_wrap ''lock post for moderation'' (LockPostForModeration (ei_target input))) (\<lambda>(post, ordinal).
     tx_bind (tx_guard (post_lock_invalid (ei_target input) post ordinal)
               (Fail ''post moderation lock returned invalid state'')) (\<lambda>_.
     tx_bind (tx_guard (post_action_conflict (ei_action input) post) (Sentinel TopicModerationConflict)) (\<lambda>_.
     let stamp = At (not_before now (p_updated_at post));
         page = 1 + (ordinal - 1) div PostPageSize;
         result = (\<lambda>audit. (no_result (ei_action input) (p_id post))\<lparr>xr_topic := p_topic_id post,
                             xr_page := page, xr_audit := audit\<rparr>);
         hide = (ei_action input = HidePost)
     in if ei_action input = RedactPost
     then
       tx_bind (tx_wrap ''redact post and audit''
                 (RedactPostAndAudit stamp actorID (ei_reason input) (p_id post) (p_revision post) req)) (\<lambda>(changed, audit).
       tx_bind (tx_guard (p_id changed \<noteq> p_id post \<or> p_topic_id changed \<noteq> p_topic_id post \<or>
                          p_revision changed \<noteq> p_revision post + 1 \<or> p_redacted_at changed = None \<or>
                          p_redacted_by changed \<noteq> Some actorID \<or> audit \<le> 0)
                 (Fail ''redact post returned invalid result'')) (\<lambda>_.
       tx_return (result audit)))
     else
       tx_bind (tx_wrap ''change post visibility and audit''
                 (ChangePostVisibilityAndAudit (if hide then Some stamp else None)
                    (if hide then Some actorID else None) (if hide then Some (ei_reason input) else None)
                    stamp (p_id post) (p_deleted_at post) actorID (ei_action input) (ei_reason input)
                    (p_deleted_by post) req)) (\<lambda>(changed, audit).
       tx_bind (tx_guard (p_id changed \<noteq> p_id post \<or> p_topic_id changed \<noteq> p_topic_id post \<or> audit \<le> 0 \<or>
                          (hide \<and> p_deleted_at changed = None) \<or>
                          (ei_action input = RestorePost \<and> p_deleted_at changed \<noteq> None))
                 (Fail ''post visibility returned invalid result'')) (\<lambda>_.
       tx_return (result audit))))))"

subsection \<open>Accounts\<close>

definition applyUserAction ::
  "gotime \<Rightarrow> access_context \<Rightarrow> extended_input \<Rightarrow> int option \<Rightarrow> extended_result tx"
where
  "applyUserAction now actor input req =
     tx_bind (tx_guard (ei_target input = ac_user_id actor) (Sentinel UserModerationDenied)) (\<lambda>_.
     tx_bind (tx_wrap ''lock first discipline user''
               (LockUserForSuspension (min (ac_user_id actor) (ei_target input)))) (\<lambda>firstUser.
     tx_bind (tx_wrap ''lock second discipline user''
               (LockUserForSuspension (max (ac_user_id actor) (ei_target input)))) (\<lambda>secondUser.
     let (actorUser, target) =
           (if u_id firstUser = ei_target input then (secondUser, firstUser) else (firstUser, secondUser)) in
     tx_bind (tx_guard (\<not> persistedStaffMatches actorUser actor now \<or>
                        \<not> validSuspensionTarget target (ei_target input)) (Sentinel UserModerationDenied)) (\<lambda>_.
     tx_bind (tx_guard (ac_role actor = RoleModerator \<and> u_role target \<noteq> ''member'')
               (Sentinel UserModerationDenied)) (\<lambda>_.
     let stamp = At (not_before now (u_updated_at target)) in
     if ei_action input = WarnUser
     then
       tx_bind (tx_wrap ''warn user and audit''
                 (WarnUserAndAudit (u_id target) (ac_user_id actor) (ei_reason input) stamp req)) (\<lambda>(w, user, audit).
       tx_bind (tx_guard (w \<le> 0 \<or> user \<noteq> u_id target \<or> audit \<le> 0)
                 (Fail ''warn user returned invalid result'')) (\<lambda>_.
       tx_return ((no_result (ei_action input) (u_id target))\<lparr>xr_warning := w, xr_audit := audit\<rparr>)))
     else
       tx_bind (tx_guard (u_muted_until target \<noteq> None \<and> ts_time (u_muted_until target) > now)
                 (Sentinel UserModerationConflict)) (\<lambda>_.
       let base = not_before now (u_created_at target);
           until = truncate_us (base + ei_mute_duration input) in
       tx_bind (tx_wrap ''mute user and audit''
                 (MuteUserAndAudit (At until) stamp (u_id target) (At now) (ac_user_id actor)
                    (ei_reason input) (u_muted_until target) req)) (\<lambda>(changed, audit).
       tx_bind (tx_guard (u_id changed \<noteq> u_id target \<or> u_muted_until changed = None \<or>
                          ts_time (u_muted_until changed) \<noteq> until \<or> audit \<le> 0)
                 (Fail ''mute user returned invalid result'')) (\<lambda>_.
       tx_return ((no_result (ei_action input) (u_id target))\<lparr>xr_audit := audit,
                    xr_muted_until := Some until\<rparr>)))))))))"

definition ApplyExtendedAction_body ::
  "gotime \<Rightarrow> access_context \<Rightarrow> extended_input \<Rightarrow> int option \<Rightarrow> extended_result tx"
where
  "ApplyExtendedAction_body now actor input req =
     (let a = ei_action input in
      if a = WarnUser \<or> a = MuteUser then applyUserAction now actor input req
      else
        tx_bind (tx_wrap ''lock extended moderation actor'' (LockUserForSuspension (ac_user_id actor))) (\<lambda>persisted.
        tx_bind (tx_guard (\<not> persistedStaffMatches persisted actor now) (Sentinel UserModerationDenied)) (\<lambda>_.
        if a = PinTopic \<or> a = UnpinTopic \<or> a = MoveTopic
        then applyTopicAction now (ac_user_id actor) input req
        else if a = HidePost \<or> a = RestorePost \<or> a = RedactPost
        then applyPostAction now (ac_user_id actor) input req
        else tx_fail (Wrap ''unknown action'' (Sentinel UserModerationInput)))))"

definition ApplyExtendedAction ::
  "tx_env \<Rightarrow> gotime option \<Rightarrow> access_context \<Rightarrow> extended_input \<Rightarrow> int option \<Rightarrow> extended_result tx"
where
  "ApplyExtendedAction env clock actor input req =
     (case clock of
        None \<Rightarrow> tx_fail (Fail ''extended moderation dependencies are required'')
      | Some reading \<Rightarrow>
          tx_bind (tx_guard (\<not> te_context_given env \<or> \<not> te_beginner_given env)
                    (Fail ''extended moderation dependencies are required'')) (\<lambda>_.
          tx_bind (context_error ''apply extended moderation'' env) (\<lambda>_.
          tx_bind (tx_guard (\<not> activeStaffActor actor) (Sentinel UserModerationDenied)) (\<lambda>_.
          tx_bind (tx_guard (ei_target input \<le> 0 \<or> \<not> validExtendedReason input \<or> \<not> validExtendedInput input)
                    (Wrap ''extended action'' (Sentinel UserModerationInput))) (\<lambda>_.
          tx_bind (tx_guard (request_invalid req) (Fail ''extended moderation request ID is invalid'')) (\<lambda>_.
          tx_bind (tx_guard (reading = zero_time) (Fail ''extended moderation clock returned zero time'')) (\<lambda>_.
          tx_wrap ''extended moderation transaction''
            (within_tx env (ApplyExtendedAction_body (truncate_us reading) actor input req)))))))))"

end
