(* ===== verification/Suspension.thy ===== *)
theory Suspension
  imports ModerationActions
begin

text \<open>
  Suspension and reinstatement of accounts, \<open>internal/moderation/user_suspension.go\<close>, over
  \<open>moderation.sql.go\<close>, \<open>foundation.sql.go\<close> and \<open>site.sql.go\<close>. Suspending an account
  revokes its sessions, marks it for removal at the identity provider and appends the audit in one
  statement; the last active administrator cannot be suspended.
\<close>

text \<open>\<open>set_config\<close> answers with the values PostgreSQL normalised.\<close>

definition ConfigureAdministrationTransaction :: "(string \<times> string) tx" where
  "ConfigureAdministrationTransaction = select_all (\<lambda>db. (''2s'', ''250ms''))"

definition LockGovernanceState :: "bool tx" where
  "LockGovernanceState = select_one (\<lambda>db. if db_governance db then Some True else None)"

text \<open>The filter of \<open>CountActiveAdministrators\<close>; comparisons with NULL do not hold.\<close>

definition sql_unsuspended :: "tstamp \<Rightarrow> user_row \<Rightarrow> bool" where
  "sql_unsuspended observed u =
     (case u_suspended_at u of
        None \<Rightarrow> True
      | Some s \<Rightarrow> s > observed \<or> (case u_suspended_until u of None \<Rightarrow> False | Some e \<Rightarrow> e \<le> observed))"

definition active_administrator :: "tstamp \<Rightarrow> user_row \<Rightarrow> bool" where
  "active_administrator observed u =
     (u_role u = ''administrator'' \<and> u_sync_state u = ''accepted'' \<and> sql_unsuspended observed u)"

definition CountActiveAdministrators :: "tstamp \<Rightarrow> int tx" where
  "CountActiveAdministrators observed =
     select_all (\<lambda>db. int (length (filter (active_administrator observed) (db_users db))))"

definition max_int64 :: int where "max_int64 = 9223372036854775807"

definition SuspendUserAndAudit ::
  "tstamp \<Rightarrow> string \<Rightarrow> tstamp \<Rightarrow> int \<Rightarrow> tstamp \<Rightarrow> int \<Rightarrow> int \<Rightarrow> user_row \<Rightarrow> int option \<Rightarrow> (user_row \<times> int) tx"
where
  "SuspendUserAndAudit suspended reason updated user_id observed expected actor prior req =
     statement (\<lambda>db.
       let hit = (\<lambda>u. u_id u = user_id \<and> sql_unsuspended observed u \<and>
                      u_administration_revision u = expected \<and> u_administration_revision u < max_int64);
           change = (\<lambda>u. u\<lparr>u_suspended_at := Some (max suspended (u_created_at u)), u_suspended_until := None,
                          u_suspension_reason := Some reason, u_sync_state := ''removal_required'',
                          u_sync_last_attempt_at := None, u_sync_next_attempt_at := Some updated,
                          u_sync_failure_class := None, u_updated_at := max updated (u_updated_at u),
                          u_administration_revision := u_administration_revision u + 1\<rparr>)
       in case find hit (db_users db) of
            None \<Rightarrow> (Inl (Sentinel NoRows), db)
          | Some u \<Rightarrow>
              let v = change u;
                  (i, db1) = insert_audit \<lparr>ai_actor = ActorUser actor, ai_target = TargetUser (u_id v),
                     ai_action = ''suspend_user'', ai_reason = Some reason,
                     ai_previous = SuspensionIs (u_suspended_at prior) (u_suspended_until prior)
                                     (u_suspension_reason prior) expected,
                     ai_resulting = SuspensionIs (u_suspended_at v) (u_suspended_until v)
                                      (u_suspension_reason v) (u_administration_revision v),
                     ai_request = req\<rparr> (u_updated_at v) db
              in (Inr (v, i),
                  db1\<lparr>db_users := upd_where hit change (db_users db1),
                      db_sessions := upd_where (\<lambda>s. s_user_id s = user_id \<and> s_revoked_at s = None)
                        (\<lambda>s. s\<lparr>s_revoked_at := Some (max observed (s_issued_at s))\<rparr>) (db_sessions db1)\<rparr>))"

definition ReinstateUserAndAudit ::
  "tstamp \<Rightarrow> int \<Rightarrow> tstamp \<Rightarrow> int \<Rightarrow> int \<Rightarrow> string \<Rightarrow> user_row \<Rightarrow> int option \<Rightarrow> (user_row \<times> int) tx"
where
  "ReinstateUserAndAudit updated user_id observed expected actor reason prior req =
     change_user
       (\<lambda>u. u_id u = user_id \<and>
            (case u_suspended_at u of None \<Rightarrow> False | Some s \<Rightarrow> s \<le> observed) \<and>
            (case u_suspended_until u of None \<Rightarrow> True | Some e \<Rightarrow> e > observed) \<and>
            u_administration_revision u = expected \<and> u_administration_revision u < max_int64)
       (\<lambda>u. u\<lparr>u_suspended_at := None, u_suspended_until := None, u_suspension_reason := None,
             u_updated_at := max updated (u_updated_at u),
             u_administration_revision := u_administration_revision u + 1\<rparr>)
       (\<lambda>v. \<lparr>ai_actor = ActorUser actor, ai_target = TargetUser (u_id v), ai_action = ''reinstate_user'',
             ai_reason = Some reason,
             ai_previous = SuspensionIs (u_suspended_at prior) (u_suspended_until prior)
                             (Some (case u_suspension_reason prior of None \<Rightarrow> '''' | Some r \<Rightarrow> r)) expected,
             ai_resulting = SuspensionIs (u_suspended_at v) (u_suspended_until v)
                              (u_suspension_reason v) (u_administration_revision v),
             ai_request = req\<rparr>)"

record suspension_result =
  sr_user :: int
  sr_suspended :: bool
  sr_revision :: int
  sr_audit :: int

definition suspend_target ::
  "gotime \<Rightarrow> int \<Rightarrow> user_row \<Rightarrow> string \<Rightarrow> int option \<Rightarrow> suspension_result tx"
where
  "suspend_target now actorID target reason req =
     (let updated = not_before now (u_updated_at target);
          suspended = not_before now (u_created_at target)
      in
      tx_bind (tx_wrap ''suspend user and audit''
                (SuspendUserAndAudit (At suspended) reason (At updated) (u_id target) (At now)
                   (u_administration_revision target) actorID target req)) (\<lambda>(changed, audit).
      tx_bind (tx_guard (u_id changed \<noteq> u_id target \<or> \<not> finite_ts (u_suspended_at changed) \<or>
                         ts_time (u_suspended_at changed) \<noteq> suspended \<or> u_suspended_until changed \<noteq> None \<or>
                         u_suspension_reason changed \<noteq> Some reason \<or>
                         \<not> finite_ts (Some (u_updated_at changed)) \<or>
                         ts_time (Some (u_updated_at changed)) \<noteq> updated \<or>
                         u_administration_revision changed \<noteq> u_administration_revision target + 1 \<or> audit \<le> 0)
                (Fail ''user suspension returned an invalid result'')) (\<lambda>_.
      tx_return \<lparr>sr_user = u_id changed, sr_suspended = True,
                 sr_revision = u_administration_revision changed, sr_audit = audit\<rparr>)))"

definition reinstate_target ::
  "gotime \<Rightarrow> int \<Rightarrow> user_row \<Rightarrow> string \<Rightarrow> int option \<Rightarrow> suspension_result tx"
where
  "reinstate_target now actorID target reason req =
     (let updated = not_before now (u_updated_at target) in
      tx_bind (tx_wrap ''reinstate user and audit''
                (ReinstateUserAndAudit (At updated) (u_id target) (At now)
                   (u_administration_revision target) actorID reason target req)) (\<lambda>(changed, audit).
      tx_bind (tx_guard (u_id changed \<noteq> u_id target \<or> u_suspended_at changed \<noteq> None \<or>
                         u_suspended_until changed \<noteq> None \<or> u_suspension_reason changed \<noteq> None \<or>
                         \<not> finite_ts (Some (u_updated_at changed)) \<or>
                         ts_time (Some (u_updated_at changed)) \<noteq> updated \<or>
                         u_administration_revision changed \<noteq> u_administration_revision target + 1 \<or> audit \<le> 0)
                (Fail ''user reinstatement returned an invalid result'')) (\<lambda>_.
      tx_return \<lparr>sr_user = u_id changed, sr_suspended = False,
                 sr_revision = u_administration_revision changed, sr_audit = audit\<rparr>)))"

definition ChangeUserSuspension_body ::
  "gotime \<Rightarrow> access_context \<Rightarrow> int \<Rightarrow> bool \<Rightarrow> string \<Rightarrow> int option \<Rightarrow> suspension_result tx"
where
  "ChangeUserSuspension_body now actor targetID suspend reason req =
     tx_bind (tx_wrap ''configure user moderation transaction'' ConfigureAdministrationTransaction) (\<lambda>configured.
     tx_bind (tx_guard (fst configured \<noteq> ''2s'' \<or> snd configured \<noteq> ''250ms'')
               (Fail ''user moderation transaction configuration is invalid'')) (\<lambda>_.
     tx_bind (tx_wrap ''lock user moderation governance state'' LockGovernanceState) (\<lambda>locked.
     tx_bind (tx_guard (\<not> locked) (Fail ''user moderation governance singleton is missing'')) (\<lambda>_.
     tx_bind (tx_wrap ''lock first user for moderation''
               (LockUserForSuspension (min (ac_user_id actor) targetID))) (\<lambda>firstUser.
     tx_bind (tx_wrap ''lock second user for moderation''
               (LockUserForSuspension (max (ac_user_id actor) targetID))) (\<lambda>secondUser.
     let (actorUser, target) =
           (if u_id firstUser = targetID then (secondUser, firstUser) else (firstUser, secondUser)) in
     tx_bind (tx_guard (\<not> validSuspensionTarget actorUser (ac_user_id actor) \<or>
                        \<not> validSuspensionTarget target targetID)
               (Fail ''user moderation lock returned an invalid result'')) (\<lambda>_.
     tx_bind (tx_guard (roleFromStorage (u_role actorUser) \<noteq> Some (ac_role actor) \<or>
                        userSuspendedAt actorUser now \<or>
                        (u_muted_until actorUser \<noteq> None \<and> ts_time (u_muted_until actorUser) > now) \<or>
                        u_sync_state actorUser \<noteq> ''accepted'') (Sentinel UserModerationDenied)) (\<lambda>_.
     tx_bind (tx_guard (ac_role actor = RoleModerator \<and> u_role target \<noteq> ''member'')
               (Sentinel UserModerationDenied)) (\<lambda>_.
     tx_bind (tx_guard (suspend = userSuspendedAt target now) (Sentinel UserModerationConflict)) (\<lambda>_.
     tx_bind (tx_guard (u_administration_revision target = max_int64) (Sentinel UserModerationConflict)) (\<lambda>_.
     tx_bind (if suspend \<and> u_role target = ''administrator''
              then tx_bind (tx_wrap ''count active administrators for suspension''
                             (CountActiveAdministrators (At now))) (\<lambda>n.
                   tx_guard (n \<le> 1) (Sentinel AdministratorContinuity))
              else tx_return ()) (\<lambda>_.
     if suspend then suspend_target now (ac_user_id actor) target reason req
     else reinstate_target now (ac_user_id actor) target reason req))))))))))))"

definition ChangeUserSuspension ::
  "tx_env \<Rightarrow> gotime option \<Rightarrow> access_context \<Rightarrow> int \<Rightarrow> bool \<Rightarrow> string \<Rightarrow> int option \<Rightarrow> suspension_result tx"
where
  "ChangeUserSuspension env clock actor targetID suspend reason req =
     tx_bind (tx_guard (\<not> te_context_given env) (Fail ''user moderation context is required'')) (\<lambda>_.
     tx_bind (tx_guard (\<not> te_beginner_given env)
               (Fail ''user moderation transaction beginner is required'')) (\<lambda>_.
     case clock of
       None \<Rightarrow> tx_fail (Fail ''user moderation clock is required'')
     | Some reading \<Rightarrow>
         tx_bind (tx_guard (\<not> Valid actor \<or> \<not> ac_authenticated actor)
                   (Fail ''user moderation actor is invalid'')) (\<lambda>_.
         tx_bind (tx_guard (ac_suspended actor \<or> ac_muted_until actor \<noteq> None \<or>
                            ac_role actor \<noteq> RoleModerator \<and> ac_role actor \<noteq> RoleAdministrator)
                   (Sentinel UserModerationDenied)) (\<lambda>_.
         tx_bind (tx_guard (targetID \<le> 0) (Wrap ''target'' (Sentinel UserModerationInput))) (\<lambda>_.
         tx_bind (tx_guard (targetID = ac_user_id actor) (Sentinel UserModerationDenied)) (\<lambda>_.
         tx_bind (tx_guard (\<not> validSuspensionReason reason) (Wrap ''reason'' (Sentinel UserModerationInput))) (\<lambda>_.
         tx_bind (tx_guard (request_invalid req) (Fail ''user moderation request ID is invalid'')) (\<lambda>_.
         tx_bind (context_error ''moderate user'' env) (\<lambda>_.
         tx_bind (tx_guard (reading = zero_time) (Fail ''user moderation clock returned a zero time'')) (\<lambda>_.
         tx_wrap ''user moderation transaction''
           (within_tx env (ChangeUserSuspension_body (truncate_us reading) actor targetID suspend reason req))))))))))))"

end
