(* ===== verification/Reports.thy ===== *)
theory Reports
  imports Moderation
begin

text \<open>
  Reports, \<open>internal/moderation/reports.go\<close> over \<open>reports.sql.go\<close>: a member's report of a topic,
  a post or an account with its cap and its uniqueness, and the staff state machine
  open, in review, resolved or dismissed.
\<close>

definition MaximumActiveReportsPerUser :: int where "MaximumActiveReportsPerUser = 25"

definition ReportTopic :: string where "ReportTopic = ''topic''"
definition ReportPost :: string where "ReportPost = ''post''"
definition ReportUser :: string where "ReportUser = ''user''"

definition ClaimReport :: string where "ClaimReport = ''claim''"
definition NoteReport :: string where "NoteReport = ''note''"
definition ResolveReport :: string where "ResolveReport = ''resolve''"
definition DismissReport :: string where "DismissReport = ''dismiss''"

lemmas report_strings =
  ReportTopic_def ReportPost_def ReportUser_def ClaimReport_def NoteReport_def ResolveReport_def
  DismissReport_def

definition validReportText :: "string \<Rightarrow> bool" where
  "validReportText value =
     (if length value = 0 \<or> length value > 2000 \<or> \<not> valid_utf8 value \<or> \<not> is_trimmed value then False
      else \<not> list_ex (\<lambda>r. is_control r \<and> r \<noteq> Some 10 \<and> r \<noteq> Some 9) (runes value))"

subsection \<open>Creation\<close>

definition active_report :: "report_row \<Rightarrow> bool" where
  "active_report r = (rp_status r = ''open'' \<or> rp_status r = ''in_review'')"

definition CountActiveReportsByReporter :: "int \<Rightarrow> int tx" where
  "CountActiveReportsByReporter reporter =
     select_all (\<lambda>db. int (length (filter (\<lambda>r. rp_reported_by r = reporter \<and> active_report r) (db_reports db))))"

text \<open>The viewer filter of these statements, with the empty group list matching nothing.\<close>

definition sql_report_visible :: "forum_db \<Rightarrow> bool \<Rightarrow> bool \<Rightarrow> int list \<Rightarrow> area_row \<Rightarrow> bool" where
  "sql_report_visible db staff member groups a =
     (staff \<or> a_visibility a = ''public'' \<or> (member \<and> a_visibility a = ''authenticated'') \<or>
      (member \<and> a_visibility a = ''groups'' \<and>
       list_ex (\<lambda>m. fst m = a_id a \<and> list_ex (\<lambda>g. snd m = g) groups) (db_area_groups db)))"

definition sql_topic_visible :: "forum_db \<Rightarrow> bool \<Rightarrow> bool \<Rightarrow> int list \<Rightarrow> topic_row \<Rightarrow> bool" where
  "sql_topic_visible db staff member groups t =
     (t_deleted_at t = None \<and> (staff \<or> t_state t \<noteq> ''hidden'') \<and>
      (case find_area db (t_area_id t) of
         None \<Rightarrow> False | Some a \<Rightarrow> sql_report_visible db staff member groups a))"

definition sql_post_visible :: "forum_db \<Rightarrow> bool \<Rightarrow> bool \<Rightarrow> int list \<Rightarrow> post_row \<Rightarrow> bool" where
  "sql_post_visible db staff member groups p =
     (p_deleted_at p = None \<and>
      (case find_topic db (p_topic_id p) of
         None \<Rightarrow> False | Some t \<Rightarrow> sql_topic_visible db staff member groups t))"

definition new_report ::
  "int \<Rightarrow> int \<Rightarrow> int option \<Rightarrow> int option \<Rightarrow> int option \<Rightarrow> string \<Rightarrow> tstamp \<Rightarrow> report_row" where
  "new_report i reporter topic post user reason stamp =
     \<lparr>rp_id = i, rp_reported_by = reporter, rp_topic = topic, rp_post = post, rp_user = user,
      rp_reason = reason, rp_status = ''open'', rp_assigned = None, rp_resolution = None,
      rp_resolved_by = None, rp_created_at = stamp, rp_updated_at = stamp, rp_resolved_at = None\<rparr>"

text \<open>The three partial unique indexes on the active reports of one reporter.\<close>

definition report_violation :: "report_row list \<Rightarrow> report_row \<Rightarrow> string option" where
  "report_violation rows r =
     (let clash = (\<lambda>key. key r \<noteq> None \<and>
            list_ex (\<lambda>q. active_report q \<and> rp_reported_by q = rp_reported_by r \<and> key q = key r) rows)
      in if clash rp_topic then Some ''reports_open_topic_reporter_unique''
         else if clash rp_post then Some ''reports_open_post_reporter_unique''
         else if clash rp_user then Some ''reports_open_user_reporter_unique''
         else None)"

definition insert_report ::
  "(forum_db \<Rightarrow> bool) \<Rightarrow> int \<Rightarrow> int option \<Rightarrow> int option \<Rightarrow> int option \<Rightarrow> string \<Rightarrow> tstamp \<Rightarrow> report_row tx"
where
  "insert_report visible reporter topic post user reason stamp =
     statement (\<lambda>db.
       if \<not> visible db then (Inl (Sentinel NoRows), db)
       else
         let (i, db1) = nextval ReportSeq db;
             r = new_report i reporter topic post user reason stamp
         in case report_violation (db_reports db1) r of
              Some c \<Rightarrow> (Inl (UniqueViolation c), db1)
            | None \<Rightarrow> (Inr r, db1\<lparr>db_reports := db_reports db1 @ [r]\<rparr>))"

definition CreateTopicReport ::
  "int \<Rightarrow> string \<Rightarrow> tstamp \<Rightarrow> int \<Rightarrow> bool \<Rightarrow> bool \<Rightarrow> int list \<Rightarrow> report_row tx" where
  "CreateTopicReport reporter reason stamp topic_id staff member groups =
     insert_report (\<lambda>db. case find_topic db topic_id of
                      None \<Rightarrow> False | Some t \<Rightarrow> sql_topic_visible db staff member groups t)
       reporter (Some topic_id) None None reason stamp"

definition CreatePostReport ::
  "int \<Rightarrow> string \<Rightarrow> tstamp \<Rightarrow> int \<Rightarrow> bool \<Rightarrow> bool \<Rightarrow> int list \<Rightarrow> report_row tx" where
  "CreatePostReport reporter reason stamp post_id staff member groups =
     insert_report (\<lambda>db. case find_post db post_id of
                      None \<Rightarrow> False | Some p \<Rightarrow> sql_post_visible db staff member groups p)
       reporter None (Some post_id) None reason stamp"

definition CreateUserReport ::
  "int \<Rightarrow> string \<Rightarrow> tstamp \<Rightarrow> int \<Rightarrow> bool \<Rightarrow> bool \<Rightarrow> int list \<Rightarrow> report_row tx" where
  "CreateUserReport reporter reason stamp user_id staff member groups =
     insert_report (\<lambda>db. find_user db user_id \<noteq> None \<and> user_id \<noteq> reporter \<and>
                      list_ex (\<lambda>p. p_author_id p = user_id \<and> sql_post_visible db staff member groups p) (db_posts db))
       reporter None None (Some user_id) reason stamp"

text \<open>\<open>errors.As(err, &databaseError)\<close> with code 23505: the violated constraint.\<close>

fun unique_constraint :: "go_error \<Rightarrow> string option" where
  "unique_constraint (UniqueViolation c) = Some c"
| "unique_constraint (Wrap _ e) = unique_constraint e"
| "unique_constraint (Join d e) =
     (case unique_constraint d of Some c \<Rightarrow> Some c | None \<Rightarrow> unique_constraint e)"
| "unique_constraint _ = None"

definition mapCreateReportError :: "go_error \<Rightarrow> go_error" where
  "mapCreateReportError e =
     (if err_is e NoRows then e
      else case unique_constraint e of
        Some c \<Rightarrow>
          if c = ''reports_open_topic_reporter_unique'' \<or> c = ''reports_open_post_reporter_unique'' \<or>
             c = ''reports_open_user_reporter_unique''
          then Sentinel ReportDuplicate else Wrap ''insert report'' e
      | None \<Rightarrow> Wrap ''insert report'' e)"

record report_result =
  rr_report :: int
  rr_target_type :: string
  rr_target :: int
  rr_status :: string
  rr_created_at :: gotime

definition report_result_of ::
  "string \<Rightarrow> (report_row \<Rightarrow> int option) \<Rightarrow> bool \<Rightarrow> report_row \<Rightarrow> report_result tx" where
  "report_result_of target key others row =
     (case key row of
        None \<Rightarrow> tx_fail (Fail ''create report returned malformed state'')
      | Some i \<Rightarrow>
          tx_bind (tx_guard (others \<or> \<not> finiteTimestamp (Some (rp_created_at row)))
                    (Fail ''create report returned malformed state'')) (\<lambda>_.
          tx_return \<lparr>rr_report = rp_id row, rr_target_type = target, rr_target = i, rr_status = rp_status row,
                     rr_created_at = ts_time (Some (rp_created_at row))\<rparr>))"

definition CreateReport_body ::
  "gotime \<Rightarrow> access_context \<Rightarrow> string \<Rightarrow> int \<Rightarrow> string \<Rightarrow> report_result tx"
where
  "CreateReport_body now actor target targetID reason =
     tx_bind (tx_wrap ''lock report author'' (LockUserForSuspension (ac_user_id actor))) (\<lambda>persisted.
     tx_bind (tx_guard (\<not> validSuspensionTarget persisted (ac_user_id actor) \<or>
                        u_sync_state persisted \<noteq> ''accepted'') (Fail ''report author row is invalid'')) (\<lambda>_.
     tx_bind (tx_guard (roleFromStorage (u_role persisted) \<noteq> Some (ac_role actor) \<or>
                        userSuspendedAt persisted now) (Sentinel ReportDenied)) (\<lambda>_.
     tx_bind (tx_wrap ''count active reports'' (CountActiveReportsByReporter (ac_user_id actor))) (\<lambda>count.
     tx_bind (tx_guard (count \<ge> MaximumActiveReportsPerUser) (Sentinel ReportLimit)) (\<lambda>_.
     tx_bind
       (if target = ReportTopic then
          tx_bind (tx_map_error mapCreateReportError
                    (CreateTopicReport (ac_user_id actor) reason (At now) targetID (is_staff actor) True
                       (ac_group_ids actor))) (\<lambda>row.
          report_result_of target rp_topic (rp_post row \<noteq> None \<or> rp_user row \<noteq> None) row)
        else if target = ReportPost then
          tx_bind (tx_map_error mapCreateReportError
                    (CreatePostReport (ac_user_id actor) reason (At now) targetID (is_staff actor) True
                       (ac_group_ids actor))) (\<lambda>row.
          report_result_of target rp_post (rp_topic row \<noteq> None \<or> rp_user row \<noteq> None) row)
        else
          tx_bind (tx_map_error mapCreateReportError
                    (CreateUserReport (ac_user_id actor) reason (At now) targetID (is_staff actor) True
                       (ac_group_ids actor))) (\<lambda>row.
          report_result_of target rp_user (rp_topic row \<noteq> None \<or> rp_post row \<noteq> None) row)) (\<lambda>result.
     tx_bind (tx_guard (rr_report result \<le> 0 \<or> rr_target result \<noteq> targetID \<or> rr_status result \<noteq> ''open'' \<or>
                        rr_created_at result = zero_time)
               (Fail ''create report returned an invalid result'')) (\<lambda>_.
     tx_return result)))))))"

definition CreateReport ::
  "tx_env \<Rightarrow> gotime option \<Rightarrow> access_context \<Rightarrow> string \<Rightarrow> int \<Rightarrow> string \<Rightarrow> report_result tx"
where
  "CreateReport env clock actor target targetID reason =
     (case clock of
        None \<Rightarrow> tx_fail (Fail ''report dependencies are required'')
      | Some reading \<Rightarrow>
          tx_bind (tx_guard (\<not> te_context_given env \<or> \<not> te_beginner_given env)
                    (Fail ''report dependencies are required'')) (\<lambda>_.
          tx_bind (context_error ''create report'' env) (\<lambda>_.
          tx_bind (tx_guard (\<not> Valid actor \<or> \<not> ac_authenticated actor) (Sentinel ReportDenied)) (\<lambda>_.
          tx_bind (tx_guard ((target \<noteq> ReportTopic \<and> target \<noteq> ReportPost \<and> target \<noteq> ReportUser) \<or>
                             targetID \<le> 0 \<or> \<not> validReportText reason)
                    (Wrap ''target or reason'' (Sentinel ReportInput))) (\<lambda>_.
          tx_bind (tx_guard (ac_suspended actor) (Sentinel ReportDenied)) (\<lambda>_.
          tx_bind (tx_guard (reading = zero_time) (Fail ''report clock returned zero time'')) (\<lambda>_.
          tx_wrap ''create report transaction''
            (within_tx env (CreateReport_body (truncate_us reading) actor target targetID reason)))))))))"

subsection \<open>Processing\<close>

definition change_report ::
  "(report_row \<Rightarrow> bool) \<Rightarrow> (report_row \<Rightarrow> report_row) \<Rightarrow> (report_row \<Rightarrow> audit_input) \<Rightarrow> (report_row \<times> int) tx"
where
  "change_report hit change audit =
     statement (\<lambda>db.
       case find hit (db_reports db) of
         None \<Rightarrow> (Inl (Sentinel NoRows), db)
       | Some r \<Rightarrow>
           let (i, db1) = insert_audit (audit (change r)) (rp_updated_at (change r)) db in
           (Inr (change r, i), db1\<lparr>db_reports := upd_where hit change (db_reports db1)\<rparr>))"

definition LockReportForModeration :: "int \<Rightarrow> report_row tx" where
  "LockReportForModeration i = select_one (\<lambda>db. find (\<lambda>r. rp_id r = i) (db_reports db))"

definition ClaimReportAndAudit :: "int \<Rightarrow> tstamp \<Rightarrow> int \<Rightarrow> int option \<Rightarrow> (report_row \<times> int) tx" where
  "ClaimReportAndAudit actor stamp report_id req =
     change_report (\<lambda>r. rp_id r = report_id \<and> rp_status r = ''open'' \<and> rp_assigned r = None)
       (\<lambda>r. r\<lparr>rp_status := ''in_review'', rp_assigned := Some actor, rp_updated_at := max stamp (rp_updated_at r)\<rparr>)
       (\<lambda>r. \<lparr>ai_actor = ActorUser actor, ai_target = TargetReport (rp_id r), ai_action = ''assign_report'',
             ai_reason = None, ai_previous = ReportIs ''open'' None None,
             ai_resulting = ReportIs (rp_status r) (rp_assigned r) None, ai_request = req\<rparr>)"

definition AddReportNoteAndAudit ::
  "int \<Rightarrow> int \<Rightarrow> string \<Rightarrow> tstamp \<Rightarrow> int option \<Rightarrow> (note_row \<times> int) tx" where
  "AddReportNoteAndAudit report_id actor body stamp req =
     statement (\<lambda>db.
       if \<not> list_ex (\<lambda>r. rp_id r = report_id \<and> rp_status r = ''in_review'' \<and> rp_assigned r \<noteq> None) (db_reports db)
       then (Inl (Sentinel NoRows), db)
       else
         let (n, db1) = nextval NoteSeq db;
             (i, db2) = insert_audit \<lparr>ai_actor = ActorUser actor, ai_target = TargetReport report_id,
                          ai_action = ''note_report'', ai_reason = Some body, ai_previous = EmptyState,
                          ai_resulting = NoteIs n, ai_request = req\<rparr> stamp db1;
             note = \<lparr>nt_id = n, nt_report = report_id, nt_author = actor, nt_body = body, nt_created_at = stamp\<rparr>
         in (Inr (note, i), db2\<lparr>db_report_notes := db_report_notes db2 @ [note]\<rparr>))"

definition FinishReportAndAudit ::
  "string \<Rightarrow> string \<Rightarrow> int \<Rightarrow> tstamp \<Rightarrow> int \<Rightarrow> string \<Rightarrow> int option \<Rightarrow> (report_row \<times> int) tx" where
  "FinishReportAndAudit status resolution actor stamp report_id action req =
     change_report (\<lambda>r. rp_id r = report_id \<and> rp_status r = ''in_review'' \<and> rp_assigned r \<noteq> None)
       (\<lambda>r. r\<lparr>rp_status := status, rp_resolution := Some resolution, rp_resolved_by := Some actor,
             rp_resolved_at := Some (max stamp (rp_updated_at r)), rp_updated_at := max stamp (rp_updated_at r)\<rparr>)
       (\<lambda>r. \<lparr>ai_actor = ActorUser actor, ai_target = TargetReport (rp_id r), ai_action = action,
             ai_reason = rp_resolution r, ai_previous = ReportIs ''in_review'' (rp_assigned r) None,
             ai_resulting = ReportIs (rp_status r) (rp_assigned r) (rp_resolved_by r), ai_request = req\<rparr>)"

record report_action_result =
  ra_report :: int
  ra_status :: string
  ra_note :: int
  ra_audit :: int

definition claim_report ::
  "access_context \<Rightarrow> int \<Rightarrow> tstamp \<Rightarrow> report_row \<Rightarrow> int option \<Rightarrow> report_action_result tx" where
  "claim_report actor reportID stamp report req =
     tx_bind (tx_guard (rp_status report \<noteq> ''open'' \<or> rp_assigned report \<noteq> None) (Sentinel ReportConflict)) (\<lambda>_.
     tx_bind (tx_wrap ''claim report and audit''
               (ClaimReportAndAudit (ac_user_id actor) stamp reportID req)) (\<lambda>(changed, audit).
     tx_bind (tx_guard (rp_id changed \<noteq> reportID \<or> rp_status changed \<noteq> ''in_review'' \<or>
                        rp_assigned changed \<noteq> Some (ac_user_id actor) \<or>
                        \<not> finiteTimestamp (Some (rp_updated_at changed)) \<or> audit \<le> 0)
               (Fail ''claim report returned an invalid result'')) (\<lambda>_.
     tx_return \<lparr>ra_report = reportID, ra_status = rp_status changed, ra_note = 0, ra_audit = audit\<rparr>)))"

definition note_report ::
  "access_context \<Rightarrow> int \<Rightarrow> tstamp \<Rightarrow> string \<Rightarrow> int option \<Rightarrow> report_action_result tx" where
  "note_report actor reportID stamp body req =
     tx_bind (tx_wrap ''add report note and audit''
               (AddReportNoteAndAudit reportID (ac_user_id actor) body stamp req)) (\<lambda>(added, audit).
     tx_bind (tx_guard (nt_report added \<noteq> reportID \<or> nt_author added \<noteq> ac_user_id actor \<or>
                        nt_id added \<le> 0 \<or> audit \<le> 0)
               (Fail ''add report note returned an invalid result'')) (\<lambda>_.
     tx_return \<lparr>ra_report = reportID, ra_status = ''in_review'', ra_note = nt_id added, ra_audit = audit\<rparr>))"

definition finish_report ::
  "access_context \<Rightarrow> int \<Rightarrow> tstamp \<Rightarrow> bool \<Rightarrow> string \<Rightarrow> int option \<Rightarrow> report_action_result tx" where
  "finish_report actor reportID stamp dismiss resolution req =
     (let status = (if dismiss then ''dismissed'' else ''resolved'');
          action = (if dismiss then ''dismiss_report'' else ''resolve_report'') in
      tx_bind (tx_wrap ''finish report and audit''
                (FinishReportAndAudit status resolution (ac_user_id actor) stamp reportID action req)) (\<lambda>(finished, audit).
      tx_bind (tx_guard (rp_id finished \<noteq> reportID \<or> rp_status finished \<noteq> status \<or> rp_assigned finished = None \<or>
                         rp_resolved_by finished \<noteq> Some (ac_user_id actor) \<or>
                         \<not> finiteTimestamp (rp_resolved_at finished) \<or>
                         \<not> finiteTimestamp (Some (rp_updated_at finished)) \<or> audit \<le> 0)
                (Fail ''finish report returned an invalid result'')) (\<lambda>_.
      tx_return \<lparr>ra_report = reportID, ra_status = status, ra_note = 0, ra_audit = audit\<rparr>)))"

definition ProcessReport_body ::
  "gotime \<Rightarrow> access_context \<Rightarrow> int \<Rightarrow> string \<Rightarrow> string \<Rightarrow> int option \<Rightarrow> report_action_result tx"
where
  "ProcessReport_body now actor reportID action body req =
     tx_bind (tx_wrap ''lock report actor'' (LockUserForSuspension (ac_user_id actor))) (\<lambda>persisted.
     tx_bind (tx_guard (\<not> validSuspensionTarget persisted (ac_user_id actor) \<or>
                        u_sync_state persisted \<noteq> ''accepted'' \<or>
                        roleFromStorage (u_role persisted) \<noteq> Some (ac_role actor) \<or>
                        userSuspendedAt persisted now \<or>
                        (u_muted_until persisted \<noteq> None \<and> ts_time (u_muted_until persisted) > now) \<or>
                        \<not> is_staff actor) (Sentinel ReportDenied)) (\<lambda>_.
     tx_bind (tx_wrap ''lock report'' (LockReportForModeration reportID)) (\<lambda>report.
     tx_bind (tx_guard (rp_id report \<noteq> reportID \<or> \<not> finiteTimestamp (Some (rp_created_at report)) \<or>
                        \<not> finiteTimestamp (Some (rp_updated_at report)) \<or>
                        ts_time (Some (rp_updated_at report)) < ts_time (Some (rp_created_at report)))
               (Fail ''locked report is invalid'')) (\<lambda>_.
     let stamp = At (not_before now (rp_updated_at report)) in
     if action = ClaimReport then claim_report actor reportID stamp report req
     else
       tx_bind (tx_guard (rp_status report \<noteq> ''in_review'' \<or> rp_assigned report = None \<or>
                          (ac_role actor \<noteq> RoleAdministrator \<and> rp_assigned report \<noteq> Some (ac_user_id actor)))
                 (Sentinel ReportConflict)) (\<lambda>_.
       if action = NoteReport then note_report actor reportID stamp body req
       else finish_report actor reportID stamp (action = DismissReport) body req)))))"

definition ProcessReport ::
  "tx_env \<Rightarrow> gotime option \<Rightarrow> access_context \<Rightarrow> int \<Rightarrow> string \<Rightarrow> string \<Rightarrow> int option \<Rightarrow> report_action_result tx"
where
  "ProcessReport env clock actor reportID action body req =
     (case clock of
        None \<Rightarrow> tx_fail (Fail ''report processing dependencies are required'')
      | Some reading \<Rightarrow>
          tx_bind (tx_guard (\<not> te_context_given env \<or> \<not> te_beginner_given env)
                    (Fail ''report processing dependencies are required'')) (\<lambda>_.
          tx_bind (context_error ''process report'' env) (\<lambda>_.
          tx_bind (tx_guard (\<not> Valid actor \<or> \<not> ac_authenticated actor) (Sentinel ReportDenied)) (\<lambda>_.
          tx_bind (tx_guard (ac_suspended actor \<or> ac_muted_until actor \<noteq> None \<or> \<not> is_staff actor)
                    (Sentinel ReportDenied)) (\<lambda>_.
          tx_bind (tx_guard (reportID \<le> 0 \<or> (action \<noteq> ClaimReport \<and> action \<noteq> NoteReport \<and>
                             action \<noteq> ResolveReport \<and> action \<noteq> DismissReport))
                    (Wrap ''report action'' (Sentinel ReportInput))) (\<lambda>_.
          tx_bind (tx_guard (if action = ClaimReport then body \<noteq> '''' else \<not> validReportText body)
                    (Wrap (if action = ClaimReport then ''claim text'' else ''action text'') (Sentinel ReportInput))) (\<lambda>_.
          tx_bind (tx_guard (request_invalid req) (Fail ''report request ID is invalid'')) (\<lambda>_.
          tx_bind (tx_guard (reading = zero_time) (Fail ''report processing clock returned zero time'')) (\<lambda>_.
          tx_wrap ''process report transaction''
            (within_tx env (ProcessReport_body (truncate_us reading) actor reportID action body req)))))))))))"

end
