(* ===== verification/TopicPage.thy ===== *)
theory TopicPage
  imports ModerationActions
begin

text \<open>
  The topic page, \<open>internal/store/topic_post_pages.go\<close> over \<open>topic_posts.sql.go\<close>: the thread of a
  topic in depth-first order, one page of it for one viewer, and the checks the service makes on
  the rows before they reach the presentation.
\<close>

subsection \<open>The query\<close>

text \<open>A post as the query projects it; a tombstone keeps its place and loses its content.\<close>

record thread_node =
  tn_post_id :: int
  tn_number :: int
  tn_parent :: "int option"
  tn_depth :: int
  tn_tombstone :: bool
  tn_redacted :: bool
  tn_html :: "string option"
  tn_renderer :: "string option"
  tn_revision :: "int option"
  tn_created_at :: "tstamp option"
  tn_updated_at :: "tstamp option"
  tn_edited_at :: "tstamp option"
  tn_author_id :: "int option"
  tn_author_name :: "string option"

definition thread_node_of :: "forum_db \<Rightarrow> post_row \<Rightarrow> thread_node" where
  "thread_node_of db p =
     (let shown = (p_deleted_at p = None) in
      \<lparr>tn_post_id = p_id p, tn_number = p_number p, tn_parent = p_parent p, tn_depth = int (length (p_path p)),
       tn_tombstone = \<not> shown, tn_redacted = (p_redacted_at p \<noteq> None),
       tn_html = (if shown then Some (p_html p) else None),
       tn_renderer = (if shown then Some (p_renderer p) else None),
       tn_revision = (if shown then Some (p_revision p) else None),
       tn_created_at = (if shown then Some (p_created_at p) else None),
       tn_updated_at = (if shown then Some (p_updated_at p) else None),
       tn_edited_at = (if shown then p_edited_at p else None),
       tn_author_id = (if shown then Some (p_author_id p) else None),
       tn_author_name = (if shown then map_option u_display_name (find_user db (p_author_id p)) else None)\<rparr>)"

definition page_shows :: "bool \<Rightarrow> post_row list \<Rightarrow> post_row \<Rightarrow> bool" where
  "page_shows staff ps p =
     (staff \<or> p_deleted_at p = None \<or>
      list_ex (\<lambda>d. p_deleted_at d = None \<and> p_id d \<noteq> p_id p \<and>
                   take (length (p_path p)) (p_path d) = p_path p) ps)"

text \<open>The visible nodes in the order of their thread paths; the ordinal is the position from 1.\<close>

definition thread_nodes :: "forum_db \<Rightarrow> int \<Rightarrow> bool \<Rightarrow> post_row list" where
  "thread_nodes db topic_id staff =
     sort_key p_path (filter (page_shows staff (topic_posts db topic_id)) (topic_posts db topic_id))"

definition numbered_nodes :: "forum_db \<Rightarrow> int \<Rightarrow> bool \<Rightarrow> (int \<times> thread_node) list" where
  "numbered_nodes db topic_id staff =
     map (\<lambda>(i, p). (int i + 1, thread_node_of db p)) (enumerate 0 (thread_nodes db topic_id staff))"

record page_row =
  pg_area :: area_row
  pg_topic :: topic_row
  pg_starter_name :: string
  pg_node :: "(int \<times> thread_node) option"
  pg_parent :: "(int \<times> thread_node) option"
  pg_total :: int

definition sql_page_topic_visible :: "forum_db \<Rightarrow> bool \<Rightarrow> bool \<Rightarrow> int list \<Rightarrow> topic_row \<Rightarrow> area_row \<Rightarrow> bool" where
  "sql_page_topic_visible db staff member groups t a =
     (t_deleted_at t = None \<and> (staff \<or> t_state t \<noteq> ''hidden'') \<and>
      (staff \<or> a_visibility a = ''public'' \<or> (member \<and> a_visibility a = ''authenticated'') \<or>
       (member \<and> a_visibility a = ''groups'' \<and> groups \<noteq> [] \<and>
        list_ex (\<lambda>m. fst m = a_id a \<and> list_ex (\<lambda>g. snd m = g) groups) (db_area_groups db))))"

definition visible_page_topic ::
  "forum_db \<Rightarrow> int \<Rightarrow> bool \<Rightarrow> bool \<Rightarrow> int list \<Rightarrow> (topic_row \<times> area_row \<times> user_row) option"
where
  "visible_page_topic db topic_id staff member groups =
     (case find_topic db topic_id of
        None \<Rightarrow> None
      | Some t \<Rightarrow>
          (case find_area db (t_area_id t) of
             None \<Rightarrow> None
           | Some a \<Rightarrow>
               (case find_user db (t_author_id t) of
                  None \<Rightarrow> None
                | Some u \<Rightarrow>
                    if sql_page_topic_visible db staff member groups t a then Some (t, a, u) else None)))"

definition query_GetVisibleTopicPostPage ::
  "int \<Rightarrow> int \<Rightarrow> bool \<Rightarrow> bool \<Rightarrow> int list \<Rightarrow> int \<Rightarrow> page_row list tx"
where
  "query_GetVisibleTopicPostPage offset topic_id staff member groups limit =
     select_all (\<lambda>db.
       case visible_page_topic db topic_id staff member groups of
         None \<Rightarrow> []
       | Some (t, a, u) \<Rightarrow>
           let nodes = numbered_nodes db topic_id staff;
               page = filter (\<lambda>n. offset < fst n \<and> fst n \<le> offset + limit) nodes;
               row = (\<lambda>n. \<lparr>pg_area = a, pg_topic = t, pg_starter_name = u_display_name u, pg_node = Some n,
                            pg_parent = (case tn_parent (snd n) of
                                           None \<Rightarrow> None
                                         | Some i \<Rightarrow> find (\<lambda>m. tn_post_id (snd m) = i) nodes),
                            pg_total = int (length nodes)\<rparr>)
           in if page \<noteq> [] then map row page
              else if offset = 0
              then [\<lparr>pg_area = a, pg_topic = t, pg_starter_name = u_display_name u, pg_node = None,
                     pg_parent = None, pg_total = 0\<rparr>]
              else [])"

subsection \<open>The checks of the service\<close>

definition validVisibleTopicState :: "string \<Rightarrow> bool" where
  "validVisibleTopicState st = (st = ''open'' \<or> st = ''locked'' \<or> st = ''archived'' \<or> st = ''hidden'')"

definition validPostingMode :: "string \<Rightarrow> bool" where
  "validPostingMode mode = (mode = PostingNormal \<or> mode = PostingReadOnly \<or> mode = PostingArchived)"

definition sameVisibleTopicMetadata :: "page_row \<Rightarrow> page_row \<Rightarrow> bool" where
  "sameVisibleTopicMetadata f r =
     (a_id (pg_area r) = a_id (pg_area f) \<and> a_slug (pg_area r) = a_slug (pg_area f) \<and>
      a_name (pg_area r) = a_name (pg_area f) \<and> a_description (pg_area r) = a_description (pg_area f) \<and>
      a_posting_mode (pg_area r) = a_posting_mode (pg_area f) \<and>
      t_id (pg_topic r) = t_id (pg_topic f) \<and> t_first_post_id (pg_topic r) = t_first_post_id (pg_topic f) \<and>
      t_title (pg_topic r) = t_title (pg_topic f) \<and> t_state (pg_topic r) = t_state (pg_topic f) \<and>
      t_pinned_at (pg_topic r) = t_pinned_at (pg_topic f) \<and>
      t_created_at (pg_topic r) = t_created_at (pg_topic f) \<and> pg_starter_name r = pg_starter_name f)"

definition validVisibleThreadNode :: "page_row \<Rightarrow> int \<Rightarrow> bool" where
  "validVisibleThreadNode row previous =
     (case pg_node row of
        None \<Rightarrow> False
      | Some (ordinal, n) \<Rightarrow>
          if tn_post_id n \<le> 0 \<or> tn_number n \<le> 0 \<or> tn_depth n < 1 \<or> tn_depth n > 32 \<or> ordinal \<noteq> previous + 1
          then False
          else if (if tn_depth n = 1
                   then tn_post_id n \<noteq> t_first_post_id (pg_topic row) \<or> tn_parent n \<noteq> None \<or> pg_parent row \<noteq> None
                   else (case tn_parent n of None \<Rightarrow> True | Some i \<Rightarrow> i \<le> 0) \<or>
                        (case pg_parent row of None \<Rightarrow> True | Some (o', m) \<Rightarrow> tn_number m \<le> 0 \<or> o' \<le> 0 \<or> o' \<ge> ordinal))
          then False
          else if tn_tombstone n
          then tn_html n = None \<and> tn_renderer n = None \<and> tn_revision n = None \<and> tn_created_at n = None \<and>
               tn_updated_at n = None \<and> tn_edited_at n = None \<and> tn_author_id n = None \<and> tn_author_name n = None
          else if tn_redacted n \<or> tn_html n = None \<or> tn_renderer n = None \<or> tn_renderer n = Some '''' \<or>
                  (case tn_revision n of None \<Rightarrow> True | Some r \<Rightarrow> r \<le> 0) \<or>
                  \<not> finite_ts (tn_created_at n) \<or> \<not> finite_ts (tn_updated_at n) \<or>
                  ts_time (tn_updated_at n) < ts_time (tn_created_at n) \<or>
                  (case tn_author_id n of None \<Rightarrow> True | Some i \<Rightarrow> i \<le> 0) \<or>
                  (case tn_author_name n of None \<Rightarrow> True | Some s \<Rightarrow> s = '''')
          then False
          else if tn_revision n = Some 1 then tn_edited_at n = None
          else finite_ts (tn_edited_at n) \<and> \<not> ts_time (tn_edited_at n) < ts_time (tn_created_at n))"

text \<open>The loop over the rows, with the ordinal of the row before.\<close>

fun valid_rows :: "page_row \<Rightarrow> int \<Rightarrow> page_row list \<Rightarrow> bool" where
  "valid_rows f previous [] = True"
| "valid_rows f previous (r # rs) =
     (if \<not> sameVisibleTopicMetadata f r \<or> pg_total r \<noteq> pg_total f \<or> \<not> validVisibleThreadNode r previous
      then False
      else valid_rows f (case pg_node r of None \<Rightarrow> 0 | Some n \<Rightarrow> fst n) rs)"

definition validEmptyVisiblePost :: "page_row \<Rightarrow> bool" where
  "validEmptyVisiblePost row = (pg_node row = None \<and> pg_parent row = None)"

definition valid_page_metadata :: "int \<Rightarrow> access_context \<Rightarrow> page_row \<Rightarrow> bool" where
  "valid_page_metadata topicID actor f =
     (let t = pg_topic f; a = pg_area f in
      a_id a > 0 \<and> ValidAreaSlug (a_slug a) \<and> a_name a \<noteq> '''' \<and> validPostingMode (a_posting_mode a) \<and>
      t_id t = topicID \<and> t_first_post_id t > 0 \<and> t_title t \<noteq> '''' \<and> validVisibleTopicState (t_state t) \<and>
      finite_ts (Some (t_created_at t)) \<and> pg_starter_name f \<noteq> '''' \<and>
      (t_pinned_at t = None \<or>
       finite_ts (t_pinned_at t) \<and> \<not> ts_time (t_pinned_at t) < ts_time (Some (t_created_at t))) \<and>
      (t_state t \<noteq> ''hidden'' \<or> is_staff actor))"

record topic_page =
  tp_rows :: "page_row list"
  tp_number :: int
  tp_total_posts :: int
  tp_total_pages :: int

definition check_page :: "int \<Rightarrow> int \<Rightarrow> access_context \<Rightarrow> page_row list \<Rightarrow> go_error + topic_page" where
  "check_page topicID page actor rows =
     (let offset = (page - 1) * PostPageSize in
      case rows of
        [] \<Rightarrow> Inl (Wrap ''get visible topic post page'' (Sentinel NoRows))
      | f # _ \<Rightarrow>
          if int (length rows) > PostPageSize then Inl (Fail ''visible topic post query exceeded page size'')
          else if \<not> valid_page_metadata topicID actor f \<or> pg_total f < 0
          then Inl (Fail ''visible topic post query returned invalid metadata'')
          else if pg_total f = 0
          then (if page \<noteq> 1 \<or> length rows \<noteq> 1 \<or> \<not> validEmptyVisiblePost f
                then Inl (Fail ''visible topic post query returned an invalid empty page'')
                else Inr \<lparr>tp_rows = rows, tp_number = page, tp_total_posts = 0, tp_total_pages = 0\<rparr>)
          else
            let remaining = pg_total f - offset;
                expected = (if remaining < PostPageSize then remaining else PostPageSize)
            in if remaining \<le> 0 \<or> int (length rows) \<noteq> expected
               then Inl (Fail ''visible topic post query returned an incomplete page'')
               else if \<not> valid_rows f offset rows
               then Inl (Fail ''visible topic post query returned malformed rows'')
               else Inr \<lparr>tp_rows = rows, tp_number = page, tp_total_posts = pg_total f,
                         tp_total_pages = 1 + (pg_total f - 1) div PostPageSize\<rparr>)"

definition GetVisibleTopicPostPage :: "tx_env \<Rightarrow> int \<Rightarrow> int \<Rightarrow> access_context \<Rightarrow> topic_page tx" where
  "GetVisibleTopicPostPage env topicID page actor =
     tx_bind (tx_guard (\<not> te_context_given env) (Fail ''visible topic post page context is required'')) (\<lambda>_.
     tx_bind (tx_guard (\<not> te_beginner_given env) (Fail ''visible topic post page querier is required'')) (\<lambda>_.
     tx_bind (tx_guard (\<not> Valid actor) (Fail ''visible topic post page access context is invalid'')) (\<lambda>_.
     tx_bind (context_error ''get visible topic post page'' env) (\<lambda>_.
     tx_bind (tx_guard (topicID \<le> 0 \<or> page < 1 \<or> page > MaximumPostPage)
               (Wrap ''get visible topic post page'' (Sentinel NoRows))) (\<lambda>_.
     tx_bind (tx_wrap ''query visible topic post page''
               (query_GetVisibleTopicPostPage ((page - 1) * PostPageSize) topicID (is_staff actor)
                  (ac_authenticated actor) (ac_group_ids actor) PostPageSize)) (\<lambda>rows.
     tx_lift (check_page topicID page actor rows)))))))"

end
