(* ===== verification/Unread.thy ===== *)
theory Unread
  imports TopicPage
begin

text \<open>
  Read markers, \<open>internal/forum/unread.go\<close> over \<open>unread.sql.go\<close>: the private read state shown with a
  topic page, the navigation to the first unread post, and marking a topic read.
\<close>

subsection \<open>The statements\<close>

definition ConfigureUnreadReadTransaction :: "unit tx" where
  "ConfigureUnreadReadTransaction = select_all (\<lambda>db. ())"

definition ConfigureMarkTopicReadTransaction :: "unit tx" where
  "ConfigureMarkTopicReadTransaction = select_all (\<lambda>db. ())"

text \<open>\<open>authorized_topic\<close>: the topic for a signed-in actor, under the viewer filter.\<close>

definition authorized_topic :: "forum_db \<Rightarrow> int \<Rightarrow> bool \<Rightarrow> int list \<Rightarrow> topic_row option" where
  "authorized_topic db topic_id staff groups =
     (case find_topic db topic_id of
        None \<Rightarrow> None
      | Some t \<Rightarrow>
          (case find_area db (t_area_id t) of
             None \<Rightarrow> None
           | Some a \<Rightarrow>
               if t_deleted_at t = None \<and> (staff \<or> t_state t \<noteq> ''hidden'') \<and>
                  sql_area_visible db staff groups a
               then Some t else None))"

text \<open>A post that counts for an actor's read state, and the greatest number among them, or 0.\<close>

definition eligible :: "int \<Rightarrow> post_row \<Rightarrow> bool" where
  "eligible actor p = (p_deleted_at p = None \<and> p_redacted_at p = None \<and> p_author_id p \<noteq> actor)"

definition read_head :: "post_row list \<Rightarrow> int \<Rightarrow> int" where
  "read_head ps actor = fold max (map p_number (filter (eligible actor) ps)) 0"

definition find_marker :: "forum_db \<Rightarrow> int \<Rightarrow> int \<Rightarrow> read_row option" where
  "find_marker db actor topic_id = find (\<lambda>r. rd_user r = actor \<and> rd_topic r = topic_id) (db_reads db)"

record read_state_row =
  rs_topic_id :: int
  rs_next :: int
  rs_head :: int
  rs_marker :: "int option"
  rs_read_at :: "tstamp option"
  rs_state :: string

definition GetAuthorizedTopicReadState :: "int \<Rightarrow> int \<Rightarrow> bool \<Rightarrow> int list \<Rightarrow> read_state_row tx" where
  "GetAuthorizedTopicReadState actor topic_id staff groups =
     select_one (\<lambda>db.
       case authorized_topic db topic_id staff groups of
         None \<Rightarrow> None
       | Some t \<Rightarrow>
           let head = read_head (topic_posts db topic_id) actor;
               marker = find_marker db actor topic_id
           in Some \<lparr>rs_topic_id = t_id t, rs_next = t_next_post_number t, rs_head = head,
                rs_marker = map_option rd_last_read_id marker, rs_read_at = map_option rd_last_read_at marker,
                rs_state = (if head = 0 then ''read''
                            else case marker of
                              None \<Rightarrow> ''new''
                            | Some m \<Rightarrow> if rd_last_read_id m < head then ''unread'' else ''read'')\<rparr>)"

record first_unread_row =
  fu_topic_id :: int
  fu_next :: int
  fu_marker :: "int option"
  fu_read_at :: "tstamp option"
  fu_head :: int
  fu_target :: "int option"
  fu_target_number :: "int option"
  fu_target_ordinal :: "int option"

text \<open>The first of the thread with a given identifier, among the first 250001 in path order.\<close>

definition bounded_ordinal :: "forum_db \<Rightarrow> int \<Rightarrow> bool \<Rightarrow> int \<Rightarrow> int option" where
  "bounded_ordinal db topic_id staff post_id =
     map_option fst
       (find (\<lambda>n. tn_post_id (snd n) = post_id)
          (filter (\<lambda>n. fst n \<le> 250001) (numbered_nodes db topic_id staff)))"

definition first_unread_post :: "post_row list \<Rightarrow> int \<Rightarrow> int option \<Rightarrow> post_row option" where
  "first_unread_post ps actor marker =
     (case sort_key p_number (filter (\<lambda>p. eligible actor p \<and>
             p_number p > (case marker of None \<Rightarrow> 0 | Some m \<Rightarrow> m)) ps) of
        [] \<Rightarrow> None | p # _ \<Rightarrow> Some p)"

definition GetFirstUnreadTarget :: "int \<Rightarrow> bool \<Rightarrow> int list \<Rightarrow> int \<Rightarrow> first_unread_row tx" where
  "GetFirstUnreadTarget topic_id staff groups actor =
     select_one (\<lambda>db.
       case authorized_topic db topic_id staff groups of
         None \<Rightarrow> None
       | Some t \<Rightarrow>
           let ps = topic_posts db topic_id;
               marker = find_marker db actor topic_id;
               target = first_unread_post ps actor (map_option rd_last_read_id marker)
           in Some \<lparr>fu_topic_id = t_id t, fu_next = t_next_post_number t,
                fu_marker = map_option rd_last_read_id marker,
                fu_read_at = map_option rd_last_read_at marker, fu_head = read_head ps actor,
                fu_target = map_option p_id target, fu_target_number = map_option p_number target,
                fu_target_ordinal = (case target of None \<Rightarrow> None
                                     | Some p \<Rightarrow> bounded_ordinal db topic_id staff (p_id p))\<rparr>)"

definition GetTopicReadMarker :: "int \<Rightarrow> int \<Rightarrow> read_row tx" where
  "GetTopicReadMarker actor topic_id = select_one (\<lambda>db. find_marker db actor topic_id)"

record boundary_row =
  bd_topic_id :: int
  bd_next :: int
  bd_selected :: int
  bd_advanced :: bool

text \<open>The upsert: a marker is inserted, or raised when the boundary is above it, or left alone.\<close>

definition upsert_marker :: "forum_db \<Rightarrow> int \<Rightarrow> int \<Rightarrow> int \<Rightarrow> tstamp \<Rightarrow> bool \<times> forum_db" where
  "upsert_marker db actor topic_id selected now =
     (if \<not> selected > 0 then (False, db)
      else case find_marker db actor topic_id of
        None \<Rightarrow>
          (True, db\<lparr>db_reads := db_reads db @
             [\<lparr>rd_user = actor, rd_topic = topic_id, rd_last_read_id = selected, rd_last_read_at = now\<rparr>]\<rparr>)
      | Some m \<Rightarrow>
          if selected > rd_last_read_id m
          then (True, db\<lparr>db_reads := upd_where (\<lambda>r. rd_user r = actor \<and> rd_topic r = topic_id)
                  (\<lambda>r. r\<lparr>rd_last_read_id := max (rd_last_read_id r) selected, rd_last_read_at := now\<rparr>)
                  (db_reads db)\<rparr>)
          else (False, db))"

definition MarkTopicReadBoundary :: "int \<Rightarrow> bool \<Rightarrow> int list \<Rightarrow> int \<Rightarrow> boundary_row tx" where
  "MarkTopicReadBoundary topic_id staff groups actor =
     tx_bind read_clock (\<lambda>now.
     statement (\<lambda>db.
       case authorized_topic db topic_id staff groups of
         None \<Rightarrow> (Inl (Sentinel NoRows), db)
       | Some t \<Rightarrow>
           let selected = read_head (topic_posts db topic_id) actor;
               (advanced, db') = upsert_marker db actor topic_id selected (At now)
           in (Inr \<lparr>bd_topic_id = t_id t, bd_next = t_next_post_number t, bd_selected = selected,
                    bd_advanced = advanced\<rparr>, db')))"

subsection \<open>The services\<close>

definition ReadStateNew :: string where "ReadStateNew = ''new''"
definition ReadStateUnread :: string where "ReadStateUnread = ''unread''"
definition ReadStateRead :: string where "ReadStateRead = ''read''"

definition validatedTopicReadState ::
  "int \<Rightarrow> int \<Rightarrow> int \<Rightarrow> int option \<Rightarrow> tstamp option \<Rightarrow> string \<Rightarrow> string \<times> bool"
where
  "validatedTopicReadState topicID nextNumber head marker readAt encoded =
     (let present = (marker \<noteq> None \<and> readAt \<noteq> None);
          absent = (marker = None \<and> readAt = None);
          number = (case marker of None \<Rightarrow> 0 | Some m \<Rightarrow> m)
      in if topicID \<le> 0 \<or> nextNumber < 2 \<or> head < 0 \<or> head \<ge> nextNumber \<or> (\<not> present \<and> \<not> absent) \<or>
            (present \<and> (number \<le> 0 \<or> number \<ge> nextNumber \<or> \<not> finite_ts readAt))
         then ('''', False)
         else
           let st = (if head > 0 \<and> absent then ReadStateNew
                     else if head > 0 \<and> number < head then ReadStateUnread
                     else ReadStateRead)
           in (st, encoded = '''' \<or> encoded = st))"

definition LoadVisibleTopicPostPage ::
  "tx_env \<Rightarrow> access_context \<Rightarrow> int \<Rightarrow> int \<Rightarrow> (topic_page \<times> string option) tx"
where
  "LoadVisibleTopicPostPage env actor topicID page =
     tx_bind (tx_guard (\<not> te_context_given env) (Fail ''topic page context is required'')) (\<lambda>_.
     tx_bind (tx_guard (\<not> te_beginner_given env) (Fail ''topic page transaction beginner is required'')) (\<lambda>_.
     tx_bind (tx_guard (\<not> Valid actor \<or> ac_suspended actor) (Fail ''topic page actor is invalid'')) (\<lambda>_.
     if \<not> ac_authenticated actor
     then tx_bind (GetVisibleTopicPostPage env topicID page actor) (\<lambda>p. tx_return (p, None))
     else
       tx_wrap ''load topic page transaction'' (within_tx env (
         tx_bind (tx_wrap ''configure unread read transaction'' ConfigureUnreadReadTransaction) (\<lambda>_.
         tx_bind (GetVisibleTopicPostPage env topicID page actor) (\<lambda>p.
         tx_bind (tx_wrap ''query authorized topic read state''
                   (GetAuthorizedTopicReadState (ac_user_id actor) topicID (is_staff actor) (ac_group_ids actor))) (\<lambda>row.
         let (st, valid) = validatedTopicReadState (rs_topic_id row) (rs_next row) (rs_head row) (rs_marker row)
                             (rs_read_at row) (rs_state row)
         in tx_bind (tx_guard (\<not> valid \<or> rs_topic_id row \<noteq> topicID)
                      (Fail ''authorized topic read state is malformed'')) (\<lambda>_.
            tx_return (p, Some st))))))))))"

record first_unread_target =
  ft_post_id :: int
  ft_page :: int
  ft_direct :: bool

definition no_target :: first_unread_target where
  "no_target = \<lparr>ft_post_id = 0, ft_page = 0, ft_direct = False\<rparr>"

definition check_first_unread :: "int \<Rightarrow> first_unread_row \<Rightarrow> go_error + first_unread_target" where
  "check_first_unread topicID row =
     (let valid = snd (validatedTopicReadState (fu_topic_id row) (fu_next row) (fu_head row) (fu_marker row)
                         (fu_read_at row) '''');
          marker = (case fu_marker row of None \<Rightarrow> 0 | Some m \<Rightarrow> m);
          absent = (fu_target row = None \<and> fu_target_number row = None \<and> fu_target_ordinal row = None)
      in case (fu_target row, fu_target_number row) of
           (Some post, Some number) \<Rightarrow>
             if \<not> valid \<or> fu_topic_id row \<noteq> topicID then Inl (Fail ''first unread target is malformed'')
             else if post \<le> 0 \<or> number \<le> marker \<or> number > fu_head row \<or> number \<ge> fu_next row \<or>
                     (case fu_target_ordinal row of None \<Rightarrow> False | Some o' \<Rightarrow> o' \<le> 0 \<or> o' > 250001)
             then Inl (Fail ''first unread target is malformed'')
             else (case fu_target_ordinal row of
                     None \<Rightarrow> Inr \<lparr>ft_post_id = post, ft_page = 0, ft_direct = True\<rparr>
                   | Some o' \<Rightarrow>
                       if o' > PostPageSize * MaximumPostPage
                       then Inr \<lparr>ft_post_id = post, ft_page = 0, ft_direct = True\<rparr>
                       else Inr \<lparr>ft_post_id = post, ft_page = 1 + (o' - 1) div PostPageSize, ft_direct = False\<rparr>)
         | _ \<Rightarrow>
             if \<not> valid \<or> fu_topic_id row \<noteq> topicID \<or> \<not> absent then Inl (Fail ''first unread target is malformed'')
             else if fu_head row > marker then Inl (Fail ''first unread target is inconsistent'')
             else Inr no_target)"

definition FirstUnread :: "tx_env \<Rightarrow> access_context \<Rightarrow> int \<Rightarrow> first_unread_target tx" where
  "FirstUnread env actor topicID =
     tx_bind (tx_guard (\<not> te_context_given env) (Fail ''first unread context is required'')) (\<lambda>_.
     tx_bind (tx_guard (\<not> te_beginner_given env) (Fail ''first unread transaction beginner is required'')) (\<lambda>_.
     tx_bind (tx_guard (\<not> Valid actor \<or> \<not> ac_authenticated actor \<or> ac_suspended actor)
               (Fail ''first unread actor is invalid'')) (\<lambda>_.
     tx_bind (tx_guard (topicID \<le> 0) (Fail ''first unread topic is invalid'')) (\<lambda>_.
     tx_bind (context_error ''first unread'' env) (\<lambda>_.
     tx_wrap ''first unread transaction'' (within_tx env (
       tx_bind (tx_wrap ''configure unread read transaction'' ConfigureUnreadReadTransaction) (\<lambda>_.
       tx_bind (tx_wrap ''query first unread target''
                 (GetFirstUnreadTarget topicID (is_staff actor) (ac_group_ids actor) (ac_user_id actor))) (\<lambda>row.
       tx_lift (check_first_unread topicID row))))))))))"

definition check_marker :: "boundary_row \<Rightarrow> read_row \<Rightarrow> bool" where
  "check_marker b m =
     (\<not> (rd_last_read_id m \<le> 0 \<or> rd_last_read_id m \<ge> bd_next b \<or>
         \<not> finite_ts (Some (rd_last_read_at m)) \<or>
         (bd_selected b > 0 \<and> rd_last_read_id m < bd_selected b) \<or>
         (bd_advanced b \<and> rd_last_read_id m \<noteq> bd_selected b)))"

definition MarkTopicRead_body :: "access_context \<Rightarrow> int \<Rightarrow> unit tx" where
  "MarkTopicRead_body actor topicID =
     tx_bind (tx_wrap ''configure mark-read transaction'' ConfigureMarkTopicReadTransaction) (\<lambda>_.
     tx_bind (tx_wrap ''select authorized mark-read boundary''
               (MarkTopicReadBoundary topicID (is_staff actor) (ac_group_ids actor) (ac_user_id actor))) (\<lambda>b.
     tx_bind (tx_guard (bd_topic_id b \<noteq> topicID \<or> bd_next b < 2 \<or> bd_selected b < 0 \<or>
                        bd_selected b \<ge> bd_next b \<or> (bd_selected b = 0 \<and> bd_advanced b))
               (Fail ''mark-read boundary returned an invalid result'')) (\<lambda>_.
     (\<lambda>w. case GetTopicReadMarker (ac_user_id actor) topicID w of
            (Inl e, w') \<Rightarrow>
              if err_is e NoRows \<and> bd_selected b = 0 then (Inr (), w')
              else (Inl (Wrap ''inspect mark-read marker'' e), w')
          | (Inr m, w') \<Rightarrow>
              tx_guard (\<not> check_marker b m) (Fail ''mark-read marker returned an invalid result'') w'))))"

definition MarkTopicRead :: "tx_env \<Rightarrow> access_context \<Rightarrow> int \<Rightarrow> unit tx" where
  "MarkTopicRead env actor topicID =
     tx_bind (tx_guard (\<not> te_context_given env) (Fail ''mark topic read context is required'')) (\<lambda>_.
     tx_bind (tx_guard (\<not> te_beginner_given env) (Fail ''mark topic read transaction beginner is required'')) (\<lambda>_.
     tx_bind (tx_guard (\<not> Valid actor \<or> \<not> ac_authenticated actor \<or> ac_suspended actor)
               (Fail ''mark topic read actor is invalid'')) (\<lambda>_.
     tx_bind (tx_guard (topicID \<le> 0) (Fail ''mark topic read topic is invalid'')) (\<lambda>_.
     tx_bind (context_error ''mark topic read'' env) (\<lambda>_.
     tx_wrap ''mark topic read transaction'' (within_tx env (MarkTopicRead_body actor topicID)))))))"

end
