(* ===== verification/Base64.thy ===== *)
theory Base64
  imports Bytes
begin

unbundle bit_operations_syntax

text \<open>
  \<open>base64.RawURLEncoding\<close>: the URL alphabet without padding. Encoding turns every three bytes into
  four characters of six bits each; a rest of one or two bytes becomes two or three characters whose
  unused low bits are zero. Decoding skips carriage returns and line feeds and does not look at the
  unused bits (the encoding is not in strict mode), so a caller that wants one spelling only encodes
  the result again and compares, as the modelled code does.
\<close>

definition url_alphabet :: string where
  "url_alphabet = ''ABCDEFGHIJKLMNOPQRSTUVWXYZabcdefghijklmnopqrstuvwxyz0123456789-_''"

definition sextet_char :: "8 word \<Rightarrow> char" where
  "sextet_char s = url_alphabet ! unat s"

fun char_index :: "char \<Rightarrow> string \<Rightarrow> nat option" where
  "char_index c [] = None"
| "char_index c (d # ds) = (if c = d then Some 0 else map_option Suc (char_index c ds))"

definition char_sextet :: "char \<Rightarrow> 8 word option" where
  "char_sextet c = map_option word_of_nat (char_index c url_alphabet)"

text \<open>The sextets of a group of bytes, and the bytes of a group of sextets.\<close>

fun to_sextets :: "bytes \<Rightarrow> bytes" where
  "to_sextets [] = []"
| "to_sextets [a] = [drop_bit 2 a, push_bit 4 (a AND 3)]"
| "to_sextets [a, b] =
     [drop_bit 2 a, push_bit 4 (a AND 3) OR drop_bit 4 b, push_bit 2 (b AND 15)]"
| "to_sextets (a # b # c # rest) =
     drop_bit 2 a # (push_bit 4 (a AND 3) OR drop_bit 4 b) #
     (push_bit 2 (b AND 15) OR drop_bit 6 c) # (c AND 63) # to_sextets rest"

fun of_sextets :: "bytes \<Rightarrow> bytes option" where
  "of_sextets [] = Some []"
| "of_sextets [s] = None"
| "of_sextets [s, t] = Some [push_bit 2 s OR drop_bit 4 t]"
| "of_sextets [s, t, u] = Some [push_bit 2 s OR drop_bit 4 t, push_bit 4 t OR drop_bit 2 u]"
| "of_sextets (s # t # u # v # rest) =
     map_option (\<lambda>bs. (push_bit 2 s OR drop_bit 4 t) # (push_bit 4 t OR drop_bit 2 u) #
                      (push_bit 6 u OR v) # bs) (of_sextets rest)"

definition raw_url_encode :: "bytes \<Rightarrow> string" where
  "raw_url_encode bs = map sextet_char (to_sextets bs)"

text \<open>All the options of a list, or none.\<close>

fun all_some :: "'a option list \<Rightarrow> 'a list option" where
  "all_some [] = Some []"
| "all_some (None # xs) = None"
| "all_some (Some x # xs) = map_option ((#) x) (all_some xs)"

definition raw_url_decode :: "string \<Rightarrow> bytes option" where
  "raw_url_decode s =
     (case all_some (map char_sextet (filter (\<lambda>c. c \<noteq> CHR 0x0A \<and> c \<noteq> CHR 0x0D) s)) of
        None \<Rightarrow> None
      | Some xs \<Rightarrow> of_sextets xs)"

subsection \<open>Lemmas\<close>

lemma all_some_map_Some [simp]: "all_some (map Some xs) = Some xs"
  by (induction xs) simp_all

text \<open>The alphabet is a bijection between 64 characters and the sextets.\<close>

lemma length_url_alphabet: "length url_alphabet = 64"
  by (simp add: url_alphabet_def)

lemma distinct_url_alphabet: "distinct url_alphabet"
  by (simp add: url_alphabet_def)

lemma char_index_nth: "distinct ds \<Longrightarrow> i < length ds \<Longrightarrow> char_index (ds ! i) ds = Some i"
  by (induction ds arbitrary: i) (auto simp: nth_Cons split: nat.splits)

lemma url_alphabet_no_newline: "CHR 0x0A \<notin> set url_alphabet" "CHR 0x0D \<notin> set url_alphabet"
  by (simp_all add: url_alphabet_def)

lemma sextet_char_in: "unat s < 64 \<Longrightarrow> sextet_char s \<in> set url_alphabet"
  using nth_mem [of "unat s" url_alphabet] by (simp add: sextet_char_def length_url_alphabet)

lemma char_sextet_sextet_char [simp]: "unat s < 64 \<Longrightarrow> char_sextet (sextet_char s) = Some s"
  by (simp add: char_sextet_def sextet_char_def char_index_nth distinct_url_alphabet length_url_alphabet)

text \<open>Sextets have six bits, and regrouping them gives the bytes back.\<close>

lemma sextet_bounds:
  "unat (drop_bit 2 (a :: 8 word)) < 64" "unat (push_bit 4 ((a :: 8 word) AND 3)) < 64"
  "unat (push_bit 4 (a AND 3) OR drop_bit 4 (b :: 8 word)) < 64" "unat (push_bit 2 (b AND 15)) < 64"
  "unat (push_bit 2 (b AND 15) OR drop_bit 6 (c :: 8 word)) < 64" "unat (c AND 63) < 64"
proof -
  have six: "unat w < 64" if "\<not> bit w 6" "\<not> bit w 7" for w :: "8 word"
  proof -
    have "take_bit 6 w = w"
    proof (rule bit_word_eqI)
      fix n assume "n < LENGTH(8)"
      then have "n < 8" by simp
      with that show "bit (take_bit 6 w) n \<longleftrightarrow> bit w n"
        by (cases "n < 6") (auto simp: bit_take_bit_iff dest: le_neq_implies_less
            elim!: less_SucE simp: eval_nat_numeral)
    qed
    then have "take_bit 6 (unat w) = unat w" by (metis unsigned_take_bit_eq)
    then show ?thesis using take_bit_nat_less_exp [of 6 "unat w"] by simp
  qed
  have big: "\<not> bit w n" if "8 \<le> n" for w :: "8 word" and n
    using that by (auto dest: bit_imp_le_length)
  show "unat (drop_bit 2 a) < 64" "unat (push_bit 4 (a AND 3)) < 64"
    "unat (push_bit 4 (a AND 3) OR drop_bit 4 b) < 64" "unat (push_bit 2 (b AND 15)) < 64"
    "unat (push_bit 2 (b AND 15) OR drop_bit 6 c) < 64" "unat (c AND 63) < 64"
    by (rule six; simp add: bit_simps big)+
qed

lemma byte_eqI: "(\<And>n. n < 8 \<Longrightarrow> bit (v :: 8 word) n = bit w n) \<Longrightarrow> v = w"
  by (rule bit_word_eqI) simp

lemma byte_cases: "(n :: nat) < 8 \<Longrightarrow> n \<in> {0, 1, 2, 3, 4, 5, 6, 7}"
  by auto

lemma regroup_first: "push_bit 2 (drop_bit 2 a) OR drop_bit 4 (push_bit 4 (a AND 3) OR drop_bit 4 b) = (a :: 8 word)"
  by (rule byte_eqI, drule byte_cases, auto simp: bit_simps, (simp_all add: eval_nat_numeral)?)

lemma regroup_second: "push_bit 4 (push_bit 4 (a AND 3) OR drop_bit 4 b) OR drop_bit 2 (push_bit 2 (b AND 15) OR drop_bit 6 c) = (b :: 8 word)"
  by (rule byte_eqI, drule byte_cases, auto simp: bit_simps, (simp_all add: eval_nat_numeral)?)

lemma regroup_third: "push_bit 6 (push_bit 2 (b AND 15) OR drop_bit 6 c) OR (c AND 63) = (c :: 8 word)"
  by (rule byte_eqI, drule byte_cases, auto simp: bit_simps, (simp_all add: eval_nat_numeral)?)

lemmas regroup =
  regroup_first [simplified] regroup_second [simplified] regroup_third [simplified]
  regroup_first [of _ 0, simplified] regroup_second [of _ _ 0, simplified]

lemma of_to_sextets [simp]: "of_sextets (to_sextets bs) = Some bs"
  by (induction bs rule: to_sextets.induct) (simp_all add: regroup)

lemma to_sextets_bound: "s \<in> set (to_sextets bs) \<Longrightarrow> unat s < 64"
  by (induction bs rule: to_sextets.induct) (auto simp: sextet_bounds sextet_bounds [simplified])

text \<open>Decoding inverts encoding, so encoding is injective, and its length is fixed by the input's.\<close>

lemma raw_url_decode_encode [simp]: "raw_url_decode (raw_url_encode bs) = Some bs"
proof -
  have b: "\<forall>s \<in> set (to_sextets bs). unat s < 64" by (simp add: to_sextets_bound)
  then have "\<forall>c \<in> set (raw_url_encode bs). c \<in> set url_alphabet"
    by (auto simp: raw_url_encode_def sextet_char_in)
  then have "filter (\<lambda>c. c \<noteq> CHR 0x0A \<and> c \<noteq> CHR 0x0D) (raw_url_encode bs) = raw_url_encode bs"
    using url_alphabet_no_newline by (auto simp: filter_id_conv)
  moreover have "map char_sextet (raw_url_encode bs) = map Some (to_sextets bs)"
    using b by (auto simp: raw_url_encode_def)
  ultimately show ?thesis by (simp add: raw_url_decode_def)
qed

lemma raw_url_encode_inject: "raw_url_encode a = raw_url_encode b \<longleftrightarrow> a = b"
  by (metis option.inject raw_url_decode_encode)

lemma length_to_sextets: "length (to_sextets bs) = (4 * length bs + 2) div 3"
  by (induction bs rule: to_sextets.induct) auto

lemma length_raw_url_encode: "length (raw_url_encode bs) = (4 * length bs + 2) div 3"
  by (simp add: raw_url_encode_def length_to_sextets)


subsection \<open>Strict decoding\<close>

text \<open>
  \<open>RawURLEncoding.Strict()\<close> also refuses a rest whose unused bits are not zero. Line breaks are still
  skipped, so two spellings of the same bytes differ in line breaks only.
\<close>

fun clean_rest :: "bytes \<Rightarrow> bool" where
  "clean_rest [] = True"
| "clean_rest [s] = True"
| "clean_rest [s, t] = (t AND 15 = 0)"
| "clean_rest [s, t, u] = (u AND 3 = 0)"
| "clean_rest (s # t # u # v # rest) = clean_rest rest"

definition skip_breaks :: "string \<Rightarrow> string" where
  "skip_breaks s = filter (\<lambda>c. c \<noteq> CHR 0x0A \<and> c \<noteq> CHR 0x0D) s"

definition raw_url_decode_strict :: "string \<Rightarrow> bytes option" where
  "raw_url_decode_strict s =
     (case all_some (map char_sextet (skip_breaks s)) of
        None \<Rightarrow> None
      | Some xs \<Rightarrow> if clean_rest xs then of_sextets xs else None)"

lemma clean_rest_to_sextets [simp]: "clean_rest (to_sextets bs)"
proof (induction bs rule: to_sextets.induct)
  case (2 a)
  show ?case by (simp, rule byte_eqI, drule byte_cases, auto simp: bit_simps, (simp_all add: eval_nat_numeral)?)
next
  case (3 a b)
  show ?case by (simp, rule byte_eqI, drule byte_cases, auto simp: bit_simps, (simp_all add: eval_nat_numeral)?)
qed simp_all

lemma all_some_Some: "all_some xs = Some ys \<longleftrightarrow> xs = map Some ys"
  by (induction xs arbitrary: ys rule: all_some.induct) (auto simp: map_eq_Cons_conv)

lemma raw_url_decode_strict_encode [simp]: "raw_url_decode_strict (raw_url_encode bs) = Some bs"
proof -
  have "raw_url_decode (raw_url_encode bs) = Some bs" by simp
  moreover have "all_some (map char_sextet (skip_breaks (raw_url_encode bs))) = Some (to_sextets bs)"
  proof -
    have b: "\<forall>s \<in> set (to_sextets bs). unat s < 64" by (simp add: to_sextets_bound)
    then have "\<forall>c \<in> set (raw_url_encode bs). c \<in> set url_alphabet"
      by (auto simp: raw_url_encode_def sextet_char_in)
    then have "skip_breaks (raw_url_encode bs) = raw_url_encode bs"
      using url_alphabet_no_newline by (auto simp: skip_breaks_def filter_id_conv)
    moreover have "map char_sextet (raw_url_encode bs) = map Some (to_sextets bs)"
      using b by (auto simp: raw_url_encode_def)
    ultimately show ?thesis by simp
  qed
  ultimately show ?thesis by (simp add: raw_url_decode_strict_def)
qed

text \<open>A strict decoding has one spelling up to line breaks.\<close>

lemma char_index_SomeD: "char_index c ds = Some i \<Longrightarrow> i < length ds \<and> ds ! i = c"
  by (induction ds arbitrary: i) (auto split: if_splits)

lemma char_sextet_SomeD: "char_sextet c = Some s \<Longrightarrow> unat s < 64 \<and> sextet_char s = c"
  by (auto simp: char_sextet_def sextet_char_def length_url_alphabet unat_of_nat dest!: char_index_SomeD)

lemma six_bits: "unat (s :: 8 word) < 64 \<Longrightarrow> 6 \<le> n \<Longrightarrow> \<not> bit s n"
proof -
  assume "unat s < 64" and n: "6 \<le> n"
  then have "take_bit 6 (unat s) = unat s" by (simp add: take_bit_nat_eq_self)
  then have "take_bit 6 s = s" by (metis unsigned_take_bit_eq word_unat_eq_iff)
  then show "\<not> bit s n" using n by (metis bit_take_bit_iff linorder_not_less)
qed

lemma low_masks:
  "bit (3 :: 8 word) n \<longleftrightarrow> n < 2" "bit (15 :: 8 word) n \<longleftrightarrow> n < 4" "bit (63 :: 8 word) n \<longleftrightarrow> n < 6"
proof -
  have m: "(3 :: 8 word) = mask 2" "(15 :: 8 word) = mask 4" "(63 :: 8 word) = mask 6"
    by (simp_all add: mask_eq_exp_minus_1)
  show "bit (3 :: 8 word) n \<longleftrightarrow> n < 2" "bit (15 :: 8 word) n \<longleftrightarrow> n < 4" "bit (63 :: 8 word) n \<longleftrightarrow> n < 6"
    unfolding m by (simp_all only: bit_mask_iff) auto
qed

lemmas bit_level = bit_or_iff bit_and_iff bit_push_bit_iff bit_drop_bit_eq o_def low_masks

lemma sextet_regroup:
  fixes s t u v :: "8 word"
  assumes "unat s < 64" "unat t < 64" "unat u < 64" "unat v < 64"
  shows "drop_bit 2 (push_bit 2 s OR drop_bit 4 t) = s"
    "push_bit 4 ((push_bit 2 s OR drop_bit 4 t) AND 3) OR drop_bit 4 (push_bit 4 t OR drop_bit 2 u) = t"
    "push_bit 2 ((push_bit 4 t OR drop_bit 2 u) AND 15) OR drop_bit 6 (push_bit 6 u OR v) = u"
    "(push_bit 6 u OR v) AND 63 = v"
  by - (rule byte_eqI, simp only: bit_level, drule byte_cases, elim insertE emptyE;
      simp add: assms [THEN six_bits])+

lemma rest_regroup:
  fixes s t u :: "8 word"
  assumes "unat s < 64" "unat t < 64" "unat u < 64"
  shows "t AND 15 = 0 \<Longrightarrow> push_bit 4 ((push_bit 2 s OR drop_bit 4 t) AND 3) = t"
    "u AND 3 = 0 \<Longrightarrow> push_bit 2 ((push_bit 4 t OR drop_bit 2 u) AND 15) = u"
proof -
  have low: "n < 4 \<Longrightarrow> \<not> bit t n" if "t AND 15 = 0" for n
  proof -
    assume n: "n < 4"
    have "bit (t AND 15) n \<longleftrightarrow> bit t n \<and> n < 4" by (simp only: bit_and_iff low_masks)
    with that n show "\<not> bit t n" by simp
  qed
  have low': "n < 2 \<Longrightarrow> \<not> bit u n" if "u AND 3 = 0" for n
  proof -
    assume n: "n < 2"
    have "bit (u AND 3) n \<longleftrightarrow> bit u n \<and> n < 2" by (simp only: bit_and_iff low_masks)
    with that n show "\<not> bit u n" by simp
  qed
  show "push_bit 4 ((push_bit 2 s OR drop_bit 4 t) AND 3) = t" if z: "t AND 15 = 0"
    by (rule byte_eqI, simp only: bit_level, drule byte_cases, elim insertE emptyE;
        simp add: assms [THEN six_bits] low [OF z])
  show "push_bit 2 ((push_bit 4 t OR drop_bit 2 u) AND 15) = u" if z: "u AND 3 = 0"
    by (rule byte_eqI, simp only: bit_level, drule byte_cases, elim insertE emptyE;
        simp add: assms [THEN six_bits] low' [OF z])
qed

lemma to_of_sextets:
  "of_sextets xs = Some bs \<Longrightarrow> clean_rest xs \<Longrightarrow> \<forall>s \<in> set xs. unat s < 64 \<Longrightarrow> to_sextets bs = xs"
  by (induction xs arbitrary: bs rule: of_sextets.induct)
    (auto simp: sextet_regroup sextet_regroup [simplified] rest_regroup rest_regroup [simplified])

lemma raw_url_decode_strict_canonical:
  assumes "raw_url_decode_strict s = Some bs"
  shows "skip_breaks s = raw_url_encode bs"
proof -
  from assms obtain xs where xs: "map char_sextet (skip_breaks s) = map Some xs" "clean_rest xs" "of_sextets xs = Some bs"
    by (auto simp: raw_url_decode_strict_def all_some_Some split: option.splits if_splits)
  have *: "(\<forall>x \<in> set xs. unat x < 64) \<and> map sextet_char xs = cs" if "map char_sextet cs = map Some xs" for cs xs
    using that by (induction xs arbitrary: cs) (auto simp: map_eq_Cons_conv dest!: char_sextet_SomeD)
  from * [OF xs(1)] to_of_sextets [OF xs(3,2)] show ?thesis by (simp add: raw_url_encode_def)
qed

end
