(* ===== verification/Secrets.thy ===== *)
theory Secrets
  imports Base64
begin

text \<open>
  The secrets of \<open>internal/auth\<close>: the opaque session credential (\<open>session_material.go\<close>) and the
  state, nonce and PKCE verifier of a login (\<open>login_material.go\<close>), which are kept in the database
  sealed under keys derived from the state (\<open>login_protection.go\<close>) and opened again from it
  (\<open>login_recovery.go\<close>). SHA-256, HMAC-SHA-256 and AES-256-GCM are parameters in one record;
  an \<open>io.Reader\<close> is the bytes it will give before it ends.
\<close>

record crypto =
  cr_sha :: "bytes \<Rightarrow> bytes"
  cr_hmac :: "bytes \<Rightarrow> bytes \<Rightarrow> bytes"
  cr_seal :: "bytes \<Rightarrow> bytes \<Rightarrow> bytes \<Rightarrow> bytes \<Rightarrow> bytes"
  cr_open :: "bytes \<Rightarrow> bytes \<Rightarrow> bytes \<Rightarrow> bytes \<Rightarrow> bytes option"

text \<open>
  What is documented of the parameters: a digest has 32 bytes; opening with the key, the nonce and
  the additional data of the sealing gives the plaintext back; a sealed text carries a tag of 16 bytes.
\<close>

definition crypto_laws :: "crypto \<Rightarrow> bool" where
  "crypto_laws C \<longleftrightarrow>
     (\<forall>m. length (cr_sha C m) = 32) \<and>
     (\<forall>k n p a. cr_open C k n (cr_seal C k n p a) a = Some p) \<and>
     (\<forall>k n p a. length (cr_seal C k n p a) = length p + 16)"

text \<open>\<open>io.ReadFull\<close> of \<open>n\<close> bytes: the bytes and what the reader has left.\<close>

definition read_full :: "nat \<Rightarrow> bytes \<Rightarrow> (go_error + bytes) \<times> bytes" where
  "read_full n src =
     (if length src < n then (Inl (Fail (if src = [] then ''EOF'' else ''unexpected EOF'')), [])
      else (Inr (take n src), drop n src))"

text \<open>\<open>string\<close> of a byte slice.\<close>

definition bytes_string :: "bytes \<Rightarrow> string" where
  "bytes_string bs = map (\<lambda>b. char_of (unat b)) bs"

subsection \<open>The session credential\<close>

definition sessionTokenBytes :: nat where "sessionTokenBytes = 32"
definition sessionTokenEncodedBytes :: nat where
  "sessionTokenEncodedBytes = (sessionTokenBytes * 8 + 5) div 6"

record session_material =
  sm_token :: string
  sm_hash :: bytes

definition generateSessionMaterial :: "crypto \<Rightarrow> bytes option \<Rightarrow> go_error + session_material" where
  "generateSessionMaterial C entropy =
     (case entropy of
        None \<Rightarrow> Inl (Fail ''session entropy source is required'')
      | Some src \<Rightarrow>
          (case fst (read_full sessionTokenBytes src) of
             Inl e \<Rightarrow> Inl (Wrap ''read session entropy'' e)
           | Inr raw \<Rightarrow>
               let token = raw_url_encode raw
               in Inr \<lparr>sm_token = token, sm_hash = cr_sha C (string_bytes token)\<rparr>))"

text \<open>The check on a credential the browser sends: 43 characters that decode strictly to 32 bytes.\<close>

definition well_formed_token :: "string \<Rightarrow> bool" where
  "well_formed_token token \<longleftrightarrow>
     length token = sessionTokenEncodedBytes \<and>
     (case raw_url_decode_strict token of None \<Rightarrow> False | Some raw \<Rightarrow> length raw = sessionTokenBytes)"

subsection \<open>The login material\<close>

definition loginSecretBytes :: nat where "loginSecretBytes = 32"

record login_material =
  lm_state :: string
  lm_nonce :: string
  lm_verifier :: string

text \<open>Three secrets that are not pairwise different.\<close>

definition repeats :: "bytes \<Rightarrow> bytes \<Rightarrow> bytes \<Rightarrow> bool" where
  "repeats a b c \<longleftrightarrow> a = b \<or> a = c \<or> b = c"

definition generateLoginMaterial :: "bytes option \<Rightarrow> (go_error + login_material) \<times> bytes option" where
  "generateLoginMaterial entropy =
     (case entropy of
        None \<Rightarrow> (Inl (Fail ''login material entropy source is required''), None)
      | Some src \<Rightarrow>
          (case read_full (3 * loginSecretBytes) src of
             (Inl e, rest) \<Rightarrow> (Inl (Wrap ''read login material entropy'' e), Some rest)
           | (Inr raw, rest) \<Rightarrow>
               let state = take loginSecretBytes raw;
                   nonce = take loginSecretBytes (drop loginSecretBytes raw);
                   verifier = drop (2 * loginSecretBytes) raw
               in (if repeats state nonce verifier
                   then Inl (Fail ''login material entropy repeated a value'')
                   else Inr \<lparr>lm_state = raw_url_encode state, lm_nonce = raw_url_encode nonce,
                             lm_verifier = raw_url_encode verifier\<rparr>,
                   Some rest)))"

subsection \<open>Protection\<close>

definition loginProtectionVersion :: "8 word" where "loginProtectionVersion = 1"
definition loginGCMNonceBytes :: nat where "loginGCMNonceBytes = 12"
definition loginGCMTagBytes :: nat where "loginGCMTagBytes = 16"
definition protectedSecretBytes :: nat where
  "protectedSecretBytes = 1 + loginGCMNonceBytes + 43 + loginGCMTagBytes"
definition loginNonceKeyLabel :: string where
  "loginNonceKeyLabel = ''gotth-bb/oidc-login-attempt/nonce/aes-256-gcm/v1''"
definition loginVerifierKeyLabel :: string where
  "loginVerifierKeyLabel = ''gotth-bb/oidc-login-attempt/pkce-verifier/aes-256-gcm/v1''"

record protected_login_material =
  pl_state_hash :: bytes
  pl_nonce :: bytes
  pl_verifier :: bytes

text \<open>The local function \<open>decode\<close>: a secret in its strict spelling.\<close>

definition decode_secret :: "string \<Rightarrow> string \<Rightarrow> go_error + bytes" where
  "decode_secret msg s =
     (case raw_url_decode_strict s of
        None \<Rightarrow> Inl (Fail msg)
      | Some raw \<Rightarrow> if length raw = loginSecretBytes then Inr raw else Inl (Fail msg))"

text \<open>
  The local function \<open>seal\<close>: version, random nonce, sealed plaintext. The key is a MAC of the field's
  label under the state, so its size suits the cipher.
\<close>

definition seal_secret :: "crypto \<Rightarrow> bytes \<Rightarrow> bytes \<Rightarrow> string \<Rightarrow> string \<Rightarrow> bytes \<Rightarrow> go_error + bytes" where
  "seal_secret C state stateHash label plaintext randomNonce =
     (let key = cr_hmac C state (string_bytes label);
          sealed = loginProtectionVersion # randomNonce @
                   cr_seal C key randomNonce (string_bytes plaintext) stateHash
      in if length sealed \<noteq> protectedSecretBytes
         then Inl (Fail ''login protection envelope has an invalid length'') else Inr sealed)"

definition protect_envelopes ::
  "crypto \<Rightarrow> bytes \<Rightarrow> login_material \<Rightarrow> bytes \<Rightarrow> go_error + protected_login_material" where
  "protect_envelopes C state material random =
     (let hash = cr_sha C (string_bytes (lm_state material)) in
      case seal_secret C state hash loginNonceKeyLabel (lm_nonce material) (take loginGCMNonceBytes random) of
        Inl e \<Rightarrow> Inl e
      | Inr sealed_nonce \<Rightarrow>
          (case seal_secret C state hash loginVerifierKeyLabel (lm_verifier material)
                  (drop loginGCMNonceBytes random) of
             Inl e \<Rightarrow> Inl e
           | Inr sealed_verifier \<Rightarrow>
               Inr \<lparr>pl_state_hash = hash, pl_nonce = sealed_nonce, pl_verifier = sealed_verifier\<rparr>))"

definition protectLoginMaterial ::
  "crypto \<Rightarrow> login_material \<Rightarrow> bytes option \<Rightarrow> go_error + protected_login_material" where
  "protectLoginMaterial C material entropy =
     (let decode = decode_secret ''login material has an invalid encoding or length'' in
      case decode (lm_state material) of Inl e \<Rightarrow> Inl e | Inr state \<Rightarrow>
      case decode (lm_nonce material) of Inl e \<Rightarrow> Inl e | Inr nonce \<Rightarrow>
      case decode (lm_verifier material) of Inl e \<Rightarrow> Inl e | Inr verifier \<Rightarrow>
        if repeats state nonce verifier then Inl (Fail ''login material repeats a value'')
        else case entropy of
          None \<Rightarrow> Inl (Fail ''login protection entropy source is required'')
        | Some src \<Rightarrow>
            (case fst (read_full (2 * loginGCMNonceBytes) src) of
               Inl e \<Rightarrow> Inl (Wrap ''read login protection entropy'' e)
             | Inr random \<Rightarrow> protect_envelopes C state material random))"

subsection \<open>Recovery\<close>

text \<open>The local function \<open>open\<close>: the secret as it was encoded, and its bytes.\<close>

definition open_secret ::
  "crypto \<Rightarrow> bytes \<Rightarrow> bytes \<Rightarrow> string \<Rightarrow> bytes \<Rightarrow> go_error + (string \<times> bytes)" where
  "open_secret C state computedHash label envelope =
     (if length envelope \<noteq> protectedSecretBytes \<or> envelope ! 0 \<noteq> loginProtectionVersion
      then Inl (Fail ''login protection envelope has an invalid format'')
      else
        let key = cr_hmac C state (string_bytes label) in
        case cr_open C key (take loginGCMNonceBytes (drop 1 envelope))
               (drop (1 + loginGCMNonceBytes) envelope) computedHash of
          None \<Rightarrow> Inl (Fail ''login protection authentication failed'')
        | Some plaintext \<Rightarrow>
            (case decode_secret ''login protection plaintext has an invalid encoding or length''
                    (bytes_string plaintext) of
               Inl e \<Rightarrow> Inl e
             | Inr raw \<Rightarrow> Inr (bytes_string plaintext, raw)))"

definition recoverLoginMaterial ::
  "crypto \<Rightarrow> string \<Rightarrow> bytes \<Rightarrow> bytes \<Rightarrow> bytes \<Rightarrow> go_error + login_material" where
  "recoverLoginMaterial C stateValue stateHash nonceEnvelope verifierEnvelope =
     (case decode_secret ''login state has an invalid encoding or length'' stateValue of
        Inl e \<Rightarrow> Inl e
      | Inr state \<Rightarrow>
          let computedHash = cr_sha C (string_bytes stateValue) in
          if length stateHash \<noteq> 32 \<or> computedHash \<noteq> stateHash
          then Inl (Fail ''login state does not match the stored attempt'')
          else case open_secret C state computedHash loginNonceKeyLabel nonceEnvelope of
            Inl e \<Rightarrow> Inl e
          | Inr (nonce, nonceRaw) \<Rightarrow>
              (case open_secret C state computedHash loginVerifierKeyLabel verifierEnvelope of
                 Inl e \<Rightarrow> Inl e
               | Inr (verifier, verifierRaw) \<Rightarrow>
                   if repeats state nonceRaw verifierRaw
                   then Inl (Fail ''recovered login material repeats a value'')
                   else Inr \<lparr>lm_state = stateValue, lm_nonce = nonce, lm_verifier = verifier\<rparr>))"

subsection \<open>Lemmas\<close>

lemma unat_of_char: "unat (of_char c :: 8 word) = of_char c"
proof -
  have "(of_char c :: 8 word) = of_nat (of_char c)" by (simp only: of_nat_of_char)
  then have "unat (of_char c :: 8 word) = take_bit 8 (of_char c)" by (simp add: unsigned_of_nat del: of_nat_of_char)
  also have "\<dots> = of_char c" using nat_of_char_less_256 [of c] by (intro take_bit_nat_eq_self) simp
  finally show ?thesis .
qed

lemma bytes_string_bytes [simp]: "bytes_string (string_bytes s) = s"
  by (simp add: bytes_string_def string_bytes_def comp_def unat_of_char)

lemma read_full_Inr: "read_full n src = (Inr bs, rest) \<longleftrightarrow> n \<le> length src \<and> bs = take n src \<and> rest = drop n src"
  by (auto simp: read_full_def)

lemma fst_read_full_Inr: "fst (read_full n src) = Inr bs \<longleftrightarrow> n \<le> length src \<and> bs = take n src"
  by (auto simp: read_full_def)

lemma well_formed_token_encode: "length raw = 32 \<Longrightarrow> well_formed_token (raw_url_encode raw)"
  by (simp add: well_formed_token_def sessionTokenEncodedBytes_def sessionTokenBytes_def length_raw_url_encode)

lemma filter_whole: "length (filter P xs) = length xs \<Longrightarrow> filter P xs = xs"
proof (induction xs)
  case (Cons x xs)
  have "length (filter P xs) \<noteq> Suc (length xs)" using length_filter_le [of P xs] by linarith
  with Cons show ?case by (cases "P x") auto
qed simp

text \<open>A token that is checked has no line breaks: it is the one spelling of its bytes.\<close>

lemma well_formed_token_iff:
  "well_formed_token token \<longleftrightarrow> (\<exists>raw. length raw = 32 \<and> token = raw_url_encode raw)"
proof
  assume wf: "well_formed_token token"
  then obtain raw where raw: "raw_url_decode_strict token = Some raw" "length raw = 32" "length token = 43"
    by (auto simp: well_formed_token_def sessionTokenEncodedBytes_def sessionTokenBytes_def split: option.splits)
  then have skip: "skip_breaks token = raw_url_encode raw" by (simp add: raw_url_decode_strict_canonical)
  then have "length (skip_breaks token) = 43" using raw by (simp add: length_raw_url_encode)
  then have "skip_breaks token = token"
    unfolding skip_breaks_def by (intro filter_whole) (simp add: raw(3))
  with skip raw(2) show "\<exists>raw. length raw = 32 \<and> token = raw_url_encode raw" by auto
qed (auto simp: well_formed_token_encode)

lemma generateSessionMaterial_Inr:
  "generateSessionMaterial C entropy = Inr m \<longleftrightarrow>
     (\<exists>src. entropy = Some src \<and> 32 \<le> length src \<and>
       m = \<lparr>sm_token = raw_url_encode (take 32 src), sm_hash = cr_sha C (string_bytes (raw_url_encode (take 32 src)))\<rparr>)"
  by (auto simp: generateSessionMaterial_def Let_def sessionTokenBytes_def read_full_def
      split: option.splits sum.splits if_splits)

text \<open>The material that is generated: three different secrets in their strict spelling.\<close>

definition fresh_material :: "login_material \<Rightarrow> bool" where
  "fresh_material m \<longleftrightarrow>
     (\<exists>s n v. length s = 32 \<and> length n = 32 \<and> length v = 32 \<and> \<not> repeats s n v \<and>
       m = \<lparr>lm_state = raw_url_encode s, lm_nonce = raw_url_encode n, lm_verifier = raw_url_encode v\<rparr>)"

lemma generateLoginMaterial_fresh:
  assumes "generateLoginMaterial entropy = (Inr m, rest)"
  shows "fresh_material m"
proof -
  obtain src where src: "96 \<le> length src"
    and m: "\<not> repeats (take 32 src) (take 32 (drop 32 src)) (take 32 (drop 64 src))"
      "m = \<lparr>lm_state = raw_url_encode (take 32 src), lm_nonce = raw_url_encode (take 32 (drop 32 src)),
            lm_verifier = raw_url_encode (take 32 (drop 64 src))\<rparr>"
  proof (cases entropy)
    case None
    with assms show ?thesis by (simp add: generateLoginMaterial_def)
  next
    case (Some src)
    show ?thesis
    proof (cases "96 \<le> length src")
      case True
      with assms Some show ?thesis
        by (intro that [of src])
          (simp_all add: generateLoginMaterial_def loginSecretBytes_def read_full_def Let_def min_def drop_take
            split: if_split_asm)
    qed (use assms Some in \<open>simp add: generateLoginMaterial_def loginSecretBytes_def read_full_def\<close>)
  qed
  show ?thesis
    unfolding fresh_material_def
    by (rule exI [of _ "take 32 src"], rule exI [of _ "take 32 (drop 32 src)"],
        rule exI [of _ "take 32 (drop 64 src)"]) (use src m in simp)
qed

lemma decode_secret_encode [simp]: "length raw = 32 \<Longrightarrow> decode_secret msg (raw_url_encode raw) = Inr raw"
  by (simp add: decode_secret_def loginSecretBytes_def)

lemma seal_open:
  assumes "crypto_laws C" and "seal_secret C state hash label (raw_url_encode raw) random = Inr sealed"
    and "length raw = 32" and "length random = 12"
  shows "open_secret C state hash label sealed = Inr (raw_url_encode raw, raw)"
proof -
  from assms(2) have sealed: "sealed = loginProtectionVersion # random @
      cr_seal C (cr_hmac C state (string_bytes label)) random (string_bytes (raw_url_encode raw)) hash"
    and len: "length sealed = protectedSecretBytes"
    by (auto simp: seal_secret_def Let_def split: if_splits)
  have "take loginGCMNonceBytes (drop 1 sealed) = random"
    and "drop (1 + loginGCMNonceBytes) sealed =
      cr_seal C (cr_hmac C state (string_bytes label)) random (string_bytes (raw_url_encode raw)) hash"
    using assms(4) by (simp_all add: sealed loginGCMNonceBytes_def)
  then show ?thesis
    using assms(1,3) len by (simp add: open_secret_def Let_def crypto_laws_def) (simp add: sealed)
qed

lemma seal_succeeds:
  "crypto_laws C \<Longrightarrow> length raw = 32 \<Longrightarrow> length random = 12 \<Longrightarrow>
   \<exists>sealed. seal_secret C state hash label (raw_url_encode raw) random = Inr sealed"
  by (simp add: seal_secret_def Let_def crypto_laws_def length_raw_url_encode protectedSecretBytes_def
      loginGCMNonceBytes_def loginGCMTagBytes_def)

text \<open>
  Fresh material is protected as soon as the reader has 24 bytes left, and recovering it from the
  state alone gives it back.
\<close>

lemma protect_succeeds:
  assumes "crypto_laws C" and "fresh_material m" and "24 \<le> length src"
  shows "\<exists>p. protectLoginMaterial C m (Some src) = Inr p"
proof -
  from assms(2) obtain s n v where m: "length s = 32" "length n = 32" "length v = 32" "\<not> repeats s n v"
    "m = \<lparr>lm_state = raw_url_encode s, lm_nonce = raw_url_encode n, lm_verifier = raw_url_encode v\<rparr>"
    by (auto simp: fresh_material_def)
  let ?h = "cr_sha C (string_bytes (lm_state m))"
  obtain x where
    "seal_secret C s ?h loginNonceKeyLabel (lm_nonce m) (take 12 (take 24 src)) = Inr x"
    using seal_succeeds [OF assms(1) m(2), of "take 12 (take 24 src)" s ?h loginNonceKeyLabel] assms(3)
    by (auto simp: m(5))
  moreover obtain y where
    "seal_secret C s ?h loginVerifierKeyLabel (lm_verifier m) (drop 12 (take 24 src)) = Inr y"
    using seal_succeeds [OF assms(1) m(3), of "drop 12 (take 24 src)" s ?h loginVerifierKeyLabel] assms(3)
    by (auto simp: m(5))
  ultimately show ?thesis
    using m assms(3)
    by (simp add: protectLoginMaterial_def protect_envelopes_def Let_def read_full_def loginGCMNonceBytes_def)
qed

lemma recover_protected:
  assumes "crypto_laws C" and "fresh_material m" and "protectLoginMaterial C m entropy = Inr p"
  shows "recoverLoginMaterial C (lm_state m) (pl_state_hash p) (pl_nonce p) (pl_verifier p) = Inr m"
    and "pl_state_hash p = cr_sha C (string_bytes (lm_state m))"
proof -
  from assms(2) obtain s n v where m: "length s = 32" "length n = 32" "length v = 32" "\<not> repeats s n v"
    "m = \<lparr>lm_state = raw_url_encode s, lm_nonce = raw_url_encode n, lm_verifier = raw_url_encode v\<rparr>"
    by (auto simp: fresh_material_def)
  from assms(3) m obtain src where "24 \<le> length src" and "protect_envelopes C s m (take 24 src) = Inr p"
    by (auto simp: protectLoginMaterial_def Let_def fst_read_full_Inr loginGCMNonceBytes_def
        split: option.splits sum.splits if_splits)
  then obtain random where random: "length random = 24"
    and envelopes: "protect_envelopes C s m random = Inr p" by (intro that [of "take 24 src"]) simp_all
  let ?h = "cr_sha C (string_bytes (lm_state m))"
  from envelopes have p: "pl_state_hash p = ?h"
    "seal_secret C s ?h loginNonceKeyLabel (raw_url_encode n) (take 12 random) = Inr (pl_nonce p)"
    "seal_secret C s ?h loginVerifierKeyLabel (raw_url_encode v) (drop 12 random) = Inr (pl_verifier p)"
    by (auto simp: protect_envelopes_def Let_def m(5) loginGCMNonceBytes_def split: sum.splits)
  have "open_secret C s ?h loginNonceKeyLabel (pl_nonce p) = Inr (raw_url_encode n, n)"
    by (rule seal_open [OF assms(1) p(2) m(2)]) (simp add: random)
  moreover have "open_secret C s ?h loginVerifierKeyLabel (pl_verifier p) = Inr (raw_url_encode v, v)"
    by (rule seal_open [OF assms(1) p(3) m(3)]) (simp add: random)
  moreover have "length ?h = 32" using assms(1) by (simp add: crypto_laws_def)
  ultimately show "recoverLoginMaterial C (lm_state m) (pl_state_hash p) (pl_nonce p) (pl_verifier p) = Inr m"
    using m by (simp add: recoverLoginMaterial_def Let_def p(1))
  show "pl_state_hash p = ?h" by (rule p(1))
qed

end
