(* ===== verification/Sessions.thy ===== *)
theory Sessions
  imports Suspension Secrets
begin

text \<open>
  Browser sessions of \<open>internal/auth\<close>: resolving a credential to the account behind it
  (\<open>session_authentication.go\<close>, \<open>Service.AuthenticateSession\<close>) and revoking one
  (\<open>session_revocation.go\<close>, \<open>Service.RevokeSession\<close>), over \<open>auth.sql.go\<close> and the SQL functions
  \<open>session_id_for_token\<close> and \<open>revoke_session_by_token\<close> of migration 000013. A clock is the reading it
  gives, or \<open>None\<close> when no clock is set; a row's \<open>GroupIds\<close> is never nil, the query builds an array.
\<close>

subsection \<open>Configuration\<close>

text \<open>
  A request context: whether there is one, its error on entry, and its error after a call that failed.
\<close>

record auth_context =
  cx_given :: bool
  cx_error :: "go_error option"
  cx_late :: "go_error option"

definition auth_context_error :: "string \<Rightarrow> auth_context \<Rightarrow> unit tx" where
  "auth_context_error msg cx =
     (case cx_error cx of None \<Rightarrow> tx_return () | Some e \<Rightarrow> tx_fail (Wrap msg e))"

text \<open>The error of a failed call without its cause, unless the context has ended.\<close>

definition redacted_error :: "auth_context \<Rightarrow> string \<Rightarrow> string \<Rightarrow> go_error" where
  "redacted_error cx msg fallback =
     (case cx_late cx of Some e \<Rightarrow> Wrap msg e | None \<Rightarrow> Fail fallback)"

text \<open>\<open>control.Ceilings\<close>, the startup limits no stored setting may exceed.\<close>

record control_ceilings =
  cg_publish_limit :: u32
  cg_new_account_limit :: u32
  cg_publish_window :: duration
  cg_new_account_period :: duration
  cg_session_idle :: duration
  cg_auth_revalidate :: duration
  cg_session_maximum_age :: duration

definition ceilings_valid :: "control_ceilings \<Rightarrow> bool" where
  "ceilings_valid c \<longleftrightarrow>
     \<not> isl (NewPublicationPolicy (cg_publish_limit c) (cg_new_account_limit c)
             (cg_publish_window c) (cg_new_account_period c)) \<and>
     cg_session_maximum_age c \<ge> ns_second \<and>
     cg_session_idle c \<ge> ns_second \<and> cg_session_idle c \<le> cg_session_maximum_age c \<and>
     cg_auth_revalidate c \<ge> ns_second \<and> cg_auth_revalidate c \<le> cg_session_maximum_age c"

subsection \<open>The statements\<close>

record active_session =
  as_session_id :: int
  as_user_id :: int
  as_issued_at :: "tstamp option"
  as_last_seen_at :: "tstamp option"
  as_validated_at :: "tstamp option"
  as_expires_at :: "tstamp option"
  as_role :: string
  as_muted_until :: "tstamp option"
  as_group_ids :: "int list"

definition session_id_for_token :: "forum_db \<Rightarrow> bytes \<Rightarrow> int option" where
  "session_id_for_token db h = map_option s_id (find (\<lambda>s. s_token_hash s = h) (db_sessions db))"

text \<open>The join and the filter of \<open>GetActiveSession\<close>, with the idle cutoff.\<close>

definition active_session_for ::
  "forum_db \<Rightarrow> bytes \<Rightarrow> tstamp \<Rightarrow> tstamp \<Rightarrow> (session_row \<times> user_row) option" where
  "active_session_for db h observed cutoff =
     (case session_id_for_token db h of
        None \<Rightarrow> None
      | Some i \<Rightarrow>
          (case find (\<lambda>s. s_id s = i \<and> s_revoked_at s = None \<and> s_expires_at s > observed \<and>
                      s_last_seen_at s > cutoff) (db_sessions db) of
             None \<Rightarrow> None
           | Some s \<Rightarrow>
               (case find_user db (s_user_id s) of
                  None \<Rightarrow> None
                | Some u \<Rightarrow>
                    if u_sync_state u = ''accepted'' \<and> sql_unsuspended observed u then Some (s, u) else None)))"

definition active_session_of :: "forum_db \<Rightarrow> session_row \<times> user_row \<Rightarrow> active_session" where
  "active_session_of db = (\<lambda>(s, u).
     \<lparr>as_session_id = s_id s, as_user_id = s_user_id s, as_issued_at = Some (s_issued_at s),
      as_last_seen_at = Some (s_last_seen_at s), as_validated_at = Some (s_validated_at s),
      as_expires_at = Some (s_expires_at s), as_role = u_role u, as_muted_until = u_muted_until u,
      as_group_ids = group_ids_of_user db (u_id u)\<rparr>)"

definition GetActiveSession :: "bytes \<Rightarrow> tstamp \<Rightarrow> tstamp \<Rightarrow> active_session tx" where
  "GetActiveSession h observed cutoff =
     select_one (\<lambda>db. map_option (active_session_of db) (active_session_for db h observed cutoff))"

text \<open>The same with the settings of the single \<open>site_settings\<close> row.\<close>

definition GetActiveSessionWithControl :: "bytes \<Rightarrow> gotime \<Rightarrow> (active_session \<times> int \<times> int) tx" where
  "GetActiveSessionWithControl h now =
     select_one (\<lambda>db. case db_settings db of
         [st] \<Rightarrow> map_option (\<lambda>r. (active_session_of db r, st_session_idle_seconds st, st_auth_revalidate_seconds st))
                  (active_session_for db h (At now) (At (now - st_session_idle_seconds st * ns_second)))
       | _ \<Rightarrow> None)"

definition TouchSession :: "tstamp \<Rightarrow> int \<Rightarrow> tstamp \<Rightarrow> int tx" where
  "TouchSession observed i touch_before =
     statement (\<lambda>db.
       let hit = (\<lambda>s. s_id s = i \<and> s_revoked_at s = None \<and> s_expires_at s > observed \<and>
                      s_last_seen_at s \<le> touch_before \<and> s_last_seen_at s < observed)
       in (Inr (int (length (filter hit (db_sessions db)))),
           db\<lparr>db_sessions := upd_where hit (\<lambda>s. s\<lparr>s_last_seen_at := observed\<rparr>) (db_sessions db)\<rparr>))"

text \<open>\<open>revoke_session_by_token\<close>.\<close>

definition query_RevokeSession :: "bytes \<Rightarrow> tstamp \<Rightarrow> int tx" where
  "query_RevokeSession h observed =
     statement (\<lambda>db.
       let hit = (\<lambda>s. s_token_hash s = h \<and> s_revoked_at s = None \<and> s_issued_at s \<le> observed)
       in (Inr (int (length (filter hit (db_sessions db)))),
           db\<lparr>db_sessions := upd_where hit (\<lambda>s. s\<lparr>s_revoked_at := Some observed\<rparr>) (db_sessions db)\<rparr>))"

subsection \<open>Authentication\<close>

record session_authentication =
  sa_session_id :: int
  sa_access :: access_context
  sa_requires_revalidation :: bool

text \<open>The zero value, which stands for the anonymous visitor.\<close>

definition anonymous_access :: access_context where
  "anonymous_access =
     \<lparr>ac_authenticated = False, ac_user_id = 0, ac_role = 0, ac_group_ids = [], ac_suspended = False,
      ac_muted_until = None, ac_validated_at = zero_time\<rparr>"

definition anonymous :: session_authentication where
  "anonymous = \<lparr>sa_session_id = 0, sa_access = anonymous_access, sa_requires_revalidation = False\<rparr>"

definition sessionLastSeenWriteInterval :: duration where
  "sessionLastSeenWriteInterval = 5 * ns_minute"

definition session_role :: "string \<Rightarrow> role option" where
  "session_role s =
     (if s = ''member'' then Some RoleMember
      else if s = ''moderator'' then Some RoleModerator
      else if s = ''administrator'' then Some RoleAdministrator else None)"

text \<open>The loop over the group identifiers, with the identifier before the current one.\<close>

fun ascending_groups :: "int \<Rightarrow> int list \<Rightarrow> bool" where
  "ascending_groups prev [] = True"
| "ascending_groups prev (g # gs) = (prev < g \<and> ascending_groups g gs)"

text \<open>The condition under which the row of the loader is refused.\<close>

definition invalid_active_session :: "active_session \<Rightarrow> gotime \<Rightarrow> gotime \<Rightarrow> bool" where
  "invalid_active_session r now idleCutoff \<longleftrightarrow>
     as_session_id r \<le> 0 \<or> as_user_id r \<le> 0 \<or> as_issued_at r = None \<or> as_last_seen_at r = None \<or>
     as_validated_at r = None \<or> as_expires_at r = None \<or> ts_time (as_issued_at r) > now \<or>
     ts_time (as_last_seen_at r) < ts_time (as_issued_at r) \<or> ts_time (as_last_seen_at r) > now \<or>
     ts_time (as_validated_at r) < ts_time (as_issued_at r) \<or> ts_time (as_validated_at r) > now \<or>
     \<not> ts_time (as_expires_at r) > now \<or> ts_time (as_last_seen_at r) > ts_time (as_expires_at r) \<or>
     ts_time (as_validated_at r) > ts_time (as_expires_at r) \<or> \<not> ts_time (as_last_seen_at r) > idleCutoff"

definition touch_interval :: "duration \<Rightarrow> duration" where
  "touch_interval idle =
     (let half = idle div 2 in if half < sessionLastSeenWriteInterval then half else sessionLastSeenWriteInterval)"

text \<open>The conditional write of the last activity.\<close>

definition touch_if_due :: "auth_context \<Rightarrow> active_session \<Rightarrow> gotime \<Rightarrow> duration \<Rightarrow> unit tx" where
  "touch_if_due cx r now interval =
     (if \<not> ts_time (as_last_seen_at r) > now - interval
      then tx_try (TouchSession (At now) (as_session_id r) (At (now - interval)))
             (\<lambda>_. tx_fail (redacted_error cx ''touch active session'' ''touch active session failed''))
             (\<lambda>touched. tx_guard (touched < 0 \<or> touched > 1)
                (Fail ''touch active session returned an invalid row count''))
      else tx_return ())"

definition authenticated_as :: "active_session \<Rightarrow> role \<Rightarrow> gotime \<Rightarrow> duration \<Rightarrow> session_authentication" where
  "authenticated_as r role now revalidation =
     \<lparr>sa_session_id = as_session_id r,
      sa_access = \<lparr>ac_authenticated = True, ac_user_id = as_user_id r, ac_role = role,
        ac_group_ids = as_group_ids r, ac_suspended = False,
        ac_muted_until =
          (if as_muted_until r \<noteq> None \<and> ts_time (as_muted_until r) > now
           then Some (truncate_us (ts_time (as_muted_until r))) else None),
        ac_validated_at = truncate_us (ts_time (as_validated_at r))\<rparr>,
      sa_requires_revalidation = (\<not> ts_time (as_validated_at r) > now - revalidation)\<rparr>"

text \<open>What follows a loaded row.\<close>

definition accept_session ::
  "auth_context \<Rightarrow> gotime \<Rightarrow> active_session \<Rightarrow> duration \<Rightarrow> duration \<Rightarrow> session_authentication tx" where
  "accept_session cx now r idle revalidation =
     tx_bind (tx_guard (idle < ns_second \<or> revalidation < ns_second)
               (Fail ''active-session policy loader returned invalid values'')) (\<lambda>_.
     tx_bind (tx_guard (invalid_active_session r now (now - idle))
               (Fail ''active-session loader returned an invalid row'')) (\<lambda>_.
     case session_role (as_role r) of
       None \<Rightarrow> tx_fail (Fail ''active-session loader returned an invalid role'')
     | Some role \<Rightarrow>
         tx_bind (tx_guard (\<not> ascending_groups 0 (as_group_ids r))
                   (Fail ''active-session loader returned invalid group authority'')) (\<lambda>_.
         tx_bind (touch_if_due cx r now (touch_interval idle)) (\<lambda>_.
         tx_return (authenticated_as r role now revalidation)))))"

type_synonym session_loader = "bytes \<Rightarrow> gotime \<Rightarrow> (active_session \<times> duration \<times> duration) tx"

definition authenticateSessionWithPolicy ::
  "crypto \<Rightarrow> auth_context \<Rightarrow> gotime option \<Rightarrow> session_loader \<Rightarrow> string \<Rightarrow> session_authentication tx" where
  "authenticateSessionWithPolicy C cx clock load token =
     (if \<not> cx_given cx then tx_fail (Fail ''session authentication context is required'')
      else case clock of
        None \<Rightarrow> tx_fail (Fail ''session authentication clock is required'')
      | Some reading \<Rightarrow>
          tx_bind (auth_context_error ''authenticate session'' cx) (\<lambda>_.
          if \<not> well_formed_token token then tx_return anonymous
          else if reading = zero_time
          then tx_fail (Fail ''session authentication clock returned a zero time'')
          else let now = truncate_us reading in
            tx_try (load (cr_sha C (string_bytes token)) now)
              (\<lambda>e. if err_is e NoRows then tx_return anonymous
                   else tx_fail (redacted_error cx ''load active session'' ''load active session failed''))
              (\<lambda>(r, idle, revalidation). accept_session cx now r idle revalidation)))"

definition authenticateSession ::
  "crypto \<Rightarrow> auth_context \<Rightarrow> gotime option \<Rightarrow> duration \<Rightarrow> duration \<Rightarrow> string \<Rightarrow> session_authentication tx" where
  "authenticateSession C cx clock idleTimeout revalidationInterval token =
     (if idleTimeout < ns_second
      then tx_fail (Fail ''session idle timeout is below supported precision'')
      else if revalidationInterval < ns_second
      then tx_fail (Fail ''session revalidation interval is below supported precision'')
      else authenticateSessionWithPolicy C cx clock
        (\<lambda>h now. tx_bind (GetActiveSession h (At now) (At (now - idleTimeout)))
           (\<lambda>r. tx_return (r, idleTimeout, revalidationInterval)))
        token)"

subsection \<open>Revocation\<close>

definition revokeSession ::
  "crypto \<Rightarrow> auth_context \<Rightarrow> gotime option \<Rightarrow> string \<Rightarrow> bool tx" where
  "revokeSession C cx clock token =
     (if \<not> cx_given cx then tx_fail (Fail ''session revocation context is required'')
      else case clock of
        None \<Rightarrow> tx_fail (Fail ''session revocation clock is required'')
      | Some reading \<Rightarrow>
          tx_bind (auth_context_error ''revoke session'' cx) (\<lambda>_.
          if \<not> well_formed_token token then tx_return False
          else if reading = zero_time
          then tx_fail (Fail ''session revocation clock returned a zero time'')
          else tx_try (query_RevokeSession (cr_sha C (string_bytes token)) (At (truncate_us reading)))
            (\<lambda>_. tx_fail (redacted_error cx ''revoke session'' ''revoke session failed''))
            (\<lambda>revoked. tx_bind (tx_guard (revoked < 0 \<or> revoked > 1)
                           (Fail ''revoke session returned an invalid row count'')) (\<lambda>_.
                         tx_return (revoked = 1)))))"

subsection \<open>The service\<close>

text \<open>
  \<open>auth.Service\<close>: whether the provider and the database are set up, what its entropy source will
  give, its clock, the durations of its sessions, the ceilings of a dynamic policy, and the validator
  of return paths. The \<open>n\<close>-th reading of the clock in a call is \<open>clock n\<close>.
\<close>

record auth_service =
  sv_provider :: bool
  sv_database :: bool
  sv_entropy :: "bytes option"
  sv_clock :: "(nat \<Rightarrow> gotime) option"
  sv_maximum_age :: duration
  sv_idle :: duration
  sv_revalidation :: duration
  sv_ceilings :: control_ceilings
  sv_dynamic :: bool
  sv_return_path :: "(string \<Rightarrow> go_error + string) option"

text \<open>
  The constructors. The discovery of the provider is a parameter; a configured service has no dynamic
  control, and its ceilings are the zero value.
\<close>

definition zero_ceilings :: control_ceilings where
  "zero_ceilings =
     \<lparr>cg_publish_limit = 0, cg_new_account_limit = 0, cg_publish_window = 0, cg_new_account_period = 0,
      cg_session_idle = 0, cg_auth_revalidate = 0, cg_session_maximum_age = 0\<rparr>"

definition NewService ::
  "auth_context \<Rightarrow> go_error option \<Rightarrow> bool \<Rightarrow> bytes option \<Rightarrow> (nat \<Rightarrow> gotime) option \<Rightarrow> duration \<Rightarrow> duration \<Rightarrow>
   duration \<Rightarrow> (string \<Rightarrow> go_error + string) option \<Rightarrow> go_error + auth_service"
where
  "NewService cx discovery_error database entropy clock maximumAge idle revalidation validate =
     (if \<not> cx_given cx then Inl (Fail ''authentication service context is required'')
      else if \<not> database then Inl (Fail ''authentication session database is required'')
      else if entropy = None then Inl (Fail ''authentication entropy source is required'')
      else if clock = None then Inl (Fail ''authentication clock is required'')
      else if maximumAge < ns_second
      then Inl (Fail ''authentication session maximum age is below browser cookie precision'')
      else if idle < ns_second \<or> idle > maximumAge
      then Inl (Fail ''authentication session idle timeout is outside the supported session lifetime'')
      else if revalidation < ns_second \<or> revalidation > maximumAge
      then Inl (Fail ''authentication revalidation interval is outside the supported session lifetime'')
      else if validate = None then Inl (Fail ''authentication return-path validator is required'')
      else case cx_error cx of
        Some e \<Rightarrow> Inl (Wrap ''construct authentication service'' e)
      | None \<Rightarrow>
          (case discovery_error of
             Some e \<Rightarrow> Inl e
           | None \<Rightarrow> Inr \<lparr>sv_provider = True, sv_database = database, sv_entropy = entropy, sv_clock = clock,
                          sv_maximum_age = maximumAge, sv_idle = idle, sv_revalidation = revalidation,
                          sv_ceilings = zero_ceilings, sv_dynamic = False, sv_return_path = validate\<rparr>))"

definition NewServiceWithControl ::
  "auth_context \<Rightarrow> go_error option \<Rightarrow> bool \<Rightarrow> bytes option \<Rightarrow> (nat \<Rightarrow> gotime) option \<Rightarrow> duration \<Rightarrow> duration \<Rightarrow>
   duration \<Rightarrow> control_ceilings \<Rightarrow> (string \<Rightarrow> go_error + string) option \<Rightarrow> go_error + auth_service"
where
  "NewServiceWithControl cx discovery_error database entropy clock maximumAge idle revalidation ceilings validate =
     (if \<not> ceilings_valid ceilings \<or> cg_session_maximum_age ceilings \<noteq> maximumAge \<or>
         cg_session_idle ceilings \<noteq> idle \<or> cg_auth_revalidate ceilings \<noteq> revalidation
      then Inl (Fail ''authentication control ceilings are invalid'')
      else map_sum id (\<lambda>sv. sv\<lparr>sv_ceilings := ceilings, sv_dynamic := True\<rparr>)
        (NewService cx discovery_error database entropy clock maximumAge idle revalidation validate))"

text \<open>The loader under dynamic control: the stored settings, refused above a ceiling.\<close>

definition load_with_control :: "control_ceilings \<Rightarrow> session_loader" where
  "load_with_control c h now =
     tx_bind (GetActiveSessionWithControl h now) (\<lambda>(r, idle_seconds, revalidate_seconds).
       let idle = idle_seconds * ns_second; revalidate = revalidate_seconds * ns_second in
       tx_bind (tx_guard (idle_seconds \<le> 0 \<or> revalidate_seconds \<le> 0 \<or> idle > cg_session_idle c \<or>
                          revalidate > cg_auth_revalidate c \<or> idle > cg_session_maximum_age c \<or>
                          revalidate > cg_session_maximum_age c)
                 (Fail ''persisted session policy exceeds startup ceiling'')) (\<lambda>_.
       tx_return (r, idle, revalidate)))"

definition AuthenticateSession ::
  "crypto \<Rightarrow> auth_service \<Rightarrow> auth_context \<Rightarrow> string \<Rightarrow> session_authentication tx" where
  "AuthenticateSession C sv cx token =
     (if \<not> sv_database sv \<or> sv_clock sv = None \<or> sv_idle sv < ns_second \<or> sv_revalidation sv < ns_second
      then tx_fail (Fail ''authentication service is not initialized for session lookup'')
      else let clock = map_option (\<lambda>c. c 0) (sv_clock sv) in
        if sv_dynamic sv
        then if \<not> ceilings_valid (sv_ceilings sv)
             then tx_fail (Fail ''authentication service control ceilings are invalid'')
             else authenticateSessionWithPolicy C cx clock (load_with_control (sv_ceilings sv)) token
        else authenticateSession C cx clock (sv_idle sv) (sv_revalidation sv) token)"

definition RevokeSession :: "crypto \<Rightarrow> auth_service \<Rightarrow> auth_context \<Rightarrow> string \<Rightarrow> bool tx" where
  "RevokeSession C sv cx token =
     (if \<not> sv_database sv \<or> sv_clock sv = None
      then tx_fail (Fail ''authentication service is not initialized for session revocation'')
      else revokeSession C cx (map_option (\<lambda>c. c 0) (sv_clock sv)) token)"

end
