(* ===== verification/Login.thy ===== *)
theory Login
  imports Sessions
begin

text \<open>
  Login attempts of \<open>internal/auth\<close>: starting a login or the revalidation of a session
  (\<open>login_begin.go\<close>, \<open>revalidation_begin.go\<close>, \<open>authorization_url.go\<close>), and consuming the attempt
  when the browser comes back (\<open>login_consume.go\<close>), over \<open>auth.sql.go\<close>. The URL that
  \<open>golang.org/x/oauth2\<close> builds and the exchange of a code are parameters of the provider.
\<close>

record verified_identity_claims =
  vc_issuer :: string
  vc_subject :: string
  vc_display_name :: string
  vc_email :: "string option"
  vc_avatar_url :: "string option"

record oidc_provider =
  op_code_url :: "login_material \<Rightarrow> string"
  op_exchange :: "string \<Rightarrow> login_material \<Rightarrow> go_error + verified_identity_claims"

subsection \<open>The statements\<close>

definition InsertOIDCLoginAttempt :: "attempt_row \<Rightarrow> unit tx" where
  "InsertOIDCLoginAttempt a =
     statement (\<lambda>db.
       if list_ex (\<lambda>b. la_state_hash b = la_state_hash a) (db_login_attempts db)
       then (Inl (UniqueViolation ''oidc_login_attempts_pkey''), db)
       else if (case la_session_id a of None \<Rightarrow> False | Some i \<Rightarrow> \<not> list_ex (\<lambda>s. s_id s = i) (db_sessions db))
       then (Inl (DbFault ''oidc_login_attempts_session_id_fkey''), db)
       else (Inr (), db\<lparr>db_login_attempts := db_login_attempts db @ [a]\<rparr>))"

definition ConsumeOIDCLoginAttempt :: "tstamp \<Rightarrow> bytes \<Rightarrow> attempt_row tx" where
  "ConsumeOIDCLoginAttempt consumed_at h =
     statement (\<lambda>db.
       let hit = (\<lambda>a. la_state_hash a = h \<and> la_consumed_at a = None \<and> la_created_at a \<le> consumed_at \<and>
                      la_expires_at a > consumed_at);
           change = (\<lambda>a. a\<lparr>la_consumed_at := Some consumed_at\<rparr>)
       in case find hit (db_login_attempts db) of
            None \<Rightarrow> (Inl (Sentinel NoRows), db)
          | Some a \<Rightarrow> (Inr (change a), db\<lparr>db_login_attempts := upd_where hit change (db_login_attempts db)\<rparr>))"

subsection \<open>Starting\<close>

definition initialLoginAttemptLifetime :: duration where
  "initialLoginAttemptLifetime = 5 * ns_minute"

definition beginInitialLogin ::
  "crypto \<Rightarrow> auth_context \<Rightarrow> (attempt_row \<Rightarrow> unit tx) \<Rightarrow> bytes option \<Rightarrow> gotime option \<Rightarrow>
   (string \<Rightarrow> go_error + string) option \<Rightarrow> string \<Rightarrow> login_material tx"
where
  "beginInitialLogin C cx store entropy clock validate rawReturnPath =
     (if \<not> cx_given cx then tx_fail (Fail ''login context is required'')
      else case clock of None \<Rightarrow> tx_fail (Fail ''login clock is required'') | Some reading \<Rightarrow>
      case validate of None \<Rightarrow> tx_fail (Fail ''login return-path validator is required'') | Some validator \<Rightarrow>
        tx_bind (auth_context_error ''begin login'' cx) (\<lambda>_.
        tx_bind (tx_wrap ''validate login return path'' (tx_lift (validator rawReturnPath))) (\<lambda>returnPath.
        tx_bind (tx_guard (returnPath = []) (Fail ''login return-path validator returned an empty path'')) (\<lambda>_.
        tx_bind (tx_guard (reading = zero_time) (Fail ''login clock returned a zero time'')) (\<lambda>_.
        let now = truncate_us reading; (generated, rest) = generateLoginMaterial entropy in
        tx_bind (tx_lift generated) (\<lambda>material.
        tx_bind (tx_lift (protectLoginMaterial C material rest)) (\<lambda>protected.
        tx_bind (tx_wrap ''insert login attempt'' (store
                  \<lparr>la_state_hash = pl_state_hash protected, la_nonce = pl_nonce protected,
                   la_verifier = pl_verifier protected, la_purpose = ''login'', la_session_id = None,
                   la_return_path = returnPath, la_created_at = At now,
                   la_expires_at = At (now + initialLoginAttemptLifetime), la_consumed_at = None\<rparr>)) (\<lambda>_.
        tx_return material))))))))"

definition beginRevalidation ::
  "crypto \<Rightarrow> auth_context \<Rightarrow> (attempt_row \<Rightarrow> unit tx) \<Rightarrow> bytes option \<Rightarrow> gotime option \<Rightarrow>
   (string \<Rightarrow> go_error + string) option \<Rightarrow> int \<Rightarrow> string \<Rightarrow> login_material tx"
where
  "beginRevalidation C cx store entropy clock validate sessionID rawReturnPath =
     (if sessionID \<le> 0 then tx_fail (Fail ''revalidation session ID must be positive'')
      else beginInitialLogin C cx
        (\<lambda>a. store (a\<lparr>la_purpose := ''revalidate'', la_session_id := Some sessionID\<rparr>))
        entropy clock validate rawReturnPath)"

definition initialAuthorizationURL ::
  "auth_service \<Rightarrow> oidc_provider \<Rightarrow> login_material \<Rightarrow> go_error + string" where
  "initialAuthorizationURL sv P material =
     (let decode = decode_secret ''login authorization material has an invalid encoding or length'' in
      if \<not> sv_provider sv then Inl (Fail ''OIDC provider is not initialized for initial authorization'')
      else case decode (lm_state material) of Inl e \<Rightarrow> Inl e | Inr state \<Rightarrow>
      case decode (lm_nonce material) of Inl e \<Rightarrow> Inl e | Inr nonce \<Rightarrow>
      case decode (lm_verifier material) of Inl e \<Rightarrow> Inl e | Inr verifier \<Rightarrow>
        if repeats state nonce verifier then Inl (Fail ''login authorization material repeats a value'')
        else Inr (op_code_url P material))"

text \<open>The error of a start whose cause is dropped.\<close>

definition begin_error :: "auth_context \<Rightarrow> string \<Rightarrow> go_error" where
  "begin_error cx what =
     (if cx_given cx then redacted_error cx (''begin '' @ what) (''begin '' @ what @ '' failed'')
      else Fail (''begin '' @ what @ '' failed''))"

definition ready_to_begin :: "auth_service \<Rightarrow> bool" where
  "ready_to_begin sv \<longleftrightarrow>
     sv_provider sv \<and> sv_database sv \<and> sv_entropy sv \<noteq> None \<and> sv_clock sv \<noteq> None \<and> sv_return_path sv \<noteq> None"

definition BeginInitialLogin ::
  "crypto \<Rightarrow> auth_service \<Rightarrow> oidc_provider \<Rightarrow> auth_context \<Rightarrow> string \<Rightarrow> (string \<times> string) tx" where
  "BeginInitialLogin C sv P cx returnPath =
     (if \<not> ready_to_begin sv
      then tx_fail (Fail ''authentication service is not initialized for login start'')
      else tx_bind (tx_replace (begin_error cx ''initial login'')
             (beginInitialLogin C cx InsertOIDCLoginAttempt (sv_entropy sv)
                (map_option (\<lambda>c. c 0) (sv_clock sv)) (sv_return_path sv) returnPath)) (\<lambda>material.
        tx_bind (tx_replace (Fail ''build initial authorization URL failed'')
                  (tx_lift (initialAuthorizationURL sv P material))) (\<lambda>url.
        tx_return (url, lm_state material))))"

definition BeginRevalidation ::
  "crypto \<Rightarrow> auth_service \<Rightarrow> oidc_provider \<Rightarrow> auth_context \<Rightarrow> int \<Rightarrow> string \<Rightarrow> (string \<times> string) tx" where
  "BeginRevalidation C sv P cx sessionID returnPath =
     (if \<not> ready_to_begin sv
      then tx_fail (Fail ''authentication service is not initialized for revalidation start'')
      else tx_bind (tx_replace (begin_error cx ''revalidation'')
             (beginRevalidation C cx InsertOIDCLoginAttempt (sv_entropy sv)
                (map_option (\<lambda>c. c 0) (sv_clock sv)) (sv_return_path sv) sessionID returnPath)) (\<lambda>material.
        tx_bind (tx_replace (Fail ''build revalidation authorization URL failed'')
                  (tx_lift (initialAuthorizationURL sv P material))) (\<lambda>url.
        tx_return (url, lm_state material))))"

subsection \<open>Consuming\<close>

record consumed_attempt =
  cn_material :: login_material
  cn_return_path :: string
  cn_session_id :: int

text \<open>The session an attempt is bound to, which its purpose fixes.\<close>

definition attempt_session :: "string \<Rightarrow> attempt_row \<Rightarrow> go_error + int" where
  "attempt_session purpose a =
     (if purpose = ''login''
      then if la_session_id a \<noteq> None
           then Inl (Fail ''consumed initial-login attempt has session metadata'') else Inr 0
      else case la_session_id a of
        None \<Rightarrow> Inl (Fail ''consumed revalidation attempt lacks a valid session'')
      | Some i \<Rightarrow> if i \<le> 0 then Inl (Fail ''consumed revalidation attempt lacks a valid session'') else Inr i)"

definition consumeLoginAttempt ::
  "crypto \<Rightarrow> auth_context \<Rightarrow> gotime option \<Rightarrow> (string \<Rightarrow> go_error + string) option \<Rightarrow> string \<Rightarrow> string \<Rightarrow>
   consumed_attempt tx"
where
  "consumeLoginAttempt C cx clock validate purpose stateValue =
     (if \<not> cx_given cx then tx_fail (Fail ''login context is required'')
      else case clock of None \<Rightarrow> tx_fail (Fail ''login clock is required'') | Some reading \<Rightarrow>
      case validate of None \<Rightarrow> tx_fail (Fail ''login return-path validator is required'') | Some validator \<Rightarrow>
      if purpose \<noteq> ''login'' \<and> purpose \<noteq> ''revalidate''
      then tx_fail (Fail ''login-attempt purpose is invalid'')
      else
        tx_bind (auth_context_error ''consume login'' cx) (\<lambda>_.
        tx_bind (tx_lift (decode_secret ''login state has an invalid encoding or length'' stateValue)) (\<lambda>_.
        tx_bind (tx_guard (reading = zero_time) (Fail ''login clock returned a zero time'')) (\<lambda>_.
        tx_bind (tx_wrap ''consume login attempt''
                  (ConsumeOIDCLoginAttempt (At (truncate_us reading)) (cr_sha C (string_bytes stateValue)))) (\<lambda>attempt.
        tx_bind (tx_guard (la_purpose attempt \<noteq> purpose)
                  (Fail ''consumed login attempt has an unexpected purpose'')) (\<lambda>_.
        tx_bind (tx_lift (attempt_session purpose attempt)) (\<lambda>sessionID.
        tx_bind (tx_wrap ''validate consumed login return path''
                  (tx_lift (validator (la_return_path attempt)))) (\<lambda>returnPath.
        tx_bind (tx_guard (returnPath = []) (Fail ''login return-path validator returned an empty path'')) (\<lambda>_.
        tx_bind (tx_wrap ''recover consumed login attempt'' (tx_lift
                  (recoverLoginMaterial C stateValue (la_state_hash attempt) (la_nonce attempt) (la_verifier attempt)))) (\<lambda>material.
        tx_return \<lparr>cn_material = material, cn_return_path = returnPath, cn_session_id = sessionID\<rparr>))))))))))"

end
