(* ===== verification/Identity.thy ===== *)
theory Identity
  imports Login
begin

text \<open>
  What a verified identity becomes: the first session of a login (\<open>initial_session.go\<close>), the
  replacement of a session after a revalidation (\<open>session_rotation.go\<close>), and the completion of both
  around the exchange of the code (\<open>complete_login.go\<close>, \<open>complete_revalidation.go\<close>,
  \<open>service.go\<close>), over \<open>foundation.sql.go\<close> and the SQL function
  \<open>revoke_session_for_rotation_by_token\<close> of migration 000013.
\<close>

subsection \<open>The statements\<close>

text \<open>The advisory lock on issuer and subject; runs are atomic, so it has no effect of its own.\<close>

definition LockExternalIdentity :: "bool tx" where
  "LockExternalIdentity = select_all (\<lambda>db. True)"

definition GetPendingRegistrationLoginState :: "string \<Rightarrow> string tx" where
  "GetPendingRegistrationLoginState subject =
     select_one (\<lambda>db. map_option pn_status (find (\<lambda>r. pn_subject r = subject) (db_registrations db)))"

definition find_identity :: "forum_db \<Rightarrow> string \<Rightarrow> string \<Rightarrow> identity_row option" where
  "find_identity db issuer subject =
     find (\<lambda>r. id_issuer r = issuer \<and> id_subject r = subject) (db_identities db)"

definition GetUserByExternalIdentity :: "string \<Rightarrow> string \<Rightarrow> user_row tx" where
  "GetUserByExternalIdentity issuer subject =
     select_one (\<lambda>db. case find_identity db issuer subject of
         None \<Rightarrow> None
       | Some r \<Rightarrow> find_user db (id_user_id r))"

definition new_user :: "int \<Rightarrow> verified_identity_claims \<Rightarrow> tstamp \<Rightarrow> user_row" where
  "new_user i claims stamp =
     \<lparr>u_id = i, u_display_name = vc_display_name claims, u_email = vc_email claims,
      u_avatar_url = vc_avatar_url claims, u_last_login_at = stamp, u_role = ''member'',
      u_suspended_at = None, u_suspended_until = None, u_suspension_reason = None, u_muted_until = None,
      u_created_at = stamp, u_updated_at = stamp, u_window_started_at = None, u_publication_count = 0,
      u_administration_revision = 1, u_sync_state = ''accepted'', u_sync_last_attempt_at = None,
      u_sync_next_attempt_at = None, u_sync_failure_class = None\<rparr>"

definition InsertUser :: "verified_identity_claims \<Rightarrow> tstamp \<Rightarrow> user_row tx" where
  "InsertUser claims stamp =
     statement (\<lambda>db.
       let (i, db1) = nextval UserSeq db in
       if list_ex (\<lambda>u. u_id u = i) (db_users db1) then (Inl (UniqueViolation ''users_pkey''), db1)
       else (Inr (new_user i claims stamp), db1\<lparr>db_users := db_users db1 @ [new_user i claims stamp]\<rparr>))"

definition InsertExternalIdentity :: "int \<Rightarrow> string \<Rightarrow> string \<Rightarrow> tstamp \<Rightarrow> unit tx" where
  "InsertExternalIdentity user issuer subject stamp =
     statement (\<lambda>db.
       if list_ex (\<lambda>r. id_user_id r = user) (db_identities db)
       then (Inl (UniqueViolation ''external_identities_pkey''), db)
       else if find_identity db issuer subject \<noteq> None
       then (Inl (UniqueViolation ''external_identities_issuer_subject_unique''), db)
       else (Inr (), db\<lparr>db_identities := db_identities db @
              [\<lparr>id_user_id = user, id_issuer = issuer, id_subject = subject, id_created_at = stamp,
                id_last_verified_at = stamp\<rparr>]\<rparr>))"

definition refresh_profile :: "verified_identity_claims \<Rightarrow> tstamp \<Rightarrow> user_row \<Rightarrow> user_row" where
  "refresh_profile claims stamp u =
     u\<lparr>u_display_name := vc_display_name claims, u_email := vc_email claims,
       u_avatar_url := vc_avatar_url claims, u_updated_at := stamp, u_last_login_at := stamp\<rparr>"

definition UpdateUserFromOIDC :: "verified_identity_claims \<Rightarrow> tstamp \<Rightarrow> int \<Rightarrow> user_row tx" where
  "UpdateUserFromOIDC claims stamp user =
     statement (\<lambda>db.
       let hit = (\<lambda>u. u_id u = user \<and> u_sync_state u = ''accepted'') in
       case find hit (db_users db) of
         None \<Rightarrow> (Inl (Sentinel NoRows), db)
       | Some u \<Rightarrow> (Inr (refresh_profile claims stamp u),
                    db\<lparr>db_users := upd_where hit (refresh_profile claims stamp) (db_users db)\<rparr>))"

definition UpdateExternalIdentityVerification :: "tstamp \<Rightarrow> int \<Rightarrow> unit tx" where
  "UpdateExternalIdentityVerification stamp user =
     statement (\<lambda>db. (Inr (),
       db\<lparr>db_identities := upd_where (\<lambda>r. id_user_id r = user) (\<lambda>r. r\<lparr>id_last_verified_at := stamp\<rparr>)
            (db_identities db)\<rparr>))"

definition new_session :: "int \<Rightarrow> bytes \<Rightarrow> int \<Rightarrow> tstamp \<Rightarrow> tstamp \<Rightarrow> session_row" where
  "new_session i h user issued expires =
     \<lparr>s_id = i, s_token_hash = h, s_user_id = user, s_issued_at = issued, s_last_seen_at = issued,
      s_validated_at = issued, s_expires_at = expires, s_revoked_at = None\<rparr>"

definition InsertSession :: "bytes \<Rightarrow> int \<Rightarrow> tstamp \<Rightarrow> tstamp \<Rightarrow> (int \<times> int) tx" where
  "InsertSession h user issued expires =
     statement (\<lambda>db.
       let (i, db1) = nextval SessionSeq db in
       if list_ex (\<lambda>s. s_id s = i) (db_sessions db1) then (Inl (UniqueViolation ''sessions_pkey''), db1)
       else if list_ex (\<lambda>s. s_token_hash s = h) (db_sessions db1)
       then (Inl (UniqueViolation ''sessions_token_hash_unique''), db1)
       else if find_user db1 user = None then (Inl (DbFault ''sessions_user_id_fkey''), db1)
       else (Inr (i, user), db1\<lparr>db_sessions := db_sessions db1 @ [new_session i h user issued expires]\<rparr>))"

record rotation_row =
  rr_user_id :: int
  rr_issuer :: string
  rr_subject :: string
  rr_expires_at :: "tstamp option"

definition rotation_row_for :: "forum_db \<Rightarrow> int \<Rightarrow> bytes \<Rightarrow> tstamp \<Rightarrow> tstamp \<Rightarrow> rotation_row option" where
  "rotation_row_for db i h observed cutoff =
     (if session_id_for_token db h \<noteq> Some i then None
      else case find (\<lambda>s. s_id s = i \<and> s_revoked_at s = None \<and> s_issued_at s \<le> observed \<and>
                   s_last_seen_at s \<le> observed \<and> s_validated_at s \<le> observed \<and>
                   s_expires_at s > observed \<and> s_last_seen_at s > cutoff) (db_sessions db) of
        None \<Rightarrow> None
      | Some s \<Rightarrow>
          (case (find_user db (s_user_id s), find (\<lambda>r. id_user_id r = s_user_id s) (db_identities db)) of
             (Some u, Some r) \<Rightarrow>
               if u_sync_state u = ''accepted'' \<and> sql_unsuspended observed u
               then Some \<lparr>rr_user_id = s_user_id s, rr_issuer = id_issuer r, rr_subject = id_subject r,
                          rr_expires_at = Some (s_expires_at s)\<rparr>
               else None
           | _ \<Rightarrow> None))"

definition GetActiveSessionForRotation :: "int \<Rightarrow> bytes \<Rightarrow> tstamp \<Rightarrow> tstamp \<Rightarrow> rotation_row tx" where
  "GetActiveSessionForRotation i h observed cutoff =
     select_one (\<lambda>db. rotation_row_for db i h observed cutoff)"

definition RevokeSessionForRotation :: "int \<Rightarrow> bytes \<Rightarrow> tstamp \<Rightarrow> int tx" where
  "RevokeSessionForRotation i h observed =
     statement (\<lambda>db.
       let hit = (\<lambda>s. s_id s = i \<and> s_token_hash s = h \<and> s_revoked_at s = None \<and> s_issued_at s \<le> observed \<and>
                      s_expires_at s > observed)
       in (Inr (int (length (filter hit (db_sessions db)))),
           db\<lparr>db_sessions := upd_where hit (\<lambda>s. s\<lparr>s_revoked_at := Some observed\<rparr>) (db_sessions db)\<rparr>))"

subsection \<open>The first session of a login\<close>

record created_session =
  cs_token :: string
  cs_user_id :: int
  cs_session_id :: int
  cs_expires_at :: gotime

text \<open>The account of the claims: loaded and refreshed, or created with its identity.\<close>

definition refresh_user :: "verified_identity_claims \<Rightarrow> tstamp \<Rightarrow> user_row \<Rightarrow> user_row tx" where
  "refresh_user claims stamp u =
     tx_bind (tx_wrap ''refresh local user profile'' (UpdateUserFromOIDC claims stamp (u_id u))) (\<lambda>refreshed.
     tx_bind (tx_wrap ''refresh external identity verification''
               (UpdateExternalIdentityVerification stamp (u_id refreshed))) (\<lambda>_.
     tx_return refreshed))"

definition create_user :: "verified_identity_claims \<Rightarrow> tstamp \<Rightarrow> user_row tx" where
  "create_user claims stamp =
     tx_bind (tx_wrap ''insert local user'' (InsertUser claims stamp)) (\<lambda>u.
     tx_bind (tx_wrap ''insert external identity''
               (InsertExternalIdentity (u_id u) (vc_issuer claims) (vc_subject claims) stamp)) (\<lambda>_.
     tx_return u))"

definition local_user :: "verified_identity_claims \<Rightarrow> tstamp \<Rightarrow> user_row tx" where
  "local_user claims stamp =
     tx_try (GetUserByExternalIdentity (vc_issuer claims) (vc_subject claims))
       (\<lambda>e. if err_is e NoRows then create_user claims stamp
            else tx_fail (Wrap ''load external identity'' e))
       (refresh_user claims stamp)"

text \<open>A registration that is known has to be approved.\<close>

definition require_approval :: "string \<Rightarrow> unit tx" where
  "require_approval subject =
     tx_try (GetPendingRegistrationLoginState subject)
       (\<lambda>e. if err_is e NoRows then tx_return () else tx_fail (Wrap ''load pending registration state'' e))
       (\<lambda>status. tx_guard (status \<noteq> ''approved'') (Sentinel RegistrationNotApproved))"

definition createInitialSession_body ::
  "session_material \<Rightarrow> gotime \<Rightarrow> gotime \<Rightarrow> verified_identity_claims \<Rightarrow> created_session tx" where
  "createInitialSession_body material now expiresAt claims =
     tx_bind (tx_wrap ''lock external identity'' LockExternalIdentity) (\<lambda>locked.
     tx_bind (tx_guard (\<not> locked) (Fail ''external identity lock returned false'')) (\<lambda>_.
     tx_bind (require_approval (vc_subject claims)) (\<lambda>_.
     tx_bind (local_user claims (At now)) (\<lambda>u.
     tx_bind (tx_wrap ''insert initial session''
               (InsertSession (sm_hash material) (u_id u) (At now) (At expiresAt))) (\<lambda>session.
     tx_return \<lparr>cs_token = sm_token material, cs_user_id = u_id u, cs_session_id = fst session,
                cs_expires_at = expiresAt\<rparr>)))))"

definition incomplete_claims :: "verified_identity_claims \<Rightarrow> bool" where
  "incomplete_claims c \<longleftrightarrow> vc_issuer c = [] \<or> vc_subject c = [] \<or> vc_display_name c = []"

definition createInitialSession ::
  "crypto \<Rightarrow> tx_env \<Rightarrow> bytes option \<Rightarrow> gotime option \<Rightarrow> duration \<Rightarrow> verified_identity_claims \<Rightarrow> created_session tx"
where
  "createInitialSession C env entropy clock maximumAge claims =
     (if \<not> te_context_given env then tx_fail (Fail ''initial session context is required'')
      else if \<not> te_beginner_given env then tx_fail (Fail ''initial session transaction beginner is required'')
      else if entropy = None then tx_fail (Fail ''initial session entropy is required'')
      else case clock of None \<Rightarrow> tx_fail (Fail ''initial session clock is required'') | Some reading \<Rightarrow>
      if maximumAge \<le> 0 then tx_fail (Fail ''initial session maximum age must be positive'')
      else if incomplete_claims claims then tx_fail (Fail ''verified identity claims are incomplete'')
      else
        tx_bind (context_error ''create initial session'' env) (\<lambda>_.
        if reading = zero_time then tx_fail (Fail ''initial session clock returned a zero time'')
        else
          let now = truncate_us reading; expiresAt = truncate_us (now + maximumAge) in
          if \<not> expiresAt > now then tx_fail (Fail ''initial session maximum age is below database precision'')
          else case generateSessionMaterial C entropy of
            Inl e \<Rightarrow> tx_fail e
          | Inr material \<Rightarrow>
              tx_wrap ''create initial identity and session''
                (within_tx env (createInitialSession_body material now expiresAt claims))))"

subsection \<open>The replacement of a session\<close>

definition rotateRevalidatedSession_body ::
  "session_material \<Rightarrow> gotime \<Rightarrow> gotime \<Rightarrow> gotime \<Rightarrow> int \<Rightarrow> bytes \<Rightarrow> verified_identity_claims \<Rightarrow> created_session tx"
where
  "rotateRevalidatedSession_body material now expiresAt idleCutoff sessionID oldHash claims =
     tx_bind (tx_wrap ''lock active session for rotation''
               (GetActiveSessionForRotation sessionID oldHash (At now) (At idleCutoff))) (\<lambda>active.
     tx_bind (tx_guard (rr_user_id active \<le> 0 \<or> rr_issuer active = [] \<or> rr_subject active = [] \<or>
                        rr_expires_at active = None \<or> \<not> ts_time (rr_expires_at active) > now)
               (Fail ''active session rotation row is incomplete'')) (\<lambda>_.
     tx_bind (tx_guard (rr_issuer active \<noteq> vc_issuer claims \<or> rr_subject active \<noteq> vc_subject claims)
               (Fail ''revalidated identity does not match the active session'')) (\<lambda>_.
     tx_bind (tx_wrap ''refresh revalidated user profile''
               (UpdateUserFromOIDC claims (At now) (rr_user_id active))) (\<lambda>u.
     tx_bind (tx_guard (u_id u \<noteq> rr_user_id active)
               (Fail ''refreshed revalidated user does not match the locked session'')) (\<lambda>_.
     tx_bind (tx_wrap ''refresh external identity verification''
               (UpdateExternalIdentityVerification (At now) (rr_user_id active))) (\<lambda>_.
     tx_bind (tx_wrap ''insert rotated session''
               (InsertSession (sm_hash material) (rr_user_id active) (At now) (At expiresAt))) (\<lambda>(newID, newUser).
     tx_bind (tx_guard (newID \<le> 0 \<or> newUser \<noteq> rr_user_id active)
               (Fail ''insert rotated session returned an invalid row'')) (\<lambda>_.
     tx_bind (tx_wrap ''revoke old session after rotation''
               (RevokeSessionForRotation sessionID oldHash (At now))) (\<lambda>revoked.
     tx_bind (tx_guard (revoked \<noteq> 1)
               (Fail ''revoke old session after rotation affected an invalid row count'')) (\<lambda>_.
     tx_return \<lparr>cs_token = sm_token material, cs_user_id = rr_user_id active, cs_session_id = newID,
                cs_expires_at = expiresAt\<rparr>))))))))))"

definition rotateRevalidatedSession ::
  "crypto \<Rightarrow> tx_env \<Rightarrow> bytes option \<Rightarrow> gotime option \<Rightarrow> duration \<Rightarrow> duration \<Rightarrow> int \<Rightarrow> string \<Rightarrow>
   verified_identity_claims \<Rightarrow> created_session tx"
where
  "rotateRevalidatedSession C env entropy clock maximumAge idleTimeout sessionID oldToken claims =
     (if \<not> te_context_given env then tx_fail (Fail ''session rotation context is required'')
      else if \<not> te_beginner_given env then tx_fail (Fail ''session rotation transaction beginner is required'')
      else if entropy = None then tx_fail (Fail ''session rotation entropy is required'')
      else case clock of None \<Rightarrow> tx_fail (Fail ''session rotation clock is required'') | Some reading \<Rightarrow>
      if maximumAge < 1000 then tx_fail (Fail ''session rotation maximum age is below database precision'')
      else if idleTimeout < 1000 \<or> idleTimeout > maximumAge
      then tx_fail (Fail ''session rotation idle timeout is outside the session lifetime'')
      else if sessionID \<le> 0 then tx_fail (Fail ''session rotation session ID must be positive'')
      else if incomplete_claims claims then tx_fail (Fail ''verified identity claims are incomplete'')
      else
        tx_bind (context_error ''rotate revalidated session'' env) (\<lambda>_.
        if \<not> well_formed_token oldToken then tx_fail (Fail ''old session credential is invalid'')
        else if reading = zero_time then tx_fail (Fail ''session rotation clock returned a zero time'')
        else
          let now = truncate_us reading; expiresAt = truncate_us (now + maximumAge);
              idleCutoff = truncate_us (now - idleTimeout) in
          case generateSessionMaterial C entropy of
            Inl e \<Rightarrow> tx_fail e
          | Inr material \<Rightarrow>
              tx_wrap ''rotate revalidated identity and session''
                (within_tx env (rotateRevalidatedSession_body material now expiresAt idleCutoff sessionID
                   (cr_sha C (string_bytes oldToken)) claims))))"

subsection \<open>Completion\<close>

record completed_login =
  cl_token :: string
  cl_return_path :: string
  cl_expires_at :: gotime

text \<open>One stage of a completion: its error is dropped unless the context has ended.\<close>

definition completion_stage :: "auth_context \<Rightarrow> string \<Rightarrow> 'a tx \<Rightarrow> 'a tx" where
  "completion_stage cx what m = tx_replace (redacted_error cx what (what @ '' failed'')) m"

definition completeInitialLogin ::
  "auth_context \<Rightarrow> (string \<Rightarrow> consumed_attempt tx) \<Rightarrow>
   (string \<Rightarrow> login_material \<Rightarrow> go_error + verified_identity_claims) \<Rightarrow>
   (verified_identity_claims \<Rightarrow> created_session tx) \<Rightarrow> string \<Rightarrow> string \<Rightarrow> completed_login tx"
where
  "completeInitialLogin cx consume exchange create state code =
     (if \<not> cx_given cx then tx_fail (Fail ''initial login completion context is required'')
      else if state = [] \<or> code = [] then tx_fail (Fail ''OIDC callback state and code are required'')
      else
        tx_bind (auth_context_error ''complete initial login'' cx) (\<lambda>_.
        tx_bind (completion_stage cx ''consume initial login'' (consume state)) (\<lambda>consumed.
        tx_bind (tx_guard (cn_return_path consumed = [])
                  (Fail ''consume initial login returned no navigation target'')) (\<lambda>_.
        tx_bind (completion_stage cx ''exchange initial login''
                  (tx_lift (exchange code (cn_material consumed)))) (\<lambda>claims.
        tx_bind (completion_stage cx ''create initial session'' (create claims)) (\<lambda>created.
        tx_bind (tx_guard (cs_token created = [] \<or> cs_user_id created \<le> 0 \<or> cs_session_id created \<le> 0 \<or>
                           cs_expires_at created = zero_time)
                  (Fail ''create initial session returned an incomplete result'')) (\<lambda>_.
        tx_return \<lparr>cl_token = cs_token created, cl_return_path = cn_return_path consumed,
                   cl_expires_at = cs_expires_at created\<rparr>)))))))"

definition completeRevalidation ::
  "auth_context \<Rightarrow> (string \<Rightarrow> consumed_attempt tx) \<Rightarrow>
   (string \<Rightarrow> login_material \<Rightarrow> go_error + verified_identity_claims) \<Rightarrow>
   (int \<Rightarrow> string \<Rightarrow> verified_identity_claims \<Rightarrow> created_session tx) \<Rightarrow> string \<Rightarrow> string \<Rightarrow> string \<Rightarrow>
   completed_login tx"
where
  "completeRevalidation cx consume exchange replace state code oldToken =
     (if \<not> cx_given cx then tx_fail (Fail ''revalidation completion context is required'')
      else if state = [] \<or> code = [] \<or> oldToken = []
      then tx_fail (Fail ''OIDC callback state, code, and old session credential are required'')
      else
        tx_bind (auth_context_error ''complete revalidation'' cx) (\<lambda>_.
        tx_bind (completion_stage cx ''consume revalidation'' (consume state)) (\<lambda>consumed.
        tx_bind (tx_guard (cn_return_path consumed = [] \<or> cn_session_id consumed \<le> 0)
                  (Fail ''consume revalidation returned an incomplete result'')) (\<lambda>_.
        tx_bind (completion_stage cx ''exchange revalidation''
                  (tx_lift (exchange code (cn_material consumed)))) (\<lambda>claims.
        tx_bind (completion_stage cx ''rotate revalidated session''
                  (replace (cn_session_id consumed) oldToken claims)) (\<lambda>rotated.
        tx_bind (tx_guard (cs_token rotated = [] \<or> cs_user_id rotated \<le> 0 \<or> cs_session_id rotated \<le> 0 \<or>
                           cs_session_id rotated = cn_session_id consumed \<or> cs_expires_at rotated = zero_time)
                  (Fail ''rotate revalidated session returned an incomplete result'')) (\<lambda>_.
        tx_return \<lparr>cl_token = cs_token rotated, cl_return_path = cn_return_path consumed,
                   cl_expires_at = cs_expires_at rotated\<rparr>)))))))"

text \<open>
  The service's compositions. The attempt is consumed in a statement of its own, before the exchange
  and before the transaction of the session, so it stays consumed when a later stage fails.
\<close>

definition CompleteInitialLogin ::
  "crypto \<Rightarrow> auth_service \<Rightarrow> oidc_provider \<Rightarrow> auth_context \<Rightarrow> tx_env \<Rightarrow> string \<Rightarrow> string \<Rightarrow> completed_login tx"
where
  "CompleteInitialLogin C sv P cx env state code =
     (if \<not> ready_to_begin sv \<or> sv_maximum_age sv < ns_second
      then tx_fail (Fail ''authentication service is not initialized for login completion'')
      else completeInitialLogin cx
        (consumeLoginAttempt C cx (map_option (\<lambda>c. c 0) (sv_clock sv)) (sv_return_path sv) ''login'')
        (op_exchange P)
        (createInitialSession C env (sv_entropy sv) (map_option (\<lambda>c. c 1) (sv_clock sv)) (sv_maximum_age sv))
        state code)"

definition CompleteRevalidation ::
  "crypto \<Rightarrow> auth_service \<Rightarrow> oidc_provider \<Rightarrow> auth_context \<Rightarrow> tx_env \<Rightarrow> string \<Rightarrow> string \<Rightarrow> string \<Rightarrow>
   completed_login tx"
where
  "CompleteRevalidation C sv P cx env state code oldToken =
     (if \<not> ready_to_begin sv \<or> sv_maximum_age sv < ns_second \<or> sv_idle sv < ns_second \<or>
         sv_idle sv > sv_maximum_age sv
      then tx_fail (Fail ''authentication service is not initialized for revalidation completion'')
      else completeRevalidation cx
        (consumeLoginAttempt C cx (map_option (\<lambda>c. c 0) (sv_clock sv)) (sv_return_path sv) ''revalidate'')
        (op_exchange P)
        (rotateRevalidatedSession C env (sv_entropy sv) (map_option (\<lambda>c. c 1) (sv_clock sv)) (sv_maximum_age sv)
           (sv_idle sv))
        state code oldToken)"

end
