(* ===== verification/Governance.thy ===== *)
theory Governance
  imports Suspension Identity
begin

text \<open>
  Who governs the board, \<open>internal/governance\<close>: the first administrator, granted once by an operator
  (\<open>bootstrap.go\<close>) or claimed once by a signed-in member (\<open>setup.go\<close>), and the rebinding of an
  account to a new identity at the provider (\<open>rebind.go\<close>), over \<open>foundation.sql.go\<close>. The context and
  the queries of a read are given by the same record as those of a transaction.
\<close>

subsection \<open>The statements\<close>

definition CountAdministratorBootstraps :: "int tx" where
  "CountAdministratorBootstraps =
     select_all (\<lambda>db. int (length (filter (\<lambda>a. au_action a = ''bootstrap_administrator'') (db_audits db))))"

definition promote :: "tstamp \<Rightarrow> user_row \<Rightarrow> user_row" where
  "promote stamp u = u\<lparr>u_role := ''administrator'', u_updated_at := stamp\<rparr>"

definition BootstrapAdministratorAndAudit :: "int \<Rightarrow> tstamp \<Rightarrow> string \<Rightarrow> int option \<Rightarrow> (int \<times> int) tx" where
  "BootstrapAdministratorAndAudit user stamp operator req =
     statement (\<lambda>db.
       let hit = (\<lambda>u. u_id u = user \<and> sql_unsuspended stamp u) in
       case find hit (db_users db) of
         None \<Rightarrow> (Inl (Sentinel NoRows), db)
       | Some u \<Rightarrow>
           let (i, db1) = insert_audit \<lparr>ai_actor = ActorOperator operator, ai_target = TargetUser (u_id u),
                 ai_action = ''bootstrap_administrator'', ai_reason = None,
                 ai_previous = RoleIs (u_role u) None, ai_resulting = RoleIs ''administrator'' None,
                 ai_request = req\<rparr> stamp db
           in (Inr (u_id u, i), db1\<lparr>db_users := upd_where hit (promote stamp) (db_users db1)\<rparr>))"

definition ClaimInitialAdministratorAndAudit ::
  "int \<Rightarrow> int \<Rightarrow> tstamp \<Rightarrow> string \<Rightarrow> string \<Rightarrow> int option \<Rightarrow> (int \<times> int \<times> int) tx"
where
  "ClaimInitialAdministratorAndAudit session user stamp issuer subject req =
     statement (\<lambda>db.
       let live = (\<lambda>s. s_id s = session \<and> s_user_id s = user \<and> s_revoked_at s = None \<and>
                       s_issued_at s \<le> stamp \<and> s_expires_at s > stamp);
           bound = (\<lambda>r. id_user_id r = user \<and> id_issuer r = issuer \<and> id_subject r = subject);
           hit = (\<lambda>u. u_id u = user \<and> u_role u = ''member'' \<and> sql_unsuspended stamp u)
       in if \<not> list_ex live (db_sessions db) \<or> \<not> list_ex bound (db_identities db)
          then (Inl (Sentinel NoRows), db)
          else case find hit (db_users db) of
            None \<Rightarrow> (Inl (Sentinel NoRows), db)
          | Some u \<Rightarrow>
              let (i, db1) = insert_audit \<lparr>ai_actor = ActorUser (u_id u), ai_target = TargetUser (u_id u),
                    ai_action = ''bootstrap_administrator'', ai_reason = None,
                    ai_previous = RoleIs (u_role u) None, ai_resulting = RoleIs ''administrator'' None,
                    ai_request = req\<rparr> stamp db
              in (Inr (u_id u, i, session),
                  db1\<lparr>db_users := upd_where hit (promote stamp) (db_users db1),
                      db_sessions := upd_where live (\<lambda>s. s\<lparr>s_revoked_at := Some stamp\<rparr>) (db_sessions db1)\<rparr>))"

record rebind_result =
  rb_user_id :: int
  rb_audit_id :: int
  rb_revoked_sessions :: int
  rb_discarded_attempts :: int

definition RebindExternalIdentityAndAudit ::
  "string \<Rightarrow> string \<Rightarrow> string \<Rightarrow> string \<Rightarrow> tstamp \<Rightarrow> string \<Rightarrow> int option \<Rightarrow> rebind_result tx"
where
  "RebindExternalIdentityAndAudit oldIssuer oldSubject newIssuer newSubject stamp operator req =
     statement (\<lambda>db.
       case find_identity db oldIssuer oldSubject of
         None \<Rightarrow> (Inl (Sentinel NoRows), db)
       | Some r \<Rightarrow>
           if list_ex (\<lambda>c. id_issuer c = newIssuer \<and> id_subject c = newSubject \<and> id_user_id c \<noteq> id_user_id r)
                (db_identities db)
           then (Inl (Sentinel NoRows), db)
           else
             let own = (\<lambda>s. s_user_id s = id_user_id r \<and> s_revoked_at s = None);
                 revoked = int (length (filter own (db_sessions db)));
                 discarded = int (length (filter (\<lambda>a. la_consumed_at a = None) (db_login_attempts db)));
                 (i, db1) = insert_audit \<lparr>ai_actor = ActorOperator operator, ai_target = TargetUser (id_user_id r),
                    ai_action = ''rebind_external_identity'', ai_reason = None,
                    ai_previous = ProviderIs ''previous'' None,
                    ai_resulting = ProviderIs ''replacement'' (Some (revoked, discarded)), ai_request = req\<rparr> stamp db
             in (Inr \<lparr>rb_user_id = id_user_id r, rb_audit_id = i, rb_revoked_sessions = revoked,
                      rb_discarded_attempts = discarded\<rparr>,
                 db1\<lparr>db_identities := upd_where (\<lambda>x. id_user_id x = id_user_id r)
                        (\<lambda>x. x\<lparr>id_issuer := newIssuer, id_subject := newSubject,
                              id_last_verified_at := max (id_last_verified_at x) stamp\<rparr>) (db_identities db1),
                     db_sessions := upd_where own (\<lambda>s. s\<lparr>s_revoked_at := Some (max (s_issued_at s) stamp)\<rparr>)
                        (db_sessions db1),
                     db_login_attempts := filter (\<lambda>a. la_consumed_at a \<noteq> None) (db_login_attempts db1)\<rparr>))"

subsection \<open>The first administrator\<close>

definition validBootstrapText :: "string \<Rightarrow> int \<Rightarrow> bool" where
  "validBootstrapText value maximum =
     (valid_utf8 value \<and> 1 \<le> rune_count value \<and> rune_count value \<le> maximum \<and> \<not> has_control value)"

text \<open>The decision both ways share: no bootstrap on record, and no active administrator.\<close>

definition setup_open :: "gotime \<Rightarrow> go_error \<Rightarrow> unit tx" where
  "setup_open now closed =
     tx_bind (tx_wrap ''lock administrator governance state'' LockGovernanceState) (\<lambda>locked.
     tx_bind (tx_guard (\<not> locked) (Fail ''administrator governance singleton is missing'')) (\<lambda>_.
     tx_bind (tx_wrap ''count administrator bootstraps'' CountAdministratorBootstraps) (\<lambda>bootstraps.
     tx_bind (tx_guard (bootstraps \<noteq> 0) (Sentinel SetupClosed)) (\<lambda>_.
     tx_bind (tx_wrap ''count active administrators'' (CountActiveAdministrators (At now))) (\<lambda>administrators.
     tx_guard (administrators \<noteq> 0) closed)))))"

definition BootstrapAdministrator_body ::
  "gotime \<Rightarrow> string \<Rightarrow> string \<Rightarrow> string \<Rightarrow> int option \<Rightarrow> (int \<times> int) tx" where
  "BootstrapAdministrator_body now issuer subject operator req =
     tx_bind (setup_open now (Fail ''administrator bootstrap is already closed'')) (\<lambda>_.
     tx_bind (tx_wrap ''load administrator bootstrap identity'' (GetUserByExternalIdentity issuer subject)) (\<lambda>u.
     tx_bind (tx_guard (u_id u \<le> 0) (Fail ''administrator bootstrap identity returned an invalid user'')) (\<lambda>_.
     tx_bind (tx_wrap ''write administrator bootstrap and audit''
               (BootstrapAdministratorAndAudit (u_id u) (At now) operator req)) (\<lambda>(user, audit).
     tx_bind (tx_guard (user \<noteq> u_id u \<or> audit \<le> 0)
               (Fail ''administrator bootstrap returned an invalid result'')) (\<lambda>_.
     tx_return (user, audit))))))"

definition BootstrapAdministrator ::
  "tx_env \<Rightarrow> gotime option \<Rightarrow> string \<Rightarrow> string \<Rightarrow> string \<Rightarrow> int option \<Rightarrow> (int \<times> int) tx"
where
  "BootstrapAdministrator env clock issuer subject operator req =
     (if \<not> te_context_given env then tx_fail (Fail ''administrator bootstrap context is required'')
      else if \<not> te_beginner_given env
      then tx_fail (Fail ''administrator bootstrap transaction beginner is required'')
      else case clock of None \<Rightarrow> tx_fail (Fail ''administrator bootstrap clock is required'') | Some reading \<Rightarrow>
      if \<not> validBootstrapText issuer 2048 \<or> \<not> validBootstrapText subject 512
      then tx_fail (Fail ''administrator bootstrap identity is invalid'')
      else if \<not> validBootstrapText operator 200
      then tx_fail (Fail ''administrator bootstrap operator identifier is invalid'')
      else if request_invalid req then tx_fail (Fail ''administrator bootstrap request ID is invalid'')
      else
        tx_bind (context_error ''bootstrap administrator'' env) (\<lambda>_.
        if reading = zero_time then tx_fail (Fail ''administrator bootstrap clock returned a zero time'')
        else tx_wrap ''bootstrap first administrator''
          (within_tx env (BootstrapAdministrator_body (truncate_us reading) issuer subject operator req))))"

record setup_status =
  su_open :: bool
  su_eligible :: bool

definition LoadInitialAdministratorSetup ::
  "tx_env \<Rightarrow> gotime option \<Rightarrow> int \<Rightarrow> string \<Rightarrow> string \<Rightarrow> setup_status tx"
where
  "LoadInitialAdministratorSetup env clock userID issuer subject =
     (if \<not> te_context_given env then tx_fail (Fail ''administrator setup context is required'')
      else if \<not> te_beginner_given env then tx_fail (Fail ''administrator setup queries are required'')
      else case clock of None \<Rightarrow> tx_fail (Fail ''administrator setup clock is required'') | Some reading \<Rightarrow>
      if userID < 0 \<or> \<not> validBootstrapText issuer 2048 \<or> \<not> validBootstrapText subject 512
      then tx_fail (Fail ''administrator setup input is invalid'')
      else
        tx_bind (context_error ''load administrator setup'' env) (\<lambda>_.
        if reading = zero_time then tx_fail (Fail ''administrator setup clock returned a zero time'')
        else
          tx_bind (tx_wrap ''count administrator bootstraps'' CountAdministratorBootstraps) (\<lambda>bootstraps.
          tx_bind (tx_wrap ''count active administrators''
                    (CountActiveAdministrators (At (truncate_us reading)))) (\<lambda>administrators.
          if bootstraps \<noteq> 0 \<or> administrators \<noteq> 0 then tx_return \<lparr>su_open = False, su_eligible = False\<rparr>
          else if userID = 0 then tx_return \<lparr>su_open = True, su_eligible = False\<rparr>
          else tx_try (GetUserByExternalIdentity issuer subject)
                 (\<lambda>e. if err_is e NoRows then tx_return \<lparr>su_open = True, su_eligible = False\<rparr>
                      else tx_fail (Wrap ''load administrator setup identity'' e))
                 (\<lambda>u. tx_return \<lparr>su_open = True, su_eligible = (u_id u = userID \<and> 0 < u_id u)\<rparr>)))))"

definition ClaimInitialAdministrator_body ::
  "gotime \<Rightarrow> int \<Rightarrow> int \<Rightarrow> string \<Rightarrow> string \<Rightarrow> int option \<Rightarrow> (int \<times> int \<times> int) tx" where
  "ClaimInitialAdministrator_body now userID sessionID issuer subject req =
     tx_bind (setup_open now (Sentinel SetupClosed)) (\<lambda>_.
     tx_bind (tx_map_error (\<lambda>e. if err_is e NoRows then Sentinel SetupDenied
                                else Wrap ''write administrator claim and audit'' e)
               (ClaimInitialAdministratorAndAudit sessionID userID (At now) issuer subject req))
       (\<lambda>(user, audit, session).
     tx_bind (tx_guard (user \<noteq> userID \<or> audit \<le> 0 \<or> session \<noteq> sessionID)
               (Fail ''administrator claim returned an invalid result'')) (\<lambda>_.
     tx_return (user, audit, session))))"

definition ClaimInitialAdministrator ::
  "tx_env \<Rightarrow> gotime option \<Rightarrow> int \<Rightarrow> int \<Rightarrow> string \<Rightarrow> string \<Rightarrow> int option \<Rightarrow> (int \<times> int \<times> int) tx"
where
  "ClaimInitialAdministrator env clock userID sessionID issuer subject req =
     (if \<not> te_context_given env then tx_fail (Fail ''administrator claim context is required'')
      else if \<not> te_beginner_given env
      then tx_fail (Fail ''administrator claim transaction beginner is required'')
      else case clock of None \<Rightarrow> tx_fail (Fail ''administrator claim clock is required'') | Some reading \<Rightarrow>
      if userID \<le> 0 \<or> sessionID \<le> 0 \<or> \<not> validBootstrapText issuer 2048 \<or> \<not> validBootstrapText subject 512
      then tx_fail (Fail ''administrator claim input is invalid'')
      else if request_invalid req then tx_fail (Fail ''administrator claim request ID is invalid'')
      else
        tx_bind (context_error ''claim administrator setup'' env) (\<lambda>_.
        if reading = zero_time then tx_fail (Fail ''administrator claim clock returned a zero time'')
        else tx_wrap ''claim first administrator''
          (within_tx env (ClaimInitialAdministrator_body (truncate_us reading) userID sessionID issuer subject req))))"

subsection \<open>Rebinding an identity\<close>

text \<open>
  The two advisory locks are taken in the lexical order of the identities; a run is atomic, so the
  order has no effect of its own.
\<close>

definition lock_identity :: "unit tx" where
  "lock_identity =
     tx_bind (tx_wrap ''lock external identity'' LockExternalIdentity) (\<lambda>locked.
     tx_guard (\<not> locked) (Fail ''external identity lock returned false''))"

definition RebindExternalIdentity_body ::
  "gotime \<Rightarrow> string \<Rightarrow> string \<Rightarrow> string \<Rightarrow> string \<Rightarrow> string \<Rightarrow> int option \<Rightarrow> rebind_result tx" where
  "RebindExternalIdentity_body now oldIssuer oldSubject newIssuer newSubject operator req =
     tx_bind lock_identity (\<lambda>_.
     tx_bind lock_identity (\<lambda>_.
     tx_bind (tx_map_error (\<lambda>e. if err_is e NoRows then Sentinel RebindDenied
                                else Wrap ''write external identity rebind and audit'' e)
               (RebindExternalIdentityAndAudit oldIssuer oldSubject newIssuer newSubject (At now) operator req))
       (\<lambda>r.
     tx_bind (tx_guard (rb_user_id r \<le> 0 \<or> rb_audit_id r \<le> 0 \<or> rb_revoked_sessions r < 0 \<or>
                        rb_discarded_attempts r < 0)
               (Fail ''external identity rebind returned an invalid result'')) (\<lambda>_.
     tx_return r))))"

definition RebindExternalIdentity ::
  "tx_env \<Rightarrow> gotime option \<Rightarrow> string \<Rightarrow> string \<Rightarrow> string \<Rightarrow> string \<Rightarrow> string \<Rightarrow> int option \<Rightarrow> rebind_result tx"
where
  "RebindExternalIdentity env clock oldIssuer oldSubject newIssuer newSubject operator req =
     (if \<not> te_context_given env then tx_fail (Fail ''external identity rebind context is required'')
      else if \<not> te_beginner_given env
      then tx_fail (Fail ''external identity rebind transaction beginner is required'')
      else case clock of None \<Rightarrow> tx_fail (Fail ''external identity rebind clock is required'') | Some reading \<Rightarrow>
      if \<not> validBootstrapText oldIssuer 2048 \<or> \<not> validBootstrapText newIssuer 2048 \<or>
         \<not> validBootstrapText oldSubject 512 \<or> \<not> validBootstrapText newSubject 512
      then tx_fail (Fail ''external identity rebind identity is invalid'')
      else if oldIssuer = newIssuer \<and> oldSubject = newSubject
      then tx_fail (Fail ''external identity rebind replacement is unchanged'')
      else if \<not> validBootstrapText operator 200
      then tx_fail (Fail ''external identity rebind operator identifier is invalid'')
      else if request_invalid req then tx_fail (Fail ''external identity rebind request ID is invalid'')
      else
        tx_bind (context_error ''rebind external identity'' env) (\<lambda>_.
        if reading = zero_time then tx_fail (Fail ''external identity rebind clock returned a zero time'')
        else tx_wrap ''rebind external identity''
          (within_tx env (RebindExternalIdentity_body (truncate_us reading) oldIssuer oldSubject newIssuer
             newSubject operator req))))"

end
