(* ===== verification/Accounts.thy ===== *)
theory Accounts
  imports Governance Reports
begin

text \<open>
  Administration of accounts and groups, \<open>internal/administration/account.go\<close>, over
  \<open>account_administration.sql.go\<close>: keyset pages of accounts and groups, and the audited changes of
  roles, groups and memberships. Every change locks the acting account and decides on the locked rows.

  Parameters of the environment: \<open>norm.NFC.IsNormalString\<close> and PostgreSQL's \<open>lower\<close>, on which the
  unique index of group names rests. A mutation runs under a timeout of its own; running out of it is
  a failure of the transaction like any other.
\<close>

record admin_env =
  ad_tx :: tx_env
  ad_is_nfc :: "string \<Rightarrow> bool"
  ad_lower :: "string \<Rightarrow> string"

definition administrationPageQueryLimit :: nat where "administrationPageQueryLimit = 51"
definition administrationPageSize :: nat where "administrationPageSize = 50"

subsection \<open>Validators\<close>

definition validAdministrationDisplayName :: "string \<Rightarrow> bool" where
  "validAdministrationDisplayName value =
     (valid_utf8 value \<and> value \<noteq> [] \<and> rune_count value \<le> 80 \<and> \<not> has_control value)"

definition validAdministrationGroupName :: "(string \<Rightarrow> bool) \<Rightarrow> string \<Rightarrow> bool" where
  "validAdministrationGroupName is_nfc value =
     (valid_utf8 value \<and> value \<noteq> [] \<and> rune_count value \<le> 80 \<and> is_trimmed value \<and> is_nfc value \<and>
      \<not> has_control value)"

definition validAdministrationReason :: "string \<Rightarrow> bool" where
  "validAdministrationReason value =
     (1 \<le> length value \<and> length value \<le> 2000 \<and> valid_utf8 value \<and> is_trimmed value \<and> \<not> has_control value)"

definition validAdministrationRole :: "role \<Rightarrow> bool" where
  "validAdministrationRole r = (r = RoleMember \<or> r = RoleModerator \<or> r = RoleAdministrator)"

definition administrationRole :: "string \<Rightarrow> role option" where
  "administrationRole value =
     (if value = ''member'' then Some RoleMember
      else if value = ''moderator'' then Some RoleModerator
      else if value = ''administrator'' then Some RoleAdministrator
      else None)"

definition administrationRoleName :: "role \<Rightarrow> string" where
  "administrationRoleName r =
     (if r = RoleMember then ''member''
      else if r = RoleModerator then ''moderator''
      else if r = RoleAdministrator then ''administrator''
      else [])"

definition finiteAdministrationTime :: "tstamp option \<Rightarrow> bool" where
  "finiteAdministrationTime v = (finite_ts v \<and> ts_time v \<noteq> zero_time)"

definition validAccountSyncState :: "string \<Rightarrow> bool" where
  "validAccountSyncState st =
     (st = ''unknown'' \<or> st = ''accepted'' \<or> st = ''removal_required'' \<or> st = ''grant_required'' \<or>
      st = ''suspended'')"

definition effectiveSuspended :: "user_row \<Rightarrow> gotime \<Rightarrow> bool" where
  "effectiveSuspended u t =
     (u_suspended_at u \<noteq> None \<and> \<not> ts_time (u_suspended_at u) > t \<and>
      (u_suspended_until u = None \<or> ts_time (u_suspended_until u) > t))"

definition validLockedAdministrationUser :: "user_row \<Rightarrow> int \<Rightarrow> bool" where
  "validLockedAdministrationUser u expected =
     (let created = Some (u_created_at u); updated = Some (u_updated_at u) in
      if u_id u \<noteq> expected \<or> u_id u \<le> 0 \<or> \<not> validAdministrationDisplayName (u_display_name u) \<or>
         u_administration_revision u \<le> 0 \<or> \<not> finiteAdministrationTime created \<or>
         \<not> finiteAdministrationTime updated \<or> ts_time updated < ts_time created
      then False
      else if administrationRole (u_role u) = None then False
      else if u_muted_until u \<noteq> None \<and>
              (\<not> finiteAdministrationTime (u_muted_until u) \<or> \<not> ts_time (u_muted_until u) > ts_time created)
      then False
      else if u_suspended_at u = None then u_suspended_until u = None
      else finiteAdministrationTime (u_suspended_at u) \<and> \<not> ts_time (u_suspended_at u) < ts_time created \<and>
           (u_suspended_until u = None \<or>
            finiteAdministrationTime (u_suspended_until u) \<and>
            ts_time (u_suspended_until u) > ts_time (u_suspended_at u)))"

definition validLockedAdministrator :: "user_row \<Rightarrow> access_context \<Rightarrow> gotime \<Rightarrow> bool" where
  "validLockedAdministrator u actor t =
     (if \<not> validLockedAdministrationUser u (ac_user_id actor) \<or> effectiveSuspended u t \<or>
         (u_muted_until u \<noteq> None \<and> ts_time (u_muted_until u) > t) \<or> u_role u \<noteq> ''administrator'' \<or>
         u_sync_state u \<noteq> ''accepted''
      then False else ac_role actor = RoleAdministrator)"

definition validLockedGroup :: "(string \<Rightarrow> bool) \<Rightarrow> group_row \<Rightarrow> int \<Rightarrow> bool" where
  "validLockedGroup is_nfc g expected =
     (g_id g = expected \<and> 0 < g_id g \<and> validAdministrationGroupName is_nfc (g_name g) \<and> 0 < g_created_by g \<and>
      finiteAdministrationTime (Some (g_created_at g)) \<and> finiteAdministrationTime (Some (g_updated_at g)) \<and>
      \<not> ts_time (Some (g_updated_at g)) < ts_time (Some (g_created_at g)) \<and> 0 < g_revision g)"

subsection \<open>The statements of the pages\<close>

text \<open>
  The acting administrator as the queries select it. A page query gives no row without the actor, one
  row whose presence flag is off when there is nothing to list, and else the rows in ascending order.
\<close>

definition sql_administrator :: "forum_db \<Rightarrow> int \<Rightarrow> tstamp \<Rightarrow> bool" where
  "sql_administrator db actor observed =
     list_ex (\<lambda>u. u_id u = actor \<and> active_administrator observed u \<and>
       (case u_muted_until u of None \<Rightarrow> True | Some m \<Rightarrow> m \<le> observed)) (db_users db)"

definition after_id :: "('r \<Rightarrow> int) \<Rightarrow> int \<Rightarrow> nat \<Rightarrow> 'r list \<Rightarrow> 'r list" where
  "after_id k after limit rows = take limit (sort_key k (filter (\<lambda>r. k r > after) rows))"

definition sql_suspended :: "tstamp \<Rightarrow> user_row \<Rightarrow> bool" where
  "sql_suspended observed u =
     (case u_suspended_at u of
        None \<Rightarrow> False
      | Some s \<Rightarrow> s \<le> observed \<and> (case u_suspended_until u of None \<Rightarrow> True | Some e \<Rightarrow> e > observed))"

record account_list_row =
  al_present :: bool
  al_id :: int
  al_display_name :: string
  al_role :: string
  al_suspended :: bool
  al_created_at :: "tstamp option"
  al_updated_at :: "tstamp option"
  al_revision :: int
  al_sync_state :: string

definition empty_account_list_row :: account_list_row where
  "empty_account_list_row =
     \<lparr>al_present = False, al_id = 0, al_display_name = [], al_role = [], al_suspended = False,
      al_created_at = None, al_updated_at = None, al_revision = 0, al_sync_state = []\<rparr>"

definition account_list_row_of :: "tstamp \<Rightarrow> user_row \<Rightarrow> account_list_row" where
  "account_list_row_of observed u =
     \<lparr>al_present = True, al_id = u_id u, al_display_name = u_display_name u, al_role = u_role u,
      al_suspended = sql_suspended observed u, al_created_at = Some (u_created_at u),
      al_updated_at = Some (u_updated_at u), al_revision = u_administration_revision u,
      al_sync_state = u_sync_state u\<rparr>"

definition ListAccountsForAdministration ::
  "tstamp \<Rightarrow> int \<Rightarrow> int \<Rightarrow> nat \<Rightarrow> account_list_row list tx" where
  "ListAccountsForAdministration observed actor after limit =
     select_all (\<lambda>db.
       if \<not> sql_administrator db actor observed then []
       else case after_id u_id after limit (db_users db) of
              [] \<Rightarrow> [empty_account_list_row]
            | us \<Rightarrow> map (account_list_row_of observed) us)"

definition LoadAccountForAdministration :: "tstamp \<Rightarrow> int \<Rightarrow> int \<Rightarrow> account_list_row tx" where
  "LoadAccountForAdministration observed actor target =
     select_one (\<lambda>db.
       if \<not> sql_administrator db actor observed then None
       else Some (case find_user db target of
                    None \<Rightarrow> empty_account_list_row
                  | Some u \<Rightarrow> account_list_row_of observed u))"

record group_list_row =
  gl_present :: bool
  gl_id :: int
  gl_name :: string
  gl_created_at :: "tstamp option"
  gl_updated_at :: "tstamp option"
  gl_revision :: int

definition ListGroupsForAdministration :: "tstamp \<Rightarrow> int \<Rightarrow> int \<Rightarrow> nat \<Rightarrow> group_list_row list tx" where
  "ListGroupsForAdministration observed actor after limit =
     select_all (\<lambda>db.
       if \<not> sql_administrator db actor observed then []
       else case after_id g_id after limit (db_groups db) of
              [] \<Rightarrow> [\<lparr>gl_present = False, gl_id = 0, gl_name = [], gl_created_at = None, gl_updated_at = None,
                     gl_revision = 0\<rparr>]
            | gs \<Rightarrow> map (\<lambda>g. \<lparr>gl_present = True, gl_id = g_id g, gl_name = g_name g,
                       gl_created_at = Some (g_created_at g), gl_updated_at = Some (g_updated_at g),
                       gl_revision = g_revision g\<rparr>) gs)"

record account_group_row =
  ag_account_present :: bool
  ag_group_present :: bool
  ag_id :: int
  ag_name :: string
  ag_member :: bool

definition ListAccountGroupsForAdministration ::
  "tstamp \<Rightarrow> int \<Rightarrow> int \<Rightarrow> int \<Rightarrow> nat \<Rightarrow> account_group_row list tx" where
  "ListAccountGroupsForAdministration observed actor target after limit =
     select_all (\<lambda>db.
       let empty = (\<lambda>present. \<lparr>ag_account_present = present, ag_group_present = False, ag_id = 0, ag_name = [],
                      ag_member = False\<rparr>)
       in if \<not> sql_administrator db actor observed then []
          else if find_user db target = None then [empty False]
          else case after_id g_id after limit (db_groups db) of
                 [] \<Rightarrow> [empty True]
               | gs \<Rightarrow> map (\<lambda>g. \<lparr>ag_account_present = True, ag_group_present = True, ag_id = g_id g,
                          ag_name = g_name g, ag_member = ((target, g_id g) \<in> set (db_members db))\<rparr>) gs)"

subsection \<open>The statements of the changes\<close>

definition LockAdministrationUser :: "int \<Rightarrow> user_row tx" where
  "LockAdministrationUser user = select_one (\<lambda>db. find_user db user)"

definition LockAdministrationGroup :: "int \<Rightarrow> group_row tx" where
  "LockAdministrationGroup gid = select_one (\<lambda>db. find_group db gid)"

definition AdministrationMembershipExists :: "int \<Rightarrow> int \<Rightarrow> bool tx" where
  "AdministrationMembershipExists user gid = select_all (\<lambda>db. (user, gid) \<in> set (db_members db))"

definition name_taken :: "(string \<Rightarrow> string) \<Rightarrow> string \<Rightarrow> (group_row \<Rightarrow> bool) \<Rightarrow> forum_db \<Rightarrow> bool" where
  "name_taken lower name others db = list_ex (\<lambda>g. others g \<and> lower (g_name g) = lower name) (db_groups db)"

definition CreateAdministrationGroupAndAudit ::
  "(string \<Rightarrow> string) \<Rightarrow> string \<Rightarrow> int \<Rightarrow> tstamp \<Rightarrow> string \<Rightarrow> int option \<Rightarrow> (group_row \<times> int) tx" where
  "CreateAdministrationGroupAndAudit lower name actor stamp reason req =
     statement (\<lambda>db.
       let (i, db1) = nextval GroupSeq db;
           g = \<lparr>g_id = i, g_name = name, g_created_by = actor, g_created_at = stamp, g_updated_at = stamp, g_revision = 1\<rparr>
       in if list_ex (\<lambda>x. g_id x = i) (db_groups db1) then (Inl (UniqueViolation ''forum_groups_pkey''), db1)
          else if name_taken lower name (\<lambda>x. True) db1
          then (Inl (UniqueViolation ''forum_groups_name_lower_unique''), db1)
          else if find_user db1 actor = None then (Inl (DbFault ''forum_groups_created_by_fkey''), db1)
          else
            let (j, db2) = insert_audit \<lparr>ai_actor = ActorUser actor, ai_target = TargetGroup i,
                  ai_action = ''create_group'', ai_reason = Some reason, ai_previous = EmptyState,
                  ai_resulting = GroupIs name 1, ai_request = req\<rparr> stamp db1
            in (Inr (g, j), db2\<lparr>db_groups := db_groups db2 @ [g]\<rparr>))"

definition RenameAdministrationGroupAndAudit ::
  "(string \<Rightarrow> string) \<Rightarrow> string \<Rightarrow> tstamp \<Rightarrow> int \<Rightarrow> int \<Rightarrow> int \<Rightarrow> string \<Rightarrow> string \<Rightarrow> int option \<Rightarrow> (group_row \<times> int) tx"
where
  "RenameAdministrationGroupAndAudit lower name stamp gid expected actor reason previous req =
     statement (\<lambda>db.
       let hit = (\<lambda>g. g_id g = gid \<and> g_revision g = expected \<and> g_revision g < max_int64);
           change = (\<lambda>g. g\<lparr>g_name := name, g_updated_at := max (g_updated_at g) stamp, g_revision := g_revision g + 1\<rparr>)
       in case find hit (db_groups db) of
            None \<Rightarrow> (Inl (Sentinel NoRows), db)
          | Some g \<Rightarrow>
              if name_taken lower name (\<lambda>x. g_id x \<noteq> gid) db
              then (Inl (UniqueViolation ''forum_groups_name_lower_unique''), db)
              else
                let (j, db1) = insert_audit \<lparr>ai_actor = ActorUser actor, ai_target = TargetGroup (g_id g),
                      ai_action = ''rename_group'', ai_reason = Some reason, ai_previous = GroupIs previous expected,
                      ai_resulting = GroupIs name (g_revision g + 1), ai_request = req\<rparr> (g_updated_at (change g)) db
                in (Inr (change g, j), db1\<lparr>db_groups := upd_where hit change (db_groups db1)\<rparr>))"

text \<open>
  A membership and the revision of its account change in one statement. When the revision is stale the
  statement has changed the membership and returns no row; the caller then rolls back.
\<close>

definition revise_member ::
  "int \<Rightarrow> tstamp \<Rightarrow> int \<Rightarrow> audit_input \<Rightarrow> forum_db \<Rightarrow> (go_error + (int \<times> int \<times> int)) \<times> forum_db" where
  "revise_member user stamp expected audit db =
     (let hit = (\<lambda>u. u_id u = user \<and> u_administration_revision u = expected \<and> u_administration_revision u < max_int64);
          change = (\<lambda>u. u\<lparr>u_administration_revision := u_administration_revision u + 1,
                         u_updated_at := max (u_updated_at u) stamp\<rparr>)
      in case find hit (db_users db) of
           None \<Rightarrow> (Inl (Sentinel NoRows), db)
         | Some u \<Rightarrow>
             let (j, db1) = insert_audit audit (u_updated_at (change u)) db
             in (Inr (user, u_administration_revision u + 1, j), db1\<lparr>db_users := upd_where hit change (db_users db1)\<rparr>))"

definition GrantAdministrationMembershipAndAudit ::
  "int \<Rightarrow> int \<Rightarrow> int \<Rightarrow> tstamp \<Rightarrow> int \<Rightarrow> string \<Rightarrow> int option \<Rightarrow> (int \<times> int \<times> int) tx" where
  "GrantAdministrationMembershipAndAudit gid user actor stamp expected reason req =
     statement (\<lambda>db.
       if find_group db gid = None \<or> find_user db user = None \<or> find_user db actor = None
       then (Inl (DbFault ''forum_group_members_fkey''), db)
       else if (user, gid) \<in> set (db_members db) then (Inl (Sentinel NoRows), db)
       else revise_member user stamp expected
              \<lparr>ai_actor = ActorUser actor, ai_target = TargetUser user, ai_action = ''grant_group_membership'',
               ai_reason = Some reason, ai_previous = MembershipIs gid False expected,
               ai_resulting = MembershipIs gid True (expected + 1), ai_request = req\<rparr>
              (db\<lparr>db_members := db_members db @ [(user, gid)]\<rparr>))"

definition RevokeAdministrationMembershipAndAudit ::
  "int \<Rightarrow> int \<Rightarrow> tstamp \<Rightarrow> int \<Rightarrow> int \<Rightarrow> string \<Rightarrow> int option \<Rightarrow> (int \<times> int \<times> int) tx" where
  "RevokeAdministrationMembershipAndAudit gid user stamp expected actor reason req =
     statement (\<lambda>db.
       if (user, gid) \<notin> set (db_members db) then (Inl (Sentinel NoRows), db)
       else revise_member user stamp expected
              \<lparr>ai_actor = ActorUser actor, ai_target = TargetUser user, ai_action = ''revoke_group_membership'',
               ai_reason = Some reason, ai_previous = MembershipIs gid True expected,
               ai_resulting = MembershipIs gid False (expected + 1), ai_request = req\<rparr>
              (db\<lparr>db_members := filter (\<lambda>m. m \<noteq> (user, gid)) (db_members db)\<rparr>))"

definition ChangeAdministrationRoleAndAudit ::
  "string \<Rightarrow> tstamp \<Rightarrow> int \<Rightarrow> string \<Rightarrow> int \<Rightarrow> int \<Rightarrow> string \<Rightarrow> int option \<Rightarrow> (user_row \<times> int \<times> int) tx" where
  "ChangeAdministrationRoleAndAudit role stamp user expectedRole expected actor reason req =
     statement (\<lambda>db.
       let hit = (\<lambda>u. u_id u = user \<and> u_role u = expectedRole \<and> u_administration_revision u = expected \<and>
                      u_administration_revision u < max_int64);
           change = (\<lambda>u. u\<lparr>u_role := role, u_updated_at := max (u_updated_at u) stamp,
                          u_administration_revision := u_administration_revision u + 1\<rparr>);
           own = (\<lambda>s. s_user_id s = user \<and> s_revoked_at s = None)
       in case find hit (db_users db) of
            None \<Rightarrow> (Inl (Sentinel NoRows), db)
          | Some u \<Rightarrow>
              let v = change u;
                  (j, db1) = insert_audit \<lparr>ai_actor = ActorUser actor, ai_target = TargetUser (u_id v),
                     ai_action = ''change_role'', ai_reason = Some reason,
                     ai_previous = RoleIs expectedRole (Some expected),
                     ai_resulting = RoleIs role (Some (u_administration_revision v)), ai_request = req\<rparr> (u_updated_at v) db
              in (Inr (v, j, int (length (filter own (db_sessions db)))),
                  db1\<lparr>db_users := upd_where hit change (db_users db1),
                      db_sessions := upd_where own (\<lambda>s. s\<lparr>s_revoked_at := Some (max (s_issued_at s) stamp)\<rparr>)
                        (db_sessions db1)\<rparr>))"

end
