(* ===== verification/AccountActions.thy ===== *)
theory AccountActions
  imports Accounts
begin

text \<open>
  The services of \<open>internal/administration/account.go\<close> over the statements of \<open>Accounts\<close>: the pages
  an administrator reads, and the changes of groups, memberships and roles.
\<close>

subsection \<open>Reading\<close>

definition validateAccountReadBoundary :: "tx_env \<Rightarrow> access_context \<Rightarrow> gotime \<Rightarrow> int \<Rightarrow> unit tx" where
  "validateAccountReadBoundary env actor observedAt afterID =
     (if \<not> te_context_given env \<or> \<not> te_beginner_given env
      then tx_fail (Fail ''account administration loader is incomplete'')
      else if \<not> CanAdminister actor then tx_fail (Sentinel AccountDenied)
      else if observedAt = zero_time \<or> afterID < 0 then tx_fail (Wrap ''read boundary'' (Sentinel AccountInput))
      else context_error ''load account administration'' env)"

definition malformedAdministrationRows :: "string \<Rightarrow> go_error" where
  "malformedAdministrationRows kind = Wrap (''malformed '' @ kind @ '' projection'') (Sentinel AccountUnavailable)"

record account_summary =
  sy_id :: int
  sy_display_name :: string
  sy_role :: role
  sy_suspended :: bool
  sy_created_at :: gotime
  sy_updated_at :: gotime
  sy_revision :: int
  sy_sync_state :: string

text \<open>The instant of a finite timestamp, as the summaries hold it; else the zero time.\<close>

definition summary_time :: "tstamp option \<Rightarrow> gotime" where
  "summary_time v = (if finiteAdministrationTime v then truncate_us (ts_time v) else zero_time)"

definition accountFromRow :: "account_list_row \<Rightarrow> account_summary option" where
  "accountFromRow row =
     (let account = \<lparr>sy_id = al_id row, sy_display_name = al_display_name row,
            sy_role = (case administrationRole (al_role row) of None \<Rightarrow> 0 | Some r \<Rightarrow> r),
            sy_suspended = al_suspended row, sy_created_at = summary_time (al_created_at row),
            sy_updated_at = summary_time (al_updated_at row), sy_revision = al_revision row, sy_sync_state = []\<rparr>
      in if 0 < al_id row \<and> validAdministrationDisplayName (al_display_name row) \<and>
            administrationRole (al_role row) \<noteq> None \<and> 0 < al_revision row \<and>
            finiteAdministrationTime (al_created_at row) \<and> finiteAdministrationTime (al_updated_at row) \<and>
            \<not> sy_updated_at account < sy_created_at account
         then Some account else None)"

definition loadedAccountFromRow :: "account_list_row \<Rightarrow> account_summary option" where
  "loadedAccountFromRow row =
     (case accountFromRow row of
        None \<Rightarrow> None
      | Some a \<Rightarrow> if validAccountSyncState (al_sync_state row)
                  then Some (a\<lparr>sy_sync_state := al_sync_state row\<rparr>) else None)"

definition emptyAccountRow :: "account_list_row \<Rightarrow> bool" where
  "emptyAccountRow row =
     (al_id row = 0 \<and> al_display_name row = [] \<and> al_role row = [] \<and> \<not> al_suspended row \<and>
      al_created_at row = None \<and> al_updated_at row = None \<and> al_revision row = 0)"

definition emptyLoadedAccountRow :: "account_list_row \<Rightarrow> bool" where
  "emptyLoadedAccountRow row = (emptyAccountRow row \<and> al_sync_state row = [])"

record group_summary =
  gs_id :: int
  gs_name :: string
  gs_created_at :: gotime
  gs_updated_at :: gotime
  gs_revision :: int

definition groupFromRow :: "(string \<Rightarrow> bool) \<Rightarrow> group_list_row \<Rightarrow> group_summary option" where
  "groupFromRow is_nfc row =
     (let g = \<lparr>gs_id = gl_id row, gs_name = gl_name row, gs_created_at = summary_time (gl_created_at row),
            gs_updated_at = summary_time (gl_updated_at row), gs_revision = gl_revision row\<rparr>
      in if 0 < gl_id row \<and> validAdministrationGroupName is_nfc (gl_name row) \<and> 0 < gl_revision row \<and>
            finiteAdministrationTime (gl_created_at row) \<and> finiteAdministrationTime (gl_updated_at row) \<and>
            \<not> gs_updated_at g < gs_created_at g
         then Some g else None)"

definition emptyGroupRow :: "group_list_row \<Rightarrow> bool" where
  "emptyGroupRow row =
     (gl_id row = 0 \<and> gl_name row = [] \<and> gl_created_at row = None \<and> gl_updated_at row = None \<and> gl_revision row = 0)"

text \<open>
  The loop over the rows of a page, which the three lists share: every row has to be valid and to have a
  larger identifier than the one before; the row after the page only sets the continuation.
\<close>

record 'a id_page =
  pg_items :: "(int \<times> 'a) list"
  pg_next_after :: int

fun page_rows :: "go_error \<Rightarrow> ('r \<Rightarrow> (int \<times> 'a) option) \<Rightarrow> nat \<Rightarrow> int \<Rightarrow> 'r list \<Rightarrow> 'a id_page \<Rightarrow> go_error + 'a id_page" where
  "page_rows malformed item i previous [] page = Inr page"
| "page_rows malformed item i previous (row # rows) page =
     (case item row of
        None \<Rightarrow> Inl malformed
      | Some (k, x) \<Rightarrow>
          if k \<le> previous then Inl malformed
          else if i = administrationPageSize
          then page_rows malformed item (i + 1) k rows (page\<lparr>pg_next_after := fst (last (pg_items page))\<rparr>)
          else page_rows malformed item (i + 1) k rows (page\<lparr>pg_items := pg_items page @ [(k, x)]\<rparr>))"

definition read_page ::
  "go_error \<Rightarrow> ('r \<Rightarrow> bool) \<Rightarrow> ('r \<Rightarrow> bool) \<Rightarrow> ('r \<Rightarrow> (int \<times> 'a) option) \<Rightarrow> int \<Rightarrow> 'r list \<Rightarrow> go_error + 'a id_page" where
  "read_page malformed present bare item after rows =
     (let none = \<lparr>pg_items = [], pg_next_after = 0\<rparr> in
      if rows = [] then Inl (Sentinel AccountDenied)
      else if length rows > administrationPageQueryLimit then Inl malformed
      else if list_ex (\<lambda>r. \<not> present r) rows
      then if length rows \<noteq> 1 \<or> \<not> bare (hd rows) then Inl malformed else Inr none
      else page_rows malformed item 0 after rows none)"

definition ListAccounts ::
  "tx_env \<Rightarrow> access_context \<Rightarrow> gotime \<Rightarrow> int \<Rightarrow> account_summary id_page tx" where
  "ListAccounts env actor observedAt afterUserID =
     tx_bind (validateAccountReadBoundary env actor observedAt afterUserID) (\<lambda>_.
     tx_bind (tx_map_error (\<lambda>e. Join (Sentinel AccountUnavailable) (Wrap ''list accounts'' e))
               (ListAccountsForAdministration (At (truncate_us observedAt)) (ac_user_id actor) afterUserID
                  administrationPageQueryLimit)) (\<lambda>rows.
     tx_lift (read_page (malformedAdministrationRows ''accounts'') al_present emptyAccountRow
       (\<lambda>r. map_option (\<lambda>a. (sy_id a, a)) (accountFromRow r)) afterUserID rows)))"

definition LoadAccount :: "tx_env \<Rightarrow> access_context \<Rightarrow> gotime \<Rightarrow> int \<Rightarrow> account_summary tx" where
  "LoadAccount env actor observedAt targetUserID =
     (if targetUserID \<le> 0 then tx_fail (Wrap ''target'' (Sentinel AccountInput))
      else
        tx_bind (validateAccountReadBoundary env actor observedAt 0) (\<lambda>_.
        tx_bind (tx_map_error (\<lambda>e. if err_is e NoRows then Sentinel AccountDenied
                                   else Join (Sentinel AccountUnavailable) (Wrap ''load account'' e))
                  (LoadAccountForAdministration (At (truncate_us observedAt)) (ac_user_id actor) targetUserID)) (\<lambda>row.
        if \<not> al_present row
        then if \<not> emptyLoadedAccountRow row then tx_fail (malformedAdministrationRows ''account'')
             else tx_fail (Sentinel AccountNotFound)
        else case loadedAccountFromRow row of
               None \<Rightarrow> tx_fail (malformedAdministrationRows ''account'')
             | Some a \<Rightarrow> if sy_id a \<noteq> targetUserID then tx_fail (malformedAdministrationRows ''account'')
                         else tx_return a)))"

definition ListGroups ::
  "admin_env \<Rightarrow> access_context \<Rightarrow> gotime \<Rightarrow> int \<Rightarrow> group_summary id_page tx" where
  "ListGroups ad actor observedAt afterGroupID =
     tx_bind (validateAccountReadBoundary (ad_tx ad) actor observedAt afterGroupID) (\<lambda>_.
     tx_bind (tx_map_error (\<lambda>e. Join (Sentinel AccountUnavailable) (Wrap ''list groups'' e))
               (ListGroupsForAdministration (At (truncate_us observedAt)) (ac_user_id actor) afterGroupID
                  administrationPageQueryLimit)) (\<lambda>rows.
     tx_lift (read_page (malformedAdministrationRows ''groups'') gl_present emptyGroupRow
       (\<lambda>r. map_option (\<lambda>g. (gs_id g, g)) (groupFromRow (ad_is_nfc ad) r)) afterGroupID rows)))"

text \<open>The groups of an account: identifier, name and whether the account is a member.\<close>

definition account_group_item :: "(string \<Rightarrow> bool) \<Rightarrow> account_group_row \<Rightarrow> (int \<times> string \<times> bool) option" where
  "account_group_item is_nfc r =
     (if validAdministrationGroupName is_nfc (ag_name r) then Some (ag_id r, ag_name r, ag_member r) else None)"

definition bare_account_group :: "account_group_row \<Rightarrow> bool" where
  "bare_account_group r \<longleftrightarrow> ag_id r = 0 \<and> ag_name r = [] \<and> \<not> ag_member r"

definition ListAccountGroups ::
  "admin_env \<Rightarrow> access_context \<Rightarrow> gotime \<Rightarrow> int \<Rightarrow> int \<Rightarrow> (string \<times> bool) id_page tx" where
  "ListAccountGroups ad actor observedAt targetUserID afterGroupID =
     (let malformed = malformedAdministrationRows ''account groups'' in
      if targetUserID \<le> 0 then tx_fail (Wrap ''target'' (Sentinel AccountInput))
      else
        tx_bind (validateAccountReadBoundary (ad_tx ad) actor observedAt afterGroupID) (\<lambda>_.
        tx_bind (tx_map_error (\<lambda>e. Join (Sentinel AccountUnavailable) (Wrap ''list account groups'' e))
                  (ListAccountGroupsForAdministration (At (truncate_us observedAt)) (ac_user_id actor) targetUserID
                     afterGroupID administrationPageQueryLimit)) (\<lambda>rows.
        if rows \<noteq> [] \<and> length rows \<le> administrationPageQueryLimit \<and> list_ex (\<lambda>r. \<not> ag_account_present r) rows
        then if length rows \<noteq> 1 \<or> ag_group_present (hd rows) \<or> \<not> bare_account_group (hd rows) then tx_fail malformed
             else tx_fail (Sentinel AccountNotFound)
        else tx_lift (read_page malformed ag_group_present bare_account_group
               (account_group_item (ad_is_nfc ad)) afterGroupID rows))))"

subsection \<open>Locking\<close>

definition validateAccountMutationBoundary ::
  "tx_env \<Rightarrow> gotime option \<Rightarrow> access_context \<Rightarrow> string \<Rightarrow> int option \<Rightarrow> unit tx" where
  "validateAccountMutationBoundary env clock actor reason req =
     (if \<not> te_context_given env \<or> \<not> te_beginner_given env \<or> clock = None
      then tx_fail (Fail ''account administration mutation boundary is incomplete'')
      else if \<not> CanAdminister actor then tx_fail (Sentinel AccountDenied)
      else if \<not> validAdministrationReason reason \<or> request_invalid req then tx_fail (Sentinel AccountInput)
      else context_error ''administer account'' env)"

definition accountMutationTime :: "gotime option \<Rightarrow> go_error + gotime" where
  "accountMutationTime clock =
     (case clock of
        None \<Rightarrow> Inl (Fail ''account administration mutation boundary is incomplete'')
      | Some reading \<Rightarrow>
          if reading = zero_time then Inl (Fail ''account administration clock returned a zero time'')
          else Inr (truncate_us reading))"

definition configureAccountTransaction :: "unit tx" where
  "configureAccountTransaction =
     tx_bind (tx_wrap ''configure account administration transaction'' ConfigureAdministrationTransaction) (\<lambda>configured.
     tx_guard (fst configured \<noteq> ''2s'' \<or> snd configured \<noteq> ''250ms'')
       (Fail ''account administration transaction configuration is invalid''))"

definition lockAccountActor :: "access_context \<Rightarrow> gotime \<Rightarrow> user_row tx" where
  "lockAccountActor actor now =
     tx_bind (tx_map_error (\<lambda>e. if err_is e NoRows then Sentinel AccountDenied
                                else Wrap ''lock account administrator'' e)
               (LockAdministrationUser (ac_user_id actor))) (\<lambda>locked.
     tx_bind (tx_guard (\<not> validLockedAdministrator locked actor now) (Sentinel AccountDenied)) (\<lambda>_.
     tx_return locked))"

text \<open>The two accounts, locked in the order of their identifiers; the actor first in the result.\<close>

definition missing_user :: "int \<Rightarrow> int \<Rightarrow> string \<Rightarrow> go_error \<Rightarrow> go_error" where
  "missing_user user actor msg e =
     (if err_is e NoRows then if user = actor then Sentinel AccountDenied else Sentinel AccountNotFound
      else Wrap msg e)"

definition lockAdministrationUsers :: "int \<Rightarrow> int \<Rightarrow> (user_row \<times> user_row) tx" where
  "lockAdministrationUsers actorID targetID =
     (let firstID = min actorID targetID; secondID = max actorID targetID in
      tx_bind (tx_map_error (missing_user firstID actorID ''lock first administration user'')
                (LockAdministrationUser firstID)) (\<lambda>first.
      if secondID = firstID then tx_return (first, first)
      else tx_bind (tx_map_error (missing_user secondID actorID ''lock second administration user'')
                     (LockAdministrationUser secondID)) (\<lambda>second.
           tx_return (if u_id first = actorID then (first, second) else (second, first)))))"

definition mapAccountWriteError :: "string \<Rightarrow> go_error \<Rightarrow> go_error" where
  "mapAccountWriteError operation e =
     (case unique_constraint e of
        None \<Rightarrow> Wrap operation e
      | Some c \<Rightarrow> Wrap operation (Sentinel AccountConflict))"

subsection \<open>Groups\<close>

record group_mutation_result =
  gm_group_id :: int
  gm_name :: string
  gm_revision :: int
  gm_audit_id :: int

definition CreateGroup_body ::
  "admin_env \<Rightarrow> gotime \<Rightarrow> access_context \<Rightarrow> string \<Rightarrow> string \<Rightarrow> int option \<Rightarrow> group_mutation_result tx" where
  "CreateGroup_body ad now actor name reason req =
     tx_bind configureAccountTransaction (\<lambda>_.
     tx_bind (lockAccountActor actor now) (\<lambda>_.
     tx_bind (tx_map_error (mapAccountWriteError ''create group'')
               (CreateAdministrationGroupAndAudit (ad_lower ad) name (ac_user_id actor) (At now) reason req))
       (\<lambda>(created, audit).
     tx_bind (tx_guard (g_id created \<le> 0 \<or> g_name created \<noteq> name \<or> g_revision created \<noteq> 1 \<or> audit \<le> 0)
               (Fail ''create group returned invalid state'')) (\<lambda>_.
     tx_return \<lparr>gm_group_id = g_id created, gm_name = g_name created, gm_revision = g_revision created,
                gm_audit_id = audit\<rparr>))))"

definition CreateGroup ::
  "admin_env \<Rightarrow> gotime option \<Rightarrow> access_context \<Rightarrow> string \<Rightarrow> string \<Rightarrow> int option \<Rightarrow> group_mutation_result tx" where
  "CreateGroup ad clock actor name reason req =
     tx_bind (validateAccountMutationBoundary (ad_tx ad) clock actor reason req) (\<lambda>_.
     tx_bind (tx_guard (\<not> validAdministrationGroupName (ad_is_nfc ad) name)
               (Wrap ''group name'' (Sentinel AccountInput))) (\<lambda>_.
     tx_bind (tx_lift (accountMutationTime clock)) (\<lambda>now.
     tx_wrap ''create group transaction''
       (within_tx (ad_tx ad) (CreateGroup_body ad now actor name reason req)))))"

definition RenameGroup_body ::
  "admin_env \<Rightarrow> gotime \<Rightarrow> access_context \<Rightarrow> int \<Rightarrow> string \<Rightarrow> string \<Rightarrow> int \<Rightarrow> int option \<Rightarrow> group_mutation_result tx"
where
  "RenameGroup_body ad now actor groupID name reason revision req =
     tx_bind configureAccountTransaction (\<lambda>_.
     tx_bind (lockAccountActor actor now) (\<lambda>_.
     tx_bind (tx_map_error (\<lambda>e. if err_is e NoRows then Sentinel AccountNotFound
                                else Wrap ''lock administration group'' e)
               (LockAdministrationGroup groupID)) (\<lambda>g.
     tx_bind (tx_guard (\<not> validLockedGroup (ad_is_nfc ad) g groupID)
               (Fail ''locked administration group is malformed'')) (\<lambda>_.
     tx_bind (tx_guard (g_revision g \<noteq> revision \<or> revision = max_int64 \<or> g_name g = name)
               (Sentinel AccountConflict)) (\<lambda>_.
     tx_bind (tx_map_error (\<lambda>e. if err_is e NoRows then Sentinel AccountConflict
                                else mapAccountWriteError ''rename group'' e)
               (RenameAdministrationGroupAndAudit (ad_lower ad) name (At now) groupID revision (ac_user_id actor)
                  reason (g_name g) req)) (\<lambda>(changed, audit).
     tx_bind (tx_guard (g_id changed \<noteq> groupID \<or> g_name changed \<noteq> name \<or> g_revision changed \<noteq> revision + 1 \<or>
                        audit \<le> 0) (Fail ''rename group returned invalid state'')) (\<lambda>_.
     tx_return \<lparr>gm_group_id = groupID, gm_name = name, gm_revision = g_revision changed, gm_audit_id = audit\<rparr>)))))))"

definition RenameGroup ::
  "admin_env \<Rightarrow> gotime option \<Rightarrow> access_context \<Rightarrow> int \<Rightarrow> string \<Rightarrow> string \<Rightarrow> int \<Rightarrow> int option \<Rightarrow> group_mutation_result tx"
where
  "RenameGroup ad clock actor groupID name reason revision req =
     tx_bind (tx_guard (groupID \<le> 0 \<or> revision \<le> 0 \<or> \<not> validAdministrationGroupName (ad_is_nfc ad) name)
               (Wrap ''group'' (Sentinel AccountInput))) (\<lambda>_.
     tx_bind (validateAccountMutationBoundary (ad_tx ad) clock actor reason req) (\<lambda>_.
     tx_bind (tx_lift (accountMutationTime clock)) (\<lambda>now.
     tx_wrap ''rename group transaction''
       (within_tx (ad_tx ad) (RenameGroup_body ad now actor groupID name reason revision req)))))"

subsection \<open>Memberships and roles\<close>

record account_mutation_result =
  am_user_id :: int
  am_role :: role
  am_revision :: int
  am_audit_id :: int
  am_revoked_sessions :: int

definition ChangeGroupMembership_body ::
  "admin_env \<Rightarrow> gotime \<Rightarrow> access_context \<Rightarrow> int \<Rightarrow> int \<Rightarrow> bool \<Rightarrow> string \<Rightarrow> int \<Rightarrow> int option \<Rightarrow>
   account_mutation_result tx"
where
  "ChangeGroupMembership_body ad now actor targetUserID groupID grant reason revision req =
     tx_bind configureAccountTransaction (\<lambda>_.
     tx_bind (lockAdministrationUsers (ac_user_id actor) targetUserID) (\<lambda>(lockedActor, lockedTarget).
     tx_bind (tx_guard (\<not> validLockedAdministrator lockedActor actor now) (Sentinel AccountDenied)) (\<lambda>_.
     tx_bind (tx_guard (\<not> validLockedAdministrationUser lockedTarget targetUserID)
               (Fail ''locked target account is malformed'')) (\<lambda>_.
     tx_bind (tx_guard (effectiveSuspended lockedTarget now) (Sentinel AccountConflict)) (\<lambda>_.
     tx_bind (tx_guard (u_administration_revision lockedTarget \<noteq> revision \<or> revision = max_int64)
               (Sentinel AccountConflict)) (\<lambda>_.
     tx_bind (tx_map_error (\<lambda>e. if err_is e NoRows then Sentinel AccountNotFound
                                else Wrap ''lock membership group'' e)
               (LockAdministrationGroup groupID)) (\<lambda>g.
     tx_bind (tx_guard (\<not> validLockedGroup (ad_is_nfc ad) g groupID)
               (Fail ''locked membership group is malformed'')) (\<lambda>_.
     tx_bind (tx_wrap ''load administration membership''
               (AdministrationMembershipExists targetUserID groupID)) (\<lambda>member.
     tx_bind (tx_guard (member = grant) (Sentinel AccountConflict)) (\<lambda>_.
     tx_bind (tx_map_error (\<lambda>e. if err_is e NoRows then Sentinel AccountConflict
                                else mapAccountWriteError ''change group membership'' e)
               (if grant
                then GrantAdministrationMembershipAndAudit groupID targetUserID (ac_user_id actor) (At now) revision
                       reason req
                else RevokeAdministrationMembershipAndAudit groupID targetUserID (At now) revision
                       (ac_user_id actor) reason req)) (\<lambda>(user, changed, audit).
     tx_bind (tx_guard (user \<noteq> targetUserID \<or> changed \<noteq> revision + 1 \<or> audit \<le> 0)
               (Fail ''membership change returned invalid state'')) (\<lambda>_.
     tx_return \<lparr>am_user_id = targetUserID,
                am_role = (case administrationRole (u_role lockedTarget) of None \<Rightarrow> 0 | Some r \<Rightarrow> r),
                am_revision = changed, am_audit_id = audit, am_revoked_sessions = 0\<rparr>))))))))))))"

definition ChangeGroupMembership ::
  "admin_env \<Rightarrow> gotime option \<Rightarrow> access_context \<Rightarrow> int \<Rightarrow> int \<Rightarrow> bool \<Rightarrow> string \<Rightarrow> int \<Rightarrow> int option \<Rightarrow>
   account_mutation_result tx"
where
  "ChangeGroupMembership ad clock actor targetUserID groupID grant reason revision req =
     tx_bind (tx_guard (targetUserID \<le> 0 \<or> groupID \<le> 0 \<or> revision \<le> 0)
               (Wrap ''membership'' (Sentinel AccountInput))) (\<lambda>_.
     tx_bind (validateAccountMutationBoundary (ad_tx ad) clock actor reason req) (\<lambda>_.
     tx_bind (tx_lift (accountMutationTime clock)) (\<lambda>now.
     tx_wrap ''group membership transaction''
       (within_tx (ad_tx ad)
         (ChangeGroupMembership_body ad now actor targetUserID groupID grant reason revision req)))))"

definition ChangeAccountRole_body ::
  "gotime \<Rightarrow> access_context \<Rightarrow> int \<Rightarrow> role \<Rightarrow> role \<Rightarrow> string \<Rightarrow> int \<Rightarrow> int option \<Rightarrow> account_mutation_result tx"
where
  "ChangeAccountRole_body now actor targetUserID role expectedRole reason revision req =
     tx_bind configureAccountTransaction (\<lambda>_.
     tx_bind (tx_wrap ''lock role governance state'' LockGovernanceState) (\<lambda>locked.
     tx_bind (tx_guard (\<not> locked) (Fail ''role governance singleton is missing'')) (\<lambda>_.
     tx_bind (lockAdministrationUsers (ac_user_id actor) targetUserID) (\<lambda>(lockedActor, lockedTarget).
     tx_bind (tx_guard (\<not> validLockedAdministrator lockedActor actor now) (Sentinel AccountDenied)) (\<lambda>_.
     tx_bind (tx_guard (\<not> validLockedAdministrationUser lockedTarget targetUserID)
               (Fail ''locked target account is malformed'')) (\<lambda>_.
     let persistedRole = administrationRole (u_role lockedTarget) in
     tx_bind (tx_guard (effectiveSuspended lockedTarget now \<or> persistedRole \<noteq> Some expectedRole \<or>
                        u_administration_revision lockedTarget \<noteq> revision \<or> revision = max_int64 \<or>
                        persistedRole = Some role) (Sentinel AccountConflict)) (\<lambda>_.
     tx_bind (if persistedRole = Some RoleAdministrator \<and> role \<noteq> RoleAdministrator
              then tx_bind (tx_wrap ''count active administrators for role change''
                             (CountActiveAdministrators (At now))) (\<lambda>n.
                   tx_guard (n \<le> 1) (Sentinel AccountContinuity))
              else tx_return ()) (\<lambda>_.
     tx_bind (tx_map_error (\<lambda>e. if err_is e NoRows then Sentinel AccountConflict
                                else mapAccountWriteError ''change account role'' e)
               (ChangeAdministrationRoleAndAudit (administrationRoleName role) (At now) targetUserID
                  (administrationRoleName expectedRole) revision (ac_user_id actor) reason req))
       (\<lambda>(changed, audit, revoked).
     tx_bind (tx_guard (u_id changed \<noteq> targetUserID \<or> u_role changed \<noteq> administrationRoleName role \<or>
                        u_administration_revision changed \<noteq> revision + 1 \<or> audit \<le> 0 \<or> revoked < 0)
               (Fail ''role change returned invalid state'')) (\<lambda>_.
     tx_return \<lparr>am_user_id = targetUserID, am_role = role, am_revision = u_administration_revision changed,
                am_audit_id = audit, am_revoked_sessions = revoked\<rparr>))))))))))"

definition ChangeAccountRole ::
  "tx_env \<Rightarrow> gotime option \<Rightarrow> access_context \<Rightarrow> int \<Rightarrow> role \<Rightarrow> role \<Rightarrow> string \<Rightarrow> int \<Rightarrow> int option \<Rightarrow>
   account_mutation_result tx"
where
  "ChangeAccountRole env clock actor targetUserID role expectedRole reason revision req =
     tx_bind (tx_guard (targetUserID \<le> 0 \<or> revision \<le> 0 \<or> \<not> validAdministrationRole role \<or>
                        \<not> validAdministrationRole expectedRole \<or> role = expectedRole)
               (Wrap ''role change'' (Sentinel AccountInput))) (\<lambda>_.
     tx_bind (validateAccountMutationBoundary env clock actor reason req) (\<lambda>_.
     tx_bind (tx_guard (targetUserID = ac_user_id actor) (Sentinel AccountDenied)) (\<lambda>_.
     tx_bind (tx_lift (accountMutationTime clock)) (\<lambda>now.
     tx_wrap ''account role transaction''
       (within_tx env (ChangeAccountRole_body now actor targetUserID role expectedRole reason revision req))))))"

end
