(* ===== verification/AdminSessions.thy ===== *)
theory AdminSessions
  imports AccountActions
begin

text \<open>
  Administration of sessions, \<open>internal/administration/session.go\<close>, over
  \<open>administration_sessions_email.sql.go\<close>: the list of the live sessions of an account, and the audited
  revocation of one or of all of them. A session is live under the stored idle bound.
\<close>

subsection \<open>The statements\<close>

definition session_listed :: "tstamp \<Rightarrow> tstamp \<Rightarrow> session_row \<Rightarrow> bool" where
  "session_listed observed cutoff s \<longleftrightarrow>
     s_revoked_at s = None \<and> s_issued_at s \<le> observed \<and> s_last_seen_at s \<le> observed \<and>
     s_validated_at s \<le> observed \<and> s_expires_at s > observed \<and> s_last_seen_at s > cutoff"

definition listed_sessions :: "forum_db \<Rightarrow> settings_row \<Rightarrow> gotime \<Rightarrow> int \<Rightarrow> session_row list" where
  "listed_sessions db st now user =
     filter (\<lambda>s. s_user_id s = user \<and>
         session_listed (At now) (At (now - st_session_idle_seconds st * ns_second)) s) (db_sessions db)"

record session_list_row =
  sl_actor_present :: bool
  sl_target_present :: bool
  sl_settings_present :: bool
  sl_target_user_id :: int
  sl_display_name :: string
  sl_target_revision :: int
  sl_session :: "session_row option"

definition ListSessionsForAdministration :: "int \<Rightarrow> gotime \<Rightarrow> int \<Rightarrow> nat \<Rightarrow> session_list_row list tx" where
  "ListSessionsForAdministration actor now target limit =
     select_all (\<lambda>db.
       let present = sql_administrator db actor (At now);
           row = (\<lambda>u st s. \<lparr>sl_actor_present = present, sl_target_present = (u \<noteq> None),
                    sl_settings_present = (st \<noteq> None),
                    sl_target_user_id = (case u of None \<Rightarrow> 0 | Some v \<Rightarrow> u_id v),
                    sl_display_name = (case u of None \<Rightarrow> [] | Some v \<Rightarrow> u_display_name v),
                    sl_target_revision = (case u of None \<Rightarrow> 0 | Some v \<Rightarrow> u_administration_revision v),
                    sl_session = s\<rparr>);
           user = (if present then find_user db target else None);
           settings = (case db_settings db of [st] \<Rightarrow> Some st | _ \<Rightarrow> None);
           candidates = (case (user, settings) of
               (Some u, Some st) \<Rightarrow> take limit (rev (sort_key s_id (listed_sessions db st now (u_id u))))
             | _ \<Rightarrow> [])
       in case candidates of [] \<Rightarrow> [row user settings None] | ss \<Rightarrow> map (\<lambda>s. row user settings (Some s)) ss)"

definition listed_now :: "forum_db \<Rightarrow> gotime \<Rightarrow> session_row \<Rightarrow> bool" where
  "listed_now db now s =
     (case db_settings db of
        [st] \<Rightarrow> session_listed (At now) (At (now - st_session_idle_seconds st * ns_second)) s
      | _ \<Rightarrow> False)"

lemma listed_now_unrevoked [simp]: "s_revoked_at s = Some t \<Longrightarrow> \<not> listed_now db now s"
  by (simp add: listed_now_def session_listed_def split: list.split)

text \<open>Revoking the sessions that are listed for an account and meet a condition.\<close>

definition revoke_listed ::
  "gotime \<Rightarrow> int \<Rightarrow> (session_row \<Rightarrow> bool) \<Rightarrow> (int \<Rightarrow> bool) \<Rightarrow> string \<Rightarrow> int \<Rightarrow> string \<Rightarrow> int option \<Rightarrow> (int \<times> int) tx"
where
  "revoke_listed now target chosen enough action actor reason req =
     statement (\<lambda>db.
       let hit = (\<lambda>s. s_user_id s = target \<and> chosen s \<and> listed_now db now s);
           revoked = int (length (filter hit (db_sessions db)));
           db1 = db\<lparr>db_sessions := upd_where hit (\<lambda>s. s\<lparr>s_revoked_at := Some (max (s_issued_at s) (At now))\<rparr>)
                     (db_sessions db)\<rparr>
       in if \<not> enough revoked then (Inl (Sentinel NoRows), db1)
          else
            let (j, db2) = insert_audit \<lparr>ai_actor = ActorUser actor, ai_target = TargetUser target, ai_action = action,
                  ai_reason = Some reason, ai_previous = SessionsRevoked 0, ai_resulting = SessionsRevoked revoked,
                  ai_request = req\<rparr> (At now) db1
            in (Inr (revoked, j), db2))"

definition RevokeAllSessionsForAdministrationAndAudit ::
  "gotime \<Rightarrow> int \<Rightarrow> int \<Rightarrow> string \<Rightarrow> int option \<Rightarrow> (int \<times> int) tx" where
  "RevokeAllSessionsForAdministrationAndAudit now target actor reason req =
     revoke_listed now target (\<lambda>s. True) (\<lambda>n. 0 < n) ''revoke_user_sessions'' actor reason req"

definition RevokeOneSessionForAdministrationAndAudit ::
  "gotime \<Rightarrow> int \<Rightarrow> int \<Rightarrow> int \<Rightarrow> string \<Rightarrow> int option \<Rightarrow> (int \<times> int) tx" where
  "RevokeOneSessionForAdministrationAndAudit now session target actor reason req =
     revoke_listed now target (\<lambda>s. s_id s = session) (\<lambda>n. n = 1) ''revoke_session'' actor reason req"

subsection \<open>The list\<close>

definition administrationSessionQueryLimit :: nat where "administrationSessionQueryLimit = 51"

record session_summary =
  ss_id :: int
  ss_issued_at :: gotime
  ss_last_seen_at :: gotime
  ss_validated_at :: gotime
  ss_expires_at :: gotime

record session_page =
  sp_display_name :: string
  sp_revision :: int
  sp_sessions :: "session_summary list"
  sp_more :: bool

definition session_summary_of :: "session_row \<Rightarrow> session_summary" where
  "session_summary_of s =
     \<lparr>ss_id = s_id s, ss_issued_at = summary_time (Some (s_issued_at s)),
      ss_last_seen_at = summary_time (Some (s_last_seen_at s)),
      ss_validated_at = summary_time (Some (s_validated_at s)), ss_expires_at = summary_time (Some (s_expires_at s))\<rparr>"

definition invalid_session_summary :: "gotime \<Rightarrow> int \<Rightarrow> session_summary \<Rightarrow> bool" where
  "invalid_session_summary now previous s \<longleftrightarrow>
     ss_id s \<le> 0 \<or> ss_id s \<ge> previous \<or> ss_issued_at s > now \<or> ss_last_seen_at s < ss_issued_at s \<or>
     ss_last_seen_at s > now \<or> ss_validated_at s < ss_issued_at s \<or> ss_validated_at s > now \<or>
     \<not> ss_expires_at s > now \<or> ss_last_seen_at s > ss_expires_at s \<or> ss_validated_at s > ss_expires_at s"

text \<open>The loop over the rows: the accumulated summaries, the index and the previous identifier.\<close>

fun session_rows ::
  "gotime \<Rightarrow> session_list_row \<Rightarrow> nat \<Rightarrow> nat \<Rightarrow> int \<Rightarrow> session_list_row list \<Rightarrow> session_summary list \<Rightarrow>
   session_summary list option"
where
  "session_rows now hd_row n i previous [] acc = Some acc"
| "session_rows now hd_row n i previous (row # rows) acc =
     (if \<not> sl_actor_present row \<or> \<not> sl_target_present row \<or> \<not> sl_settings_present row \<or>
         sl_target_user_id row \<noteq> sl_target_user_id hd_row \<or> sl_display_name row \<noteq> sl_display_name hd_row \<or>
         sl_target_revision row \<noteq> sl_target_revision hd_row
      then None
      else case sl_session row of
        None \<Rightarrow> if n \<noteq> 1 \<or> i \<noteq> 0 then None else Some acc
      | Some r \<Rightarrow>
          let s = session_summary_of r in
          if invalid_session_summary now previous s then None
          else session_rows now hd_row n (i + 1) (ss_id s) rows
                 (if i < administrationPageSize then acc @ [s] else acc))"

definition ListSessions :: "tx_env \<Rightarrow> access_context \<Rightarrow> gotime \<Rightarrow> int \<Rightarrow> session_page tx" where
  "ListSessions env actor observedAt targetUserID =
     (if \<not> te_context_given env \<or> \<not> te_beginner_given env
      then tx_fail (Fail ''session administration loader is incomplete'')
      else if \<not> CanAdminister actor then tx_fail (Sentinel AccountDenied)
      else if observedAt = zero_time \<or> targetUserID \<le> 0 then tx_fail (Sentinel AccountInput)
      else
        tx_bind (context_error ''load session administration'' env) (\<lambda>_.
        let now = truncate_us observedAt in
        tx_bind (tx_replace (Wrap ''list sessions'' (Sentinel AccountUnavailable))
                  (ListSessionsForAdministration (ac_user_id actor) now targetUserID administrationSessionQueryLimit)) (\<lambda>rows.
        if rows = [] \<or> length rows > administrationSessionQueryLimit
        then tx_fail (malformedAdministrationRows ''sessions'')
        else let first = hd rows in
        if \<not> sl_actor_present first then tx_fail (Sentinel AccountDenied)
        else if \<not> sl_settings_present first then tx_fail (malformedAdministrationRows ''session settings'')
        else if \<not> sl_target_present first
        then if length rows \<noteq> 1 \<or> sl_target_user_id first \<noteq> 0 \<or> sl_display_name first \<noteq> [] \<or>
                sl_target_revision first \<noteq> 0 \<or> sl_session first \<noteq> None
             then tx_fail (malformedAdministrationRows ''session target'')
             else tx_fail (Sentinel AccountNotFound)
        else if sl_target_user_id first \<noteq> targetUserID \<or>
                \<not> validAdministrationDisplayName (sl_display_name first) \<or> sl_target_revision first \<le> 0
        then tx_fail (malformedAdministrationRows ''session target'')
        else case session_rows now first (length rows) 0 max_int64 rows [] of
               None \<Rightarrow> tx_fail (malformedAdministrationRows ''sessions'')
             | Some ss \<Rightarrow> tx_return \<lparr>sp_display_name = sl_display_name first, sp_revision = sl_target_revision first,
                 sp_sessions = ss, sp_more = (length rows = administrationSessionQueryLimit)\<rparr>)))"

subsection \<open>Revocation\<close>

record session_mutation_result =
  sx_target_user_id :: int
  sx_session_id :: int
  sx_revoked :: int
  sx_audit_id :: int

definition revokeSessions_body ::
  "gotime \<Rightarrow> access_context \<Rightarrow> int \<Rightarrow> int \<Rightarrow> int \<Rightarrow> string \<Rightarrow> int option \<Rightarrow> session_mutation_result tx"
where
  "revokeSessions_body now actor targetUserID sessionID revision reason req =
     tx_bind configureAccountTransaction (\<lambda>_.
     tx_bind (lockAdministrationUsers (ac_user_id actor) targetUserID) (\<lambda>(lockedActor, lockedTarget).
     tx_bind (tx_guard (\<not> validLockedAdministrator lockedActor actor now) (Sentinel AccountDenied)) (\<lambda>_.
     tx_bind (tx_guard (\<not> validLockedAdministrationUser lockedTarget targetUserID)
               (Fail ''session target returned invalid state'')) (\<lambda>_.
     if sessionID = 0
     then
       tx_bind (tx_guard (u_administration_revision lockedTarget \<noteq> revision) (Sentinel AccountConflict)) (\<lambda>_.
       tx_bind (tx_map_error (\<lambda>e. if err_is e NoRows then Sentinel AccountConflict
                                  else mapAccountWriteError ''revoke all sessions'' e)
                 (RevokeAllSessionsForAdministrationAndAudit now targetUserID (ac_user_id actor) reason req))
         (\<lambda>(revoked, audit).
       tx_bind (tx_guard (revoked \<le> 0 \<or> audit \<le> 0) (Fail ''revoke all sessions returned invalid state'')) (\<lambda>_.
       tx_return \<lparr>sx_target_user_id = targetUserID, sx_session_id = sessionID, sx_revoked = revoked,
                  sx_audit_id = audit\<rparr>)))
     else
       tx_bind (tx_map_error (\<lambda>e. if err_is e NoRows then Sentinel AccountConflict
                                  else mapAccountWriteError ''revoke session'' e)
                 (RevokeOneSessionForAdministrationAndAudit now sessionID targetUserID (ac_user_id actor) reason req))
         (\<lambda>(revoked, audit).
       tx_bind (tx_guard (revoked \<noteq> 1 \<or> audit \<le> 0) (Fail ''revoke session returned invalid state'')) (\<lambda>_.
       tx_return \<lparr>sx_target_user_id = targetUserID, sx_session_id = sessionID, sx_revoked = revoked,
                  sx_audit_id = audit\<rparr>))))))"

definition revokeSessions ::
  "tx_env \<Rightarrow> gotime option \<Rightarrow> access_context \<Rightarrow> int \<Rightarrow> int \<Rightarrow> int \<Rightarrow> string \<Rightarrow> int option \<Rightarrow> session_mutation_result tx"
where
  "revokeSessions env clock actor targetUserID sessionID revision reason req =
     tx_bind (validateAccountMutationBoundary env clock actor reason req) (\<lambda>_.
     tx_bind (tx_lift (accountMutationTime clock)) (\<lambda>now.
     tx_wrap ''session administration transaction''
       (within_tx env (revokeSessions_body now actor targetUserID sessionID revision reason req))))"

definition RevokeOneSession ::
  "tx_env \<Rightarrow> gotime option \<Rightarrow> access_context \<Rightarrow> int \<Rightarrow> int \<Rightarrow> string \<Rightarrow> int option \<Rightarrow> session_mutation_result tx" where
  "RevokeOneSession env clock actor targetUserID sessionID reason req =
     tx_bind (tx_guard (targetUserID \<le> 0 \<or> sessionID \<le> 0) (Sentinel AccountInput)) (\<lambda>_.
     revokeSessions env clock actor targetUserID sessionID 0 reason req)"

definition RevokeAllSessions ::
  "tx_env \<Rightarrow> gotime option \<Rightarrow> access_context \<Rightarrow> int \<Rightarrow> int \<Rightarrow> string \<Rightarrow> int option \<Rightarrow> session_mutation_result tx" where
  "RevokeAllSessions env clock actor targetUserID revision reason req =
     tx_bind (tx_guard (targetUserID \<le> 0 \<or> revision \<le> 0) (Sentinel AccountInput)) (\<lambda>_.
     revokeSessions env clock actor targetUserID 0 revision reason req)"

end
