(* ===== verification/Control.thy ===== *)
theory Control
  imports AccountActions
begin

text \<open>
  The runtime settings of the board, \<open>internal/control\<close>: the settings row with its startup ceilings
  (\<open>settings.go\<close>) and its audited change by an administrator (\<open>mutation.go\<close>), over \<open>control.sql.go\<close>.
  SHA-256 is a parameter; conversions to \<open>int32\<close> wrap.
\<close>

definition to_int32 :: "int \<Rightarrow> int" where "to_int32 n = sint (word_of_int n :: 32 word)"

text \<open>\<open>hex.EncodeToString\<close>.\<close>

definition hex_digit :: "nat \<Rightarrow> char" where "hex_digit n = ''0123456789abcdef'' ! n"

definition hex_encode :: "bytes \<Rightarrow> string" where
  "hex_encode bs = concat (map (\<lambda>b. [hex_digit (unat b div 16), hex_digit (unat b mod 16)]) bs)"

definition digest :: "(bytes \<Rightarrow> bytes) \<Rightarrow> string \<Rightarrow> string" where
  "digest sha value = hex_encode (sha (string_bytes value))"

subsection \<open>The settings\<close>

definition RegistrationClosed :: string where "RegistrationClosed = ''closed''"
definition RegistrationVerifiedEmailOpen :: string where "RegistrationVerifiedEmailOpen = ''verified_email_open''"
definition RegistrationAdministratorApproval :: string where
  "RegistrationAdministratorApproval = ''administrator_approval''"
definition RegistrationInvitationOnly :: string where "RegistrationInvitationOnly = ''invitation_only''"

definition RegistrationModeValid :: "string \<Rightarrow> bool" where
  "RegistrationModeValid mode \<longleftrightarrow>
     mode = RegistrationClosed \<or> mode = RegistrationVerifiedEmailOpen \<or>
     mode = RegistrationAdministratorApproval \<or> mode = RegistrationInvitationOnly"

record control_settings =
  cs_registration :: string
  cs_maintenance_enabled :: bool
  cs_maintenance_message :: string
  cs_publication :: publication_policy
  cs_session_idle :: duration
  cs_auth_revalidate :: duration
  cs_revision :: int

definition validMessage :: "string \<Rightarrow> bool" where
  "validMessage value =
     (length value \<le> 1120 \<and> valid_utf8 value \<and> rune_count value \<le> 280 \<and> \<not> has_control value)"

definition validateRow :: "settings_row \<Rightarrow> control_ceilings \<Rightarrow> go_error + control_settings" where
  "validateRow row c =
     (let unavailable = (\<lambda>msg. Inl (Wrap msg (Sentinel ControlUnavailable))) in
      if \<not> RegistrationModeValid (st_registration_mode row) \<or> \<not> validMessage (st_maintenance_message row) \<or>
         st_administration_revision row \<le> 0 \<or> st_publish_rate_limit row \<le> 0 \<or>
         st_new_account_publish_rate_limit row \<le> 0 \<or> st_publish_window_seconds row \<le> 0 \<or>
         st_new_account_period_seconds row \<le> 0 \<or> st_session_idle_seconds row \<le> 0 \<or>
         st_auth_revalidate_seconds row \<le> 0
      then unavailable ''malformed value''
      else
        let publishLimit = word_of_int (st_publish_rate_limit row) :: u32;
            newAccountLimit = word_of_int (st_new_account_publish_rate_limit row) :: u32;
            publishWindow = st_publish_window_seconds row * ns_second;
            newAccountPeriod = st_new_account_period_seconds row * ns_second;
            sessionIdle = st_session_idle_seconds row * ns_second;
            authRevalidate = st_auth_revalidate_seconds row * ns_second
        in if publishLimit > cg_publish_limit c \<or> newAccountLimit > cg_new_account_limit c \<or>
              publishWindow > cg_publish_window c \<or> newAccountPeriod > cg_new_account_period c \<or>
              sessionIdle > cg_session_idle c \<or> authRevalidate > cg_auth_revalidate c \<or>
              sessionIdle > cg_session_maximum_age c \<or> authRevalidate > cg_session_maximum_age c
           then unavailable ''startup ceiling exceeded''
           else case NewPublicationPolicy publishLimit newAccountLimit publishWindow newAccountPeriod of
             Inl e \<Rightarrow> unavailable ''malformed publication policy''
           | Inr publication \<Rightarrow>
               Inr \<lparr>cs_registration = st_registration_mode row, cs_maintenance_enabled = st_maintenance_enabled row,
                    cs_maintenance_message = st_maintenance_message row, cs_publication = publication,
                    cs_session_idle = sessionIdle, cs_auth_revalidate = authRevalidate,
                    cs_revision = st_administration_revision row\<rparr>)"

definition LoadRuntimeControlSettings :: "settings_row tx" where
  "LoadRuntimeControlSettings = select_one (\<lambda>db. case db_settings db of [st] \<Rightarrow> Some st | _ \<Rightarrow> None)"

definition Load :: "auth_context \<Rightarrow> bool \<Rightarrow> control_ceilings \<Rightarrow> control_settings tx" where
  "Load cx querier c =
     (if \<not> cx_given cx \<or> \<not> querier \<or> \<not> ceilings_valid c
      then tx_fail (Wrap ''incomplete boundary'' (Sentinel ControlUnavailable))
      else
        tx_bind (auth_context_error ''load runtime control settings'' cx) (\<lambda>_.
        tx_bind (tx_map_error (\<lambda>e. case cx_late cx of
                    Some l \<Rightarrow> Wrap ''load runtime control settings'' l
                  | None \<Rightarrow> Wrap (if err_is e NoRows then ''singleton missing'' else ''database read failed'')
                              (Sentinel ControlUnavailable))
                  LoadRuntimeControlSettings) (\<lambda>row.
        tx_lift (validateRow row c))))"

text \<open>The row an administrator edits; without the singleton the columns are empty.\<close>

definition LoadEditableControlSettings :: "int \<Rightarrow> tstamp \<Rightarrow> settings_row option tx" where
  "LoadEditableControlSettings actor observed =
     select_one (\<lambda>db.
       if \<not> sql_administrator db actor observed then None
       else Some (case db_settings db of [] \<Rightarrow> None | st # _ \<Rightarrow> Some st))"

definition LoadEditable :: "tx_env \<Rightarrow> access_context \<Rightarrow> gotime \<Rightarrow> control_ceilings \<Rightarrow> control_settings tx" where
  "LoadEditable env actor observedAt c =
     (if \<not> te_context_given env \<or> \<not> te_beginner_given env \<or> \<not> ceilings_valid c
      then tx_fail (Wrap ''incomplete boundary'' (Sentinel ControlUnavailable))
      else if \<not> CanAdminister actor then tx_fail (Sentinel ControlDenied)
      else if observedAt = zero_time then tx_fail (Wrap ''invalid time'' (Sentinel ControlUnavailable))
      else
        tx_bind (context_error ''load editable control settings'' env) (\<lambda>_.
        tx_bind (tx_map_error (\<lambda>e. if err_is e NoRows then Sentinel ControlDenied
                                   else Wrap ''editable read failed'' (Sentinel ControlUnavailable))
                  (LoadEditableControlSettings (ac_user_id actor) (At (truncate_us observedAt)))) (\<lambda>row.
        case row of
          None \<Rightarrow> tx_fail (Wrap ''singleton missing'' (Sentinel ControlUnavailable))
        | Some st \<Rightarrow> tx_lift (validateRow st c))))"

subsection \<open>The change\<close>

record control_input =
  ci_registration :: string
  ci_maintenance_enabled :: bool
  ci_maintenance_message :: string
  ci_publish_limit :: u32
  ci_new_account_limit :: u32
  ci_publish_window :: duration
  ci_new_account_period :: duration
  ci_session_idle :: duration
  ci_auth_revalidate :: duration
  ci_revision :: int
  ci_reason :: string

definition validControlReason :: "string \<Rightarrow> bool" where
  "validControlReason value =
     (1 \<le> length value \<and> length value \<le> 2000 \<and> valid_utf8 value \<and> is_trimmed value \<and> \<not> has_control value)"

text \<open>The row an input stands for, with the stamp of its write.\<close>

definition input_row :: "control_input \<Rightarrow> tstamp \<Rightarrow> settings_row" where
  "input_row x stamp =
     \<lparr>st_registration_mode = ci_registration x, st_maintenance_enabled = ci_maintenance_enabled x,
      st_maintenance_message = ci_maintenance_message x,
      st_publish_rate_limit = to_int32 (uint (ci_publish_limit x)),
      st_new_account_publish_rate_limit = to_int32 (uint (ci_new_account_limit x)),
      st_publish_window_seconds = to_int32 (ci_publish_window x div ns_second),
      st_new_account_period_seconds = to_int32 (ci_new_account_period x div ns_second),
      st_session_idle_seconds = to_int32 (ci_session_idle x div ns_second),
      st_auth_revalidate_seconds = to_int32 (ci_auth_revalidate x div ns_second),
      st_administration_revision = ci_revision x, st_updated_at = stamp\<rparr>"

definition validateInput :: "control_input \<Rightarrow> control_ceilings \<Rightarrow> bool \<Rightarrow> go_error + control_settings" where
  "validateInput x c smtpConfigured =
     (if \<not> validControlReason (ci_reason x) \<or> ci_revision x \<le> 0 \<or>
         uint (ci_publish_limit x) > 2147483647 \<or> uint (ci_new_account_limit x) > 2147483647 \<or>
         ci_publish_window x < ns_second \<or> ci_publish_window x > cg_publish_window c \<or>
         ci_new_account_period x < ns_minute \<or> ci_new_account_period x > cg_new_account_period c \<or>
         ci_session_idle x < ns_second \<or> ci_session_idle x > cg_session_idle c \<or>
         ci_auth_revalidate x < ns_second \<or> ci_auth_revalidate x > cg_auth_revalidate c \<or>
         ci_publish_window x mod ns_second \<noteq> 0 \<or> ci_new_account_period x mod ns_second \<noteq> 0 \<or>
         ci_session_idle x mod ns_second \<noteq> 0 \<or> ci_auth_revalidate x mod ns_second \<noteq> 0
      then Inl (Sentinel ControlInput)
      else case validateRow (input_row x (At 0)) c of
        Inl e \<Rightarrow> Inl (Sentinel ControlInput)
      | Inr settings \<Rightarrow>
          if cs_registration settings \<noteq> RegistrationClosed \<and> \<not> smtpConfigured then Inl (Sentinel ControlInput)
          else Inr settings)"

definition sameSettings :: "control_settings \<Rightarrow> control_settings \<Rightarrow> bool" where
  "sameSettings l r \<longleftrightarrow>
     cs_registration l = cs_registration r \<and> cs_maintenance_enabled l = cs_maintenance_enabled r \<and>
     cs_maintenance_message l = cs_maintenance_message r \<and> cs_publication l = cs_publication r \<and>
     cs_session_idle l = cs_session_idle r \<and> cs_auth_revalidate l = cs_auth_revalidate r"

definition LockControlSettingsAdministrator :: "int \<Rightarrow> tstamp \<Rightarrow> int tx" where
  "LockControlSettingsAdministrator actor observed =
     select_one (\<lambda>db. if sql_administrator db actor observed then Some actor else None)"

definition LockRuntimeControlSettings :: "settings_row tx" where
  "LockRuntimeControlSettings = select_one (\<lambda>db. case db_settings db of [] \<Rightarrow> None | st # _ \<Rightarrow> Some st)"

definition LockRuntimeSMTPSettings :: "smtp_row tx" where
  "LockRuntimeSMTPSettings = select_one (\<lambda>db. case db_smtp db of [sm] \<Rightarrow> Some sm | _ \<Rightarrow> None)"

definition control_audit :: "(bytes \<Rightarrow> bytes) \<Rightarrow> settings_row \<Rightarrow> audit_state" where
  "control_audit sha st =
     ControlIs (st_registration_mode st) (st_maintenance_enabled st) (digest sha (st_maintenance_message st))
       (st_publish_rate_limit st) (st_new_account_publish_rate_limit st) (st_publish_window_seconds st)
       (st_new_account_period_seconds st) (st_session_idle_seconds st) (st_auth_revalidate_seconds st)"

definition UpdateControlSettingsAndAudit ::
  "(bytes \<Rightarrow> bytes) \<Rightarrow> settings_row \<Rightarrow> settings_row \<Rightarrow> int \<Rightarrow> int \<Rightarrow> string \<Rightarrow> tstamp \<Rightarrow> int option \<Rightarrow> (int \<times> int) tx"
where
  "UpdateControlSettingsAndAudit sha new previous expected actor reason observed req =
     statement (\<lambda>db.
       let hit = (\<lambda>st. st_administration_revision st = expected \<and> st_administration_revision st < max_int64) in
       case find hit (db_settings db) of
         None \<Rightarrow> (Inl (Sentinel NoRows), db)
       | Some st \<Rightarrow>
           let next_row = new\<lparr>st_administration_revision := st_administration_revision st + 1, st_updated_at := observed\<rparr>;
               (j, db1) = insert_audit \<lparr>ai_actor = ActorUser actor, ai_target = TargetSite,
                  ai_action = ''update_control_settings'', ai_reason = Some reason,
                  ai_previous = control_audit sha previous, ai_resulting = control_audit sha new,
                  ai_request = req\<rparr> observed db
           in (Inr (st_administration_revision st + 1, j),
               db1\<lparr>db_settings := upd_where hit (\<lambda>_. next_row) (db_settings db1)\<rparr>))"

text \<open>An open registration needs mail settings that were verified in their current revision.\<close>

definition require_mail :: "control_settings \<Rightarrow> unit tx" where
  "require_mail requested =
     (if cs_registration requested \<noteq> RegistrationClosed
      then tx_bind (tx_replace (Sentinel ControlInput) LockRuntimeSMTPSettings) (\<lambda>smtp.
           tx_guard (sm_host smtp = [] \<or> sm_verified_revision smtp \<noteq> Some (sm_administration_revision smtp))
             (Sentinel ControlInput))
      else tx_return ())"

definition Update_body ::
  "(bytes \<Rightarrow> bytes) \<Rightarrow> gotime \<Rightarrow> access_context \<Rightarrow> control_input \<Rightarrow> control_settings \<Rightarrow> control_ceilings \<Rightarrow>
   int option \<Rightarrow> (int \<times> int) tx"
where
  "Update_body sha now actor x requested c req =
     tx_bind (tx_wrap ''configure control settings transaction'' ConfigureAdministrationTransaction) (\<lambda>_.
     tx_bind (tx_map_error (\<lambda>e. if err_is e NoRows then Sentinel ControlDenied
                                else Wrap ''lock control settings administrator'' e)
               (LockControlSettingsAdministrator (ac_user_id actor) (At now))) (\<lambda>lockedActor.
     tx_bind (tx_guard (lockedActor \<noteq> ac_user_id actor)
               (Fail ''control settings administrator lock returned invalid state'')) (\<lambda>_.
     tx_bind (tx_replace (Wrap ''lock singleton'' (Sentinel ControlUnavailable)) LockRuntimeControlSettings) (\<lambda>current.
     tx_bind (tx_lift (validateRow current c)) (\<lambda>currentSettings.
     tx_bind (tx_guard (cs_revision currentSettings \<noteq> ci_revision x \<or> cs_revision currentSettings = max_int64)
               (Sentinel ControlConflict)) (\<lambda>_.
     tx_bind (tx_guard (sameSettings currentSettings requested) (Sentinel ControlConflict)) (\<lambda>_.
     tx_bind (require_mail requested) (\<lambda>_.
     tx_bind (tx_map_error (\<lambda>e. if err_is e NoRows then Sentinel ControlConflict
                                else Fail ''update control settings and audit failed'')
               (UpdateControlSettingsAndAudit sha (input_row x (At now)) current (ci_revision x) (ac_user_id actor)
                  (ci_reason x) (At now) req)) (\<lambda>(revision, audit).
     tx_bind (tx_guard (revision \<noteq> ci_revision x + 1 \<or> audit \<le> 0)
               (Fail ''control settings update returned invalid state'')) (\<lambda>_.
     tx_return (revision, audit)))))))))))"

definition Update ::
  "(bytes \<Rightarrow> bytes) \<Rightarrow> tx_env \<Rightarrow> gotime option \<Rightarrow> access_context \<Rightarrow> control_input \<Rightarrow> control_ceilings \<Rightarrow> int option \<Rightarrow>
   (int \<times> int) tx"
where
  "Update sha env clock actor x c req =
     (if \<not> te_context_given env \<or> \<not> te_beginner_given env \<or> clock = None \<or> \<not> ceilings_valid c
      then tx_fail (Fail ''runtime control settings mutation boundary is incomplete'')
      else if \<not> CanAdminister actor then tx_fail (Sentinel ControlDenied)
      else case (validateInput x c True, clock) of
        (Inr requested, Some reading) \<Rightarrow>
          if request_invalid req then tx_fail (Sentinel ControlInput)
          else
            tx_bind (context_error ''update runtime control settings'' env) (\<lambda>_.
            if reading = zero_time then tx_fail (Fail ''runtime control settings clock returned zero time'')
            else tx_wrap ''runtime control settings transaction''
              (within_tx env (Update_body sha (truncate_us reading) actor x requested c req)))
      | _ \<Rightarrow> tx_fail (Sentinel ControlInput))"

end
