(* ===== verification/ControlledPublish.thy ===== *)
theory ControlledPublish
  imports Publish Control
begin

text \<open>
  Publication as the server is wired, \<open>CreateTopicWithControl\<close> and \<open>CreateReplyWithControl\<close> of
  \<open>internal/forum/publish.go\<close>: the policy is read from the settings row inside the transaction that spends
  the publication window. A call succeeds exactly as the call with that policy does.
\<close>

definition control_policy :: "auth_context \<Rightarrow> control_ceilings \<Rightarrow> publication_policy tx" where
  "control_policy cx ceilings =
     tx_bind (Load cx True ceilings) (\<lambda>settings. tx_return (cs_publication settings))"

text \<open>The context \<open>cx\<close> is the request's, as it is when the policy is read.\<close>

definition CreateTopicWithControl ::
  "publish_env \<Rightarrow> auth_context \<Rightarrow> control_ceilings \<Rightarrow> access_context \<Rightarrow> string \<Rightarrow> string \<Rightarrow> string \<Rightarrow> publish_result tx"
where
  "CreateTopicWithControl env cx ceilings actor areaSlug title markdown =
     tx_bind (tx_guard (\<not> ceilings_valid ceilings) (Fail ''create topic control ceilings are invalid'')) (\<lambda>_.
     createTopic env (Some (control_policy cx ceilings)) actor areaSlug title markdown)"

definition CreateReplyWithControl ::
  "publish_env \<Rightarrow> auth_context \<Rightarrow> control_ceilings \<Rightarrow> access_context \<Rightarrow> int \<Rightarrow> int \<Rightarrow> string \<Rightarrow> publish_result tx"
where
  "CreateReplyWithControl env cx ceilings actor topicID parentPostID markdown =
     tx_bind (tx_guard (\<not> ceilings_valid ceilings) (Fail ''create reply control ceilings are invalid'')) (\<lambda>_.
     createReply env (Some (control_policy cx ceilings)) actor topicID parentPostID markdown)"

subsection \<open>The policy that is read\<close>

text \<open>The settings the tables hold, as far as the ceilings admit them.\<close>

definition stored_settings :: "control_ceilings \<Rightarrow> forum_db \<Rightarrow> control_settings \<Rightarrow> bool" where
  "stored_settings ceilings db settings \<longleftrightarrow>
     (\<exists>row. db_settings db = [row] \<and> validateRow row ceilings = Inr settings)"

lemma control_policy_Inr:
  "control_policy cx ceilings w = (Inr p, w') \<Longrightarrow>
   fault_free w \<and> w' = after_statement w (w_db w) \<and> (\<exists>settings. stored_settings ceilings (w_db w) settings \<and> p = cs_publication settings)"
  by (auto simp: control_policy_def Load_def LoadRuntimeControlSettings_def auth_context_error_def stored_settings_def
      tx_inverts split: if_splits option.splits list.splits)

text \<open>
  The statement that reads the policy comes right after the one that sets the transaction up and changes no table,
  so what follows runs as it does after the set-up alone.
\<close>

lemma load_policy_Inr:
  assumes "tx_bind (tx_wrap what ConfigurePublicationTransaction) (\<lambda>_. tx_bind (load_policy kind (control_policy cx ceilings)) f) w = (Inr x, w')"
  shows "\<exists>settings. stored_settings ceilings (w_db w) settings \<and>
    tx_bind (tx_wrap what ConfigurePublicationTransaction)
      (\<lambda>_. tx_bind (load_policy kind (tx_return (cs_publication settings))) f) (after_statement w (w_db w)) = (Inr x, w')"
proof -
  from assms obtain p w2 where w: "fault_free w" and load: "control_policy cx ceilings (after_statement w (w_db w)) = (Inr p, w2)"
    and valid: "PublicationPolicyValid p" and rest: "f p w2 = (Inr x, w')"
    by (auto simp: ConfigurePublicationTransaction_def load_policy_def tx_inverts)
  from control_policy_Inr [OF load] obtain settings where
    "fault_free (after_statement w (w_db w))" "w2 = after_statement (after_statement w (w_db w)) (w_db w)"
    "stored_settings ceilings (w_db w) settings" "p = cs_publication settings"
    by auto
  with valid rest show ?thesis
    by (auto simp: ConfigurePublicationTransaction_def load_policy_def tx_inverts)
qed

lemma CreateTopicWithControl_Inr:
  assumes "CreateTopicWithControl env cx ceilings actor slug title md w = (Inr res, w')"
  shows "\<exists>settings. stored_settings ceilings (w_db w) settings \<and>
    CreateTopic env (cs_publication settings) actor slug title md (after_statement w (w_db w)) = (Inr res, w')"
proof -
  from assms obtain rendered body where pre: "te_context_given (pe_tx env)" "te_beginner_given (pe_tx env)"
      "pe_destination_valid env" "Valid actor" "ac_authenticated actor" "validateTopicDraftFields slug title = Inr ()"
      "te_context_error (pe_tx env) = None" "renderPublishingDraft (pe_render env) md = Inr rendered"
      "rendered_body ''topic'' md rendered = Inr body"
    and env: "te_begin (pe_tx env) = BeginOk" "te_commit (pe_tx env) = CommitOk"
    and run: "createTopic_body (pe_nfc env) (control_policy cx ceilings) actor slug title body w = (Inr res, w')"
    by (auto simp: CreateTopicWithControl_def createTopic_def context_error_def tx_inverts within_tx_Inr)
  from load_policy_Inr [OF run [unfolded createTopic_body_def]] obtain settings where
    s: "stored_settings ceilings (w_db w) settings"
    and run': "createTopic_body (pe_nfc env) (tx_return (cs_publication settings)) actor slug title body
      (after_statement w (w_db w)) = (Inr res, w')"
    unfolding createTopic_body_def by blast
  from run' have "PublicationPolicyValid (cs_publication settings)"
    by (auto simp: createTopic_body_def load_policy_def tx_bind_Inr tx_guard_Inr tx_replace_Inr tx_return_Inr)
  with pre env run' s show ?thesis
    by (auto simp: CreateTopic_def createTopic_def context_error_def tx_inverts within_tx_Inr intro!: exI [of _ settings])
qed

lemma CreateReplyWithControl_Inr:
  assumes "CreateReplyWithControl env cx ceilings actor topicID parentPostID md w = (Inr res, w')"
  shows "\<exists>settings. stored_settings ceilings (w_db w) settings \<and>
    CreateReply env (cs_publication settings) actor topicID parentPostID md (after_statement w (w_db w)) = (Inr res, w')"
proof -
  from assms obtain rendered body where pre: "te_context_given (pe_tx env)" "te_beginner_given (pe_tx env)"
      "pe_destination_valid env" "Valid actor" "ac_authenticated actor" "topicID > 0" "parentPostID > 0"
      "te_context_error (pe_tx env) = None" "renderPublishingDraft (pe_render env) md = Inr rendered"
      "rendered_body ''reply'' md rendered = Inr body"
    and env: "te_begin (pe_tx env) = BeginOk" "te_commit (pe_tx env) = CommitOk"
    and run: "createReply_body (control_policy cx ceilings) actor topicID parentPostID body w = (Inr res, w')"
    by (auto simp: CreateReplyWithControl_def createReply_def context_error_def tx_inverts within_tx_Inr not_le)
  from load_policy_Inr [OF run [unfolded createReply_body_def]] obtain settings where
    s: "stored_settings ceilings (w_db w) settings"
    and run': "createReply_body (tx_return (cs_publication settings)) actor topicID parentPostID body
      (after_statement w (w_db w)) = (Inr res, w')"
    unfolding createReply_body_def by blast
  from run' have "PublicationPolicyValid (cs_publication settings)"
    by (auto simp: createReply_body_def load_policy_def tx_bind_Inr tx_guard_Inr tx_replace_Inr tx_return_Inr)
  with pre env run' s show ?thesis
    by (auto simp: CreateReply_def createReply_def context_error_def tx_inverts within_tx_Inr intro!: exI [of _ settings])
qed

end
