(* ===== verification/Areas.thy ===== *)
theory Areas
  imports Control "HOL-Library.Product_Lexorder"
begin

text \<open>
  Areas and their groups: the tables with the triggers of \<open>000002_groups_and_areas.sql\<close>, the statements of
  \<open>areas.sql.go\<close> and \<open>administration_completion.sql.go\<close>, and the validators of
  \<open>internal/administration/area.go\<close>. The \<open>CHECK\<close> constraints of the table repeat what the validators
  of every caller accept and are left to them. SHA-256 is a parameter.
\<close>

definition administrationAreaPageQueryLimit :: nat where "administrationAreaPageQueryLimit = 26"
definition administrationAreaPageSize :: nat where "administrationAreaPageSize = 25"
definition maximumAdministrationRevision :: int where "maximumAdministrationRevision = max_int64"

subsection \<open>Validators\<close>

definition validCanonicalText :: "string \<Rightarrow> int \<Rightarrow> bool \<Rightarrow> bool" where
  "validCanonicalText value maximumRunes allowEmpty =
     (if \<not> valid_utf8 value \<or> rune_count value > maximumRunes \<or> (\<not> allowEmpty \<and> value = []) \<or> \<not> is_trimmed value
      then False else \<not> has_control value)"

definition validDescription :: "string \<Rightarrow> bool" where
  "validDescription value =
     (valid_utf8 value \<and> rune_count value \<le> 4000 \<and> is_trimmed value \<and>
      \<not> list_ex (\<lambda>r. is_control r \<and> r \<noteq> Some 10 \<and> r \<noteq> Some 9) (runes value))"

definition validAreaReason :: "string \<Rightarrow> bool" where
  "validAreaReason value = validCanonicalText value 2000 False"

definition closed_visibility :: "string \<Rightarrow> bool" where
  "closed_visibility v \<longleftrightarrow> v = VisibilityPublic \<or> v = VisibilityAuthenticated \<or> v = VisibilityGroups"

definition closed_posting :: "string \<Rightarrow> bool" where
  "closed_posting m \<longleftrightarrow> m = PostingNormal \<or> m = PostingReadOnly \<or> m = PostingArchived"

text \<open>Strictly increasing positive identifiers.\<close>

fun increasing_ids :: "int \<Rightarrow> int list \<Rightarrow> bool" where
  "increasing_ids previous [] = True"
| "increasing_ids previous (i # is) = (\<not> i \<le> previous \<and> increasing_ids i is)"

record area_fields =
  af_slug :: string
  af_name :: string
  af_description :: string
  af_display_order :: int
  af_visibility :: string
  af_posting_mode :: string
  af_group_ids :: "int list"

definition validAuditedState :: "area_fields \<Rightarrow> bool" where
  "validAuditedState st =
     (if \<not> ValidAreaSlug (af_slug st) \<or> \<not> validCanonicalText (af_name st) 120 False \<or>
         \<not> validDescription (af_description st) \<or> af_display_order st < 0 \<or>
         \<not> closed_visibility (af_visibility st) \<or> \<not> closed_posting (af_posting_mode st)
      then False
      else if af_visibility st = VisibilityGroups \<and> af_group_ids st = [] \<or>
              af_visibility st \<noteq> VisibilityGroups \<and> af_group_ids st \<noteq> []
      then False
      else increasing_ids 0 (af_group_ids st))"

text \<open>Constraint violations of a write, which all mean a conflict here.\<close>

fun constraint_violated :: "go_error \<Rightarrow> bool" where
  "constraint_violated (UniqueViolation c) = True"
| "constraint_violated (ForeignKeyViolation c) = True"
| "constraint_violated (CheckViolation c) = True"
| "constraint_violated (Wrap m e) = constraint_violated e"
| "constraint_violated (Join d e) = (constraint_violated d \<or> constraint_violated e)"
| "constraint_violated _ = False"

definition mapAreaWriteError :: "string \<Rightarrow> go_error \<Rightarrow> go_error" where
  "mapAreaWriteError operation e =
     (if constraint_violated e then Wrap operation (Sentinel AreaConflict) else Wrap operation e)"

subsection \<open>The triggers\<close>

text \<open>A mapping needs an area with groups visibility; an area with mappings keeps it.\<close>

definition group_visible_area :: "forum_db \<Rightarrow> int \<Rightarrow> bool" where
  "group_visible_area db area \<longleftrightarrow> (case find_area db area of None \<Rightarrow> False | Some a \<Rightarrow> a_visibility a = VisibilityGroups)"

definition visibility_blocked :: "forum_db \<Rightarrow> area_row \<Rightarrow> string \<Rightarrow> bool" where
  "visibility_blocked db old new_visibility \<longleftrightarrow>
     new_visibility \<noteq> VisibilityGroups \<and> a_visibility old = VisibilityGroups \<and>
     list_ex (\<lambda>m. fst m = a_id old) (db_area_groups db)"

subsection \<open>Statements on areas\<close>

definition LockAreaForAdministration :: "int \<Rightarrow> (area_row \<times> int list) tx" where
  "LockAreaForAdministration area =
     select_one (\<lambda>db. map_option (\<lambda>a. (a, group_ids_of_area db area)) (find_area db area))"

definition LockAdministrationAreaCore :: "int \<Rightarrow> area_row tx" where
  "LockAdministrationAreaCore area = select_one (\<lambda>db. find_area db area)"

definition StreamAdministrationAreaGroupIDs :: "int \<Rightarrow> int list tx" where
  "StreamAdministrationAreaGroupIDs area = select_all (\<lambda>db. group_ids_of_area db area)"

definition CountExistingForumGroups :: "int list \<Rightarrow> int tx" where
  "CountExistingForumGroups ids = select_all (\<lambda>db. int (length (filter (\<lambda>g. g_id g \<in> set ids) (db_groups db))))"

definition new_area :: "int \<Rightarrow> area_fields \<Rightarrow> int \<Rightarrow> tstamp \<Rightarrow> area_row" where
  "new_area i core actor stamp =
     \<lparr>a_id = i, a_slug = af_slug core, a_name = af_name core, a_description = af_description core,
      a_display_order = af_display_order core, a_visibility = af_visibility core,
      a_posting_mode = af_posting_mode core, a_created_by = actor, a_updated_by = actor,
      a_created_at = stamp, a_updated_at = stamp, a_revision = 1\<rparr>"

definition CreateAreaForAdministration :: "area_fields \<Rightarrow> int \<Rightarrow> tstamp \<Rightarrow> area_row tx" where
  "CreateAreaForAdministration core actor stamp =
     statement (\<lambda>db.
       let (i, db1) = nextval AreaSeq db; a = new_area i core actor stamp in
       if list_ex (\<lambda>x. a_id x = i) (db_areas db1) then (Inl (UniqueViolation ''areas_pkey''), db1)
       else if list_ex (\<lambda>x. a_slug x = af_slug core) (db_areas db1)
       then (Inl (UniqueViolation ''areas_slug_unique''), db1)
       else if find_user db1 actor = None then (Inl (ForeignKeyViolation ''areas_created_by_fkey''), db1)
       else (Inr a, db1\<lparr>db_areas := db_areas db1 @ [a]\<rparr>))"

definition AddAreaGroupForAdministration :: "int \<Rightarrow> int \<Rightarrow> int \<Rightarrow> unit tx" where
  "AddAreaGroupForAdministration area gid actor =
     statement (\<lambda>db.
       if \<not> group_visible_area db area then (Inl (CheckViolation ''gotth_require_group_visible_area''), db)
       else if (area, gid) \<in> set (db_area_groups db) then (Inl (UniqueViolation ''area_groups_pkey''), db)
       else if find_group db gid = None \<or> find_user db actor = None
       then (Inl (ForeignKeyViolation ''area_groups_fkey''), db)
       else (Inr (), db\<lparr>db_area_groups := db_area_groups db @ [(area, gid)]\<rparr>))"

definition DeleteAreaGroupsForAdministration :: "int \<Rightarrow> unit tx" where
  "DeleteAreaGroupsForAdministration area =
     statement (\<lambda>db. (Inr (), db\<lparr>db_area_groups := filter (\<lambda>m. fst m \<noteq> area) (db_area_groups db)\<rparr>))"

definition area_core_change :: "area_fields \<Rightarrow> int \<Rightarrow> tstamp \<Rightarrow> area_row \<Rightarrow> area_row" where
  "area_core_change core actor stamp a =
     a\<lparr>a_name := af_name core, a_description := af_description core, a_display_order := af_display_order core,
       a_visibility := af_visibility core, a_posting_mode := af_posting_mode core, a_updated_by := actor,
       a_updated_at := max stamp (a_updated_at a)\<rparr>"

definition UpdateAreaForAdministration :: "area_fields \<Rightarrow> int \<Rightarrow> tstamp \<Rightarrow> int \<Rightarrow> area_row tx" where
  "UpdateAreaForAdministration core actor stamp area =
     statement (\<lambda>db.
       case find_area db area of
         None \<Rightarrow> (Inl (Sentinel NoRows), db)
       | Some a \<Rightarrow>
           if visibility_blocked db a (af_visibility core)
           then (Inl (CheckViolation ''gotth_reject_visibility_with_group_mappings''), db)
           else if find_user db actor = None then (Inl (ForeignKeyViolation ''areas_updated_by_fkey''), db)
           else (Inr (area_core_change core actor stamp a),
                 db\<lparr>db_areas := upd_where (\<lambda>x. a_id x = area) (area_core_change core actor stamp) (db_areas db)\<rparr>))"

definition area_audit ::
  "int \<Rightarrow> int \<Rightarrow> string \<Rightarrow> string \<Rightarrow> audit_state \<Rightarrow> audit_state \<Rightarrow> int option \<Rightarrow> audit_input" where
  "area_audit actor area action reason previous resulting req =
     \<lparr>ai_actor = ActorUser actor, ai_target = TargetArea area, ai_action = action, ai_reason = Some reason,
      ai_previous = previous, ai_resulting = resulting, ai_request = req\<rparr>"

definition CreateAreaAdministrationAudit ::
  "int \<Rightarrow> int \<Rightarrow> string \<Rightarrow> string \<Rightarrow> audit_state \<Rightarrow> audit_state \<Rightarrow> int option \<Rightarrow> tstamp \<Rightarrow> int tx" where
  "CreateAreaAdministrationAudit actor area action reason previous resulting req stamp =
     statement (\<lambda>db.
       let (j, db1) = insert_audit (area_audit actor area action reason previous resulting req) stamp db in (Inr j, db1))"

definition revise_area ::
  "int \<Rightarrow> int \<Rightarrow> (area_row \<Rightarrow> area_row) \<Rightarrow> (area_row \<Rightarrow> audit_input) \<Rightarrow> forum_db \<Rightarrow> (go_error + (area_row \<times> int)) \<times> forum_db"
where
  "revise_area area expected change audit db =
     (let hit = (\<lambda>a. a_id a = area \<and> a_revision a = expected \<and> a_revision a < max_int64);
          revised = (\<lambda>a. (change a)\<lparr>a_revision := a_revision a + 1\<rparr>)
      in case find hit (db_areas db) of
           None \<Rightarrow> (Inl (Sentinel NoRows), db)
         | Some a \<Rightarrow>
             let (j, db1) = insert_audit (audit (revised a)) (a_updated_at (revised a)) db
             in (Inr (revised a, j), db1\<lparr>db_areas := upd_where hit revised (db_areas db1)\<rparr>))"

definition UpdateAdministrationAreaAndAudit ::
  "area_fields \<Rightarrow> int \<Rightarrow> tstamp \<Rightarrow> int \<Rightarrow> int \<Rightarrow> string \<Rightarrow> audit_state \<Rightarrow> audit_state \<Rightarrow> int option \<Rightarrow> (area_row \<times> int) tx"
where
  "UpdateAdministrationAreaAndAudit core actor stamp area expected reason previous resulting req =
     statement (\<lambda>db.
       let hit = (\<lambda>a. a_id a = area \<and> a_revision a = expected \<and> a_revision a < max_int64) in
       case find hit (db_areas db) of
         None \<Rightarrow> (Inl (Sentinel NoRows), db)
       | Some a \<Rightarrow>
           if visibility_blocked db a (af_visibility core)
           then (Inl (CheckViolation ''gotth_reject_visibility_with_group_mappings''), db)
           else if find_user db actor = None then (Inl (ForeignKeyViolation ''areas_updated_by_fkey''), db)
           else revise_area area expected (area_core_change core actor stamp)
                  (\<lambda>v. area_audit actor (a_id v) ''update_area'' reason previous resulting req) db)"

definition AdministrationAreaGroupExists :: "int \<Rightarrow> int \<Rightarrow> bool tx" where
  "AdministrationAreaGroupExists area gid = select_all (\<lambda>db. (area, gid) \<in> set (db_area_groups db))"

definition touch_area :: "int \<Rightarrow> tstamp \<Rightarrow> area_row \<Rightarrow> area_row" where
  "touch_area actor stamp a = a\<lparr>a_updated_at := max (a_updated_at a) stamp, a_updated_by := actor\<rparr>"

text \<open>
  As with memberships, a stale revision leaves the mapping changed and returns no row; the caller rolls back.
\<close>

definition GrantAdministrationAreaGroupAndAudit ::
  "int \<Rightarrow> int \<Rightarrow> int \<Rightarrow> tstamp \<Rightarrow> int \<Rightarrow> string \<Rightarrow> int option \<Rightarrow> (area_row \<times> int) tx" where
  "GrantAdministrationAreaGroupAndAudit area gid actor stamp expected reason req =
     statement (\<lambda>db.
       if \<not> group_visible_area db area then (Inl (CheckViolation ''gotth_require_group_visible_area''), db)
       else if (area, gid) \<in> set (db_area_groups db) then (Inl (Sentinel NoRows), db)
       else if find_group db gid = None \<or> find_user db actor = None
       then (Inl (ForeignKeyViolation ''area_groups_fkey''), db)
       else revise_area area expected (touch_area actor stamp)
              (\<lambda>v. area_audit actor (a_id v) ''grant_area_group'' reason (AreaGroupIs gid False expected)
                     (AreaGroupIs gid True (a_revision v)) req)
              (db\<lparr>db_area_groups := db_area_groups db @ [(area, gid)]\<rparr>))"

definition RevokeAdministrationAreaGroupAndAudit ::
  "int \<Rightarrow> int \<Rightarrow> tstamp \<Rightarrow> int \<Rightarrow> int \<Rightarrow> string \<Rightarrow> int option \<Rightarrow> (area_row \<times> int) tx" where
  "RevokeAdministrationAreaGroupAndAudit area gid stamp actor expected reason req =
     statement (\<lambda>db.
       if (area, gid) \<notin> set (db_area_groups db) \<or> length (filter (\<lambda>m. fst m = area) (db_area_groups db)) \<le> 1
       then (Inl (Sentinel NoRows), db)
       else revise_area area expected (touch_area actor stamp)
              (\<lambda>v. area_audit actor (a_id v) ''revoke_area_group'' reason (AreaGroupIs gid True expected)
                     (AreaGroupIs gid False (a_revision v)) req)
              (db\<lparr>db_area_groups := filter (\<lambda>m. m \<noteq> (area, gid)) (db_area_groups db)\<rparr>))"

end
