(* ===== verification/AreaActions.thy ===== *)
theory AreaActions
  imports Areas
begin

text \<open>
  The services on areas: the first surface, \<open>internal/administration/area.go\<close>, which decides by the access
  context of the request and uses the time of the last write as its token, and the one that superseded it,
  \<open>internal/administration/completion.go\<close>, which locks the acting account and uses the revision.
\<close>

subsection \<open>The first surface\<close>

text \<open>The revision is an instant, with the flag whether its location is UTC.\<close>

record area_input =
  ar_fields :: area_fields
  ar_reason :: string
  ar_revision :: gotime
  ar_revision_utc :: bool

definition validateMutationBoundary ::
  "tx_env \<Rightarrow> gotime option \<Rightarrow> access_context \<Rightarrow> area_input \<Rightarrow> int option \<Rightarrow> bool \<Rightarrow> area_fields tx" where
  "validateMutationBoundary env clock actor x req requireSlug =
     (let st = ar_fields x; sorted_fields = st\<lparr>af_group_ids := sort (af_group_ids st)\<rparr> in
      if \<not> te_context_given env \<or> \<not> te_beginner_given env \<or> clock = None
      then tx_fail (Fail ''area administration mutation boundary is incomplete'')
      else if \<not> CanAdminister actor then tx_fail (Sentinel AreaDenied)
      else if \<not> ValidAreaSlug (af_slug st) \<or> \<not> validCanonicalText (af_name st) 120 False \<or>
              \<not> validDescription (af_description st) \<or> af_display_order st < 0 \<or> \<not> validAreaReason (ar_reason x)
      then tx_fail (Sentinel AreaInput)
      else if requireSlug \<and> ar_revision x \<noteq> zero_time \<or>
              \<not> requireSlug \<and> (ar_revision x = zero_time \<or> \<not> ar_revision_utc x \<or> ar_revision x \<noteq> truncate_us (ar_revision x))
      then tx_fail (Sentinel AreaInput)
      else if \<not> closed_visibility (af_visibility st) \<or> \<not> closed_posting (af_posting_mode st)
      then tx_fail (Sentinel AreaInput)
      else if \<not> increasing_ids 0 (af_group_ids sorted_fields) then tx_fail (Sentinel AreaInput)
      else if af_visibility st = VisibilityGroups \<and> af_group_ids st = [] \<or>
              af_visibility st \<noteq> VisibilityGroups \<and> af_group_ids st \<noteq> []
      then tx_fail (Sentinel AreaInput)
      else if request_invalid req then tx_fail (Fail ''area administration request ID is invalid'')
      else tx_bind (context_error ''administer area'' env) (\<lambda>_. tx_return sorted_fields))"

definition canonicalTime :: "gotime option \<Rightarrow> go_error + gotime" where
  "canonicalTime clock =
     (case clock of
        None \<Rightarrow> Inl (Fail ''area administration mutation boundary is incomplete'')
      | Some reading \<Rightarrow>
          if reading = zero_time then Inl (Fail ''area administration clock returned a zero time'')
          else Inr (truncate_us reading))"

definition validateGroupsExist :: "int list \<Rightarrow> unit tx" where
  "validateGroupsExist ids =
     (if ids = [] then tx_return ()
      else tx_bind (tx_wrap ''validate area groups'' (CountExistingForumGroups ids)) (\<lambda>n.
           tx_guard (n \<noteq> int (length ids)) (Wrap ''group'' (Sentinel AreaInput))))"

fun replaceAreaGroups :: "int \<Rightarrow> int \<Rightarrow> int list \<Rightarrow> unit tx" where
  "replaceAreaGroups area actor [] = tx_return ()"
| "replaceAreaGroups area actor (gid # ids) =
     tx_bind (tx_map_error (\<lambda>e. Wrap [] (mapAreaWriteError ''add area group'' e)) (AddAreaGroupForAdministration area gid actor)) (\<lambda>_.
     replaceAreaGroups area actor ids)"

definition fields_state :: "area_fields \<Rightarrow> audit_state" where
  "fields_state st =
     AreaFieldsAre (af_slug st) (af_name st) (af_description st) (af_display_order st) (af_visibility st)
       (af_posting_mode st) (af_group_ids st)"

definition insertAreaAudit ::
  "int \<Rightarrow> int \<Rightarrow> string \<Rightarrow> string \<Rightarrow> audit_state \<Rightarrow> area_fields \<Rightarrow> int option \<Rightarrow> tstamp \<Rightarrow> int tx" where
  "insertAreaAudit actor area action reason previous resulting req stamp =
     tx_bind (tx_wrap ''write area administration audit''
               (CreateAreaAdministrationAudit actor area action reason previous (fields_state resulting) req stamp)) (\<lambda>audit.
     tx_bind (tx_guard (audit \<le> 0) (Fail ''area administration audit returned an invalid identifier'')) (\<lambda>_.
     tx_return audit))"

record area_mutation_result =
  ae_area_id :: int
  ae_slug :: string
  ae_audit_id :: int

definition CreateArea_body ::
  "gotime \<Rightarrow> access_context \<Rightarrow> area_fields \<Rightarrow> string \<Rightarrow> int option \<Rightarrow> area_mutation_result tx" where
  "CreateArea_body now actor st reason req =
     tx_bind (validateGroupsExist (af_group_ids st)) (\<lambda>_.
     tx_bind (tx_map_error (mapAreaWriteError ''create area'')
               (CreateAreaForAdministration st (ac_user_id actor) (At now))) (\<lambda>created.
     tx_bind (replaceAreaGroups (a_id created) (ac_user_id actor) (af_group_ids st)) (\<lambda>_.
     tx_bind (insertAreaAudit (ac_user_id actor) (a_id created) ''create_area'' reason EmptyState st req (At now)) (\<lambda>audit.
     tx_return \<lparr>ae_area_id = a_id created, ae_slug = a_slug created, ae_audit_id = audit\<rparr>))))"

definition CreateArea ::
  "tx_env \<Rightarrow> gotime option \<Rightarrow> access_context \<Rightarrow> area_input \<Rightarrow> int option \<Rightarrow> area_mutation_result tx" where
  "CreateArea env clock actor x req =
     tx_bind (validateMutationBoundary env clock actor x req True) (\<lambda>st.
     tx_bind (tx_lift (canonicalTime clock)) (\<lambda>now.
     tx_wrap ''create area transaction'' (within_tx env (CreateArea_body now actor st (ar_reason x) req))))"

definition locked_fields :: "area_row \<Rightarrow> int list \<Rightarrow> area_fields" where
  "locked_fields a ids =
     \<lparr>af_slug = a_slug a, af_name = a_name a, af_description = a_description a, af_display_order = a_display_order a,
      af_visibility = a_visibility a, af_posting_mode = a_posting_mode a, af_group_ids = ids\<rparr>"

definition UpdateArea_body ::
  "gotime \<Rightarrow> access_context \<Rightarrow> int \<Rightarrow> area_fields \<Rightarrow> gotime \<Rightarrow> string \<Rightarrow> int option \<Rightarrow> area_mutation_result tx" where
  "UpdateArea_body now actor areaID st revision reason req =
     tx_bind (tx_wrap ''lock area for administration'' (LockAreaForAdministration areaID)) (\<lambda>(current, ids).
     let previous = locked_fields current ids in
     tx_bind (tx_guard (\<not> validAuditedState previous \<or> af_slug st \<noteq> a_slug current)
               (Wrap ''immutable slug'' (Sentinel AreaInput))) (\<lambda>_.
     tx_bind (tx_guard (\<not> finite_ts (Some (a_updated_at current)) \<or>
                        truncate_us (ts_time (Some (a_updated_at current))) \<noteq> revision) (Sentinel AreaConflict)) (\<lambda>_.
     tx_bind (validateGroupsExist (af_group_ids st)) (\<lambda>_.
     tx_bind (tx_guard (previous = st) (Sentinel AreaConflict)) (\<lambda>_.
     tx_bind (tx_wrap ''remove area groups'' (DeleteAreaGroupsForAdministration areaID)) (\<lambda>_.
     tx_bind (tx_map_error (mapAreaWriteError ''update area'')
               (UpdateAreaForAdministration st (ac_user_id actor) (At now) areaID)) (\<lambda>updated.
     tx_bind (replaceAreaGroups areaID (ac_user_id actor) (af_group_ids st)) (\<lambda>_.
     tx_bind (insertAreaAudit (ac_user_id actor) areaID ''update_area'' reason (fields_state previous) st req
               (a_updated_at updated)) (\<lambda>audit.
     tx_return \<lparr>ae_area_id = areaID, ae_slug = a_slug current, ae_audit_id = audit\<rparr>)))))))))"

definition UpdateArea ::
  "tx_env \<Rightarrow> gotime option \<Rightarrow> access_context \<Rightarrow> int \<Rightarrow> area_input \<Rightarrow> int option \<Rightarrow> area_mutation_result tx" where
  "UpdateArea env clock actor areaID x req =
     tx_bind (tx_guard (areaID \<le> 0) (Wrap ''target'' (Sentinel AreaInput))) (\<lambda>_.
     tx_bind (validateMutationBoundary env clock actor x req False) (\<lambda>st.
     tx_bind (tx_lift (canonicalTime clock)) (\<lambda>now.
     tx_wrap ''update area transaction''
       (within_tx env (UpdateArea_body now actor areaID st (ar_revision x) (ar_reason x) req)))))"

subsection \<open>The core of an area\<close>

record area_core_input =
  ax_fields :: area_fields
  ax_reason :: string
  ax_initial_group :: int
  ax_revision :: int

text \<open>The group identifiers of the fields play no part in these inputs.\<close>

definition validAreaCoreInput :: "area_core_input \<Rightarrow> bool \<Rightarrow> bool" where
  "validAreaCoreInput x create =
     (let st = ax_fields x in
      if (create \<and> \<not> ValidAreaSlug (af_slug st)) \<or> (\<not> create \<and> af_slug st \<noteq> []) \<or>
         \<not> validCanonicalText (af_name st) 120 False \<or> \<not> validDescription (af_description st) \<or>
         af_display_order st < 0 \<or> \<not> validAdministrationReason (ax_reason x)
      then False
      else if \<not> closed_visibility (af_visibility st) then False
      else if \<not> closed_posting (af_posting_mode st) then False
      else if af_visibility st = VisibilityGroups then ax_initial_group x > 0 \<or> \<not> create
      else ax_initial_group x = 0)"

definition mapCompletionBoundaryError :: "go_error \<Rightarrow> go_error" where
  "mapCompletionBoundaryError e =
     (if err_is e AccountDenied \<or> err_is e AreaDenied then Wrap ''boundary'' (Sentinel AdminDenied)
      else if err_is e AccountInput \<or> err_is e AreaInput then Wrap ''boundary'' (Sentinel AdminInput)
      else if err_is e AccountNotFound then Wrap ''boundary'' (Sentinel AdminNotFound)
      else if err_is e AccountConflict \<or> err_is e AreaConflict then Wrap ''boundary'' (Sentinel AdminConflict)
      else e)"

definition digest_ids :: "(bytes \<Rightarrow> bytes) \<Rightarrow> int list \<Rightarrow> string" where
  "digest_ids sha ids = hex_encode (sha (concat (map (\<lambda>i. be_bytes 8 (word_of_int i :: 64 word)) ids)))"

definition bounded_state ::
  "(bytes \<Rightarrow> bytes) \<Rightarrow> string \<Rightarrow> area_fields \<Rightarrow> int \<Rightarrow> int \<times> string \<Rightarrow> audit_state" where
  "bounded_state sha slug st revision groups =
     AreaDigestIs slug (af_name st) (digest sha (af_description st)) (af_display_order st) (af_visibility st)
       (af_posting_mode st) revision (fst groups) (snd groups)"

definition streamAreaGroupDigest :: "(bytes \<Rightarrow> bytes) \<Rightarrow> int \<Rightarrow> (int \<times> string) tx" where
  "streamAreaGroupDigest sha areaID =
     tx_bind (tx_wrap ''stream area group identifiers'' (StreamAdministrationAreaGroupIDs areaID)) (\<lambda>ids.
     tx_bind (tx_guard (\<not> increasing_ids 0 ids)
               (Fail ''stream area group identifiers returned invalid order'')) (\<lambda>_.
     tx_return (int (length ids), digest_ids sha ids)))"

definition lock_initial_group :: "(string \<Rightarrow> bool) \<Rightarrow> int \<Rightarrow> unit tx" where
  "lock_initial_group is_nfc gid =
     tx_bind (tx_map_error (\<lambda>e. if err_is e NoRows then Sentinel AdminNotFound else Wrap ''lock initial area group'' e)
               (LockAdministrationGroup gid)) (\<lambda>g.
     tx_guard (\<not> validLockedGroup is_nfc g gid) (Fail ''lock initial area group returned invalid state''))"

definition lock_area_core :: "string \<Rightarrow> int \<Rightarrow> area_row tx" where
  "lock_area_core msg areaID =
     tx_map_error (\<lambda>e. if err_is e NoRows then Sentinel AdminNotFound else Wrap msg e) (LockAdministrationAreaCore areaID)"

definition insertBoundedAreaAudit ::
  "int \<Rightarrow> int \<Rightarrow> string \<Rightarrow> string \<Rightarrow> audit_state \<Rightarrow> audit_state \<Rightarrow> int option \<Rightarrow> tstamp \<Rightarrow> int tx" where
  "insertBoundedAreaAudit actor area action reason previous resulting req stamp =
     tx_bind (tx_wrap ''write bounded area audit''
               (CreateAreaAdministrationAudit actor area action reason previous resulting req stamp)) (\<lambda>audit.
     tx_bind (tx_guard (audit \<le> 0) (Fail ''bounded area audit returned invalid identifier'')) (\<lambda>_.
     tx_return audit))"

record area_completion_result =
  ay_area_id :: int
  ay_slug :: string
  ay_revision :: int
  ay_audit_id :: int

definition CreateAreaCompletion_body ::
  "(bytes \<Rightarrow> bytes) \<Rightarrow> admin_env \<Rightarrow> gotime \<Rightarrow> access_context \<Rightarrow> area_core_input \<Rightarrow> int option \<Rightarrow> area_completion_result tx"
where
  "CreateAreaCompletion_body sha ad now actor x req =
     (let st = ax_fields x; ids = (if ax_initial_group x > 0 then [ax_initial_group x] else []) in
      tx_bind configureAccountTransaction (\<lambda>_.
      tx_bind (lockAccountActor actor now) (\<lambda>_.
      tx_bind (if ax_initial_group x > 0 then lock_initial_group (ad_is_nfc ad) (ax_initial_group x)
               else tx_return ()) (\<lambda>_.
      tx_bind (tx_map_error (mapAreaWriteError ''create area'')
                (CreateAreaForAdministration st (ac_user_id actor) (At now))) (\<lambda>created.
      tx_bind (replaceAreaGroups (a_id created) (ac_user_id actor) ids) (\<lambda>_.
      tx_bind (insertBoundedAreaAudit (ac_user_id actor) (a_id created) ''create_area'' (ax_reason x) EmptyState
                (bounded_state sha (af_slug st) st 1 (int (length ids), digest_ids sha ids)) req (At now)) (\<lambda>audit.
      tx_bind (tx_guard (a_id created \<le> 0 \<or> a_revision created \<noteq> 1 \<or> audit \<le> 0)
                (Fail ''create area returned invalid state'')) (\<lambda>_.
      tx_return \<lparr>ay_area_id = a_id created, ay_slug = a_slug created, ay_revision = 1, ay_audit_id = audit\<rparr>))))))))"

text \<open>Every mutation of the second surface maps the errors of the boundary and of the transaction.\<close>

definition completion_boundary :: "admin_env \<Rightarrow> gotime option \<Rightarrow> access_context \<Rightarrow> string \<Rightarrow> int option \<Rightarrow> gotime tx" where
  "completion_boundary ad clock actor reason req =
     tx_bind (tx_map_error mapCompletionBoundaryError
               (validateAccountMutationBoundary (ad_tx ad) clock actor reason req)) (\<lambda>_.
     tx_lift (accountMutationTime clock))"

definition completion_tx :: "admin_env \<Rightarrow> string \<Rightarrow> 'a tx \<Rightarrow> 'a tx" where
  "completion_tx ad msg body = tx_map_error (\<lambda>e. Wrap msg (mapCompletionBoundaryError e)) (within_tx (ad_tx ad) body)"

definition CreateAreaCompletion ::
  "(bytes \<Rightarrow> bytes) \<Rightarrow> admin_env \<Rightarrow> gotime option \<Rightarrow> access_context \<Rightarrow> area_core_input \<Rightarrow> int option \<Rightarrow>
   area_completion_result tx"
where
  "CreateAreaCompletion sha ad clock actor x req =
     tx_bind (tx_guard (ax_revision x \<noteq> 0 \<or> \<not> validAreaCoreInput x True) (Sentinel AdminInput)) (\<lambda>_.
     tx_bind (completion_boundary ad clock actor (ax_reason x) req) (\<lambda>now.
     completion_tx ad ''create area completion transaction'' (CreateAreaCompletion_body sha ad now actor x req)))"

text \<open>Two bounded states that differ in the revision at most.\<close>

fun equalBoundedAreaStatesIgnoringRevision :: "audit_state \<Rightarrow> audit_state \<Rightarrow> bool" where
  "equalBoundedAreaStatesIgnoringRevision (AreaDigestIs s n d o' v p _ c i) (AreaDigestIs s' n' d' o'' v' p' _ c' i') =
     (s = s' \<and> n = n' \<and> d = d' \<and> o' = o'' \<and> v = v' \<and> p = p' \<and> c = c' \<and> i = i')"
| "equalBoundedAreaStatesIgnoringRevision l r = (l = r)"

definition UpdateAreaCompletion_body ::
  "(bytes \<Rightarrow> bytes) \<Rightarrow> admin_env \<Rightarrow> gotime \<Rightarrow> access_context \<Rightarrow> int \<Rightarrow> area_core_input \<Rightarrow> int option \<Rightarrow>
   area_completion_result tx"
where
  "UpdateAreaCompletion_body sha ad now actor areaID x req =
     tx_bind configureAccountTransaction (\<lambda>_.
     tx_bind (lockAccountActor actor now) (\<lambda>_.
     tx_bind (lock_area_core ''lock area'' areaID) (\<lambda>current.
     let st = ax_fields x; was_groups = (a_visibility current = VisibilityGroups);
         to_groups = (af_visibility st = VisibilityGroups) in
     tx_bind (tx_guard (af_slug st \<noteq> [] \<or> a_revision current \<noteq> ax_revision x \<or>
                        ax_revision x = maximumAdministrationRevision)
               (Wrap ''stale or exhausted area core'' (Sentinel AdminConflict))) (\<lambda>_.
     tx_bind (tx_guard (was_groups \<and> to_groups \<and> ax_initial_group x \<noteq> 0) (Sentinel AdminInput)) (\<lambda>_.
     tx_bind (tx_guard (\<not> was_groups \<and> to_groups \<and> ax_initial_group x \<le> 0) (Sentinel AdminInput)) (\<lambda>_.
     tx_bind (streamAreaGroupDigest sha areaID) (\<lambda>before.
     tx_bind (if to_groups \<and> \<not> was_groups
              then tx_bind (lock_initial_group (ad_is_nfc ad) (ax_initial_group x)) (\<lambda>_.
                   tx_return ((1, digest_ids sha [ax_initial_group x]), True, False))
              else if \<not> to_groups then tx_return ((0, digest_ids sha []), False, fst before \<noteq> 0)
              else tx_return (before, False, False)) (\<lambda>(after, add_after, delete_before).
     let previous = bounded_state sha (a_slug current) (locked_fields current []) (a_revision current) before;
         resulting = bounded_state sha (a_slug current) st (ax_revision x + 1) after in
     tx_bind (tx_guard (equalBoundedAreaStatesIgnoringRevision previous resulting)
               (Wrap ''unchanged area core'' (Sentinel AdminConflict))) (\<lambda>_.
     tx_bind (if delete_before
              then tx_wrap ''replace area groups'' (DeleteAreaGroupsForAdministration areaID)
              else tx_return ()) (\<lambda>_.
     tx_bind (tx_map_error (\<lambda>e. if err_is e NoRows then Wrap ''conditional area update'' (Sentinel AdminConflict) else e)
               (UpdateAdministrationAreaAndAudit st (ac_user_id actor) (At now) areaID (ax_revision x) (ax_reason x)
                  previous resulting req)) (\<lambda>(changed, audit).
     tx_bind (if add_after then replaceAreaGroups areaID (ac_user_id actor) [ax_initial_group x] else tx_return ()) (\<lambda>_.
     tx_bind (tx_guard (a_id changed \<noteq> areaID \<or> a_slug changed \<noteq> a_slug current \<or>
                        a_revision changed \<noteq> ax_revision x + 1 \<or> audit \<le> 0)
               (Fail ''update area returned invalid state'')) (\<lambda>_.
     tx_return \<lparr>ay_area_id = areaID, ay_slug = a_slug changed, ay_revision = a_revision changed,
                ay_audit_id = audit\<rparr>)))))))))))))"

definition UpdateAreaCompletion ::
  "(bytes \<Rightarrow> bytes) \<Rightarrow> admin_env \<Rightarrow> gotime option \<Rightarrow> access_context \<Rightarrow> int \<Rightarrow> area_core_input \<Rightarrow> int option \<Rightarrow>
   area_completion_result tx"
where
  "UpdateAreaCompletion sha ad clock actor areaID x req =
     tx_bind (tx_guard (areaID \<le> 0 \<or> ax_revision x \<le> 0 \<or> \<not> validAreaCoreInput x False) (Sentinel AdminInput)) (\<lambda>_.
     tx_bind (completion_boundary ad clock actor (ax_reason x) req) (\<lambda>now.
     completion_tx ad ''update area completion transaction'' (UpdateAreaCompletion_body sha ad now actor areaID x req)))"

subsection \<open>The groups of an area\<close>

definition lock_area_group :: "(string \<Rightarrow> bool) \<Rightarrow> int \<Rightarrow> unit tx" where
  "lock_area_group is_nfc gid =
     tx_bind (tx_map_error (\<lambda>e. if err_is e NoRows then Sentinel AdminNotFound else Wrap ''lock area group'' e)
               (LockAdministrationGroup gid)) (\<lambda>g.
     tx_guard (\<not> validLockedGroup is_nfc g gid) (Fail ''lock area group returned invalid state''))"

definition ChangeAreaGroup_body ::
  "admin_env \<Rightarrow> gotime \<Rightarrow> access_context \<Rightarrow> int \<Rightarrow> int \<Rightarrow> bool \<Rightarrow> string \<Rightarrow> int \<Rightarrow> int option \<Rightarrow>
   area_completion_result tx"
where
  "ChangeAreaGroup_body ad now actor areaID groupID grant reason revision req =
     tx_bind configureAccountTransaction (\<lambda>_.
     tx_bind (lockAccountActor actor now) (\<lambda>_.
     tx_bind (tx_map_error (\<lambda>e. if err_is e NoRows then Sentinel AdminNotFound else e)
               (LockAdministrationAreaCore areaID)) (\<lambda>area.
     tx_bind (tx_guard (a_visibility area \<noteq> VisibilityGroups \<or> a_revision area \<noteq> revision \<or>
                        revision = maximumAdministrationRevision) (Sentinel AdminConflict)) (\<lambda>_.
     tx_bind (lock_area_group (ad_is_nfc ad) groupID) (\<lambda>_.
     tx_bind (AdministrationAreaGroupExists areaID groupID) (\<lambda>assigned.
     tx_bind (tx_guard (assigned = grant) (Sentinel AdminConflict)) (\<lambda>_.
     tx_bind (tx_map_error (\<lambda>e. if err_is e NoRows then Sentinel AdminConflict else e)
               (if grant
                then GrantAdministrationAreaGroupAndAudit areaID groupID (ac_user_id actor) (At now) revision reason req
                else RevokeAdministrationAreaGroupAndAudit areaID groupID (At now) (ac_user_id actor) revision reason req))
       (\<lambda>(changed, audit).
     tx_bind (tx_guard (a_id changed \<noteq> areaID \<or> a_revision changed \<noteq> revision + 1 \<or> audit \<le> 0)
               (Fail ''area group mutation returned invalid state'')) (\<lambda>_.
     tx_return \<lparr>ay_area_id = a_id changed, ay_slug = a_slug area, ay_revision = a_revision changed,
                ay_audit_id = audit\<rparr>)))))))))"

definition ChangeAreaGroup ::
  "admin_env \<Rightarrow> gotime option \<Rightarrow> access_context \<Rightarrow> int \<Rightarrow> int \<Rightarrow> bool \<Rightarrow> string \<Rightarrow> int \<Rightarrow> int option \<Rightarrow>
   area_completion_result tx"
where
  "ChangeAreaGroup ad clock actor areaID groupID grant reason revision req =
     tx_bind (tx_guard (areaID \<le> 0 \<or> groupID \<le> 0 \<or> revision \<le> 0) (Sentinel AdminInput)) (\<lambda>_.
     tx_bind (completion_boundary ad clock actor reason req) (\<lambda>now.
     completion_tx ad ''area group transaction''
       (ChangeAreaGroup_body ad now actor areaID groupID grant reason revision req)))"

end
