(* ===== verification/AreaReads.thy ===== *)
theory AreaReads
  imports AreaActions
begin

text \<open>
  What an administrator reads: the dashboard, the complete list of the first surface, the pages of areas and
  of the groups of an area (\<open>internal/administration/area.go\<close> and \<open>completion.go\<close>), with their queries.
\<close>

subsection \<open>The dashboard\<close>

record dashboard_row =
  dr_actor_present :: bool
  dr_at_time :: tstamp
  dr_users :: int
  dr_members :: int
  dr_moderators :: int
  dr_administrators :: int
  dr_suspended :: int
  dr_topics :: int
  dr_posts :: int
  dr_open :: int
  dr_in_review :: int

definition count_where :: "('r \<Rightarrow> bool) \<Rightarrow> 'r list \<Rightarrow> int" where
  "count_where P rows = int (length (filter P rows))"

definition dashboard_of :: "int \<Rightarrow> tstamp \<Rightarrow> forum_db \<Rightarrow> dashboard_row" where
  "dashboard_of actor observed db =
     (let present = sql_administrator db actor observed; counted = (\<lambda>n::int. if present then n else 0);
          role = (\<lambda>r. counted (count_where (\<lambda>u. u_role u = r) (db_users db))) in
      \<lparr>dr_actor_present = present, dr_at_time = observed,
       dr_users = counted (count_where (\<lambda>u. True) (db_users db)),
       dr_members = role ''member'', dr_moderators = role ''moderator'', dr_administrators = role ''administrator'',
       dr_suspended = counted (count_where (sql_suspended observed) (db_users db)),
       dr_topics = counted (count_where (\<lambda>t. t_deleted_at t = None) (db_topics db)),
       dr_posts = counted (count_where (\<lambda>p. p_deleted_at p = None \<and> p_redacted_at p = None) (db_posts db)),
       dr_open = counted (count_where (\<lambda>r. rp_status r = ''open'') (db_reports db)),
       dr_in_review = counted (count_where (\<lambda>r. rp_status r = ''in_review'') (db_reports db))\<rparr>)"

definition LoadAdministrationDashboard :: "int \<Rightarrow> dashboard_row tx" where
  "LoadAdministrationDashboard actor =
     tx_bind read_clock (\<lambda>now. select_all (\<lambda>db. dashboard_of actor (At now) db))"

record dashboard =
  da_observed_at :: gotime
  da_users :: int
  da_members :: int
  da_moderators :: int
  da_administrators :: int
  da_active :: int
  da_suspended :: int
  da_topics :: int
  da_posts :: int
  da_open :: int
  da_in_review :: int

definition malformed_dashboard :: "dashboard_row \<Rightarrow> bool" where
  "malformed_dashboard row \<longleftrightarrow>
     \<not> finiteAdministrationTime (Some (dr_at_time row)) \<or> dr_users row < 0 \<or> dr_members row < 0 \<or>
     dr_moderators row < 0 \<or> dr_administrators row < 1 \<or> dr_suspended row < 0 \<or> dr_topics row < 0 \<or>
     dr_posts row < 0 \<or> dr_open row < 0 \<or> dr_in_review row < 0 \<or>
     dr_members row + dr_moderators row + dr_administrators row \<noteq> dr_users row \<or> dr_suspended row > dr_users row"

definition LoadDashboard_body :: "access_context \<Rightarrow> dashboard tx" where
  "LoadDashboard_body actor =
     tx_bind configureAccountTransaction (\<lambda>_.
     tx_bind (tx_wrap ''load dashboard'' (LoadAdministrationDashboard (ac_user_id actor))) (\<lambda>row.
     tx_bind (tx_guard (\<not> dr_actor_present row) (Sentinel AdminDenied)) (\<lambda>_.
     tx_bind (tx_guard (malformed_dashboard row) (Wrap ''malformed dashboard'' (Sentinel AdminUnavailable))) (\<lambda>_.
     tx_return
       \<lparr>da_observed_at = truncate_us (ts_time (Some (dr_at_time row))), da_users = dr_users row,
        da_members = dr_members row, da_moderators = dr_moderators row, da_administrators = dr_administrators row,
        da_active = dr_users row - dr_suspended row, da_suspended = dr_suspended row, da_topics = dr_topics row,
        da_posts = dr_posts row, da_open = dr_open row, da_in_review = dr_in_review row\<rparr>))))"

definition LoadDashboard :: "tx_env \<Rightarrow> access_context \<Rightarrow> dashboard tx" where
  "LoadDashboard env actor =
     (if \<not> te_context_given env \<or> \<not> te_beginner_given env then tx_fail (Fail ''dashboard boundary is incomplete'')
      else if \<not> CanAdminister actor then tx_fail (Sentinel AdminDenied)
      else tx_wrap ''dashboard transaction'' (within_tx env (LoadDashboard_body actor)))"

subsection \<open>The complete list of the first surface\<close>

record managed_area =
  ma_id :: int
  ma_fields :: area_fields
  ma_updated_at :: gotime

definition ListAreasForAdministration :: "(area_row \<times> int list) list tx" where
  "ListAreasForAdministration =
     select_all (\<lambda>db. map (\<lambda>a. (a, group_ids_of_area db (a_id a)))
       (sort_key (\<lambda>a. (a_display_order a, a_id a)) (db_areas db)))"

text \<open>The order of \<open>lower(name)\<close> is the collation's: \<open>name_key\<close> is the key it sorts a name by.\<close>

definition ListForumGroupsForAreaAdministration :: "(string \<Rightarrow> string) \<Rightarrow> (int \<times> string) list tx" where
  "ListForumGroupsForAreaAdministration name_key =
     select_all (\<lambda>db. map (\<lambda>g. (g_id g, g_name g)) (sort_key (\<lambda>g. (name_key (g_name g), g_id g)) (db_groups db)))"

definition managed_area_of :: "area_row \<times> int list \<Rightarrow> managed_area" where
  "managed_area_of row =
     \<lparr>ma_id = a_id (fst row), ma_fields = locked_fields (fst row) (snd row),
      ma_updated_at = (if finite_ts (Some (a_updated_at (fst row)))
                       then truncate_us (ts_time (Some (a_updated_at (fst row)))) else zero_time)\<rparr>"

definition validManagedArea :: "managed_area \<Rightarrow> bool" where
  "validManagedArea x \<longleftrightarrow>
     ma_id x > 0 \<and> ma_updated_at x \<noteq> zero_time \<and> ma_updated_at x = truncate_us (ma_updated_at x) \<and>
     ValidAreaSlug (af_slug (ma_fields x)) \<and> validCanonicalText (af_name (ma_fields x)) 120 False \<and>
     validDescription (af_description (ma_fields x)) \<and> af_display_order (ma_fields x) \<ge> 0 \<and>
     validAuditedState (ma_fields x)"

definition LoadAreaManagement ::
  "(string \<Rightarrow> string) \<Rightarrow> tx_env \<Rightarrow> access_context \<Rightarrow> (managed_area list \<times> (int \<times> string) list) tx" where
  "LoadAreaManagement name_key env actor =
     (if \<not> te_context_given env \<or> \<not> te_beginner_given env then tx_fail (Fail ''area administration loader is incomplete'')
      else if \<not> CanAdminister actor then tx_fail (Sentinel AreaDenied)
      else
        tx_bind (context_error ''load area administration'' env) (\<lambda>_.
        tx_bind (tx_wrap ''list administered areas'' ListAreasForAdministration) (\<lambda>rows.
        tx_bind (tx_wrap ''list area groups'' (ListForumGroupsForAreaAdministration name_key)) (\<lambda>groups.
        tx_bind (tx_guard (list_ex (\<lambda>r. \<not> validManagedArea (managed_area_of r)) rows)
                  (Fail ''administered area row is invalid'')) (\<lambda>_.
        tx_bind (tx_guard (list_ex (\<lambda>g. fst g \<le> 0 \<or> \<not> validCanonicalText (snd g) 80 False) groups)
                  (Fail ''area group row is invalid'')) (\<lambda>_.
        tx_return (map managed_area_of rows, groups)))))))"

subsection \<open>The pages of areas\<close>

record area_summary =
  as_id :: int
  as_revision :: int
  as_group_count :: int
  as_slug :: string
  as_name :: string
  as_description :: string
  as_display_order :: int
  as_visibility :: string
  as_posting_mode :: string

definition areaSummary :: "forum_db \<Rightarrow> area_row \<Rightarrow> area_summary" where
  "areaSummary db a =
     \<lparr>as_id = a_id a, as_revision = a_revision a, as_group_count = int (length (group_ids_of_area db (a_id a))),
      as_slug = a_slug a, as_name = a_name a, as_description = a_description a,
      as_display_order = a_display_order a, as_visibility = a_visibility a, as_posting_mode = a_posting_mode a\<rparr>"

definition validAreaSummary :: "area_summary \<Rightarrow> bool" where
  "validAreaSummary a \<longleftrightarrow>
     as_id a > 0 \<and> as_revision a > 0 \<and> as_group_count a \<ge> 0 \<and> ValidAreaSlug (as_slug a) \<and>
     validCanonicalText (as_name a) 120 False \<and> validDescription (as_description a) \<and> as_display_order a \<ge> 0 \<and>
     closed_visibility (as_visibility a) \<and> closed_posting (as_posting_mode a) \<and>
     (as_visibility a = VisibilityGroups \<and> as_group_count a > 0 \<or>
      as_visibility a \<noteq> VisibilityGroups \<and> as_group_count a = 0)"

text \<open>A row of the page query is absent when the actor is present and there is nothing to list.\<close>

definition ListAreasForAdministrationPage :: "int \<Rightarrow> tstamp \<Rightarrow> int \<times> int \<Rightarrow> nat \<Rightarrow> area_summary option list tx" where
  "ListAreasForAdministrationPage actor observed after limit =
     select_all (\<lambda>db.
       let key = (\<lambda>a. (a_display_order a, a_id a)) in
       if \<not> sql_administrator db actor observed then []
       else case take limit (sort_key key (filter (\<lambda>a. key a > after) (db_areas db))) of
              [] \<Rightarrow> [None]
            | found \<Rightarrow> map (\<lambda>a. Some (areaSummary db a)) found)"

record area_page =
  ag_areas :: "area_summary list"
  ag_next_after :: "int \<times> int"

fun area_rows ::
  "nat \<Rightarrow> int \<times> int \<Rightarrow> area_summary option list \<Rightarrow> area_page \<Rightarrow> nat \<Rightarrow> go_error + area_page" where
  "area_rows i previous [] page n = Inr page"
| "area_rows i previous (None # rows) page n =
     (if n \<noteq> 1 then Inl (Wrap ''malformed area page'' (Sentinel AdminUnavailable)) else Inr page)"
| "area_rows i previous (Some a # rows) page n =
     (let key = (as_display_order a, as_id a) in
      if \<not> validAreaSummary a \<or> key \<le> previous
      then Inl (Wrap ''malformed area page'' (Sentinel AdminUnavailable))
      else if i = administrationAreaPageSize
      then let l = last (ag_areas page) in
           area_rows (i + 1) key rows (page\<lparr>ag_next_after := (as_display_order l, as_id l)\<rparr>) n
      else area_rows (i + 1) key rows (page\<lparr>ag_areas := ag_areas page @ [a]\<rparr>) n)"

definition completion_read_boundary :: "tx_env \<Rightarrow> access_context \<Rightarrow> gotime \<Rightarrow> bool \<Rightarrow> unit tx" where
  "completion_read_boundary env actor observedAt bad_input =
     (if \<not> te_context_given env \<or> \<not> te_beginner_given env \<or> \<not> CanAdminister actor
      then tx_fail (Sentinel AdminDenied)
      else tx_guard (observedAt = zero_time \<or> \<not> finiteAdministrationTime (Some (At (truncate_us observedAt))) \<or> bad_input)
             (Sentinel AdminInput))"

definition ListAreaPage :: "tx_env \<Rightarrow> access_context \<Rightarrow> gotime \<Rightarrow> int \<Rightarrow> int \<Rightarrow> area_page tx" where
  "ListAreaPage env actor observedAt afterOrder afterAreaID =
     tx_bind (completion_read_boundary env actor observedAt
               (afterOrder < 0 \<or> afterAreaID < 0 \<or> (afterAreaID = 0 \<and> afterOrder \<noteq> 0))) (\<lambda>_.
     tx_bind (tx_map_error (\<lambda>e. Join (Sentinel AdminUnavailable) (Wrap ''list areas'' e))
               (ListAreasForAdministrationPage (ac_user_id actor) (At (truncate_us observedAt)) (afterOrder, afterAreaID)
                  administrationAreaPageQueryLimit)) (\<lambda>rows.
     if rows = [] then tx_fail (Sentinel AdminDenied)
     else if length rows > administrationAreaPageQueryLimit
     then tx_fail (Wrap ''oversized area page'' (Sentinel AdminUnavailable))
     else tx_lift (area_rows 0 (afterOrder, afterAreaID) rows \<lparr>ag_areas = [], ag_next_after = (0, 0)\<rparr> (length rows))))"

subsection \<open>An area with a page of groups\<close>

text \<open>The actor's presence, and the area when it is there.\<close>

definition LoadAreaForAdministrationPage :: "int \<Rightarrow> tstamp \<Rightarrow> int \<Rightarrow> (bool \<times> area_summary option) tx" where
  "LoadAreaForAdministrationPage actor observed area =
     select_all (\<lambda>db.
       if \<not> sql_administrator db actor observed then (False, None)
       else (True, map_option (areaSummary db) (find_area db area)))"

record area_group_row =
  gr_actor_present :: bool
  gr_area_present :: bool
  gr_group_present :: bool
  gr_id :: int
  gr_name :: string
  gr_assigned :: bool

definition ListAreaGroupsForAdministrationPage ::
  "int \<Rightarrow> tstamp \<Rightarrow> int \<Rightarrow> int \<Rightarrow> nat \<Rightarrow> area_group_row list tx" where
  "ListAreaGroupsForAdministrationPage actor observed area after limit =
     select_all (\<lambda>db.
       let present = sql_administrator db actor observed; there = present \<and> find_area db area \<noteq> None;
           bare = \<lparr>gr_actor_present = present, gr_area_present = there, gr_group_present = False, gr_id = 0,
                   gr_name = [], gr_assigned = False\<rparr>
       in if \<not> there then [bare]
          else case after_id g_id after limit (db_groups db) of
                 [] \<Rightarrow> [bare]
               | gs \<Rightarrow> map (\<lambda>g. bare\<lparr>gr_group_present := True, gr_id := g_id g, gr_name := g_name g,
                          gr_assigned := ((area, g_id g) \<in> set (db_area_groups db))\<rparr>) gs)"

record area_detail =
  dt_area :: area_summary
  dt_groups :: "(int \<times> string \<times> bool) list"
  dt_next_after :: int

fun area_group_rows ::
  "(string \<Rightarrow> bool) \<Rightarrow> nat \<Rightarrow> int \<Rightarrow> area_group_row list \<Rightarrow> area_detail \<Rightarrow> nat \<Rightarrow> go_error + area_detail" where
  "area_group_rows is_nfc i previous [] detail n = Inr detail"
| "area_group_rows is_nfc i previous (g # rows) detail n =
     (let malformed = Wrap ''malformed area groups'' (Sentinel AdminUnavailable) in
      if \<not> gr_actor_present g then Inl (Sentinel AdminDenied)
      else if \<not> gr_area_present g then Inl (Sentinel AdminNotFound)
      else if \<not> gr_group_present g
      then if n \<noteq> 1 \<or> gr_id g \<noteq> 0 \<or> gr_name g \<noteq> [] \<or> gr_assigned g then Inl malformed else Inr detail
      else if gr_id g \<le> previous \<or> \<not> validAdministrationGroupName is_nfc (gr_name g) then Inl malformed
      else if i = administrationPageSize
      then area_group_rows is_nfc (i + 1) (gr_id g) rows (detail\<lparr>dt_next_after := fst (last (dt_groups detail))\<rparr>) n
      else area_group_rows is_nfc (i + 1) (gr_id g) rows
             (detail\<lparr>dt_groups := dt_groups detail @ [(gr_id g, gr_name g, gr_assigned g)]\<rparr>) n)"

definition LoadAreaDetail :: "admin_env \<Rightarrow> access_context \<Rightarrow> gotime \<Rightarrow> int \<Rightarrow> int \<Rightarrow> area_detail tx" where
  "LoadAreaDetail ad actor observedAt areaID afterGroupID =
     tx_bind (completion_read_boundary (ad_tx ad) actor observedAt (areaID \<le> 0 \<or> afterGroupID < 0)) (\<lambda>_.
     tx_bind (tx_map_error (\<lambda>e. Join (Sentinel AdminUnavailable) (Wrap ''load area'' e))
               (LoadAreaForAdministrationPage (ac_user_id actor) (At (truncate_us observedAt)) areaID)) (\<lambda>(present, loaded).
     tx_bind (tx_guard (\<not> present) (Sentinel AdminDenied)) (\<lambda>_.
     case loaded of
       None \<Rightarrow> tx_fail (Sentinel AdminNotFound)
     | Some a \<Rightarrow>
         tx_bind (tx_guard (\<not> validAreaSummary a \<or> as_id a \<noteq> areaID)
                   (Wrap ''malformed area'' (Sentinel AdminUnavailable))) (\<lambda>_.
         tx_bind (tx_map_error (\<lambda>e. Join (Sentinel AdminUnavailable) (Wrap ''list area groups'' e))
                   (ListAreaGroupsForAdministrationPage (ac_user_id actor) (At (truncate_us observedAt)) areaID
                      afterGroupID administrationPageQueryLimit)) (\<lambda>rows.
         if length rows > administrationPageQueryLimit
         then tx_fail (Wrap ''oversized area group page'' (Sentinel AdminUnavailable))
         else tx_lift (area_group_rows (ad_is_nfc ad) 0 afterGroupID rows
                        \<lparr>dt_area = a, dt_groups = [], dt_next_after = 0\<rparr> (length rows)))))))"

end
