(* ===== verification/Cursor.thy ===== *)
theory Cursor
  imports Policy Base64
begin

text \<open>
  The activity cursors of \<open>internal/discovery/cursor.go\<close>: the page boundary, the issuing time and a
  digest of the reader's authority in a record of 77 bytes, authenticated with HMAC-SHA-256 under one
  of at most two keys and written in URL-safe base64. HMAC is a parameter \<open>hmac key message\<close>; what the
  code relies on is its output of 32 bytes. A \<open>time.Time\<close> is held in UTC, so the location test of
  \<open>validMicrosecondTime\<close> is always met.
\<close>

type_synonym hmac_fn = "bytes \<Rightarrow> bytes \<Rightarrow> bytes"

definition EncodedCursorLength :: nat where "EncodedCursorLength = 103"
definition cursorVersion :: "8 word" where "cursorVersion = 1"
definition cursorRecordBytes :: nat where "cursorRecordBytes = 77"
definition cursorPayloadBytes :: nat where "cursorPayloadBytes = 45"
definition cursorMaximumAge :: duration where "cursorMaximumAge = 24 * ns_hour"
definition cursorFutureSkew :: duration where "cursorFutureSkew = 60 * ns_second"
definition cursorDomain :: string where "cursorDomain = ''gotth-bb/activity-cursor/v1''"
definition audienceDomain :: string where "audienceDomain = ''gotth-bb/activity-audience/v1''"
definition audienceFormat :: "8 word" where "audienceFormat = 1"
definition audienceDigestBytes :: nat where "audienceDigestBytes = 16"

record activity_boundary =
  ab_created_at :: gotime
  ab_post_id :: int

record cursor_key =
  ck_id :: u32
  ck_secret :: bytes
  ck_not_before :: gotime
  ck_issue_not_after :: gotime

record cursor_keyring =
  kr_active :: cursor_key
  kr_previous :: "cursor_key option"

record authenticated_cursor =
  cu_boundary :: activity_boundary
  cu_audience :: bytes
  cu_secret :: bytes
  cu_key_id :: u32
  cu_issued_at :: gotime
  cu_previous :: bool
  cu_key_start :: gotime
  cu_key_end :: gotime

subsection \<open>Times and keys\<close>

text \<open>The first instant after year 9999.\<close>

definition year_10000 :: gotime where "year_10000 = 253402300800 * ns_second"

definition validMicrosecondTime :: "gotime \<Rightarrow> bool" where
  "validMicrosecondTime v \<longleftrightarrow> zero_time \<le> v \<and> v < year_10000 \<and> (v mod ns_second) mod 1000 = 0"

definition validSecondTime :: "gotime \<Rightarrow> bool" where
  "validSecondTime v \<longleftrightarrow> validMicrosecondTime v \<and> v mod ns_second = 0"

definition validCursorKey :: "cursor_key \<Rightarrow> bool" where
  "validCursorKey key \<longleftrightarrow>
     ck_id key \<noteq> 0 \<and> validSecondTime (ck_not_before key) \<and> validSecondTime (ck_issue_not_after key) \<and>
     \<not> ck_issue_not_after key < ck_not_before key"

text \<open>The method \<open>key\<close> of a key ring: the key of an identifier, and whether it is the previous one.\<close>

definition ring_key :: "cursor_keyring \<Rightarrow> u32 \<Rightarrow> cursor_key option \<times> bool" where
  "ring_key ring i =
     (if ck_id (kr_active ring) = i then (Some (kr_active ring), False)
      else case kr_previous ring of
        Some p \<Rightarrow> if ck_id p = i then (Some p, True) else (None, False)
      | None \<Rightarrow> (None, False))"

subsection \<open>The digest of the audience\<close>

text \<open>\<open>copy\<close> into \<open>n\<close> zero bytes.\<close>

definition copy_bytes :: "nat \<Rightarrow> bytes \<Rightarrow> bytes" where
  "copy_bytes n src = take n src @ replicate (n - length src) 0"

fun strictly_after :: "int \<Rightarrow> int list \<Rightarrow> bool" where
  "strictly_after previous [] = True"
| "strictly_after previous (g # gs) = (\<not> g \<le> previous \<and> strictly_after g gs)"

definition int64_bytes :: "int \<Rightarrow> bytes" where
  "int64_bytes i = be_bytes 8 (word_of_int i :: 64 word)"

definition audience_message :: "access_context \<Rightarrow> bytes" where
  "audience_message actor =
     (let authenticated = (if ac_authenticated actor then 1 else 0);
          userID = (if ac_authenticated actor then ac_user_id actor else 0);
          r = (if ac_authenticated actor then ac_role actor else 0)
      in string_bytes audienceDomain @ [audienceFormat] @ [authenticated] @ int64_bytes userID @ [r] @
         concat (map int64_bytes (ac_group_ids actor)))"

definition audienceDigest :: "hmac_fn \<Rightarrow> bytes \<Rightarrow> access_context \<Rightarrow> go_error + bytes" where
  "audienceDigest hmac secret actor =
     (if \<not> Valid actor then Inl (Fail ''invalid access context'')
      else if \<not> strictly_after 0 (ac_group_ids actor) then Inl (Fail ''invalid access context'')
      else Inr (copy_bytes audienceDigestBytes (hmac secret (audience_message actor))))"

subsection \<open>Encoding and verification\<close>

definition cursor_payload :: "u32 \<Rightarrow> gotime \<Rightarrow> activity_boundary \<Rightarrow> bytes \<Rightarrow> bytes" where
  "cursor_payload key_id now boundary audience =
     [cursorVersion] @ be_bytes 4 key_id @ int64_bytes (now div ns_second) @
     int64_bytes (ab_created_at boundary div 1000) @ int64_bytes (ab_post_id boundary) @ audience"

definition cursor_mac :: "hmac_fn \<Rightarrow> bytes \<Rightarrow> bytes \<Rightarrow> bytes" where
  "cursor_mac hmac secret payload = hmac secret (string_bytes cursorDomain @ payload)"

definition EncodeCursor ::
  "hmac_fn \<Rightarrow> cursor_keyring \<Rightarrow> gotime \<Rightarrow> activity_boundary \<Rightarrow> access_context \<Rightarrow> go_error + string" where
  "EncodeCursor hmac ring now boundary actor =
     (let key = kr_active ring in
      if \<not> validCursorKey key \<or> \<not> validMicrosecondTime now \<or>
         now < ck_not_before key \<or> ck_issue_not_after key < now \<or>
         \<not> validMicrosecondTime (ab_created_at boundary) \<or> ab_post_id boundary \<le> 0
      then Inl (Fail ''activity cursor cannot be issued'')
      else case audienceDigest hmac (ck_secret key) actor of
        Inl e \<Rightarrow> Inl (Fail ''activity audience is invalid'')
      | Inr audience \<Rightarrow>
          let payload = cursor_payload (ck_id key) now boundary audience
          in Inr (raw_url_encode (payload @ copy_bytes (cursorRecordBytes - cursorPayloadBytes)
                                              (cursor_mac hmac (ck_secret key) payload))))"

text \<open>A slice \<open>b[i:j]\<close>, and \<open>int64(binary.BigEndian.Uint64(b))\<close>.\<close>

definition byte_slice :: "nat \<Rightarrow> nat \<Rightarrow> bytes \<Rightarrow> bytes" where
  "byte_slice i j bs = take (j - i) (drop i bs)"

definition be_int64 :: "bytes \<Rightarrow> int" where
  "be_int64 bs = sint (be_uint bs :: 64 word)"

definition VerifyCursor :: "hmac_fn \<Rightarrow> cursor_keyring \<Rightarrow> string \<Rightarrow> go_error + authenticated_cursor" where
  "VerifyCursor hmac ring encoded =
     (let invalid = Inl (Sentinel InvalidActivityCursor) in
      if length encoded \<noteq> EncodedCursorLength then invalid
      else case raw_url_decode encoded of
        None \<Rightarrow> invalid
      | Some rec \<Rightarrow>
          if length rec \<noteq> cursorRecordBytes \<or> raw_url_encode rec \<noteq> encoded \<or> rec ! 0 \<noteq> cursorVersion
          then invalid
          else case ring_key ring (be_uint (byte_slice 1 5 rec)) of
            (None, _) \<Rightarrow> invalid
          | (Some key, previous) \<Rightarrow>
              if \<not> validCursorKey key then invalid
              else if drop cursorPayloadBytes rec \<noteq> cursor_mac hmac (ck_secret key) (take cursorPayloadBytes rec)
              then invalid
              else
                let issuedAt = be_int64 (byte_slice 5 13 rec) * ns_second;
                    createdAt = be_int64 (byte_slice 13 21 rec) * 1000;
                    postID = be_int64 (byte_slice 21 29 rec)
                in if \<not> validSecondTime issuedAt \<or> \<not> validMicrosecondTime createdAt \<or> postID \<le> 0 \<or>
                      issuedAt < ck_not_before key \<or> ck_issue_not_after key < issuedAt
                   then invalid
                   else Inr \<lparr>cu_boundary = \<lparr>ab_created_at = createdAt, ab_post_id = postID\<rparr>,
                             cu_audience = copy_bytes audienceDigestBytes (byte_slice 29 45 rec),
                             cu_secret = ck_secret key, cu_key_id = ck_id key, cu_issued_at = issuedAt,
                             cu_previous = previous, cu_key_start = ck_not_before key,
                             cu_key_end = ck_issue_not_after key\<rparr>)"

definition belongsTo :: "authenticated_cursor \<Rightarrow> cursor_keyring \<Rightarrow> bool" where
  "belongsTo cursor ring =
     (case ring_key ring (cu_key_id cursor) of
        (None, _) \<Rightarrow> False
      | (Some key, previous) \<Rightarrow>
          previous = cu_previous cursor \<and> ck_secret key = cu_secret cursor \<and>
          ck_not_before key = cu_key_start cursor \<and> ck_issue_not_after key = cu_key_end cursor)"

definition ValidateTime :: "authenticated_cursor \<Rightarrow> gotime \<Rightarrow> go_error + unit" where
  "ValidateTime cursor now =
     (if \<not> validMicrosecondTime now \<or> \<not> validSecondTime (cu_issued_at cursor) \<or>
         now + cursorFutureSkew < cu_issued_at cursor \<or>
         time_sub now (cu_issued_at cursor) > cursorMaximumAge \<or>
         cu_previous cursor \<and> cu_key_end cursor + (cursorMaximumAge + cursorFutureSkew) < now
      then Inl (Sentinel InvalidActivityCursor) else Inr ())"

definition BindAudience ::
  "hmac_fn \<Rightarrow> authenticated_cursor \<Rightarrow> access_context \<Rightarrow> go_error + activity_boundary" where
  "BindAudience hmac cursor actor =
     (case audienceDigest hmac (cu_secret cursor) actor of
        Inl e \<Rightarrow> Inl (Sentinel InvalidActivityCursor)
      | Inr digest \<Rightarrow>
          if digest \<noteq> cu_audience cursor then Inl (Sentinel InvalidActivityCursor)
          else Inr (cu_boundary cursor))"

end
