(* ===== verification/Gateway.thy ===== *)
theory Gateway
  imports Accounts Control Cursor
begin

text \<open>
  What \<open>internal/registration\<close> uses of the gateway to the identity provider (\<open>internal/authentikgateway\<close>):
  its answers are a parameter of the model, one record of functions per run of a service, in which every
  operation can also fail. The canonical text of a UUID, and the handles the administrator's page carries:
  33 bytes and their HMAC-SHA-256 in URL-safe base64. HMAC is a parameter.
\<close>

subsection \<open>The gateway\<close>

record remote_user =
  ru_id :: int
  ru_uuid :: string
  ru_username :: string
  ru_name :: string
  ru_email :: string
  ru_active :: bool

record user_state =
  us_user :: remote_user
  us_accepted :: bool
  us_pending :: bool
  us_suspended :: bool

text \<open>An expiry that is not in the format of RFC 3339 is \<open>None\<close>.\<close>

record remote_invitation =
  ri_uuid :: string
  ri_name :: string
  ri_expires :: "gotime option"
  ri_email :: string
  ri_display_name :: string
  ri_single_use :: bool

record gateway =
  gw_add_user :: "string \<Rightarrow> string \<Rightarrow> go_error option"
  gw_remove_user :: "string \<Rightarrow> string \<Rightarrow> go_error option"
  gw_user :: "string \<Rightarrow> go_error + user_state"
  gw_pending_users :: "go_error + (remote_user list \<times> bool)"
  gw_create_invitation :: "string \<Rightarrow> string \<Rightarrow> string \<Rightarrow> string \<Rightarrow> go_error + remote_invitation"
  gw_invitations :: "go_error + (remote_invitation list \<times> bool)"
  gw_invitation :: "string \<Rightarrow> go_error + remote_invitation"
  gw_delete_invitation :: "string \<Rightarrow> go_error option"

definition remoteFailureClass :: "go_error \<Rightarrow> string" where
  "remoteFailureClass e =
     (if err_is e RemoteUnavailable then ''remote_unavailable''
      else if err_is e RemoteConflict then ''remote_conflict''
      else if err_is e RemoteAbsent then ''remote_absent''
      else if err_is e RemoteInvalid \<or> err_is e RemoteRequest then ''remote_invalid''
      else ''remote_failure'')"

text \<open>Calls in order, up to the first error.\<close>

fun first_error :: "go_error option list \<Rightarrow> go_error option" where
  "first_error [] = None"
| "first_error (None # es) = first_error es"
| "first_error (Some e # es) = Some e"

text \<open>The membership the readback of an identity has to show.\<close>

definition readback :: "(go_error + user_state) \<Rightarrow> (user_state \<Rightarrow> bool) \<Rightarrow> go_error option" where
  "readback answer fits =
     (case answer of
        Inl e \<Rightarrow> Some e
      | Inr st \<Rightarrow> if fits st then None else Some (Sentinel RemoteConflict))"

definition verified_identity :: "string \<Rightarrow> user_state \<Rightarrow> bool" where
  "verified_identity subject st \<longleftrightarrow> ru_uuid (us_user st) = subject \<and> ru_active (us_user st) \<and> \<not> us_pending st"

definition applyRemoteDecision :: "gateway \<Rightarrow> bool \<Rightarrow> string \<Rightarrow> go_error option" where
  "applyRemoteDecision gw approve subject =
     first_error
       [if approve then gw_add_user gw ''accepted'' subject else gw_remove_user gw ''accepted'' subject,
        gw_remove_user gw ''pending'' subject,
        readback (gw_user gw subject)
          (\<lambda>st. verified_identity subject st \<and>
                (if approve then us_accepted st \<and> \<not> us_suspended st else \<not> us_accepted st))]"

definition applyIdentityRemoval :: "gateway \<Rightarrow> string \<Rightarrow> go_error option" where
  "applyIdentityRemoval gw subject =
     first_error
       [gw_remove_user gw ''accepted'' subject, gw_remove_user gw ''pending'' subject,
        gw_add_user gw ''suspended'' subject,
        readback (gw_user gw subject)
          (\<lambda>st. verified_identity subject st \<and> \<not> us_accepted st \<and> us_suspended st)]"

definition applyIdentityGrant :: "gateway \<Rightarrow> string \<Rightarrow> go_error option" where
  "applyIdentityGrant gw subject =
     first_error
       [gw_remove_user gw ''suspended'' subject, gw_remove_user gw ''pending'' subject,
        gw_add_user gw ''accepted'' subject,
        readback (gw_user gw subject)
          (\<lambda>st. verified_identity subject st \<and> us_accepted st \<and> \<not> us_suspended st)]"

subsection \<open>UUIDs\<close>

fun hex_value :: "char \<Rightarrow> 8 word option" where
  "hex_value c =
     (if CHR ''0'' \<le> c \<and> c \<le> CHR ''9'' then Some (of_char c - 48)
      else if CHR ''a'' \<le> c \<and> c \<le> CHR ''f'' then Some (of_char c - 87)
      else if CHR ''A'' \<le> c \<and> c \<le> CHR ''F'' then Some (of_char c - 55)
      else None)"

fun hex_decode :: "string \<Rightarrow> bytes option" where
  "hex_decode [] = Some []"
| "hex_decode [c] = None"
| "hex_decode (c # d # cs) =
     (case (hex_value c, hex_value d, hex_decode cs) of
        (Some a, Some b, Some bs) \<Rightarrow> Some ((16 * a + b) # bs)
      | _ \<Rightarrow> None)"

definition has_upper :: "string \<Rightarrow> bool" where
  "has_upper s = list_ex (\<lambda>c. CHR ''A'' \<le> c \<and> c \<le> CHR ''Z'') s"

definition parseCanonicalUUID :: "string \<Rightarrow> bytes option" where
  "parseCanonicalUUID s =
     (if length s \<noteq> 36 \<or> s ! 8 \<noteq> CHR ''-'' \<or> s ! 13 \<noteq> CHR ''-'' \<or> s ! 18 \<noteq> CHR ''-'' \<or> s ! 23 \<noteq> CHR ''-'' \<or>
         has_upper s
      then None
      else case hex_decode (filter (\<lambda>c. c \<noteq> CHR ''-'') s) of
        None \<Rightarrow> None
      | Some raw \<Rightarrow>
          if length raw \<noteq> 16 \<or> drop_bit 4 (raw ! 6) < 1 \<or> drop_bit 4 (raw ! 6) > 5 \<or> drop_bit 6 (raw ! 8) \<noteq> 2
          then None else Some raw)"

definition canonicalUUID :: "bytes \<Rightarrow> string option" where
  "canonicalUUID b =
     (if b = replicate 16 0 then None
      else Some (hex_encode (byte_slice 0 4 b) @ ''-'' @ hex_encode (byte_slice 4 6 b) @ ''-'' @
                 hex_encode (byte_slice 6 8 b) @ ''-'' @ hex_encode (byte_slice 8 10 b) @ ''-'' @
                 hex_encode (byte_slice 10 16 b)))"

subsection \<open>Handles\<close>

definition handleLifetime :: duration where "handleLifetime = 5 * ns_minute"
definition handleRawBytes :: nat where "handleRawBytes = 65"

definition handle_mac :: "hmac_fn \<Rightarrow> string \<Rightarrow> bytes \<Rightarrow> bytes \<Rightarrow> bytes" where
  "handle_mac hmac label key head = hmac key (string_bytes label @ [0] @ head)"

text \<open>A handle holds its version, its expiry in seconds and 24 bytes, which its two uses split differently.\<close>

definition issue_handle :: "hmac_fn \<Rightarrow> string \<Rightarrow> bytes \<Rightarrow> gotime \<Rightarrow> bytes \<Rightarrow> string" where
  "issue_handle hmac label key now body =
     (let head = [1] @ int64_bytes ((now - now mod ns_second + handleLifetime) div ns_second) @ body
      in raw_url_encode (head @ copy_bytes 32 (handle_mac hmac label key head)))"

definition open_handle :: "hmac_fn \<Rightarrow> string \<Rightarrow> bytes \<Rightarrow> string \<Rightarrow> (int \<times> bytes) option" where
  "open_handle hmac label key encoded =
     (if length encoded \<noteq> 87 then None
      else case raw_url_decode encoded of
        None \<Rightarrow> None
      | Some raw \<Rightarrow>
          if length raw \<noteq> handleRawBytes \<or> raw_url_encode raw \<noteq> encoded \<or> raw ! 0 \<noteq> 1 then None
          else if drop 33 raw \<noteq> handle_mac hmac label key (take 33 raw) then None
          else Some (be_int64 (byte_slice 1 9 raw), byte_slice 9 33 raw))"

definition expired_handle :: "int \<Rightarrow> gotime \<Rightarrow> bool" where
  "expired_handle expires now \<longleftrightarrow>
     expires \<le> 0 \<or> now div ns_second > expires \<or> expires * ns_second > now + handleLifetime"

definition adoptionLabel :: string where "adoptionLabel = ''gotth-bb/pending-adoption-handle/v1''"

definition zero_key :: "bytes \<Rightarrow> bool" where
  "zero_key key \<longleftrightarrow> key = replicate 32 0"

definition issueAdoptionHandle :: "hmac_fn \<Rightarrow> gotime \<Rightarrow> bytes \<Rightarrow> int \<Rightarrow> string \<Rightarrow> go_error + string" where
  "issueAdoptionHandle hmac now key userID subject =
     (case parseCanonicalUUID subject of
        None \<Rightarrow> Inl (Sentinel RegistrationInput)
      | Some parsed \<Rightarrow>
          if zero_key key \<or> userID \<le> 0 \<or> now = zero_time then Inl (Sentinel RegistrationInput)
          else Inr (issue_handle hmac adoptionLabel key now (int64_bytes userID @ parsed)))"

definition verifyAdoptionHandle :: "hmac_fn \<Rightarrow> string \<Rightarrow> gotime \<Rightarrow> bytes \<Rightarrow> go_error + (int \<times> string)" where
  "verifyAdoptionHandle hmac encoded now key =
     (let refused = Inl (Sentinel RegistrationInput) in
      if zero_key key \<or> now = zero_time then refused
      else case open_handle hmac adoptionLabel key encoded of
        None \<Rightarrow> refused
      | Some (expires, body) \<Rightarrow>
          let userID = be_int64 (take 8 body) in
          if userID \<le> 0 \<or> expired_handle expires now then refused
          else case canonicalUUID (drop 8 body) of
            None \<Rightarrow> refused
          | Some subject \<Rightarrow> if parseCanonicalUUID subject = None then refused else Inr (userID, subject))"

definition invitationLabel :: string where "invitationLabel = ''gotth-bb/invitation-revoke-handle/v1''"
definition maximumInvitationHandleRevision :: int where "maximumInvitationHandleRevision = 9223372036854775805"

text \<open>The key of an invitation is a UUID, written as a number.\<close>

definition uuid_bytes :: "int \<Rightarrow> bytes" where
  "uuid_bytes k = be_bytes 16 (word_of_int k :: 128 word)"

definition issueInvitationHandle :: "hmac_fn \<Rightarrow> gotime \<Rightarrow> bytes \<Rightarrow> int option \<Rightarrow> int \<Rightarrow> go_error + string" where
  "issueInvitationHandle hmac now key idempotencyKey revision =
     (case idempotencyKey of
        None \<Rightarrow> Inl (Sentinel RegistrationInput)
      | Some k \<Rightarrow>
          if now = zero_time \<or> zero_key key \<or> uuid_bytes k = replicate 16 0 \<or> revision \<le> 0 \<or>
             revision > maximumInvitationHandleRevision
          then Inl (Sentinel RegistrationInput)
          else Inr (issue_handle hmac invitationLabel key now (uuid_bytes k @ int64_bytes revision)))"

definition verifyInvitationHandle :: "hmac_fn \<Rightarrow> string \<Rightarrow> gotime \<Rightarrow> bytes \<Rightarrow> go_error + (int \<times> int)" where
  "verifyInvitationHandle hmac encoded now key =
     (let refused = Inl (Sentinel RegistrationInput) in
      if now = zero_time \<or> zero_key key then refused
      else case open_handle hmac invitationLabel key encoded of
        None \<Rightarrow> refused
      | Some (expires, body) \<Rightarrow>
          let revision = be_int64 (drop 16 body) in
          if revision \<le> 0 \<or> revision > maximumInvitationHandleRevision \<or> expired_handle expires now then refused
          else if take 16 body = replicate 16 0 then refused
          else Inr (uint (be_uint (take 16 body) :: 128 word), revision))"

end
