(* ===== verification/Registration.thy ===== *)
theory Registration
  imports Gateway
begin

text \<open>
  Registrations that wait for approval, \<open>internal/registration\<close>: intake (\<open>intake.go\<close>), the administrator's
  queue (\<open>list.go\<close>), decisions in two transactions around the calls to the identity provider
  (\<open>decision.go\<close>) and the adoption of identities the provider holds as pending (\<open>adoption.go\<close>), with the
  statements of \<open>registration.sql.go\<close>. A run of a service is given its transactions, its clock readings and
  its gateway in one record: the \<open>k\<close>-th transaction and the \<open>k\<close>-th reading by number. \<open>net/mail\<close> is the
  parameter \<open>re_is_address\<close>.
\<close>

record reg_env =
  re_tx :: "nat \<Rightarrow> tx_env"
  re_clock :: "(nat \<Rightarrow> gotime) option"
  re_gateway :: "gateway option"
  re_hmac :: hmac_fn
  re_is_address :: "string \<Rightarrow> bool"

definition re_context_given :: "reg_env \<Rightarrow> bool" where
  "re_context_given re \<longleftrightarrow> te_context_given (re_tx re 0) \<and> te_beginner_given (re_tx re 0)"

subsection \<open>Rows\<close>

text \<open>
  The shape of the statements on one registration: change the rows that match, which have to keep the
  \<open>CHECK\<close> on the times of a decision, and append the audit row.
\<close>

definition site_audit ::
  "audit_actor \<Rightarrow> string \<Rightarrow> string \<Rightarrow> audit_state \<Rightarrow> audit_state \<Rightarrow> int option \<Rightarrow> audit_input" where
  "site_audit actor action reason previous resulting req =
     \<lparr>ai_actor = actor, ai_target = TargetSite, ai_action = action, ai_reason = Some reason, ai_previous = previous,
      ai_resulting = resulting, ai_request = req\<rparr>"

text \<open>An audit row on its own.\<close>

definition append_audit :: "audit_input \<Rightarrow> tstamp \<Rightarrow> int tx" where
  "append_audit a stamp = statement (\<lambda>db. let (i, db1) = insert_audit a stamp db in (Inr i, db1))"

definition decided_in_order :: "registration_row \<Rightarrow> bool" where
  "decided_in_order r \<longleftrightarrow> (case pn_decided_at r of None \<Rightarrow> True | Some d \<Rightarrow> d \<ge> pn_intake_at r)"

definition change_registration ::
  "(registration_row \<Rightarrow> bool) \<Rightarrow> (registration_row \<Rightarrow> registration_row) \<Rightarrow> (registration_row \<Rightarrow> audit_input) \<Rightarrow>
   tstamp \<Rightarrow> (registration_row \<times> int) tx"
where
  "change_registration hit change audit stamp =
     statement (\<lambda>db.
       case find hit (db_registrations db) of
         None \<Rightarrow> (Inl (Sentinel NoRows), db)
       | Some r \<Rightarrow>
           if \<not> decided_in_order (change r) then (Inl (CheckViolation ''pending_registrations_times_finite''), db)
           else let (i, db1) = insert_audit (audit (change r)) stamp db
                in (Inr (change r, i), db1\<lparr>db_registrations := upd_where hit change (db_registrations db1)\<rparr>))"

definition new_registration :: "int \<Rightarrow> int \<Rightarrow> string \<Rightarrow> string \<Rightarrow> string \<Rightarrow> tstamp \<Rightarrow> registration_row" where
  "new_registration i user subject name email stamp =
     \<lparr>pn_id = i, pn_user_id = user, pn_subject = subject, pn_display_name = name, pn_email = email,
      pn_status = ''pending'', pn_revision = 1, pn_intake_at = stamp, pn_decided_at = None, pn_decided_by = None,
      pn_request = None, pn_class = None\<rparr>"

definition registration_taken :: "int \<Rightarrow> int \<Rightarrow> string \<Rightarrow> forum_db \<Rightarrow> bool" where
  "registration_taken i user subject db \<longleftrightarrow>
     list_ex (\<lambda>r. pn_id r = i \<or> pn_user_id r = user \<or> pn_subject r = subject) (db_registrations db)"

definition UpsertPendingRegistrationIntake :: "string \<Rightarrow> int \<Rightarrow> string \<Rightarrow> string \<Rightarrow> tstamp \<Rightarrow> bool tx" where
  "UpsertPendingRegistrationIntake subject user name email stamp =
     statement (\<lambda>db.
       let (i, db1) = nextval RegistrationSeq db in
       case find (\<lambda>r. pn_subject r = subject) (db_registrations db1) of
         Some r \<Rightarrow>
           (Inr (pn_user_id r = user),
            db1\<lparr>db_registrations := upd_where
                  (\<lambda>x. pn_subject x = subject \<and> pn_user_id x = user \<and> pn_status x = ''pending'')
                  (\<lambda>x. x\<lparr>pn_display_name := name, pn_email := email\<rparr>) (db_registrations db1)\<rparr>)
       | None \<Rightarrow>
           if registration_taken i user subject db1 then (Inl (UniqueViolation ''pending_registrations''), db1)
           else (Inr True, db1\<lparr>db_registrations := db_registrations db1 @ [new_registration i user subject name email stamp]\<rparr>))"

definition InsertOrLoadPendingRegistrationAdoption ::
  "int \<Rightarrow> string \<Rightarrow> string \<Rightarrow> string \<Rightarrow> tstamp \<Rightarrow> (int \<times> int \<times> bool) tx" where
  "InsertOrLoadPendingRegistrationAdoption user subject name email stamp =
     statement (\<lambda>db.
       let (i, db1) = nextval RegistrationSeq db in
       if \<not> registration_taken i user subject db1
       then (Inr (i, 1, True),
             db1\<lparr>db_registrations := db_registrations db1 @ [new_registration i user subject name email stamp]\<rparr>)
       else case find (\<lambda>r. pn_user_id r = user \<and> pn_subject r = subject \<and> pn_status r = ''pending'') (db_registrations db1) of
              None \<Rightarrow> (Inl (Sentinel NoRows), db1)
            | Some r \<Rightarrow> (Inr (pn_id r, pn_revision r, False), db1))"

definition RecordPendingRegistrationAdoption :: "int \<Rightarrow> string \<Rightarrow> string \<Rightarrow> int \<Rightarrow> int option \<Rightarrow> tstamp \<Rightarrow> int tx" where
  "RecordPendingRegistrationAdoption actor reason reference revision req stamp =
     append_audit (site_audit (ActorUser actor) ''adopt_pending_registration'' reason
       (RegistrationIs reference ''remote_pending_orphan'' None None)
       (RegistrationIs reference ''pending'' (Some revision) None) req) stamp"

definition LockRegistrationAdministrator :: "int \<Rightarrow> tstamp \<Rightarrow> int tx" where
  "LockRegistrationAdministrator actor observed =
     select_one (\<lambda>db. if sql_administrator db actor observed then Some actor else None)"

definition LockPendingRegistration :: "int \<Rightarrow> registration_row tx" where
  "LockPendingRegistration i = select_one (\<lambda>db. find (\<lambda>r. pn_id r = i) (db_registrations db))"

definition BeginPendingRegistrationDecision ::
  "string \<Rightarrow> int option \<Rightarrow> int \<Rightarrow> int \<Rightarrow> int \<Rightarrow> string \<Rightarrow> string \<Rightarrow> string \<Rightarrow> tstamp \<Rightarrow> (registration_row \<times> int) tx"
where
  "BeginPendingRegistrationDecision required req i expected actor action reason reference stamp =
     change_registration
       (\<lambda>r. pn_id r = i \<and> pn_status r = ''pending'' \<and> pn_revision r = expected \<and> pn_revision r < max_int64)
       (\<lambda>r. r\<lparr>pn_status := required, pn_revision := pn_revision r + 1, pn_request := req, pn_class := None\<rparr>)
       (\<lambda>r. site_audit (ActorUser actor) action reason (RegistrationIs reference ''pending'' (Some expected) None)
              (RegistrationIs reference (pn_status r) (Some (pn_revision r)) None) req) stamp"

definition CompletePendingRegistrationDecision ::
  "string \<Rightarrow> tstamp \<Rightarrow> int \<Rightarrow> int \<Rightarrow> string \<Rightarrow> int option \<Rightarrow> int \<Rightarrow> string \<Rightarrow> string \<Rightarrow> string \<Rightarrow> (registration_row \<times> int) tx"
where
  "CompletePendingRegistrationDecision resulting stamp actor i required req expected action reason reference =
     change_registration
       (\<lambda>r. pn_id r = i \<and> pn_status r = required \<and> pn_request r = req \<and> req \<noteq> None \<and> pn_revision r = expected \<and>
            pn_revision r < max_int64)
       (\<lambda>r. r\<lparr>pn_status := resulting, pn_revision := pn_revision r + 1, pn_decided_at := Some stamp,
             pn_decided_by := Some actor, pn_class := None\<rparr>)
       (\<lambda>r. site_audit (ActorUser actor) action reason (RegistrationIs reference required (Some expected) None)
              (RegistrationIs reference (pn_status r) (Some (pn_revision r)) (Some ''confirmed'')) req) stamp"

definition RecordPendingRegistrationDecisionFailure ::
  "string \<Rightarrow> int \<Rightarrow> string \<Rightarrow> int option \<Rightarrow> int \<Rightarrow> int \<Rightarrow> string \<Rightarrow> string \<Rightarrow> tstamp \<Rightarrow> (registration_row \<times> int) tx"
where
  "RecordPendingRegistrationDecisionFailure failure i required req expected actor reason reference stamp =
     change_registration
       (\<lambda>r. pn_id r = i \<and> pn_status r = required \<and> pn_request r = req \<and> req \<noteq> None \<and> pn_revision r = expected \<and>
            pn_revision r < max_int64)
       (\<lambda>r. r\<lparr>pn_class := Some failure, pn_revision := pn_revision r + 1\<rparr>)
       (\<lambda>r. site_audit (ActorUser actor) ''record_registration_transition_result'' reason
              (RegistrationIs reference required (Some expected) None)
              (RegistrationIs reference (pn_status r) (Some (pn_revision r)) (Some failure)) req) stamp"

text \<open>A page of the queue: no row without the administrator, an absent one when there is nothing to list.\<close>

definition ListPendingRegistrationsForAdministration ::
  "int \<Rightarrow> tstamp \<Rightarrow> int \<Rightarrow> nat \<Rightarrow> registration_row option list tx" where
  "ListPendingRegistrationsForAdministration actor observed after limit =
     select_all (\<lambda>db.
       if \<not> sql_administrator db actor observed then []
       else case after_id pn_id after limit
              (filter (\<lambda>r. pn_status r \<in> {''pending'', ''approval_required'', ''rejection_required''}) (db_registrations db)) of
              [] \<Rightarrow> [None]
            | rows \<Rightarrow> map Some rows)"

definition MatchPendingRegistrationCoordinates ::
  "int \<Rightarrow> tstamp \<Rightarrow> int list \<Rightarrow> string list \<Rightarrow> (bool \<times> registration_row option) list tx" where
  "MatchPendingRegistrationCoordinates actor observed ids subjects =
     select_all (\<lambda>db.
       if \<not> sql_administrator db actor observed then [(False, None)]
       else case take 103 (sort_key pn_id
              (filter (\<lambda>r. pn_user_id r \<in> set ids \<or> pn_subject r \<in> set subjects) (db_registrations db))) of
              [] \<Rightarrow> [(True, None)]
            | rows \<Rightarrow> map (\<lambda>r. (True, Some r)) rows)"

subsection \<open>Intake\<close>

definition validIntakeText :: "string \<Rightarrow> nat \<Rightarrow> nat \<Rightarrow> int \<Rightarrow> bool" where
  "validIntakeText value minimumBytes maximumBytes maximumRunes \<longleftrightarrow>
     valid_utf8 value \<and> length value \<ge> minimumBytes \<and> length value \<le> maximumBytes \<and>
     rune_count value \<le> maximumRunes \<and> is_trimmed value \<and> \<not> has_control value"

record intake =
  in_user_id :: int
  in_subject :: string
  in_username :: string
  in_display_name :: string
  in_email :: string

definition valid_email :: "reg_env \<Rightarrow> string \<Rightarrow> bool" where
  "valid_email re value \<longleftrightarrow> validIntakeText value 3 320 320 \<and> re_is_address re value"

definition AcceptIntake :: "reg_env \<Rightarrow> intake \<Rightarrow> unit tx" where
  "AcceptIntake re x =
     (if \<not> re_context_given re \<or> re_clock re = None \<or> in_user_id x \<le> 0 \<or>
         \<not> validIntakeText (in_username x) 1 150 150 \<or> \<not> validIntakeText (in_display_name x) 1 320 80 \<or>
         \<not> valid_email re (in_email x)
      then tx_fail (Fail ''invalid registration intake'')
      else if parseCanonicalUUID (in_subject x) = None then tx_fail (Fail ''invalid registration intake subject'')
      else
        tx_bind (context_error ''accept registration intake'' (re_tx re 0)) (\<lambda>_.
        let at = truncate_us (the (re_clock re) 0) in
        if at = zero_time then tx_fail (Fail ''registration intake clock returned zero time'')
        else
          tx_bind (tx_replace (Fail ''persist registration intake failed'')
                    (UpsertPendingRegistrationIntake (in_subject x) (in_user_id x) (in_display_name x) (in_email x) (At at)))
            (\<lambda>accepted. tx_guard (\<not> accepted) (Fail ''persist registration intake failed''))))"

subsection \<open>The queue\<close>

record pending_item =
  pi_id :: int
  pi_revision :: int
  pi_display_name :: string
  pi_email :: string
  pi_status :: string
  pi_class :: string
  pi_intake_at :: gotime

definition pending_item_of :: "registration_row \<Rightarrow> pending_item" where
  "pending_item_of r =
     \<lparr>pi_id = pn_id r, pi_revision = pn_revision r, pi_display_name = pn_display_name r, pi_email = pn_email r,
      pi_status = pn_status r, pi_class = (case pn_class r of None \<Rightarrow> [] | Some c \<Rightarrow> c),
      pi_intake_at = truncate_us (ts_time (Some (pn_intake_at r)))\<rparr>"

definition validPending :: "reg_env \<Rightarrow> pending_item \<Rightarrow> bool" where
  "validPending re x \<longleftrightarrow>
     pi_id x > 0 \<and> pi_revision x > 0 \<and> pi_intake_at x \<noteq> zero_time \<and> zero_time \<le> pi_intake_at x \<and>
     pi_intake_at x < year_10000 \<and> validIntakeText (pi_display_name x) 1 320 80 \<and> valid_email re (pi_email x) \<and>
     (pi_status x = ''pending'' \<or> pi_status x = ''approval_required'' \<or> pi_status x = ''rejection_required'') \<and>
     (pi_class x = [] \<or> validIntakeText (pi_class x) 1 128 128)"

definition pendingPageSize :: nat where "pendingPageSize = 50"
definition pendingPageQueryLimit :: nat where "pendingPageQueryLimit = 51"

record orphan =
  or_display_name :: string
  or_email :: string
  or_handle :: string

record pending_page =
  pp_registrations :: "pending_item list"
  pp_next_after :: int
  pp_orphans :: "orphan list"
  pp_remote_unavailable :: bool
  pp_remote_more :: bool

definition empty_pending_page :: pending_page where
  "empty_pending_page =
     \<lparr>pp_registrations = [], pp_next_after = 0, pp_orphans = [], pp_remote_unavailable = False, pp_remote_more = False\<rparr>"

fun pending_rows ::
  "reg_env \<Rightarrow> nat \<Rightarrow> int \<Rightarrow> nat \<Rightarrow> registration_row option list \<Rightarrow> pending_page \<Rightarrow> go_error + pending_page" where
  "pending_rows re i previous n [] page = Inr page"
| "pending_rows re i previous n (None # rows) page =
     (if n \<noteq> 1 \<or> i \<noteq> 0 then Inl (Wrap ''malformed empty pending page'' (Sentinel RegistrationUnavailable)) else Inr page)"
| "pending_rows re i previous n (Some r # rows) page =
     (let x = pending_item_of r in
      if \<not> validPending re x \<or> pi_id x \<le> previous
      then Inl (Wrap ''malformed pending page'' (Sentinel RegistrationUnavailable))
      else if i = pendingPageSize
      then pending_rows re (i + 1) (pi_id x) n rows (page\<lparr>pp_next_after := pi_id (last (pp_registrations page))\<rparr>)
      else pending_rows re (i + 1) (pi_id x) n rows (page\<lparr>pp_registrations := pp_registrations page @ [x]\<rparr>))"

definition ListPending :: "reg_env \<Rightarrow> access_context \<Rightarrow> gotime \<Rightarrow> int \<Rightarrow> pending_page tx" where
  "ListPending re actor observed after =
     (if \<not> re_context_given re \<or> \<not> CanAdminister actor then tx_fail (Sentinel RegistrationDenied)
      else if te_context_error (re_tx re 0) \<noteq> None \<or> observed = zero_time \<or> after < 0
      then tx_fail (Sentinel RegistrationInput)
      else
        tx_bind (tx_replace (Wrap ''list pending registrations'' (Sentinel RegistrationUnavailable))
                  (ListPendingRegistrationsForAdministration (ac_user_id actor) (At (truncate_us observed)) after
                     pendingPageQueryLimit)) (\<lambda>rows.
        if rows = [] then tx_fail (Sentinel RegistrationDenied)
        else if length rows > pendingPageQueryLimit
        then tx_fail (Wrap ''oversized pending page'' (Sentinel RegistrationUnavailable))
        else tx_lift (pending_rows re 0 after (length rows) rows empty_pending_page)))"

text \<open>The name and the address of an identity the provider holds as pending.\<close>

definition pendingIdentity :: "reg_env \<Rightarrow> remote_user \<Rightarrow> string option" where
  "pendingIdentity re u =
     (let name = (if ru_name u = [] then ru_username u else ru_name u) in
      if ru_id u \<le> 0 \<or> \<not> ru_active u \<or> \<not> validIntakeText (ru_username u) 1 150 150 \<or>
         \<not> validIntakeText name 1 320 80 \<or> \<not> valid_email re (ru_email u)
      then None
      else if parseCanonicalUUID (ru_uuid u) = None then None else Some name)"

definition malformed_match :: "(bool \<times> registration_row option) list \<Rightarrow> bool" where
  "malformed_match rows \<longleftrightarrow>
     list_ex (\<lambda>(present, row). case row of
        None \<Rightarrow> length rows \<noteq> 1
      | Some r \<Rightarrow> pn_id r \<le> 0 \<or> pn_user_id r \<le> 0 \<or> parseCanonicalUUID (pn_subject r) = None) rows"

text \<open>
  The loop over the provider's identities: one that is known by both coordinates is passed over, one that
  is known by a single coordinate or by two that do not belong together ends the comparison, and the
  others are orphans.
\<close>

fun collect_orphans ::
  "reg_env \<Rightarrow> gotime \<Rightarrow> bytes \<Rightarrow> (int \<rightharpoonup> string) \<Rightarrow> (string \<rightharpoonup> int) \<Rightarrow> remote_user list \<Rightarrow> orphan list \<Rightarrow>
   go_error + orphan list option"
where
  "collect_orphans re now key by_id by_subject [] found = Inr (Some found)"
| "collect_orphans re now key by_id by_subject (u # us) found =
     (if by_id (ru_id u) \<noteq> None \<or> by_subject (ru_uuid u) \<noteq> None
      then if by_id (ru_id u) \<noteq> Some (ru_uuid u) \<or> by_subject (ru_uuid u) \<noteq> Some (ru_id u) then Inr None
           else collect_orphans re now key by_id by_subject us found
      else case issueAdoptionHandle (re_hmac re) now key (ru_id u) (ru_uuid u) of
        Inl e \<Rightarrow> Inl (Wrap ''issue adoption handle'' (Sentinel RegistrationUnavailable))
      | Inr handle \<Rightarrow>
          collect_orphans re now key by_id by_subject us
            (found @ [\<lparr>or_display_name = (case pendingIdentity re u of None \<Rightarrow> [] | Some n \<Rightarrow> n),
                       or_email = ru_email u, or_handle = handle\<rparr>]))"

definition ListPendingAdministration ::
  "reg_env \<Rightarrow> access_context \<Rightarrow> gotime \<Rightarrow> int \<Rightarrow> bytes \<Rightarrow> pending_page tx" where
  "ListPendingAdministration re actor observed after key =
     tx_bind (ListPending re actor observed after) (\<lambda>page.
     let unavailable = tx_return (page\<lparr>pp_remote_unavailable := True\<rparr>) in
     if re_gateway re = None \<or> zero_key key then tx_fail (Sentinel RegistrationUnavailable)
     else case gw_pending_users (the (re_gateway re)) of
       Inl e \<Rightarrow> unavailable
     | Inr (users, has_more) \<Rightarrow>
         if length users > 51 then unavailable
         else let page1 = page\<lparr>pp_remote_more := has_more\<rparr> in
         if users = [] then tx_return page1
         else if list_ex (\<lambda>u. pendingIdentity re u = None) users \<or> \<not> distinct (map ru_id users) \<or>
                 \<not> distinct (map ru_uuid users)
         then tx_return (page1\<lparr>pp_remote_unavailable := True\<rparr>)
         else
           tx_bind (tx_replace (Wrap ''match pending identities'' (Sentinel RegistrationUnavailable))
                     (MatchPendingRegistrationCoordinates (ac_user_id actor) (At (truncate_us observed))
                        (map ru_id users) (map ru_uuid users))) (\<lambda>rows.
           if rows = [] \<or> length rows > 103 \<or> \<not> fst (hd rows)
           then tx_fail (Wrap ''match pending identities'' (Sentinel RegistrationUnavailable))
           else if list_ex (\<lambda>r. \<not> fst r) rows then tx_fail (Sentinel RegistrationDenied)
           else if malformed_match rows
           then tx_fail (Wrap ''malformed coordinate result'' (Sentinel RegistrationUnavailable))
           else
             let known = concat (map (\<lambda>r. case snd r of None \<Rightarrow> [] | Some p \<Rightarrow> [p]) rows) in
             case collect_orphans re observed key (map_of (rev (map (\<lambda>r. (pn_user_id r, pn_subject r)) known)))
                    (map_of (rev (map (\<lambda>r. (pn_subject r, pn_user_id r)) known))) users [] of
               Inl e \<Rightarrow> tx_fail e
             | Inr None \<Rightarrow> tx_return (page1\<lparr>pp_remote_unavailable := True\<rparr>)
             | Inr (Some orphans) \<Rightarrow> tx_return (page1\<lparr>pp_orphans := orphans\<rparr>)))"

end
