(* ===== verification/RegistrationActions.thy ===== *)
theory RegistrationActions
  imports Registration Secrets
begin

text \<open>
  Decisions on registrations (\<open>internal/registration/decision.go\<close>) and adoptions (\<open>adoption.go\<close>). No
  transaction spans a call to the provider: a decision is an intent on record, the calls, and the recorded
  outcome. The phases are definitions of their own, since other requests may come between them.
\<close>

subsection \<open>Shared steps\<close>

definition observedAt :: "reg_env \<Rightarrow> nat \<Rightarrow> go_error + gotime" where
  "observedAt re k =
     (let reading = the (re_clock re) k in
      if reading = zero_time then Inl (Wrap ''zero clock'' (Sentinel RegistrationUnavailable))
      else Inr (truncate_us reading))"

definition inDecisionTx :: "reg_env \<Rightarrow> nat \<Rightarrow> 'a tx \<Rightarrow> 'a tx" where
  "inDecisionTx re k body =
     within_tx (re_tx re k)
       (tx_bind (tx_replace (Wrap ''configure transaction'' (Sentinel RegistrationUnavailable))
                  ConfigureAdministrationTransaction) (\<lambda>configured.
        tx_bind (tx_guard (fst configured \<noteq> ''2s'' \<or> snd configured \<noteq> ''250ms'')
                  (Wrap ''configure transaction'' (Sentinel RegistrationUnavailable))) (\<lambda>_. body)))"

definition lockAdministrator :: "int \<Rightarrow> gotime \<Rightarrow> unit tx" where
  "lockAdministrator actorID at =
     tx_bind (tx_map_error (\<lambda>e. if err_is e NoRows then Sentinel RegistrationDenied
                                else Wrap ''revalidate administrator'' (Sentinel RegistrationUnavailable))
               (LockRegistrationAdministrator actorID (At at))) (\<lambda>locked.
     tx_guard (locked \<noteq> actorID) (Wrap ''revalidate administrator'' (Sentinel RegistrationUnavailable)))"

text \<open>\<open>if errors.Is(err, pgx.ErrNoRows) \{ return conflict \}\<close>, any other error replaced.\<close>

definition conflict_or :: "string \<Rightarrow> go_error \<Rightarrow> go_error" where
  "conflict_or msg e =
     (if err_is e NoRows then Sentinel RegistrationConflict else Wrap msg (Sentinel RegistrationUnavailable))"

definition validRegistrationReason :: "string \<Rightarrow> bool" where
  "validRegistrationReason reason \<longleftrightarrow>
     length reason \<ge> 1 \<and> length reason \<le> 2000 \<and> valid_utf8 reason \<and> rune_count reason \<le> 2000 \<and>
     is_trimmed reason \<and> \<not> has_control reason"

definition registrationReference :: "hmac_fn \<Rightarrow> bytes \<Rightarrow> int \<Rightarrow> string" where
  "registrationReference hmac key i =
     raw_url_encode (hmac key (string_bytes ''gotth-bb/pending-registration-audit/v1'' @ [0] @ int64_bytes i))"

text \<open>The text of the subject column; the nil UUID has none.\<close>

definition row_subject :: "registration_row \<Rightarrow> string option" where
  "row_subject r = (if pn_subject r = ''00000000-0000-0000-0000-000000000000'' then None else Some (pn_subject r))"

subsection \<open>Decisions\<close>

datatype decision = Approve | Reject | OtherDecision

record decision_input =
  di_registration :: int
  di_revision :: int
  di_decision :: decision
  di_reason :: string
  di_request :: "int option"

record decision_names =
  dn_required :: string
  dn_terminal :: string
  dn_request :: string
  dn_complete :: string

record decision_result =
  dc_status :: string
  dc_revision :: int
  dc_audit :: int

fun names_of :: "decision \<Rightarrow> decision_names option" where
  "names_of Approve =
     Some \<lparr>dn_required = ''approval_required'', dn_terminal = ''approved'', dn_request = ''request_registration_approval'',
           dn_complete = ''approve_registration''\<rparr>"
| "names_of Reject =
     Some \<lparr>dn_required = ''rejection_required'', dn_terminal = ''rejected'', dn_request = ''request_registration_rejection'',
           dn_complete = ''reject_registration''\<rparr>"
| "names_of OtherDecision = None"

definition validateDecisionBoundary ::
  "reg_env \<Rightarrow> access_context \<Rightarrow> decision_input \<Rightarrow> bytes \<Rightarrow> go_error + decision_names" where
  "validateDecisionBoundary re actor x key =
     (if \<not> re_context_given re \<or> re_gateway re = None \<or> re_clock re = None \<or> \<not> CanAdminister actor
      then Inl (Sentinel RegistrationDenied)
      else case te_context_error (re_tx re 0) of
        Some e \<Rightarrow> Inl (Wrap ''registration decision context'' e)
      | None \<Rightarrow>
          if di_registration x \<le> 0 \<or> di_revision x \<le> 0 \<or> request_invalid (di_request x) \<or> zero_key key \<or>
             \<not> validRegistrationReason (di_reason x)
          then Inl (Sentinel RegistrationInput)
          else case names_of (di_decision x) of
                 None \<Rightarrow> Inl (Sentinel RegistrationInput)
               | Some names \<Rightarrow> Inr names)"

text \<open>The intent: the subject, the revision of the phase, and whether the decision was complete already.\<close>

definition decide_intent ::
  "int \<Rightarrow> gotime \<Rightarrow> decision_names \<Rightarrow> decision_input \<Rightarrow> string \<Rightarrow> registration_row \<Rightarrow> string \<Rightarrow> (string \<times> int \<times> bool) tx"
where
  "decide_intent actorID at names x reference row subject =
     (if pn_status row = dn_terminal names \<and> pn_request row = di_request x \<and> pn_request row \<noteq> None
      then tx_return (subject, pn_revision row, True)
      else if pn_status row = dn_required names \<and> pn_request row = di_request x \<and> pn_request row \<noteq> None
      then tx_return (subject, pn_revision row, False)
      else if pn_status row \<noteq> ''pending'' \<or> pn_revision row \<noteq> di_revision x
      then tx_fail (Sentinel RegistrationConflict)
      else
        tx_bind (tx_map_error (conflict_or ''persist registration intent'')
                  (BeginPendingRegistrationDecision (dn_required names) (di_request x) (di_registration x)
                     (di_revision x) actorID (dn_request names) (di_reason x) reference (At at))) (\<lambda>(changed, audit).
        tx_bind (tx_guard (pn_status changed \<noteq> dn_required names \<or> pn_revision changed \<noteq> di_revision x + 1 \<or>
                           audit \<le> 0)
                  (Wrap ''persist registration intent'' (Sentinel RegistrationUnavailable))) (\<lambda>_.
        tx_return (subject, pn_revision changed, False))))"

definition decide_begin_body ::
  "int \<Rightarrow> gotime \<Rightarrow> decision_names \<Rightarrow> decision_input \<Rightarrow> string \<Rightarrow> (string \<times> int \<times> bool) tx" where
  "decide_begin_body actorID at names x reference =
     tx_bind (lockAdministrator actorID at) (\<lambda>_.
     tx_bind (tx_map_error (\<lambda>e. if err_is e NoRows then Sentinel RegistrationConflict
                                else Wrap ''lock pending registration'' e)
               (LockPendingRegistration (di_registration x))) (\<lambda>row.
     case row_subject row of
       None \<Rightarrow> tx_fail (Wrap ''malformed pending registration'' (Sentinel RegistrationUnavailable))
     | Some subject \<Rightarrow>
         tx_bind (tx_guard (pn_user_id row \<le> 0 \<or> pn_revision row \<le> 0)
                   (Wrap ''malformed pending registration'' (Sentinel RegistrationUnavailable))) (\<lambda>_.
         decide_intent actorID at names x reference row subject)))"

definition decide_begin ::
  "reg_env \<Rightarrow> nat \<Rightarrow> int \<Rightarrow> gotime \<Rightarrow> decision_names \<Rightarrow> decision_input \<Rightarrow> string \<Rightarrow> (string \<times> int \<times> bool) tx" where
  "decide_begin re k actorID at names x reference =
     tx_wrap ''begin registration decision''
       (inDecisionTx re k (decide_begin_body actorID at names x reference))"

definition recordDecisionFailure ::
  "reg_env \<Rightarrow> nat \<Rightarrow> int \<Rightarrow> decision_input \<Rightarrow> decision_names \<Rightarrow> string \<Rightarrow> int \<Rightarrow> string \<Rightarrow> gotime \<Rightarrow> unit tx" where
  "recordDecisionFailure re k actorID x names reference phaseRevision failure at =
     inDecisionTx re k
       (tx_bind (tx_map_error (conflict_or ''persist remote failure'')
                  (RecordPendingRegistrationDecisionFailure failure (di_registration x) (dn_required names) (di_request x)
                     phaseRevision actorID (di_reason x) reference (At at))) (\<lambda>(row, audit).
        tx_guard (pn_status row \<noteq> dn_required names \<or> pn_revision row \<noteq> phaseRevision + 1 \<or> audit \<le> 0)
          (Wrap ''persist remote failure'' (Sentinel RegistrationUnavailable))))"

definition decide_record ::
  "int \<Rightarrow> gotime \<Rightarrow> decision_names \<Rightarrow> decision_input \<Rightarrow> string \<Rightarrow> int \<Rightarrow> registration_row \<Rightarrow> decision_result tx" where
  "decide_record actorID at names x reference phaseRevision row =
     (if pn_status row = dn_terminal names \<and> pn_request row = di_request x \<and> pn_request row \<noteq> None
      then tx_return \<lparr>dc_status = pn_status row, dc_revision = pn_revision row, dc_audit = 0\<rparr>
      else if pn_status row \<noteq> dn_required names \<or> \<not> (pn_request row = di_request x \<and> pn_request row \<noteq> None) \<or>
              pn_revision row \<noteq> phaseRevision
      then tx_fail (Sentinel RegistrationConflict)
      else
        tx_bind (tx_map_error (conflict_or ''complete registration decision'')
                  (CompletePendingRegistrationDecision (dn_terminal names) (At at) actorID (di_registration x)
                     (dn_required names) (di_request x) phaseRevision (dn_complete names) (di_reason x) reference))
          (\<lambda>(changed, audit).
        tx_bind (tx_guard (pn_status changed \<noteq> dn_terminal names \<or> pn_revision changed \<noteq> phaseRevision + 1 \<or> audit \<le> 0)
                  (Wrap ''complete registration decision'' (Sentinel RegistrationUnavailable))) (\<lambda>_.
        tx_return \<lparr>dc_status = pn_status changed, dc_revision = pn_revision changed, dc_audit = audit\<rparr>)))"

definition decide_complete_body ::
  "int \<Rightarrow> gotime \<Rightarrow> decision_names \<Rightarrow> decision_input \<Rightarrow> string \<Rightarrow> int \<Rightarrow> decision_result tx" where
  "decide_complete_body actorID at names x reference phaseRevision =
     tx_bind (lockAdministrator actorID at) (\<lambda>_.
     tx_bind (tx_replace (Sentinel RegistrationConflict) (LockPendingRegistration (di_registration x)))
       (decide_record actorID at names x reference phaseRevision))"

definition decide_complete ::
  "reg_env \<Rightarrow> nat \<Rightarrow> int \<Rightarrow> gotime \<Rightarrow> decision_names \<Rightarrow> decision_input \<Rightarrow> string \<Rightarrow> int \<Rightarrow> decision_result tx" where
  "decide_complete re k actorID at names x reference phaseRevision =
     tx_wrap ''complete registration decision''
       (inDecisionTx re k (decide_complete_body actorID at names x reference phaseRevision))"

definition Decide :: "reg_env \<Rightarrow> access_context \<Rightarrow> decision_input \<Rightarrow> bytes \<Rightarrow> decision_result tx" where
  "Decide re actor x key =
     tx_bind (tx_lift (validateDecisionBoundary re actor x key)) (\<lambda>names.
     let reference = registrationReference (re_hmac re) key (di_registration x) in
     tx_bind (tx_lift (observedAt re 0)) (\<lambda>intentAt.
     tx_bind (decide_begin re 0 (ac_user_id actor) intentAt names x reference)
       (\<lambda>(subject, phaseRevision, alreadyComplete).
     if alreadyComplete
     then tx_return \<lparr>dc_status = dn_terminal names, dc_revision = phaseRevision, dc_audit = 0\<rparr>
     else
       let remoteErr = applyRemoteDecision (the (re_gateway re)) (di_decision x = Approve) subject in
       tx_bind (tx_lift (observedAt re 1)) (\<lambda>resultAt.
       case remoteErr of
         Some e \<Rightarrow>
           let failure = remoteFailureClass e in
           tx_bind (tx_map_error (\<lambda>r. Wrap (failure @ ''; record failure'') (Sentinel RegistrationRemote))
                     (recordDecisionFailure re 1 (ac_user_id actor) x names reference phaseRevision failure resultAt)) (\<lambda>_.
           tx_fail (Wrap failure (Sentinel RegistrationRemote)))
       | None \<Rightarrow> decide_complete re 1 (ac_user_id actor) resultAt names x reference phaseRevision))))"

subsection \<open>Adoption\<close>

record adoption_input =
  ad_handle :: string
  ad_reason :: string
  ad_request :: "int option"

record adoption_result =
  ar_registration :: int
  ar_new_revision :: int
  ar_audit :: int
  ar_inserted :: bool

definition adopt_authorize :: "reg_env \<Rightarrow> nat \<Rightarrow> int \<Rightarrow> gotime \<Rightarrow> unit tx" where
  "adopt_authorize re k actorID at =
     tx_wrap ''authorize pending adoption'' (inDecisionTx re k (lockAdministrator actorID at))"

definition adopt_insert_body ::
  "hmac_fn \<Rightarrow> int \<Rightarrow> gotime \<Rightarrow> adoption_input \<Rightarrow> bytes \<Rightarrow> int \<Rightarrow> string \<Rightarrow> string \<Rightarrow> string \<Rightarrow> adoption_result tx" where
  "adopt_insert_body hmac actorID at x key userID subject name email =
     tx_bind (lockAdministrator actorID at) (\<lambda>_.
     tx_bind (tx_map_error (conflict_or ''persist pending adoption'')
               (InsertOrLoadPendingRegistrationAdoption userID subject name email (At at))) (\<lambda>(i, revision, inserted).
     tx_bind (tx_guard (i \<le> 0 \<or> revision \<le> 0)
               (Wrap ''persist pending adoption'' (Sentinel RegistrationUnavailable))) (\<lambda>_.
     if \<not> inserted
     then tx_return \<lparr>ar_registration = i, ar_new_revision = revision, ar_audit = 0, ar_inserted = False\<rparr>
     else
       tx_bind (tx_replace (Wrap ''audit pending adoption'' (Sentinel RegistrationUnavailable))
                 (RecordPendingRegistrationAdoption actorID (ad_reason x) (registrationReference hmac key i) revision
                    (ad_request x) (At at))) (\<lambda>audit.
       tx_bind (tx_guard (audit \<le> 0) (Wrap ''audit pending adoption'' (Sentinel RegistrationUnavailable))) (\<lambda>_.
       tx_return \<lparr>ar_registration = i, ar_new_revision = revision, ar_audit = audit, ar_inserted = True\<rparr>)))))"

definition adopt_insert ::
  "reg_env \<Rightarrow> nat \<Rightarrow> int \<Rightarrow> gotime \<Rightarrow> adoption_input \<Rightarrow> bytes \<Rightarrow> int \<Rightarrow> string \<Rightarrow> string \<Rightarrow> string \<Rightarrow> adoption_result tx" where
  "adopt_insert re k actorID at x key userID subject name email =
     tx_wrap ''adopt pending registration''
       (inDecisionTx re k (adopt_insert_body (re_hmac re) actorID at x key userID subject name email))"

definition Adopt :: "reg_env \<Rightarrow> access_context \<Rightarrow> adoption_input \<Rightarrow> bytes \<Rightarrow> adoption_result tx" where
  "Adopt re actor x key =
     (if \<not> re_context_given re \<or> re_gateway re = None \<or> re_clock re = None \<or> \<not> CanAdminister actor
      then tx_fail (Sentinel RegistrationDenied)
      else if request_invalid (ad_request x) \<or> \<not> validRegistrationReason (ad_reason x) \<or> zero_key key
      then tx_fail (Sentinel RegistrationInput)
      else
        tx_bind (tx_lift (observedAt re 0)) (\<lambda>now.
        case verifyAdoptionHandle (re_hmac re) (ad_handle x) now key of
          Inl e \<Rightarrow> tx_fail (Sentinel RegistrationInput)
        | Inr (userID, subject) \<Rightarrow>
            tx_bind (adopt_authorize re 0 (ac_user_id actor) now) (\<lambda>_.
            case gw_user (the (re_gateway re)) subject of
              Inl e \<Rightarrow> tx_fail (Wrap ''re-fetch pending identity'' (Sentinel RegistrationRemote))
            | Inr st \<Rightarrow>
                (case pendingIdentity re (us_user st) of
                   None \<Rightarrow> tx_fail (Wrap ''pending identity changed'' (Sentinel RegistrationConflict))
                 | Some name \<Rightarrow>
                     tx_bind (tx_guard (ru_id (us_user st) \<noteq> userID \<or> \<not> ru_active (us_user st) \<or> \<not> us_pending st \<or>
                                        us_accepted st \<or> us_suspended st)
                               (Wrap ''pending identity changed'' (Sentinel RegistrationConflict))) (\<lambda>_.
                     tx_bind (tx_lift (observedAt re 1)) (\<lambda>resultAt.
                     adopt_insert re 1 (ac_user_id actor) resultAt x key userID subject name (ru_email (us_user st))))))))"

end
