(* ===== verification/Invitations.thy ===== *)
theory Invitations
  imports RegistrationActions "HOL-Library.Product_Lexorder"
begin

text \<open>
  Invitations to register (\<open>internal/registration/invitation.go\<close>): reserving one under an idempotency key,
  creating it at the provider or adopting the one found there, delivering it, listing and revoking. The
  statements are those of \<open>registration.sql.go\<close>. The mailer and the RFC 3339 text of an expiry are
  parameters.
\<close>

subsection \<open>Statements\<close>

definition invitation_in_order :: "invitation_row \<Rightarrow> bool" where
  "invitation_in_order v \<longleftrightarrow>
     iv_expires_at v > iv_created_at v \<and>
     (case iv_transitioned_at v of None \<Rightarrow> True | Some t \<Rightarrow> t \<ge> iv_created_at v)"

definition change_invitation ::
  "(invitation_row \<Rightarrow> bool) \<Rightarrow> (invitation_row \<Rightarrow> invitation_row) \<Rightarrow> (invitation_row \<Rightarrow> audit_input) \<Rightarrow> tstamp \<Rightarrow>
   (invitation_row \<times> int) tx"
where
  "change_invitation hit change audit stamp =
     statement (\<lambda>db.
       case find hit (db_invitations db) of
         None \<Rightarrow> (Inl (Sentinel NoRows), db)
       | Some v \<Rightarrow>
           if \<not> invitation_in_order (change v) then (Inl (CheckViolation ''registration_invitations_times_ordered''), db)
           else let (i, db1) = insert_audit (audit (change v)) stamp db
                in (Inr (change v, i), db1\<lparr>db_invitations := upd_where hit change (db_invitations db1)\<rparr>))"

text \<open>The row reserved under the key, and whether this statement inserted it.\<close>

definition ReserveRegistrationInvitation ::
  "int \<Rightarrow> string \<Rightarrow> string \<Rightarrow> tstamp \<Rightarrow> tstamp \<Rightarrow> int \<Rightarrow> bytes \<Rightarrow> (invitation_row \<times> bool) tx" where
  "ReserveRegistrationInvitation key name flow expires stamp actor fingerprint =
     statement (\<lambda>db.
       case find (\<lambda>v. iv_key v = key) (db_invitations db) of
         Some v \<Rightarrow> (Inr (v, False), db)
       | None \<Rightarrow>
           let v = \<lparr>iv_key = key, iv_name = name, iv_state = ''creating'', iv_delivery = ''not_requested'', iv_flow = flow,
                    iv_expires_at = expires, iv_created_at = stamp, iv_transitioned_at = None, iv_created_by = actor,
                    iv_revision = 1, iv_fingerprint = fingerprint, iv_failure = None\<rparr>
           in if list_ex (\<lambda>x. iv_name x = name) (db_invitations db)
              then (Inl (UniqueViolation ''registration_invitations_authentik_invitation_name_key''), db)
              else if \<not> invitation_in_order v
              then (Inl (CheckViolation ''registration_invitations_times_ordered''), db)
              else if find_user db actor = None
              then (Inl (ForeignKeyViolation ''registration_invitations_created_by_fkey''), db)
              else (Inr (v, True), db\<lparr>db_invitations := db_invitations db @ [v]\<rparr>))"

definition RecordRegistrationInvitationRequest :: "int \<Rightarrow> string \<Rightarrow> string \<Rightarrow> int option \<Rightarrow> tstamp \<Rightarrow> int tx" where
  "RecordRegistrationInvitationRequest actor reason reference req stamp =
     append_audit (site_audit (ActorUser actor) ''request_create_invitation'' reason
       (InvitationIs reference ''absent'' None None None) (InvitationIs reference ''creating'' (Some 1) None None) req) stamp"

definition open_invitation :: "int \<Rightarrow> int \<Rightarrow> invitation_row \<Rightarrow> bool" where
  "open_invitation key expected v \<longleftrightarrow>
     iv_key v = key \<and> iv_state v \<in> {''creating'', ''unknown''} \<and> iv_revision v = expected \<and> iv_revision v < max_int64"

definition CompleteRegistrationInvitation ::
  "string \<Rightarrow> tstamp \<Rightarrow> int \<Rightarrow> int \<Rightarrow> int \<Rightarrow> string \<Rightarrow> string \<Rightarrow> string \<Rightarrow> string \<Rightarrow> int option \<Rightarrow> (invitation_row \<times> int) tx"
where
  "CompleteRegistrationInvitation delivery stamp key expected actor reason reference previous result req =
     change_invitation (open_invitation key expected)
       (\<lambda>v. v\<lparr>iv_state := ''active'', iv_delivery := delivery, iv_transitioned_at := Some stamp,
             iv_revision := iv_revision v + 1, iv_failure := None\<rparr>)
       (\<lambda>v. site_audit (ActorUser actor) ''create_invitation'' reason
              (InvitationIs reference previous (Some expected) None None)
              (InvitationIs reference ''active'' (Some (iv_revision v)) (Some delivery) (Some result)) req) stamp"

definition RecordRegistrationInvitationFailure ::
  "string \<Rightarrow> tstamp \<Rightarrow> string \<Rightarrow> int \<Rightarrow> int \<Rightarrow> int \<Rightarrow> string \<Rightarrow> string \<Rightarrow> string \<Rightarrow> int option \<Rightarrow> (invitation_row \<times> int) tx"
where
  "RecordRegistrationInvitationFailure delivery stamp failure key expected actor reason reference previous req =
     change_invitation (open_invitation key expected)
       (\<lambda>v. v\<lparr>iv_state := ''unknown'', iv_delivery := delivery, iv_transitioned_at := Some stamp,
             iv_revision := iv_revision v + 1, iv_failure := Some failure\<rparr>)
       (\<lambda>v. site_audit (ActorUser actor) ''record_invitation_result'' reason
              (InvitationIs reference previous (Some expected) None None)
              (InvitationIs reference ''unknown'' (Some (iv_revision v)) (Some delivery) (Some failure)) req) stamp"

text \<open>
  A revocation starts once; asked again at the revision it started from, or at one of the two that follow,
  the row is returned as it stands.
\<close>

definition revocation_candidate :: "int \<Rightarrow> int \<Rightarrow> invitation_row \<Rightarrow> bool" where
  "revocation_candidate key expected v \<longleftrightarrow>
     iv_key v = key \<and>
     (iv_revision v = expected \<and>
        iv_state v \<in> {''creating'', ''active'', ''unknown'', ''revoke_required'', ''revoked'', ''absent''} \<or>
      iv_revision v = expected + 1 \<and> iv_state v = ''revoke_required'' \<or>
      iv_revision v = expected + 2 \<and> iv_state v \<in> {''revoked'', ''absent''})"

definition revocable :: "int \<Rightarrow> int \<Rightarrow> invitation_row \<Rightarrow> bool" where
  "revocable key expected v \<longleftrightarrow>
     iv_key v = key \<and> iv_revision v = expected \<and> iv_state v \<in> {''creating'', ''active'', ''unknown''} \<and>
     iv_revision v < max_int64"

record revocation_row =
  rr_invitation :: invitation_row
  rr_inserted :: bool
  rr_audit :: int

definition BeginRegistrationInvitationRevocation ::
  "int \<Rightarrow> int \<Rightarrow> tstamp \<Rightarrow> int \<Rightarrow> string \<Rightarrow> string \<Rightarrow> int option \<Rightarrow> revocation_row tx" where
  "BeginRegistrationInvitationRevocation key expected stamp actor reason reference req =
     statement (\<lambda>db.
       case find (revocation_candidate key expected) (db_invitations db) of
         None \<Rightarrow> (Inl (Sentinel NoRows), db)
       | Some v \<Rightarrow>
           if \<not> revocable key expected v then (Inr \<lparr>rr_invitation = v, rr_inserted = False, rr_audit = 0\<rparr>, db)
           else
             let change = (\<lambda>x. x\<lparr>iv_state := ''revoke_required'', iv_transitioned_at := Some stamp,
                                iv_revision := iv_revision x + 1, iv_failure := None\<rparr>)
             in if \<not> invitation_in_order (change v)
                then (Inl (CheckViolation ''registration_invitations_times_ordered''), db)
                else
                  let (i, db1) = insert_audit (site_audit (ActorUser actor) ''request_revoke_invitation'' reason
                         (InvitationIs reference (iv_state v) (Some expected) None None)
                         (InvitationIs reference ''revoke_required'' (Some (iv_revision (change v))) None None) req) stamp db
                  in (Inr \<lparr>rr_invitation = change v, rr_inserted = True, rr_audit = i\<rparr>,
                      db1\<lparr>db_invitations := upd_where (revocable key expected) change (db_invitations db1)\<rparr>))"

definition CompleteRegistrationInvitationRevocation ::
  "string \<Rightarrow> tstamp \<Rightarrow> string option \<Rightarrow> int \<Rightarrow> int \<Rightarrow> int \<Rightarrow> string \<Rightarrow> string \<Rightarrow> string \<Rightarrow> string \<Rightarrow> int option \<Rightarrow>
   (invitation_row \<times> int) tx"
where
  "CompleteRegistrationInvitationRevocation resulting stamp failure key expected actor action reason reference result req =
     change_invitation
       (\<lambda>v. iv_key v = key \<and> iv_state v = ''revoke_required'' \<and> iv_revision v = expected \<and> iv_revision v < max_int64)
       (\<lambda>v. v\<lparr>iv_state := resulting, iv_transitioned_at := Some stamp, iv_revision := iv_revision v + 1,
             iv_failure := failure\<rparr>)
       (\<lambda>v. site_audit (ActorUser actor) action reason
              (InvitationIs reference ''revoke_required'' (Some expected) None None)
              (InvitationIs reference resulting (Some (iv_revision v)) None (Some result)) req) stamp"

text \<open>The actor's presence, and the newest 51 invitations.\<close>

definition ListRegistrationInvitationsForAdministration ::
  "int \<Rightarrow> tstamp \<Rightarrow> (bool \<times> invitation_row option) list tx" where
  "ListRegistrationInvitationsForAdministration actor observed =
     select_all (\<lambda>db.
       if \<not> sql_administrator db actor observed then [(False, None)]
       else case take 51 (rev (sort_key (\<lambda>v. (iv_created_at v, iv_key v)) (db_invitations db))) of
              [] \<Rightarrow> [(True, None)]
            | rows \<Rightarrow> map (\<lambda>v. (True, Some v)) rows)"

subsection \<open>Names and fingerprints\<close>

definition invitationName :: "int \<Rightarrow> string" where
  "invitationName k = ''gotth-bb-'' @ hex_encode (uuid_bytes k)"

definition length_prefixed :: "string \<Rightarrow> bytes" where
  "length_prefixed value = be_bytes 4 (of_nat (length value) :: 32 word) @ string_bytes value"

definition invitationFingerprint :: "hmac_fn \<Rightarrow> bytes \<Rightarrow> string \<Rightarrow> string \<Rightarrow> string \<Rightarrow> bool \<Rightarrow> bytes" where
  "invitationFingerprint hmac key email name expires deliver =
     copy_bytes 32 (hmac key
       (string_bytes ''gotth-bb/invitation-request/v1'' @ [0] @ concat (map length_prefixed [email, name, expires]) @
        [if deliver then 1 else 0]))"

definition invitationReference :: "hmac_fn \<Rightarrow> bytes \<Rightarrow> int \<Rightarrow> string" where
  "invitationReference hmac key k =
     raw_url_encode (hmac key (string_bytes ''gotth-bb/invitation-audit/v1'' @ [0] @ uuid_bytes k))"

subsection \<open>Creation\<close>

type_synonym mailer = "string \<Rightarrow> string \<Rightarrow> string \<Rightarrow> gotime \<Rightarrow> string \<times> go_error option"

record inv_env =
  ie_reg :: reg_env
  ie_mailer :: "mailer option"
  ie_rfc3339 :: "gotime \<Rightarrow> string"

record invitation_input =
  ii_email :: string
  ii_display_name :: string
  ii_reason :: string
  ii_expires_at :: gotime
  ii_expires_utc :: bool
  ii_deliver :: bool
  ii_request :: "int option"

record invitation_result =
  ir_status :: string
  ir_delivery :: string
  ir_token :: string
  ir_revision :: int
  ir_audit :: int
  ir_completed :: bool

definition validInvitationInput :: "inv_env \<Rightarrow> gotime \<Rightarrow> invitation_input \<Rightarrow> bytes \<Rightarrow> bool" where
  "validInvitationInput ie now x key \<longleftrightarrow>
     \<not> request_invalid (ii_request x) \<and> \<not> zero_key key \<and> validRegistrationReason (ii_reason x) \<and>
     valid_email (ie_reg ie) (ii_email x) \<and>
     (ii_display_name x = [] \<or> validIntakeText (ii_display_name x) 1 320 80) \<and>
     ii_expires_utc x \<and> ii_expires_at x mod ns_second = 0 \<and>
     \<not> ii_expires_at x < now + 15 * ns_minute \<and> \<not> ii_expires_at x > now + 7 * 24 * ns_hour \<and>
     \<not> (ii_deliver x \<and> ie_mailer ie = None)"

definition create_reserve_body ::
  "int \<Rightarrow> gotime \<Rightarrow> invitation_input \<Rightarrow> int \<Rightarrow> string \<Rightarrow> bytes \<Rightarrow> string \<Rightarrow> (invitation_row \<times> bool) tx" where
  "create_reserve_body actorID now x k flow fingerprint reference =
     tx_bind (lockAdministrator actorID now) (\<lambda>_.
     tx_bind (tx_replace (Wrap ''reserve invitation'' (Sentinel RegistrationUnavailable))
               (ReserveRegistrationInvitation k (invitationName k) flow (At (ii_expires_at x)) (At now) actorID fingerprint))
       (\<lambda>(reserved, inserted).
     tx_bind (if inserted
              then tx_bind (tx_replace (Wrap ''audit invitation request'' (Sentinel RegistrationUnavailable))
                             (RecordRegistrationInvitationRequest actorID (ii_reason x) reference (ii_request x) (At now)))
                     (\<lambda>audit. tx_guard (audit \<le> 0)
                        (Wrap ''audit invitation request'' (Sentinel RegistrationUnavailable)))
              else tx_return ()) (\<lambda>_.
     tx_return (reserved, inserted))))"

definition create_reserve ::
  "reg_env \<Rightarrow> nat \<Rightarrow> int \<Rightarrow> gotime \<Rightarrow> invitation_input \<Rightarrow> int \<Rightarrow> string \<Rightarrow> bytes \<Rightarrow> string \<Rightarrow> (invitation_row \<times> bool) tx" where
  "create_reserve re t actorID now x k flow fingerprint reference =
     tx_wrap ''reserve invitation'' (inDecisionTx re t (create_reserve_body actorID now x k flow fingerprint reference))"

definition invitationMatches :: "remote_invitation \<Rightarrow> string \<Rightarrow> string \<Rightarrow> string \<Rightarrow> gotime \<Rightarrow> bool" where
  "invitationMatches v name email display expires \<longleftrightarrow>
     ri_expires v \<noteq> None \<and> parseCanonicalUUID (ri_uuid v) \<noteq> None \<and> ri_name v = name \<and> ri_email v = email \<and>
     ri_display_name v = display \<and> ri_single_use v \<and> the (ri_expires v) = expires"

text \<open>The invitation at the provider and whether it was found there, or an error.\<close>

definition create_remote :: "inv_env \<Rightarrow> gateway \<Rightarrow> string \<Rightarrow> invitation_input \<Rightarrow> go_error + (remote_invitation \<times> bool)" where
  "create_remote ie gw name x =
     (case gw_create_invitation gw name (ie_rfc3339 ie (ii_expires_at x)) (ii_email x) (ii_display_name x) of
        Inl e \<Rightarrow> Inl e
      | Inr v \<Rightarrow>
          if \<not> invitationMatches v name (ii_email x) (ii_display_name x) (ii_expires_at x)
          then Inl (Sentinel RemoteInvalid) else Inr (v, False))"

definition resolveInvitation ::
  "inv_env \<Rightarrow> gateway \<Rightarrow> string \<Rightarrow> bool \<Rightarrow> invitation_input \<Rightarrow> go_error + (remote_invitation \<times> bool)" where
  "resolveInvitation ie gw name inserted x =
     (if inserted then create_remote ie gw name x
      else case gw_invitations gw of
        Inl e \<Rightarrow> Inl e
      | Inr (found, has_more) \<Rightarrow>
          (case find (\<lambda>v. ri_name v = name) found of
             Some v \<Rightarrow>
               if \<not> invitationMatches v name (ii_email x) (ii_display_name x) (ii_expires_at x)
               then Inl (Sentinel RemoteConflict) else Inr (v, True)
           | None \<Rightarrow> if has_more then Inl (Sentinel RemoteConflict) else create_remote ie gw name x))"

definition classifyInvitationDelivery :: "string \<Rightarrow> go_error option \<Rightarrow> string" where
  "classifyInvitationDelivery delivery e =
     (if e = None \<and> delivery = ''queued'' \<or> e \<noteq> None \<and> (delivery = ''failed'' \<or> delivery = ''unknown'')
      then delivery else ''unknown'')"

definition create_failure ::
  "reg_env \<Rightarrow> nat \<Rightarrow> int \<Rightarrow> invitation_input \<Rightarrow> int \<Rightarrow> invitation_row \<Rightarrow> string \<Rightarrow> string \<Rightarrow> gotime \<Rightarrow> unit tx" where
  "create_failure re t actorID x k reserved reference failure at =
     inDecisionTx re t
       (tx_bind (lockAdministrator actorID at) (\<lambda>_.
        tx_bind (tx_replace (Fail ''record invitation failure'')
                  (RecordRegistrationInvitationFailure ''not_requested'' (At at) failure k (iv_revision reserved) actorID
                     (ii_reason x) reference (iv_state reserved) (ii_request x))) (\<lambda>(row, audit).
        tx_guard (iv_revision row \<noteq> iv_revision reserved + 1 \<or> audit \<le> 0) (Fail ''record invitation failure''))))"

definition create_complete ::
  "reg_env \<Rightarrow> nat \<Rightarrow> int \<Rightarrow> invitation_input \<Rightarrow> int \<Rightarrow> invitation_row \<Rightarrow> string \<Rightarrow> string \<Rightarrow> string \<Rightarrow> string \<Rightarrow> gotime \<Rightarrow>
   invitation_result tx"
where
  "create_complete re t actorID x k reserved reference delivery resultClass token at =
     tx_wrap ''complete invitation''
       (inDecisionTx re t
         (tx_bind (lockAdministrator actorID at) (\<lambda>_.
          tx_bind (tx_map_error (conflict_or ''complete invitation'')
                    (CompleteRegistrationInvitation delivery (At at) k (iv_revision reserved) actorID (ii_reason x)
                       reference (iv_state reserved) resultClass (ii_request x))) (\<lambda>(row, audit).
          tx_bind (tx_guard (iv_revision row \<noteq> iv_revision reserved + 1 \<or> audit \<le> 0)
                    (Wrap ''complete invitation'' (Sentinel RegistrationUnavailable))) (\<lambda>_.
          tx_return \<lparr>ir_status = ''active'', ir_delivery = delivery, ir_token = token, ir_revision = iv_revision row,
                     ir_audit = audit, ir_completed = True\<rparr>)))))"

definition reservation_differs :: "invitation_row \<Rightarrow> int \<Rightarrow> string \<Rightarrow> gotime \<Rightarrow> bytes \<Rightarrow> bool" where
  "reservation_differs v k flow expires fingerprint \<longleftrightarrow>
     (iv_state v \<noteq> ''creating'' \<and> iv_state v \<noteq> ''unknown'') \<or> iv_revision v \<le> 0 \<or> iv_name v \<noteq> invitationName k \<or>
     iv_flow v \<noteq> flow \<or> ts_time (Some (iv_expires_at v)) \<noteq> expires \<or> iv_fingerprint v \<noteq> fingerprint"

definition CreateInvitation ::
  "inv_env \<Rightarrow> access_context \<Rightarrow> invitation_input \<Rightarrow> bytes \<Rightarrow> string \<Rightarrow> invitation_result tx" where
  "CreateInvitation ie actor x key flow =
     (let re = ie_reg ie in
      if \<not> re_context_given re \<or> re_gateway re = None \<or> re_clock re = None \<or> \<not> CanAdminister actor
      then tx_fail (Sentinel RegistrationDenied)
      else
        tx_bind (tx_lift (observedAt re 0)) (\<lambda>now.
        if \<not> validInvitationInput ie now x key \<or> parseCanonicalUUID flow = None
        then tx_fail (Sentinel RegistrationInput)
        else
          let k = the (ii_request x); gw = the (re_gateway re);
              fingerprint = invitationFingerprint (re_hmac re) key (ii_email x) (ii_display_name x)
                              (ie_rfc3339 ie (ii_expires_at x)) (ii_deliver x);
              reference = invitationReference (re_hmac re) key k in
          tx_bind (create_reserve re 0 (ac_user_id actor) now x k flow fingerprint reference) (\<lambda>(reserved, inserted).
          if iv_state reserved \<in> {''active'', ''revoked'', ''absent''}
          then tx_return \<lparr>ir_status = iv_state reserved, ir_delivery = iv_delivery reserved, ir_token = [],
                          ir_revision = iv_revision reserved, ir_audit = 0, ir_completed = True\<rparr>
          else if reservation_differs reserved k flow (ii_expires_at x) fingerprint
          then tx_fail (Sentinel RegistrationConflict)
          else case resolveInvitation ie gw (iv_name reserved) inserted x of
            Inl e \<Rightarrow>
              tx_bind (tx_lift (observedAt re 1)) (\<lambda>failureAt.
              let failure = (if err_is e RemoteConflict then ''operator_required'' else remoteFailureClass e) in
              tx_bind (tx_replace (Wrap ''record failure'' (Sentinel RegistrationUnavailable))
                        (create_failure re 1 (ac_user_id actor) x k reserved reference failure failureAt)) (\<lambda>_.
              tx_fail (Wrap failure (Sentinel RegistrationRemote))))
          | Inr (v, adopted) \<Rightarrow>
              let delivery =
                    (if adopted then ''unknown''
                     else if ii_deliver x
                     then (case the (ie_mailer ie) (ii_email x) (ii_display_name x) (ri_uuid v) (ii_expires_at x) of
                             (d, e) \<Rightarrow> classifyInvitationDelivery d e)
                     else ''not_requested'') in
              tx_bind (tx_lift (observedAt re 1)) (\<lambda>resultAt.
              create_complete re 1 (ac_user_id actor) x k reserved reference delivery
                (if adopted then ''adopted'' else ''created'') (if adopted then [] else ri_uuid v) resultAt))))"

subsection \<open>Revocation\<close>

record revocation_input =
  vi_handle :: string
  vi_reason :: string
  vi_request :: "int option"

record revocation_result =
  vr_status :: string
  vr_result :: string
  vr_revision :: int
  vr_audit :: int
  vr_completed :: bool

text \<open>The state to record, the class of the result and of a failure.\<close>

definition revokeRemoteInvitation :: "gateway \<Rightarrow> string \<Rightarrow> tstamp \<Rightarrow> string \<times> string \<times> string option" where
  "revokeRemoteInvitation gw name expires =
     (let unknown = (\<lambda>c. (''unknown'', c, Some c)); absent = (''absent'', ''already_absent'', None) in
      case gw_invitations gw of
        Inl e \<Rightarrow> unknown (remoteFailureClass e)
      | Inr (found, has_more) \<Rightarrow>
          (case filter (\<lambda>v. ri_name v = name) found of
             [] \<Rightarrow> if has_more then unknown ''operator_required'' else absent
           | [v] \<Rightarrow>
               if ri_expires v = None \<or> \<not> ri_single_use v \<or> the (ri_expires v) \<noteq> ts_time (Some expires)
               then unknown ''operator_required''
               else (case gw_delete_invitation gw (ri_uuid v) of
                 Some e \<Rightarrow> if err_is e RemoteAbsent then absent else unknown (remoteFailureClass e)
               | None \<Rightarrow>
                   (case gw_invitation gw (ri_uuid v) of
                      Inr _ \<Rightarrow> unknown ''remote_conflict''
                    | Inl e \<Rightarrow> if err_is e RemoteAbsent then (''revoked'', ''confirmed'', None)
                               else unknown (remoteFailureClass e)))
           | v # _ \<Rightarrow> unknown ''operator_required''))"

definition revoke_begin ::
  "reg_env \<Rightarrow> nat \<Rightarrow> int \<Rightarrow> gotime \<Rightarrow> revocation_input \<Rightarrow> int \<Rightarrow> int \<Rightarrow> string \<Rightarrow> revocation_row tx" where
  "revoke_begin re t actorID now x k expected reference =
     tx_wrap ''begin invitation revocation''
       (inDecisionTx re t
         (tx_bind (lockAdministrator actorID now) (\<lambda>_.
          tx_bind (tx_map_error (conflict_or ''begin invitation revocation'')
                    (BeginRegistrationInvitationRevocation k expected (At now) actorID (vi_reason x) reference
                       (vi_request x))) (\<lambda>row.
          tx_bind (tx_guard (iv_name (rr_invitation row) = [] \<or> iv_revision (rr_invitation row) \<le> 0 \<or>
                             rr_inserted row \<and> rr_audit row \<le> 0 \<or> \<not> rr_inserted row \<and> rr_audit row \<noteq> 0)
                    (Wrap ''begin invitation revocation'' (Sentinel RegistrationUnavailable))) (\<lambda>_.
          tx_return row)))))"

definition revoke_action :: "string \<Rightarrow> string" where
  "revoke_action resulting =
     (if resulting = ''revoked'' then ''revoke_invitation''
      else if resulting = ''absent'' then ''record_invitation_absent'' else ''record_invitation_result'')"

definition revoke_complete ::
  "reg_env \<Rightarrow> nat \<Rightarrow> int \<Rightarrow> gotime \<Rightarrow> revocation_input \<Rightarrow> int \<Rightarrow> int \<Rightarrow> string \<Rightarrow> string \<times> string \<times> string option \<Rightarrow>
   revocation_result tx"
where
  "revoke_complete re t actorID at x k expected reference outcome =
     tx_wrap ''complete invitation revocation''
       (inDecisionTx re t
         (tx_bind (lockAdministrator actorID at) (\<lambda>_.
          tx_bind (tx_map_error (conflict_or ''complete invitation revocation'')
                    (CompleteRegistrationInvitationRevocation (fst outcome) (At at) (snd (snd outcome)) k expected actorID
                       (revoke_action (fst outcome)) (vi_reason x) reference (fst (snd outcome)) (vi_request x)))
            (\<lambda>(row, audit).
          tx_bind (tx_guard (iv_revision row \<noteq> expected + 1 \<or> audit \<le> 0)
                    (Wrap ''complete invitation revocation'' (Sentinel RegistrationUnavailable))) (\<lambda>_.
          tx_return \<lparr>vr_status = fst outcome, vr_result = fst (snd outcome), vr_revision = iv_revision row,
                     vr_audit = audit, vr_completed = (fst outcome = ''revoked'' \<or> fst outcome = ''absent'')\<rparr>)))))"

definition RevokeInvitation :: "reg_env \<Rightarrow> access_context \<Rightarrow> revocation_input \<Rightarrow> bytes \<Rightarrow> revocation_result tx" where
  "RevokeInvitation re actor x key =
     (if \<not> re_context_given re \<or> re_gateway re = None \<or> re_clock re = None \<or> zero_key key \<or> \<not> CanAdminister actor
      then tx_fail (Sentinel RegistrationDenied)
      else if request_invalid (vi_request x) \<or> \<not> validRegistrationReason (vi_reason x)
      then tx_fail (Sentinel RegistrationInput)
      else
        tx_bind (tx_lift (observedAt re 0)) (\<lambda>now.
        case verifyInvitationHandle (re_hmac re) (vi_handle x) now key of
          Inl e \<Rightarrow> tx_fail (Sentinel RegistrationInput)
        | Inr (k, expected) \<Rightarrow>
            let reference = invitationReference (re_hmac re) key k in
            tx_bind (revoke_begin re 0 (ac_user_id actor) now x k expected reference) (\<lambda>row.
            let v = rr_invitation row in
            if iv_state v = ''revoked'' \<or> iv_state v = ''absent''
            then tx_return \<lparr>vr_status = iv_state v, vr_result = ''completed'', vr_revision = iv_revision v, vr_audit = 0,
                            vr_completed = True\<rparr>
            else if iv_state v \<noteq> ''revoke_required'' then tx_fail (Sentinel RegistrationConflict)
            else
              let outcome = revokeRemoteInvitation (the (re_gateway re)) (iv_name v) (iv_expires_at v) in
              tx_bind (tx_lift (observedAt re 1)) (\<lambda>resultAt.
              tx_bind (revoke_complete re 1 (ac_user_id actor) resultAt x k (iv_revision v) reference outcome) (\<lambda>result.
              if vr_status result = ''unknown''
              then tx_fail (Wrap (the (snd (snd outcome))) (Sentinel RegistrationRemote))
              else tx_return result)))))"

subsection \<open>The list\<close>

record invitation_summary =
  iy_name :: string
  iy_status :: string
  iy_delivery :: string
  iy_failure :: string
  iy_handle :: string
  iy_expires_at :: gotime
  iy_created_at :: gotime
  iy_revision :: int

record invitation_page =
  ip_invitations :: "invitation_summary list"
  ip_more :: bool

definition invitation_summary_of :: "invitation_row \<Rightarrow> invitation_summary" where
  "invitation_summary_of v =
     \<lparr>iy_name = iv_name v, iy_status = iv_state v, iy_delivery = iv_delivery v,
      iy_failure = (case iv_failure v of None \<Rightarrow> [] | Some c \<Rightarrow> c), iy_handle = [],
      iy_expires_at = truncate_us (ts_time (Some (iv_expires_at v))),
      iy_created_at = truncate_us (ts_time (Some (iv_created_at v))), iy_revision = iv_revision v\<rparr>"

definition validInvitationSummary :: "invitation_summary \<Rightarrow> bool" where
  "validInvitationSummary s \<longleftrightarrow>
     validIntakeText (iy_name s) 1 200 200 \<and>
     iy_status s \<in> {''creating'', ''active'', ''revoke_required'', ''revoked'', ''absent'', ''unknown''} \<and>
     iy_delivery s \<in> {''not_requested'', ''queued'', ''failed'', ''unknown''} \<and> iy_revision s > 0 \<and>
     iy_expires_at s \<noteq> zero_time \<and> iy_created_at s \<noteq> zero_time \<and> iy_expires_at s > iy_created_at s \<and>
     (iy_failure s = [] \<or> validIntakeText (iy_failure s) 1 128 128)"

text \<open>
  One row after another: the summaries so far, and the provider's invitations no row has accounted for.
\<close>

fun invitation_items ::
  "reg_env \<Rightarrow> gotime \<Rightarrow> bytes \<Rightarrow> nat \<Rightarrow> (bool \<times> invitation_row option) list \<Rightarrow> remote_invitation list \<Rightarrow>
   invitation_summary list \<Rightarrow> go_error + (invitation_summary list \<times> remote_invitation list)"
where
  "invitation_items re now key i [] remote found = Inr (found, remote)"
| "invitation_items re now key i ((present, row) # rows) remote found =
     (let malformed = Inl (Wrap ''malformed invitation page'' (Sentinel RegistrationUnavailable)) in
      if \<not> present then Inl (Sentinel RegistrationDenied)
      else case row of
        None \<Rightarrow> malformed
      | Some v \<Rightarrow>
          if i = 50 then invitation_items re now key (i + 1) rows remote found
          else
            let s = invitation_summary_of v;
                terminal = (iy_status s = ''revoked'' \<or> iy_status s = ''absent'');
                there = find (\<lambda>r. ri_name r = iy_name s) remote in
            if \<not> validInvitationSummary s \<or> iv_key v = 0 then malformed
            else if there \<noteq> None \<and> terminal
            then Inl (Wrap ''terminal invitation remains remote'' (Sentinel RegistrationRemote))
            else if there \<noteq> None \<and> ri_expires (the there) \<noteq> Some (iy_expires_at s)
            then Inl (Wrap ''invitation identity mismatch'' (Sentinel RegistrationRemote))
            else
              let rest = filter (\<lambda>r. ri_name r \<noteq> iy_name s) remote in
              if terminal then invitation_items re now key (i + 1) rows rest (found @ [s])
              else case issueInvitationHandle (re_hmac re) now key (Some (iv_key v)) (iy_revision s) of
                Inl e \<Rightarrow> Inl (Wrap ''issue invitation handle'' (Sentinel RegistrationUnavailable))
              | Inr handle \<Rightarrow>
                  invitation_items re now key (i + 1) rows rest (found @ [s\<lparr>iy_handle := handle\<rparr>]))"

definition malformed_remote :: "remote_invitation \<Rightarrow> bool" where
  "malformed_remote v \<longleftrightarrow>
     ri_expires v = None \<or> parseCanonicalUUID (ri_uuid v) = None \<or> \<not> ri_single_use v \<or> ri_name v = [] \<or>
     ri_expires v = Some zero_time"

definition ListInvitations :: "reg_env \<Rightarrow> access_context \<Rightarrow> gotime \<Rightarrow> bytes \<Rightarrow> invitation_page tx" where
  "ListInvitations re actor now key =
     (if \<not> re_context_given re \<or> re_gateway re = None \<or> zero_key key \<or> \<not> CanAdminister actor
      then tx_fail (Sentinel RegistrationDenied)
      else if te_context_error (re_tx re 0) \<noteq> None \<or> now = zero_time then tx_fail (Sentinel RegistrationInput)
      else
        tx_bind (tx_replace (Wrap ''list invitations'' (Sentinel RegistrationUnavailable))
                  (ListRegistrationInvitationsForAdministration (ac_user_id actor) (At (truncate_us now)))) (\<lambda>rows.
        if rows = [] then tx_fail (Wrap ''list invitations'' (Sentinel RegistrationUnavailable))
        else if \<not> fst (hd rows) then tx_fail (Sentinel RegistrationDenied)
        else if length rows > 51
        then tx_fail (Wrap ''oversized invitation page'' (Sentinel RegistrationUnavailable))
        else if snd (hd rows) = None
        then if length rows \<noteq> 1
             then tx_fail (Wrap ''malformed invitation page'' (Sentinel RegistrationUnavailable))
             else tx_return \<lparr>ip_invitations = [], ip_more = False\<rparr>
        else case gw_invitations (the (re_gateway re)) of
          Inl e \<Rightarrow> tx_fail (Wrap ''reconcile invitations'' (Sentinel RegistrationRemote))
        | Inr (remote, remote_more) \<Rightarrow>
            if length remote > 51 then tx_fail (Wrap ''reconcile invitations'' (Sentinel RegistrationRemote))
            else if list_ex malformed_remote remote
            then tx_fail (Wrap ''malformed remote invitation'' (Sentinel RegistrationRemote))
            else if \<not> distinct (map ri_name remote)
            then tx_fail (Wrap ''duplicate remote invitation'' (Sentinel RegistrationRemote))
            else
              let has_more = (length rows = 51 \<or> remote_more) in
              (case invitation_items re now key 0 rows remote [] of
                 Inl e \<Rightarrow> tx_fail e
               | Inr (found, rest) \<Rightarrow>
                   if \<not> has_more \<and> rest \<noteq> []
                   then tx_fail (Wrap ''untracked remote invitation'' (Sentinel RegistrationRemote))
                   else tx_return \<lparr>ip_invitations = found, ip_more = has_more\<rparr>)))"

end
