(* ===== verification/IdentitySync.thy ===== *)
theory IdentitySync
  imports RegistrationActions Suspension "HOL-Library.Product_Lexorder"
begin

text \<open>
  Keeping the identity provider in step with suspensions (\<open>internal/registration/suspension.go\<close> and
  \<open>expiry_reconciliation.go\<close>): a suspension is denied here first and then at the provider, a
  reinstatement is granted at the provider first and then here, a failed attempt can be repeated by an
  administrator, and a worker restores identities whose suspension has run out. The statements are those
  of \<open>identity_reconciliation.sql.go\<close>.
\<close>

subsection \<open>Statements\<close>

definition has_identity :: "forum_db \<Rightarrow> int \<Rightarrow> bool" where
  "has_identity db user \<longleftrightarrow> list_ex (\<lambda>r. id_user_id r = user) (db_identities db)"

definition identity_subject :: "forum_db \<Rightarrow> int \<Rightarrow> string" where
  "identity_subject db user = (case find (\<lambda>r. id_user_id r = user) (db_identities db) of None \<Rightarrow> [] | Some r \<Rightarrow> id_subject r)"

text \<open>A suspension in force at an instant, as the queries test it.\<close>

definition suspension_runs :: "tstamp \<Rightarrow> user_row \<Rightarrow> bool" where
  "suspension_runs observed u \<longleftrightarrow>
     (case u_suspended_at u of None \<Rightarrow> False | Some s \<Rightarrow> s \<le> observed) \<and>
     (case u_suspended_until u of None \<Rightarrow> True | Some e \<Rightarrow> e > observed)"

definition suspension_over :: "tstamp \<Rightarrow> user_row \<Rightarrow> bool" where
  "suspension_over observed u \<longleftrightarrow> (case u_suspended_until u of None \<Rightarrow> False | Some e \<Rightarrow> e \<le> observed)"

definition expiry_reconciler :: audit_actor where
  "expiry_reconciler = ActorOperator ''gotth-bb-expiry-reconciler''"

definition sync_audit ::
  "audit_actor \<Rightarrow> int \<Rightarrow> string \<Rightarrow> string \<Rightarrow> audit_state \<Rightarrow> audit_state \<Rightarrow> int option \<Rightarrow> audit_input" where
  "sync_audit actor user action reason previous resulting req =
     \<lparr>ai_actor = actor, ai_target = TargetUser user, ai_action = action, ai_reason = Some reason,
      ai_previous = previous, ai_resulting = resulting, ai_request = req\<rparr>"

text \<open>
  The shape of these statements: change the account, append the audit rows at the given instant, and answer
  from the row before and after and the new audit identifiers.
\<close>

fun insert_audits :: "audit_input list \<Rightarrow> tstamp \<Rightarrow> forum_db \<Rightarrow> int list \<times> forum_db" where
  "insert_audits [] stamp db = ([], db)"
| "insert_audits (a # as) stamp db =
     (let (i, db1) = insert_audit a stamp db; (is, db2) = insert_audits as stamp db1 in (i # is, db2))"

definition change_account ::
  "(forum_db \<Rightarrow> user_row \<Rightarrow> bool) \<Rightarrow> (user_row \<Rightarrow> user_row) \<Rightarrow> (user_row \<Rightarrow> user_row \<Rightarrow> audit_input list) \<Rightarrow>
   (forum_db \<Rightarrow> user_row \<Rightarrow> int list \<Rightarrow> 'a) \<Rightarrow> tstamp \<Rightarrow> 'a tx"
where
  "change_account hit change audits answer stamp =
     statement (\<lambda>db.
       case find (hit db) (db_users db) of
         None \<Rightarrow> (Inl (Sentinel NoRows), db)
       | Some u \<Rightarrow>
           let (ids, db1) = insert_audits (audits u (change u)) stamp db in
           (Inr (answer db (change u) ids), db1\<lparr>db_users := upd_where (hit db) change (db_users db1)\<rparr>))"

definition LoadSuspendedIdentityTarget :: "int \<Rightarrow> int \<Rightarrow> tstamp \<Rightarrow> (string \<times> string \<times> int) tx" where
  "LoadSuspendedIdentityTarget user expected observed =
     select_one (\<lambda>db.
       if \<not> has_identity db user then None
       else map_option (\<lambda>u. (identity_subject db user, u_sync_state u, u_administration_revision u))
         (find (\<lambda>u. u_id u = user \<and> u_administration_revision u = expected \<and>
                    u_sync_state u = ''removal_required'' \<and> suspension_runs observed u) (db_users db)))"

definition attempted :: "tstamp \<Rightarrow> tstamp option \<Rightarrow> string option \<Rightarrow> user_row \<Rightarrow> user_row" where
  "attempted stamp next_attempt failure u =
     u\<lparr>u_sync_last_attempt_at := Some stamp, u_sync_next_attempt_at := next_attempt, u_sync_failure_class := failure,
       u_administration_revision := u_administration_revision u + 1\<rparr>"

text \<open>The suspension lifted, and the account accepted again.\<close>

definition restored :: "tstamp \<Rightarrow> user_row \<Rightarrow> user_row" where
  "restored stamp u =
     (attempted stamp None None u)\<lparr>u_suspended_at := None, u_suspended_until := None, u_suspension_reason := None,
       u_sync_state := ''accepted'', u_updated_at := max stamp (u_updated_at u)\<rparr>"

text \<open>The revision after a change and the identifier of its audit row.\<close>

definition revised :: "forum_db \<Rightarrow> user_row \<Rightarrow> int list \<Rightarrow> int \<times> int" where
  "revised db v ids = (u_administration_revision v, hd ids)"

definition CompleteIdentityRemoval ::
  "tstamp \<Rightarrow> int \<Rightarrow> int \<Rightarrow> int \<Rightarrow> string \<Rightarrow> int option \<Rightarrow> (int \<times> int) tx" where
  "CompleteIdentityRemoval observed user expected actor reason req =
     change_account
       (\<lambda>db u. u_id u = user \<and> u_sync_state u = ''removal_required'' \<and> u_administration_revision u = expected \<and>
               suspension_runs observed u \<and> u_administration_revision u < max_int64)
       (\<lambda>u. (attempted observed None None u)\<lparr>u_sync_state := ''suspended''\<rparr>)
       (\<lambda>u v. [sync_audit (ActorUser actor) (u_id v) ''reconcile_identity_access'' reason
                 (SyncIs ''removal_required'' expected None)
                 (SyncIs ''suspended'' (u_administration_revision v) (Some ''confirmed'')) req])
       revised observed"

text \<open>An identity to reconcile: its subject, the state it is in, the revision of the attempt and its audit row.\<close>

record begun_sync =
  bs_subject :: string
  bs_state :: string
  bs_revision :: int
  bs_audit :: int

definition begun_of :: "forum_db \<Rightarrow> user_row \<Rightarrow> int list \<Rightarrow> begun_sync" where
  "begun_of db v ids =
     \<lparr>bs_subject = identity_subject db (u_id v), bs_state = u_sync_state v,
      bs_revision = u_administration_revision v, bs_audit = hd ids\<rparr>"

definition BeginManualIdentityReconciliation :: "int \<Rightarrow> tstamp \<Rightarrow> int \<Rightarrow> string \<Rightarrow> int option \<Rightarrow> begun_sync tx" where
  "BeginManualIdentityReconciliation user observed actor reason req =
     change_account
       (\<lambda>db u. u_id u = user \<and> has_identity db user \<and>
               (u_sync_state u = ''removal_required'' \<or> u_sync_state u = ''grant_required'') \<and>
               suspension_runs observed u \<and> u_administration_revision u < max_int64)
       (attempted observed (Some observed) None)
       (\<lambda>u v. [sync_audit (ActorUser actor) (u_id v) ''request_identity_reconciliation'' reason
                 (SyncIs (u_sync_state v) (u_administration_revision v - 1) None)
                 (SyncIs (u_sync_state v) (u_administration_revision v) None) req])
       begun_of observed"

definition RecordIdentityReconciliationFailure ::
  "tstamp \<Rightarrow> tstamp \<Rightarrow> string \<Rightarrow> int \<Rightarrow> string \<Rightarrow> int \<Rightarrow> int \<Rightarrow> string \<Rightarrow> int option \<Rightarrow> (int \<times> int) tx" where
  "RecordIdentityReconciliationFailure observed next_attempt failure user required expected actor reason req =
     change_account
       (\<lambda>db u. u_id u = user \<and> u_sync_state u = required \<and> u_administration_revision u = expected \<and>
               u_administration_revision u < max_int64)
       (attempted observed (Some next_attempt) (Some failure))
       (\<lambda>u v. [sync_audit (ActorUser actor) (u_id v) ''reconcile_identity_access'' reason
                 (SyncIs required expected None)
                 (SyncIs required (u_administration_revision v) (Some failure)) req])
       revised observed"

text \<open>The actor's row has to carry the role the caller claims, be accepted, and neither suspended nor muted.\<close>

definition standing_actor :: "forum_db \<Rightarrow> int \<Rightarrow> string \<Rightarrow> tstamp \<Rightarrow> user_row \<Rightarrow> bool" where
  "standing_actor db actor role observed target \<longleftrightarrow>
     (case find_user db actor of
        None \<Rightarrow> False
      | Some a \<Rightarrow>
          u_role a = role \<and> u_sync_state a = ''accepted'' \<and> sql_unsuspended observed a \<and>
          (case u_muted_until a of None \<Rightarrow> True | Some m \<Rightarrow> m \<le> observed) \<and>
          u_id a \<noteq> u_id target \<and>
          (u_role a = ''administrator'' \<or> u_role a = ''moderator'' \<and> u_role target = ''member''))"

definition BeginIdentityReinstatement ::
  "int \<Rightarrow> string \<Rightarrow> tstamp \<Rightarrow> int \<Rightarrow> string \<Rightarrow> int option \<Rightarrow> begun_sync tx" where
  "BeginIdentityReinstatement actor role observed user reason req =
     change_account
       (\<lambda>db u. u_id u = user \<and> has_identity db user \<and> standing_actor db actor role observed u \<and>
               suspension_runs observed u \<and> u_administration_revision u < max_int64)
       (\<lambda>u. (attempted observed (Some observed) None u)\<lparr>u_sync_state := ''grant_required''\<rparr>)
       (\<lambda>u v. [sync_audit (ActorUser actor) (u_id v) ''request_identity_reinstatement'' reason
                 (SyncIs (u_sync_state u) (u_administration_revision v - 1) None)
                 (SyncIs ''grant_required'' (u_administration_revision v) None) req])
       begun_of observed"

record reinstated =
  rn_user :: int
  rn_revision :: int
  rn_reconciliation_audit :: int
  rn_reinstatement_audit :: int

definition CompleteIdentityReinstatement ::
  "int \<Rightarrow> string \<Rightarrow> tstamp \<Rightarrow> int \<Rightarrow> int \<Rightarrow> string \<Rightarrow> int option \<Rightarrow> reinstated tx" where
  "CompleteIdentityReinstatement actor role observed user expected reason req =
     change_account
       (\<lambda>db u. u_id u = user \<and> standing_actor db actor role observed u \<and> u_sync_state u = ''grant_required'' \<and>
               u_administration_revision u = expected \<and> suspension_runs observed u \<and>
               u_administration_revision u < max_int64)
       (restored observed)
       (\<lambda>u v. [sync_audit (ActorUser actor) (u_id v) ''reconcile_identity_access'' reason
                 (SyncIs ''grant_required'' expected None)
                 (SyncIs ''accepted'' (u_administration_revision v) (Some ''confirmed'')) req,
               sync_audit (ActorUser actor) (u_id v) ''reinstate_user'' reason
                 (SuspendedIs True expected) (SuspendedIs False (u_administration_revision v)) req])
       (\<lambda>db v ids. \<lparr>rn_user = u_id v, rn_revision = u_administration_revision v,
                    rn_reconciliation_audit = hd ids, rn_reinstatement_audit = ids ! 1\<rparr>) observed"

subsection \<open>Statements of the worker\<close>

text \<open>
  The claim holds an advisory lock and skips the rows another transaction has locked: whether the lock was
  free, and which rows are free, are parameters.
\<close>

definition expired_candidate :: "forum_db \<Rightarrow> tstamp \<Rightarrow> (int \<Rightarrow> bool) \<Rightarrow> user_row \<Rightarrow> bool" where
  "expired_candidate db observed free u \<longleftrightarrow>
     has_identity db (u_id u) \<and> suspension_over observed u \<and>
     u_sync_state u \<in> {''suspended'', ''removal_required'', ''grant_required''} \<and>
     (case u_sync_next_attempt_at u of None \<Rightarrow> True | Some t \<Rightarrow> t \<le> observed) \<and>
     u_administration_revision u < max_int64 \<and> free (u_id u)"

text \<open>\<open>ORDER BY authentik_sync_next_attempt_at NULLS FIRST, suspended_until, id\<close>.\<close>

definition claim_order :: "user_row \<Rightarrow> bool \<times> tstamp \<times> tstamp \<times> int" where
  "claim_order u =
     (case u_sync_next_attempt_at u of
        None \<Rightarrow> (False, NegInfinity, the (u_suspended_until u), u_id u)
      | Some t \<Rightarrow> (True, t, the (u_suspended_until u), u_id u))"

record expired_claim =
  ec_user :: int
  ec_subject :: string
  ec_previous :: string
  ec_revision :: int

definition ClaimExpiredIdentityReconciliations ::
  "bool \<Rightarrow> (int \<Rightarrow> bool) \<Rightarrow> tstamp \<Rightarrow> tstamp \<Rightarrow> expired_claim list tx" where
  "ClaimExpiredIdentityReconciliations acquired free observed claim_until =
     statement (\<lambda>db.
       let candidates = (if acquired
             then take 5 (sort_key claim_order (filter (expired_candidate db observed free) (db_users db))) else []);
           change = (\<lambda>u. (attempted observed (Some claim_until) None u)\<lparr>u_sync_state := ''grant_required''\<rparr>)
       in (Inr (map (\<lambda>u. \<lparr>ec_user = u_id u, ec_subject = identity_subject db (u_id u),
                          ec_previous = u_sync_state u, ec_revision = u_administration_revision u + 1\<rparr>)
                  (sort_key u_id candidates)),
           db\<lparr>db_users := upd_where (\<lambda>u. u_id u \<in> set (map u_id candidates)) change (db_users db)\<rparr>))"

definition RecordExpiredIdentityReconciliationRequest ::
  "int \<Rightarrow> string \<Rightarrow> string \<Rightarrow> int \<Rightarrow> int \<Rightarrow> int option \<Rightarrow> tstamp \<Rightarrow> int tx" where
  "RecordExpiredIdentityReconciliationRequest user reason previous previous_revision revision req stamp =
     append_audit (sync_audit expiry_reconciler user ''request_identity_reconciliation'' reason
       (SyncIs previous previous_revision None) (SyncIs ''grant_required'' revision None) req) stamp"

definition CompleteExpiredIdentityReconciliation ::
  "tstamp \<Rightarrow> int \<Rightarrow> int \<Rightarrow> string \<Rightarrow> int option \<Rightarrow> (int \<times> int) tx" where
  "CompleteExpiredIdentityReconciliation observed user expected reason req =
     change_account
       (\<lambda>db u. u_id u = user \<and> u_sync_state u = ''grant_required'' \<and> u_administration_revision u = expected \<and>
               suspension_over observed u \<and> u_administration_revision u < max_int64)
       (restored observed)
       (\<lambda>u v. [sync_audit expiry_reconciler (u_id v) ''reconcile_identity_access'' reason
                 (SyncIs ''grant_required'' expected None)
                 (SyncIs ''accepted'' (u_administration_revision v) (Some ''confirmed'')) req])
       revised observed"

definition RecordExpiredIdentityReconciliationFailure ::
  "tstamp \<Rightarrow> tstamp \<Rightarrow> string \<Rightarrow> int \<Rightarrow> int \<Rightarrow> string \<Rightarrow> int option \<Rightarrow> (int \<times> int) tx" where
  "RecordExpiredIdentityReconciliationFailure observed next_attempt failure user expected reason req =
     change_account
       (\<lambda>db u. u_id u = user \<and> u_sync_state u = ''grant_required'' \<and> u_administration_revision u = expected \<and>
               u_administration_revision u < max_int64)
       (attempted observed (Some next_attempt) (Some failure))
       (\<lambda>u v. [sync_audit expiry_reconciler (u_id v) ''reconcile_identity_access'' reason
                 (SyncIs ''grant_required'' expected None)
                 (SyncIs ''grant_required'' (u_administration_revision v) (Some failure)) req])
       revised observed"

text \<open>The state another change left the account in: its sync state, its revision and the audit row.\<close>

definition RecordExpiredIdentityReconciliationSuperseded ::
  "tstamp \<Rightarrow> int \<Rightarrow> int \<Rightarrow> string \<Rightarrow> int option \<Rightarrow> begun_sync tx" where
  "RecordExpiredIdentityReconciliationSuperseded observed user expected reason req =
     change_account
       (\<lambda>db u. u_id u = user \<and> u_administration_revision u \<noteq> expected)
       (\<lambda>u. u)
       (\<lambda>u v. [sync_audit expiry_reconciler (u_id v) ''reconcile_identity_access'' reason
                 (SyncIs ''grant_required'' expected None)
                 (SyncIs (u_sync_state v) (u_administration_revision v) (Some ''superseded'')) req])
       begun_of observed"

end
