(* ===== verification/IdentityActions.thy ===== *)
theory IdentityActions
  imports IdentitySync
begin

text \<open>
  The services over \<open>IdentitySync\<close> (\<open>internal/registration/suspension.go\<close> and \<open>expiry_reconciliation.go\<close>):
  suspending and reinstating an account with its identity at the provider, the administrator's repetition of
  a failed attempt, and the worker for suspensions that ran out. As for registrations, each transaction is a
  definition of its own, since other requests may come between them; a run is given its transactions, clock
  readings and gateway by \<open>reg_env\<close>. The counts the worker hands out beside an error are not modelled.
\<close>

definition manualReconciliationBackoff :: duration where "manualReconciliationBackoff = ns_minute"
definition expiryClaimLifetime :: duration where "expiryClaimLifetime = ns_minute"
definition expiryRetryBackoff :: duration where "expiryRetryBackoff = ns_minute"

definition sync_unavailable :: "string \<Rightarrow> go_error" where
  "sync_unavailable msg = Wrap msg (Sentinel RegistrationUnavailable)"

text \<open>\<open>conflict_or\<close> with the conflict of user moderation.\<close>

definition moderation_conflict_or :: "string \<Rightarrow> go_error \<Rightarrow> go_error" where
  "moderation_conflict_or msg e =
     (if err_is e NoRows then Sentinel UserModerationConflict else sync_unavailable msg)"

definition validModerationActor :: "access_context \<Rightarrow> bool" where
  "validModerationActor actor \<longleftrightarrow>
     Valid actor \<and> ac_authenticated actor \<and> \<not> ac_suspended actor \<and> ac_muted_until actor = None \<and>
     (ac_role actor = RoleModerator \<or> ac_role actor = RoleAdministrator)"

definition moderationRole :: "role \<Rightarrow> string option" where
  "moderationRole r =
     (if r = RoleModerator then Some ''moderator''
      else if r = RoleAdministrator then Some ''administrator'' else None)"

subsection \<open>A failed attempt on record\<close>

definition recordManualIdentityFailure ::
  "reg_env \<Rightarrow> nat \<Rightarrow> int \<Rightarrow> int \<Rightarrow> string \<Rightarrow> int \<Rightarrow> string \<Rightarrow> int option \<Rightarrow> gotime \<Rightarrow> string \<Rightarrow> unit tx" where
  "recordManualIdentityFailure re k actorID targetID state revision reason req at failure =
     inDecisionTx re k
       (tx_bind (tx_map_error (conflict_or ''record identity reconciliation failure'')
                  (RecordIdentityReconciliationFailure (At at) (At (at + manualReconciliationBackoff)) failure targetID state
                     revision actorID reason req)) (\<lambda>(changed, audit).
        tx_guard (changed \<noteq> revision + 1 \<or> audit \<le> 0) (sync_unavailable ''record identity reconciliation failure'')))"

subsection \<open>Manual reconciliation\<close>

record reconciliation_result =
  ic_user :: int
  ic_revision :: int
  ic_audit :: int
  ic_state :: string

definition reconcile_begin :: "reg_env \<Rightarrow> nat \<Rightarrow> int \<Rightarrow> gotime \<Rightarrow> int \<Rightarrow> string \<Rightarrow> int option \<Rightarrow> begun_sync tx" where
  "reconcile_begin re k actorID now targetID reason req =
     inDecisionTx re k
       (tx_bind (lockAdministrator actorID now) (\<lambda>_.
        tx_bind (tx_map_error (conflict_or ''begin manual identity reconciliation'')
                  (BeginManualIdentityReconciliation targetID (At now) actorID reason req)) (\<lambda>begun.
        tx_bind (tx_guard (bs_revision begun \<le> 1 \<or> bs_audit begun \<le> 0 \<or>
                           (bs_state begun \<noteq> ''removal_required'' \<and> bs_state begun \<noteq> ''grant_required''))
                  (sync_unavailable ''begin manual identity reconciliation'')) (\<lambda>_.
        tx_return begun))))"

definition reconcile_complete ::
  "reg_env \<Rightarrow> nat \<Rightarrow> int \<Rightarrow> gotime \<Rightarrow> int \<Rightarrow> begun_sync \<Rightarrow> string \<Rightarrow> int option \<Rightarrow> reconciliation_result tx" where
  "reconcile_complete re k actorID at targetID begun reason req =
     tx_wrap ''complete manual identity reconciliation''
       (inDecisionTx re k
         (tx_bind (lockAdministrator actorID at) (\<lambda>_.
          if bs_state begun = ''removal_required''
          then
            tx_bind (tx_map_error (conflict_or ''complete manual identity removal'')
                      (CompleteIdentityRemoval (At at) targetID (bs_revision begun) actorID reason req)) (\<lambda>(changed, audit).
            tx_bind (tx_guard (changed \<noteq> bs_revision begun + 1 \<or> audit \<le> 0)
                      (sync_unavailable ''complete manual identity removal'')) (\<lambda>_.
            tx_return \<lparr>ic_user = targetID, ic_revision = changed, ic_audit = audit, ic_state = ''suspended''\<rparr>))
          else
            tx_bind (tx_map_error (conflict_or ''complete manual identity grant'')
                      (CompleteIdentityReinstatement actorID ''administrator'' (At at) targetID (bs_revision begun) reason req))
              (\<lambda>row.
            tx_bind (tx_guard (rn_user row \<noteq> targetID \<or> rn_revision row \<noteq> bs_revision begun + 1 \<or>
                               rn_reconciliation_audit row \<le> 0 \<or> rn_reinstatement_audit row \<le> 0)
                      (sync_unavailable ''complete manual identity grant'')) (\<lambda>_.
            tx_return \<lparr>ic_user = targetID, ic_revision = rn_revision row, ic_audit = rn_reconciliation_audit row,
                       ic_state = ''accepted''\<rparr>)))))"

definition ReconcileIdentity ::
  "reg_env \<Rightarrow> access_context \<Rightarrow> int \<Rightarrow> string \<Rightarrow> int option \<Rightarrow> reconciliation_result tx" where
  "ReconcileIdentity re actor targetID reason req =
     (if \<not> re_context_given re \<or> re_gateway re = None \<or> re_clock re = None \<or> \<not> CanAdminister actor
      then tx_fail (Sentinel RegistrationDenied)
      else if targetID \<le> 0 \<or> targetID = ac_user_id actor \<or> \<not> validRegistrationReason reason \<or> request_invalid req
      then tx_fail (Sentinel RegistrationInput)
      else
        tx_bind (tx_lift (observedAt re 0)) (\<lambda>now.
        tx_bind (reconcile_begin re 0 (ac_user_id actor) now targetID reason req) (\<lambda>begun.
        tx_bind (tx_guard (parseCanonicalUUID (bs_subject begun) = None)
                  (sync_unavailable ''malformed identity subject'')) (\<lambda>_.
        let gw = the (re_gateway re);
            remoteErr = (if bs_state begun = ''removal_required'' then applyIdentityRemoval gw (bs_subject begun)
                         else applyIdentityGrant gw (bs_subject begun)) in
        tx_bind (tx_lift (observedAt re 1)) (\<lambda>completedAt.
        case remoteErr of
          Some e \<Rightarrow>
            tx_bind (recordManualIdentityFailure re 1 (ac_user_id actor) targetID (bs_state begun) (bs_revision begun)
                       reason req completedAt (remoteFailureClass e)) (\<lambda>_.
            tx_fail (Wrap (remoteFailureClass e) (Sentinel RegistrationRemote)))
        | None \<Rightarrow> reconcile_complete re 1 (ac_user_id actor) completedAt targetID begun reason req)))))"

subsection \<open>Suspension and reinstatement\<close>

definition suspend_load :: "reg_env \<Rightarrow> nat \<Rightarrow> gotime \<Rightarrow> int \<Rightarrow> int \<Rightarrow> (string \<times> string \<times> int) tx" where
  "suspend_load re k at targetID revision =
     tx_wrap ''load suspended identity''
       (inDecisionTx re k
         (tx_bind (tx_map_error (conflict_or ''load suspended identity'')
                    (LoadSuspendedIdentityTarget targetID revision (At at))) (\<lambda>target.
          tx_bind (tx_guard (fst (snd target) \<noteq> ''removal_required'' \<or> snd (snd target) \<noteq> revision)
                    (sync_unavailable ''load suspended identity'')) (\<lambda>_.
          tx_return target))))"

definition suspend_complete ::
  "reg_env \<Rightarrow> nat \<Rightarrow> int \<Rightarrow> gotime \<Rightarrow> int \<Rightarrow> int \<Rightarrow> string \<Rightarrow> int option \<Rightarrow> int tx" where
  "suspend_complete re k actorID at targetID revision reason req =
     tx_wrap ''complete identity removal''
       (inDecisionTx re k
         (tx_bind (tx_map_error (conflict_or ''complete identity removal'')
                    (CompleteIdentityRemoval (At at) targetID revision actorID reason req)) (\<lambda>(changed, audit).
          tx_bind (tx_guard (changed \<noteq> revision + 1 \<or> audit \<le> 0) (sync_unavailable ''complete identity removal'')) (\<lambda>_.
          tx_return changed))))"

definition suspendUserWithControl ::
  "reg_env \<Rightarrow> access_context \<Rightarrow> int \<Rightarrow> string \<Rightarrow> int option \<Rightarrow> suspension_result tx" where
  "suspendUserWithControl re actor targetID reason req =
     tx_bind (ChangeUserSuspension (re_tx re 0) (Some (the (re_clock re) 0)) actor targetID True reason req) (\<lambda>suspended.
     tx_bind (tx_lift (observedAt re 1)) (\<lambda>at.
     tx_bind (suspend_load re 1 at targetID (sr_revision suspended)) (\<lambda>(subject, state, revision).
     tx_bind (tx_guard (parseCanonicalUUID subject = None) (sync_unavailable ''malformed identity subject'')) (\<lambda>_.
     let remoteErr = applyIdentityRemoval (the (re_gateway re)) subject in
     tx_bind (tx_lift (observedAt re 2)) (\<lambda>completedAt.
     case remoteErr of
       Some e \<Rightarrow>
         tx_bind (tx_replace (sync_unavailable ''record identity removal failure'')
                   (recordManualIdentityFailure re 2 (ac_user_id actor) targetID ''removal_required'' revision reason req
                      completedAt (remoteFailureClass e))) (\<lambda>_.
         tx_fail (Wrap (remoteFailureClass e) (Sentinel RegistrationRemote)))
     | None \<Rightarrow>
         tx_bind (suspend_complete re 2 (ac_user_id actor) completedAt targetID revision reason req) (\<lambda>changed.
         tx_return (suspended\<lparr>sr_revision := changed\<rparr>)))))))"

definition reinstate_begin ::
  "reg_env \<Rightarrow> nat \<Rightarrow> int \<Rightarrow> string \<Rightarrow> gotime \<Rightarrow> int \<Rightarrow> string \<Rightarrow> int option \<Rightarrow> begun_sync tx" where
  "reinstate_begin re k actorID actorRole at targetID reason req =
     tx_wrap ''begin identity reinstatement''
       (inDecisionTx re k
         (tx_bind (tx_map_error (moderation_conflict_or ''begin identity reinstatement'')
                    (BeginIdentityReinstatement actorID actorRole (At at) targetID reason req)) (\<lambda>begun.
          tx_bind (tx_guard (bs_revision begun \<le> 0 \<or> bs_audit begun \<le> 0)
                    (sync_unavailable ''begin identity reinstatement'')) (\<lambda>_.
          tx_return begun))))"

definition reinstate_complete ::
  "reg_env \<Rightarrow> nat \<Rightarrow> int \<Rightarrow> string \<Rightarrow> gotime \<Rightarrow> int \<Rightarrow> int \<Rightarrow> string \<Rightarrow> int option \<Rightarrow> suspension_result tx" where
  "reinstate_complete re k actorID actorRole at targetID revision reason req =
     tx_wrap ''complete identity reinstatement''
       (inDecisionTx re k
         (tx_bind (tx_map_error (moderation_conflict_or ''complete identity reinstatement'')
                    (CompleteIdentityReinstatement actorID actorRole (At at) targetID revision reason req)) (\<lambda>row.
          tx_bind (tx_guard (rn_user row \<noteq> targetID \<or> rn_revision row \<noteq> revision + 1 \<or>
                             rn_reconciliation_audit row \<le> 0 \<or> rn_reinstatement_audit row \<le> 0)
                    (sync_unavailable ''complete identity reinstatement'')) (\<lambda>_.
          tx_return \<lparr>sr_user = targetID, sr_suspended = False, sr_revision = rn_revision row,
                     sr_audit = rn_reinstatement_audit row\<rparr>))))"

definition reinstateUserWithControl ::
  "reg_env \<Rightarrow> access_context \<Rightarrow> int \<Rightarrow> string \<Rightarrow> int option \<Rightarrow> suspension_result tx" where
  "reinstateUserWithControl re actor targetID reason req =
     tx_bind (tx_lift (observedAt re 0)) (\<lambda>at.
     case moderationRole (ac_role actor) of
       None \<Rightarrow> tx_fail (Sentinel UserModerationDenied)
     | Some actorRole \<Rightarrow>
         tx_bind (reinstate_begin re 0 (ac_user_id actor) actorRole at targetID reason req) (\<lambda>begun.
         tx_bind (tx_guard (parseCanonicalUUID (bs_subject begun) = None)
                   (sync_unavailable ''malformed identity subject'')) (\<lambda>_.
         let remoteErr = applyIdentityGrant (the (re_gateway re)) (bs_subject begun) in
         tx_bind (tx_lift (observedAt re 1)) (\<lambda>completedAt.
         case remoteErr of
           Some e \<Rightarrow>
             tx_bind (tx_replace (sync_unavailable ''record identity grant failure'')
                       (recordManualIdentityFailure re 1 (ac_user_id actor) targetID ''grant_required'' (bs_revision begun)
                          reason req completedAt (remoteFailureClass e))) (\<lambda>_.
             tx_fail (Wrap (remoteFailureClass e) (Sentinel RegistrationRemote)))
         | None \<Rightarrow>
             reinstate_complete re 1 (ac_user_id actor) actorRole completedAt targetID (bs_revision begun) reason req))))"

definition ChangeControlledSuspension ::
  "reg_env \<Rightarrow> access_context \<Rightarrow> int \<Rightarrow> bool \<Rightarrow> string \<Rightarrow> int option \<Rightarrow> suspension_result tx" where
  "ChangeControlledSuspension re actor targetID suspend reason req =
     (if \<not> re_context_given re \<or> re_gateway re = None \<or> re_clock re = None \<or> \<not> validModerationActor actor
      then tx_fail (Sentinel UserModerationDenied)
      else if targetID \<le> 0 \<or> targetID = ac_user_id actor \<or> \<not> validRegistrationReason reason \<or> request_invalid req
      then tx_fail (Sentinel UserModerationInput)
      else if suspend then suspendUserWithControl re actor targetID reason req
      else reinstateUserWithControl re actor targetID reason req)"

subsection \<open>The worker\<close>

definition validIdentitySyncState :: "string \<Rightarrow> bool" where
  "validIdentitySyncState state \<longleftrightarrow>
     state \<in> {''unknown'', ''accepted'', ''removal_required'', ''grant_required'', ''suspended''}"

text \<open>Sixteen random bytes, marked as a UUID of version 4; the source is the bytes it still yields.\<close>

definition randomRequestID :: "bytes \<Rightarrow> int option \<times> bytes" where
  "randomRequestID source =
     (let raw = take 16 source in
      if length raw < 16 \<or> raw = replicate 16 0 then (None, drop 16 source)
      else (Some (uint (be_uint (raw[6 := or (and (raw ! 6) 0x0f) 0x40, 8 := or (and (raw ! 8) 0x3f) 0x80]) :: 128 word)),
            drop 16 source))"

definition expiryReason :: string where "expiryReason = ''Finite suspension expired''"

fun audit_claims :: "gotime \<Rightarrow> expired_claim list \<Rightarrow> bytes \<Rightarrow> (expired_claim \<times> int option) list tx" where
  "audit_claims now [] source = tx_return []"
| "audit_claims now (row # rows) source =
     tx_bind (tx_guard (ec_user row \<le> 0 \<or> ec_revision row \<le> 1 \<or>
                        ec_previous row \<noteq> ''suspended'' \<and> ec_previous row \<noteq> ''removal_required'' \<and>
                        ec_previous row \<noteq> ''grant_required'')
               (sync_unavailable ''malformed expired identity'')) (\<lambda>_.
     tx_bind (tx_guard (parseCanonicalUUID (ec_subject row) = None)
               (sync_unavailable ''malformed expired identity'')) (\<lambda>_.
     case randomRequestID source of
       (None, rest) \<Rightarrow> tx_fail (sync_unavailable ''generate reconciliation request'')
     | (Some req, rest) \<Rightarrow>
         tx_bind (tx_replace (sync_unavailable ''audit expired identity claim'')
                   (RecordExpiredIdentityReconciliationRequest (ec_user row) expiryReason (ec_previous row)
                      (ec_revision row - 1) (ec_revision row) (Some req) (At now))) (\<lambda>audit.
         tx_bind (tx_guard (audit \<le> 0) (sync_unavailable ''audit expired identity claim'')) (\<lambda>_.
         tx_bind (audit_claims now rows rest) (\<lambda>claims. tx_return ((row, Some req) # claims))))))"

definition claim_expired ::
  "reg_env \<Rightarrow> nat \<Rightarrow> bool \<Rightarrow> (int \<Rightarrow> bool) \<Rightarrow> gotime \<Rightarrow> bytes \<Rightarrow> (expired_claim \<times> int option) list tx" where
  "claim_expired re k acquired free now source =
     inDecisionTx re k
       (tx_bind (tx_replace (sync_unavailable ''claim expired identities'')
                  (ClaimExpiredIdentityReconciliations acquired free (At now) (At (now + expiryClaimLifetime)))) (\<lambda>rows.
        tx_bind (tx_guard (length rows > 5) (sync_unavailable ''claim expired identities'')) (\<lambda>_.
        audit_claims now rows source)))"

definition recordExpiredIdentitySuperseded :: "expired_claim \<Rightarrow> int option \<Rightarrow> gotime \<Rightarrow> unit tx" where
  "recordExpiredIdentitySuperseded row req at =
     tx_bind (tx_replace (sync_unavailable ''record superseded expired identity'')
               (RecordExpiredIdentityReconciliationSuperseded (At at) (ec_user row) (ec_revision row) expiryReason req))
       (\<lambda>current.
     tx_guard (bs_revision current \<le> ec_revision row \<or> bs_audit current \<le> 0 \<or> \<not> validIdentitySyncState (bs_state current))
       (sync_unavailable ''record superseded expired identity''))"

text \<open>The outcome of one claim recorded: \<open>True\<close> when another change came first.\<close>

definition settle_claim :: "string \<Rightarrow> expired_claim \<Rightarrow> int option \<Rightarrow> gotime \<Rightarrow> (int \<times> int) tx \<Rightarrow> bool tx" where
  "settle_claim msg row req at recorded =
     tx_try recorded
       (\<lambda>e. if err_is e NoRows
            then tx_bind (recordExpiredIdentitySuperseded row req at) (\<lambda>_. tx_return True)
            else tx_fail (sync_unavailable msg))
       (\<lambda>(changed, audit).
          tx_bind (tx_guard (changed \<noteq> ec_revision row + 1 \<or> audit \<le> 0) (sync_unavailable msg)) (\<lambda>_. tx_return False))"

definition complete_expired :: "reg_env \<Rightarrow> nat \<Rightarrow> expired_claim \<Rightarrow> int option \<Rightarrow> gotime \<Rightarrow> bool tx" where
  "complete_expired re k row req at =
     inDecisionTx re k
       (settle_claim ''complete expired identity'' row req at
         (CompleteExpiredIdentityReconciliation (At at) (ec_user row) (ec_revision row) expiryReason req))"

definition fail_expired :: "reg_env \<Rightarrow> nat \<Rightarrow> expired_claim \<Rightarrow> int option \<Rightarrow> gotime \<Rightarrow> string \<Rightarrow> bool tx" where
  "fail_expired re k row req at failure =
     inDecisionTx re k
       (settle_claim ''record expired identity failure'' row req at
         (RecordExpiredIdentityReconciliationFailure (At at) (At (at + expiryRetryBackoff)) failure (ec_user row)
            (ec_revision row) expiryReason req))"

record expiry_result =
  er_claimed :: nat
  er_completed :: nat
  er_failed :: nat
  er_superseded :: nat

fun settle_claims ::
  "reg_env \<Rightarrow> nat \<Rightarrow> (expired_claim \<times> int option) list \<Rightarrow> expiry_result \<Rightarrow> expiry_result tx" where
  "settle_claims re k [] result = tx_return result"
| "settle_claims re k ((row, req) # claims) result =
     (let remoteErr = applyIdentityGrant (the (re_gateway re)) (ec_subject row) in
      tx_bind (tx_lift (observedAt re k)) (\<lambda>completedAt.
      case remoteErr of
        None \<Rightarrow>
          tx_bind (complete_expired re k row req completedAt) (\<lambda>superseded.
          settle_claims re (k + 1) claims
            (if superseded then result\<lparr>er_superseded := er_superseded result + 1\<rparr>
             else result\<lparr>er_completed := er_completed result + 1\<rparr>))
      | Some e \<Rightarrow>
          tx_bind (fail_expired re k row req completedAt (remoteFailureClass e)) (\<lambda>superseded.
          settle_claims re (k + 1) claims
            (if superseded then result\<lparr>er_superseded := er_superseded result + 1\<rparr>
             else result\<lparr>er_failed := er_failed result + 1\<rparr>))))"

definition ReconcileExpiredSuspensions ::
  "reg_env \<Rightarrow> bool \<Rightarrow> (int \<Rightarrow> bool) \<Rightarrow> bytes option \<Rightarrow> expiry_result tx" where
  "ReconcileExpiredSuspensions re acquired free random =
     (case random of
        None \<Rightarrow> tx_fail (Sentinel RegistrationUnavailable)
      | Some source \<Rightarrow>
          if \<not> re_context_given re \<or> re_gateway re = None \<or> re_clock re = None
          then tx_fail (Sentinel RegistrationUnavailable)
          else
            tx_bind (tx_lift (observedAt re 0)) (\<lambda>now.
            tx_bind (claim_expired re 0 acquired free now source) (\<lambda>claims.
            settle_claims re 1 claims
              \<lparr>er_claimed = length claims, er_completed = 0, er_failed = 0, er_superseded = 0\<rparr>)))"

end
