(* ===== verification/RegistrationLaws.thy ===== *)
theory RegistrationLaws
  imports Invitations IdentityActions
begin

text \<open>
  The interface between the statements of \<open>internal/registration\<close> and a relation on the tables: a relation
  that holds of each of the statements holds of every phase of its services and of the services. A relation
  that does not look at registrations and invitations, allows an audit row to be appended and an account's
  state at the provider to change, holds of all of them.
\<close>

context table_relation
begin

lemmas combinator_rules =
  relates_return relates_fail relates_guard relates_lift relates_clock relates_bind relates_wrap
  relates_replace relates_no_rows relates_map_error relates_try relates_select_one relates_select_all relates_if
  relates_case_prod relates_case_option relates_case_sum relates_within_tx

lemma relates_context_error: "relates R (context_error msg env)"
  unfolding context_error_def by (intro combinator_rules)

lemma relates_inDecisionTx: "relates R m \<Longrightarrow> relates R (inDecisionTx re k m)"
  unfolding inDecisionTx_def ConfigureAdministrationTransaction_def by (intro combinator_rules)

lemma relates_lockAdministrator: "relates R (lockAdministrator actor at)"
  unfolding lockAdministrator_def LockRegistrationAdministrator_def by (intro combinator_rules)

lemmas decision_rules = combinator_rules relates_inDecisionTx relates_lockAdministrator

end

subsection \<open>Calls\<close>

text \<open>Each transaction of these services is a step of its own; a phase of a decision runs once it has been validated.\<close>

datatype registration_call =
    CallIntake reg_env intake
  | CallDecideBegin reg_env nat int gotime decision_input string
  | CallDecideFailure reg_env nat int decision_input string int string gotime
  | CallDecideComplete reg_env nat int gotime decision_input string int
  | CallAdoptInsert reg_env nat int gotime adoption_input bytes int string string string
  | CallInvitationReserve reg_env nat int gotime invitation_input int string bytes string
  | CallInvitationFailure reg_env nat int invitation_input int invitation_row string string gotime
  | CallInvitationComplete reg_env nat int invitation_input int invitation_row string string string string gotime
  | CallRevocationBegin reg_env nat int gotime revocation_input int int string
  | CallRevocationComplete reg_env nat int gotime revocation_input int int string gateway string tstamp
  | CallSyncBegin reg_env nat int gotime int string "int option"
  | CallSyncFailure reg_env nat int int string int string "int option" gotime string
  | CallSyncComplete reg_env nat int gotime int begun_sync string "int option"
  | CallSuspendComplete reg_env nat int gotime int int string "int option"
  | CallReinstateBegin reg_env nat int string gotime int string "int option"
  | CallReinstateComplete reg_env nat int string gotime int int string "int option"
  | CallExpiryClaim reg_env nat bool "int \<Rightarrow> bool" gotime bytes
  | CallExpiryComplete reg_env nat expired_claim "int option" gotime
  | CallExpiryFailure reg_env nat expired_claim "int option" gotime string

definition decided :: "decision_input \<Rightarrow> (decision_names \<Rightarrow> 'a tx) \<Rightarrow> world \<Rightarrow> world" where
  "decided x phase w = (case names_of (di_decision x) of None \<Rightarrow> w | Some names \<Rightarrow> snd (phase names w))"

primrec run_registration :: "registration_call \<Rightarrow> world \<Rightarrow> world" where
  "run_registration (CallIntake re x) w = snd (AcceptIntake re x w)"
| "run_registration (CallDecideBegin re k actor at x ref) w = decided x (\<lambda>n. decide_begin re k actor at n x ref) w"
| "run_registration (CallDecideFailure re k actor x ref rv failure at) w =
     decided x (\<lambda>n. recordDecisionFailure re k actor x n ref rv failure at) w"
| "run_registration (CallDecideComplete re k actor at x ref rv) w =
     decided x (\<lambda>n. decide_complete re k actor at n x ref rv) w"
| "run_registration (CallAdoptInsert re k actor at x key user subject name email) w =
     snd (adopt_insert re k actor at x key user subject name email w)"
| "run_registration (CallInvitationReserve re t actor now x key flow fingerprint ref) w =
     snd (create_reserve re t actor now x key flow fingerprint ref w)"
| "run_registration (CallInvitationFailure re t actor x key reserved ref failure at) w =
     snd (create_failure re t actor x key reserved ref failure at w)"
| "run_registration (CallInvitationComplete re t actor x key reserved ref delivery result token at) w =
     snd (create_complete re t actor x key reserved ref delivery result token at w)"
| "run_registration (CallRevocationBegin re t actor now x key expected ref) w =
     snd (revoke_begin re t actor now x key expected ref w)"
| "run_registration (CallRevocationComplete re t actor at x key expected ref gw name expires) w =
     snd (revoke_complete re t actor at x key expected ref (revokeRemoteInvitation gw name expires) w)"
| "run_registration (CallSyncBegin re k actor now target reason req) w = snd (reconcile_begin re k actor now target reason req w)"
| "run_registration (CallSyncFailure re k actor target state rv reason req at failure) w =
     snd (recordManualIdentityFailure re k actor target state rv reason req at failure w)"
| "run_registration (CallSyncComplete re k actor at target begun reason req) w =
     snd (reconcile_complete re k actor at target begun reason req w)"
| "run_registration (CallSuspendComplete re k actor at target rv reason req) w =
     snd (suspend_complete re k actor at target rv reason req w)"
| "run_registration (CallReinstateBegin re k actor role at target reason req) w =
     snd (reinstate_begin re k actor role at target reason req w)"
| "run_registration (CallReinstateComplete re k actor role at target rv reason req) w =
     snd (reinstate_complete re k actor role at target rv reason req w)"
| "run_registration (CallExpiryClaim re k acquired free now source) w = snd (claim_expired re k acquired free now source w)"
| "run_registration (CallExpiryComplete re k row req at) w = snd (complete_expired re k row req at w)"
| "run_registration (CallExpiryFailure re k row req at failure) w = snd (fail_expired re k row req at failure w)"

subsection \<open>The statements\<close>

definition decision_required :: "string \<Rightarrow> bool" where
  "decision_required st \<longleftrightarrow> st = ''approval_required'' \<or> st = ''rejection_required''"

definition decision_outcome :: "string \<Rightarrow> string \<Rightarrow> bool" where
  "decision_outcome required st \<longleftrightarrow>
     (required, st) \<in> {(''approval_required'', ''approved''), (''rejection_required'', ''rejected'')}"

definition revocation_outcome :: "string \<Rightarrow> bool" where
  "revocation_outcome st \<longleftrightarrow> st = ''revoked'' \<or> st = ''absent'' \<or> st = ''unknown''"

lemma names_of_states:
  "names_of d = Some names \<Longrightarrow>
   decision_required (dn_required names) \<and> decision_outcome (dn_required names) (dn_terminal names)"
  by (cases d) (auto simp: decision_required_def decision_outcome_def)

lemma revokeRemoteInvitation_state: "revocation_outcome (fst (revokeRemoteInvitation gw name expires))"
  by (auto simp: revokeRemoteInvitation_def revocation_outcome_def Let_def split: sum.split list.split option.split)

locale registration_relation = table_relation +
  assumes intake_stmt: "relates R (UpsertPendingRegistrationIntake subject user name email stamp)"
    and adopt_stmt: "relates R (InsertOrLoadPendingRegistrationAdoption user subject name email stamp)"
    and adopt_audit_stmt: "relates R (RecordPendingRegistrationAdoption actor reason reference revision req stamp)"
    and begin_decision_stmt:
      "decision_required required \<Longrightarrow>
       relates R (BeginPendingRegistrationDecision required req i expected actor action reason reference stamp)"
    and complete_decision_stmt:
      "decision_outcome required resulting \<Longrightarrow>
       relates R (CompletePendingRegistrationDecision resulting stamp actor i required req expected action reason reference)"
    and decision_failure_stmt:
      "decision_required required \<Longrightarrow>
       relates R (RecordPendingRegistrationDecisionFailure failure i required req expected actor reason reference stamp)"
    and reserve_stmt: "relates R (ReserveRegistrationInvitation key name flow expires stamp actor fingerprint)"
    and reserve_audit_stmt: "relates R (RecordRegistrationInvitationRequest actor reason reference req stamp)"
    and complete_invitation_stmt:
      "relates R (CompleteRegistrationInvitation delivery stamp key expected actor reason reference previous result req)"
    and invitation_failure_stmt:
      "relates R (RecordRegistrationInvitationFailure delivery stamp failure key expected actor reason reference previous req)"
    and begin_revocation_stmt:
      "relates R (BeginRegistrationInvitationRevocation key expected stamp actor reason reference req)"
    and complete_revocation_stmt:
      "revocation_outcome resulting \<Longrightarrow>
       relates R (CompleteRegistrationInvitationRevocation resulting stamp failure_class key expected actor action reason
                    reference result req)"
    and removal_stmt: "relates R (CompleteIdentityRemoval stamp user expected actor reason req)"
    and begin_manual_stmt: "relates R (BeginManualIdentityReconciliation user stamp actor reason req)"
    and sync_failure_stmt:
      "relates R (RecordIdentityReconciliationFailure stamp later failure user required expected actor reason req)"
    and begin_reinstatement_stmt: "relates R (BeginIdentityReinstatement actor role_name stamp user reason req)"
    and complete_reinstatement_stmt:
      "relates R (CompleteIdentityReinstatement actor role_name stamp user expected reason req)"
    and claim_expired_stmt: "relates R (ClaimExpiredIdentityReconciliations acquired free stamp later)"
    and expired_audit_stmt:
      "relates R (RecordExpiredIdentityReconciliationRequest user reason previous prev_rev revision req stamp)"
    and complete_expired_stmt: "relates R (CompleteExpiredIdentityReconciliation stamp user expected reason req)"
    and expired_failure_stmt:
      "relates R (RecordExpiredIdentityReconciliationFailure stamp later failure user expected reason req)"
    and superseded_stmt: "relates R (RecordExpiredIdentityReconciliationSuperseded stamp user expected reason req)"
begin

lemmas registration_rules =
  intake_stmt adopt_stmt adopt_audit_stmt
  reserve_stmt reserve_audit_stmt complete_invitation_stmt invitation_failure_stmt begin_revocation_stmt removal_stmt
  begin_manual_stmt sync_failure_stmt begin_reinstatement_stmt complete_reinstatement_stmt claim_expired_stmt
  expired_audit_stmt complete_expired_stmt expired_failure_stmt superseded_stmt

lemma relates_AcceptIntake: "relates R (AcceptIntake re x)"
  unfolding AcceptIntake_def Let_def by (intro decision_rules registration_rules relates_context_error)

lemma relates_decide_begin:
  "names_of d = Some names \<Longrightarrow> relates R (decide_begin re k actor at names x reference)"
  unfolding decide_begin_def decide_begin_body_def decide_intent_def LockPendingRegistration_def
  by (intro decision_rules registration_rules begin_decision_stmt) (simp add: names_of_states)

lemma relates_recordDecisionFailure:
  "names_of d = Some names \<Longrightarrow> relates R (recordDecisionFailure re k actor x names reference revision failure at)"
  unfolding recordDecisionFailure_def
  by (intro decision_rules decision_failure_stmt) (simp add: names_of_states)

lemma relates_decide_complete:
  "names_of d = Some names \<Longrightarrow> relates R (decide_complete re k actor at names x reference revision)"
  unfolding decide_complete_def decide_complete_body_def decide_record_def LockPendingRegistration_def
  by (intro decision_rules registration_rules complete_decision_stmt) (simp add: names_of_states)

lemma relates_adopt_insert: "relates R (adopt_insert re k actor at x key user subject name email)"
  unfolding adopt_insert_def adopt_insert_body_def by (intro decision_rules registration_rules)

lemma relates_creation:
  "relates R (create_reserve re t actor now y key flow fingerprint reference)"
  "relates R (create_failure re t actor y key reserved reference failure at)"
  "relates R (create_complete re t actor y key reserved reference delivery result token at)"
  unfolding create_reserve_def create_reserve_body_def create_failure_def create_complete_def
  by (intro decision_rules registration_rules)+

lemma relates_revoke_begin: "relates R (revoke_begin re t actor now z key expected reference)"
  unfolding revoke_begin_def by (intro decision_rules registration_rules)

lemma relates_revoke_complete:
  "revocation_outcome (fst outcome) \<Longrightarrow> relates R (revoke_complete re t actor at z key expected reference outcome)"
  unfolding revoke_complete_def by (intro decision_rules complete_revocation_stmt)

lemma relates_reconciliation:
  "relates R (reconcile_begin re k actor now target reason req)"
  "relates R (recordManualIdentityFailure re k actor target state revision reason req at failure)"
  "relates R (reconcile_complete re k actor at target begun reason req)"
  unfolding reconcile_begin_def recordManualIdentityFailure_def reconcile_complete_def
  by (intro decision_rules registration_rules)+

lemma relates_controlled:
  "relates R (suspend_load re k at target revision)"
  "relates R (suspend_complete re k actor at target revision reason req)"
  "relates R (reinstate_begin re k actor role_name at target reason req)"
  "relates R (reinstate_complete re k actor role_name at target revision reason req)"
  unfolding suspend_load_def suspend_complete_def reinstate_begin_def reinstate_complete_def
    LoadSuspendedIdentityTarget_def
  by (intro decision_rules registration_rules)+

lemma relates_audit_claims: "relates R (audit_claims now rows source)"
  by (induction rows arbitrary: source)
    (unfold audit_claims.simps, (intro decision_rules registration_rules | assumption)+)

lemma relates_settle_claim: "relates R recorded \<Longrightarrow> relates R (settle_claim msg row req at recorded)"
  unfolding settle_claim_def recordExpiredIdentitySuperseded_def by (intro decision_rules registration_rules)

lemma relates_expiry:
  "relates R (claim_expired re k acquired free now source)"
  "relates R (complete_expired re k row req at)"
  "relates R (fail_expired re k row req at failure)"
  unfolding claim_expired_def complete_expired_def fail_expired_def
  by (intro decision_rules registration_rules relates_audit_claims relates_settle_claim)+

lemma decided_relates:
  "(\<And>d names. names_of d = Some names \<Longrightarrow> relates R (phase names)) \<Longrightarrow> R (w_db w) (w_db (decided x phase w))"
  by (auto simp: decided_def R_refl relatesD split: option.split)

lemmas phase_rules =
  relates_AcceptIntake relates_adopt_insert relates_creation relates_revoke_begin
  relates_revoke_complete [OF revokeRemoteInvitation_state] relates_reconciliation relates_controlled relates_expiry

lemma run_registration_relates: "R (w_db w) (w_db (run_registration c w))"
  by (cases c)
    (simp_all add: phase_rules [THEN relatesD] decided_relates relates_decide_begin relates_recordDecisionFailure
      relates_decide_complete)

text \<open>The services, when nothing comes between their phases.\<close>

lemma relates_Decide: "relates R (Decide re actx x key)"
proof (cases "validateDecisionBoundary re actx x key")
  case (Inl e)
  then show ?thesis by (simp add: Decide_def tx_bind_def tx_lift_def relates_def R_refl)
next
  case (Inr names)
  then have names: "names_of (di_decision x) = Some names"
    by (auto simp: validateDecisionBoundary_def split: if_splits option.splits)
  have only: "relates R (tx_bind (tx_lift (Inr names)) f)" if "relates R (f names)"
    for f :: "decision_names \<Rightarrow> decision_result tx"
    using that by (simp add: tx_bind_def tx_lift_def relates_def)
  show ?thesis
    unfolding Decide_def Let_def Inr
    by (rule only)
      (intro decision_rules relates_decide_begin [OF names] relates_recordDecisionFailure [OF names]
        relates_decide_complete [OF names])
qed

lemma relates_Adopt: "relates R (Adopt re actx a key)"
  unfolding Adopt_def adopt_authorize_def by (intro decision_rules relates_adopt_insert)

lemma relates_CreateInvitation: "relates R (CreateInvitation ie actx y key flow)"
  unfolding CreateInvitation_def Let_def by (intro decision_rules relates_creation)

lemma relates_RevokeInvitation: "relates R (RevokeInvitation re actx z key)"
  unfolding RevokeInvitation_def Let_def
  by (intro decision_rules relates_revoke_begin relates_revoke_complete revokeRemoteInvitation_state)

lemma relates_ReconcileIdentity: "relates R (ReconcileIdentity re actx target reason req)"
  unfolding ReconcileIdentity_def Let_def by (intro decision_rules relates_reconciliation)

lemma relates_settle_claims: "relates R (settle_claims re k claims result)"
proof (induction claims arbitrary: k result)
  case Nil
  then show ?case by (simp add: relates_return)
next
  case (Cons c claims)
  then show ?case
    by (cases c) (simp add: Let_def, intro decision_rules relates_expiry, simp_all)
qed

lemma relates_ReconcileExpiredSuspensions: "relates R (ReconcileExpiredSuspensions re acquired free random)"
  unfolding ReconcileExpiredSuspensions_def by (intro decision_rules relates_expiry relates_settle_claims)

end

subsection \<open>Relations that do not look at these tables\<close>

text \<open>What these statements may change of an account.\<close>

definition sync_touched :: "user_row \<Rightarrow> user_row \<Rightarrow> bool" where
  "sync_touched u v \<longleftrightarrow>
     u_id v = u_id u \<and> u_role v = u_role u \<and> u_display_name v = u_display_name u \<and> u_muted_until v = u_muted_until u \<and>
     u_window_started_at v = u_window_started_at u \<and> u_publication_count v = u_publication_count u \<and>
     u_created_at v = u_created_at u \<and> u_administration_revision u \<le> u_administration_revision v"

lemma sync_touched_attempted:
  "sync_touched u u" "sync_touched u (attempted stamp later failure u)"
  "sync_touched u ((attempted stamp later failure u)\<lparr>u_sync_state := st\<rparr>)" "sync_touched u (restored stamp u)"
  by (simp_all add: sync_touched_def attempted_def restored_def)

text \<open>The statements whose effect is that of one of the shapes.\<close>

lemmas registration_shapes =
  RecordPendingRegistrationAdoption_def BeginPendingRegistrationDecision_def
  CompletePendingRegistrationDecision_def RecordPendingRegistrationDecisionFailure_def
  RecordRegistrationInvitationRequest_def CompleteRegistrationInvitation_def
  RecordRegistrationInvitationFailure_def CompleteRegistrationInvitationRevocation_def
  CompleteIdentityRemoval_def BeginManualIdentityReconciliation_def RecordIdentityReconciliationFailure_def
  BeginIdentityReinstatement_def CompleteIdentityReinstatement_def
  RecordExpiredIdentityReconciliationRequest_def CompleteExpiredIdentityReconciliation_def
  RecordExpiredIdentityReconciliationFailure_def RecordExpiredIdentityReconciliationSuperseded_def

lemmas registration_row_statements =
  UpsertPendingRegistrationIntake_def InsertOrLoadPendingRegistrationAdoption_def ReserveRegistrationInvitation_def
  BeginRegistrationInvitationRevocation_def change_registration_def change_invitation_def append_audit_def

lemma insert_audits_tables:
  "db_users (snd (insert_audits as stamp db)) = db_users db"
  "db_registrations (snd (insert_audits as stamp db)) = db_registrations db"
  "db_invitations (snd (insert_audits as stamp db)) = db_invitations db"
  by (induction as arbitrary: db) (simp_all add: Let_def case_prod_unfold)

locale registration_free = table_relation +
  assumes registrations_free: "R db (db\<lparr>db_registrations := rs\<rparr>)"
    and invitations_free: "R db (db\<lparr>db_invitations := vs\<rparr>)"
    and audit_free: "R db (snd (insert_audit a stamp db))"
    and sync_free: "(\<And>u. sync_touched u (f u)) \<Longrightarrow> R db (db\<lparr>db_users := upd_where p f (db_users db)\<rparr>)"
begin

lemma audits_free: "R db (snd (insert_audits as stamp db))"
proof (induction as arbitrary: db)
  case Nil
  then show ?case by (simp add: R_refl)
next
  case (Cons a as)
  show ?case
    by (simp add: Let_def case_prod_unfold) (rule R_trans [OF audit_free Cons.IH])
qed

lemma relates_append_audit: "relates R (append_audit a stamp)"
  unfolding append_audit_def by (rule relates_statement) (simp add: Let_def case_prod_unfold audit_free)

lemma relates_change_registration: "relates R (change_registration hit change audit stamp)"
  unfolding change_registration_def
  by (rule relates_statement)
    (auto simp: Let_def case_prod_unfold R_refl intro: R_trans [OF audit_free registrations_free] split: option.split)

lemma relates_change_invitation: "relates R (change_invitation hit change audit stamp)"
  unfolding change_invitation_def
  by (rule relates_statement)
    (auto simp: Let_def case_prod_unfold R_refl intro: R_trans [OF audit_free invitations_free] split: option.split)

lemma relates_change_account:
  assumes "\<And>u. sync_touched u (change u)"
  shows "relates R (change_account hit change audits answer stamp)"
  unfolding change_account_def
  by (rule relates_statement)
    (auto simp: Let_def case_prod_unfold R_refl intro: R_trans [OF audits_free sync_free [OF assms]] split: option.split)

lemma nextval_free: "R db (snd (nextval q db))"
  by (simp add: nextval_def R_seqs)

lemma relates_registration_rows:
  "relates R (UpsertPendingRegistrationIntake subject user name email stamp)"
  "relates R (InsertOrLoadPendingRegistrationAdoption user subject name email stamp)"
  unfolding UpsertPendingRegistrationIntake_def InsertOrLoadPendingRegistrationAdoption_def
  by (rule relates_statement,
      auto simp: Let_def case_prod_unfold nextval_free intro: R_trans [OF nextval_free registrations_free]
        split: option.split)+

lemma relates_invitation_rows:
  "relates R (ReserveRegistrationInvitation key inv_name flow expires stamp actor fingerprint)"
  "relates R (BeginRegistrationInvitationRevocation key expected stamp actor reason reference req)"
  unfolding ReserveRegistrationInvitation_def BeginRegistrationInvitationRevocation_def
  by (rule relates_statement,
      auto simp: Let_def case_prod_unfold R_refl invitations_free intro: R_trans [OF audit_free invitations_free]
        split: option.split)+

lemma relates_claim_expired: "relates R (ClaimExpiredIdentityReconciliations acquired free stamp later)"
  unfolding ClaimExpiredIdentityReconciliations_def
  by (rule relates_statement) (simp add: Let_def sync_free sync_touched_attempted)

end

sublocale registration_free \<subseteq> registration_relation
  by (unfold_locales;
      (rule relates_registration_rows relates_invitation_rows relates_claim_expired)?;
      (unfold registration_shapes)?;
      (intro relates_append_audit relates_change_registration relates_change_invitation relates_change_account
        sync_touched_attempted))

end
