(* ===== verification/Board.thy ===== *)
theory Board
  imports Publish Editing Moderation ModerationActions Suspension Reports Unread Identity Governance
    AccountActions AdminSessions ControlledPublish AreaReads RegistrationLaws
begin

text \<open>
  The board as a transition system: one step is one run of one service, under any behaviour of the
  context, the transaction, the clock and the statements. The interface \<open>board_relation\<close> states
  what a relation between tables has to satisfy at the statements that change rows; inside it the
  relation is carried through every service and every sequence of services, once for all relations. A service
  that calls the identity provider between its transactions is a step for each of its transactions.
\<close>

subsection \<open>Calls\<close>

datatype board_call =
    CallCreateTopic publish_env publication_policy access_context string string string
  | CallCreateReply publish_env publication_policy access_context int int string
  | CallCreateTopicWithControl publish_env auth_context control_ceilings access_context string string string
  | CallCreateReplyWithControl publish_env auth_context control_ceilings access_context int int string
  | CallEditPost publish_env "gotime option" access_context int int string
  | CallDeletePost tx_env "gotime option" access_context int int
  | CallGetEditablePost tx_env int access_context
  | CallTopicLock tx_env "gotime option" access_context int bool string "int option"
  | CallTopicVisibility tx_env "gotime option" access_context int bool string "int option"
  | CallExtendedAction tx_env "gotime option" access_context extended_input "int option"
  | CallUserSuspension tx_env "gotime option" access_context int bool string "int option"
  | CallCreateReport tx_env "gotime option" access_context string int string
  | CallProcessReport tx_env "gotime option" access_context int string string "int option"
  | CallTopicPage tx_env access_context int int
  | CallFirstUnread tx_env access_context int
  | CallMarkRead tx_env access_context int
  | CallAuthenticate crypto auth_service auth_context string
  | CallRevoke crypto auth_service auth_context string
  | CallBeginLogin crypto auth_service oidc_provider auth_context string
  | CallBeginRevalidation crypto auth_service oidc_provider auth_context int string
  | CallCompleteLogin crypto auth_service oidc_provider auth_context tx_env string string
  | CallCompleteRevalidation crypto auth_service oidc_provider auth_context tx_env string string string
  | CallBootstrap tx_env "gotime option" string string string "int option"
  | CallClaim tx_env "gotime option" int int string string "int option"
  | CallRebind tx_env "gotime option" string string string string string "int option"
  | CallCreateGroup admin_env "gotime option" access_context string string "int option"
  | CallRenameGroup admin_env "gotime option" access_context int string string int "int option"
  | CallMembership admin_env "gotime option" access_context int int bool string int "int option"
  | CallRole tx_env "gotime option" access_context int role role string int "int option"
  | CallRevokeOne tx_env "gotime option" access_context int int string "int option"
  | CallRevokeAll tx_env "gotime option" access_context int int string "int option"
  | CallUpdateControl "bytes \<Rightarrow> bytes" tx_env "gotime option" access_context control_input control_ceilings "int option"
  | CallCreateArea tx_env "gotime option" access_context area_input "int option"
  | CallUpdateArea tx_env "gotime option" access_context int area_input "int option"
  | CallCreateAreaCore "bytes \<Rightarrow> bytes" admin_env "gotime option" access_context area_core_input "int option"
  | CallUpdateAreaCore "bytes \<Rightarrow> bytes" admin_env "gotime option" access_context int area_core_input "int option"
  | CallAreaGroup admin_env "gotime option" access_context int int bool string int "int option"
  | CallRegistration registration_call

primrec run_call :: "board_call \<Rightarrow> world \<Rightarrow> world" where
  "run_call (CallCreateTopic env p actor slug title md) w = snd (CreateTopic env p actor slug title md w)"
| "run_call (CallCreateReply env p actor topic parent md) w = snd (CreateReply env p actor topic parent md w)"
| "run_call (CallCreateTopicWithControl env cx ceilings actor slug title md) w =
     snd (CreateTopicWithControl env cx ceilings actor slug title md w)"
| "run_call (CallCreateReplyWithControl env cx ceilings actor topic parent md) w =
     snd (CreateReplyWithControl env cx ceilings actor topic parent md w)"
| "run_call (CallEditPost env clock actor post rv md) w = snd (EditPost env clock actor post rv md w)"
| "run_call (CallDeletePost env clock actor post rv) w = snd (DeletePost env clock actor post rv w)"
| "run_call (CallGetEditablePost env post actor) w = snd (GetEditablePost env post actor w)"
| "run_call (CallTopicLock env clock actor topic lock reason req) w =
     snd (ChangeTopicLock env clock actor topic lock reason req w)"
| "run_call (CallTopicVisibility env clock actor topic hide reason req) w =
     snd (ChangeTopicVisibility env clock actor topic hide reason req w)"
| "run_call (CallExtendedAction env clock actor input req) w =
     snd (ApplyExtendedAction env clock actor input req w)"
| "run_call (CallUserSuspension env clock actor target suspend reason req) w =
     snd (ChangeUserSuspension env clock actor target suspend reason req w)"
| "run_call (CallCreateReport env clock actor target i reason) w =
     snd (CreateReport env clock actor target i reason w)"
| "run_call (CallProcessReport env clock actor i action body req) w =
     snd (ProcessReport env clock actor i action body req w)"
| "run_call (CallTopicPage env actor topic page) w = snd (LoadVisibleTopicPostPage env actor topic page w)"
| "run_call (CallFirstUnread env actor topic) w = snd (FirstUnread env actor topic w)"
| "run_call (CallMarkRead env actor topic) w = snd (MarkTopicRead env actor topic w)"
| "run_call (CallAuthenticate C sv cx token) w = snd (AuthenticateSession C sv cx token w)"
| "run_call (CallRevoke C sv cx token) w = snd (RevokeSession C sv cx token w)"
| "run_call (CallBeginLogin C sv P cx path) w = snd (BeginInitialLogin C sv P cx path w)"
| "run_call (CallBeginRevalidation C sv P cx session path) w = snd (BeginRevalidation C sv P cx session path w)"
| "run_call (CallCompleteLogin C sv P cx env state code) w = snd (CompleteInitialLogin C sv P cx env state code w)"
| "run_call (CallCompleteRevalidation C sv P cx env state code token) w =
     snd (CompleteRevalidation C sv P cx env state code token w)"
| "run_call (CallBootstrap env clock issuer subject operator req) w =
     snd (BootstrapAdministrator env clock issuer subject operator req w)"
| "run_call (CallClaim env clock user session issuer subject req) w =
     snd (ClaimInitialAdministrator env clock user session issuer subject req w)"
| "run_call (CallRebind env clock old_issuer old_subject new_issuer new_subject operator req) w =
     snd (RebindExternalIdentity env clock old_issuer old_subject new_issuer new_subject operator req w)"
| "run_call (CallCreateGroup ad clock actor name reason req) w = snd (CreateGroup ad clock actor name reason req w)"
| "run_call (CallRenameGroup ad clock actor gid name reason rv req) w =
     snd (RenameGroup ad clock actor gid name reason rv req w)"
| "run_call (CallMembership ad clock actor target gid grant reason rv req) w =
     snd (ChangeGroupMembership ad clock actor target gid grant reason rv req w)"
| "run_call (CallRole env clock actor target role expected reason rv req) w =
     snd (ChangeAccountRole env clock actor target role expected reason rv req w)"
| "run_call (CallRevokeOne env clock actor target session reason req) w =
     snd (RevokeOneSession env clock actor target session reason req w)"
| "run_call (CallRevokeAll env clock actor target rv reason req) w =
     snd (RevokeAllSessions env clock actor target rv reason req w)"
| "run_call (CallUpdateControl sha env clock actor input c req) w = snd (Update sha env clock actor input c req w)"
| "run_call (CallCreateArea env clock actor x req) w = snd (CreateArea env clock actor x req w)"
| "run_call (CallUpdateArea env clock actor area x req) w = snd (UpdateArea env clock actor area x req w)"
| "run_call (CallCreateAreaCore sha ad clock actor x req) w = snd (CreateAreaCompletion sha ad clock actor x req w)"
| "run_call (CallUpdateAreaCore sha ad clock actor area x req) w =
     snd (UpdateAreaCompletion sha ad clock actor area x req w)"
| "run_call (CallAreaGroup ad clock actor area gid grant reason rv req) w =
     snd (ChangeAreaGroup ad clock actor area gid grant reason rv req w)"
| "run_call (CallRegistration c) w = run_registration c w"

text \<open>One call, and any sequence of calls, each with a world of its own around the tables.\<close>

inductive board_step :: "forum_db \<Rightarrow> forum_db \<Rightarrow> bool" where
  call: "board_step (w_db w) (w_db (run_call c w))"

inductive_cases board_stepE: "board_step db db'"

definition board_run :: "forum_db \<Rightarrow> forum_db \<Rightarrow> bool" where
  "board_run = board_step\<^sup>*\<^sup>*"

subsection \<open>The interface\<close>

text \<open>The four transitions between topic states the services offer.\<close>

definition state_change :: "string \<Rightarrow> string \<Rightarrow> bool" where
  "state_change prev st \<longleftrightarrow>
     (prev, st) \<in> {(TopicOpen, TopicLocked), (TopicLocked, TopicOpen), (TopicOpen, TopicHidden), (TopicHidden, TopicOpen)}"

locale statement_relation = registration_relation +
  assumes window: "relates R (ReplacePublicationWindow started count user)"
    and new_topic_stmt: "relates R (CreateTopicAndFirstPost area author title search stamp body)"
    and new_reply_stmt: "relates R (CreateReplyAndAdvanceTopic author body parent stamp topic)"
    and edit_stmt: "relates R (UpdatePostRevision body stamp post expected)"
    and delete_stmt: "relates R (SoftDeletePost stamp author post expected)"
    and state_stmt:
      "state_change prev st \<Longrightarrow> relates R (ChangeTopicStateAndAudit st stamp topic prev actor action reason req)"
    and pin_stmt: "relates R (ChangeTopicPinAndAudit pin stamp topic prevpin actor action reason req)"
    and move_stmt: "relates R (MoveTopicAndAudit area stamp topic prevarea actor reason req)"
    and visibility_stmt:
      "relates R (ChangePostVisibilityAndAudit at by why stamp post prevat actor action reason prevby req)"
    and redact_stmt: "relates R (RedactPostAndAudit stamp actor reason post rv req)"
    and warn_stmt: "relates R (WarnUserAndAudit user actor reason stamp req)"
    and mute_stmt: "relates R (MuteUserAndAudit until stamp user observed actor reason prevat req)"
    and insert_report_stmt: "relates R (insert_report visible reporter otopic opost ouser reason stamp)"
    and claim_stmt: "relates R (ClaimReportAndAudit actor stamp report req)"
    and note_stmt: "relates R (AddReportNoteAndAudit report actor text_body stamp req)"
    and finish_stmt:
      "status = ''resolved'' \<or> status = ''dismissed'' \<Longrightarrow>
       relates R (FinishReportAndAudit status resolution actor stamp report action req)"
    and mark_stmt: "relates R (MarkTopicReadBoundary topic staff groups user)"
    and touch_stmt: "relates R (TouchSession observed session touch_before)"
    and revoke_stmt: "relates R (query_RevokeSession h observed)"
    and attempt_stmt: "relates R (InsertOIDCLoginAttempt a)"
    and consume_stmt: "relates R (ConsumeOIDCLoginAttempt consumed h)"
    and new_user_stmt: "relates R (InsertUser claims stamp)"
    and new_identity_stmt: "relates R (InsertExternalIdentity user issuer subject stamp)"
    and profile_stmt: "relates R (UpdateUserFromOIDC claims stamp user)"
    and verified_stmt: "relates R (UpdateExternalIdentityVerification stamp user)"
    and new_session_stmt: "relates R (InsertSession h user issued expires)"
    and rotation_stmt: "relates R (RevokeSessionForRotation session h observed)"
    and bootstrap_stmt: "relates R (BootstrapAdministratorAndAudit user stamp operator req)"
    and claim_admin_stmt: "relates R (ClaimInitialAdministratorAndAudit session user stamp issuer subject req)"
    and rebind_stmt:
      "relates R (RebindExternalIdentityAndAudit issuer subject new_issuer new_subject stamp operator req)"
    and new_group_stmt: "relates R (CreateAdministrationGroupAndAudit lower name actor stamp reason req)"
    and rename_group_stmt:
      "relates R (RenameAdministrationGroupAndAudit lower name stamp gid expected actor reason previous req)"
    and grant_stmt: "relates R (GrantAdministrationMembershipAndAudit gid user actor stamp expected reason req)"
    and ungrant_stmt: "relates R (RevokeAdministrationMembershipAndAudit gid user stamp expected actor reason req)"
    and revoke_listed_stmt: "relates R (revoke_listed now user chosen enough action actor reason req)"
    and control_stmt: "relates R (UpdateControlSettingsAndAudit sha new_row previous_row expected actor reason stamp req)"
begin

lemmas statement_rules =
  window new_topic_stmt new_reply_stmt edit_stmt delete_stmt pin_stmt move_stmt visibility_stmt
  redact_stmt warn_stmt mute_stmt insert_report_stmt claim_stmt note_stmt
  mark_stmt touch_stmt revoke_stmt attempt_stmt consume_stmt new_user_stmt new_identity_stmt profile_stmt
  verified_stmt new_session_stmt rotation_stmt bootstrap_stmt claim_admin_stmt rebind_stmt new_group_stmt
  rename_group_stmt grant_stmt ungrant_stmt revoke_listed_stmt control_stmt

lemma relates_lockPublicationActor: "relates R (lockPublicationActor actor)"
  unfolding lockPublicationActor_def LockPublicationActor_def ListLockedPublicationActorGroupIDs_def
  by (intro combinator_rules)

lemma relates_lockedAreaPolicy: "relates R (lockedAreaPolicy area visibility mode)"
  unfolding lockedAreaPolicy_def ListAreaGroupIDsForPublication_def by (intro combinator_rules)

lemma relates_no_change: "relates R (statement (\<lambda>db. (r db, db)))"
  by (rule relates_statement) (simp add: R_refl)

lemma relates_admitPublication: "relates R (admitPublication p locked)"
  unfolding admitPublication_def
  by (intro combinator_rules statement_rules relates_no_change)

lemma relates_createTopic:
  "relates R load \<Longrightarrow> relates R (createTopic env (Some load) actor slug title md)"
  unfolding createTopic_def createTopic_body_def load_policy_def option.case
    ConfigurePublicationTransaction_def LockAreaForTopicCreation_def
  by (intro combinator_rules statement_rules relates_context_error relates_lockPublicationActor
      relates_lockedAreaPolicy relates_admitPublication)

lemma relates_CreateTopic: "relates R (CreateTopic env p actor slug title md)"
  unfolding CreateTopic_def by (intro combinator_rules relates_createTopic)

lemma relates_createReply:
  "relates R load \<Longrightarrow> relates R (createReply env (Some load) actor topic parent md)"
  unfolding createReply_def createReply_body_def load_policy_def option.case
    ConfigurePublicationTransaction_def LockTopicForReply_def
  by (intro combinator_rules statement_rules relates_context_error relates_lockPublicationActor
      relates_lockedAreaPolicy relates_admitPublication)

lemma relates_CreateReply: "relates R (CreateReply env p actor topic parent md)"
  unfolding CreateReply_def by (intro combinator_rules relates_createReply)

lemma relates_control_policy: "relates R (control_policy cx ceilings)"
  unfolding control_policy_def Load_def LoadRuntimeControlSettings_def auth_context_error_def
  by (intro combinator_rules)

lemma relates_CreateTopicWithControl: "relates R (CreateTopicWithControl env cx ceilings actor slug title md)"
  unfolding CreateTopicWithControl_def by (intro combinator_rules relates_createTopic relates_control_policy)

lemma relates_CreateReplyWithControl: "relates R (CreateReplyWithControl env cx ceilings actor topic parent md)"
  unfolding CreateReplyWithControl_def by (intro combinator_rules relates_createReply relates_control_policy)

lemma relates_EditPost: "relates R (EditPost env clock actor post rv md)"
  unfolding EditPost_def editPost_body_def LockPostForEdit_def
  by (intro combinator_rules statement_rules relates_context_error relates_lockedAreaPolicy)

lemma relates_DeletePost: "relates R (DeletePost tenv clock actor post rv)"
  unfolding DeletePost_def deletePost_body_def LockPostForEdit_def
  by (intro combinator_rules statement_rules relates_context_error relates_lockedAreaPolicy)

lemma relates_GetEditablePost: "relates R (GetEditablePost tenv post actor)"
  unfolding GetEditablePost_def query_GetEditablePost_def
  by (intro combinator_rules relates_context_error)

lemma relates_changeTopicState:
  "state_change (tt_previous tr) (tt_resulting tr) \<Longrightarrow>
   relates R (changeTopicState tenv clock actor topic reason req tr)"
  unfolding changeTopicState_def changeTopicState_body_def LockUserForSuspension_def
    LockTopicForModeration_def
  by (intro combinator_rules state_stmt relates_context_error)

lemma relates_ChangeTopicLock: "relates R (ChangeTopicLock tenv clock actor topic lock reason req)"
  unfolding ChangeTopicLock_def by (rule relates_changeTopicState) (simp add: state_change_def)

lemma relates_ChangeTopicVisibility: "relates R (ChangeTopicVisibility tenv clock actor topic hide reason req)"
  unfolding ChangeTopicVisibility_def by (rule relates_changeTopicState) (simp add: state_change_def)

lemma relates_applyTopicAction: "relates R (applyTopicAction now actor_id input req)"
  unfolding applyTopicAction_def applyPin_def applyMove_def Let_def LockTopicForExtendedModeration_def
    GetDestinationAreaBySlug_def LockAreaForTopicMove_def
  by (intro combinator_rules statement_rules)

lemma relates_applyPostAction: "relates R (applyPostAction now actor_id input req)"
  unfolding applyPostAction_def Let_def LockPostForModeration_def
  by (intro combinator_rules statement_rules)

lemma relates_applyUserAction: "relates R (applyUserAction now actor input req)"
  unfolding applyUserAction_def Let_def LockUserForSuspension_def
  by (intro combinator_rules statement_rules)

lemma relates_ApplyExtendedAction: "relates R (ApplyExtendedAction tenv clock actor input req)"
  unfolding ApplyExtendedAction_def ApplyExtendedAction_body_def Let_def LockUserForSuspension_def
  by (intro combinator_rules relates_context_error relates_applyTopicAction relates_applyPostAction
      relates_applyUserAction)

lemma relates_CreateReport: "relates R (CreateReport tenv clock actor target i reason)"
  unfolding CreateReport_def CreateReport_body_def report_result_of_def CreateTopicReport_def
    CreatePostReport_def CreateUserReport_def LockUserForSuspension_def CountActiveReportsByReporter_def
  by (intro combinator_rules statement_rules relates_context_error)

lemma relates_finish_report: "relates R (finish_report actor i stamp dismiss body_text req)"
  unfolding finish_report_def Let_def
  by (intro combinator_rules finish_stmt) (simp split: if_split)

lemma relates_ProcessReport: "relates R (ProcessReport tenv clock actor i action body_text req)"
  unfolding ProcessReport_def ProcessReport_body_def claim_report_def note_report_def Let_def
    LockUserForSuspension_def LockReportForModeration_def
  by (intro combinator_rules statement_rules relates_context_error relates_finish_report)

lemma relates_GetVisibleTopicPostPage: "relates R (GetVisibleTopicPostPage tenv topic page actor)"
  unfolding GetVisibleTopicPostPage_def query_GetVisibleTopicPostPage_def
  by (intro combinator_rules relates_context_error)

lemma relates_LoadVisibleTopicPostPage: "relates R (LoadVisibleTopicPostPage tenv actor topic page)"
  unfolding LoadVisibleTopicPostPage_def ConfigureUnreadReadTransaction_def GetAuthorizedTopicReadState_def
    Let_def
  by (intro combinator_rules relates_GetVisibleTopicPostPage)

lemma relates_FirstUnread: "relates R (FirstUnread tenv actor topic)"
  unfolding FirstUnread_def ConfigureUnreadReadTransaction_def GetFirstUnreadTarget_def
  by (intro combinator_rules relates_context_error)

lemma relates_marker_check:
  "relates R (\<lambda>w. case GetTopicReadMarker user topic w of
      (Inl e, w') \<Rightarrow> if c e then (Inr (), w') else (Inl (f e), w')
    | (Inr m, w') \<Rightarrow> tx_guard (g m) e' w')"
proof (rule relatesI)
  fix w :: world
  have "relates R (GetTopicReadMarker user topic)"
    unfolding GetTopicReadMarker_def by (intro combinator_rules)
  from relatesD [OF this, of w]
  show "R (w_db w) (w_db (snd (case GetTopicReadMarker user topic w of
      (Inl e, w') \<Rightarrow> if c e then (Inr (), w') else (Inl (f e), w')
    | (Inr m, w') \<Rightarrow> tx_guard (g m) e' w')))"
    by (auto simp: tx_guard_def split: prod.splits sum.splits)
qed

lemma relates_MarkTopicRead: "relates R (MarkTopicRead tenv actor topic)"
  unfolding MarkTopicRead_def MarkTopicRead_body_def ConfigureMarkTopicReadTransaction_def
  by (intro combinator_rules statement_rules relates_context_error relates_marker_check)

lemma relates_auth_context_error: "relates R (auth_context_error msg cx)"
  unfolding auth_context_error_def by (intro combinator_rules)

lemma relates_accept_session: "relates R (accept_session cx now r idle revalidation)"
  unfolding accept_session_def touch_if_due_def by (intro combinator_rules statement_rules)

lemma relates_authenticateSessionWithPolicy:
  "(\<And>h now. relates R (load h now)) \<Longrightarrow> relates R (authenticateSessionWithPolicy C cx clock load token)"
  unfolding authenticateSessionWithPolicy_def Let_def
  by (intro combinator_rules relates_auth_context_error relates_accept_session)

lemma relates_AuthenticateSession: "relates R (AuthenticateSession C sv cx token)"
  unfolding AuthenticateSession_def authenticateSession_def load_with_control_def GetActiveSession_def
    GetActiveSessionWithControl_def Let_def
  by (intro combinator_rules relates_authenticateSessionWithPolicy)

lemma relates_RevokeSession: "relates R (RevokeSession C sv cx token)"
  unfolding RevokeSession_def revokeSession_def Let_def
  by (intro combinator_rules statement_rules relates_auth_context_error)

lemma relates_beginInitialLogin:
  "(\<And>a. relates R (store a)) \<Longrightarrow> relates R (beginInitialLogin C cx store entropy clock validate path)"
  unfolding beginInitialLogin_def Let_def
  by (intro combinator_rules relates_auth_context_error)

lemma relates_BeginInitialLogin: "relates R (BeginInitialLogin C sv P cx path)"
  unfolding BeginInitialLogin_def
  by (intro combinator_rules statement_rules relates_beginInitialLogin)

lemma relates_BeginRevalidation: "relates R (BeginRevalidation C sv P cx session path)"
  unfolding BeginRevalidation_def beginRevalidation_def
  by (intro combinator_rules statement_rules relates_beginInitialLogin)

lemma relates_consumeLoginAttempt: "relates R (consumeLoginAttempt C cx clock validate purpose state)"
  unfolding consumeLoginAttempt_def
  by (intro combinator_rules statement_rules relates_auth_context_error)

lemma relates_createInitialSession: "relates R (createInitialSession C env entropy clock age claims)"
  unfolding createInitialSession_def createInitialSession_body_def Let_def LockExternalIdentity_def
    require_approval_def GetPendingRegistrationLoginState_def local_user_def GetUserByExternalIdentity_def
    create_user_def refresh_user_def
  by (intro combinator_rules statement_rules relates_context_error)

lemma relates_rotateRevalidatedSession:
  "relates R (rotateRevalidatedSession C env entropy clock age idle session token claims)"
  unfolding rotateRevalidatedSession_def rotateRevalidatedSession_body_def Let_def
    GetActiveSessionForRotation_def
  by (intro combinator_rules statement_rules relates_context_error)

lemma relates_CompleteInitialLogin: "relates R (CompleteInitialLogin C sv P cx env state code)"
  unfolding CompleteInitialLogin_def completeInitialLogin_def completion_stage_def
  by (intro combinator_rules relates_auth_context_error relates_consumeLoginAttempt relates_createInitialSession)

lemma relates_CompleteRevalidation: "relates R (CompleteRevalidation C sv P cx env state code token)"
  unfolding CompleteRevalidation_def completeRevalidation_def completion_stage_def
  by (intro combinator_rules relates_auth_context_error relates_consumeLoginAttempt relates_rotateRevalidatedSession)

lemma relates_setup_open: "relates R (setup_open now closed)"
  unfolding setup_open_def LockGovernanceState_def CountAdministratorBootstraps_def CountActiveAdministrators_def
  by (intro combinator_rules)

lemma relates_BootstrapAdministrator: "relates R (BootstrapAdministrator tenv clock issuer subject operator req)"
  unfolding BootstrapAdministrator_def BootstrapAdministrator_body_def GetUserByExternalIdentity_def
  by (intro combinator_rules statement_rules relates_context_error relates_setup_open)

lemma relates_ClaimInitialAdministrator:
  "relates R (ClaimInitialAdministrator tenv clock user session issuer subject req)"
  unfolding ClaimInitialAdministrator_def ClaimInitialAdministrator_body_def
  by (intro combinator_rules statement_rules relates_context_error relates_setup_open)

lemma relates_RebindExternalIdentity:
  "relates R (RebindExternalIdentity tenv clock issuer subject new_issuer new_subject operator req)"
  unfolding RebindExternalIdentity_def RebindExternalIdentity_body_def lock_identity_def LockExternalIdentity_def
  by (intro combinator_rules statement_rules relates_context_error)

lemma relates_validateAccountMutationBoundary: "relates R (validateAccountMutationBoundary tenv clock actx reason req)"
  unfolding validateAccountMutationBoundary_def by (intro combinator_rules relates_context_error)

lemma relates_configureAccountTransaction: "relates R configureAccountTransaction"
  unfolding configureAccountTransaction_def ConfigureAdministrationTransaction_def by (intro combinator_rules)

lemma relates_lockAccountActor: "relates R (lockAccountActor actx now)"
  unfolding lockAccountActor_def LockAdministrationUser_def by (intro combinator_rules)

lemma relates_lockAdministrationUsers: "relates R (lockAdministrationUsers actor target)"
  unfolding lockAdministrationUsers_def LockAdministrationUser_def Let_def by (intro combinator_rules)

lemmas administration_rules =
  relates_validateAccountMutationBoundary relates_configureAccountTransaction relates_lockAccountActor
  relates_lockAdministrationUsers

lemma relates_CreateGroup: "relates R (CreateGroup ad clock actx name reason req)"
  unfolding CreateGroup_def CreateGroup_body_def by (intro combinator_rules statement_rules administration_rules)

lemma relates_RenameGroup: "relates R (RenameGroup ad clock actx gid name reason rv req)"
  unfolding RenameGroup_def RenameGroup_body_def LockAdministrationGroup_def
  by (intro combinator_rules statement_rules administration_rules)

lemma relates_ChangeGroupMembership: "relates R (ChangeGroupMembership ad clock actx target gid grant reason rv req)"
  unfolding ChangeGroupMembership_def ChangeGroupMembership_body_def LockAdministrationGroup_def
    AdministrationMembershipExists_def
  by (intro combinator_rules statement_rules administration_rules)

lemma relates_revokeSessions: "relates R (revokeSessions tenv clock actx target session rv reason req)"
  unfolding revokeSessions_def revokeSessions_body_def RevokeAllSessionsForAdministrationAndAudit_def
    RevokeOneSessionForAdministrationAndAudit_def
  by (intro combinator_rules statement_rules administration_rules)

lemma relates_session_administration:
  "relates R (RevokeOneSession tenv clock actx target session reason req)"
  "relates R (RevokeAllSessions tenv clock actx target rv reason req)"
  unfolding RevokeOneSession_def RevokeAllSessions_def by (intro combinator_rules relates_revokeSessions)+

lemma relates_Update: "relates R (Update sha tenv clock actx input c req)"
  unfolding Update_def Update_body_def require_mail_def ConfigureAdministrationTransaction_def
    LockControlSettingsAdministrator_def LockRuntimeControlSettings_def LockRuntimeSMTPSettings_def
  by (intro combinator_rules statement_rules relates_context_error)

end

text \<open>
  The services on areas take several statements to reach a state the table allows, so a relation that states
  such a property is shown for each of them as a whole; for the others their statements are enough.
\<close>

locale area_statements = statement_relation +
  assumes new_area_stmt: "relates R (CreateAreaForAdministration core actor stamp)"
    and add_area_group_stmt: "relates R (AddAreaGroupForAdministration area gid actor)"
    and drop_area_groups_stmt: "relates R (DeleteAreaGroupsForAdministration area)"
    and update_area_stmt: "relates R (UpdateAreaForAdministration core actor stamp area)"
    and area_audit_stmt: "relates R (CreateAreaAdministrationAudit actor area action reason prev_state new_state req stamp)"
    and update_core_stmt:
      "relates R (UpdateAdministrationAreaAndAudit core actor stamp area expected reason prev_state new_state req)"
    and grant_area_stmt: "relates R (GrantAdministrationAreaGroupAndAudit area gid actor stamp expected reason req)"
    and revoke_area_stmt: "relates R (RevokeAdministrationAreaGroupAndAudit area gid stamp actor expected reason req)"
begin

lemmas area_statement_rules =
  new_area_stmt add_area_group_stmt drop_area_groups_stmt update_area_stmt area_audit_stmt update_core_stmt
  grant_area_stmt revoke_area_stmt

lemma relates_area_boundary: "relates R (validateMutationBoundary tenv clock actx x req slug)"
  unfolding validateMutationBoundary_def Let_def by (intro combinator_rules relates_context_error)

lemma relates_validateGroupsExist: "relates R (validateGroupsExist ids)"
  unfolding validateGroupsExist_def CountExistingForumGroups_def by (intro combinator_rules)

lemma relates_replaceAreaGroups: "relates R (replaceAreaGroups area actor ids)"
  by (induction ids) (unfold replaceAreaGroups.simps, (intro combinator_rules area_statement_rules | assumption)+)

lemma relates_area_audits:
  "relates R (insertAreaAudit actor area action reason prev_state core req stamp)"
  "relates R (insertBoundedAreaAudit actor area action reason prev_state new_state req stamp)"
  unfolding insertAreaAudit_def insertBoundedAreaAudit_def by (intro combinator_rules area_statement_rules)+

lemma relates_area_locks:
  "relates R (lock_initial_group is_nfc gid)" "relates R (lock_area_group is_nfc gid)"
  "relates R (lock_area_core msg area)" "relates R (streamAreaGroupDigest sha area)"
  unfolding lock_initial_group_def lock_area_group_def lock_area_core_def streamAreaGroupDigest_def
    LockAdministrationGroup_def LockAdministrationAreaCore_def StreamAdministrationAreaGroupIDs_def
  by (intro combinator_rules)+

lemma relates_completion_boundary: "relates R (completion_boundary ad clock actx reason req)"
  unfolding completion_boundary_def by (intro combinator_rules administration_rules)

lemmas area_rules =
  relates_area_boundary relates_validateGroupsExist relates_replaceAreaGroups relates_area_audits relates_area_locks
  relates_completion_boundary

lemma relates_CreateArea: "relates R (CreateArea tenv clock actx x req)"
  unfolding CreateArea_def CreateArea_body_def by (intro combinator_rules area_statement_rules area_rules)

lemma relates_UpdateArea: "relates R (UpdateArea tenv clock actx area x req)"
  unfolding UpdateArea_def UpdateArea_body_def LockAreaForAdministration_def Let_def
  by (intro combinator_rules area_statement_rules area_rules)

lemma relates_CreateAreaCompletion: "relates R (CreateAreaCompletion sha ad clock actx x req)"
  unfolding CreateAreaCompletion_def CreateAreaCompletion_body_def completion_tx_def Let_def
  by (intro combinator_rules area_statement_rules area_rules administration_rules)

lemma relates_UpdateAreaCompletion: "relates R (UpdateAreaCompletion sha ad clock actx area x req)"
  unfolding UpdateAreaCompletion_def UpdateAreaCompletion_body_def completion_tx_def Let_def
  by (intro combinator_rules area_statement_rules area_rules administration_rules)

lemma relates_ChangeAreaGroup: "relates R (ChangeAreaGroup ad clock actx area gid granted reason rv req)"
  unfolding ChangeAreaGroup_def ChangeAreaGroup_body_def completion_tx_def LockAdministrationAreaCore_def
    AdministrationAreaGroupExists_def
  by (intro combinator_rules area_statement_rules area_rules administration_rules)

lemmas area_calls =
  relates_CreateArea relates_UpdateArea relates_CreateAreaCompletion relates_UpdateAreaCompletion relates_ChangeAreaGroup

end

text \<open>
  Two services decide on the rows they have locked whether an account loses its authority. A relation that
  depends on this decision is shown for the services as a whole; for the others the statements are enough.
\<close>

locale service_relation = statement_relation +
  assumes suspension_call: "relates R (ChangeUserSuspension tenv clock actx target susp reason req)"
    and role_call: "relates R (ChangeAccountRole tenv clock actx target role expected_role reason rv req)"
    and create_area_call: "relates R (CreateArea tenv clock actx area_x req)"
    and update_area_call: "relates R (UpdateArea tenv clock actx area area_x req)"
    and create_core_call: "relates R (CreateAreaCompletion sha ad clock actx core_x req)"
    and update_core_call: "relates R (UpdateAreaCompletion sha ad clock actx area core_x req)"
    and area_group_call: "relates R (ChangeAreaGroup ad clock actx area gid granted reason rv req)"
begin

lemmas service_rules =
  relates_CreateTopic relates_CreateReply relates_CreateTopicWithControl relates_CreateReplyWithControl relates_EditPost relates_DeletePost relates_GetEditablePost
  relates_ChangeTopicLock relates_ChangeTopicVisibility relates_ApplyExtendedAction suspension_call relates_CreateReport
  relates_ProcessReport relates_LoadVisibleTopicPostPage relates_FirstUnread relates_MarkTopicRead
  relates_AuthenticateSession relates_RevokeSession relates_BeginInitialLogin relates_BeginRevalidation
  relates_CompleteInitialLogin relates_CompleteRevalidation relates_BootstrapAdministrator
  relates_ClaimInitialAdministrator relates_RebindExternalIdentity relates_CreateGroup relates_RenameGroup
  relates_ChangeGroupMembership role_call relates_session_administration relates_Update
  create_area_call update_area_call create_core_call update_core_call area_group_call

lemma run_call_relates: "R (w_db w) (w_db (run_call c w))"
  by (cases c) (simp_all add: service_rules [THEN relatesD] run_registration_relates)

lemma board_step_relates: "board_step db db' \<Longrightarrow> R db db'"
  by (elim board_stepE) (simp add: run_call_relates)

lemma board_run_relates: "board_run db db' \<Longrightarrow> R db db'"
  unfolding board_run_def
  by (induction rule: rtranclp_induct) (auto intro: R_refl R_trans board_step_relates)

end

locale account_statements = statement_relation +
  assumes suspend_stmt:
      "relates R (SuspendUserAndAudit suspended reason updated user observed expected64 actor prior req)"
    and reinstate_stmt:
      "relates R (ReinstateUserAndAudit updated user observed expected64 actor reason prior req)"
    and role_stmt:
      "relates R (ChangeAdministrationRoleAndAudit role_name stamp user expected_name expected actor reason req)"
begin

lemmas account_statement_rules = suspend_stmt reinstate_stmt role_stmt

lemma relates_suspension: "relates R (ChangeUserSuspension tenv clock actx target susp reason req)"
  unfolding ChangeUserSuspension_def ChangeUserSuspension_body_def suspend_target_def reinstate_target_def
    Let_def LockUserForSuspension_def ConfigureAdministrationTransaction_def LockGovernanceState_def
    CountActiveAdministrators_def
  by (intro combinator_rules account_statement_rules relates_context_error)

lemma relates_role: "relates R (ChangeAccountRole tenv clock actx target role expected_role reason rv req)"
  unfolding ChangeAccountRole_def ChangeAccountRole_body_def Let_def LockGovernanceState_def
    CountActiveAdministrators_def
  by (intro combinator_rules account_statement_rules administration_rules)

lemmas account_calls = relates_suspension relates_role

end

locale board_relation = area_statements + account_statements
begin

lemmas all_statement_rules = statement_rules area_statement_rules account_statement_rules registration_rules

end

sublocale board_relation \<subseteq> service_relation
  by unfold_locales (rule account_calls area_calls)+

end
