(* ===== verification/Threads.thy ===== *)
theory Threads
  imports Prelude "HOL-Library.List_Lexorder"
begin

text \<open>
  The abstract board: topics and posts reduced to what the threading of a topic depends on, with the
  three ways it can evolve (nothing, a new topic with its first post, a reply). The services of the
  concrete theories are shown to move the tables only along this relation, so the facts proved here
  once hold of every run of them.
\<close>

record topic_frame =
  tf_id :: int
  tf_first :: int
  tf_latest :: int
  tf_replies :: int
  tf_next :: int

record post_frame =
  pf_id :: int
  pf_topic :: int
  pf_number :: int
  pf_author :: int
  pf_parent :: "int option"
  pf_path :: "int list"

record threads =
  th_topics :: "topic_frame list"
  th_posts :: "post_frame list"

definition posts_of :: "post_frame list \<Rightarrow> int \<Rightarrow> post_frame list" where
  "posts_of ps i = filter (\<lambda>p. pf_topic p = i) ps"

definition reply_frame :: "int \<Rightarrow> int \<Rightarrow> topic_frame \<Rightarrow> post_frame \<Rightarrow> post_frame" where
  "reply_frame j author t r =
     \<lparr>pf_id = j, pf_topic = tf_id t, pf_number = tf_next t, pf_author = author,
      pf_parent = Some (pf_id r), pf_path = pf_path r @ [tf_next t]\<rparr>"

inductive thread_step :: "threads \<Rightarrow> threads \<Rightarrow> bool" where
  stay: "thread_step s s"
| start:
    "i \<notin> tf_id ` set (th_topics s) \<Longrightarrow> j \<notin> pf_id ` set (th_posts s) \<Longrightarrow>
     thread_step s
       \<lparr>th_topics = th_topics s @ [\<lparr>tf_id = i, tf_first = j, tf_latest = j, tf_replies = 0, tf_next = 2\<rparr>],
        th_posts = th_posts s @
          [\<lparr>pf_id = j, pf_topic = i, pf_number = 1, pf_author = author, pf_parent = None, pf_path = [1]\<rparr>]\<rparr>"
| reply:
    "t \<in> set (th_topics s) \<Longrightarrow> r \<in> set (th_posts s) \<Longrightarrow> pf_topic r = tf_id t \<Longrightarrow>
     j \<notin> pf_id ` set (th_posts s) \<Longrightarrow> length (pf_path r) < 32 \<Longrightarrow>
     thread_step s
       \<lparr>th_topics = upd_where (\<lambda>u. tf_id u = tf_id t)
          (\<lambda>u. u\<lparr>tf_latest := j, tf_replies := tf_next t - 1, tf_next := tf_next t + 1\<rparr>) (th_topics s),
        th_posts = th_posts s @ [reply_frame j author t r]\<rparr>"

inductive_cases thread_stepE: "thread_step s s'"

subsection \<open>The invariant\<close>

definition topic_ok :: "topic_frame \<Rightarrow> post_frame list \<Rightarrow> bool" where
  "topic_ok t ps \<longleftrightarrow>
     2 \<le> tf_next t \<and> map pf_number ps = [1..tf_next t - 1] \<and> tf_replies t = tf_next t - 2 \<and>
     pf_id (hd ps) = tf_first t \<and> pf_id (last ps) = tf_latest t"

definition post_ok :: "post_frame list \<Rightarrow> post_frame \<Rightarrow> bool" where
  "post_ok ps p \<longleftrightarrow>
     pf_path p \<noteq> [] \<and> length (pf_path p) \<le> 32 \<and> last (pf_path p) = pf_number p \<and>
     (case pf_parent p of
        None \<Rightarrow> pf_number p = 1 \<and> pf_path p = [1]
      | Some q \<Rightarrow> \<exists>r \<in> set ps. pf_id r = q \<and> pf_topic r = pf_topic p \<and> pf_number r < pf_number p \<and>
                   pf_path p = pf_path r @ [pf_number p])"

definition thread_inv :: "threads \<Rightarrow> bool" where
  "thread_inv s \<longleftrightarrow>
     distinct (map tf_id (th_topics s)) \<and> distinct (map pf_id (th_posts s)) \<and>
     pf_topic ` set (th_posts s) \<subseteq> tf_id ` set (th_topics s) \<and>
     (\<forall>t \<in> set (th_topics s). topic_ok t (posts_of (th_posts s) (tf_id t))) \<and>
     (\<forall>p \<in> set (th_posts s). post_ok (th_posts s) p)"

lemma posts_of_append [simp]:
  "posts_of (ps @ [p]) i = posts_of ps i @ (if pf_topic p = i then [p] else [])"
  by (simp add: posts_of_def)

lemma posts_of_none: "i \<notin> pf_topic ` set ps \<Longrightarrow> posts_of ps i = []"
  by (auto simp: posts_of_def filter_empty_conv)

lemma set_posts_of: "p \<in> set (posts_of ps i) \<longleftrightarrow> p \<in> set ps \<and> pf_topic p = i"
  by (simp add: posts_of_def)

lemma topic_ok_nonempty: "topic_ok t ps \<Longrightarrow> ps \<noteq> []"
  by (auto simp: topic_ok_def)

lemma topic_ok_numbers: "topic_ok t ps \<Longrightarrow> p \<in> set ps \<Longrightarrow> 1 \<le> pf_number p \<and> pf_number p < tf_next t"
proof -
  assume ok: "topic_ok t ps" and p: "p \<in> set ps"
  then have "pf_number p \<in> set [1..tf_next t - 1]"
    using imageI [of p "set ps" pf_number] unfolding topic_ok_def set_map [symmetric] by simp
  then show ?thesis by simp
qed

lemma topic_ok_distinct: "topic_ok t ps \<Longrightarrow> distinct (map pf_number ps)"
  by (simp add: topic_ok_def)

lemma post_ok_mono: "post_ok ps p \<Longrightarrow> set ps \<subseteq> set qs \<Longrightarrow> post_ok qs p"
  by (auto simp: post_ok_def split: option.splits)

lemma thread_inv_topic:
  "thread_inv s \<Longrightarrow> p \<in> set (th_posts s) \<Longrightarrow>
   \<exists>t \<in> set (th_topics s). tf_id t = pf_topic p \<and> topic_ok t (posts_of (th_posts s) (tf_id t))"
  by (auto simp: thread_inv_def image_subset_iff image_iff) (metis (full_types))

lemma thread_inv_last: "thread_inv s \<Longrightarrow> p \<in> set (th_posts s) \<Longrightarrow> last (pf_path p) = pf_number p"
  by (simp add: thread_inv_def post_ok_def)

lemma thread_inv_number:
  assumes "thread_inv s" and "t \<in> set (th_topics s)" and "p \<in> set (th_posts s)" and "pf_topic p = tf_id t"
  shows "1 \<le> pf_number p" and "pf_number p < tf_next t"
proof -
  have ok: "topic_ok t (posts_of (th_posts s) (tf_id t))"
    using assms(1,2) by (simp add: thread_inv_def)
  have mem: "p \<in> set (posts_of (th_posts s) (tf_id t))"
    using assms(3,4) by (simp add: set_posts_of)
  from topic_ok_numbers [OF ok mem] show "1 \<le> pf_number p" "pf_number p < tf_next t" by simp_all
qed

lemma reply_topic_ok:
  assumes ok: "topic_ok t ps" and j: "pf_number p = tf_next t" "pf_id p = j"
  shows "topic_ok (t\<lparr>tf_latest := j, tf_replies := tf_next t - 1, tf_next := tf_next t + 1\<rparr>) (ps @ [p])"
  using ok j topic_ok_nonempty [OF ok]
  by (auto simp: topic_ok_def upto_rec2 [of 1 "tf_next t"])

lemma thread_step_inv: "thread_step s s' \<Longrightarrow> thread_inv s \<Longrightarrow> thread_inv s'"
proof (induction rule: thread_step.induct)
  case (start i s j author)
  let ?p = "\<lparr>pf_id = j, pf_topic = i, pf_number = 1, pf_author = author, pf_parent = None, pf_path = [1]\<rparr>"
  have fresh: "i \<notin> pf_topic ` set (th_posts s)"
    using start by (auto simp: thread_inv_def)
  have old: "topic_ok t (posts_of (th_posts s @ [?p]) (tf_id t))" if "t \<in> set (th_topics s)" for t
    using that start by (auto simp: thread_inv_def image_iff)
  have "post_ok (th_posts s @ [?p]) q" if "q \<in> set (th_posts s)" for q
    using that start.prems post_ok_mono [of "th_posts s" q "th_posts s @ [?p]"] by (auto simp: thread_inv_def)
  moreover have "post_ok (th_posts s @ [?p]) ?p" by (simp add: post_ok_def)
  moreover have "topic_ok \<lparr>tf_id = i, tf_first = j, tf_latest = j, tf_replies = 0, tf_next = 2\<rparr>
                   (posts_of (th_posts s @ [?p]) i)"
    by (simp add: posts_of_none [OF fresh] topic_ok_def)
  ultimately show ?case
    using start old by (auto simp: thread_inv_def)
next
  case (reply t s r j author)
  let ?p = "reply_frame j author t r"
  let ?f = "\<lambda>u. u\<lparr>tf_latest := j, tf_replies := tf_next t - 1, tf_next := tf_next t + 1\<rparr>"
  have uniq: "u = t" if "u \<in> set (th_topics s)" "tf_id u = tf_id t" for u
    using that reply.hyps(1) reply.prems distinct_key_eq [of tf_id "th_topics s"] by (auto simp: thread_inv_def)
  have tok: "topic_ok t (posts_of (th_posts s) (tf_id t))"
    using reply by (simp add: thread_inv_def)
  have rn: "pf_number r < tf_next t"
    using thread_inv_number [OF reply.prems reply.hyps(1,2,3)] by simp
  have rok: "post_ok (th_posts s) r" using reply by (simp add: thread_inv_def)
  have topics: "topic_ok u (posts_of (th_posts s @ [?p]) (tf_id u))"
    if "u \<in> set (upd_where (\<lambda>u. tf_id u = tf_id t) ?f (th_topics s))" for u
  proof -
    from that obtain v where v: "v \<in> set (th_topics s)" "u = (if tf_id v = tf_id t then ?f v else v)"
      by (auto simp: set_upd_where)
    show ?thesis
    proof (cases "tf_id v = tf_id t")
      case True
      then have "u = ?f t" using v uniq by auto
      then show ?thesis
        using reply_topic_ok [OF tok, of ?p j] by (simp add: reply_frame_def)
    next
      case False
      then show ?thesis using v reply.prems by (auto simp: thread_inv_def reply_frame_def)
    qed
  qed
  have "post_ok (th_posts s @ [?p]) q" if "q \<in> set (th_posts s)" for q
    using that reply.prems post_ok_mono [of "th_posts s" q "th_posts s @ [?p]"] by (auto simp: thread_inv_def)
  moreover have "post_ok (th_posts s @ [?p]) ?p"
    using reply.hyps(2,3,5) rn rok by (auto simp: post_ok_def reply_frame_def)
  moreover have "map tf_id (upd_where (\<lambda>u. tf_id u = tf_id t) ?f (th_topics s)) = map tf_id (th_topics s)"
    by (rule map_upd_where) simp
  moreover have "tf_id ` set (upd_where (\<lambda>u. tf_id u = tf_id t) ?f (th_topics s)) = tf_id ` set (th_topics s)"
    using calculation(3) by (metis list.set_map)
  moreover have "pf_id ?p = j" "pf_topic ?p = tf_id t" by (simp_all add: reply_frame_def)
  ultimately show ?case
    using reply topics by (auto simp: thread_inv_def)
qed simp

definition threads_evolve :: "threads \<Rightarrow> threads \<Rightarrow> bool" where
  "threads_evolve = thread_step\<^sup>*\<^sup>*"

lemma threads_evolve_inv: "threads_evolve s s' \<Longrightarrow> thread_inv s \<Longrightarrow> thread_inv s'"
  unfolding threads_evolve_def
  by (induction rule: rtranclp_induct) (auto intro: thread_step_inv)

text \<open>Posts are only ever appended: number, author, parent and path of a post are immutable.\<close>

lemma thread_step_prefix: "thread_step s s' \<Longrightarrow> \<exists>qs. th_posts s' = th_posts s @ qs"
  by (induction rule: thread_step.induct) auto

lemma threads_evolve_prefix: "threads_evolve s s' \<Longrightarrow> \<exists>qs. th_posts s' = th_posts s @ qs"
  unfolding threads_evolve_def
proof (induction rule: rtranclp_induct)
  case (step s1 s2)
  then show ?case using thread_step_prefix [of s1 s2] by auto
qed simp

subsection \<open>Consequences\<close>

text \<open>The deferred constraint trigger \<open>gotth_validate_topic_post_state\<close> on one topic.\<close>

definition trigger_accepts :: "threads \<Rightarrow> topic_frame \<Rightarrow> bool" where
  "trigger_accepts s t =
     (let ps = posts_of (th_posts s) (tf_id t); top = fold max (map pf_number ps) 0 in
      (case find (\<lambda>p. pf_id p = tf_first t) (th_posts s) of
         None \<Rightarrow> False | Some p \<Rightarrow> pf_topic p = tf_id t \<and> pf_number p = 1) \<and>
      (case find (\<lambda>p. pf_id p = tf_latest t) (th_posts s) of
         None \<Rightarrow> False | Some p \<Rightarrow> pf_topic p = tf_id t \<and> pf_number p = top) \<and>
      length ps \<ge> 1 \<and> tf_replies t = int (length ps) - 1 \<and> tf_next t = top + 1)"

lemma fold_max_upto: "0 \<le> n \<Longrightarrow> fold max [1..n] (0::int) = n"
proof (induction "nat n" arbitrary: n)
  case (Suc k)
  then have "[1..n] = [1..n - 1] @ [n]" by (simp add: upto_rec2)
  moreover have "fold max [1..n - 1] (0::int) = n - 1" using Suc by (intro Suc.hyps) auto
  ultimately show ?case by simp
qed simp

lemma topic_ok_ends:
  assumes "topic_ok t ps"
  shows "pf_number (hd ps) = 1" and "pf_number (last ps) = tf_next t - 1" and "int (length ps) = tf_next t - 1"
proof -
  have ne: "ps \<noteq> []" by (rule topic_ok_nonempty [OF assms])
  have m: "map pf_number ps = [1..tf_next t - 1]" and n: "2 \<le> tf_next t" using assms by (auto simp: topic_ok_def)
  have "pf_number (hd ps) = hd [1..tf_next t - 1]" using ne by (simp flip: m add: list.map_sel)
  then show "pf_number (hd ps) = 1" using n by (simp add: upto_rec1)
  have "pf_number (last ps) = last [1..tf_next t - 1]" using ne by (simp flip: m add: last_map)
  then show "pf_number (last ps) = tf_next t - 1" using n by (simp add: upto_rec2)
  have "length ps = length [1..tf_next t - 1]" by (simp flip: m)
  then show "int (length ps) = tf_next t - 1" using n by simp
qed

lemma thread_inv_trigger:
  assumes inv: "thread_inv s" and t: "t \<in> set (th_topics s)"
  shows "trigger_accepts s t"
proof -
  let ?ps = "posts_of (th_posts s) (tf_id t)"
  have ok: "topic_ok t ?ps" using inv t by (simp add: thread_inv_def)
  have ne: "?ps \<noteq> []" by (rule topic_ok_nonempty [OF ok])
  have lookup: "find (\<lambda>p. pf_id p = pf_id q) (th_posts s) = Some q" if "q \<in> set ?ps" for q
    using that inv find_distinct_key [of pf_id "th_posts s" q] by (auto simp: thread_inv_def set_posts_of)
  have hd: "hd ?ps \<in> set ?ps" and la: "last ?ps \<in> set ?ps" using ne by simp_all
  have top: "fold max (map pf_number ?ps) 0 = tf_next t - 1"
    using ok fold_max_upto [of "tf_next t - 1"] by (simp add: topic_ok_def)
  have "length ?ps \<ge> 1" using ne by (simp add: Suc_le_eq)
  then show ?thesis
    using ok top topic_ok_ends [OF ok] lookup [OF hd] lookup [OF la] hd la
    by (simp add: trigger_accepts_def topic_ok_def set_posts_of)
qed

text \<open>Within a topic a thread path names one post.\<close>

lemma thread_inv_path_unique:
  assumes inv: "thread_inv s" and p: "p \<in> set (th_posts s)" and q: "q \<in> set (th_posts s)"
    and topic: "pf_topic p = pf_topic q" and path: "pf_path p = pf_path q"
  shows "p = q"
proof -
  from thread_inv_topic [OF inv p] obtain t where
    t: "tf_id t = pf_topic p" "topic_ok t (posts_of (th_posts s) (tf_id t))" by auto
  have "pf_number p = pf_number q"
    using thread_inv_last [OF inv p] thread_inv_last [OF inv q] path by simp
  then show ?thesis
    using distinct_key_eq [OF topic_ok_distinct [OF t(2)], of p q] p q t(1) topic by (simp add: set_posts_of)
qed

end
