(* ===== verification/BoardThreads.thy ===== *)
theory BoardThreads
  imports Board Threads
begin

text \<open>
  The board refines the abstract threads: every step of every service moves the tables along
  \<open>thread_step\<close>, so the invariant of the threads holds in every state the board can reach.
\<close>

definition abs_topic :: "topic_row \<Rightarrow> topic_frame" where
  "abs_topic t =
     \<lparr>tf_id = t_id t, tf_first = t_first_post_id t, tf_latest = t_latest_post_id t,
      tf_replies = t_reply_count t, tf_next = t_next_post_number t\<rparr>"

definition abs_post :: "post_row \<Rightarrow> post_frame" where
  "abs_post p =
     \<lparr>pf_id = p_id p, pf_topic = p_topic_id p, pf_number = p_number p, pf_author = p_author_id p,
      pf_parent = p_parent p, pf_path = p_path p\<rparr>"

lemma abs_frame_simps [simp]:
  "tf_id (abs_topic t) = t_id t" "tf_first (abs_topic t) = t_first_post_id t"
  "tf_latest (abs_topic t) = t_latest_post_id t" "tf_replies (abs_topic t) = t_reply_count t"
  "tf_next (abs_topic t) = t_next_post_number t"
  "pf_id (abs_post p) = p_id p" "pf_topic (abs_post p) = p_topic_id p" "pf_number (abs_post p) = p_number p"
  "pf_author (abs_post p) = p_author_id p" "pf_parent (abs_post p) = p_parent p"
  "pf_path (abs_post p) = p_path p"
  by (simp_all add: abs_topic_def abs_post_def)

definition threads_of :: "forum_db \<Rightarrow> threads" where
  "threads_of db = \<lparr>th_topics = map abs_topic (db_topics db), th_posts = map abs_post (db_posts db)\<rparr>"

definition evolves :: "forum_db \<Rightarrow> forum_db \<Rightarrow> bool" where
  "evolves db db' = threads_evolve (threads_of db) (threads_of db')"

definition board_inv :: "forum_db \<Rightarrow> bool" where
  "board_inv db = thread_inv (threads_of db)"

lemma evolves_same: "threads_of db' = threads_of db \<Longrightarrow> evolves db db'"
  by (simp add: evolves_def threads_evolve_def)

lemma evolves_step: "thread_step (threads_of db) (threads_of db') \<Longrightarrow> evolves db db'"
  by (simp add: evolves_def threads_evolve_def r_into_rtranclp)

lemma threads_of_topics:
  "(\<And>t. abs_topic (f t) = abs_topic t) \<Longrightarrow> map abs_topic (upd_where p f ts) = map abs_topic ts"
  by (rule map_upd_where)

lemma threads_of_posts:
  "(\<And>t. abs_post (f t) = abs_post t) \<Longrightarrow> map abs_post (upd_where p f ts) = map abs_post ts"
  by (rule map_upd_where)

interpretation evolution: table_relation evolves
proof
  show "evolves db db" for db by (simp add: evolves_same)
  show "evolves db1 db3" if "evolves db1 db2" "evolves db2 db3" for db1 db2 db3
    using that by (simp add: evolves_def threads_evolve_def)
  show "evolves db (db\<lparr>db_seqs := s\<rparr>)" for db s by (simp add: evolves_same threads_of_def)
qed

subsection \<open>The statements\<close>

lemma evolves_change_topic:
  "(\<And>t. abs_topic (change t) = abs_topic t) \<Longrightarrow> relates evolves (change_topic hit change audit)"
  unfolding change_topic_def
  by (rule evolution.relates_statement)
    (auto intro!: evolves_same simp: threads_of_def case_prod_unfold Let_def threads_of_topics split: option.split)

lemma evolves_change_post:
  "(\<And>p. abs_post (change p) = abs_post p) \<Longrightarrow> relates evolves (change_post hit change audit)"
  unfolding change_post_def
  by (rule evolution.relates_statement)
    (auto intro!: evolves_same simp: threads_of_def case_prod_unfold Let_def threads_of_posts split: option.split)

lemma evolves_change_user: "relates evolves (change_user hit change audit)"
  unfolding change_user_def
  by (rule evolution.relates_statement)
    (auto intro!: evolves_same simp: threads_of_def case_prod_unfold Let_def split: option.split)

lemma evolves_change_report: "relates evolves (change_report hit change audit)"
  unfolding change_report_def
  by (rule evolution.relates_statement)
    (auto intro!: evolves_same simp: threads_of_def case_prod_unfold Let_def split: option.split)

lemma ids_of_abs: "pf_id ` set (map abs_post ps) = p_id ` set ps" "tf_id ` set (map abs_topic ts) = t_id ` set ts"
  by (auto simp: abs_post_def abs_topic_def image_image)

lemma find_topic_in: "find_topic db i = Some t \<Longrightarrow> t \<in> set (db_topics db) \<and> t_id t = i"
  unfolding find_topic_def by (drule find_Some_iff2) simp

lemma prepare_root: "prepare_post_thread db topic 1 None (Some [1]) = Inr (None, [1])"
  by (simp add: prepare_post_thread_def)

text \<open>What the row trigger lets through for a reply.\<close>

lemma prepare_reply:
  "prepare_post_thread db topic n (Some q) None = Inr (parent, path) \<Longrightarrow>
   n \<noteq> 1 \<and> parent = Some q \<and>
   (\<exists>r \<in> set (db_posts db). p_topic_id r = topic \<and> p_id r = q \<and> path = p_path r @ [n] \<and> length (p_path r) < 32)"
  by (auto simp: prepare_post_thread_def Let_def dest!: find_Some_iff2 split: option.splits if_splits)

lemma insert_topic_cases:
  fixes db :: forum_db
  defines "i \<equiv> db_seqs db TopicSeq" and "j \<equiv> db_seqs db PostSeq"
  shows "threads_of (snd (insert_topic area author title search stamp body db)) = threads_of db \<or>
    i \<notin> t_id ` set (db_topics db) \<and> j \<notin> p_id ` set (db_posts db) \<and>
    threads_of (snd (insert_topic area author title search stamp body db)) =
      \<lparr>th_topics = th_topics (threads_of db) @
         [\<lparr>tf_id = i, tf_first = j, tf_latest = j, tf_replies = 0, tf_next = 2\<rparr>],
       th_posts = th_posts (threads_of db) @
         [\<lparr>pf_id = j, pf_topic = i, pf_number = 1, pf_author = author, pf_parent = None, pf_path = [1]\<rparr>]\<rparr>"
  unfolding i_def j_def
  by (auto simp: insert_topic_def nextval_def Let_def topic_key_taken_def post_key_taken_def list_ex_iff
      threads_of_def prepare_root new_topic_def new_post_def abs_topic_def abs_post_def)

lemma evolves_new_topic: "relates evolves (CreateTopicAndFirstPost area author title search stamp body)"
  unfolding CreateTopicAndFirstPost_def
proof (rule evolution.relates_statement)
  fix db :: forum_db
  from insert_topic_cases [of area author title search stamp body db]
  show "evolves db (snd (insert_topic area author title search stamp body db))"
  proof (elim disjE conjE)
    assume fresh: "db_seqs db TopicSeq \<notin> t_id ` set (db_topics db)" "db_seqs db PostSeq \<notin> p_id ` set (db_posts db)"
      and new: "threads_of (snd (insert_topic area author title search stamp body db)) =
        \<lparr>th_topics = th_topics (threads_of db) @
           [\<lparr>tf_id = db_seqs db TopicSeq, tf_first = db_seqs db PostSeq, tf_latest = db_seqs db PostSeq,
             tf_replies = 0, tf_next = 2\<rparr>],
         th_posts = th_posts (threads_of db) @
           [\<lparr>pf_id = db_seqs db PostSeq, pf_topic = db_seqs db TopicSeq, pf_number = 1, pf_author = author,
             pf_parent = None, pf_path = [1]\<rparr>]\<rparr>"
    show ?thesis
      by (rule evolves_step, unfold new, rule thread_step.start)
        (use fresh in \<open>simp_all only: threads_of_def threads.simps ids_of_abs simp_thms\<close>)
  qed (rule evolves_same)
qed

text \<open>A reply that is inserted is the abstract reply to the post its path extends.\<close>

definition reply_effect :: "forum_db \<Rightarrow> int \<Rightarrow> int \<Rightarrow> topic_row \<Rightarrow> post_row \<Rightarrow> threads" where
  "reply_effect db j author t r =
     \<lparr>th_topics = upd_where (\<lambda>u. tf_id u = t_id t)
        (\<lambda>u. u\<lparr>tf_latest := j, tf_replies := t_next_post_number t - 1, tf_next := t_next_post_number t + 1\<rparr>)
        (th_topics (threads_of db)),
      th_posts = th_posts (threads_of db) @ [reply_frame j author (abs_topic t) (abs_post r)]\<rparr>"

lemma map_abs_topic_upd:
  "map abs_topic (upd_where (\<lambda>u. t_id u = i)
     (\<lambda>r. r\<lparr>t_latest_post_id := j, t_reply_count := a, t_next_post_number := b, t_updated_at := c,
           t_last_activity_at := d\<rparr>) ts) =
   upd_where (\<lambda>u. tf_id u = i) (\<lambda>u. u\<lparr>tf_latest := j, tf_replies := a, tf_next := b\<rparr>) (map abs_topic ts)"
  by (induction ts) (simp_all add: abs_topic_def)

lemma insert_reply_Inr:
  assumes "insert_reply author body parent_id stamp topic_id db = (Inr res, db')"
  shows "\<exists>t r. find_topic db topic_id = Some t \<and> r \<in> set (db_posts db) \<and> p_id r = parent_id \<and>
    p_topic_id r = topic_id \<and> length (p_path r) < 32 \<and> db_seqs db PostSeq \<notin> p_id ` set (db_posts db) \<and>
    t_next_post_number t \<noteq> 1 \<and> t_next_post_number t + 1 \<le> max_int32 \<and>
    res = \<lparr>pr_topic_id = topic_id, pr_post_id = db_seqs db PostSeq, pr_post_number = t_next_post_number t,
           pr_node_ordinal = 1 + shown_count (topic_posts db topic_id) (p_path r @ [t_next_post_number t])\<rparr> \<and>
    db_posts db' = db_posts db @ [new_post (db_seqs db PostSeq) topic_id author (t_next_post_number t) body
       (Some parent_id) (p_path r @ [t_next_post_number t]) (max stamp (t_last_activity_at t))] \<and>
    threads_of db' = reply_effect db (db_seqs db PostSeq) author t r"
proof -
  let ?j = "db_seqs db PostSeq" and ?db1 = "snd (nextval PostSeq db)"
  from assms obtain t where t: "find_topic db topic_id = Some t"
    by (auto simp: insert_reply_def split: option.splits)
  let ?n = "t_next_post_number t"
  have "\<exists>parent path. \<not> ?n + 1 > max_int32 \<and> \<not> post_key_taken ?db1 ?j topic_id ?n \<and>
      prepare_post_thread ?db1 topic_id ?n (Some parent_id) None = Inr (parent, path) \<and>
      res = \<lparr>pr_topic_id = topic_id, pr_post_id = ?j, pr_post_number = ?n,
             pr_node_ordinal = 1 + shown_count (topic_posts db topic_id) path\<rparr> \<and>
      db' = ?db1\<lparr>db_topics := upd_where (\<lambda>r. t_id r = topic_id)
                   (\<lambda>r. r\<lparr>t_latest_post_id := ?j, t_reply_count := ?n - 1,
                         t_next_post_number := ?n + 1, t_updated_at := max stamp (t_last_activity_at t),
                         t_last_activity_at := max stamp (t_last_activity_at t)\<rparr>) (db_topics ?db1),
                 db_posts := db_posts ?db1 @
                   [new_post ?j topic_id author ?n body parent path (max stamp (t_last_activity_at t))]\<rparr>"
    using assms t
    by (auto simp: insert_reply_def Let_def case_prod_unfold split: if_splits sum.splits)
  then obtain parent path where run: "?n + 1 \<le> max_int32" "\<not> post_key_taken ?db1 ?j topic_id ?n"
      "prepare_post_thread ?db1 topic_id ?n (Some parent_id) None = Inr (parent, path)"
      "res = \<lparr>pr_topic_id = topic_id, pr_post_id = ?j, pr_post_number = ?n,
             pr_node_ordinal = 1 + shown_count (topic_posts db topic_id) path\<rparr>"
      "db' = ?db1\<lparr>db_topics := upd_where (\<lambda>r. t_id r = topic_id)
                   (\<lambda>r. r\<lparr>t_latest_post_id := ?j, t_reply_count := ?n - 1,
                         t_next_post_number := ?n + 1, t_updated_at := max stamp (t_last_activity_at t),
                         t_last_activity_at := max stamp (t_last_activity_at t)\<rparr>) (db_topics ?db1),
                 db_posts := db_posts ?db1 @
                   [new_post ?j topic_id author ?n body parent path (max stamp (t_last_activity_at t))]\<rparr>"
    by auto
  from prepare_reply [OF run(3)] obtain r where
    r: "?n \<noteq> 1" "parent = Some parent_id" "r \<in> set (db_posts db)" "p_topic_id r = topic_id" "p_id r = parent_id"
      "path = p_path r @ [?n]" "length (p_path r) < 32"
    by auto
  have tid: "t_id t = topic_id" using find_topic_in [OF t] by simp
  have "?j \<notin> p_id ` set (db_posts db)"
    using run(2) by (auto simp: post_key_taken_def list_ex_iff)
  moreover have "threads_of db' = reply_effect db ?j author t r"
    using run(5) r tid
    by (simp add: threads_of_def reply_effect_def map_abs_topic_upd new_post_def abs_post_def abs_topic_def
        reply_frame_def)
  ultimately show ?thesis using t r run(1,4,5) by auto
qed

lemma insert_reply_Inl:
  "insert_reply author body parent_id stamp topic_id db = (Inl e, db') \<Longrightarrow> threads_of db' = threads_of db"
  by (auto simp: insert_reply_def Let_def case_prod_unfold threads_of_def
      split: option.splits if_splits sum.splits)

lemma evolves_new_reply: "relates evolves (CreateReplyAndAdvanceTopic author body parent stamp topic)"
  unfolding CreateReplyAndAdvanceTopic_def
proof (rule evolution.relates_statement)
  fix db :: forum_db
  obtain res db' where run: "insert_reply author body parent stamp topic db = (res, db')" by force
  show "evolves db (snd (insert_reply author body parent stamp topic db))"
  proof (cases res)
    case (Inl e)
    then show ?thesis using insert_reply_Inl run by (auto intro: evolves_same)
  next
    case (Inr x)
    then obtain t r where tr: "find_topic db topic = Some t" "r \<in> set (db_posts db)" "p_topic_id r = topic"
        "length (p_path r) < 32" "db_seqs db PostSeq \<notin> p_id ` set (db_posts db)"
        "threads_of db' = reply_effect db (db_seqs db PostSeq) author t r"
      using insert_reply_Inr run by blast
    have "thread_step (threads_of db) (reply_effect db (db_seqs db PostSeq) author t r)"
      using find_topic_in [OF tr(1)] tr
        thread_step.reply [of "abs_topic t" "threads_of db" "abs_post r" "db_seqs db PostSeq" author]
      by (simp add: reply_effect_def threads_of_def image_image)
    then show ?thesis using run tr(6) by (intro evolves_step) simp
  qed
qed

subsection \<open>Every service\<close>

text \<open>The statements whose effect the interpretations below look at one by one.\<close>

lemmas row_statements =
  ReplacePublicationWindow_def UpdatePostRevision_def SoftDeletePost_def WarnUserAndAudit_def
  SuspendUserAndAudit_def insert_report_def AddReportNoteAndAudit_def MarkTopicReadBoundary_def
  upsert_marker_def TouchSession_def query_RevokeSession_def InsertOIDCLoginAttempt_def
  ConsumeOIDCLoginAttempt_def InsertUser_def InsertExternalIdentity_def UpdateUserFromOIDC_def
  UpdateExternalIdentityVerification_def InsertSession_def RevokeSessionForRotation_def
  BootstrapAdministratorAndAudit_def ClaimInitialAdministratorAndAudit_def RebindExternalIdentityAndAudit_def
  CreateAdministrationGroupAndAudit_def RenameAdministrationGroupAndAudit_def
  GrantAdministrationMembershipAndAudit_def RevokeAdministrationMembershipAndAudit_def revise_member_def
  ChangeAdministrationRoleAndAudit_def revoke_listed_def UpdateControlSettingsAndAudit_def
  CreateAreaForAdministration_def AddAreaGroupForAdministration_def DeleteAreaGroupsForAdministration_def
  UpdateAreaForAdministration_def CreateAreaAdministrationAudit_def UpdateAdministrationAreaAndAudit_def
  GrantAdministrationAreaGroupAndAudit_def RevokeAdministrationAreaGroupAndAudit_def revise_area_def

lemmas changed_rows =
  ChangeTopicStateAndAudit_def ChangeTopicPinAndAudit_def MoveTopicAndAudit_def
  ChangePostVisibilityAndAudit_def RedactPostAndAudit_def MuteUserAndAudit_def ReinstateUserAndAudit_def
  ClaimReportAndAudit_def FinishReportAndAudit_def

interpretation evolution_free: registration_free evolves
  by unfold_locales (rule evolves_same; simp add: threads_of_def)+

interpretation board_evolution: board_relation evolves
  by (unfold_locales; (unfold row_statements changed_rows)?;
      (intro evolves_new_topic evolves_new_reply evolves_change_topic evolves_change_post evolves_change_user
        evolves_change_report evolution.relates_bind evolution.relates_clock evolution.relates_statement
        evolves_same)?;
      (auto intro!: evolves_same threads_of_posts simp: threads_of_def Let_def case_prod_unfold abs_post_def
        abs_topic_def split: option.split)?)

lemma board_run_inv: "board_run db db' \<Longrightarrow> board_inv db \<Longrightarrow> board_inv db'"
  using board_evolution.board_run_relates [of db db'] threads_evolve_inv
  by (auto simp: board_inv_def evolves_def)

end
