(* ===== verification/Example.thy ===== *)
theory Example
  imports BoardThreads
begin

text \<open>
  A small board the witnesses run on: an administrator, two members and a moderator, one public
  area, and the states after a topic and a reply. Times are in nanoseconds after the epoch.
\<close>

definition ex_user :: "int \<Rightarrow> string \<Rightarrow> user_row" where
  "ex_user i role =
     \<lparr>u_id = i, u_display_name = ''user'', u_email = None, u_avatar_url = None,
      u_last_login_at = At 1000, u_role = role, u_suspended_at = None, u_suspended_until = None,
      u_suspension_reason = None, u_muted_until = None, u_created_at = At 1000, u_updated_at = At 1000,
      u_window_started_at = None, u_publication_count = 0, u_administration_revision = 1,
      u_sync_state = ''accepted'', u_sync_last_attempt_at = None, u_sync_next_attempt_at = None,
      u_sync_failure_class = None\<rparr>"

definition ex_area :: area_row where
  "ex_area =
     \<lparr>a_id = 1, a_slug = ''general'', a_name = ''General'', a_description = '''', a_display_order = 0,
      a_visibility = ''public'', a_posting_mode = ''normal'', a_created_by = 1, a_updated_by = 1,
      a_created_at = At 1000, a_updated_at = At 1000, a_revision = 1\<rparr>"

definition ex_session :: session_row where
  "ex_session =
     \<lparr>s_id = 1, s_token_hash = [7], s_user_id = 2, s_issued_at = At 2000, s_last_seen_at = At 2000,
      s_validated_at = At 2000, s_expires_at = At 9000000000, s_revoked_at = None\<rparr>"

definition ex_settings :: "int \<Rightarrow> int \<Rightarrow> settings_row" where
  "ex_settings idle revalidate =
     \<lparr>st_registration_mode = ''closed'', st_maintenance_enabled = False, st_maintenance_message = [],
      st_publish_rate_limit = 10, st_new_account_publish_rate_limit = 5, st_publish_window_seconds = 60,
      st_new_account_period_seconds = 3600, st_session_idle_seconds = idle,
      st_auth_revalidate_seconds = revalidate, st_administration_revision = 1, st_updated_at = At 1000\<rparr>"

definition ex_db :: forum_db where
  "ex_db =
     \<lparr>db_users = [ex_user 1 ''administrator'', ex_user 2 ''member'', ex_user 3 ''moderator'', ex_user 4 ''member''],
      db_areas = [ex_area], db_area_groups = [], db_members = [], db_groups = [], db_topics = [], db_posts = [],
      db_sessions = [ex_session], db_identities = [], db_login_attempts = [], db_registrations = [], db_invitations = [],
      db_settings = [], db_smtp = [],
      db_audits = [], db_warnings = [], db_reports = [], db_report_notes = [], db_reads = [],
      db_governance = True, db_seqs = (\<lambda>_. 1)\<rparr>"

definition ex_world :: "forum_db \<Rightarrow> gotime list \<Rightarrow> world" where
  "ex_world db clock = \<lparr>w_db = db, w_clock = clock, w_faults = []\<rparr>"

definition ex_tx :: tx_env where
  "ex_tx =
     \<lparr>te_context_given = True, te_beginner_given = True, te_context_error = None, te_begin = BeginOk,
      te_commit = CommitOk, te_rollback_error = None\<rparr>"

definition ex_env :: publish_env where
  "ex_env =
     \<lparr>pe_tx = ex_tx, pe_destination_valid = True,
      pe_render = (\<lambda>md. Inr \<lparr>rm_html = ''<p>'' @ md @ ''</p>'', rm_search_text = md\<rparr>), pe_nfc = id\<rparr>"

definition ex_actor :: "int \<Rightarrow> role \<Rightarrow> access_context" where
  "ex_actor i role =
     \<lparr>ac_authenticated = True, ac_user_id = i, ac_role = role, ac_group_ids = [], ac_suspended = False,
      ac_muted_until = None, ac_validated_at = 0\<rparr>"

definition ex_topic_call :: "(go_error + publish_result) \<times> world" where
  "ex_topic_call =
     CreateTopic ex_env example_policy (ex_actor 2 RoleMember) ''general'' ''Hello'' ''first''
       (ex_world ex_db [5000, 6000])"

definition ex_db1 :: forum_db where "ex_db1 = w_db (snd ex_topic_call)"

lemma ex_topic_result:
  "fst ex_topic_call =
     Inr \<lparr>pr_topic_id = 1, pr_post_id = 1, pr_post_number = 1, pr_node_ordinal = 1\<rparr>"
  by code_simp

lemma ex_topic_call_eq: "ex_topic_call = (Inr \<lparr>pr_topic_id = 1, pr_post_id = 1, pr_post_number = 1, pr_node_ordinal = 1\<rparr>, snd ex_topic_call)"
  by (metis ex_topic_result prod.collapse)

text \<open>Member 4 answers the first post.\<close>

definition ex_reply_call :: "(go_error + publish_result) \<times> world" where
  "ex_reply_call =
     CreateReply ex_env example_policy (ex_actor 4 RoleMember) 1 1 ''second'' (ex_world ex_db1 [7000, 8000])"

definition ex_db2 :: forum_db where "ex_db2 = w_db (snd ex_reply_call)"

lemma ex_reply_result:
  "fst ex_reply_call =
     Inr \<lparr>pr_topic_id = 1, pr_post_id = 2, pr_post_number = 2, pr_node_ordinal = 2\<rparr>"
  by code_simp

lemma ex_reply_call_eq:
  "CreateReply ex_env example_policy (ex_actor 4 RoleMember) 1 1 ''second'' (ex_world ex_db1 [7000, 8000]) =
     (Inr \<lparr>pr_topic_id = 1, pr_post_id = 2, pr_post_number = 2, pr_node_ordinal = 2\<rparr>, snd ex_reply_call)"
  by (metis ex_reply_call_def ex_reply_result prod.collapse)

lemma ex_db_inv: "board_inv ex_db"
  by (simp add: board_inv_def thread_inv_def threads_of_def ex_db_def)

lemma ex_run1: "board_run ex_db ex_db1"
proof -
  have "board_step (w_db (ex_world ex_db [5000, 6000]))
      (w_db (run_call (CallCreateTopic ex_env example_policy (ex_actor 2 RoleMember) ''general'' ''Hello'' ''first'')
         (ex_world ex_db [5000, 6000])))"
    by (rule board_step.call)
  then show ?thesis
    by (simp add: board_run_def ex_world_def ex_db1_def ex_topic_call_def r_into_rtranclp)
qed

lemma ex_run2: "board_run ex_db1 ex_db2"
proof -
  have "board_step (w_db (ex_world ex_db1 [7000, 8000]))
      (w_db (run_call (CallCreateReply ex_env example_policy (ex_actor 4 RoleMember) 1 1 ''second'')
         (ex_world ex_db1 [7000, 8000])))"
    by (rule board_step.call)
  then show ?thesis
    by (simp add: board_run_def ex_world_def ex_db2_def ex_reply_call_def r_into_rtranclp)
qed

lemma ex_db1_inv: "board_inv ex_db1"
  by (rule board_run_inv [OF ex_run1 ex_db_inv])

lemma ex_db2_inv: "board_inv ex_db2"
  by (rule board_run_inv [OF ex_run2 ex_db1_inv])

lemma w_db_ex_world [simp]: "w_db (ex_world db clock) = db"
  by (simp add: ex_world_def)

lemma ex_reply_faults: "w_faults (snd ex_reply_call) = []"
  by code_simp

subsection \<open>Moderation of the example\<close>

text \<open>The moderator redacts the reply, and then tries in vain to restore it.\<close>

definition ex_extended :: "string \<Rightarrow> int \<Rightarrow> string \<Rightarrow> extended_input" where
  "ex_extended action target reason =
     \<lparr>ei_action = action, ei_target = target, ei_reason = reason, ei_destination = '''', ei_mute_duration = 0\<rparr>"

definition ex_redact_call :: "(go_error + extended_result) \<times> world" where
  "ex_redact_call =
     ApplyExtendedAction ex_tx (Some 9000) (ex_actor 3 RoleModerator) (ex_extended RedactPost 2 ''spam'') (Some 77)
       (ex_world ex_db2 [])"

definition ex_redact_db :: forum_db where "ex_redact_db = w_db (snd ex_redact_call)"

lemma ex_redact_result: "map_sum id xr_audit (fst ex_redact_call) = Inr 1"
  by code_simp

definition ex_restore_call :: "(go_error + extended_result) \<times> world" where
  "ex_restore_call =
     ApplyExtendedAction ex_tx (Some 9500) (ex_actor 3 RoleModerator) (ex_extended RestorePost 2 ''appeal'') (Some 78)
       (ex_world ex_redact_db [])"

lemma ex_restore_run: "board_run ex_redact_db (w_db (snd ex_restore_call))"
proof -
  have "board_step (w_db (ex_world ex_redact_db []))
      (w_db (run_call (CallExtendedAction ex_tx (Some 9500) (ex_actor 3 RoleModerator)
         (ex_extended RestorePost 2 ''appeal'') (Some 78)) (ex_world ex_redact_db [])))"
    by (rule board_step.call)
  then show ?thesis by (simp add: board_run_def ex_restore_call_def r_into_rtranclp)
qed

end
