(* ===== verification/PublishFacts.thy ===== *)
theory PublishFacts
  imports Example
begin

text \<open>
  What a successful publication means: who was allowed to do it, on the rows as they were locked,
  what it added, and what it spent of the account's publication window.
\<close>

subsection \<open>Successful bodies\<close>

lemma lockPublicationActor_Inr:
  assumes "lockPublicationActor actor w = (Inr (current, locked), w')"
  shows "\<exists>u now role. u \<in> set (db_users (w_db w)) \<and> u_id u = ac_user_id actor \<and> u_sync_state u = ''accepted'' \<and>
    locked = \<lparr>la_user = u, la_observed_at = At now\<rparr> \<and> publishingRole (u_role u) = Some role \<and>
    role = ac_role actor \<and> \<not> locked_window_invalid (ac_user_id actor) locked \<and>
    \<not> locked_restrictions_invalid locked \<and>
    current = locked_context locked role (group_ids_of_user (w_db w) (ac_user_id actor)) \<and>
    Valid current \<and> w_db w' = w_db w"
  using assms
  by (auto simp: lockPublicationActor_def LockPublicationActor_def ListLockedPublicationActorGroupIDs_def
      tx_inverts split: option.splits dest!: find_Some_iff2)

lemma admitPublication_Inr:
  assumes "admitPublication p locked w = (Inr stamp, w')"
  shows "\<exists>now d. DecidePublication p (ts_time (Some (u_created_at (la_user locked)))) now
      (map_option (\<lambda>t. ts_time (Some t)) (u_window_started_at (la_user locked)))
      (u_publication_count (la_user locked)) = Inr d \<and>
    \<not> RetryAfterSeconds d > 0 \<and> stamp = At now \<and> truncate_us now = now \<and>
    truncate_us (pd_started_at d) = pd_started_at d \<and>
    w_db w' = (w_db w)\<lparr>db_users := upd_where (\<lambda>u. u_id u = u_id (la_user locked))
      (\<lambda>u. u\<lparr>u_window_started_at := Some (At (pd_started_at d)), u_publication_count := pd_count d\<rparr>)
      (db_users (w_db w))\<rparr>"
  using assms
  by (auto simp: admitPublication_def ReplacePublicationWindow_def tx_inverts
      split: option.splits)

text \<open>
  The decision a publication spends: taken on the account's stored window at a database time, it
  admits, and the window it yields is what the account row holds afterwards.
\<close>

definition admitted :: "publication_policy \<Rightarrow> user_row \<Rightarrow> gotime \<Rightarrow> publication_decision \<Rightarrow> bool" where
  "admitted p u now d \<longleftrightarrow>
     DecidePublication p (ts_time (Some (u_created_at u))) now
       (map_option (\<lambda>t. ts_time (Some t)) (u_window_started_at u)) (u_publication_count u) = Inr d \<and>
     \<not> RetryAfterSeconds d > 0"

definition spend_window :: "int \<Rightarrow> publication_decision \<Rightarrow> user_row list \<Rightarrow> user_row list" where
  "spend_window i d us =
     upd_where (\<lambda>u. u_id u = i)
       (\<lambda>u. u\<lparr>u_window_started_at := Some (At (pd_started_at d)), u_publication_count := pd_count d\<rparr>) us"

text \<open>The actor as the database sees it at an instant.\<close>

definition actor_at :: "forum_db \<Rightarrow> user_row \<Rightarrow> role \<Rightarrow> gotime \<Rightarrow> access_context" where
  "actor_at db u role now =
     locked_context \<lparr>la_user = u, la_observed_at = At now\<rparr> role (group_ids_of_user db (u_id u))"

definition area_policy_of :: "forum_db \<Rightarrow> area_row \<Rightarrow> area_policy" where
  "area_policy_of db a =
     \<lparr>ap_visibility = a_visibility a, ap_posting_mode = a_posting_mode a,
      ap_group_ids = group_ids_of_area db (a_id a)\<rparr>"

definition account_of :: "forum_db \<Rightarrow> access_context \<Rightarrow> user_row \<Rightarrow> bool" where
  "account_of db actor u \<longleftrightarrow>
     u \<in> set (db_users db) \<and> u_id u = ac_user_id actor \<and> u_sync_state u = ''accepted'' \<and>
     publishingRole (u_role u) = Some (ac_role actor)"

definition rendered_as :: "renderer \<Rightarrow> string \<Rightarrow> new_body \<Rightarrow> bool" where
  "rendered_as render md body \<longleftrightarrow>
     (\<exists>r. render md = Inr r \<and> rm_html r \<noteq> '''' \<and> nb_markdown body = md \<and> nb_html body = rm_html r \<and>
          nb_renderer body = RendererVersion \<and> nb_search_text body = rm_search_text r \<and>
          nb_search_version body = SearchProjectionVersion)"

lemma rendered_body_Inr:
  "renderPublishingDraft render md = Inr r \<Longrightarrow> rendered_body what md r = Inr body \<Longrightarrow> rendered_as render md body"
  by (auto simp: renderPublishingDraft_def rendered_body_def PersistenceValues_def SearchProjectionValues_def
      rendered_as_def split: sum.splits if_splits)

lemma createReply_body_Inr:
  assumes "createReply_body (tx_return p) actor topicID parentPostID body w = (Inr res, w')"
  shows "\<exists>u now t a r now2 d.
    PublicationPolicyValid p \<and> account_of (w_db w) actor u \<and>
    t \<in> set (db_topics (w_db w)) \<and> t_id t = topicID \<and> t_deleted_at t = None \<and>
    find_area (w_db w) (t_area_id t) = Some a \<and>
    r \<in> set (db_posts (w_db w)) \<and> p_topic_id r = topicID \<and> p_id r = parentPostID \<and> p_deleted_at r = None \<and>
    CanReply (actor_at (w_db w) u (ac_role actor) now) (area_policy_of (w_db w) a) (t_state t) \<and>
    admitted p u now2 d \<and>
    insert_reply (ac_user_id actor) body parentPostID (At now2) topicID
      ((w_db w)\<lparr>db_users := spend_window (ac_user_id actor) d (db_users (w_db w))\<rparr>) = (Inr res, w_db w') \<and>
    pr_topic_id res = topicID \<and> pr_post_id res > 0 \<and> pr_post_number res \<ge> 2 \<and> pr_node_ordinal res \<ge> 2"
proof -
  from assms obtain current locked topic stamp w2 w3 w4 where
    p: "PublicationPolicyValid p"
    and lock: "lockPublicationActor actor (after_statement w (w_db w)) = (Inr (current, locked), w2)"
    and topic: "LockTopicForReply parentPostID topicID w2 = (Inr topic, w3)"
    and rest: "a_id (lr_area topic) > 0"
      "CanReply current \<lparr>ap_visibility = a_visibility (lr_area topic), ap_posting_mode = a_posting_mode (lr_area topic),
         ap_group_ids = group_ids_of_area (w_db w3) (a_id (lr_area topic))\<rparr> (t_state (lr_topic topic))"
      "admitPublication p locked (after_statement w3 (w_db w3)) = (Inr stamp, w4)"
      "insert_reply (ac_user_id current) body parentPostID stamp topicID (w_db w4) = (Inr res, w_db w')"
    and checks: "pr_topic_id res = topicID" "pr_post_id res > 0" "pr_post_number res \<ge> 2" "pr_node_ordinal res \<ge> 2"
    by (auto simp: createReply_body_def load_policy_def ConfigurePublicationTransaction_def lockedAreaPolicy_def
        ListAreaGroupIDsForPublication_def CreateReplyAndAdvanceTopic_def tx_inverts not_le not_less)
  from lockPublicationActor_Inr [OF lock] obtain u now where
    u: "account_of (w_db w) actor u" "locked = \<lparr>la_user = u, la_observed_at = At now\<rparr>"
      "current = actor_at (w_db w) u (ac_role actor) now" "w_db w2 = w_db w" "ac_user_id current = u_id u"
    by (auto simp: account_of_def actor_at_def locked_context_def)
  have uid: "ac_user_id current = ac_user_id actor" using u(1,5) by (simp add: account_of_def)
  have w3: "w_db w3 = w_db w" and t: "lr_topic topic \<in> set (db_topics (w_db w))" "t_id (lr_topic topic) = topicID"
      "t_deleted_at (lr_topic topic) = None" "find_area (w_db w) (t_area_id (lr_topic topic)) = Some (lr_area topic)"
      "\<exists>r \<in> set (db_posts (w_db w)). p_topic_id r = topicID \<and> p_id r = parentPostID \<and> p_deleted_at r = None"
    using topic u(4)
    by (auto simp: LockTopicForReply_def tx_inverts split: option.splits dest!: find_Some_iff2)
  from admitPublication_Inr [OF rest(3)] obtain now2 d where
    d: "admitted p u now2 d" "stamp = At now2"
      "w_db w4 = (w_db w)\<lparr>db_users := spend_window (ac_user_id actor) d (db_users (w_db w))\<rparr>"
    using w3 u(1,2) by (auto simp: admitted_def spend_window_def account_of_def)
  from t(5) obtain r where r: "r \<in> set (db_posts (w_db w))" "p_topic_id r = topicID" "p_id r = parentPostID"
      "p_deleted_at r = None" by auto
  show ?thesis
    by (intro exI [of _ u] exI [of _ now] exI [of _ "lr_topic topic"] exI [of _ "lr_area topic"] exI [of _ r]
        exI [of _ now2] exI [of _ d])
      (use p u t(1-4) r rest(2,4) d checks uid w3 in \<open>simp add: area_policy_of_def\<close>)
qed

lemma CreateReply_Inr:
  assumes "CreateReply env p actor topicID parentPostID md w = (Inr res, w')"
  shows "\<exists>body. rendered_as (pe_render env) md body \<and> Valid actor \<and> ac_authenticated actor \<and>
    createReply_body (tx_return p) actor topicID parentPostID body w = (Inr res, w')"
  using assms
  by (auto simp: CreateReply_def createReply_def context_error_def tx_inverts within_tx_Inr
      intro: rendered_body_Inr)

subsection \<open>Where a new post stands in the thread\<close>

lemma topic_posts_topic: "q \<in> set (topic_posts db i) \<longleftrightarrow> q \<in> set (db_posts db) \<and> p_topic_id q = i"
  by (simp add: topic_posts_def)

lemma board_inv_path_unique:
  assumes "board_inv db" and "p \<in> set (db_posts db)" and "q \<in> set (db_posts db)"
    and "p_topic_id p = p_topic_id q" and "p_path p = p_path q"
  shows "p = q"
proof -
  have "abs_post p = abs_post q"
    using assms by (intro thread_inv_path_unique [of "threads_of db"]) (simp_all add: board_inv_def threads_of_def)
  moreover have "distinct (map p_id (db_posts db))"
    using assms(1) by (simp add: board_inv_def thread_inv_def threads_of_def comp_def)
  ultimately show ?thesis
    using assms(2,3) distinct_key_eq [of p_id "db_posts db" p q] by (simp add: abs_post_def)
qed

text \<open>
  A reply under a post that is not deleted leaves every older node of its topic as visible as it was:
  a node that gains the reply as a descendant is the parent, or already had the parent as one.
\<close>

lemma shown_node_reply:
  assumes inv: "board_inv db" and r: "r \<in> set (topic_posts db i)" "p_deleted_at r = None"
    and q: "q \<in> set (topic_posts db i)"
    and n: "p_deleted_at n = None" "p_path n = p_path r @ [k]"
  shows "shown_node (topic_posts db i @ [n]) q = shown_node (topic_posts db i) q"
proof -
  have "shown_node (topic_posts db i) q" if d: "descends_from n q"
  proof (cases "length (p_path q) = length (p_path r)")
    case True
    then have "p_path q = p_path r" using d n by (simp add: descends_from_def)
    then have "q = r" using board_inv_path_unique [OF inv, of q r] q r by (simp add: topic_posts_topic)
    then show ?thesis using r by (simp add: shown_node_def)
  next
    case False
    then have "descends_from r q" using d n by (auto simp: descends_from_def)
    then show ?thesis using r by (auto simp: shown_node_def list_ex_iff)
  qed
  then show ?thesis by (auto simp: shown_node_def n)
qed

lemma shown_count_reply:
  assumes inv: "board_inv db" and r: "r \<in> set (topic_posts db i)" "p_deleted_at r = None"
    and n: "p_deleted_at n = None" "p_path n = p_path r @ [k]"
  shows "shown_count (topic_posts db i @ [n]) (p_path n) = 1 + shown_count (topic_posts db i) (p_path n)"
proof -
  have "filter (\<lambda>q. p_path q \<le> p_path n \<and> shown_node (topic_posts db i @ [n]) q) (topic_posts db i) =
        filter (\<lambda>q. p_path q \<le> p_path n \<and> shown_node (topic_posts db i) q) (topic_posts db i)"
    using shown_node_reply [OF inv r _ n] by (auto intro: filter_cong)
  moreover have "shown_node (topic_posts db i @ [n]) n" using n by (simp add: shown_node_def)
  ultimately show ?thesis by (simp add: shown_count_def)
qed

subsection \<open>Properties of a successful reply\<close>

text \<open>
  C8. A reply is decided on the rows as they are locked, whatever the request believed: when
  \<open>CreateReply\<close> succeeds there are an account row with the actor's identifier and role, accepted by
  the identity provider, that is neither suspended nor muted at the database's clock, a live topic
  with the given identifier, its area, which the actor may view with its current groups and which is
  not archived, and a parent post of that topic that is not deleted; members only reach open topics
  of normal areas.
\<close>

theorem CreateReply_authorized:
  assumes "CreateReply env p actor topicID parentPostID md w = (Inr res, w')"
  shows "\<exists>u now t a r.
    account_of (w_db w) actor u \<and> \<not> locked_suspended \<lparr>la_user = u, la_observed_at = At now\<rparr> \<and>
    \<not> locked_muted \<lparr>la_user = u, la_observed_at = At now\<rparr> \<and>
    t \<in> set (db_topics (w_db w)) \<and> t_id t = topicID \<and> t_deleted_at t = None \<and>
    find_area (w_db w) (t_area_id t) = Some a \<and>
    CanViewArea (actor_at (w_db w) u (ac_role actor) now) (area_policy_of (w_db w) a) \<and>
    a_posting_mode a \<noteq> PostingArchived \<and> t_state t \<noteq> TopicArchived \<and>
    (\<not> is_staff actor \<longrightarrow> a_posting_mode a = PostingNormal \<and> t_state t = TopicOpen) \<and>
    r \<in> set (db_posts (w_db w)) \<and> p_topic_id r = topicID \<and> p_id r = parentPostID \<and> p_deleted_at r = None"
proof -
  from CreateReply_Inr [OF assms] obtain body where
    "createReply_body (tx_return p) actor topicID parentPostID body w = (Inr res, w')" by auto
  from createReply_body_Inr [OF this] obtain u now t a r where
    facts: "account_of (w_db w) actor u" "t \<in> set (db_topics (w_db w))" "t_id t = topicID" "t_deleted_at t = None"
      "find_area (w_db w) (t_area_id t) = Some a" "r \<in> set (db_posts (w_db w))" "p_topic_id r = topicID"
      "p_id r = parentPostID" "p_deleted_at r = None"
    and can: "CanReply (actor_at (w_db w) u (ac_role actor) now) (area_policy_of (w_db w) a) (t_state t)"
    by blast
  let ?A = "actor_at (w_db w) u (ac_role actor) now"
  have staff: "is_staff ?A = is_staff actor" by (simp add: actor_at_def locked_context_def is_staff_def)
  have view: "CanViewArea ?A (area_policy_of (w_db w) a)"
    by (rule CanCreateTopic_view [OF CanReply_create [OF can]])
  have active: "\<not> locked_suspended \<lparr>la_user = u, la_observed_at = At now\<rparr>"
      "\<not> locked_muted \<lparr>la_user = u, la_observed_at = At now\<rparr>"
    using CanCreateTopic_active [OF CanReply_create [OF can]]
    by (auto simp: actor_at_def locked_context_def split: if_splits)
  have mode: "a_posting_mode a \<noteq> PostingArchived" "\<not> is_staff actor \<longrightarrow> a_posting_mode a = PostingNormal"
    using CanCreateTopic_mode [OF CanReply_create [OF can]] staff by (auto simp: area_policy_of_def)
  have state: "t_state t \<noteq> TopicArchived" "\<not> is_staff actor \<longrightarrow> t_state t = TopicOpen"
    using CanReply_topic [OF can] staff by auto
  show ?thesis
    by (intro exI [of _ u] exI [of _ now] exI [of _ t] exI [of _ a] exI [of _ r])
      (use facts view active mode state in simp)
qed

theorem CreateReply_authorized_witness:
  "\<exists>u. account_of ex_db1 (ex_actor 4 RoleMember) u"
  using CreateReply_authorized [OF ex_reply_call_eq] by auto

lemma insert_reply_users: "db_users (snd (insert_reply author body parent stamp topic db)) = db_users db"
  by (auto simp: insert_reply_def Let_def case_prod_unfold split: option.split sum.split)

lemma CreateReply_effect:
  assumes "CreateReply env p actor topicID parentPostID md w = (Inr res, w')" and inv: "board_inv (w_db w)"
  shows "\<exists>t r n. t \<in> set (db_topics (w_db w)) \<and> t_id t = topicID \<and> r \<in> set (db_posts (w_db w)) \<and>
    p_topic_id r = topicID \<and> p_id r = parentPostID \<and>
    db_posts (w_db w') = db_posts (w_db w) @ [n] \<and> p_topic_id n = topicID \<and>
    p_number n = t_next_post_number t \<and> p_parent n = Some parentPostID \<and>
    p_path n = p_path r @ [t_next_post_number t] \<and> p_author_id n = ac_user_id actor \<and>
    p_markdown n = md \<and> p_deleted_at n = None \<and>
    (\<exists>x. pe_render env md = Inr x \<and> p_html n = rm_html x \<and> p_search_text n = rm_search_text x) \<and>
    res = \<lparr>pr_topic_id = topicID, pr_post_id = p_id n, pr_post_number = t_next_post_number t,
           pr_node_ordinal = shown_count (topic_posts (w_db w') topicID) (p_path n)\<rparr>"
proof -
  from CreateReply_Inr [OF assms(1)] obtain body where
    body: "rendered_as (pe_render env) md body"
      "createReply_body (tx_return p) actor topicID parentPostID body w = (Inr res, w')" by auto
  from createReply_body_Inr [OF body(2)] obtain d now2 r0 where
    run: "insert_reply (ac_user_id actor) body parentPostID (At now2) topicID
      ((w_db w)\<lparr>db_users := spend_window (ac_user_id actor) d (db_users (w_db w))\<rparr>) = (Inr res, w_db w')"
    and r0: "r0 \<in> set (db_posts (w_db w))" "p_topic_id r0 = topicID" "p_id r0 = parentPostID" "p_deleted_at r0 = None"
    by blast
  let ?db = "(w_db w)\<lparr>db_users := spend_window (ac_user_id actor) d (db_users (w_db w))\<rparr>"
  from insert_reply_Inr [OF run] obtain t r where
    t: "find_topic ?db topicID = Some t" "r \<in> set (db_posts (w_db w))" "p_id r = parentPostID" "p_topic_id r = topicID"
      "res = \<lparr>pr_topic_id = topicID, pr_post_id = db_seqs (w_db w) PostSeq, pr_post_number = t_next_post_number t,
           pr_node_ordinal = 1 + shown_count (topic_posts ?db topicID) (p_path r @ [t_next_post_number t])\<rparr>"
      "db_posts (w_db w') = db_posts (w_db w) @ [new_post (db_seqs (w_db w) PostSeq) topicID (ac_user_id actor)
         (t_next_post_number t) body (Some parentPostID) (p_path r @ [t_next_post_number t])
         (max (At now2) (t_last_activity_at t))]"
    by auto
  let ?n = "new_post (db_seqs (w_db w) PostSeq) topicID (ac_user_id actor) (t_next_post_number t) body
     (Some parentPostID) (p_path r @ [t_next_post_number t]) (max (At now2) (t_last_activity_at t))"
  have same: "r = r0"
  proof -
    have "distinct (map p_id (db_posts (w_db w)))"
      using inv by (simp add: board_inv_def thread_inv_def threads_of_def comp_def)
    then show ?thesis using distinct_key_eq [of p_id "db_posts (w_db w)" r r0] t(2,3) r0 by simp
  qed
  have tp: "topic_posts (w_db w') topicID = topic_posts (w_db w) topicID @ [?n]"
    by (simp add: topic_posts_def t(6) new_post_def)
  have "shown_count (topic_posts (w_db w) topicID @ [?n]) (p_path ?n) =
        1 + shown_count (topic_posts (w_db w) topicID) (p_path ?n)"
    by (rule shown_count_reply [OF inv, of r _ _ "t_next_post_number t"])
      (use t r0 same in \<open>simp_all add: topic_posts_topic new_post_def\<close>)
  then have ord: "pr_node_ordinal res = shown_count (topic_posts (w_db w') topicID) (p_path ?n)"
    using t(5) tp by (simp add: new_post_def topic_posts_def)
  show ?thesis
    by (intro exI [of _ t] exI [of _ r] exI [of _ ?n])
      (use t ord body(1) find_topic_in [of "?db" topicID t] in \<open>auto simp: new_post_def rendered_as_def\<close>)
qed

lemma CreateReply_inv:
  assumes "CreateReply env p actor topicID parentPostID md w = (Inr res, w')" and inv: "board_inv (w_db w)"
  shows "board_inv (w_db w')"
proof (rule board_run_inv [OF _ inv])
  have "w' = run_call (CallCreateReply env p actor topicID parentPostID md) w" using assms(1) by simp
  then show "board_run (w_db w) (w_db w')"
    unfolding board_run_def using board_step.call by (metis r_into_rtranclp)
qed

text \<open>
  C9. A successful reply appends exactly one post and changes no other: its number is the topic's
  next number, its path extends the parent's path by that number, its author is the actor, its body
  is the submitted Markdown with the renderer's output; the ordinal it reports is its position
  among the posts that readers are shown, in the tables after the reply; and the topic's counters
  still satisfy the schema's deferred consistency trigger.
\<close>

theorem CreateReply_appends:
  assumes "CreateReply env p actor topicID parentPostID md w = (Inr res, w')" and inv: "board_inv (w_db w)"
  shows "\<exists>t r n. t \<in> set (db_topics (w_db w)) \<and> t_id t = topicID \<and> r \<in> set (db_posts (w_db w)) \<and>
    p_topic_id r = topicID \<and> p_id r = parentPostID \<and>
    db_posts (w_db w') = db_posts (w_db w) @ [n] \<and> p_topic_id n = topicID \<and>
    p_number n = t_next_post_number t \<and> p_parent n = Some parentPostID \<and>
    p_path n = p_path r @ [t_next_post_number t] \<and> p_author_id n = ac_user_id actor \<and>
    p_markdown n = md \<and> p_deleted_at n = None \<and>
    (\<exists>x. pe_render env md = Inr x \<and> p_html n = rm_html x \<and> p_search_text n = rm_search_text x) \<and>
    res = \<lparr>pr_topic_id = topicID, pr_post_id = p_id n, pr_post_number = t_next_post_number t,
           pr_node_ordinal = shown_count (topic_posts (w_db w') topicID) (p_path n)\<rparr> \<and>
    list_all (\<lambda>u. trigger_accepts (threads_of (w_db w')) (abs_topic u)) (db_topics (w_db w'))"
proof -
  have "board_inv (w_db w')" by (rule CreateReply_inv [OF assms])
  then have "list_all (\<lambda>u. trigger_accepts (threads_of (w_db w')) (abs_topic u)) (db_topics (w_db w'))"
    by (auto simp: list_all_iff board_inv_def intro!: thread_inv_trigger) (simp add: threads_of_def)
  with CreateReply_effect [OF assms] show ?thesis by simp
qed

theorem CreateReply_appends_witness:
  "\<exists>n. db_posts ex_db2 = db_posts ex_db1 @ [n] \<and> p_number n = 2 \<and> shown_count (topic_posts ex_db2 1) (p_path n) = 2"
proof -
  have "board_inv (w_db (ex_world ex_db1 [7000, 8000]))" by (simp add: ex_db1_inv)
  from CreateReply_appends [OF ex_reply_call_eq this] show ?thesis
    by (auto simp: ex_db2_def ex_reply_call_def)
qed

text \<open>
  A successful reply spends the account's publication window exactly once, at one database
  time, in the step the publication policy admits, and touches no other account: this is the step
  whose runs \<open>publication_rate_bound\<close> bounds.
\<close>

lemma CreateReply_spends_window:
  assumes "CreateReply env p actor topicID parentPostID md w = (Inr res, w')"
  shows "\<exists>u now (d :: publication_decision). account_of (w_db w) actor u \<and>
    publication_step p (ts_time (Some (u_created_at u)))
      (map_option (\<lambda>t. ts_time (Some t)) (u_window_started_at u), u_publication_count u) now =
      ((Some (pd_started_at d), pd_count d), Some (pd_started_at d)) \<and>
    db_users (w_db w') = upd_where (\<lambda>v. u_id v = ac_user_id actor)
      (\<lambda>v. v\<lparr>u_window_started_at := Some (At (pd_started_at d)), u_publication_count := pd_count d\<rparr>)
      (db_users (w_db w))"
proof -
  from CreateReply_Inr [OF assms] obtain body where
    "createReply_body (tx_return p) actor topicID parentPostID body w = (Inr res, w')" by auto
  from createReply_body_Inr [OF this] obtain u now2 d where
    u: "account_of (w_db w) actor u" "admitted p u now2 d"
    and run: "insert_reply (ac_user_id actor) body parentPostID (At now2) topicID
      ((w_db w)\<lparr>db_users := spend_window (ac_user_id actor) d (db_users (w_db w))\<rparr>) = (Inr res, w_db w')"
    by blast
  have "db_users (w_db w') = spend_window (ac_user_id actor) d (db_users (w_db w))"
    using insert_reply_users [of "ac_user_id actor" body parentPostID "At now2" topicID
        "(w_db w)\<lparr>db_users := spend_window (ac_user_id actor) d (db_users (w_db w))\<rparr>"] run by simp
  then show ?thesis
    by (intro exI [of _ u] exI [of _ now2] exI [of _ d])
      (use u in \<open>simp add: admitted_def publication_step_def spend_window_def\<close>)
qed

lemma CreateReply_spends_window_witness:
  "\<exists>u now s v. account_of ex_db1 (ex_actor 4 RoleMember) u \<and>
     publication_step example_policy (ts_time (Some (u_created_at u)))
       (map_option (\<lambda>t. ts_time (Some t)) (u_window_started_at u), u_publication_count u) now = (s, Some v)"
  using CreateReply_spends_window [OF ex_reply_call_eq] by fastforce

end
