(* ===== verification/PageFacts.thy ===== *)
theory PageFacts
  imports PublishFacts "HOL-Library.Multiset"
begin

text \<open>
  The ordinals that publishing and editing report against the pages readers are shown: for everyone
  but staff the redirect lands on the page that holds the post.
\<close>

subsection \<open>Ranks in a sorted list\<close>

lemma rank_enumerate:
  "sorted_wrt (<) (map k xs) \<Longrightarrow> x \<in> set xs \<Longrightarrow>
   (m + length (filter (\<lambda>y. k y < (k x :: 'b :: linorder)) xs), x) \<in> set (enumerate m xs)"
proof (induction xs arbitrary: m)
  case (Cons y xs)
  show ?case
  proof (cases "x = y")
    case True
    have "filter (\<lambda>z. k z < k y) xs = []"
      using Cons.prems(1) by (auto simp: filter_empty_conv not_less intro: less_imp_le)
    then show ?thesis using True by simp
  next
    case False
    then have "k y < k x" "x \<in> set xs" using Cons.prems by auto
    then show ?thesis using Cons.IH [of "Suc m"] Cons.prems(1) by simp
  qed
qed simp

lemma sort_key_strict: "distinct (map k xs) \<Longrightarrow> sorted_wrt (<) (map k (sort_key k xs))"
proof -
  assume "distinct (map k xs)"
  moreover have "mset (map k (sort_key k xs)) = mset (map k xs)" by simp
  ultimately have "distinct (map k (sort_key k xs))" using mset_eq_imp_distinct_iff by blast
  moreover have "sorted (map k (sort_key k xs))" by simp
  ultimately show ?thesis using strict_sorted_iff by blast
qed

lemma length_filter_sort: "length (filter P (sort_key k xs)) = length (filter P xs)"
proof -
  have "mset (filter P (sort_key k xs)) = mset (filter P xs)" by simp
  then show ?thesis by (metis size_mset)
qed

lemma length_filter_le_less:
  fixes k :: "'a \<Rightarrow> 'b :: linorder"
  shows "distinct (map k xs) \<Longrightarrow> x \<in> set xs \<Longrightarrow>
    length (filter (\<lambda>y. k y \<le> k x) xs) = Suc (length (filter (\<lambda>y. k y < k x) xs))"
proof (induction xs)
  case (Cons y xs)
  show ?case
  proof (cases "x = y")
    case True
    then have "k z \<noteq> k x" if "z \<in> set xs" for z using Cons.prems(1) that by (auto simp: image_iff)
    then have "filter (\<lambda>y. k y \<le> k x) xs = filter (\<lambda>y. k y < k x) xs" by (auto intro!: filter_cong simp: less_le)
    then show ?thesis using True by simp
  next
    case False
    then show ?thesis using Cons by (auto simp: less_le)
  qed
qed simp

subsection \<open>The nodes of a page\<close>

lemma board_inv_ids: "board_inv db \<Longrightarrow> distinct (map p_id (db_posts db))"
  by (simp add: board_inv_def thread_inv_def threads_of_def comp_def)

lemma page_shows_shown:
  assumes inv: "board_inv db" and p: "p \<in> set (topic_posts db i)"
  shows "page_shows False (topic_posts db i) p = shown_node (topic_posts db i) p"
proof -
  have "(p_id d \<noteq> p_id p \<and> take (length (p_path p)) (p_path d) = p_path p) = descends_from d p"
    if d: "d \<in> set (topic_posts db i)" for d
  proof
    assume h: "p_id d \<noteq> p_id p \<and> take (length (p_path p)) (p_path d) = p_path p"
    then have "p_path d \<noteq> p_path p"
      using board_inv_path_unique [OF inv, of d p] d p by (auto simp: topic_posts_topic)
    moreover have "length (p_path p) \<le> length (p_path d)"
      using arg_cong [of _ _ length, OF h [THEN conjunct2]] by simp
    ultimately show "descends_from d p"
      using h by (cases "length (p_path p) = length (p_path d)") (auto simp: descends_from_def)
  next
    assume h: "descends_from d p"
    then have "d \<noteq> p" by (auto simp: descends_from_def)
    then have "p_id d \<noteq> p_id p"
      using distinct_key_eq [OF board_inv_ids [OF inv], of d p] d p by (auto simp: topic_posts_topic)
    then show "p_id d \<noteq> p_id p \<and> take (length (p_path p)) (p_path d) = p_path p"
      using h by (simp add: descends_from_def)
  qed
  then show ?thesis by (auto simp: page_shows_def shown_node_def list_ex_iff)
qed

lemma distinct_paths: "board_inv db \<Longrightarrow> distinct (map p_path (topic_posts db i))"
proof -
  assume inv: "board_inv db"
  have "distinct (topic_posts db i)"
    using board_inv_ids [OF inv] by (simp add: topic_posts_def distinct_map)
  moreover have "inj_on p_path (set (topic_posts db i))"
    using board_inv_path_unique [OF inv] by (auto simp: inj_on_def topic_posts_topic)
  ultimately show ?thesis by (simp add: distinct_map)
qed

text \<open>The ordinal of a shown post in the pages of a reader is its shown count.\<close>

lemma reader_ordinal:
  assumes inv: "board_inv db" and p: "p \<in> set (topic_posts db i)" and shown: "shown_node (topic_posts db i) p"
  shows "(shown_count (topic_posts db i) (p_path p), thread_node_of db p) \<in> set (numbered_nodes db i False)"
proof -
  let ?ps = "topic_posts db i" and ?vs = "filter (page_shows False (topic_posts db i)) (topic_posts db i)"
  have vs: "?vs = filter (shown_node ?ps) ?ps"
    using page_shows_shown [OF inv] by (auto intro!: filter_cong)
  have dist: "distinct (map p_path ?vs)"
    using distinct_paths [OF inv, of i] by (simp add: distinct_map_filter)
  have pin: "p \<in> set ?vs" using p shown vs by simp
  have "(length (filter (\<lambda>q. p_path q < p_path p) (sort_key p_path ?vs)), p) \<in> set (enumerate 0 (sort_key p_path ?vs))"
    using rank_enumerate [OF sort_key_strict [OF dist], of p 0] pin by simp
  moreover have "shown_count ?ps (p_path p) = int (length (filter (\<lambda>q. p_path q < p_path p) ?vs)) + 1"
    using length_filter_le_less [OF dist pin] by (simp add: shown_count_def vs conj_commute)
  ultimately show ?thesis
    by (force simp: numbered_nodes_def thread_nodes_def length_filter_sort)
qed

lemma page_bounds: "0 < (n :: int) \<Longrightarrow> (1 + (n - 1) div PostPageSize - 1) * PostPageSize < n \<and>
    n \<le> (1 + (n - 1) div PostPageSize - 1) * PostPageSize + PostPageSize"
  unfolding PostPageSize_def by presburger

lemma page_query_row:
  assumes "query_GetVisibleTopicPostPage off i st m g lim w = (Inr rows, w2)"
    and "visible_page_topic (w_db w) i st m g \<noteq> None"
    and "(k, n) \<in> set (numbered_nodes (w_db w) i st)" and "off < k" and "k \<le> off + lim"
  shows "\<exists>row \<in> set rows. pg_node row = Some (k, n)"
proof -
  obtain t a u where v: "visible_page_topic (w_db w) i st m g = Some (t, a, u)" using assms(2) by auto
  let ?page = "filter (\<lambda>n. off < fst n \<and> fst n \<le> off + lim) (numbered_nodes (w_db w) i st)"
  have mem: "(k, n) \<in> set ?page" using assms(3-5) by simp
  then have "?page \<noteq> []" by (metis empty_iff empty_set)
  then have "pg_node ` set rows = Some ` set ?page"
    using assms(1) v by (simp add: query_GetVisibleTopicPostPage_def select_all_Inr Let_def image_image)
  then show ?thesis using mem by (metis (no_types, lifting) image_iff)
qed

lemma page_query_total:
  assumes "w_faults w = []"
  shows "\<exists>rows w2. query_GetVisibleTopicPostPage a topicID st m g lim w = (Inr rows, w2)"
  using assms by (auto simp: query_GetVisibleTopicPostPage_def select_all_def statement_def Let_def split: option.splits)

lemmas ex_page_query_total = page_query_total [OF ex_reply_faults]

text \<open>
  C32. A reader who is not staff is sent to the right page: when the topic is visible at all, the
  query for the page that the handlers compute from the reported ordinal returns a row for the new
  post, at that ordinal.
\<close>

theorem reply_redirect_page:
  assumes "CreateReply env p actor topicID parentPostID md w = (Inr res, w')" and "board_inv (w_db w)"
    and "query_GetVisibleTopicPostPage ((1 + (pr_node_ordinal res - 1) div PostPageSize - 1) * PostPageSize)
           topicID False member groups PostPageSize w' = (Inr rows, w2)"
    and "visible_page_topic (w_db w') topicID False member groups \<noteq> None"
  shows "\<exists>row \<in> set rows. \<exists>n. pg_node row = Some (pr_node_ordinal res, n) \<and>
    tn_post_id n = pr_post_id res \<and> \<not> tn_tombstone n"
proof -
  from CreateReply_effect [OF assms(1,2)] obtain t :: topic_row and n where
    n: "db_posts (w_db w') = db_posts (w_db w) @ [n]" "p_topic_id n = topicID" "p_deleted_at n = None"
      "res = \<lparr>pr_topic_id = topicID, pr_post_id = p_id n, pr_post_number = t_next_post_number t,
           pr_node_ordinal = shown_count (topic_posts (w_db w') topicID) (p_path n)\<rparr>"
    by blast
  let ?ord = "pr_node_ordinal res"
  have mem: "n \<in> set (topic_posts (w_db w') topicID)" by (simp add: topic_posts_topic n)
  have shown: "shown_node (topic_posts (w_db w') topicID) n" by (simp add: shown_node_def n)
  have node: "(?ord, thread_node_of (w_db w') n) \<in> set (numbered_nodes (w_db w') topicID False)"
    using reader_ordinal [OF CreateReply_inv [OF assms(1,2)] mem shown] by (simp add: n(4))
  have "0 < ?ord"
  proof -
    have "n \<in> set (filter (\<lambda>q. p_path q \<le> p_path n \<and> shown_node (topic_posts (w_db w') topicID) q)
                 (topic_posts (w_db w') topicID))"
      using mem shown by simp
    then show ?thesis by (auto simp: n(4) shown_count_def filter_empty_conv)
  qed
  from page_query_row [OF assms(3,4) node] page_bounds [OF this]
  show ?thesis by (force simp: thread_node_of_def n)
qed

theorem reply_redirect_page_witness:
  "\<exists>rows w2. query_GetVisibleTopicPostPage 0 1 False False [] PostPageSize (snd ex_reply_call) = (Inr rows, w2) \<and>
     (\<exists>row \<in> set rows. \<exists>n. pg_node row = Some (2, n) \<and> tn_post_id n = 2)"
proof -
  have inv: "board_inv (w_db (ex_world ex_db1 [7000, 8000]))" by (simp add: ex_db1_inv)
  obtain rows w2 where q: "query_GetVisibleTopicPostPage 0 1 False False [] PostPageSize (snd ex_reply_call) = (Inr rows, w2)"
    using ex_page_query_total by blast
  have vis: "visible_page_topic (w_db (snd ex_reply_call)) 1 False False [] \<noteq> None" by code_simp
  from reply_redirect_page [OF ex_reply_call_eq inv _ vis] q show ?thesis by (force simp: PostPageSize_def)
qed

subsection \<open>Staff\<close>

text \<open>Member 4 deletes the reply; the moderator then answers the first post.\<close>

definition ex_delete_call :: "(go_error + delete_result) \<times> world" where
  "ex_delete_call = DeletePost ex_tx (Some 9000) (ex_actor 4 RoleMember) 2 1 (ex_world ex_db2 [])"

definition ex_db3 :: forum_db where "ex_db3 = w_db (snd ex_delete_call)"

definition ex_staff_call :: "(go_error + publish_result) \<times> world" where
  "ex_staff_call =
     CreateReply ex_env example_policy (ex_actor 3 RoleModerator) 1 1 ''note'' (ex_world ex_db3 [10000, 11000])"

definition ex_staff_page :: "(go_error + page_row list) \<times> world" where
  "ex_staff_page = query_GetVisibleTopicPostPage 0 1 True True [] PostPageSize (snd ex_staff_call)"

text \<open>
  Staff are told the wrong place: once a reply has been deleted, the ordinal reported to a
  moderator for a new reply counts only the posts that members see, while the moderator's own
  pages number the tombstone too; at the reported ordinal the page holds the deleted post and the
  new one comes after it.
\<close>

lemma staff_ordinal_mismatch:
  "map_sum id (\<lambda>r. (pr_post_id r, pr_node_ordinal r)) (fst ex_staff_call) = Inr (3, 2) \<and>
   map_sum id (map (\<lambda>row. map_option (\<lambda>m. (fst m, tn_post_id (snd m), tn_tombstone (snd m))) (pg_node row)))
     (fst ex_staff_page) = Inr [Some (1, 1, False), Some (2, 2, True), Some (3, 3, False)]"
  by code_simp

end
