(* ===== verification/TopicFacts.thy ===== *)
theory TopicFacts
  imports PublishFacts
begin

text \<open>
  What a successful new topic means, on the rows as they were locked.
\<close>

lemma insert_topic_Inr:
  assumes "insert_topic area author title search stamp body db = (Inr res, db')"
  shows "\<exists>t n. db_topics db' = db_topics db @ [t] \<and> db_posts db' = db_posts db @ [n] \<and>
    t_id t \<notin> t_id ` set (db_topics db) \<and> p_id n \<notin> p_id ` set (db_posts db) \<and>
    t_area_id t = area \<and> t_author_id t = author \<and> t_title t = title \<and> t_state t = ''open'' \<and>
    t_first_post_id t = p_id n \<and> t_latest_post_id t = p_id n \<and> t_reply_count t = 0 \<and> t_deleted_at t = None \<and>
    t_next_post_number t = 2 \<and> t_created_at t = stamp \<and>
    p_topic_id n = t_id t \<and> p_author_id n = author \<and> p_number n = 1 \<and> p_parent n = None \<and> p_path n = [1] \<and>
    p_markdown n = nb_markdown body \<and> p_html n = nb_html body \<and> p_deleted_at n = None \<and>
    db_users db' = db_users db \<and>
    res = \<lparr>pr_topic_id = t_id t, pr_post_id = p_id n, pr_post_number = 1, pr_node_ordinal = 1\<rparr>"
  using assms
  by (auto simp: insert_topic_def nextval_def Let_def topic_key_taken_def post_key_taken_def list_ex_iff
      prepare_root new_topic_def new_post_def split: if_splits) blast+

lemma createTopic_body_Inr:
  assumes "createTopic_body nfc (tx_return p) actor slug title body w = (Inr res, w')"
  shows "\<exists>u now a now2 d.
    PublicationPolicyValid p \<and> account_of (w_db w) actor u \<and> find_area_slug (w_db w) slug = Some a \<and>
    CanCreateTopic (actor_at (w_db w) u (ac_role actor) now) (area_policy_of (w_db w) a) \<and>
    admitted p u now2 d \<and>
    insert_topic (a_id a) (ac_user_id actor) title (nfc title) (At now2) body
      ((w_db w)\<lparr>db_users := spend_window (ac_user_id actor) d (db_users (w_db w))\<rparr>) = (Inr res, w_db w')"
proof -
  from assms obtain current locked area stamp w2 w4 where
    p: "PublicationPolicyValid p"
    and lock: "lockPublicationActor actor (after_statement w (w_db w)) = (Inr (current, locked), w2)"
    and area: "find_area_slug (w_db w2) slug = Some area"
    and rest: 
      "CanCreateTopic current \<lparr>ap_visibility = a_visibility area, ap_posting_mode = a_posting_mode area,
         ap_group_ids = group_ids_of_area (w_db w2) (a_id area)\<rparr>"
      "admitPublication p locked (after_statement (after_statement w2 (w_db w2)) (w_db w2)) = (Inr stamp, w4)"
      "insert_topic (a_id area) (ac_user_id current) title (nfc title) stamp body (w_db w4) = (Inr res, w_db w')"
    by (auto simp: createTopic_body_def load_policy_def ConfigurePublicationTransaction_def lockedAreaPolicy_def
        LockAreaForTopicCreation_def ListAreaGroupIDsForPublication_def CreateTopicAndFirstPost_def tx_inverts)
  from lockPublicationActor_Inr [OF lock] obtain u now where
    u: "account_of (w_db w) actor u" "locked = \<lparr>la_user = u, la_observed_at = At now\<rparr>"
      "current = actor_at (w_db w) u (ac_role actor) now" "w_db w2 = w_db w" "ac_user_id current = u_id u"
    by (auto simp: account_of_def actor_at_def locked_context_def)
  have uid: "ac_user_id current = ac_user_id actor" using u(1,5) by (simp add: account_of_def)
  from admitPublication_Inr [OF rest(2)] obtain now2 d where
    d: "admitted p u now2 d" "stamp = At now2"
      "w_db w4 = (w_db w)\<lparr>db_users := spend_window (ac_user_id actor) d (db_users (w_db w))\<rparr>"
    using u by (auto simp: admitted_def spend_window_def account_of_def)
  show ?thesis
    by (intro exI [of _ u] exI [of _ now] exI [of _ area] exI [of _ now2] exI [of _ d])
      (use p u area rest(1,3) d uid in \<open>simp add: area_policy_of_def\<close>)
qed

lemma CreateTopic_Inr:
  assumes "CreateTopic env p actor slug title md w = (Inr res, w')"
  shows "\<exists>body. rendered_as (pe_render env) md body \<and> Valid actor \<and> ac_authenticated actor \<and>
    ValidAreaSlug slug \<and> validTopicTitle title \<and>
    createTopic_body (pe_nfc env) (tx_return p) actor slug title body w = (Inr res, w')"
  using assms
  by (auto simp: CreateTopic_def createTopic_def context_error_def tx_inverts within_tx_Inr
      validateTopicDraftFields_def split: if_splits intro: rendered_body_Inr)

text \<open>
  C10. A new topic is decided on the rows as they are locked and arrives whole: when \<open>CreateTopic\<close>
  succeeds the title is valid, the actor's account row is accepted and neither suspended nor muted,
  the area named by the slug is one it may view and publish in with its current groups (a member
  only where the posting mode is normal), and the tables gain exactly one topic and one post, under
  fresh identifiers, the post being the numbered root of the topic with the rendered body; the
  account's window is charged for it.
\<close>

theorem CreateTopic_effect:
  assumes "CreateTopic env p actor slug title md w = (Inr res, w')"
  shows "\<exists>u now a now2 d (t :: topic_row) n. account_of (w_db w) actor u \<and>
    \<not> locked_suspended \<lparr>la_user = u, la_observed_at = At now\<rparr> \<and> \<not> locked_muted \<lparr>la_user = u, la_observed_at = At now\<rparr> \<and>
    find_area_slug (w_db w) slug = Some a \<and>
    CanViewArea (actor_at (w_db w) u (ac_role actor) now) (area_policy_of (w_db w) a) \<and>
    (\<not> is_staff actor \<longrightarrow> a_posting_mode a = PostingNormal) \<and>
    validTopicTitle title \<and>
    admitted p u now2 d \<and> db_users (w_db w') = spend_window (ac_user_id actor) d (db_users (w_db w)) \<and>
    db_topics (w_db w') = db_topics (w_db w) @ [t] \<and> db_posts (w_db w') = db_posts (w_db w) @ [n] \<and>
    t_id t \<notin> t_id ` set (db_topics (w_db w)) \<and> p_id n \<notin> p_id ` set (db_posts (w_db w)) \<and>
    t_area_id t = a_id a \<and> t_author_id t = ac_user_id actor \<and> t_title t = title \<and> t_first_post_id t = p_id n \<and>
    t_next_post_number t = 2 \<and> p_topic_id n = t_id t \<and> p_number n = 1 \<and> p_path n = [1] \<and>
    p_author_id n = ac_user_id actor \<and> p_markdown n = md \<and>
    (\<exists>x. pe_render env md = Inr x \<and> p_html n = rm_html x) \<and>
    res = \<lparr>pr_topic_id = t_id t, pr_post_id = p_id n, pr_post_number = 1, pr_node_ordinal = 1\<rparr>"
proof -
  from CreateTopic_Inr [OF assms] obtain body where
    b: "rendered_as (pe_render env) md body" "validTopicTitle title"
      "createTopic_body (pe_nfc env) (tx_return p) actor slug title body w = (Inr res, w')" by auto
  from createTopic_body_Inr [OF b(3)] obtain u now a now2 d where
    u: "account_of (w_db w) actor u" "find_area_slug (w_db w) slug = Some a" "admitted p u now2 d"
    and can: "CanCreateTopic (actor_at (w_db w) u (ac_role actor) now) (area_policy_of (w_db w) a)"
    and run: "insert_topic (a_id a) (ac_user_id actor) title (pe_nfc env title) (At now2) body
      ((w_db w)\<lparr>db_users := spend_window (ac_user_id actor) d (db_users (w_db w))\<rparr>) = (Inr res, w_db w')"
    by blast
  from insert_topic_Inr [OF run] obtain t :: topic_row and n where
    new: "db_topics (w_db w') = db_topics (w_db w) @ [t]" "db_posts (w_db w') = db_posts (w_db w) @ [n]"
      "t_id t \<notin> t_id ` set (db_topics (w_db w))" "p_id n \<notin> p_id ` set (db_posts (w_db w))"
      "t_area_id t = a_id a" "t_author_id t = ac_user_id actor" "t_title t = title" "t_first_post_id t = p_id n"
      "t_next_post_number t = 2" "p_topic_id n = t_id t" "p_author_id n = ac_user_id actor" "p_number n = 1"
      "p_path n = [1]" "p_markdown n = nb_markdown body" "p_html n = nb_html body"
      "db_users (w_db w') = spend_window (ac_user_id actor) d (db_users (w_db w))"
      "res = \<lparr>pr_topic_id = t_id t, pr_post_id = p_id n, pr_post_number = 1, pr_node_ordinal = 1\<rparr>"
    by auto
  let ?A = "actor_at (w_db w) u (ac_role actor) now"
  have staff: "is_staff ?A = is_staff actor" by (simp add: actor_at_def locked_context_def is_staff_def)
  have active: "\<not> locked_suspended \<lparr>la_user = u, la_observed_at = At now\<rparr>"
      "\<not> locked_muted \<lparr>la_user = u, la_observed_at = At now\<rparr>"
    using CanCreateTopic_active [OF can] by (auto simp: actor_at_def locked_context_def split: if_splits)
  have mode: "\<not> is_staff actor \<longrightarrow> a_posting_mode a = PostingNormal"
    using CanCreateTopic_mode [OF can] staff by (auto simp: area_policy_of_def)
  show ?thesis
    by (intro exI [of _ u] exI [of _ now] exI [of _ a] exI [of _ now2] exI [of _ d] exI [of _ t] exI [of _ n])
      (use u b new active mode CanCreateTopic_view [OF can] in \<open>auto simp: rendered_as_def\<close>)
qed

theorem CreateTopic_effect_witness:
  "\<exists>(t :: topic_row) n. db_topics ex_db1 = [t] \<and> db_posts ex_db1 = [n] \<and> t_id t = 1 \<and> p_id n = 1 \<and>
     t_title t = ''Hello'' \<and> p_markdown n = ''first''"
proof -
  have "db_topics ex_db = []" "db_posts ex_db = []" by (simp_all add: ex_db_def)
  with CreateTopic_effect [OF ex_topic_call_eq [unfolded ex_topic_call_def]] show ?thesis
    by (auto simp: ex_db1_def ex_topic_call_def)
qed

end
