(* ===== verification/BoardLaws.thy ===== *)
theory BoardLaws
  imports BoardThreads
begin

text \<open>
  What no sequence of services can undo: the audit log only grows, moderated content stays removed,
  revoked sessions stay revoked, read markers only advance, and reports only move forward. Each law
  is an interpretation of the board interface.
\<close>

subsection \<open>The audit log\<close>

definition audits_grow :: "forum_db \<Rightarrow> forum_db \<Rightarrow> bool" where
  "audits_grow db db' \<longleftrightarrow> (\<exists>xs. db_audits db' = db_audits db @ xs)"

interpretation audits: table_relation audits_grow
  by unfold_locales (auto simp: audits_grow_def)

lemma audits_grow_same: "db_audits db' = db_audits db \<Longrightarrow> audits_grow db db'"
  by (simp add: audits_grow_def)

lemmas shared_statements =
  change_topic_def change_post_def change_user_def change_report_def CreateTopicAndFirstPost_def
  CreateReplyAndAdvanceTopic_def

lemma audits_insert_topic: "db_audits (snd (insert_topic area author title search stamp body db)) = db_audits db"
  by (auto simp: insert_topic_def Let_def case_prod_unfold split: sum.split)

lemma audits_insert_reply: "db_audits (snd (insert_reply author body parent stamp topic db)) = db_audits db"
  by (auto simp: insert_reply_def Let_def case_prod_unfold split: option.split sum.split)

interpretation audits_free: registration_free audits_grow
  by unfold_locales (simp_all add: audits_grow_def insert_audit_audits)

interpretation audits_board: board_relation audits_grow
  by (unfold_locales; (unfold row_statements changed_rows)?; (unfold shared_statements)?;
      (intro audits.relates_bind audits.relates_clock audits.relates_statement)?;
      (auto simp: audits_grow_def Let_def case_prod_unfold insert_audit_audits audits_insert_topic
        audits_insert_reply split: option.split))

subsection \<open>Redactions\<close>

definition redacted :: "post_row \<Rightarrow> bool" where
  "redacted p \<longleftrightarrow> p_redacted_at p \<noteq> None \<and> p_deleted_at p \<noteq> None"

definition redactions_stay :: "forum_db \<Rightarrow> forum_db \<Rightarrow> bool" where
  "redactions_stay db db' \<longleftrightarrow> (\<forall>p \<in> set (db_posts db). redacted p \<longrightarrow> p \<in> set (db_posts db'))"

interpretation redactions: table_relation redactions_stay
  by unfold_locales (auto simp: redactions_stay_def)

lemma in_upd_where: "r \<in> set rows \<Longrightarrow> \<not> p r \<Longrightarrow> r \<in> set (upd_where p f rows)"
  by (induction rows) auto

lemma posts_insert_topic: "set (db_posts db) \<subseteq> set (db_posts (snd (insert_topic area author title search stamp body db)))"
  by (auto simp: insert_topic_def Let_def case_prod_unfold split: sum.split)

lemma posts_insert_reply: "set (db_posts db) \<subseteq> set (db_posts (snd (insert_reply author body parent stamp topic db)))"
  by (auto simp: insert_reply_def Let_def case_prod_unfold split: option.split sum.split)

interpretation redactions_free: registration_free redactions_stay
  by unfold_locales (simp_all add: redactions_stay_def)

interpretation redactions_board: board_relation redactions_stay
  by (unfold_locales; (unfold row_statements changed_rows)?; (unfold shared_statements)?;
      (intro redactions.relates_bind redactions.relates_clock redactions.relates_statement)?;
      (auto simp: redactions_stay_def redacted_def Let_def case_prod_unfold
        intro!: in_upd_where intro: posts_insert_topic [THEN subsetD] posts_insert_reply [THEN subsetD]
        split: option.split))

subsection \<open>Sessions\<close>

definition revocations_stay :: "forum_db \<Rightarrow> forum_db \<Rightarrow> bool" where
  "revocations_stay db db' \<longleftrightarrow>
     (\<forall>s \<in> set (db_sessions db). s_revoked_at s \<noteq> None \<longrightarrow> s \<in> set (db_sessions db'))"

interpretation revocations: table_relation revocations_stay
  by unfold_locales (auto simp: revocations_stay_def)

lemma sessions_insert_topic: "db_sessions (snd (insert_topic area author title search stamp body db)) = db_sessions db"
  by (auto simp: insert_topic_def Let_def case_prod_unfold split: sum.split)

lemma sessions_insert_reply: "db_sessions (snd (insert_reply author body parent stamp topic db)) = db_sessions db"
  by (auto simp: insert_reply_def Let_def case_prod_unfold split: option.split sum.split)

interpretation revocations_free: registration_free revocations_stay
  by unfold_locales (simp_all add: revocations_stay_def)

interpretation revocations_board: board_relation revocations_stay
  by (unfold_locales; (unfold row_statements changed_rows)?; (unfold shared_statements)?;
      (intro revocations.relates_bind revocations.relates_clock revocations.relates_statement)?;
      (auto simp: revocations_stay_def Let_def case_prod_unfold sessions_insert_topic sessions_insert_reply
        intro!: in_upd_where split: option.split))

subsection \<open>Read markers\<close>

definition marker_advances :: "read_row \<Rightarrow> read_row \<Rightarrow> bool" where
  "marker_advances m m' \<longleftrightarrow>
     rd_user m' = rd_user m \<and> rd_topic m' = rd_topic m \<and> rd_last_read_id m \<le> rd_last_read_id m'"

definition markers_advance :: "forum_db \<Rightarrow> forum_db \<Rightarrow> bool" where
  "markers_advance db db' \<longleftrightarrow> rows_move marker_advances (db_reads db) (db_reads db')"

lemma marker_advances_refl [simp]: "marker_advances m m"
  by (simp add: marker_advances_def)

lemma marker_advances_trans: "marker_advances a b \<Longrightarrow> marker_advances b c \<Longrightarrow> marker_advances a c"
  by (auto simp: marker_advances_def)

lemma markers_advance_same: "db_reads db' = db_reads db \<Longrightarrow> markers_advance db db'"
  by (simp add: markers_advance_def rows_move_refl)

interpretation markers: table_relation markers_advance
proof
  show "markers_advance db db" for db by (rule markers_advance_same) simp
  show "markers_advance db1 db3" if "markers_advance db1 db2" "markers_advance db2 db3" for db1 db2 db3
    using that rows_move_trans [OF marker_advances_trans] by (simp add: markers_advance_def)
  show "markers_advance db (db\<lparr>db_seqs := s\<rparr>)" for db s by (rule markers_advance_same) simp
qed

lemma reads_insert_topic: "db_reads (snd (insert_topic area author title search stamp body db)) = db_reads db"
  by (auto simp: insert_topic_def Let_def case_prod_unfold split: sum.split)

lemma reads_insert_reply: "db_reads (snd (insert_reply author body parent stamp topic db)) = db_reads db"
  by (auto simp: insert_reply_def Let_def case_prod_unfold split: option.split sum.split)

lemma markers_upsert: "markers_advance db (snd (upsert_marker db user topic selected now))"
  by (auto simp: markers_advance_def upsert_marker_def rows_move_refl rows_move_append split: option.split
      intro!: rows_move_upd) (auto simp: marker_advances_def)

lemma markers_mark: "relates markers_advance (MarkTopicReadBoundary topic staff groups user)"
  unfolding MarkTopicReadBoundary_def
  by (intro markers.relates_bind markers.relates_clock markers.relates_statement)
    (auto simp: Let_def case_prod_unfold markers_upsert markers.R_refl split: option.split)

interpretation markers_free: registration_free markers_advance
  by unfold_locales (simp_all add: markers_advance_same)

interpretation markers_board: board_relation markers_advance
  by (unfold_locales; (rule markers_mark)?; (unfold row_statements changed_rows)?; (unfold shared_statements)?;
      (intro markers.relates_statement markers_advance_same)?;
      (auto simp: Let_def case_prod_unfold reads_insert_topic reads_insert_reply split: option.split)?)

subsection \<open>Reports\<close>

text \<open>One report before and after: the same report, moved only forward.\<close>

definition same_report :: "report_row \<Rightarrow> report_row \<Rightarrow> bool" where
  "same_report r r' \<longleftrightarrow>
     rp_id r' = rp_id r \<and> rp_reported_by r' = rp_reported_by r \<and> rp_topic r' = rp_topic r \<and>
     rp_post r' = rp_post r \<and> rp_user r' = rp_user r \<and> rp_reason r' = rp_reason r"

definition taken_status :: "string \<Rightarrow> bool" where
  "taken_status st \<longleftrightarrow> st = ''in_review'' \<or> st = ''resolved'' \<or> st = ''dismissed''"

definition report_forward :: "report_row \<Rightarrow> report_row \<Rightarrow> bool" where
  "report_forward r r' \<longleftrightarrow>
     r' = r \<or>
     (same_report r r' \<and> active_report r \<and> taken_status (rp_status r') \<and> rp_assigned r' \<noteq> None \<and>
      (rp_status r = ''in_review'' \<longrightarrow> rp_assigned r' = rp_assigned r))"

definition reports_forward :: "forum_db \<Rightarrow> forum_db \<Rightarrow> bool" where
  "reports_forward db db' \<longleftrightarrow> rows_move report_forward (db_reports db) (db_reports db')"

lemma report_forward_refl [simp]: "report_forward r r"
  by (simp add: report_forward_def)

lemma report_forward_trans: "report_forward a b \<Longrightarrow> report_forward b c \<Longrightarrow> report_forward a c"
proof -
  assume ab: "report_forward a b" and bc: "report_forward b c"
  have mid: "rp_status b = ''in_review''" if "active_report b" "taken_status (rp_status b)"
    using that by (auto simp: active_report_def taken_status_def)
  have same: "same_report a c" if "same_report a b" "same_report b c"
    using that by (simp add: same_report_def)
  show "report_forward a c"
    using ab bc mid same unfolding report_forward_def by metis
qed

lemma reports_forward_same: "db_reports db' = db_reports db \<Longrightarrow> reports_forward db db'"
  by (simp add: reports_forward_def rows_move_refl)

interpretation reports: table_relation reports_forward
proof
  show "reports_forward db db" for db by (rule reports_forward_same) simp
  show "reports_forward db1 db3" if "reports_forward db1 db2" "reports_forward db2 db3" for db1 db2 db3
    using that rows_move_trans [OF report_forward_trans] by (simp add: reports_forward_def)
  show "reports_forward db (db\<lparr>db_seqs := s\<rparr>)" for db s by (rule reports_forward_same) simp
qed

lemma reports_insert_topic: "db_reports (snd (insert_topic area author title search stamp body db)) = db_reports db"
  by (auto simp: insert_topic_def Let_def case_prod_unfold split: sum.split)

lemma reports_insert_reply: "db_reports (snd (insert_reply author body parent stamp topic db)) = db_reports db"
  by (auto simp: insert_reply_def Let_def case_prod_unfold split: option.split sum.split)

lemma reports_change:
  "(\<And>r. hit r \<Longrightarrow> report_forward r (change r)) \<Longrightarrow> relates reports_forward (change_report hit change audit)"
  unfolding change_report_def
  by (rule reports.relates_statement)
    (auto simp: reports_forward_def Let_def case_prod_unfold rows_move_refl intro!: rows_move_upd
      split: option.split)

lemma reports_insert: "relates reports_forward (insert_report visible reporter otopic opost ouser reason stamp)"
  unfolding insert_report_def
  by (rule reports.relates_statement)
    (auto simp: reports_forward_def Let_def case_prod_unfold rows_move_refl rows_move_append split: option.split)

lemma reports_claim: "relates reports_forward (ClaimReportAndAudit actor stamp report req)"
  unfolding ClaimReportAndAudit_def by (rule reports_change) (auto simp: report_forward_def same_report_def active_report_def taken_status_def)

lemma reports_finish:
  "status = ''resolved'' \<or> status = ''dismissed'' \<Longrightarrow>
   relates reports_forward (FinishReportAndAudit status resolution actor stamp report action req)"
  unfolding FinishReportAndAudit_def by (rule reports_change) (auto simp: report_forward_def same_report_def active_report_def taken_status_def)

interpretation reports_free: registration_free reports_forward
  by unfold_locales (simp_all add: reports_forward_same)

interpretation reports_board: board_relation reports_forward
  by (unfold_locales; (rule reports_insert reports_claim | erule reports_finish)?;
      (unfold row_statements changed_rows)?; (unfold shared_statements)?;
      (intro reports.relates_bind reports.relates_clock reports.relates_statement reports_forward_same)?;
      (auto simp: Let_def case_prod_unfold reports_insert_topic reports_insert_reply split: option.split)?)

subsection \<open>Revisions\<close>

text \<open>One post before and after: the same post, whose content can only change with its revision.\<close>

definition revision_forward :: "post_row \<Rightarrow> post_row \<Rightarrow> bool" where
  "revision_forward p p' \<longleftrightarrow>
     p_id p' = p_id p \<and> p_topic_id p' = p_topic_id p \<and> p_author_id p' = p_author_id p \<and>
     p_created_at p' = p_created_at p \<and> p_revision p \<le> p_revision p' \<and>
     (p_revision p' = p_revision p \<longrightarrow> p_markdown p' = p_markdown p \<and> p_html p' = p_html p)"

definition revisions_forward :: "forum_db \<Rightarrow> forum_db \<Rightarrow> bool" where
  "revisions_forward db db' \<longleftrightarrow> rows_move revision_forward (db_posts db) (db_posts db')"

lemma revision_forward_refl [simp]: "revision_forward p p"
  by (simp add: revision_forward_def)

lemma revision_forward_trans: "revision_forward a b \<Longrightarrow> revision_forward b c \<Longrightarrow> revision_forward a c"
  by (auto simp: revision_forward_def)

lemma revisions_forward_same: "set (db_posts db) \<subseteq> set (db_posts db') \<Longrightarrow> revisions_forward db db'"
  by (force simp: revisions_forward_def rows_move_def)

interpretation revisions: table_relation revisions_forward
proof
  show "revisions_forward db db" for db by (rule revisions_forward_same) simp
  show "revisions_forward db1 db3" if "revisions_forward db1 db2" "revisions_forward db2 db3" for db1 db2 db3
    using that rows_move_trans [OF revision_forward_trans] by (simp add: revisions_forward_def)
  show "revisions_forward db (db\<lparr>db_seqs := s\<rparr>)" for db s by (rule revisions_forward_same) simp
qed

lemma revisions_change:
  "(\<And>p. hit p \<Longrightarrow> revision_forward p (change p)) \<Longrightarrow> relates revisions_forward (change_post hit change audit)"
  unfolding change_post_def
  by (rule revisions.relates_statement)
    (auto simp: revisions_forward_def Let_def case_prod_unfold rows_move_refl intro!: rows_move_upd
      split: option.split)

lemma revisions_redact: "relates revisions_forward (RedactPostAndAudit stamp actor reason post rv req)"
  unfolding RedactPostAndAudit_def by (rule revisions_change) (simp add: revision_forward_def Let_def)

lemma revisions_visibility:
  "relates revisions_forward (ChangePostVisibilityAndAudit at by why stamp post prevat actor action reason prevby req)"
  unfolding ChangePostVisibilityAndAudit_def by (rule revisions_change) (simp add: revision_forward_def)

lemma revisions_edit: "relates revisions_forward (UpdatePostRevision body stamp post expected)"
  unfolding UpdatePostRevision_def
  by (rule revisions.relates_statement)
    (auto simp: revisions_forward_def revision_forward_def Let_def rows_move_refl intro!: rows_move_upd
      split: option.split)

lemma revisions_delete: "relates revisions_forward (SoftDeletePost stamp author post expected)"
  unfolding SoftDeletePost_def
  by (rule revisions.relates_statement)
    (auto simp: revisions_forward_def revision_forward_def Let_def rows_move_refl intro!: rows_move_upd
      split: option.split)

interpretation revisions_free: registration_free revisions_forward
  by unfold_locales (simp_all add: revisions_forward_same)

interpretation revisions_board: board_relation revisions_forward
  by (unfold_locales; (rule revisions_redact revisions_visibility revisions_edit revisions_delete)?;
      (unfold row_statements changed_rows)?; (unfold shared_statements)?;
      (intro revisions.relates_bind revisions.relates_clock revisions.relates_statement revisions_forward_same)?;
      (auto simp: Let_def case_prod_unfold
        intro: posts_insert_topic [THEN subsetD] posts_insert_reply [THEN subsetD] split: option.split)?)

end
