(* ===== verification/ModerationFacts.thy ===== *)
theory ModerationFacts
  imports BoardLaws Example
begin

text \<open>
  What a successful moderation call means: who performed it, on the rows as they were locked, the one
  audit row it appended, and what became of the target.
\<close>

subsection \<open>The audited statements\<close>

text \<open>
  The tables after a call differ from those before by one audit row, appended at the end, that
  names the actor, the action, the reason and the request.
\<close>

definition audited :: "forum_db \<Rightarrow> forum_db \<Rightarrow> audit_actor \<Rightarrow> string \<Rightarrow> string option \<Rightarrow> int option \<Rightarrow> audit_target \<Rightarrow> int \<Rightarrow> bool" where
  "audited db db' actor action reason req target i \<longleftrightarrow>
     (\<exists>a. db_audits db' = db_audits db @ [a] \<and> au_id a = i \<and> au_actor a = actor \<and> au_action a = action \<and>
          au_reason a = reason \<and> au_request a = req \<and> au_target a = target)"

lemma change_topic_Inr:
  assumes "change_topic hit change audit w = (Inr (v, i), w')"
  shows "\<exists>t. find hit (db_topics (w_db w)) = Some t \<and> v = change t \<and>
    db_topics (w_db w') = upd_where hit change (db_topics (w_db w)) \<and>
    db_users (w_db w') = db_users (w_db w) \<and> db_posts (w_db w') = db_posts (w_db w) \<and>
    audited (w_db w) (w_db w') (ai_actor (audit v)) (ai_action (audit v)) (ai_reason (audit v))
      (ai_request (audit v)) (ai_target (audit v)) i"
  using assms
  by (auto simp: change_topic_def tx_inverts Let_def case_prod_unfold audited_def insert_audit_audits
      split: option.splits)

lemma change_post_Inr:
  assumes "change_post hit change audit w = (Inr (v, i), w')"
  shows "\<exists>p. find hit (db_posts (w_db w)) = Some p \<and> v = change p \<and>
    db_posts (w_db w') = upd_where hit change (db_posts (w_db w)) \<and>
    db_users (w_db w') = db_users (w_db w) \<and> db_topics (w_db w') = db_topics (w_db w) \<and>
    audited (w_db w) (w_db w') (ai_actor (audit v)) (ai_action (audit v)) (ai_reason (audit v))
      (ai_request (audit v)) (ai_target (audit v)) i"
  using assms
  by (auto simp: change_post_def tx_inverts Let_def case_prod_unfold audited_def insert_audit_audits
      split: option.splits if_splits)

lemma change_user_Inr:
  assumes "change_user hit change audit w = (Inr (v, i), w')"
  shows "\<exists>u. find hit (db_users (w_db w)) = Some u \<and> v = change u \<and>
    db_users (w_db w') = upd_where hit change (db_users (w_db w)) \<and>
    db_topics (w_db w') = db_topics (w_db w) \<and> db_posts (w_db w') = db_posts (w_db w) \<and>
    audited (w_db w) (w_db w') (ai_actor (audit v)) (ai_action (audit v)) (ai_reason (audit v))
      (ai_request (audit v)) (ai_target (audit v)) i"
  using assms
  by (auto simp: change_user_def tx_inverts Let_def case_prod_unfold audited_def insert_audit_audits
      split: option.splits)

subsection \<open>Extended actions\<close>

definition action_target :: "extended_input \<Rightarrow> audit_target" where
  "action_target input =
     (if ei_action input = PinTopic \<or> ei_action input = UnpinTopic \<or> ei_action input = MoveTopic
      then TargetTopic (ei_target input)
      else if ei_action input = HidePost \<or> ei_action input = RestorePost \<or> ei_action input = RedactPost
      then TargetPost (ei_target input) else TargetUser (ei_target input))"

text \<open>A signed-in account that the database holds as active staff at the time of the call.\<close>

definition active_staff_row :: "forum_db \<Rightarrow> access_context \<Rightarrow> gotime \<Rightarrow> bool" where
  "active_staff_row db actor now \<longleftrightarrow>
     (\<exists>u \<in> set (db_users db). u_id u = ac_user_id actor \<and> persistedStaffMatches u actor now)"

lemma find_user_mem: "find_user db i = Some u \<Longrightarrow> u \<in> set (db_users db) \<and> u_id u = i"
  by (auto simp: find_user_def dest!: find_Some_iff2)

lemma applyPin_Inr:
  assumes "applyPin topic stamp actorID input req w = (Inr res, w')"
    and "ei_action input = PinTopic \<or> ei_action input = UnpinTopic"
  shows "audited (w_db w) (w_db w') (ActorUser actorID) (ei_action input) (Some (ei_reason input)) req
    (TargetTopic (t_id topic)) (xr_audit res)"
  using assms
  by (auto simp: applyPin_def Let_def tx_inverts ChangeTopicPinAndAudit_def no_result_def
      dest!: change_topic_Inr)

lemma applyMove_Inr:
  assumes "applyMove topic stamp actorID input req w = (Inr res, w')"
    and "ei_action input = MoveTopic"
  shows "audited (w_db w) (w_db w') (ActorUser actorID) (ei_action input) (Some (ei_reason input)) req
    (TargetTopic (t_id topic)) (xr_audit res)"
  using assms
  by (auto simp: applyMove_def Let_def tx_inverts MoveTopicAndAudit_def GetDestinationAreaBySlug_def
      LockAreaForTopicMove_def no_result_def MoveTopic_def audited_def dest!: change_topic_Inr)

lemma applyTopicAction_Inr:
  assumes "applyTopicAction now actorID input req w = (Inr res, w')"
    and "ei_action input = PinTopic \<or> ei_action input = UnpinTopic \<or> ei_action input = MoveTopic"
  shows "audited (w_db w) (w_db w') (ActorUser actorID) (ei_action input) (Some (ei_reason input)) req
    (TargetTopic (ei_target input)) (xr_audit res)"
  using assms
  by (auto simp: applyTopicAction_def tx_inverts LockTopicForExtendedModeration_def topic_lock_invalid_def Let_def
      dest!: applyPin_Inr applyMove_Inr)

definition redaction_of :: "int \<Rightarrow> string \<Rightarrow> post_row \<Rightarrow> bool" where
  "redaction_of actorID reason p \<longleftrightarrow>
     redacted p \<and> p_markdown p = ''[Content removed by moderation]'' \<and>
     p_html p = ''<p>Content removed by moderation.</p>'' \<and> p_search_text p = '''' \<and>
     p_deleted_by p = Some actorID \<and> p_redacted_by p = Some actorID \<and> p_redaction_reason p = Some reason"

lemma upd_where_hit: "r \<in> set rows \<Longrightarrow> p r \<Longrightarrow> f r \<in> set (upd_where p f rows)"
  by (force simp: upd_where_def)

lemma RedactPostAndAudit_Inr:
  assumes "RedactPostAndAudit stamp actorID reason i rv req w = (Inr (v, n), w')"
  shows "v \<in> set (db_posts (w_db w')) \<and> p_id v = i \<and> redaction_of actorID reason v \<and>
    audited (w_db w) (w_db w') (ActorUser actorID) RedactPost (Some reason) req (TargetPost i) n"
  using assms unfolding RedactPostAndAudit_def
  by (auto simp: Let_def redaction_of_def redacted_def RedactPost_def
      dest!: change_post_Inr find_Some_iff2 intro: upd_where_hit)

lemma applyPostAction_Inr:
  assumes "applyPostAction now actorID input req w = (Inr res, w')"
    and "ei_action input = HidePost \<or> ei_action input = RestorePost \<or> ei_action input = RedactPost"
  shows "audited (w_db w) (w_db w') (ActorUser actorID) (ei_action input) (Some (ei_reason input)) req
      (TargetPost (ei_target input)) (xr_audit res) \<and>
    (\<exists>p. find_post (w_db w) (ei_target input) = Some p \<and> p_redacted_at p = None) \<and>
    (ei_action input = RedactPost \<longrightarrow>
      (\<exists>p \<in> set (db_posts (w_db w')). p_id p = ei_target input \<and> redaction_of actorID (ei_reason input) p))"
proof (cases "ei_action input = RedactPost")
  case True
  with assms(1) show ?thesis
    by (auto simp: applyPostAction_def Let_def tx_inverts LockPostForModeration_def post_lock_invalid_def
        post_action_conflict_def no_result_def split: option.splits dest!: RedactPostAndAudit_Inr)
next
  case False
  with assms(1) show ?thesis
    by (auto simp: applyPostAction_def Let_def tx_inverts LockPostForModeration_def post_lock_invalid_def
        post_action_conflict_def ChangePostVisibilityAndAudit_def no_result_def
        split: option.splits dest!: change_post_Inr)
qed

text \<open>Two accounts locked in the order of their identifiers and told apart again.\<close>

lemma ordered_users:
  assumes "find_user db (min i j) = Some x" and "find_user db (max i j) = Some y" and "j \<noteq> i"
  obtains u v where "(if u_id x = j then (y, x) else (x, y)) = (u, v)" and "find_user db i = Some u"
    and "find_user db j = Some v" and "u_id u = i" and "u_id v = j"
proof (cases "i \<le> j")
  case True
  with assms find_user_mem [of db i x] find_user_mem [of db j y] show thesis by (intro that [of x y]) auto
next
  case False
  with assms find_user_mem [of db j x] find_user_mem [of db i y] show thesis by (intro that [of y x]) auto
qed

lemma WarnUserAndAudit_Inr:
  assumes "WarnUserAndAudit i actorID reason stamp req w = (Inr (n, u, k), w')"
  shows "u = i \<and> audited (w_db w) (w_db w') (ActorUser actorID) WarnUser (Some reason) req (TargetUser i) k"
  using assms
  by (auto simp: WarnUserAndAudit_def tx_inverts Let_def case_prod_unfold audited_def insert_audit_audits
      extended_actions nextval_def)

lemma MuteUserAndAudit_Inr:
  assumes "MuteUserAndAudit until stamp i observed actorID reason prior req w = (Inr (v, k), w')"
  shows "audited (w_db w) (w_db w') (ActorUser actorID) MuteUser (Some reason) req (TargetUser (u_id v)) k"
  using assms by (auto simp: MuteUserAndAudit_def extended_actions dest!: change_user_Inr)

lemma applyUserAction_Inr:
  assumes run: "applyUserAction now actor input req w = (Inr res, w')"
    and action: "ei_action input = WarnUser \<or> ei_action input = MuteUser"
  shows "audited (w_db w) (w_db w') (ActorUser (ac_user_id actor)) (ei_action input) (Some (ei_reason input)) req
      (TargetUser (ei_target input)) (xr_audit res) \<and>
    active_staff_row (w_db w) actor now \<and> ei_target input \<noteq> ac_user_id actor"
proof -
  from run obtain x y where xy: "find_user (w_db w) (min (ac_user_id actor) (ei_target input)) = Some x"
      "find_user (w_db w) (max (ac_user_id actor) (ei_target input)) = Some y"
      "ei_target input \<noteq> ac_user_id actor"
    by (auto simp: applyUserAction_def tx_inverts LockUserForSuspension_def)
  then obtain u v where uv: "(if u_id x = ei_target input then (y, x) else (x, y)) = (u, v)"
      "find_user (w_db w) (ac_user_id actor) = Some u" "u_id v = ei_target input"
    by (rule ordered_users)
  from run xy uv(1) have staff: "persistedStaffMatches u actor now"
    by (auto simp: applyUserAction_def tx_inverts LockUserForSuspension_def split: if_splits)
  with uv(2) have "active_staff_row (w_db w) actor now"
    using find_user_mem by (auto simp: active_staff_row_def)
  moreover have "audited (w_db w) (w_db w') (ActorUser (ac_user_id actor)) (ei_action input) (Some (ei_reason input)) req
      (TargetUser (ei_target input)) (xr_audit res)"
    using run xy uv(1,3) action
    by (auto simp: applyUserAction_def Let_def tx_inverts LockUserForSuspension_def no_result_def extended_actions
        dest!: WarnUserAndAudit_Inr MuteUserAndAudit_Inr split: if_splits)
  ultimately show ?thesis using xy(3) by simp
qed

subsection \<open>What a successful action means\<close>

lemma ApplyExtendedAction_Inr:
  assumes "ApplyExtendedAction env clock actor input req w = (Inr res, w')"
  shows "\<exists>reading w1. clock = Some reading \<and> activeStaffActor actor \<and> w_db w1 = w_db w \<and>
    ApplyExtendedAction_body (truncate_us reading) actor input req w1 = (Inr res, w')"
  using assms
  by (auto simp: ApplyExtendedAction_def context_error_def tx_inverts within_tx_Inr split: option.splits)

lemma ApplyExtendedAction_effect:
  assumes "ApplyExtendedAction env clock actor input req w = (Inr res, w')"
  shows "\<exists>reading. clock = Some reading \<and> activeStaffActor actor \<and>
    active_staff_row (w_db w) actor (truncate_us reading) \<and>
    audited (w_db w) (w_db w') (ActorUser (ac_user_id actor)) (ei_action input) (Some (ei_reason input)) req
      (action_target input) (xr_audit res) \<and>
    (ei_action input = RedactPost \<longrightarrow>
      (\<exists>p \<in> set (db_posts (w_db w')). p_id p = ei_target input \<and>
         redaction_of (ac_user_id actor) (ei_reason input) p))"
proof -
  from ApplyExtendedAction_Inr [OF assms] obtain reading w1 where c: "clock = Some reading" "activeStaffActor actor"
    "w_db w1 = w_db w" and body: "ApplyExtendedAction_body (truncate_us reading) actor input req w1 = (Inr res, w')"
    by blast
  let ?a = "ei_action input"
  show ?thesis
  proof (cases "?a = WarnUser \<or> ?a = MuteUser")
    case True
    then have "applyUserAction (truncate_us reading) actor input req w1 = (Inr res, w')" "?a \<noteq> RedactPost"
        "action_target input = TargetUser (ei_target input)"
      using body by (auto simp: ApplyExtendedAction_body_def extended_actions action_target_def)
    with applyUserAction_Inr [OF this(1) True] c show ?thesis by simp
  next
    case False
    with body obtain u where u: "find_user (w_db w) (ac_user_id actor) = Some u"
        "persistedStaffMatches u actor (truncate_us reading)"
      and run: "(?a = PinTopic \<or> ?a = UnpinTopic \<or> ?a = MoveTopic) \<and>
          applyTopicAction (truncate_us reading) (ac_user_id actor) input req (after_statement w1 (w_db w)) = (Inr res, w') \<or>
        (?a = HidePost \<or> ?a = RestorePost \<or> ?a = RedactPost) \<and>
          applyPostAction (truncate_us reading) (ac_user_id actor) input req (after_statement w1 (w_db w)) = (Inr res, w')"
      using c(3) by (auto simp: ApplyExtendedAction_body_def Let_def LockUserForSuspension_def tx_inverts split: if_splits)
    have staff: "active_staff_row (w_db w) actor (truncate_us reading)"
      using u find_user_mem by (auto simp: active_staff_row_def)
    from run show ?thesis
    proof
      assume r: "(?a = PinTopic \<or> ?a = UnpinTopic \<or> ?a = MoveTopic) \<and>
        applyTopicAction (truncate_us reading) (ac_user_id actor) input req (after_statement w1 (w_db w)) = (Inr res, w')"
      then have "action_target input = TargetTopic (ei_target input)" "?a \<noteq> RedactPost"
        by (auto simp: action_target_def extended_actions)
      with applyTopicAction_Inr [OF conjunct2 [OF r] conjunct1 [OF r]] c staff show ?thesis by auto
    next
      assume r: "(?a = HidePost \<or> ?a = RestorePost \<or> ?a = RedactPost) \<and>
        applyPostAction (truncate_us reading) (ac_user_id actor) input req (after_statement w1 (w_db w)) = (Inr res, w')"
      then have "action_target input = TargetPost (ei_target input)"
        by (auto simp: action_target_def extended_actions)
      with applyPostAction_Inr [OF conjunct2 [OF r] conjunct1 [OF r]] c staff show ?thesis by auto
    qed
  qed
qed

text \<open>
  C29. Moderation is never silent and never anonymous: an extended action (pin, unpin, move, hide,
  restore, redact, warn, mute) succeeds only for a request of active staff whose account row is
  still active staff with the same role when it is locked, and then appends exactly one row to the
  audit log, which names that account, the action, its target, the reason and the request.
\<close>

theorem ApplyExtendedAction_audited:
  assumes "ApplyExtendedAction env clock actor input req w = (Inr res, w')"
  shows "\<exists>reading. clock = Some reading \<and> activeStaffActor actor \<and>
    active_staff_row (w_db w) actor (truncate_us reading) \<and>
    audited (w_db w) (w_db w') (ActorUser (ac_user_id actor)) (ei_action input) (Some (ei_reason input)) req
      (action_target input) (xr_audit res)"
  using ApplyExtendedAction_effect [OF assms] by blast

theorem ApplyExtendedAction_audited_witness:
  "audited ex_db2 ex_redact_db (ActorUser 3) ''redact_post'' (Some ''spam'') (Some 77) (TargetPost 2) 1"
proof -
  obtain res where res: "fst ex_redact_call = Inr res" "xr_audit res = 1"
    using ex_redact_result by (cases "fst ex_redact_call") auto
  then have "ApplyExtendedAction ex_tx (Some 9000) (ex_actor 3 RoleModerator) (ex_extended RedactPost 2 ''spam'')
      (Some 77) (ex_world ex_db2 []) = (Inr res, snd ex_redact_call)"
    by (simp add: ex_redact_call_def prod_eq_iff)
  from ApplyExtendedAction_audited [OF this] res(2) show ?thesis
    by (simp add: ex_redact_db_def ex_extended_def ex_actor_def action_target_def extended_actions)
qed

subsection \<open>Redaction\<close>

lemma ApplyExtendedAction_inv:
  assumes "board_inv (w_db w)"
  shows "board_inv (w_db (snd (ApplyExtendedAction env clock actor input req w)))"
proof (rule board_run_inv [OF _ assms])
  show "board_run (w_db w) (w_db (snd (ApplyExtendedAction env clock actor input req w)))"
    unfolding board_run_def using board_step.call [of w "CallExtendedAction env clock actor input req"]
    by (simp add: r_into_rtranclp)
qed

text \<open>
  C28. A redaction is final: once staff have redacted a post, then whatever calls of whatever
  services follow, by anyone and with any failures, looking the post up finds it deleted, with
  the fixed replacement text, no searchable text, and the redacting account and reason recorded.
\<close>

theorem redaction_is_final:
  assumes "ApplyExtendedAction env clock actor input req w = (Inr res, w')"
    and "ei_action input = RedactPost" and "board_inv (w_db w)" and "board_run (w_db w') db'"
  shows "\<exists>p. find_post db' (ei_target input) = Some p \<and>
    redaction_of (ac_user_id actor) (ei_reason input) p"
proof -
  obtain p where p: "p \<in> set (db_posts (w_db w'))" "p_id p = ei_target input"
      "redaction_of (ac_user_id actor) (ei_reason input) p"
    using ApplyExtendedAction_effect [OF assms(1)] assms(2) by blast
  have "redactions_stay (w_db w') db'" by (rule redactions_board.board_run_relates [OF assms(4)])
  then have mem: "p \<in> set (db_posts db')" using p by (auto simp: redactions_stay_def redaction_of_def)
  have "board_inv db'"
    using board_run_inv [OF assms(4)] ApplyExtendedAction_inv [OF assms(3), of env clock actor input req] assms(1)
    by simp
  then have "distinct (map p_id (db_posts db'))" by (simp add: board_inv_def thread_inv_def threads_of_def comp_def)
  from find_distinct_key [OF this mem] p(2,3) show ?thesis by (auto simp: find_post_def)
qed

theorem redaction_is_final_witness:
  "\<exists>p. find_post (w_db (snd ex_restore_call)) 2 = Some p \<and> redaction_of 3 ''spam'' p"
proof -
  obtain res where res: "fst ex_redact_call = Inr res"
    using ex_redact_result by (cases "fst ex_redact_call") auto
  then have "ApplyExtendedAction ex_tx (Some 9000) (ex_actor 3 RoleModerator) (ex_extended RedactPost 2 ''spam'')
      (Some 77) (ex_world ex_db2 []) = (Inr res, snd ex_redact_call)"
    by (simp add: ex_redact_call_def prod_eq_iff)
  from redaction_is_final [OF this _ _ ex_restore_run [unfolded ex_redact_db_def]] show ?thesis
    by (simp add: ex_extended_def ex_actor_def ex_db2_inv)
qed

end
