(* ===== verification/BoardFacts.thy ===== *)
theory BoardFacts
  imports TopicFacts ModerationFacts
begin

text \<open>
  What holds in every state the services can lead the board to, and what no sequence of calls can
  undo, whoever makes them, whatever fails, and in whatever order the transactions commit.
\<close>

subsection \<open>Threads\<close>

definition topic_consistent :: "forum_db \<Rightarrow> topic_row \<Rightarrow> bool" where
  "topic_consistent db t \<longleftrightarrow>
     (let ps = topic_posts db (t_id t) in
      ps \<noteq> [] \<and> map p_number ps = [1..int (length ps)] \<and> t_next_post_number t = int (length ps) + 1 \<and>
      t_reply_count t = int (length ps) - 1 \<and> p_id (hd ps) = t_first_post_id t \<and>
      p_id (last ps) = t_latest_post_id t)"

definition post_threaded :: "forum_db \<Rightarrow> post_row \<Rightarrow> bool" where
  "post_threaded db p \<longleftrightarrow>
     length (p_path p) \<le> 32 \<and>
     (case p_parent p of
        None \<Rightarrow> p_number p = 1 \<and> p_path p = [1]
      | Some i \<Rightarrow> \<exists>r \<in> set (db_posts db). p_id r = i \<and> p_topic_id r = p_topic_id p \<and> p_number r < p_number p \<and>
                   p_path p = p_path r @ [p_number p])"

lemma posts_of_threads: "posts_of (th_posts (threads_of db)) i = map abs_post (topic_posts db i)"
  by (simp add: posts_of_def threads_of_def topic_posts_def filter_map comp_def)

lemma board_inv_topic:
  assumes "board_inv db" and "t \<in> set (db_topics db)"
  shows "topic_consistent db t"
proof -
  have t: "abs_topic t \<in> set (th_topics (threads_of db))" using assms(2) by (simp add: threads_of_def)
  have ok: "topic_ok (abs_topic t) (map abs_post (topic_posts db (t_id t)))"
    using assms(1) t posts_of_threads [of db] by (auto simp: board_inv_def thread_inv_def)
  have ne: "topic_posts db (t_id t) \<noteq> []" using topic_ok_nonempty [OF ok] by simp
  have "map p_number (topic_posts db (t_id t)) = [1..t_next_post_number t - 1]"
    using ok by (simp add: topic_ok_def comp_def)
  moreover have "int (length (topic_posts db (t_id t))) = t_next_post_number t - 1"
    using topic_ok_ends(3) [OF ok] by simp
  ultimately show ?thesis
    using ok ne by (auto simp: topic_consistent_def topic_ok_def Let_def hd_map last_map)
qed

lemma board_inv_post:
  assumes "board_inv db" and "p \<in> set (db_posts db)"
  shows "post_threaded db p"
proof -
  have "abs_post p \<in> set (th_posts (threads_of db))" using assms(2) by (simp add: threads_of_def)
  then have "post_ok (th_posts (threads_of db)) (abs_post p)" using assms(1) by (auto simp: board_inv_def thread_inv_def)
  then show ?thesis
    by (auto simp: post_ok_def post_threaded_def threads_of_def split: option.splits)
qed

text \<open>
  C11. Every state the board can reach is well threaded: in each topic the posts are numbered one to
  their count in the order they were inserted, the topic's counters, its first and its latest post
  agree with them, and each post is the root of its topic or extends the path of an earlier post of
  the same topic by its own number, at most 32 deep.
\<close>

theorem board_well_threaded:
  assumes "board_run db db'" and "board_inv db"
  shows "list_all (topic_consistent db') (db_topics db') \<and> list_all (post_threaded db') (db_posts db')"
  using board_inv_topic [OF board_run_inv [OF assms]] board_inv_post [OF board_run_inv [OF assms]]
  by (simp add: list_all_iff)

theorem board_well_threaded_witness:
  "list_all (topic_consistent ex_db2) (db_topics ex_db2) \<and> list_all (post_threaded ex_db2) (db_posts ex_db2)"
  by (rule board_well_threaded [OF ex_run2 ex_db1_inv])

text \<open>
  Posts are never lost, reordered, renumbered, moved to another parent or given to another
  author: the posts of a state are, as far as their identity and place go, the first posts of
  every later state.
\<close>

lemma posts_keep_their_place:
  assumes "board_run db db'"
  shows "\<exists>later. map abs_post (db_posts db') = map abs_post (db_posts db) @ later"
proof -
  have "evolves db db'" by (rule board_evolution.board_run_relates [OF assms])
  from threads_evolve_prefix [OF this [unfolded evolves_def]] show ?thesis by (simp add: threads_of_def)
qed

lemma posts_keep_their_place_witness:
  "\<exists>later. map abs_post (db_posts (w_db (snd ex_restore_call))) = map abs_post (db_posts ex_redact_db) @ later"
  by (rule posts_keep_their_place [OF ex_restore_run])

subsection \<open>What no call can undo\<close>

text \<open>
  C30. The audit log is append-only: whatever the services do, every audit row stays as it was
  written, in its place.
\<close>

theorem audit_log_append_only:
  assumes "board_run db db'"
  shows "\<exists>later. db_audits db' = db_audits db @ later"
  using audits_board.board_run_relates [OF assms] by (simp add: audits_grow_def)

theorem audit_log_append_only_witness:
  "\<exists>later. db_audits (w_db (snd ex_restore_call)) = db_audits ex_redact_db @ later \<and> db_audits ex_redact_db \<noteq> []"
proof -
  have "db_audits ex_redact_db \<noteq> []" by code_simp
  with audit_log_append_only [OF ex_restore_run] show ?thesis by blast
qed

text \<open>
  A revision number names one content: across any sequence of calls a post keeps its identity
  and creation time, its revision never goes back, and its Markdown and HTML are unchanged as long
  as its revision is. This is what makes the expected revision of an edit a sound guard against
  overwriting a concurrent change.
\<close>

lemma revision_names_content:
  assumes "board_run db db'" and "p \<in> set (db_posts db)"
  shows "\<exists>p' \<in> set (db_posts db'). revision_forward p p'"
  using revisions_board.board_run_relates [OF assms(1)] assms(2) by (auto simp: revisions_forward_def rows_move_def)

lemma revision_names_content_witness:
  "list_all (\<lambda>p. \<exists>p' \<in> set (db_posts ex_db2). revision_forward p p') (db_posts ex_db1) \<and> db_posts ex_db1 \<noteq> []"
proof -
  have "db_posts ex_db1 \<noteq> []" by code_simp
  with revision_names_content [OF ex_run2] show ?thesis by (simp add: list_all_iff)
qed

end
