(* ===== verification/UnreadFacts.thy ===== *)
theory UnreadFacts
  imports BoardFacts
begin

text \<open>
  Read markers in the states the board can reach: they stay within the numbers of their topic, so the
  checks the services make on the rows of their queries cannot fail there, and marking a topic read
  clears what was unread.
\<close>

subsection \<open>The invariant of the markers\<close>

definition marker_ok :: "forum_db \<Rightarrow> read_row \<Rightarrow> bool" where
  "marker_ok db m \<longleftrightarrow>
     0 < rd_last_read_id m \<and> finite_ts (Some (rd_last_read_at m)) \<and>
     (\<exists>t \<in> set (db_topics db). t_id t = rd_topic m \<and> rd_last_read_id m < t_next_post_number t)"

definition reads_ok :: "forum_db \<Rightarrow> bool" where
  "reads_ok db \<longleftrightarrow> (\<forall>m \<in> set (db_reads db). marker_ok db m)"

lemma thread_step_next:
  assumes "thread_step s s'" and "thread_inv s" and "t \<in> set (th_topics s)"
  shows "\<exists>t' \<in> set (th_topics s'). tf_id t' = tf_id t \<and> tf_next t \<le> tf_next t'"
  using assms(1)
proof (cases rule: thread_step.cases)
  case (reply u r j author)
  show ?thesis
  proof (cases "tf_id t = tf_id u")
    case True
    then have "t = u" using assms(2,3) reply distinct_key_eq [of tf_id "th_topics s" t u] by (simp add: thread_inv_def)
    moreover have "(\<lambda>x. x\<lparr>tf_latest := j, tf_replies := tf_next u - 1, tf_next := tf_next u + 1\<rparr>) t
        \<in> set (upd_where (\<lambda>x. tf_id x = tf_id u)
          (\<lambda>x. x\<lparr>tf_latest := j, tf_replies := tf_next u - 1, tf_next := tf_next u + 1\<rparr>) (th_topics s))"
      using assms(3) True by (intro upd_where_hit) auto
    ultimately show ?thesis using reply(1)
      by (intro bexI [of _ "t\<lparr>tf_latest := j, tf_replies := tf_next u - 1, tf_next := tf_next u + 1\<rparr>"]) simp_all
  next
    case False
    with assms(3) reply(1) show ?thesis by (intro bexI [of _ t]) (auto simp: upd_where_def)
  qed
qed (use assms(3) in auto)

lemma threads_evolve_next:
  assumes "threads_evolve s s'" and "thread_inv s" and "t \<in> set (th_topics s)"
  shows "\<exists>t' \<in> set (th_topics s'). tf_id t' = tf_id t \<and> tf_next t \<le> tf_next t'"
  using assms unfolding threads_evolve_def
proof (induction rule: rtranclp_induct)
  case (step s1 s2)
  then obtain t1 where t1: "t1 \<in> set (th_topics s1)" "tf_id t1 = tf_id t" "tf_next t \<le> tf_next t1" by blast
  have "thread_inv s1" using threads_evolve_inv [of s s1] step.hyps(1) step.prems(1) by (simp add: threads_evolve_def)
  from thread_step_next [OF step.hyps(2) this t1(1)] t1 show ?case by force
qed auto

lemma marker_ok_evolves:
  assumes "evolves db db'" and "board_inv db" and "marker_ok db m"
  shows "marker_ok db' m"
proof -
  from assms(3) obtain t where t: "t \<in> set (db_topics db)" "t_id t = rd_topic m" "rd_last_read_id m < t_next_post_number t"
    by (auto simp: marker_ok_def)
  then have "abs_topic t \<in> set (th_topics (threads_of db))" by (simp add: threads_of_def)
  from threads_evolve_next [OF assms(1) [unfolded evolves_def] assms(2) [unfolded board_inv_def] this]
  obtain t' where "t' \<in> set (db_topics db')" "t_id t' = t_id t" "t_next_post_number t \<le> t_next_post_number t'"
    by (auto simp: threads_of_def)
  with t assms(3) show ?thesis by (force simp: marker_ok_def)
qed

definition reads_kept :: "forum_db \<Rightarrow> forum_db \<Rightarrow> bool" where
  "reads_kept db db' \<longleftrightarrow> evolves db db' \<and> (board_inv db \<and> reads_ok db \<longrightarrow> reads_ok db')"

lemma reads_kept_same: "evolves db db' \<Longrightarrow> db_reads db' = db_reads db \<Longrightarrow> reads_kept db db'"
  using marker_ok_evolves by (auto simp: reads_kept_def reads_ok_def)

lemma evolves_board_inv: "evolves db db' \<Longrightarrow> board_inv db \<Longrightarrow> board_inv db'"
  using threads_evolve_inv by (auto simp: evolves_def board_inv_def)

interpretation reads: table_relation reads_kept
proof
  show "reads_kept db db" for db by (rule reads_kept_same) (simp_all add: evolution.R_refl)
  show "reads_kept db1 db3" if "reads_kept db1 db2" "reads_kept db2 db3" for db1 db2 db3
    using that evolution.R_trans evolves_board_inv unfolding reads_kept_def by blast
  show "reads_kept db (db\<lparr>db_seqs := s\<rparr>)" for db s by (rule reads_kept_same) (simp_all add: evolution.R_seqs)
qed

definition reads_same :: "forum_db \<Rightarrow> forum_db \<Rightarrow> bool" where
  "reads_same db db' \<longleftrightarrow> db_reads db' = db_reads db"

interpretation unread_rows: table_relation reads_same
  by unfold_locales (auto simp: reads_same_def)

lemma reads_kept_stmt: "relates evolves m \<Longrightarrow> relates reads_same m \<Longrightarrow> relates reads_kept m"
  by (auto simp: relates_def reads_same_def intro: reads_kept_same)

lemma reads_same_audited:
  "relates reads_same (change_topic hit1 ct at)" "relates reads_same (change_post hit2 cp ap)"
  "relates reads_same (change_user hit3 cu au)" "relates reads_same (change_report hit4 cr ar)"
  unfolding change_topic_def change_post_def change_user_def change_report_def
  by (rule unread_rows.relates_statement;
      auto simp: reads_same_def Let_def case_prod_unfold split: option.split)+

lemma reads_same_inserts:
  "relates reads_same (CreateTopicAndFirstPost area author title search stamp body)"
  "relates reads_same (CreateReplyAndAdvanceTopic author body parent stamp topic)"
  unfolding CreateTopicAndFirstPost_def CreateReplyAndAdvanceTopic_def
  by (rule unread_rows.relates_statement; simp add: reads_same_def reads_insert_topic reads_insert_reply)+

lemma reads_same_rows:
  "relates reads_same (ReplacePublicationWindow started count user)"
  "relates reads_same (UpdatePostRevision body stamp post expected)"
  "relates reads_same (SoftDeletePost stamp author post expected)"
  "relates reads_same (WarnUserAndAudit user actor reason stamp req)"
  "relates reads_same (SuspendUserAndAudit suspended reason updated user observed expected64 actor prior req)"
  "relates reads_same (insert_report visible reporter otopic opost ouser reason stamp)"
  "relates reads_same (AddReportNoteAndAudit report actor text_body stamp req)"
  unfolding row_statements
  by (rule unread_rows.relates_statement;
      auto simp: reads_same_def Let_def case_prod_unfold split: option.split)+

lemma reads_same_auth:
  "relates reads_same (TouchSession observed session touch_before)"
  "relates reads_same (query_RevokeSession h observed)"
  "relates reads_same (InsertOIDCLoginAttempt a)"
  "relates reads_same (ConsumeOIDCLoginAttempt consumed h)"
  "relates reads_same (InsertUser claims stamp)"
  "relates reads_same (InsertExternalIdentity user issuer subject stamp)"
  "relates reads_same (UpdateUserFromOIDC claims stamp user)"
  "relates reads_same (UpdateExternalIdentityVerification stamp user)"
  "relates reads_same (InsertSession h user issued expires)"
  "relates reads_same (RevokeSessionForRotation session h observed)"
  "relates reads_same (BootstrapAdministratorAndAudit user stamp operator req)"
  "relates reads_same (ClaimInitialAdministratorAndAudit session user stamp issuer subject req)"
  "relates reads_same (RebindExternalIdentityAndAudit issuer subject new_issuer new_subject stamp operator req)"
  "relates reads_same (CreateAdministrationGroupAndAudit lower name actor stamp reason req)"
  "relates reads_same (RenameAdministrationGroupAndAudit lower name stamp gid expected actor reason previous req)"
  "relates reads_same (GrantAdministrationMembershipAndAudit gid user actor stamp expected reason req)"
  "relates reads_same (RevokeAdministrationMembershipAndAudit gid user stamp expected actor reason req)"
  "relates reads_same (ChangeAdministrationRoleAndAudit role_name stamp user expected_name expected actor reason req)"
  "relates reads_same (revoke_listed now user chosen enough action actor reason req)"
  "relates reads_same (UpdateControlSettingsAndAudit sha new_row previous_row expected actor reason stamp req)"
  unfolding row_statements
  by (rule unread_rows.relates_statement;
      auto simp: reads_same_def Let_def case_prod_unfold nextval_def split: option.split)+

lemma reads_same_areas:
  "relates reads_same (CreateAreaForAdministration core actor stamp)"
  "relates reads_same (AddAreaGroupForAdministration area gid actor)"
  "relates reads_same (DeleteAreaGroupsForAdministration area)"
  "relates reads_same (UpdateAreaForAdministration core actor stamp area)"
  "relates reads_same (CreateAreaAdministrationAudit actor area action reason prev_state new_state req stamp)"
  "relates reads_same (UpdateAdministrationAreaAndAudit core actor stamp area expected reason prev_state new_state req)"
  "relates reads_same (GrantAdministrationAreaGroupAndAudit area gid actor stamp expected reason req)"
  "relates reads_same (RevokeAdministrationAreaGroupAndAudit area gid stamp actor expected reason req)"
  unfolding row_statements
  by (rule unread_rows.relates_statement;
      auto simp: reads_same_def Let_def case_prod_unfold nextval_def split: option.split)+

subsection \<open>Read heads\<close>

lemma fold_max_ge: "(a :: int) \<le> fold max xs a \<and> (\<forall>x \<in> set xs. x \<le> fold max xs a)"
proof (induction xs arbitrary: a)
  case (Cons x xs)
  from Cons [of "max x a"] show ?case by auto
qed simp

lemma fold_max_in: "fold max xs (a :: int) = a \<or> fold max xs a \<in> set xs"
proof (induction xs arbitrary: a)
  case (Cons x xs)
  from Cons [of "max x a"] show ?case by (auto simp: max_def split: if_splits)
qed simp

lemma read_head_ge: "p \<in> set ps \<Longrightarrow> eligible actor p \<Longrightarrow> p_number p \<le> read_head ps actor"
  using fold_max_ge [of 0 "map p_number (filter (eligible actor) ps)"] by (auto simp: read_head_def)

lemma read_head_nonneg: "0 \<le> read_head ps actor"
  using fold_max_ge [of 0 "map p_number (filter (eligible actor) ps)"] by (auto simp: read_head_def)

lemma read_head_cases: "read_head ps actor = 0 \<or> (\<exists>p \<in> set ps. eligible actor p \<and> p_number p = read_head ps actor)"
  using fold_max_in [of "map p_number (filter (eligible actor) ps)" 0] by (auto simp: read_head_def)

lemma board_inv_next: "board_inv db \<Longrightarrow> t \<in> set (db_topics db) \<Longrightarrow> 2 \<le> t_next_post_number t"
  by (auto simp: board_inv_def thread_inv_def threads_of_def topic_ok_def)

lemma board_inv_topic_key:
  "board_inv db \<Longrightarrow> t \<in> set (db_topics db) \<Longrightarrow> u \<in> set (db_topics db) \<Longrightarrow> t_id t = t_id u \<Longrightarrow> t = u"
  using distinct_key_eq [of t_id "db_topics db" t u]
  by (simp add: board_inv_def thread_inv_def threads_of_def comp_def)

lemma read_head_next:
  assumes "board_inv db" and "t \<in> set (db_topics db)"
  shows "read_head (topic_posts db (t_id t)) actor < t_next_post_number t"
proof -
  from board_inv_topic [OF assms] have c: "map p_number (topic_posts db (t_id t)) = [1..t_next_post_number t - 1]"
      "2 \<le> t_next_post_number t"
    by (auto simp: topic_consistent_def Let_def)
      (metis One_nat_def Suc_leI length_greater_0_conv add_mono int_ops(2) of_nat_mono one_add_one order_refl)
  from read_head_cases [of "topic_posts db (t_id t)" actor] show ?thesis
  proof
    assume "\<exists>p \<in> set (topic_posts db (t_id t)). eligible actor p \<and> p_number p = read_head (topic_posts db (t_id t)) actor"
    then have "read_head (topic_posts db (t_id t)) actor \<in> set (map p_number (topic_posts db (t_id t)))" by force
    then show ?thesis unfolding c(1) by simp
  qed (use c(2) in simp)
qed

subsection \<open>Every service keeps the markers\<close>

lemma authorized_topic_Some:
  "authorized_topic db i staff groups = Some t \<Longrightarrow> t \<in> set (db_topics db) \<and> t_id t = i"
  by (auto simp: authorized_topic_def find_topic_def split: option.splits if_splits dest!: find_Some_iff2)

lemma upsert_reads_ok:
  assumes inv: "board_inv db" "reads_ok db" and t: "t \<in> set (db_topics db)" "t_id t = i"
    and sel: "selected < t_next_post_number t"
  shows "reads_ok (snd (upsert_marker db actor i selected (At now)))"
proof -
  have ok: "marker_ok db m" if "m \<in> set (db_reads db)" for m using inv(2) that by (simp add: reads_ok_def)
  have up: "marker_ok db (m\<lparr>rd_last_read_id := max (rd_last_read_id m) selected, rd_last_read_at := At now\<rparr>)"
    if m: "m \<in> set (db_reads db)" "rd_topic m = i" for m
  proof -
    from ok [OF m(1)] obtain t' where t': "t' \<in> set (db_topics db)" "t_id t' = i" "rd_last_read_id m < t_next_post_number t'"
        "0 < rd_last_read_id m"
      using m(2) by (auto simp: marker_ok_def)
    have "distinct (map t_id (db_topics db))"
      using inv(1) by (simp add: board_inv_def thread_inv_def threads_of_def comp_def)
    then have "t' = t" using distinct_key_eq [of t_id "db_topics db" t' t] t t' by simp
    with t' m sel show ?thesis by (auto simp: marker_ok_def)
  qed
  have new: "marker_ok db \<lparr>rd_user = actor, rd_topic = i, rd_last_read_id = selected, rd_last_read_at = At now\<rparr>"
    if "0 < selected" using that t sel by (auto simp: marker_ok_def)
  have move: "marker_ok (db\<lparr>db_reads := rs\<rparr>) m = marker_ok db m" for rs m by (simp add: marker_ok_def)
  show ?thesis
    using ok up new
    by (auto simp: upsert_marker_def reads_ok_def move upd_where_def split: option.split)
qed

lemma reads_kept_mark: "relates reads_kept (MarkTopicReadBoundary topic staff groups user)"
  unfolding MarkTopicReadBoundary_def
proof (intro reads.relates_bind reads.relates_clock reads.relates_statement)
  fix now and db :: forum_db
  let ?q = "case authorized_topic db topic staff groups of
      None \<Rightarrow> (Inl (Sentinel NoRows), db)
    | Some t \<Rightarrow>
        let selected = read_head (topic_posts db topic) user;
            (advanced, db') = upsert_marker db user topic selected (At now)
        in (Inr \<lparr>bd_topic_id = t_id t, bd_next = t_next_post_number t, bd_selected = selected,
                 bd_advanced = advanced\<rparr>, db')"
  show "reads_kept db (snd ?q)"
  proof (cases "authorized_topic db topic staff groups")
    case (Some t)
    note t = authorized_topic_Some [OF Some]
    let ?db' = "snd (upsert_marker db user topic (read_head (topic_posts db topic) user) (At now))"
    have "evolves db ?db'"
      by (rule evolves_same) (auto simp: upsert_marker_def threads_of_def split: option.split)
    moreover have "reads_ok ?db'" if "board_inv db" "reads_ok db"
      using upsert_reads_ok [OF that, of t topic] t read_head_next [OF that(1), of t user] by auto
    ultimately show ?thesis using Some by (simp add: reads_kept_def Let_def case_prod_unfold)
  qed (simp add: reads.R_refl)
qed

lemmas reads_same_statements = reads_same_inserts reads_same_rows reads_same_auth reads_same_areas

interpretation reads_free: registration_free reads_kept
  by unfold_locales (rule reads_kept_same; simp add: evolution_free.registrations_free evolution_free.invitations_free
    evolution_free.audit_free evolution_free.sync_free)+

interpretation reads_board: board_relation reads_kept
proof
  show "relates reads_kept (MarkTopicReadBoundary topic staff groups user)" for topic staff groups user
    by (rule reads_kept_mark)
qed (rule reads_kept_stmt; (rule board_evolution.all_statement_rules board_evolution.state_stmt board_evolution.finish_stmt;
      assumption?)?; (unfold changed_rows)?; (rule reads_same_audited reads_same_statements)?)+

lemma board_run_reads:
  assumes "board_run db db'" and "board_inv db" and "reads_ok db"
  shows "board_inv db' \<and> reads_ok db'"
  using reads_board.board_run_relates [OF assms(1)] assms(2,3) evolves_board_inv by (auto simp: reads_kept_def)

subsection \<open>The example\<close>

text \<open>The author of the topic marks it read after the answer.\<close>

definition ex_mark_call :: "(go_error + unit) \<times> world" where
  "ex_mark_call = MarkTopicRead ex_tx (ex_actor 2 RoleMember) 1 (ex_world ex_db2 [9000])"

lemma ex_mark_call_eq:
  "MarkTopicRead ex_tx (ex_actor 2 RoleMember) 1 (ex_world ex_db2 [9000]) = (Inr (), snd ex_mark_call)"
proof -
  have "fst ex_mark_call = Inr ()" by code_simp
  then show ?thesis by (simp add: ex_mark_call_def prod_eq_iff)
qed

lemma ex_mark_run: "board_run ex_db2 (w_db (snd ex_mark_call))"
proof -
  have "board_step (w_db (ex_world ex_db2 [9000]))
      (w_db (run_call (CallMarkRead ex_tx (ex_actor 2 RoleMember) 1) (ex_world ex_db2 [9000])))"
    by (rule board_step.call)
  then show ?thesis by (simp add: board_run_def ex_mark_call_def r_into_rtranclp)
qed

lemma ex_db2_reads: "reads_ok ex_db2"
proof -
  have "db_reads ex_db2 = []" by code_simp
  then show ?thesis by (simp add: reads_ok_def)
qed

subsection \<open>Properties\<close>

lemma MarkTopicRead_Inr:
  assumes "MarkTopicRead env actor i w = (Inr (), w')"
  shows "\<exists>t now. authorized_topic (w_db w) i (is_staff actor) (ac_group_ids actor) = Some t \<and>
    w_db w' = snd (upsert_marker (w_db w) (ac_user_id actor) i
      (read_head (topic_posts (w_db w) i) (ac_user_id actor)) (At now))"
proof -
  from assms have body: "MarkTopicRead_body actor i w = (Inr (), w')"
    by (auto simp: MarkTopicRead_def context_error_def tx_inverts within_tx_Inr split: option.splits)
  then obtain b w1 where b: "MarkTopicReadBoundary i (is_staff actor) (ac_group_ids actor) (ac_user_id actor)
        (after_statement w (w_db w)) = (Inr b, w1)"
    and rest: "(case GetTopicReadMarker (ac_user_id actor) i w1 of
            (Inl e, w') \<Rightarrow>
              if err_is e NoRows \<and> bd_selected b = 0 then (Inr (), w')
              else (Inl (Wrap ''inspect mark-read marker'' e), w')
          | (Inr m, w') \<Rightarrow>
              tx_guard (\<not> check_marker b m) (Fail ''mark-read marker returned an invalid result'') w') = (Inr (), w')"
    by (auto simp: MarkTopicRead_body_def ConfigureMarkTopicReadTransaction_def tx_inverts)
  have "w_db (snd (GetTopicReadMarker (ac_user_id actor) i w1)) = w_db w1"
    by (auto simp: GetTopicReadMarker_def select_one_def statement_def Let_def split: option.splits prod.splits)
  with rest have "w_db w' = w_db w1"
    by (auto simp: tx_guard_def split: prod.splits sum.splits if_splits)
  moreover from b obtain t now where "authorized_topic (w_db w) i (is_staff actor) (ac_group_ids actor) = Some t"
      "w_db w1 = snd (upsert_marker (w_db w) (ac_user_id actor) i (read_head (topic_posts (w_db w) i) (ac_user_id actor)) (At now))"
    by (auto simp: MarkTopicReadBoundary_def tx_inverts Let_def case_prod_unfold split: option.splits)
  ultimately show ?thesis by auto
qed

lemma find_snoc: "find P (xs @ ys) = (case find P xs of None \<Rightarrow> find P ys | Some x \<Rightarrow> Some x)"
  by (induction xs) auto

lemma upsert_marker_covers:
  "0 < selected \<Longrightarrow> \<exists>m. find_marker (snd (upsert_marker db actor i selected now)) actor i = Some m \<and>
     selected \<le> rd_last_read_id m"
  by (auto simp: upsert_marker_def find_marker_def find_snoc find_upd_where split: option.splits
      dest!: find_Some_iff2)

lemma upsert_marker_tables [simp]:
  "db_topics (snd (upsert_marker db actor i selected now)) = db_topics db"
  "db_posts (snd (upsert_marker db actor i selected now)) = db_posts db"
  by (auto simp: upsert_marker_def split: option.split)

lemma first_unread_none:
  assumes "read_head ps actor \<le> (case marker of None \<Rightarrow> 0 | Some m \<Rightarrow> m)"
  shows "first_unread_post ps actor marker = None"
proof -
  have "filter (\<lambda>p. eligible actor p \<and> p_number p > (case marker of None \<Rightarrow> 0 | Some m \<Rightarrow> m)) ps = []"
    using assms read_head_ge [of _ ps actor] by (force simp: filter_empty_conv)
  then show ?thesis by (simp add: first_unread_post_def)
qed

text \<open>
  Marking a topic read leaves nothing unread: in the tables after a successful call, as long as
  nobody else has written, the topic's read state for the same account is ``read'' and the query
  for its first unread post finds no target.
\<close>

lemma mark_read_clears:
  assumes "MarkTopicRead env actor i w = (Inr (), w')" and "reads_ok (w_db w)" and "w_db w2 = w_db w'"
    and "GetAuthorizedTopicReadState (ac_user_id actor) i staff groups w2 = (Inr row, w3)"
    and "GetFirstUnreadTarget i staff groups (ac_user_id actor) w2 = (Inr first, w4)"
  shows "rs_state row = ReadStateRead \<and> fu_target first = None"
proof -
  define uid where "uid = ac_user_id actor"
  define head where "head = read_head (topic_posts (w_db w) i) uid"
  from MarkTopicRead_Inr [OF assms(1)] obtain now where
    w2: "w_db w2 = snd (upsert_marker (w_db w) uid i head (At now))"
    by (auto simp: uid_def head_def assms(3))
  have posts: "topic_posts (w_db w2) i = topic_posts (w_db w) i" by (simp add: w2 topic_posts_def)
  have nn: "0 \<le> head" by (simp add: head_def read_head_nonneg)
  have covers: "head \<le> (case find_marker (w_db w2) uid i of None \<Rightarrow> 0 | Some m \<Rightarrow> rd_last_read_id m)"
  proof (cases "0 < head")
    case True
    from upsert_marker_covers [OF True, of "w_db w" uid i "At now"] show ?thesis by (auto simp: w2)
  next
    case False
    then have "w_db w2 = w_db w" by (simp add: w2 upsert_marker_def)
    with False nn assms(2) show ?thesis
      by (auto simp: find_marker_def reads_ok_def marker_ok_def dest!: find_Some_iff2 split: option.split)
  qed
  have none: "first_unread_post (topic_posts (w_db w2) i) uid (map_option rd_last_read_id (find_marker (w_db w2) uid i)) = None"
    by (rule first_unread_none) (use covers in \<open>simp add: posts head_def [symmetric] split: option.splits\<close>)
  from assms(4) have "rs_state row = (if head = 0 then ''read'' else case find_marker (w_db w2) uid i of None \<Rightarrow> ''new''
      | Some m \<Rightarrow> if rd_last_read_id m < head then ''unread'' else ''read'')"
    by (auto simp: GetAuthorizedTopicReadState_def tx_inverts Let_def posts uid_def head_def split: option.splits)
  with covers nn have "rs_state row = ReadStateRead"
    by (auto simp: ReadStateRead_def split: option.splits)
  moreover from assms(5) none have "fu_target first = None"
    by (auto simp: GetFirstUnreadTarget_def tx_inverts Let_def uid_def split: option.splits)
  ultimately show ?thesis by simp
qed

lemma mark_read_clears_witness:
  "\<exists>row w3. GetAuthorizedTopicReadState 2 1 False [] (snd ex_mark_call) = (Inr row, w3) \<and> rs_state row = ReadStateRead \<and>
     rs_head row = 2"
proof -
  have "map_sum id rs_head (fst (GetAuthorizedTopicReadState 2 1 False [] (snd ex_mark_call))) = Inr 2" by code_simp
  then obtain row w3 where r: "GetAuthorizedTopicReadState 2 1 False [] (snd ex_mark_call) = (Inr row, w3)" "rs_head row = 2"
    by (cases "GetAuthorizedTopicReadState 2 1 False [] (snd ex_mark_call)";
        cases "fst (GetAuthorizedTopicReadState 2 1 False [] (snd ex_mark_call))") auto
  have "map_sum id (\<lambda>x. ()) (fst (GetFirstUnreadTarget 1 False [] 2 (snd ex_mark_call))) = Inr ()" by code_simp
  then obtain first w4 where f: "GetFirstUnreadTarget 1 False [] 2 (snd ex_mark_call) = (Inr first, w4)"
    by (cases "GetFirstUnreadTarget 1 False [] 2 (snd ex_mark_call)";
        cases "fst (GetFirstUnreadTarget 1 False [] 2 (snd ex_mark_call))") auto
  have id: "ac_user_id (ex_actor 2 RoleMember) = 2" by (simp add: ex_actor_def)
  have ok: "reads_ok (w_db (ex_world ex_db2 [9000]))" by (simp add: ex_db2_reads)
  from mark_read_clears [OF ex_mark_call_eq ok refl, unfolded id, OF r(1) f] r show ?thesis by auto
qed

text \<open>
  C31. The read state the database computes and the one the program recomputes agree in every state
  the board can reach: the row of an authorised topic always passes the program's validation, with
  the same state, so the page of a signed-in reader never fails on its own read marker.
\<close>

theorem read_state_agrees:
  assumes "board_run db db'" and "board_inv db" and "reads_ok db" and "w_db w = db'" and "0 < i"
    and "GetAuthorizedTopicReadState actor i staff groups w = (Inr row, w2)"
  shows "rs_topic_id row = i \<and>
    validatedTopicReadState (rs_topic_id row) (rs_next row) (rs_head row) (rs_marker row) (rs_read_at row) (rs_state row) =
      (rs_state row, True)"
proof -
  from board_run_reads [OF assms(1-3)] have inv: "board_inv (w_db w)" "reads_ok (w_db w)" by (simp_all add: assms(4))
  from assms(6) obtain t where t: "t \<in> set (db_topics (w_db w))" "t_id t = i"
    and row: "rs_topic_id row = i" "rs_next row = t_next_post_number t" "rs_head row = read_head (topic_posts (w_db w) i) actor"
      "rs_marker row = map_option rd_last_read_id (find_marker (w_db w) actor i)"
      "rs_read_at row = map_option rd_last_read_at (find_marker (w_db w) actor i)"
      "rs_state row = (if rs_head row = 0 then ''read'' else case find_marker (w_db w) actor i of None \<Rightarrow> ''new''
         | Some m \<Rightarrow> if rd_last_read_id m < rs_head row then ''unread'' else ''read'')"
    by (auto simp: GetAuthorizedTopicReadState_def tx_inverts Let_def split: option.splits dest!: authorized_topic_Some)
  have head: "0 \<le> rs_head row" "rs_head row < rs_next row"
    using read_head_next [OF inv(1) t(1), of actor] t(2) row(2,3) by (simp_all add: read_head_nonneg)
  have next2: "2 \<le> rs_next row" using board_inv_next [OF inv(1) t(1)] row(2) by simp
  have marker: "0 < rd_last_read_id m \<and> rd_last_read_id m < rs_next row \<and> finite_ts (Some (rd_last_read_at m))"
    if "find_marker (w_db w) actor i = Some m" for m
  proof -
    from that have m: "m \<in> set (db_reads (w_db w))" "rd_topic m = i" by (auto simp: find_marker_def dest!: find_Some_iff2)
    with inv(2) obtain t' where t': "t' \<in> set (db_topics (w_db w))" "t_id t' = i" "rd_last_read_id m < t_next_post_number t'"
        "0 < rd_last_read_id m" "finite_ts (Some (rd_last_read_at m))"
      by (auto simp: reads_ok_def marker_ok_def)
    have "t' = t" using board_inv_topic_key [OF inv(1) t'(1) t(1)] t'(2) t(2) by simp
    with t' row(2) show ?thesis by simp
  qed
  show ?thesis
    using row head next2 marker assms(5)
    by (auto simp: validatedTopicReadState_def ReadStateNew_def ReadStateUnread_def ReadStateRead_def Let_def
        split: option.splits)
qed

theorem read_state_agrees_witness:
  "\<exists>row w2. GetAuthorizedTopicReadState 4 1 False [] (ex_world (w_db (snd ex_mark_call)) []) = (Inr row, w2) \<and>
     validatedTopicReadState 1 (rs_next row) (rs_head row) (rs_marker row) (rs_read_at row) (rs_state row) = (''new'', True)"
proof -
  have "map_sum id rs_state (fst (GetAuthorizedTopicReadState 4 1 False [] (ex_world (w_db (snd ex_mark_call)) []))) = Inr ''new''"
    by code_simp
  then obtain row w2 where r: "GetAuthorizedTopicReadState 4 1 False [] (ex_world (w_db (snd ex_mark_call)) []) = (Inr row, w2)"
      "rs_state row = ''new''"
    by (cases "GetAuthorizedTopicReadState 4 1 False [] (ex_world (w_db (snd ex_mark_call)) [])";
        cases "fst (GetAuthorizedTopicReadState 4 1 False [] (ex_world (w_db (snd ex_mark_call)) []))") auto
  from read_state_agrees [OF ex_mark_run ex_db2_inv ex_db2_reads w_db_ex_world _ r(1)] r show ?thesis by auto
qed

text \<open>
  A read marker only moves forward: whatever calls follow, each account's marker in a topic is
  still there and at least where it was.
\<close>

lemma markers_only_advance:
  assumes "board_run db db'" and "m \<in> set (db_reads db)"
  shows "\<exists>m' \<in> set (db_reads db'). rd_user m' = rd_user m \<and> rd_topic m' = rd_topic m \<and>
    rd_last_read_id m \<le> rd_last_read_id m'"
  using markers_board.board_run_relates [OF assms(1)] assms(2)
  by (auto simp: markers_advance_def rows_move_def marker_advances_def)

definition ex_later_call :: "(go_error + publish_result) \<times> world" where
  "ex_later_call =
     CreateReply ex_env example_policy (ex_actor 4 RoleMember) 1 1 ''third'' (ex_world (w_db (snd ex_mark_call)) [9500, 9600])"

lemma markers_only_advance_witness:
  "\<exists>m' \<in> set (db_reads (w_db (snd ex_later_call))). rd_user m' = 2 \<and> rd_topic m' = 1 \<and> 2 \<le> rd_last_read_id m'"
proof -
  have run: "board_run (w_db (snd ex_mark_call)) (w_db (snd ex_later_call))"
  proof -
    have "board_step (w_db (ex_world (w_db (snd ex_mark_call)) [9500, 9600]))
        (w_db (run_call (CallCreateReply ex_env example_policy (ex_actor 4 RoleMember) 1 1 ''third'')
           (ex_world (w_db (snd ex_mark_call)) [9500, 9600])))"
      by (rule board_step.call)
    then show ?thesis by (simp add: board_run_def ex_later_call_def r_into_rtranclp)
  qed
  have "list_ex (\<lambda>m. rd_user m = 2 \<and> rd_topic m = 1 \<and> rd_last_read_id m = 2) (db_reads (w_db (snd ex_mark_call)))"
    by code_simp
  then obtain m where m: "m \<in> set (db_reads (w_db (snd ex_mark_call)))" "rd_user m = 2" "rd_topic m = 1" "rd_last_read_id m = 2"
    by (auto simp: list_ex_iff)
  from markers_only_advance [OF run m(1)] m show ?thesis by auto
qed

end
