(* ===== verification/SuspensionFacts.thy ===== *)
theory SuspensionFacts
  imports ModerationFacts TopicFacts
begin

text \<open>
  What a successful suspension means: it is audited, it ends every session of the account for good, it
  keeps the board administrable, and the account can publish nothing until it is accepted again.
\<close>

subsection \<open>The successful statement\<close>

text \<open>
  The account rows after a suspension: the target's row is marked, no other row changes, and
  identifiers and roles stay.
\<close>

definition suspended_rows :: "int \<Rightarrow> user_row list \<Rightarrow> user_row list \<Rightarrow> bool" where
  "suspended_rows i us us' \<longleftrightarrow>
     list_all2 (\<lambda>u u'. u_id u' = u_id u \<and> u_role u' = u_role u \<and>
       (u' = u \<or> u_id u = i \<and> u_sync_state u' = ''removal_required'' \<and> u_suspended_at u' \<noteq> None \<and>
                 u_suspended_until u' = None \<and> u_administration_revision u' = u_administration_revision u + 1)) us us' \<and>
     (\<exists>u' \<in> set us'. u_id u' = i \<and> u_sync_state u' = ''removal_required'' \<and> u_suspended_at u' \<noteq> None)"

text \<open>The sessions before and after: those of the account are revoked, the others untouched.\<close>

definition sessions_ended :: "int \<Rightarrow> session_row list \<Rightarrow> session_row list \<Rightarrow> bool" where
  "sessions_ended i ss ss' \<longleftrightarrow>
     list_all2 (\<lambda>s s'. s_id s' = s_id s \<and> s_user_id s' = s_user_id s \<and> s_issued_at s' = s_issued_at s \<and>
       (if s_user_id s = i then s_revoked_at s' \<noteq> None else s' = s)) ss ss'"

lemma SuspendUserAndAudit_Inr:
  assumes "SuspendUserAndAudit suspended reason updated i observed expected actorID prior req w = (Inr (v, k), w')"
  shows "suspended_rows i (db_users (w_db w)) (db_users (w_db w')) \<and> sessions_ended i (db_sessions (w_db w)) (db_sessions (w_db w')) \<and>
    audited (w_db w) (w_db w') (ActorUser actorID) ''suspend_user'' (Some reason) req (TargetUser i) k"
proof -
  let ?hit = "\<lambda>u. u_id u = i \<and> sql_unsuspended observed u \<and>
      u_administration_revision u = expected \<and> u_administration_revision u < max_int64"
  let ?change = "\<lambda>u. u\<lparr>u_suspended_at := Some (max suspended (u_created_at u)), u_suspended_until := None,
      u_suspension_reason := Some reason, u_sync_state := ''removal_required'',
      u_sync_last_attempt_at := None, u_sync_next_attempt_at := Some updated,
      u_sync_failure_class := None, u_updated_at := max updated (u_updated_at u),
      u_administration_revision := u_administration_revision u + 1\<rparr>"
  from assms obtain u where u: "find ?hit (db_users (w_db w)) = Some u" "v = ?change u"
    and users: "db_users (w_db w') = upd_where ?hit ?change (db_users (w_db w))"
    and sessions: "db_sessions (w_db w') = upd_where (\<lambda>s. s_user_id s = i \<and> s_revoked_at s = None)
        (\<lambda>s. s\<lparr>s_revoked_at := Some (max observed (s_issued_at s))\<rparr>) (db_sessions (w_db w))"
    and audit: "audited (w_db w) (w_db w') (ActorUser actorID) ''suspend_user'' (Some reason) req (TargetUser (u_id v)) k"
    unfolding SuspendUserAndAudit_def
    by (auto simp: tx_inverts Let_def case_prod_unfold audited_def insert_audit_audits split: option.splits)
  from u(1) have hit: "u \<in> set (db_users (w_db w))" "?hit u" by (auto dest!: find_Some_iff2)
  from upd_where_hit [of u _ ?hit ?change, OF hit] have "?change u \<in> set (db_users (w_db w'))" by (simp add: users)
  then have "suspended_rows i (db_users (w_db w)) (db_users (w_db w'))"
    using hit(2) unfolding suspended_rows_def
    by (intro conjI bexI [of _ "?change u"]) (auto simp: users upd_where_def list_all2_map2 intro!: list_all2_refl)
  with hit(2) sessions u(2) audit show ?thesis
    by (auto simp: upd_where_def sessions_ended_def list_all2_map2 intro!: list_all2_refl)
qed

subsection \<open>The service\<close>

definition user_keys :: "forum_db \<Rightarrow> bool" where
  "user_keys db \<longleftrightarrow> distinct (map u_id (db_users db))"

lemma user_keysD: "user_keys db \<Longrightarrow> u \<in> set (db_users db) \<Longrightarrow> v \<in> set (db_users db) \<Longrightarrow> u_id u = u_id v \<Longrightarrow> u = v"
  using distinct_key_eq [of u_id "db_users db" u v] by (simp add: user_keys_def)

lemma suspend_target_Inr:
  assumes "suspend_target now actorID target reason req w = (Inr res, w')"
  shows "suspended_rows (u_id target) (db_users (w_db w)) (db_users (w_db w')) \<and>
    sessions_ended (u_id target) (db_sessions (w_db w)) (db_sessions (w_db w')) \<and>
    audited (w_db w) (w_db w') (ActorUser actorID) ''suspend_user'' (Some reason) req (TargetUser (u_id target)) (sr_audit res)"
  using assms by (auto simp: suspend_target_def Let_def tx_inverts dest!: SuspendUserAndAudit_Inr)

text \<open>The account of an actor at an instant, as suspension requires it.\<close>

definition active_account :: "user_row \<Rightarrow> access_context \<Rightarrow> gotime \<Rightarrow> bool" where
  "active_account u actor now \<longleftrightarrow>
     validSuspensionTarget u (ac_user_id actor) \<and> roleFromStorage (u_role u) = Some (ac_role actor) \<and>
     \<not> userSuspendedAt u now \<and> \<not> (u_muted_until u \<noteq> None \<and> ts_time (u_muted_until u) > now) \<and>
     u_sync_state u = ''accepted''"

lemma ChangeUserSuspension_body_Inr:
  assumes run: "ChangeUserSuspension_body now actor i True reason req w = (Inr res, w')"
    and other: "i \<noteq> ac_user_id actor"
  shows "\<exists>u v. find_user (w_db w) (ac_user_id actor) = Some u \<and> find_user (w_db w) i = Some v \<and>
    active_account u actor now \<and> (ac_role actor = RoleModerator \<longrightarrow> u_role v = ''member'') \<and>
    \<not> userSuspendedAt v now \<and>
    suspended_rows i (db_users (w_db w)) (db_users (w_db w')) \<and> sessions_ended i (db_sessions (w_db w)) (db_sessions (w_db w')) \<and>
    audited (w_db w) (w_db w') (ActorUser (ac_user_id actor)) ''suspend_user'' (Some reason) req (TargetUser i) (sr_audit res)"
proof -
  note defs = ChangeUserSuspension_body_def ConfigureAdministrationTransaction_def LockGovernanceState_def
    LockUserForSuspension_def CountActiveAdministrators_def tx_inverts
  from run obtain x y where xy: "find_user (w_db w) (min (ac_user_id actor) i) = Some x"
      "find_user (w_db w) (max (ac_user_id actor) i) = Some y"
    by (auto simp: defs split: if_splits)
  then obtain u v where uv: "(if u_id x = i then (y, x) else (x, y)) = (u, v)"
      "find_user (w_db w) (ac_user_id actor) = Some u" "find_user (w_db w) i = Some v" "u_id v = i"
    using other by (rule ordered_users)
  from run xy uv(1) obtain w1 where checks: "active_account u actor now" "ac_role actor = RoleModerator \<longrightarrow> u_role v = ''member''"
      "\<not> userSuspendedAt v now" and last: "suspend_target now (ac_user_id actor) v reason req w1 = (Inr res, w')"
      and w1: "w_db w1 = w_db w"
    unfolding active_account_def by (auto simp: defs split: if_splits)
  from suspend_target_Inr [OF last] w1 uv checks show ?thesis by auto
qed

lemma ChangeUserSuspension_Inr:
  assumes "ChangeUserSuspension env clock actor i True reason req w = (Inr res, w')"
  shows "\<exists>reading u v. clock = Some reading \<and>
    find_user (w_db w) (ac_user_id actor) = Some u \<and> find_user (w_db w) i = Some v \<and> i \<noteq> ac_user_id actor \<and>
    (ac_role actor = RoleModerator \<or> ac_role actor = RoleAdministrator) \<and>
    active_account u actor (truncate_us reading) \<and> (ac_role actor = RoleModerator \<longrightarrow> u_role v = ''member'') \<and>
    \<not> userSuspendedAt v (truncate_us reading) \<and>
    suspended_rows i (db_users (w_db w)) (db_users (w_db w')) \<and> sessions_ended i (db_sessions (w_db w)) (db_sessions (w_db w')) \<and>
    audited (w_db w) (w_db w') (ActorUser (ac_user_id actor)) ''suspend_user'' (Some reason) req (TargetUser i) (sr_audit res)"
proof -
  from assms obtain reading where c: "clock = Some reading" "i \<noteq> ac_user_id actor"
      "ac_role actor = RoleModerator \<or> ac_role actor = RoleAdministrator"
    and body: "ChangeUserSuspension_body (truncate_us reading) actor i True reason req w = (Inr res, w')"
    by (auto simp: ChangeUserSuspension_def context_error_def tx_inverts within_tx_Inr split: option.splits)
  from ChangeUserSuspension_body_Inr [OF body c(2)] c show ?thesis by blast
qed

subsection \<open>The example\<close>

definition ex_suspend_call :: "(go_error + suspension_result) \<times> world" where
  "ex_suspend_call =
     ChangeUserSuspension ex_tx (Some 9000) (ex_actor 1 RoleAdministrator) 2 True ''flooding'' (Some 5)
       (ex_world ex_db2 [])"

definition ex_suspended_db :: forum_db where "ex_suspended_db = w_db (snd ex_suspend_call)"

lemma ex_suspend_result: "map_sum id sr_audit (fst ex_suspend_call) = Inr 1"
  by code_simp

lemma ex_suspend_call_eq:
  obtains res where "ChangeUserSuspension ex_tx (Some 9000) (ex_actor 1 RoleAdministrator) 2 True ''flooding'' (Some 5)
      (ex_world ex_db2 []) = (Inr res, snd ex_suspend_call)" and "sr_audit res = 1"
  using ex_suspend_result by (cases "fst ex_suspend_call") (auto simp: ex_suspend_call_def prod_eq_iff)

definition ex_reinstate_call :: "(go_error + suspension_result) \<times> world" where
  "ex_reinstate_call =
     ChangeUserSuspension ex_tx (Some 20000) (ex_actor 1 RoleAdministrator) 2 False ''served'' (Some 6)
       (ex_world ex_suspended_db [])"

lemma ex_reinstate_run: "board_run ex_suspended_db (w_db (snd ex_reinstate_call))"
proof -
  have "board_step (w_db (ex_world ex_suspended_db []))
      (w_db (run_call (CallUserSuspension ex_tx (Some 20000) (ex_actor 1 RoleAdministrator) 2 False ''served'' (Some 6))
         (ex_world ex_suspended_db [])))"
    by (rule board_step.call)
  then show ?thesis by (simp add: board_run_def ex_reinstate_call_def r_into_rtranclp)
qed

lemma ex_db2_keys: "user_keys ex_db2"
  unfolding user_keys_def by code_simp

subsection \<open>Properties\<close>

text \<open>
  Suspending an account takes an active moderator or administrator other than the target,
  revalidated on the locked rows, and a moderator can only suspend a member; it marks exactly the
  target's row, which is taken out of the accepted state, appends exactly one audit row that names
  the actor, the reason and the request, and ends every session of the account.
\<close>

lemma suspension_effect:
  assumes "ChangeUserSuspension env clock actor i True reason req w = (Inr res, w')"
  shows "\<exists>reading u v. clock = Some reading \<and>
    find_user (w_db w) (ac_user_id actor) = Some u \<and> find_user (w_db w) i = Some v \<and> i \<noteq> ac_user_id actor \<and>
    (ac_role actor = RoleModerator \<or> ac_role actor = RoleAdministrator) \<and>
    active_account u actor (truncate_us reading) \<and> (ac_role actor = RoleModerator \<longrightarrow> u_role v = ''member'') \<and>
    suspended_rows i (db_users (w_db w)) (db_users (w_db w')) \<and> sessions_ended i (db_sessions (w_db w)) (db_sessions (w_db w')) \<and>
    audited (w_db w) (w_db w') (ActorUser (ac_user_id actor)) ''suspend_user'' (Some reason) req (TargetUser i) (sr_audit res)"
  using ChangeUserSuspension_Inr [OF assms] by blast

lemma suspension_effect_witness:
  "suspended_rows 2 (db_users ex_db2) (db_users ex_suspended_db) \<and> sessions_ended 2 (db_sessions ex_db2) (db_sessions ex_suspended_db) \<and>
   audited ex_db2 ex_suspended_db (ActorUser 1) ''suspend_user'' (Some ''flooding'') (Some 5) (TargetUser 2) 1"
proof -
  obtain res where call: "ChangeUserSuspension ex_tx (Some 9000) (ex_actor 1 RoleAdministrator) 2 True ''flooding''
      (Some 5) (ex_world ex_db2 []) = (Inr res, snd ex_suspend_call)" and res: "sr_audit res = 1"
    by (rule ex_suspend_call_eq)
  from suspension_effect [OF call] res show ?thesis by (auto simp: ex_suspended_db_def ex_actor_def)
qed

lemma list_all2_set: "list_all2 P xs ys \<Longrightarrow> x \<in> set xs \<Longrightarrow> \<exists>y \<in> set ys. P x y"
  by (induction rule: list_all2_induct) auto

lemma list_all2_set2: "list_all2 P xs ys \<Longrightarrow> y \<in> set ys \<Longrightarrow> \<exists>x \<in> set xs. P x y"
  by (induction rule: list_all2_induct) auto

lemma list_all2_map_eq: "list_all2 (\<lambda>x y. f y = f x \<and> Q x y) xs ys \<Longrightarrow> map f ys = map f xs"
  by (induction rule: list_all2_induct) auto

lemma active_account_administrator:
  assumes "active_account u actor now" and "ac_role actor = RoleAdministrator"
  shows "active_administrator (At now) u"
  using assms
  by (auto simp: active_account_def active_administrator_def roleFromStorage_def userSuspendedAt_def
      sql_unsuspended_def validSuspensionTarget_def finiteTimestamp_def RoleMember_def RoleModerator_def
      RoleAdministrator_def less_tstamp_def less_eq_tstamp_def Let_def
      split: if_splits option.splits tstamp.splits elim!: finite_ts.elims)

text \<open>
  The board stays administrable: a suspension never takes the last active administrator away;
  if somebody is an active administrator at the instant of the call, somebody still is after it.
\<close>

lemma suspension_keeps_administrator:
  assumes "ChangeUserSuspension env (Some reading) actor i True reason req w = (Inr res, w')"
    and "user_keys (w_db w)"
    and "\<exists>u \<in> set (db_users (w_db w)). active_administrator (At (truncate_us reading)) u"
  shows "\<exists>u \<in> set (db_users (w_db w')). active_administrator (At (truncate_us reading)) u"
proof -
  from ChangeUserSuspension_Inr [OF assms(1)] obtain u v where
    uv: "find_user (w_db w) (ac_user_id actor) = Some u" "find_user (w_db w) i = Some v" "i \<noteq> ac_user_id actor"
    and role: "ac_role actor = RoleModerator \<or> ac_role actor = RoleAdministrator"
      "active_account u actor (truncate_us reading)" "ac_role actor = RoleModerator \<longrightarrow> u_role v = ''member''"
    and rows: "suspended_rows i (db_users (w_db w)) (db_users (w_db w'))"
    by auto
  have keep: "x \<in> set (db_users (w_db w'))" if "x \<in> set (db_users (w_db w))" "u_id x \<noteq> i" for x
    using rows list_all2_set [OF conjunct1 [OF rows [unfolded suspended_rows_def]] that(1)] that(2) by auto
  from role(1) show ?thesis
  proof
    assume "ac_role actor = RoleAdministrator"
    with active_account_administrator [OF role(2)] keep [of u] uv find_user_mem [OF uv(1)] show ?thesis by auto
  next
    assume mod: "ac_role actor = RoleModerator"
    from assms(3) obtain x where x: "x \<in> set (db_users (w_db w))" "active_administrator (At (truncate_us reading)) x"
      by blast
    have "x \<noteq> v" using x(2) role(3) mod by (auto simp: active_administrator_def)
    then have "u_id x \<noteq> i" using user_keysD [OF assms(2) x(1)] find_user_mem [OF uv(2)] by auto
    with keep [OF x(1)] x(2) show ?thesis by blast
  qed
qed

lemma suspension_keeps_administrator_witness:
  "\<exists>u \<in> set (db_users ex_suspended_db). active_administrator (At 9000) u"
proof -
  obtain res where call: "ChangeUserSuspension ex_tx (Some 9000) (ex_actor 1 RoleAdministrator) 2 True ''flooding''
      (Some 5) (ex_world ex_db2 []) = (Inr res, snd ex_suspend_call)"
    by (rule ex_suspend_call_eq)
  have t: "truncate_us 9000 = 9000" by code_simp
  have "list_ex (active_administrator (At 9000)) (db_users ex_db2)" by code_simp
  then have "\<exists>u \<in> set (db_users ex_db2). active_administrator (At 9000) u" by (simp add: list_ex_iff)
  with suspension_keeps_administrator [OF call] t show ?thesis by (simp add: ex_db2_keys ex_suspended_db_def)
qed

lemma ended_sessions_stay:
  assumes "sessions_ended i (db_sessions (w_db w)) (db_sessions (w_db w'))" and "board_run (w_db w') db'"
    and "s \<in> set (db_sessions (w_db w))" and "s_user_id s = i"
  shows "\<exists>s' \<in> set (db_sessions db'). s_id s' = s_id s \<and> s_user_id s' = i \<and> s_revoked_at s' \<noteq> None"
proof -
  from list_all2_set [OF assms(1) [unfolded sessions_ended_def] assms(3)] assms(4) obtain s' where
    "s' \<in> set (db_sessions (w_db w'))" "s_id s' = s_id s" "s_user_id s' = i" "s_revoked_at s' \<noteq> None" by auto
  moreover have "revocations_stay (w_db w') db'" by (rule revocations_board.board_run_relates [OF assms(2)])
  ultimately show ?thesis by (auto simp: revocations_stay_def)
qed

text \<open>
  C14. Suspension signs the account out for good: in every state that any later calls lead to,
  reinstatement included, each session the account had when it was suspended is still revoked.
\<close>

theorem suspension_ends_sessions:
  assumes "ChangeUserSuspension env clock actor i True reason req w = (Inr res, w')"
    and "board_run (w_db w') db'" and "s \<in> set (db_sessions (w_db w))" and "s_user_id s = i"
  shows "\<exists>s' \<in> set (db_sessions db'). s_id s' = s_id s \<and> s_user_id s' = i \<and> s_revoked_at s' \<noteq> None"
  using ended_sessions_stay [OF _ assms(2,3,4)] ChangeUserSuspension_Inr [OF assms(1)] by blast

theorem suspension_ends_sessions_witness:
  "\<exists>s' \<in> set (db_sessions (w_db (snd ex_reinstate_call))). s_id s' = 1 \<and> s_user_id s' = 2 \<and> s_revoked_at s' \<noteq> None"
proof -
  obtain res where call: "ChangeUserSuspension ex_tx (Some 9000) (ex_actor 1 RoleAdministrator) 2 True ''flooding''
      (Some 5) (ex_world ex_db2 []) = (Inr res, snd ex_suspend_call)"
    by (rule ex_suspend_call_eq)
  have "list_ex (\<lambda>s. s = ex_session) (db_sessions ex_db2)"
    by code_simp
  then have mem: "ex_session \<in> set (db_sessions ex_db2)"
    by (auto simp: list_ex_iff)
  from suspension_ends_sessions [OF call ex_reinstate_run [unfolded ex_suspended_db_def], simplified, OF mem]
  show ?thesis by (simp add: ex_session_def)
qed

text \<open>
  C13. A suspended account is silenced at once: on the tables a suspension leaves behind no reply and
  no topic of that account is accepted, under any policy, role claimed, content, clock and
  connection, however the request was authenticated before.
\<close>

lemma suspended_not_accepted:
  assumes "suspended_rows i us us'" and "distinct (map u_id us)" and "u \<in> set us'" and "u_id u = i"
  shows "u_sync_state u = ''removal_required''"
proof -
  from assms(1) obtain v where v: "v \<in> set us'" "u_id v = i" "u_sync_state v = ''removal_required''"
    by (auto simp: suspended_rows_def)
  have "map u_id us' = map u_id us"
    using assms(1) by (auto simp: suspended_rows_def intro: list_all2_map_eq)
  then have "u = v" using distinct_key_eq [of u_id us' u v] assms(2-4) v by simp
  with v show ?thesis by simp
qed

theorem suspended_cannot_publish:
  assumes "ChangeUserSuspension env clock actor i True reason req w = (Inr res, w')"
    and "user_keys (w_db w)" and "w_db w2 = w_db w'" and "ac_user_id poster = i"
  shows "fst (CreateReply penv p poster topicID parentPostID md w2) \<notin> range Inr \<and>
    fst (CreateTopic penv p poster slug title md w2) \<notin> range Inr"
proof -
  have rows: "suspended_rows i (db_users (w_db w)) (db_users (w_db w2))"
    using ChangeUserSuspension_Inr [OF assms(1)] assms(3) by auto
  have no: "\<not> account_of (w_db w2) poster u" for u
    using suspended_not_accepted [OF rows, of u] assms(2,4) by (auto simp: account_of_def user_keys_def)
  have "CreateReply penv p poster topicID parentPostID md w2 \<noteq> (Inr r, w3)" for r w3
  proof
    assume "CreateReply penv p poster topicID parentPostID md w2 = (Inr r, w3)"
    from CreateReply_Inr [OF this] obtain body where
      "createReply_body (tx_return p) poster topicID parentPostID body w2 = (Inr r, w3)" by auto
    from createReply_body_Inr [OF this] no show False by blast
  qed
  moreover have "CreateTopic penv p poster slug title md w2 \<noteq> (Inr r, w3)" for r w3
  proof
    assume "CreateTopic penv p poster slug title md w2 = (Inr r, w3)"
    from CreateTopic_Inr [OF this] obtain body where
      "createTopic_body (pe_nfc penv) (tx_return p) poster slug title body w2 = (Inr r, w3)" by auto
    from createTopic_body_Inr [OF this] no show False by blast
  qed
  ultimately show ?thesis by (metis imageE prod.collapse)
qed

theorem suspended_cannot_publish_witness:
  "fst (CreateReply ex_env example_policy (ex_actor 2 RoleMember) 1 1 ''again'' (ex_world ex_suspended_db [50000, 60000])) \<notin> range Inr"
proof -
  obtain res where call: "ChangeUserSuspension ex_tx (Some 9000) (ex_actor 1 RoleAdministrator) 2 True ''flooding''
      (Some 5) (ex_world ex_db2 []) = (Inr res, snd ex_suspend_call)"
    by (rule ex_suspend_call_eq)
  from suspended_cannot_publish [OF call] show ?thesis
    by (simp add: ex_db2_keys ex_suspended_db_def ex_actor_def)
qed

subsection \<open>The continuity check\<close>

text \<open>The example with a second administrator that the identity provider has not accepted again yet.\<close>

definition ex_pending_db :: forum_db where
  "ex_pending_db =
     ex_db2\<lparr>db_users := db_users ex_db2 @ [(ex_user 5 ''administrator'')\<lparr>u_sync_state := ''grant_required''\<rparr>]\<rparr>"

text \<open>
  The continuity check protects more than the last active administrator: the one active
  administrator of a board cannot suspend another administrator that is not active, although
  doing so takes no active administrator away; the call fails with the continuity error.
\<close>

lemma continuity_blocks_inactive_target:
  "(case fst (ChangeUserSuspension ex_tx (Some 9000) (ex_actor 1 RoleAdministrator) 5 True ''flooding'' (Some 5)
       (ex_world ex_pending_db [])) of Inl e \<Rightarrow> err_is e AdministratorContinuity | Inr _ \<Rightarrow> False) \<and>
   map u_id (filter (active_administrator (At 9000)) (db_users ex_pending_db)) = [1]"
  by code_simp

end
