(* ===== verification/EditFacts.thy ===== *)
theory EditFacts
  imports SuspensionFacts
begin

text \<open>
  What a successful edit or deletion by the author means, and what the two services do not look at.
\<close>

lemma live_post_Some:
  "live_post db i = Some l \<Longrightarrow>
     lp_post l \<in> set (db_posts db) \<and> p_id (lp_post l) = i \<and> p_deleted_at (lp_post l) = None \<and>
     lp_topic l \<in> set (db_topics db) \<and> t_id (lp_topic l) = p_topic_id (lp_post l) \<and> t_deleted_at (lp_topic l) = None \<and>
     find_area db (t_area_id (lp_topic l)) = Some (lp_area l)"
  by (auto simp: live_post_def split: option.splits dest!: find_Some_iff2)

lemma area_policy_locked:
  "\<lparr>ap_visibility = a_visibility a, ap_posting_mode = a_posting_mode a,
     ap_group_ids = group_ids_of_area db (a_id a)\<rparr> = area_policy_of db a"
  by (simp add: area_policy_of_def)

text \<open>The locked rows an author's change was allowed on.\<close>

definition author_may_change :: "forum_db \<Rightarrow> access_context \<Rightarrow> int \<Rightarrow> int \<Rightarrow> locked_post \<Rightarrow> bool" where
  "author_may_change db actor i expected l \<longleftrightarrow>
     live_post db i = Some l \<and> p_author_id (lp_post l) = ac_user_id actor \<and> p_revision (lp_post l) = expected \<and>
     CanViewArea actor (area_policy_of db (lp_area l)) \<and> CanViewTopic actor (t_state (lp_topic l)) \<and>
     \<not> ac_suspended actor \<and> ac_muted_until actor = None"

definition edited :: "new_body \<Rightarrow> tstamp \<Rightarrow> post_row \<Rightarrow> post_row" where
  "edited body stamp q =
     q\<lparr>p_markdown := nb_markdown body, p_html := nb_html body, p_renderer := nb_renderer body,
       p_search_text := nb_search_text body, p_search_version := Some (nb_search_version body),
       p_revision := p_revision q + 1, p_updated_at := edit_stamp stamp q, p_edited_at := Some (edit_stamp stamp q)\<rparr>"

lemma EditPost_Inr:
  assumes "EditPost env clock actor i expected md w = (Inr res, w')"
  shows "\<exists>body stamp l. rendered_as (pe_render env) md body \<and> author_may_change (w_db w) actor i expected l \<and>
    w_db w' = (w_db w)\<lparr>db_posts := upd_where (\<lambda>p. p_id p = i \<and> p_revision p = expected \<and> p_deleted_at p = None)
      (edited body stamp) (db_posts (w_db w))\<rparr> \<and> er_revision res = expected + 1 \<and> expected < max_int32"
proof -
  from assms obtain r body stamp where
    r: "renderPublishingDraft (pe_render env) md = Inr r" "edit_rendered_body md r = Inr body"
    and run: "editPost_body actor i expected body stamp w = (Inr res, w')"
    by (auto simp: EditPost_def context_error_def tx_inverts within_tx_Inr split: option.splits)
  have body: "rendered_as (pe_render env) md body"
    using r by (auto simp: renderPublishingDraft_def edit_rendered_body_def PersistenceValues_def
        SearchProjectionValues_def rendered_as_def split: sum.splits if_splits)
  from run obtain l w2 where l: "live_post (w_db w) i = Some l" "p_revision (lp_post l) = expected"
      "may_edit_locked actor (area_policy_of (w_db w) (lp_area l)) l"
    and upd: "UpdatePostRevision body stamp i expected w2 = (Inr res, w')" "w_db w2 = w_db w"
    and rev: "er_revision res = expected + 1"
    by (auto simp: editPost_body_def LockPostForEdit_def lockedAreaPolicy_def ListAreaGroupIDsForPublication_def
        tx_inverts area_policy_locked)
  have "author_may_change (w_db w) actor i expected l"
    using l by (auto simp: author_may_change_def may_edit_locked_def CanEditPost_def)
  moreover from upd have "w_db w' = (w_db w)\<lparr>db_posts := upd_where (\<lambda>p. p_id p = i \<and> p_revision p = expected \<and> p_deleted_at p = None)
      (edited body stamp) (db_posts (w_db w))\<rparr> \<and> expected < max_int32"
    by (auto simp: UpdatePostRevision_def tx_inverts Let_def edited_def [abs_def] split: option.splits if_splits
        dest!: find_Some_iff2)
  ultimately show ?thesis using body rev by blast
qed

lemma EditPost_inv:
  assumes "board_inv (w_db w)"
  shows "board_inv (w_db (snd (EditPost env clock actor i expected md w)))"
proof (rule board_run_inv [OF _ assms])
  show "board_run (w_db w) (w_db (snd (EditPost env clock actor i expected md w)))"
    unfolding board_run_def using board_step.call [of w "CallEditPost env clock actor i expected md"]
    by (simp add: r_into_rtranclp)
qed

lemma board_inv_post_key:
  "board_inv db \<Longrightarrow> p \<in> set (db_posts db) \<Longrightarrow> q \<in> set (db_posts db) \<Longrightarrow> p_id p = p_id q \<Longrightarrow> p = q"
  using distinct_key_eq [of p_id "db_posts db" p q]
  by (simp add: board_inv_def thread_inv_def threads_of_def comp_def)

text \<open>The author of the second post edits it, and later tries again from the revision edited first.\<close>

definition ex_edit_call :: "(go_error + edit_result) \<times> world" where
  "ex_edit_call = EditPost ex_env (Some 9000) (ex_actor 4 RoleMember) 2 1 ''better'' (ex_world ex_db2 [])"

lemma ex_edit_call_eq:
  obtains res where "EditPost ex_env (Some 9000) (ex_actor 4 RoleMember) 2 1 ''better'' (ex_world ex_db2 []) =
      (Inr res, snd ex_edit_call)"
proof -
  have "map_sum id er_revision (fst ex_edit_call) = Inr 2" by code_simp
  with that show thesis by (cases "fst ex_edit_call") (auto simp: ex_edit_call_def prod_eq_iff)
qed

text \<open>
  An edit is the author's own and changes one post: it succeeds only on a live post of a live
  topic that the actor wrote and may view under the locked area's policy, from exactly the revision
  the database holds; afterwards that row has the rendered body and the next revision, and every
  other row of every table is as it was.
\<close>

lemma EditPost_effect:
  assumes "EditPost env clock actor i expected md w = (Inr res, w')" and "board_inv (w_db w)"
  shows "\<exists>body stamp l. rendered_as (pe_render env) md body \<and> author_may_change (w_db w) actor i expected l \<and>
    er_revision res = expected + 1 \<and>
    w_db w' = (w_db w)\<lparr>db_posts := map (\<lambda>q. if q = lp_post l then edited body stamp q else q) (db_posts (w_db w))\<rparr>"
proof -
  from EditPost_Inr [OF assms(1)] obtain body stamp l where
    r: "rendered_as (pe_render env) md body" "author_may_change (w_db w) actor i expected l" "er_revision res = expected + 1"
    and db: "w_db w' = (w_db w)\<lparr>db_posts := upd_where (\<lambda>p. p_id p = i \<and> p_revision p = expected \<and> p_deleted_at p = None)
      (edited body stamp) (db_posts (w_db w))\<rparr>" by blast
  have l: "lp_post l \<in> set (db_posts (w_db w))" "p_id (lp_post l) = i" "p_deleted_at (lp_post l) = None"
      "p_revision (lp_post l) = expected"
    using r(2) live_post_Some by (auto simp: author_may_change_def)
  have "(p_id q = i \<and> p_revision q = expected \<and> p_deleted_at q = None) = (q = lp_post l)"
    if "q \<in> set (db_posts (w_db w))" for q
    using l board_inv_post_key [OF assms(2) that l(1)] by auto
  then have "upd_where (\<lambda>p. p_id p = i \<and> p_revision p = expected \<and> p_deleted_at p = None) (edited body stamp)
      (db_posts (w_db w)) = map (\<lambda>q. if q = lp_post l then edited body stamp q else q) (db_posts (w_db w))"
    by (simp add: upd_where_def)
  with r db show ?thesis by auto
qed

lemma EditPost_effect_witness:
  "\<exists>body stamp l. author_may_change ex_db2 (ex_actor 4 RoleMember) 2 1 l \<and> rendered_as (pe_render ex_env) ''better'' body \<and>
     db_posts (w_db (snd ex_edit_call)) = map (\<lambda>q. if q = lp_post l then edited body stamp q else q) (db_posts ex_db2)"
proof -
  obtain res where call: "EditPost ex_env (Some 9000) (ex_actor 4 RoleMember) 2 1 ''better'' (ex_world ex_db2 []) =
      (Inr res, snd ex_edit_call)" by (rule ex_edit_call_eq)
  from EditPost_effect [OF call] show ?thesis by (fastforce simp: ex_db2_inv)
qed

text \<open>
  C12. No update is lost: two edits of a post that were both started from the same revision never
  both succeed, whatever calls are committed between them.
\<close>

theorem edit_no_lost_update:
  assumes "EditPost env clock actor i expected md w = (Inr res, w')" and "board_inv (w_db w)"
    and "board_run (w_db w') (w_db w2)"
  shows "fst (EditPost env2 clock2 actor2 i expected md2 w2) \<notin> range Inr"
proof
  assume "fst (EditPost env2 clock2 actor2 i expected md2 w2) \<in> range Inr"
  then obtain r w3 where again: "EditPost env2 clock2 actor2 i expected md2 w2 = (Inr r, w3)"
    by (metis imageE prod.collapse)
  from EditPost_Inr [OF assms(1)] obtain body stamp l where l: "author_may_change (w_db w) actor i expected l"
    and db: "w_db w' = (w_db w)\<lparr>db_posts := upd_where (\<lambda>p. p_id p = i \<and> p_revision p = expected \<and> p_deleted_at p = None)
      (edited body stamp) (db_posts (w_db w))\<rparr>" by blast
  have "edited body stamp (lp_post l) \<in> set (db_posts (w_db w'))"
    using l live_post_Some [of "w_db w" i l] by (auto simp: db author_may_change_def intro!: upd_where_hit)
  moreover have "revisions_forward (w_db w') (w_db w2)" by (rule revisions_board.board_run_relates [OF assms(3)])
  ultimately obtain p where p: "p \<in> set (db_posts (w_db w2))" "revision_forward (edited body stamp (lp_post l)) p"
    by (auto simp: revisions_forward_def rows_move_def)
  have rp: "p_id p = i" "p_revision p > expected"
    using p(2) l live_post_Some [of "w_db w" i l] by (auto simp: revision_forward_def edited_def author_may_change_def)
  from EditPost_Inr [OF again] obtain l2 where l2: "live_post (w_db w2) i = Some l2" "p_revision (lp_post l2) = expected"
    by (auto simp: author_may_change_def)
  have "board_inv (w_db w2)"
    using board_run_inv [OF assms(3)] EditPost_inv [OF assms(2), of env clock actor i expected md] assms(1) by simp
  from board_inv_post_key [OF this p(1), of "lp_post l2"] live_post_Some [OF l2(1)] rp l2(2) show False by auto
qed

theorem edit_no_lost_update_witness:
  "fst (EditPost ex_env (Some 9900) (ex_actor 4 RoleMember) 2 1 ''worse'' (ex_world (w_db (snd ex_edit_call)) [])) \<notin> range Inr"
proof -
  obtain res where call: "EditPost ex_env (Some 9000) (ex_actor 4 RoleMember) 2 1 ''better'' (ex_world ex_db2 []) =
      (Inr res, snd ex_edit_call)" by (rule ex_edit_call_eq)
  from edit_no_lost_update [OF call, of "ex_world (w_db (snd ex_edit_call)) []"] show ?thesis
    by (simp add: ex_db2_inv board_run_def)
qed

subsection \<open>A stale request\<close>

text \<open>
  Unlike publishing, editing does not look at the account again: on the tables that the
  suspension of member 2 leaves behind, an edit of the member's first post still succeeds for a
  request that was authenticated before the suspension, and so does its deletion.
\<close>

lemma suspended_author_still_edits:
  "map_sum id er_revision
     (fst (EditPost ex_env (Some 9500) (ex_actor 2 RoleMember) 1 1 ''changed'' (ex_world ex_suspended_db []))) = Inr 2 \<and>
   map_sum id dr_post_id
     (fst (DeletePost ex_tx (Some 9500) (ex_actor 2 RoleMember) 1 1 (ex_world ex_suspended_db []))) = Inr 1"
  by code_simp

end
