(* ===== verification/CursorFacts.thy ===== *)
theory CursorFacts
  imports Cursor
begin

text \<open>
  What the activity cursors promise: an issued cursor is accepted and gives its boundary back, only
  the text its key determines is accepted, and the authenticated audience determines the authority.
\<close>

subsection \<open>The record\<close>

lemma length_int64_bytes [simp]: "length (int64_bytes i) = 8"
  by (simp add: int64_bytes_def)

lemma be_int64_int64_bytes: "- (2 ^ 63) \<le> i \<Longrightarrow> i < 2 ^ 63 \<Longrightarrow> be_int64 (int64_bytes i) = i"
  by (simp add: be_int64_def int64_bytes_def signed_of_int signed_take_bit_int_eq_self)

lemma int64_bytes_be_int64 [simp]: "length bs = 8 \<Longrightarrow> int64_bytes (be_int64 bs) = bs"
  by (simp add: be_int64_def int64_bytes_def)

lemma length_copy_bytes [simp]: "length (copy_bytes n bs) = n"
  by (simp add: copy_bytes_def min_def)

lemma copy_bytes_id [simp]: "length bs = n \<Longrightarrow> copy_bytes n bs = bs"
  by (simp add: copy_bytes_def)

lemma length_byte_slice [simp]: "j \<le> length bs \<Longrightarrow> length (byte_slice i j bs) = j - i"
  by (simp add: byte_slice_def)

lemma length_cursor_payload [simp]:
  "length audience = 16 \<Longrightarrow> length (cursor_payload i now b audience) = 45"
  by (simp add: cursor_payload_def)

lemma cursor_fields:
  assumes "length audience = 16" and r: "r = cursor_payload i now b audience @ mac"
  shows "r ! 0 = cursorVersion" "byte_slice 1 5 r = be_bytes 4 i"
    "byte_slice 5 13 r = int64_bytes (now div ns_second)"
    "byte_slice 13 21 r = int64_bytes (ab_created_at b div 1000)"
    "byte_slice 21 29 r = int64_bytes (ab_post_id b)" "byte_slice 29 45 r = audience"
    "take cursorPayloadBytes r = cursor_payload i now b audience" "drop cursorPayloadBytes r = mac"
  using assms by (simp_all add: cursor_payload_def byte_slice_def cursorPayloadBytes_def)

text \<open>A record is the concatenation of its slices.\<close>

lemma record_slices:
  assumes "length r = 77"
  shows "r = [r ! 0] @ byte_slice 1 5 r @ byte_slice 5 13 r @ byte_slice 13 21 r @ byte_slice 21 29 r @ byte_slice 29 45 r @ drop 45 r"
proof -
  have cut: "drop i r = byte_slice i j r @ drop j r" if "i \<le> j" for i j
  proof -
    have "byte_slice i j r @ drop (j - i) (drop i r) = drop i r"
      unfolding byte_slice_def by (rule append_take_drop_id)
    with that show ?thesis by simp
  qed
  have "r = [r ! 0] @ drop 1 r"
    using assms by (cases r) auto
  with cut [of 1 5] cut [of 5 13] cut [of 13 21] cut [of 21 29] cut [of 29 45] show ?thesis by simp
qed

subsection \<open>Times\<close>

lemma valid_second_time_floor:
  assumes "validMicrosecondTime now"
  shows "validSecondTime (now div ns_second * ns_second)"
proof -
  have "zero_time div ns_second * ns_second = zero_time" "ns_second > 0"
    by (simp_all add: zero_time_def ns_second_def)
  moreover from assms have "zero_time \<le> now" "now < year_10000" by (simp_all add: validMicrosecondTime_def)
  ultimately have "zero_time \<le> now div ns_second * ns_second" "now div ns_second * ns_second \<le> now"
    using zdiv_mono1 [of zero_time now ns_second] by (simp_all add: ns_second_def)
  then show ?thesis
    using \<open>now < year_10000\<close> by (simp add: validSecondTime_def validMicrosecondTime_def)
qed

lemma valid_micro_floor: "validMicrosecondTime t \<Longrightarrow> t div 1000 * 1000 = t"
proof -
  assume "validMicrosecondTime t"
  then have "(t mod ns_second) mod 1000 = 0" by (simp add: validMicrosecondTime_def)
  then have "t mod 1000 = 0" by (simp add: ns_second_def mod_mod_cancel)
  then show ?thesis by (metis add.right_neutral div_mult_mod_eq)
qed

lemma valid_second_multiple: "validSecondTime t \<Longrightarrow> t div ns_second * ns_second = t"
  by (simp add: validSecondTime_def) (metis add.right_neutral div_mult_mod_eq)

lemma valid_time_range:
  "validMicrosecondTime t \<Longrightarrow> - (2 ^ 63) \<le> t div ns_second \<and> t div ns_second < 2 ^ 63"
  "validMicrosecondTime t \<Longrightarrow> - (2 ^ 63) \<le> t div 1000 \<and> t div 1000 < 2 ^ 63"
  by (auto simp: validMicrosecondTime_def zero_time_def year_10000_def ns_second_def)

lemma second_floor_le:
  assumes "k mod ns_second = 0" and "k \<le> t"
  shows "k \<le> t div ns_second * ns_second"
proof -
  have "k div ns_second * ns_second = k" using assms(1) by (metis add.right_neutral div_mult_mod_eq)
  moreover have "k div ns_second \<le> t div ns_second"
    using assms(2) by (simp add: zdiv_mono1 ns_second_def)
  ultimately show ?thesis by (metis mult_right_mono ns_second_def zero_le_numeral)
qed

lemma floor_second_le: "t div ns_second * ns_second \<le> t" "t < t div ns_second * ns_second + ns_second"
  by (simp_all add: ns_second_def)

subsection \<open>Round trip\<close>

lemma EncodeCursor_Inr:
  "EncodeCursor hmac ring now boundary actor = Inr s \<longleftrightarrow>
     validCursorKey (kr_active ring) \<and> validMicrosecondTime now \<and>
     ck_not_before (kr_active ring) \<le> now \<and> now \<le> ck_issue_not_after (kr_active ring) \<and>
     validMicrosecondTime (ab_created_at boundary) \<and> 0 < ab_post_id boundary \<and>
     (\<exists>audience. audienceDigest hmac (ck_secret (kr_active ring)) actor = Inr audience \<and>
        s = raw_url_encode (cursor_payload (ck_id (kr_active ring)) now boundary audience @
              copy_bytes 32 (cursor_mac hmac (ck_secret (kr_active ring))
                (cursor_payload (ck_id (kr_active ring)) now boundary audience))))"
  by (auto simp: EncodeCursor_def Let_def cursorRecordBytes_def cursorPayloadBytes_def split: sum.splits)

lemma audienceDigest_length: "audienceDigest hmac secret actor = Inr d \<Longrightarrow> length d = 16"
  by (auto simp: audienceDigest_def audienceDigestBytes_def split: if_splits)

text \<open>
  The text of a cursor under a key, and its verification in any ring that resolves the key's
  identifier to that key, whether as the active or as the previous one.
\<close>

lemma VerifyCursor_issued:
  assumes mac: "\<And>k m. length (hmac k m) = 32"
    and s: "EncodeCursor hmac ring0 now boundary actor = Inr s"
    and key: "ring_key ring (ck_id (kr_active ring0)) = (Some (kr_active ring0), previous)"
    and post: "ab_post_id boundary < 2 ^ 63"
  shows "\<exists>audience. audienceDigest hmac (ck_secret (kr_active ring0)) actor = Inr audience \<and>
    VerifyCursor hmac ring s = Inr \<lparr>cu_boundary = boundary, cu_audience = audience,
      cu_secret = ck_secret (kr_active ring0), cu_key_id = ck_id (kr_active ring0),
      cu_issued_at = now div ns_second * ns_second, cu_previous = previous,
      cu_key_start = ck_not_before (kr_active ring0), cu_key_end = ck_issue_not_after (kr_active ring0)\<rparr>"
proof -
  define k where "k = kr_active ring0"
  from s obtain audience where valid: "validCursorKey k" "validMicrosecondTime now"
    "ck_not_before k \<le> now" "now \<le> ck_issue_not_after k"
    "validMicrosecondTime (ab_created_at boundary)" "0 < ab_post_id boundary"
    and audience: "audienceDigest hmac (ck_secret k) actor = Inr audience"
    and spelled: "s = raw_url_encode (cursor_payload (ck_id k) now boundary audience @
        copy_bytes 32 (cursor_mac hmac (ck_secret k) (cursor_payload (ck_id k) now boundary audience)))"
    by (auto simp: EncodeCursor_Inr k_def)
  define p where "p = cursor_payload (ck_id k) now boundary audience"
  define r where "r = p @ cursor_mac hmac (ck_secret k) p"
  have len: "length audience = 16" "length p = 45"
    using audience by (simp_all add: audienceDigest_length p_def)
  have r: "length r = 77" "s = raw_url_encode r"
    using len by (simp_all add: r_def p_def spelled mac cursor_mac_def)
  note fields = cursor_fields [OF len(1) r_def [unfolded p_def], folded p_def]
  have start: "ck_not_before k \<le> now div ns_second * ns_second"
    using valid(1,3) by (simp add: second_floor_le validCursorKey_def validSecondTime_def)
  have ints: "be_int64 (int64_bytes (now div ns_second)) = now div ns_second"
    "be_int64 (int64_bytes (ab_created_at boundary div 1000)) = ab_created_at boundary div 1000"
    "be_int64 (int64_bytes (ab_post_id boundary)) = ab_post_id boundary"
    using valid_time_range [OF valid(2)] valid_time_range [OF valid(5)] valid(6) post
    by (auto intro: be_int64_int64_bytes)
  have "VerifyCursor hmac ring s = Inr \<lparr>cu_boundary = boundary, cu_audience = audience,
      cu_secret = ck_secret k, cu_key_id = ck_id k,
      cu_issued_at = now div ns_second * ns_second, cu_previous = previous,
      cu_key_start = ck_not_before k, cu_key_end = ck_issue_not_after k\<rparr>"
    using valid post key start floor_second_le(1) [of now] len r
    by (simp add: VerifyCursor_def EncodedCursorLength_def length_raw_url_encode cursorRecordBytes_def
        fields fields(2) [unfolded One_nat_def] k_def [symmetric] ints valid_micro_floor
        valid_second_time_floor audienceDigestBytes_def Let_def)
  with audience show ?thesis by (simp add: k_def)
qed

text \<open>
  C36. An issued cursor is accepted by every key ring that still holds its key (as the active key, or
  as the previous one after a rotation): it verifies, belongs to the ring, is within its age exactly
  until 24 hours after the second in which it was issued, and hands the boundary it was issued for
  back to the reader it was issued to.
\<close>

theorem cursor_round_trip:
  assumes mac: "\<And>k m. length (hmac k m) = 32"
    and issued: "EncodeCursor hmac ring0 now boundary actor = Inr s"
    and key: "ring_key ring (ck_id (kr_active ring0)) = (Some (kr_active ring0), previous)"
    and post: "ab_post_id boundary < 2 ^ 63"
    and later: "validMicrosecondTime later" "now \<le> later"
  shows "\<exists>c. VerifyCursor hmac ring s = Inr c \<and> belongsTo c ring \<and>
    BindAudience hmac c actor = Inr boundary \<and>
    (ValidateTime c later = Inr () \<longleftrightarrow> later \<le> now div ns_second * ns_second + cursorMaximumAge)"
proof -
  from VerifyCursor_issued [OF mac issued key post] obtain audience c where
    a: "audienceDigest hmac (ck_secret (kr_active ring0)) actor = Inr audience"
    and c: "VerifyCursor hmac ring s = Inr c"
    and c_eq: "c = \<lparr>cu_boundary = boundary, cu_audience = audience,
      cu_secret = ck_secret (kr_active ring0), cu_key_id = ck_id (kr_active ring0),
      cu_issued_at = now div ns_second * ns_second, cu_previous = previous,
      cu_key_start = ck_not_before (kr_active ring0), cu_key_end = ck_issue_not_after (kr_active ring0)\<rparr>"
    by blast
  from issued have now: "validMicrosecondTime now" "now \<le> ck_issue_not_after (kr_active ring0)"
    by (auto simp: EncodeCursor_Inr)
  have le: "now div ns_second * ns_second \<le> later"
    using floor_second_le(1) [of now] later(2) by linarith
  have age: "time_sub later (now div ns_second * ns_second) > cursorMaximumAge \<longleftrightarrow>
      \<not> later \<le> now div ns_second * ns_second + cursorMaximumAge"
    using le by (auto simp: time_sub_def cursorMaximumAge_def ns_hour_def ns_minute_def ns_second_def
        min_duration_def max_duration_def)
  have "later \<le> now div ns_second * ns_second + cursorMaximumAge \<Longrightarrow>
      \<not> ck_issue_not_after (kr_active ring0) + (cursorMaximumAge + cursorFutureSkew) < later"
    using floor_second_le(1) [of now] now(2) by (simp add: cursorFutureSkew_def ns_second_def)
  moreover have "\<not> later + cursorFutureSkew < now div ns_second * ns_second"
    using le by (simp add: cursorFutureSkew_def ns_second_def)
  ultimately have "ValidateTime c later = Inr () \<longleftrightarrow> later \<le> now div ns_second * ns_second + cursorMaximumAge"
    using later(1) valid_second_time_floor [OF now(1)] age by (auto simp: ValidateTime_def c_eq)
  moreover have "belongsTo c ring" "BindAudience hmac c actor = Inr boundary"
    using a key by (simp_all add: belongsTo_def BindAudience_def c_eq)
  ultimately show ?thesis using c by blast
qed

definition sample_hmac :: hmac_fn where
  "sample_hmac k m = take 32 (rev m @ replicate 32 0)"

definition sample_key :: "u32 \<Rightarrow> cursor_key" where
  "sample_key i = \<lparr>ck_id = i, ck_secret = [7], ck_not_before = 0, ck_issue_not_after = 5000 * ns_second\<rparr>"

definition sample_ring :: cursor_keyring where
  "sample_ring = \<lparr>kr_active = sample_key 1, kr_previous = None\<rparr>"

definition rotated_ring :: cursor_keyring where
  "rotated_ring = \<lparr>kr_active = sample_key 2, kr_previous = Some (sample_key 1)\<rparr>"

definition sample_reader :: access_context where
  "sample_reader = \<lparr>ac_authenticated = True, ac_user_id = 3, ac_role = RoleMember, ac_group_ids = [4],
     ac_suspended = False, ac_muted_until = None, ac_validated_at = 0\<rparr>"

definition sample_boundary :: activity_boundary where
  "sample_boundary = \<lparr>ab_created_at = 7000, ab_post_id = 11\<rparr>"

lemma length_sample_hmac: "length (sample_hmac k m) = 32"
  by (simp add: sample_hmac_def)

lemma sample_issued:
  "EncodeCursor sample_hmac sample_ring (1000 * ns_second + 5000) sample_boundary sample_reader =
     Inr (projr (EncodeCursor sample_hmac sample_ring (1000 * ns_second + 5000) sample_boundary sample_reader))"
  by code_simp

theorem cursor_round_trip_witness:
  "\<exists>s c. EncodeCursor sample_hmac sample_ring (1000 * ns_second + 5000) sample_boundary sample_reader = Inr s \<and>
     VerifyCursor sample_hmac rotated_ring s = Inr c \<and> belongsTo c rotated_ring \<and>
     BindAudience sample_hmac c sample_reader = Inr sample_boundary \<and>
     ValidateTime c (1060 * ns_second) = Inr ()"
proof -
  have key: "ring_key rotated_ring (ck_id (kr_active sample_ring)) = (Some (kr_active sample_ring), True)"
    by (simp add: ring_key_def rotated_ring_def sample_ring_def sample_key_def)
  have post: "ab_post_id sample_boundary < 2 ^ 63" by (simp add: sample_boundary_def)
  have later: "validMicrosecondTime (1060 * ns_second)" "1000 * ns_second + 5000 \<le> 1060 * ns_second"
    by (simp_all add: validMicrosecondTime_def zero_time_def year_10000_def ns_second_def)
  show ?thesis
    using cursor_round_trip [OF length_sample_hmac sample_issued key post later] sample_issued
    by (auto simp: cursorMaximumAge_def ns_hour_def ns_minute_def ns_second_def)
qed

subsection \<open>Only issued texts are accepted\<close>

lemma VerifyCursor_Inr:
  assumes "VerifyCursor hmac ring s = Inr c"
  shows "\<exists>r key. raw_url_encode r = s \<and> length r = 77 \<and> r ! 0 = cursorVersion \<and>
    ring_key ring (be_uint (byte_slice 1 5 r)) = (Some key, cu_previous c) \<and> validCursorKey key \<and>
    drop 45 r = cursor_mac hmac (ck_secret key) (take 45 r) \<and>
    ck_not_before key \<le> cu_issued_at c \<and> cu_issued_at c \<le> ck_issue_not_after key \<and>
    cu_issued_at c = be_int64 (byte_slice 5 13 r) * ns_second \<and>
    cu_boundary c = \<lparr>ab_created_at = be_int64 (byte_slice 13 21 r) * 1000,
                     ab_post_id = be_int64 (byte_slice 21 29 r)\<rparr> \<and>
    cu_audience c = byte_slice 29 45 r \<and> cu_secret c = ck_secret key \<and> cu_key_id c = ck_id key \<and>
    cu_key_start c = ck_not_before key \<and> cu_key_end c = ck_issue_not_after key"
  using assms
  by (auto simp: VerifyCursor_def Let_def cursorRecordBytes_def cursorPayloadBytes_def
      audienceDigestBytes_def copy_bytes_id split: if_splits option.splits prod.splits)

lemma ring_key_id: "ring_key ring i = (Some key, p) \<Longrightarrow> ck_id key = i"
  by (auto simp: ring_key_def split: if_splits option.splits)

text \<open>
  C37. Verification accepts one text per cursor content: the canonical base64 of the 77-byte record that
  the holder of a key of the ring computes, with the MAC of exactly the version, key, issuing second,
  boundary and audience that the verified cursor reports, issued inside the key's window. In
  particular two accepted texts with the same content are equal, so a cursor cannot be respelled.
\<close>

theorem verified_cursor_is_issued:
  assumes "VerifyCursor hmac ring s = Inr c"
  shows "\<exists>key. ring_key ring (cu_key_id c) = (Some key, cu_previous c) \<and> belongsTo c ring \<and>
    ck_not_before key \<le> cu_issued_at c \<and> cu_issued_at c \<le> ck_issue_not_after key \<and>
    (let payload = cursor_payload (cu_key_id c) (cu_issued_at c) (cu_boundary c) (cu_audience c)
     in s = raw_url_encode (payload @ cursor_mac hmac (ck_secret key) payload))"
proof -
  from VerifyCursor_Inr [OF assms] obtain r key where
    r: "raw_url_encode r = s" "length r = 77" "r ! 0 = cursorVersion"
    and key: "ring_key ring (be_uint (byte_slice 1 5 r)) = (Some key, cu_previous c)"
    and tag: "drop 45 r = cursor_mac hmac (ck_secret key) (take 45 r)"
    and win: "ck_not_before key \<le> cu_issued_at c" "cu_issued_at c \<le> ck_issue_not_after key"
    and c: "cu_issued_at c = be_int64 (byte_slice 5 13 r) * ns_second"
      "cu_boundary c = \<lparr>ab_created_at = be_int64 (byte_slice 13 21 r) * 1000,
                       ab_post_id = be_int64 (byte_slice 21 29 r)\<rparr>"
      "cu_audience c = byte_slice 29 45 r" "cu_secret c = ck_secret key" "cu_key_id c = ck_id key"
      "cu_key_start c = ck_not_before key" "cu_key_end c = ck_issue_not_after key"
    by blast
  have i: "cu_key_id c = be_uint (byte_slice 1 5 r)" using ring_key_id [OF key] c by simp
  define p where "p = cursor_payload (cu_key_id c) (cu_issued_at c) (cu_boundary c) (cu_audience c)"
  have p: "r = p @ drop 45 r" "length p = 45"
    using record_slices [OF r(2)] r(2,3)
    by (simp_all add: p_def cursor_payload_def i c ns_second_def)
  then have "take 45 r = p" by (metis append_eq_conv_conj)
  with p tag have "s = raw_url_encode (p @ cursor_mac hmac (ck_secret key) p)" using r(1) by simp
  moreover have key': "ring_key ring (cu_key_id c) = (Some key, cu_previous c)" using key i by simp
  moreover have "belongsTo c ring" using c(4,6,7) by (simp add: belongsTo_def key')
  ultimately show ?thesis using win by (auto simp: p_def Let_def)
qed

theorem verified_cursor_is_issued_witness:
  "\<exists>s c. VerifyCursor sample_hmac rotated_ring s = Inr c \<and> cu_previous c \<and> belongsTo c rotated_ring"
proof -
  define s where "s = projr (EncodeCursor sample_hmac sample_ring (1000 * ns_second + 5000) sample_boundary sample_reader)"
  define c where "c = projr (VerifyCursor sample_hmac rotated_ring s)"
  have c: "VerifyCursor sample_hmac rotated_ring s = Inr c" "cu_previous c"
    unfolding c_def s_def by code_simp+
  with verified_cursor_is_issued [OF c(1)] show ?thesis by auto
qed

subsection \<open>The audience\<close>

definition int64_ids :: "access_context \<Rightarrow> bool" where
  "int64_ids actor \<longleftrightarrow> ac_user_id actor < 2 ^ 63 \<and> (\<forall>g \<in> set (ac_group_ids actor). g < 2 ^ 63)"

lemma int64_bytes_inject:
  "0 \<le> i \<Longrightarrow> i < 2 ^ 63 \<Longrightarrow> 0 \<le> j \<Longrightarrow> j < 2 ^ 63 \<Longrightarrow> int64_bytes i = int64_bytes j \<longleftrightarrow> i = j"
  by (metis be_int64_int64_bytes neg_le_0_iff_le order_trans zero_le_numeral zero_le_power)

lemma concat_int64_inject:
  "\<forall>g \<in> set gs \<union> set hs. 0 \<le> g \<and> g < 2 ^ 63 \<Longrightarrow>
   concat (map int64_bytes gs) = concat (map int64_bytes hs) \<longleftrightarrow> gs = hs"
proof (induction gs arbitrary: hs)
  case Nil
  then show ?case by (cases hs) (auto simp: int64_bytes_def dest: arg_cong [of _ _ length])
next
  case (Cons g gs)
  show ?case
  proof (cases hs)
    case Nil
    then show ?thesis by (auto dest: arg_cong [of _ _ length])
  next
    case (Cons h hs')
    with Cons.prems Cons.IH [of hs'] show ?thesis by (simp add: int64_bytes_inject)
  qed
qed

lemma audience_message_inject:
  assumes "Valid a" "Valid b" "int64_ids a" "int64_ids b"
  shows "audience_message a = audience_message b \<longleftrightarrow>
    ac_authenticated a = ac_authenticated b \<and> ac_user_id a = ac_user_id b \<and>
    ac_role a = ac_role b \<and> ac_group_ids a = ac_group_ids b"
proof -
  have ids: "0 \<le> ac_user_id c \<and> ac_user_id c < 2 ^ 63 \<and> (\<forall>g \<in> set (ac_group_ids c). 0 \<le> g \<and> g < 2 ^ 63)"
    if "Valid c" "int64_ids c" for c
    using that by (auto simp: Valid_def int64_ids_def list_all_iff split: if_splits)
  have groups: "concat (map int64_bytes (ac_group_ids a)) = concat (map int64_bytes (ac_group_ids b)) \<longleftrightarrow>
      ac_group_ids a = ac_group_ids b"
    using ids [of a] ids [of b] assms by (intro concat_int64_inject) auto
  have "audience_message a = audience_message b \<longleftrightarrow>
      ac_authenticated a = ac_authenticated b \<and>
      (ac_authenticated a \<longrightarrow> int64_bytes (ac_user_id a) = int64_bytes (ac_user_id b) \<and> ac_role a = ac_role b) \<and>
      ac_group_ids a = ac_group_ids b"
    by (auto simp: audience_message_def Let_def groups)
  moreover have "ac_authenticated a = ac_authenticated b \<Longrightarrow> \<not> ac_authenticated a \<Longrightarrow>
      ac_user_id a = ac_user_id b \<and> ac_role a = ac_role b"
    using assms by (simp add: Valid_def)
  ultimately show ?thesis
    using ids [of a] ids [of b] assms by (auto simp: int64_bytes_inject)
qed

text \<open>
  A cursor continues only for the authority it was issued to: when the 16-byte digests of the two
  actors' messages do not collide, an actor that may use the cursor has the same login state, account,
  role and groups as the actor it was issued to. The digested message lists exactly these.
\<close>

lemma cursor_bound_to_audience:
  assumes mac: "\<And>k m. length (hmac k m) = 32"
    and issued: "EncodeCursor hmac ring now boundary actor = Inr s"
    and verified: "VerifyCursor hmac ring s = Inr c"
    and bound: "BindAudience hmac c other = Inr b"
    and post: "ab_post_id boundary < 2 ^ 63"
    and ids: "int64_ids actor" "int64_ids other"
    and no_collision: "\<And>k. take 16 (hmac k (audience_message actor)) = take 16 (hmac k (audience_message other)) \<Longrightarrow>
      audience_message actor = audience_message other"
  shows "ac_authenticated other = ac_authenticated actor \<and> ac_user_id other = ac_user_id actor \<and>
    ac_role other = ac_role actor \<and> ac_group_ids other = ac_group_ids actor \<and> b = boundary"
proof -
  have "ring_key ring (ck_id (kr_active ring)) = (Some (kr_active ring), False)" by (simp add: ring_key_def)
  from VerifyCursor_issued [OF mac issued this post] verified obtain audience where
    a: "audienceDigest hmac (ck_secret (kr_active ring)) actor = Inr audience"
    and c: "cu_audience c = audience" "cu_secret c = ck_secret (kr_active ring)" "cu_boundary c = boundary"
    by auto
  from bound have o: "audienceDigest hmac (ck_secret (kr_active ring)) other = Inr audience" "b = boundary"
    by (auto simp: BindAudience_def c split: sum.splits if_splits)
  have "take 16 (hmac (ck_secret (kr_active ring)) (audience_message actor)) =
      take 16 (hmac (ck_secret (kr_active ring)) (audience_message other))"
    using a o(1) mac by (auto simp: audienceDigest_def audienceDigestBytes_def copy_bytes_def split: if_splits)
  then have "audience_message actor = audience_message other" by (rule no_collision)
  with audience_message_inject [OF _ _ ids] a o show ?thesis
    by (auto simp: audienceDigest_def split: if_splits)
qed

lemma cursor_bound_to_audience_witness:
  "\<exists>s c. EncodeCursor sample_hmac sample_ring (1000 * ns_second + 5000) sample_boundary sample_reader = Inr s \<and>
     VerifyCursor sample_hmac sample_ring s = Inr c \<and>
     (\<forall>b. BindAudience sample_hmac c (sample_reader\<lparr>ac_role := RoleModerator\<rparr>) \<noteq> Inr b)"
proof -
  define s where "s = projr (EncodeCursor sample_hmac sample_ring (1000 * ns_second + 5000) sample_boundary sample_reader)"
  define c where "c = projr (VerifyCursor sample_hmac sample_ring s)"
  let ?other = "sample_reader\<lparr>ac_role := RoleModerator\<rparr>"
  have s: "EncodeCursor sample_hmac sample_ring (1000 * ns_second + 5000) sample_boundary sample_reader = Inr s"
    unfolding s_def by (rule sample_issued)
  have c: "VerifyCursor sample_hmac sample_ring s = Inr c"
    unfolding c_def s_def by code_simp
  have ids: "int64_ids sample_reader" "int64_ids ?other" "ab_post_id sample_boundary < 2 ^ 63"
    by (simp_all add: int64_ids_def sample_reader_def sample_boundary_def)
  have "take 16 (sample_hmac k (audience_message sample_reader)) \<noteq> take 16 (sample_hmac k (audience_message ?other))" for k
    by (simp add: sample_hmac_def) code_simp
  then have no: "\<And>k. take 16 (sample_hmac k (audience_message sample_reader)) =
      take 16 (sample_hmac k (audience_message ?other)) \<Longrightarrow>
      audience_message sample_reader = audience_message ?other" by blast
  have "BindAudience sample_hmac c ?other \<noteq> Inr b" for b
  proof
    assume "BindAudience sample_hmac c ?other = Inr b"
    from cursor_bound_to_audience [OF length_sample_hmac s c this ids(3,1,2)] no
    have "ac_role ?other = ac_role sample_reader" by blast
    then show False by (simp add: sample_reader_def)
  qed
  with s c show ?thesis by blast
qed

end
