(* ===== verification/Activity.thy ===== *)
theory Activity
  imports CursorFacts TopicPage "HOL-Library.Product_Lexorder"
begin

text \<open>
  Recent activity and direct posts, \<open>internal/discovery/store.go\<close> and \<open>runtime.go\<close> over
  \<open>discovery.sql.go\<close>: the newest visible posts in pages of 25 that continue by an authenticated
  cursor, read in one read-only snapshot. The sanitizer of the direct post is a parameter.
\<close>

definition ActivityPageSize :: nat where "ActivityPageSize = 25"
definition ActivityQueryLimit :: nat where "ActivityQueryLimit = 26"

subsection \<open>The transaction\<close>

text \<open>
  \<open>withDiscoveryTransaction\<close>. Its errors drop their causes; a failed body, configuration or commit is
  followed by a rollback whose own error is joined unless the transaction was already closed.
\<close>

definition with_discovery_rollback :: "tx_env \<Rightarrow> go_error \<Rightarrow> go_error" where
  "with_discovery_rollback env e =
     (case te_rollback_error env of
        None \<Rightarrow> e
      | Some r \<Rightarrow> if err_is r TxClosed then e else Join e (Wrap ''rollback discovery transaction'' r))"

definition withDiscoveryTransaction :: "tx_env \<Rightarrow> 'a tx \<Rightarrow> 'a tx" where
  "withDiscoveryTransaction env action w =
     (if \<not> te_context_given env \<or> \<not> te_beginner_given env
      then (Inl (Fail ''discovery transaction input is invalid''), w)
      else case te_begin env of
        BeginOk \<Rightarrow>
          (case tx_bind (tx_replace (Fail ''configure discovery transaction'') (select_all (\<lambda>db. ()))) (\<lambda>_. action) w of
             (Inl e, w') \<Rightarrow> (Inl (with_discovery_rollback env e), rolled_back w w')
           | (Inr x, w') \<Rightarrow>
               (case te_commit env of
                  CommitOk \<Rightarrow> (Inr x, w')
                | CommitFailed e applied \<Rightarrow>
                    (Inl (with_discovery_rollback env (Fail ''commit discovery transaction'')),
                     if applied then w' else rolled_back w w')))
      | _ \<Rightarrow> (Inl (Fail ''begin discovery transaction''), w))"

definition GetDiscoveryDatabaseTime :: "tstamp option tx" where
  "GetDiscoveryDatabaseTime =
     tx_bind (select_all (\<lambda>db. ())) (\<lambda>_. tx_bind read_clock (\<lambda>now. tx_return (Some (At now))))"

subsection \<open>The page queries\<close>

record activity_row =
  ar_post_id :: int
  ar_created_at :: "tstamp option"
  ar_author_id :: int
  ar_author_name :: string
  ar_topic_id :: int
  ar_topic_title :: string
  ar_area_id :: int
  ar_area_slug :: string
  ar_area_name :: string

text \<open>A post joined with its author, topic and area.\<close>

definition joined_post :: "forum_db \<Rightarrow> post_row \<Rightarrow> (user_row \<times> topic_row \<times> area_row) option" where
  "joined_post db p =
     (case (find_user db (p_author_id p), find_topic db (p_topic_id p)) of
        (Some u, Some t) \<Rightarrow> (case find_area db (t_area_id t) of Some a \<Rightarrow> Some (u, t, a) | None \<Rightarrow> None)
      | _ \<Rightarrow> None)"

definition activity_row_of :: "post_row \<Rightarrow> user_row \<Rightarrow> topic_row \<Rightarrow> area_row \<Rightarrow> activity_row" where
  "activity_row_of p u t a =
     \<lparr>ar_post_id = p_id p, ar_created_at = Some (p_created_at p), ar_author_id = p_author_id p,
      ar_author_name = u_display_name u, ar_topic_id = t_id t, ar_topic_title = t_title t,
      ar_area_id = a_id a, ar_area_slug = a_slug a, ar_area_name = a_name a\<rparr>"

text \<open>The \<open>WHERE\<close> clause of both queries, and the \<open>ORDER BY\<close> key of a post.\<close>

definition activity_shows :: "forum_db \<Rightarrow> bool \<Rightarrow> bool \<Rightarrow> int list \<Rightarrow> post_row \<Rightarrow> bool" where
  "activity_shows db staff member groups p =
     (case joined_post db p of
        None \<Rightarrow> False
      | Some (u, t, a) \<Rightarrow>
          p_deleted_at p = None \<and> p_redacted_at p = None \<and>
          p_search_version p = Some SearchProjectionVersion \<and>
          t_search_version t = Some SearchProjectionVersion \<and>
          sql_page_topic_visible db staff member groups t a)"

definition activity_key :: "post_row \<Rightarrow> tstamp \<times> int" where
  "activity_key p = (p_created_at p, p_id p)"

text \<open>All the posts the queries select from, newest first.\<close>

definition activity_posts :: "forum_db \<Rightarrow> bool \<Rightarrow> bool \<Rightarrow> int list \<Rightarrow> post_row list" where
  "activity_posts db staff member groups =
     rev (sort_key activity_key (filter (activity_shows db staff member groups) (db_posts db)))"

definition project_activity :: "forum_db \<Rightarrow> post_row \<Rightarrow> activity_row" where
  "project_activity db p =
     (case joined_post db p of
        Some (u, t, a) \<Rightarrow> activity_row_of p u t a
      | None \<Rightarrow> \<lparr>ar_post_id = p_id p, ar_created_at = None, ar_author_id = 0, ar_author_name = [],
                  ar_topic_id = 0, ar_topic_title = [], ar_area_id = 0, ar_area_slug = [], ar_area_name = []\<rparr>)"

definition ListRecentActivityInitial :: "bool \<Rightarrow> bool \<Rightarrow> int list \<Rightarrow> activity_row list tx" where
  "ListRecentActivityInitial staff member groups =
     select_all (\<lambda>db. map (project_activity db) (take ActivityQueryLimit (activity_posts db staff member groups)))"

definition ListRecentActivityAfter ::
  "bool \<Rightarrow> bool \<Rightarrow> int list \<Rightarrow> tstamp \<Rightarrow> int \<Rightarrow> activity_row list tx" where
  "ListRecentActivityAfter staff member groups created_at post_id =
     select_all (\<lambda>db. map (project_activity db)
       (take ActivityQueryLimit
         (filter (\<lambda>p. activity_key p < (created_at, post_id)) (activity_posts db staff member groups))))"

definition ListRecentActivity :: "bool \<Rightarrow> bool \<Rightarrow> int list \<Rightarrow> activity_boundary \<Rightarrow> activity_row list tx" where
  "ListRecentActivity staff member groups boundary =
     (if ab_post_id boundary = 0 then ListRecentActivityInitial staff member groups
      else ListRecentActivityAfter staff member groups (At (ab_created_at boundary)) (ab_post_id boundary))"

subsection \<open>The checks on the rows\<close>

definition validFiniteTimestamp :: "tstamp option \<Rightarrow> bool" where
  "validFiniteTimestamp v =
     (case v of Some (At t) \<Rightarrow> zero_time \<le> t \<and> t < year_10000 \<and> (t mod ns_second) mod 1000 = 0 | _ \<Rightarrow> False)"

definition validActivityRow :: "activity_row \<Rightarrow> bool" where
  "validActivityRow r \<longleftrightarrow>
     ar_post_id r > 0 \<and> validFiniteTimestamp (ar_created_at r) \<and> ar_author_id r > 0 \<and> ar_author_name r \<noteq> [] \<and>
     ar_topic_id r > 0 \<and> ar_topic_title r \<noteq> [] \<and> ar_area_id r > 0 \<and> ValidAreaSlug (ar_area_slug r) \<and>
     ar_area_name r \<noteq> []"

definition strictlyAfterActivity :: "activity_row \<Rightarrow> activity_row \<Rightarrow> bool" where
  "strictlyAfterActivity previous current \<longleftrightarrow>
     ts_time (ar_created_at current) < ts_time (ar_created_at previous) \<or>
     ts_time (ar_created_at current) = ts_time (ar_created_at previous) \<and> ar_post_id current < ar_post_id previous"

text \<open>The loop over the rows, with the row before the current one.\<close>

fun check_activity :: "activity_row option \<Rightarrow> activity_row list \<Rightarrow> bool" where
  "check_activity prev [] = True"
| "check_activity prev (r # rs) =
     (if \<not> validActivityRow r \<or> (case prev of None \<Rightarrow> False | Some q \<Rightarrow> \<not> strictlyAfterActivity q r)
      then False else check_activity (Some r) rs)"

record activity_page =
  pa_results :: "activity_row list"
  pa_next_boundary :: "activity_boundary option"
  pa_next_cursor :: string

definition no_boundary :: activity_boundary where
  "no_boundary = \<lparr>ab_created_at = zero_time, ab_post_id = 0\<rparr>"

definition activity_page_of :: "activity_row list \<Rightarrow> activity_page" where
  "activity_page_of rows =
     \<lparr>pa_results = take ActivityPageSize rows,
      pa_next_boundary =
        (if length rows = ActivityQueryLimit
         then let b = rows ! (ActivityPageSize - 1)
              in Some \<lparr>ab_created_at = ts_time (ar_created_at b), ab_post_id = ar_post_id b\<rparr>
         else None),
      pa_next_cursor = []\<rparr>"

definition activityWithQuerier :: "tx_env \<Rightarrow> activity_boundary \<Rightarrow> access_context \<Rightarrow> activity_page tx" where
  "activityWithQuerier env boundary actor =
     tx_bind (tx_guard (\<not> te_context_given env \<or> \<not> Valid actor \<or> ab_post_id boundary < 0 \<or>
                        ab_post_id boundary = 0 \<and> ab_created_at boundary \<noteq> zero_time \<or>
                        ab_post_id boundary > 0 \<and> \<not> validMicrosecondTime (ab_created_at boundary))
               (Fail ''activity input is invalid'')) (\<lambda>_.
     tx_bind (tx_wrap ''query recent activity''
               (ListRecentActivity (is_staff actor) (ac_authenticated actor) (ac_group_ids actor) boundary)) (\<lambda>rows.
     tx_bind (tx_guard (length rows > ActivityQueryLimit) (Fail ''activity query exceeded row bound'')) (\<lambda>_.
     tx_bind (tx_guard (\<not> check_activity None rows) (Fail ''activity query returned malformed order'')) (\<lambda>_.
     tx_return (activity_page_of rows)))))"

subsection \<open>The operation\<close>

definition activity_boundary_of ::
  "hmac_fn \<Rightarrow> cursor_keyring \<Rightarrow> authenticated_cursor option \<Rightarrow> gotime \<Rightarrow> access_context \<Rightarrow>
   go_error + activity_boundary" where
  "activity_boundary_of hmac ring verified now actor =
     (case verified of
        None \<Rightarrow> Inr no_boundary
      | Some cursor \<Rightarrow>
          if \<not> belongsTo cursor ring then Inl (Fail ''activity cursor keyring changed'')
          else case ValidateTime cursor now of
            Inl e \<Rightarrow> Inl e
          | Inr _ \<Rightarrow> BindAudience hmac cursor actor)"

definition next_cursor ::
  "hmac_fn \<Rightarrow> cursor_keyring \<Rightarrow> gotime \<Rightarrow> access_context \<Rightarrow> activity_page \<Rightarrow> go_error + activity_page" where
  "next_cursor hmac ring now actor page =
     (case pa_next_boundary page of
        None \<Rightarrow> Inr page
      | Some b \<Rightarrow>
          (case EncodeCursor hmac ring now b actor of
             Inl e \<Rightarrow> Inl e
           | Inr s \<Rightarrow> Inr (page\<lparr>pa_next_cursor := s\<rparr>)))"

definition RecentActivity_body ::
  "hmac_fn \<Rightarrow> tx_env \<Rightarrow> authenticated_cursor option \<Rightarrow> cursor_keyring \<Rightarrow> access_context \<Rightarrow> activity_page tx" where
  "RecentActivity_body hmac env verified ring actor =
     tx_bind (tx_replace (Fail ''sample activity database time'') GetDiscoveryDatabaseTime) (\<lambda>t.
     tx_bind (tx_guard (\<not> validFiniteTimestamp t) (Fail ''sample activity database time'')) (\<lambda>_.
     let now = ts_time t; key = kr_active ring in
     tx_bind (tx_guard (\<not> validCursorKey key \<or> now < ck_not_before key \<or> ck_issue_not_after key < now)
               (Fail ''activity cursor key is not issuing'')) (\<lambda>_.
     tx_bind (tx_lift (activity_boundary_of hmac ring verified now actor)) (\<lambda>boundary.
     tx_bind (activityWithQuerier env boundary actor) (\<lambda>page.
     tx_lift (next_cursor hmac ring now actor page))))))"

definition RecentActivity ::
  "hmac_fn \<Rightarrow> tx_env \<Rightarrow> authenticated_cursor option \<Rightarrow> cursor_keyring \<Rightarrow> access_context \<Rightarrow> activity_page tx" where
  "RecentActivity hmac env verified ring actor =
     withDiscoveryTransaction env (RecentActivity_body hmac env verified ring actor)"

subsection \<open>Direct posts\<close>

record direct_row =
  dr_activity :: activity_row
  dr_updated_at :: "tstamp option"
  dr_edited_at :: "tstamp option"
  dr_revision :: int
  dr_html :: string
  dr_renderer :: string

definition query_GetDirectPost :: "int \<Rightarrow> bool \<Rightarrow> bool \<Rightarrow> int list \<Rightarrow> direct_row tx" where
  "query_GetDirectPost post_id staff member groups =
     select_one (\<lambda>db.
       case find_post db post_id of
         None \<Rightarrow> None
       | Some p \<Rightarrow>
           (case joined_post db p of
              None \<Rightarrow> None
            | Some (u, t, a) \<Rightarrow>
                if p_deleted_at p = None \<and> p_redacted_at p = None \<and>
                   sql_page_topic_visible db staff member groups t a
                then Some \<lparr>dr_activity = activity_row_of p u t a, dr_updated_at = Some (p_updated_at p),
                           dr_edited_at = p_edited_at p, dr_revision = p_revision p, dr_html = p_html p,
                           dr_renderer = p_renderer p\<rparr>
                else None))"

definition direct_row_malformed :: "int \<Rightarrow> direct_row \<Rightarrow> bool" where
  "direct_row_malformed postID d =
     (let r = dr_activity d; created = ts_time (ar_created_at r) in
      ar_post_id r \<noteq> postID \<or> ar_author_id r \<le> 0 \<or> ar_author_name r = [] \<or> ar_topic_id r \<le> 0 \<or>
      ar_topic_title r = [] \<or> ar_area_id r \<le> 0 \<or> \<not> ValidAreaSlug (ar_area_slug r) \<or> ar_area_name r = [] \<or>
      dr_revision d \<le> 0 \<or> dr_html d = [] \<or> dr_renderer d = [] \<or>
      \<not> validFiniteTimestamp (ar_created_at r) \<or> \<not> validFiniteTimestamp (dr_updated_at d) \<or>
      ts_time (dr_updated_at d) < created \<or> dr_revision d = 1 \<and> dr_edited_at d \<noteq> None \<or>
      dr_revision d > 1 \<and> (\<not> validFiniteTimestamp (dr_edited_at d) \<or> ts_time (dr_edited_at d) < created))"

record direct_post =
  dp_row :: direct_row
  dp_body :: string
  dp_visible_text :: string

definition GetDirectPost ::
  "(string \<Rightarrow> string) \<Rightarrow> (string \<Rightarrow> string) \<Rightarrow> tx_env \<Rightarrow> int \<Rightarrow> access_context \<Rightarrow> direct_post tx" where
  "GetDirectPost sanitize visible_text env postID actor =
     tx_bind (tx_guard (\<not> te_context_given env \<or> \<not> te_beginner_given env \<or> postID \<le> 0 \<or> \<not> Valid actor)
               (Fail ''direct post input is invalid'')) (\<lambda>_.
     tx_bind (tx_wrap ''query direct post''
               (query_GetDirectPost postID (is_staff actor) (ac_authenticated actor) (ac_group_ids actor))) (\<lambda>row.
     tx_bind (tx_guard (direct_row_malformed postID row) (Fail ''direct post query returned malformed row'')) (\<lambda>_.
     let body = sanitize (dr_html row) in
     tx_return \<lparr>dp_row = row, dp_body = body, dp_visible_text = visible_text body\<rparr>)))"

end
