(* ===== verification/ActivityFacts.thy ===== *)
theory ActivityFacts
  imports Activity Example
begin

text \<open>
  Recent activity: the filter of the queries is the access policy, and the pages that one reader
  fetches by following the cursors are together exactly the posts the reader may see, newest first.
\<close>

subsection \<open>The filter of the queries is the policy\<close>

definition area_policy_of :: "forum_db \<Rightarrow> area_row \<Rightarrow> area_policy" where
  "area_policy_of db a =
     \<lparr>ap_visibility = a_visibility a, ap_posting_mode = a_posting_mode a,
      ap_group_ids = group_ids_of_area db (a_id a)\<rparr>"

text \<open>What the tables' own constraints say of an area, its groups and a topic.\<close>

definition area_constraints :: "forum_db \<Rightarrow> area_row \<Rightarrow> bool" where
  "area_constraints db a \<longleftrightarrow>
     a_posting_mode a \<in> {PostingNormal, PostingReadOnly, PostingArchived} \<and>
     a_visibility a \<in> {VisibilityPublic, VisibilityAuthenticated, VisibilityGroups} \<and>
     (\<forall>m \<in> set (db_area_groups db). fst m = a_id a \<longrightarrow> 0 < snd m \<and> a_visibility a = VisibilityGroups)"

definition topic_constraints :: "topic_row \<Rightarrow> bool" where
  "topic_constraints t \<longleftrightarrow> t_state t \<in> {TopicOpen, TopicLocked, TopicHidden, TopicArchived}"

lemma set_group_ids: "set (group_ids_of_area db i) = {g. (i, g) \<in> set (db_area_groups db)}"
  by (force simp: group_ids_of_area_def)

lemma is_staff_Valid: "Valid actor \<Longrightarrow> is_staff actor \<Longrightarrow> ac_authenticated actor"
  by (auto simp: Valid_def is_staff_def policy_values split: if_splits)

lemma CanViewTopic_constraints:
  "Valid actor \<Longrightarrow> topic_constraints t \<Longrightarrow>
     CanViewTopic actor (t_state t) \<longleftrightarrow> is_staff actor \<or> t_state t \<noteq> TopicHidden"
  by (auto simp: CanViewTopic_def topic_constraints_def is_staff_def)

lemma CanViewArea_constraints:
  assumes "Valid actor" "area_constraints db a"
  shows "CanViewArea actor (area_policy_of db a) \<longleftrightarrow>
    is_staff actor \<or> a_visibility a = VisibilityPublic \<or>
    ac_authenticated actor \<and> a_visibility a = VisibilityAuthenticated \<or>
    ac_authenticated actor \<and> a_visibility a = VisibilityGroups \<and>
      set (ac_group_ids actor) \<inter> set (group_ids_of_area db (a_id a)) \<noteq> {}"
proof -
  have none: "a_visibility a \<noteq> VisibilityGroups \<Longrightarrow> group_ids_of_area db (a_id a) = []"
    using assms(2) by (fastforce simp: area_constraints_def set_empty [symmetric] set_group_ids simp del: set_empty)
  have pos: "list_all (\<lambda>g. \<not> g \<le> 0) (group_ids_of_area db (a_id a))"
    using assms(2) by (auto simp: area_constraints_def list_all_pos_iff set_group_ids)
  have mode: "a_posting_mode a = PostingNormal \<or> a_posting_mode a = PostingReadOnly \<or>
      a_posting_mode a = PostingArchived"
    and vis: "a_visibility a = VisibilityPublic \<or> a_visibility a = VisibilityAuthenticated \<or>
      a_visibility a = VisibilityGroups"
    using assms(2) by (auto simp: area_constraints_def)
  have "CanViewArea actor (area_policy_of db a) \<longleftrightarrow>
      (if \<not> ac_authenticated actor then a_visibility a = VisibilityPublic
       else is_staff actor \<or> a_visibility a = VisibilityPublic \<or> a_visibility a = VisibilityAuthenticated \<or>
            set (ac_group_ids actor) \<inter> set (group_ids_of_area db (a_id a)) \<noteq> {})"
    unfolding CanViewArea_def list_ex_inter_iff is_staff_def
    using mode vis none pos assms(1) by (auto simp: area_policy_of_def)
  then show ?thesis using vis none is_staff_Valid [OF assms(1)] by auto
qed

text \<open>
  C39. The visibility filter that the activity, direct post and topic page statements spell out in SQL is
  the policy of \<open>internal/policy\<close>: on rows that satisfy the tables' constraints it selects a topic
  for an actor exactly when the topic is not deleted and both \<open>CanViewTopic\<close> and \<open>CanViewArea\<close>
  allow it.
\<close>

theorem sql_filter_is_policy:
  assumes "Valid actor" "area_constraints db a" "topic_constraints t"
  shows "sql_page_topic_visible db (is_staff actor) (ac_authenticated actor) (ac_group_ids actor) t a \<longleftrightarrow>
    t_deleted_at t = None \<and> CanViewTopic actor (t_state t) \<and> CanViewArea actor (area_policy_of db a)"
proof -
  have "set (ac_group_ids actor) \<inter> set (group_ids_of_area db (a_id a)) \<noteq> {} \<longleftrightarrow>
      ac_group_ids actor \<noteq> [] \<and>
      list_ex (\<lambda>m. fst m = a_id a \<and> list_ex (\<lambda>g. snd m = g) (ac_group_ids actor)) (db_area_groups db)"
  proof -
    have "(\<exists>m \<in> S. fst m = i \<and> Q (snd m)) \<longleftrightarrow> (\<exists>g. (i, g) \<in> S \<and> Q g)" for S :: "(int \<times> int) set" and i Q
      by force
    note pair = this [of "set (db_area_groups db)" "a_id a" "\<lambda>g. g \<in> set (ac_group_ids actor)"]
    have "list_ex (\<lambda>m. fst m = a_id a \<and> list_ex (\<lambda>g. snd m = g) (ac_group_ids actor)) (db_area_groups db) \<longleftrightarrow>
        (\<exists>m \<in> set (db_area_groups db). fst m = a_id a \<and> snd m \<in> set (ac_group_ids actor))"
      by (auto simp: list_ex_iff)
    with pair show ?thesis by (auto simp: set_group_ids)
  qed
  then show ?thesis
    unfolding CanViewTopic_constraints [OF assms(1,3)] CanViewArea_constraints [OF assms(1,2)]
    by (auto simp: sql_page_topic_visible_def policy_values)
qed

subsection \<open>The order of the posts\<close>

lemma descending_filter_drop:
  "sorted_wrt (\<lambda>x y. f y < (f x :: 'k::linorder)) xs \<Longrightarrow> k < length xs \<Longrightarrow>
   filter (\<lambda>x. f x < f (xs ! k)) xs = drop (Suc k) xs"
proof (induction xs arbitrary: k)
  case Nil
  then show ?case by simp
next
  case (Cons x xs)
  show ?case
  proof (cases k)
    case 0
    with Cons.prems show ?thesis by (auto simp: filter_id_conv)
  next
    case (Suc j)
    with Cons.prems have "f (xs ! j) < f x" by simp
    then have "\<not> f x < f (xs ! j)" by simp
    with Cons Suc show ?thesis by auto
  qed
qed

lemma sorted_wrt_distinct_keys:
  "sorted (map f xs) \<Longrightarrow> distinct (map f xs) \<Longrightarrow> sorted_wrt (\<lambda>x y. f x < (f y :: 'k::linorder)) xs"
  by (induction xs) (auto simp: order_le_less)

lemma activity_posts_descending:
  assumes "distinct (map p_id (db_posts db))"
  shows "sorted_wrt (\<lambda>p q. activity_key q < activity_key p) (activity_posts db staff member groups)"
proof -
  have "distinct (map p_id (filter P (db_posts db)))" for P
    using assms by (simp add: distinct_map_filter)
  then have "distinct (map activity_key (filter P (db_posts db)))" for P
    by (auto simp: distinct_map inj_on_def activity_key_def)
  then have "distinct (map activity_key (sort_key activity_key (filter P (db_posts db))))" for P
    by (simp add: distinct_map)
  then show ?thesis
    by (simp add: activity_posts_def sorted_wrt_rev sorted_wrt_distinct_keys)
qed

lemma activity_posts_shown: "p \<in> set (activity_posts db staff member groups) \<longleftrightarrow>
    p \<in> set (db_posts db) \<and> activity_shows db staff member groups p"
  by (simp add: activity_posts_def)

lemma shown_row:
  assumes "activity_shows db staff member groups p"
  shows "ar_post_id (project_activity db p) = p_id p"
    "ar_created_at (project_activity db p) = Some (p_created_at p)"
  using assms by (auto simp: activity_shows_def project_activity_def activity_row_of_def split: option.splits)

lemma valid_row_time:
  assumes "validActivityRow (project_activity db p)" "activity_shows db staff member groups p"
  shows "\<exists>t. p_created_at p = At t \<and> validMicrosecondTime t \<and> 0 < p_id p"
  using assms shown_row [OF assms(2)]
  by (auto simp: validActivityRow_def validFiniteTimestamp_def validMicrosecondTime_def split: tstamp.splits)

lemma check_activity_rows:
  assumes "\<forall>p \<in> set ps. validActivityRow (project_activity db p) \<and> activity_shows db staff member groups p"
    and "sorted_wrt (\<lambda>p q. activity_key q < activity_key p) ps"
    and "\<forall>q. prev = Some q \<longrightarrow> ps \<noteq> [] \<longrightarrow> strictlyAfterActivity q (project_activity db (hd ps))"
  shows "check_activity prev (map (project_activity db) ps)"
  using assms
proof (induction ps arbitrary: prev)
  case Nil
  then show ?case by simp
next
  case (Cons p ps)
  have "strictlyAfterActivity (project_activity db p) (project_activity db q)" if "q \<in> set ps" for q
  proof -
    from that Cons.prems(1) have vis: "activity_shows db staff member groups p" "activity_shows db staff member groups q"
      and valid: "validActivityRow (project_activity db p)" "validActivityRow (project_activity db q)" by auto
    obtain t u where "p_created_at p = At t" "p_created_at q = At u"
      using valid_row_time [OF valid(1) vis(1)] valid_row_time [OF valid(2) vis(2)] by blast
    moreover have "activity_key q < activity_key p" using Cons.prems(2) that by simp
    ultimately show ?thesis
      by (auto simp: strictlyAfterActivity_def activity_key_def shown_row [OF vis(1)] shown_row [OF vis(2)])
  qed
  with Cons show ?case by (auto split: option.splits)
qed

subsection \<open>Following the cursors\<close>

text \<open>
  A reader fetches the first page without a cursor and every further page with the cursor of the page
  before, until a page has none. Each call has an environment and a world of its own, because time
  passes between the calls; the walk ends without a result when a call fails, when a cursor does not
  verify, or when the calls run out.
\<close>

fun activity_walk ::
  "hmac_fn \<Rightarrow> cursor_keyring \<Rightarrow> access_context \<Rightarrow> (tx_env \<times> world) list \<Rightarrow> authenticated_cursor option \<Rightarrow>
   activity_row list option" where
  "activity_walk hmac ring actor [] verified = None"
| "activity_walk hmac ring actor ((env, w) # calls) verified =
     (case fst (RecentActivity hmac env verified ring actor w) of
        Inl e \<Rightarrow> None
      | Inr page \<Rightarrow>
          if pa_next_boundary page = None then Some (pa_results page)
          else case VerifyCursor hmac ring (pa_next_cursor page) of
            Inl e \<Rightarrow> None
          | Inr c \<Rightarrow> map_option ((@) (pa_results page)) (activity_walk hmac ring actor calls (Some c)))"

text \<open>A call on given tables that the database serves at a given time, without a fault.\<close>

definition served :: "forum_db \<Rightarrow> gotime \<Rightarrow> tx_env \<times> world \<Rightarrow> bool" where
  "served db now c \<longleftrightarrow>
     te_context_given (fst c) \<and> te_beginner_given (fst c) \<and> te_begin (fst c) = BeginOk \<and>
     te_commit (fst c) = CommitOk \<and> w_db (snd c) = db \<and> w_faults (snd c) = [] \<and>
     w_clock (snd c) \<noteq> [] \<and> truncate_us (hd (w_clock (snd c))) = now"

text \<open>The part of the posts that a boundary leaves.\<close>

definition after_boundary :: "post_row list \<Rightarrow> activity_boundary \<Rightarrow> post_row list" where
  "after_boundary ps b =
     (if ab_post_id b = 0 then ps
      else filter (\<lambda>p. activity_key p < (At (ab_created_at b), ab_post_id b)) ps)"

lemma select_all_clear: "w_faults w = [] \<Longrightarrow> select_all q w = (Inr (q (w_db w)), w)"
  by (simp add: select_all_def statement_def Let_def)

lemma ListRecentActivity_rows:
  "w_faults w = [] \<Longrightarrow>
   ListRecentActivity staff member groups b w =
     (Inr (map (project_activity (w_db w)) (take ActivityQueryLimit
        (after_boundary (activity_posts (w_db w) staff member groups) b))), w)"
  by (simp add: ListRecentActivity_def ListRecentActivityInitial_def ListRecentActivityAfter_def
      after_boundary_def select_all_clear)

lemma validFiniteTimestamp_At: "validFiniteTimestamp (Some (At t)) = validMicrosecondTime t"
  by (simp add: validFiniteTimestamp_def validMicrosecondTime_def)

text \<open>A served call returns the page of the boundary it continues from, whenever the rows are valid.\<close>

lemma RecentActivity_page:
  fixes db ring actor
  defines "all_posts \<equiv> activity_posts db (is_staff actor) (ac_authenticated actor) (ac_group_ids actor)"
  assumes served: "served db now (env, w)"
    and now: "validMicrosecondTime now" "validCursorKey (kr_active ring)"
      "ck_not_before (kr_active ring) \<le> now" "now \<le> ck_issue_not_after (kr_active ring)"
    and actor: "Valid actor"
    and boundary: "activity_boundary_of hmac ring verified now actor = Inr b"
    and b: "b = no_boundary \<or> 0 < ab_post_id b \<and> validMicrosecondTime (ab_created_at b)"
    and rows: "rows = map (project_activity db) (take 26 (after_boundary all_posts b))"
    and check: "check_activity None rows"
    and "next": "next_cursor hmac ring now actor (activity_page_of rows) = Inr page"
  shows "fst (RecentActivity hmac env verified ring actor w) = Inr page"
proof -
  obtain t ts where clock: "w_clock w = t # ts" "truncate_us t = now"
    using served by (cases "w_clock w") (auto simp: served_def)
  have len: "length rows \<le> ActivityQueryLimit" using rows by (simp add: ActivityQueryLimit_def)
  have ok: "\<not> (\<not> te_context_given env \<or> \<not> Valid actor \<or> ab_post_id b < 0 \<or>
      ab_post_id b = 0 \<and> ab_created_at b \<noteq> zero_time \<or>
      ab_post_id b > 0 \<and> \<not> validMicrosecondTime (ab_created_at b))"
    using served actor b by (auto simp: served_def no_boundary_def)
  let ?w = "w\<lparr>w_clock := ts\<rparr>"
  have act: "activityWithQuerier env b actor ?w = (Inr (activity_page_of rows), ?w)"
    using ok served len check rows
    by (simp add: activityWithQuerier_def tx_bind_def tx_guard_def tx_wrap_def tx_return_def
        ListRecentActivity_rows served_def all_posts_def ActivityQueryLimit_def)
  have "RecentActivity_body hmac env verified ring actor w =
      (Inr page, ?w)"
    using served clock now boundary act "next"
    by (simp add: RecentActivity_body_def GetDiscoveryDatabaseTime_def served_def select_all_clear tx_bind_def
        tx_replace_def tx_return_def tx_guard_def tx_lift_def read_clock_def validFiniteTimestamp_At)
  then show ?thesis
    using served
    by (auto simp: RecentActivity_def withDiscoveryTransaction_def served_def select_all_clear tx_bind_def
        tx_replace_def split: prod.splits sum.splits)
qed

definition post_boundary :: "post_row \<Rightarrow> activity_boundary" where
  "post_boundary p = \<lparr>ab_created_at = ts_time (Some (p_created_at p)), ab_post_id = p_id p\<rparr>"

definition boundary_at :: "post_row list \<Rightarrow> nat \<Rightarrow> activity_boundary" where
  "boundary_at ps n = (if n = 0 then no_boundary else post_boundary (ps ! (n - 1)))"

text \<open>A cursor issued for a boundary continues from it in later calls of its day.\<close>

lemma cursor_continues:
  assumes mac: "\<And>k m. length (hmac k m) = 32"
    and key: "validCursorKey (kr_active ring)" "ck_not_before (kr_active ring) \<le> now"
      "now \<le> ck_issue_not_after (kr_active ring)"
    and now: "validMicrosecondTime now"
    and actor: "Valid actor" "strictly_after 0 (ac_group_ids actor)"
    and b: "validMicrosecondTime (ab_created_at b)" "0 < ab_post_id b" "ab_post_id b < 2 ^ 63"
  obtains s c where "EncodeCursor hmac ring now b actor = Inr s" "VerifyCursor hmac ring s = Inr c"
    "\<And>t. validMicrosecondTime t \<Longrightarrow> now \<le> t \<Longrightarrow> t \<le> now div ns_second * ns_second + cursorMaximumAge \<Longrightarrow>
       activity_boundary_of hmac ring (Some c) t actor = Inr b"
proof -
  obtain audience where a: "audienceDigest hmac (ck_secret (kr_active ring)) actor = Inr audience"
    using actor by (simp add: audienceDigest_def)
  obtain s where s: "EncodeCursor hmac ring now b actor = Inr s"
    using key now b a by (auto simp: EncodeCursor_Inr)
  have active: "ring_key ring (ck_id (kr_active ring)) = (Some (kr_active ring), False)" by (simp add: ring_key_def)
  from VerifyCursor_issued [OF mac s this b(3)] a obtain c where c: "VerifyCursor hmac ring s = Inr c"
    and c_eq: "c = \<lparr>cu_boundary = b, cu_audience = audience, cu_secret = ck_secret (kr_active ring),
      cu_key_id = ck_id (kr_active ring), cu_issued_at = now div ns_second * ns_second, cu_previous = False,
      cu_key_start = ck_not_before (kr_active ring), cu_key_end = ck_issue_not_after (kr_active ring)\<rparr>"
    by auto
  have "activity_boundary_of hmac ring (Some c) t actor = Inr b"
    if t: "validMicrosecondTime t" "now \<le> t" "t \<le> now div ns_second * ns_second + cursorMaximumAge" for t
  proof -
    have "ValidateTime c t = Inr ()"
      using t floor_second_le(1) [of now] valid_second_time_floor [OF now]
      by (simp add: ValidateTime_def c_eq time_sub_def cursorMaximumAge_def cursorFutureSkew_def ns_hour_def
          ns_minute_def ns_second_def min_duration_def max_duration_def)
    with a active show ?thesis
      by (simp add: activity_boundary_of_def belongsTo_def BindAudience_def c_eq)
  qed
  with s c that show thesis by blast
qed

lemma activity_walk_from:
  fixes db ring actor
  defines "all_posts \<equiv> activity_posts db (is_staff actor) (ac_authenticated actor) (ac_group_ids actor)"
  assumes mac: "\<And>k m. length (hmac k m) = 32"
    and ids: "distinct (map p_id (db_posts db))"
    and valid: "\<forall>p \<in> set all_posts. validActivityRow (project_activity db p) \<and> p_id p < 2 ^ 63"
    and actor: "Valid actor" "strictly_after 0 (ac_group_ids actor)"
    and key: "validCursorKey (kr_active ring)"
  shows "list_all2 (served db) clocks calls \<Longrightarrow> sorted clocks \<Longrightarrow>
    (\<forall>t \<in> set clocks. validMicrosecondTime t \<and> ck_not_before (kr_active ring) \<le> t \<and>
       t \<le> ck_issue_not_after (kr_active ring) \<and> start \<le> t div ns_second * ns_second \<and> t \<le> start + cursorMaximumAge) \<Longrightarrow>
    calls \<noteq> [] \<Longrightarrow> length all_posts - n \<le> 25 * length calls \<Longrightarrow> n \<le> length all_posts \<Longrightarrow>
    (\<forall>t \<in> set clocks. activity_boundary_of hmac ring verified t actor = Inr (boundary_at all_posts n)) \<Longrightarrow>
    activity_walk hmac ring actor calls verified = Some (map (project_activity db) (drop n all_posts))"
proof (induction calls arbitrary: clocks n verified)
  case Nil
  then show ?case by simp
next
  case (Cons c calls)
  obtain env w where c: "c = (env, w)" by force
  obtain now later where clocks: "clocks = now # later" "served db now (env, w)" "list_all2 (served db) later calls"
    using Cons.prems(1) by (auto simp: c list_all2_Cons2)
  have now: "validMicrosecondTime now" "ck_not_before (kr_active ring) \<le> now"
    "now \<le> ck_issue_not_after (kr_active ring)" "start \<le> now div ns_second * ns_second"
    and b: "activity_boundary_of hmac ring verified now actor = Inr (boundary_at all_posts n)"
    using Cons.prems(3,7) by (auto simp: clocks)
  note desc = activity_posts_descending [OF ids, of "is_staff actor" "ac_authenticated actor" "ac_group_ids actor",
      folded all_posts_def]
  have row: "\<exists>t. p_created_at p = At t \<and> validMicrosecondTime t \<and> 0 < p_id p" if "p \<in> set all_posts" for p
    using valid that by (intro valid_row_time) (auto simp: all_posts_def activity_posts_shown)
  have point: "0 < ab_post_id (post_boundary p) \<and> ab_post_id (post_boundary p) < 2 ^ 63 \<and>
      validMicrosecondTime (ab_created_at (post_boundary p)) \<and>
      activity_key p = (At (ab_created_at (post_boundary p)), ab_post_id (post_boundary p))"
    if "p \<in> set all_posts" for p
    using row [OF that] valid that by (auto simp: post_boundary_def activity_key_def)
  have rest: "after_boundary all_posts (boundary_at all_posts n) = drop n all_posts"
  proof (cases n)
    case 0
    then show ?thesis by (simp add: after_boundary_def boundary_at_def no_boundary_def)
  next
    case (Suc k)
    then have k: "k < length all_posts" using Cons.prems(6) by simp
    with point [of "all_posts ! k"] have "0 < ab_post_id (post_boundary (all_posts ! k))"
      "activity_key (all_posts ! k) = (At (ab_created_at (post_boundary (all_posts ! k))), ab_post_id (post_boundary (all_posts ! k)))"
      by simp_all
    with descending_filter_drop [OF desc k] Suc show ?thesis
      by (simp add: after_boundary_def boundary_at_def)
  qed
  define rows where "rows = map (project_activity db) (take 26 (drop n all_posts))"
  have check: "check_activity None rows"
    unfolding rows_def
  proof (rule check_activity_rows)
    show "\<forall>p \<in> set (take 26 (drop n all_posts)). validActivityRow (project_activity db p) \<and>
        activity_shows db (is_staff actor) (ac_authenticated actor) (ac_group_ids actor) p"
      using valid by (auto simp: all_posts_def activity_posts_shown dest!: in_set_takeD in_set_dropD)
    show "sorted_wrt (\<lambda>p q. activity_key q < activity_key p) (take 26 (drop n all_posts))"
      using desc by (simp add: sorted_wrt_take sorted_wrt_drop)
  qed simp
  have bok: "boundary_at all_posts n = no_boundary \<or>
      0 < ab_post_id (boundary_at all_posts n) \<and> validMicrosecondTime (ab_created_at (boundary_at all_posts n))"
    using point [of "all_posts ! (n - 1)"] Cons.prems(6) by (cases n) (auto simp: boundary_at_def)
  note page = RecentActivity_page [OF clocks(2) now(1) key now(2,3) actor(1) b bok, of rows]
  show ?case
  proof (cases "length all_posts - n \<le> 25")
    case True
    then have "next_cursor hmac ring now actor (activity_page_of rows) = Inr (activity_page_of rows)"
      "pa_next_boundary (activity_page_of rows) = None"
      "pa_results (activity_page_of rows) = map (project_activity db) (drop n all_posts)"
      by (simp_all add: rows_def activity_page_of_def next_cursor_def ActivityQueryLimit_def ActivityPageSize_def take_map)
    with page check rest show ?thesis by (simp add: c rows_def all_posts_def)
  next
    case False
    define p where "p = all_posts ! (n + 24)"
    have p: "p \<in> set all_posts" and len: "length rows = 26" using False by (simp_all add: p_def rows_def)
    have nth: "rows ! 24 = project_activity db p" using False by (simp add: rows_def p_def)
    have "activity_shows db (is_staff actor) (ac_authenticated actor) (ac_group_ids actor) p"
      using p by (simp add: all_posts_def activity_posts_shown)
    then have nb: "pa_next_boundary (activity_page_of rows) = Some (post_boundary p)"
      by (simp add: activity_page_of_def len ActivityQueryLimit_def ActivityPageSize_def nth post_boundary_def shown_row)
    have pb: "validMicrosecondTime (ab_created_at (post_boundary p))" "0 < ab_post_id (post_boundary p)"
      "ab_post_id (post_boundary p) < 2 ^ 63" using point [OF p] by simp_all
    obtain s c' where s: "EncodeCursor hmac ring now (post_boundary p) actor = Inr s"
      and c': "VerifyCursor hmac ring s = Inr c'"
      and go: "\<And>t. validMicrosecondTime t \<Longrightarrow> now \<le> t \<Longrightarrow> t \<le> now div ns_second * ns_second + cursorMaximumAge \<Longrightarrow>
        activity_boundary_of hmac ring (Some c') t actor = Inr (post_boundary p)"
      by (rule cursor_continues [OF mac key now(2,3,1) actor pb]) (rule that)
    have at: "boundary_at all_posts (n + 25) = post_boundary p" by (simp add: boundary_at_def p_def add.commute)
    have "activity_walk hmac ring actor calls (Some c') = Some (map (project_activity db) (drop (n + 25) all_posts))"
    proof (rule Cons.IH [OF clocks(3)])
      show "\<forall>t \<in> set later. activity_boundary_of hmac ring (Some c') t actor = Inr (boundary_at all_posts (n + 25))"
        using Cons.prems(2,3) now(4) by (auto simp: clocks at intro!: go)
      show "calls \<noteq> []" "length all_posts - (n + 25) \<le> 25 * length calls" "n + 25 \<le> length all_posts"
        using False Cons.prems(5) by auto
    qed (use Cons.prems(2,3) in \<open>auto simp: clocks\<close>)
    moreover have "fst (RecentActivity hmac env verified ring actor w) =
        Inr ((activity_page_of rows)\<lparr>pa_next_cursor := s\<rparr>)"
      using check rest nb s by (intro page) (simp_all add: next_cursor_def rows_def all_posts_def)
    moreover have "map (project_activity db) (drop n all_posts) =
        take 25 rows @ map (project_activity db) (drop (n + 25) all_posts)"
    proof -
      have "drop n all_posts = take 25 (drop n all_posts) @ drop 25 (drop n all_posts)"
        by (rule append_take_drop_id [symmetric])
      moreover have "drop 25 (drop n all_posts) = drop (n + 25) all_posts" by (simp add: add.commute)
      moreover have "take 25 rows = map (project_activity db) (take 25 (drop n all_posts))"
        by (simp add: rows_def take_map)
      ultimately show ?thesis by (metis (no_types) map_append)
    qed
    ultimately show ?thesis
      using nb c' by (simp add: c activity_page_of_def ActivityPageSize_def)
  qed
qed

text \<open>
  C38. Following the cursors shows everything exactly once: over an unchanged board, a reader who starts
  without a cursor and follows the issued cursors within 24 hours, with one served call per 25 posts,
  receives as the concatenation of the pages exactly the posts the filter lets the reader see, newest
  first, each once; no call fails and no cursor is refused.
\<close>

theorem activity_walk_complete:
  assumes mac: "\<And>k m. length (hmac k m) = 32"
    and ids: "distinct (map p_id (db_posts db))"
    and valid: "\<forall>p \<in> set (activity_posts db (is_staff actor) (ac_authenticated actor) (ac_group_ids actor)).
      validActivityRow (project_activity db p) \<and> p_id p < 2 ^ 63"
    and actor: "Valid actor" "strictly_after 0 (ac_group_ids actor)"
    and key: "validCursorKey (kr_active ring)"
    and served: "list_all2 (served db) clocks calls" "sorted clocks"
      "\<forall>t \<in> set clocks. validMicrosecondTime t \<and> ck_not_before (kr_active ring) \<le> t \<and>
         t \<le> ck_issue_not_after (kr_active ring) \<and>
         start \<le> t div ns_second * ns_second \<and> t \<le> start + cursorMaximumAge"
    and enough: "calls \<noteq> []"
      "length (activity_posts db (is_staff actor) (ac_authenticated actor) (ac_group_ids actor)) \<le> 25 * length calls"
  shows "activity_walk hmac ring actor calls None = Some (map (project_activity db)
      (activity_posts db (is_staff actor) (ac_authenticated actor) (ac_group_ids actor)))"
  using activity_walk_from [OF mac ids valid actor key served enough(1), where n = 0 and verified = None] enough(2)
  by (simp add: activity_boundary_of_def boundary_at_def)

text \<open>A board of twenty-six posts, read in two pages, and an area of a group.\<close>

definition ex_busy_post :: "int \<Rightarrow> post_row" where
  "ex_busy_post i =
     \<lparr>p_id = i, p_topic_id = 1, p_author_id = 2, p_number = i, p_markdown = ''m'', p_html = ''<p>m</p>'',
      p_renderer = RendererVersion, p_search_text = ''m'', p_search_version = Some SearchProjectionVersion,
      p_revision = 1, p_parent = None, p_path = [i], p_created_at = At (1000 * i), p_updated_at = At (1000 * i),
      p_edited_at = None, p_deleted_at = None, p_deleted_by = None, p_deletion_reason = None,
      p_redacted_at = None, p_redacted_by = None, p_redaction_reason = None\<rparr>"

definition ex_busy :: forum_db where
  "ex_busy = ex_db\<lparr>db_topics := [\<lparr>t_id = 1, t_area_id = 1, t_author_id = 2, t_title = ''Hello'', t_slug = None,
       t_state = TopicOpen, t_first_post_id = 1, t_latest_post_id = 26, t_reply_count = 25, t_next_post_number = 27,
       t_pinned_at = None, t_created_at = At 1000, t_updated_at = At 26000, t_last_activity_at = At 26000,
       t_deleted_at = None, t_search_text = ''Hello'', t_search_version = Some SearchProjectionVersion\<rparr>],
     db_posts := map ex_busy_post [1..26]\<rparr>"

definition ex_busy_call :: "gotime \<Rightarrow> tx_env \<times> world" where
  "ex_busy_call t = (ex_tx, ex_world ex_busy [t])"

theorem activity_walk_complete_witness:
  "activity_walk sample_hmac sample_ring (ex_actor 2 RoleMember)
     [ex_busy_call (10 * ns_second), ex_busy_call (12 * ns_second)] None =
   Some (map (project_activity ex_busy) (activity_posts ex_busy False True [])) \<and>
   map p_id (activity_posts ex_busy False True []) = rev [1..26]"
proof -
  have actor: "Valid (ex_actor 2 RoleMember)" "strictly_after 0 (ac_group_ids (ex_actor 2 RoleMember))"
    "is_staff (ex_actor 2 RoleMember) = False" "ac_authenticated (ex_actor 2 RoleMember) = True"
    "ac_group_ids (ex_actor 2 RoleMember) = []"
    by code_simp+
  have ids: "distinct (map p_id (db_posts ex_busy))" by code_simp
  have order: "map p_id (activity_posts ex_busy False True []) = rev [1..26]" by code_simp
  have "list_all (\<lambda>p. validActivityRow (project_activity ex_busy p) \<and> p_id p < 2 ^ 63)
      (activity_posts ex_busy False True [])"
    by code_simp
  then have valid: "\<forall>p \<in> set (activity_posts ex_busy (is_staff (ex_actor 2 RoleMember))
      (ac_authenticated (ex_actor 2 RoleMember)) (ac_group_ids (ex_actor 2 RoleMember))).
      validActivityRow (project_activity ex_busy p) \<and> p_id p < 2 ^ 63"
    by (simp add: actor list_all_iff)
  have key: "validCursorKey (kr_active sample_ring)" by code_simp
  have served: "list_all2 (served ex_busy) [10 * ns_second, 12 * ns_second]
      [ex_busy_call (10 * ns_second), ex_busy_call (12 * ns_second)]"
    by (simp add: served_def ex_busy_call_def ex_world_def ex_tx_def truncate_us_def ns_second_def)
  have clocks: "sorted [10 * ns_second, 12 * ns_second]"
    "\<forall>t \<in> set [10 * ns_second, 12 * ns_second]. validMicrosecondTime t \<and>
       ck_not_before (kr_active sample_ring) \<le> t \<and> t \<le> ck_issue_not_after (kr_active sample_ring) \<and>
       0 \<le> t div ns_second * ns_second \<and> t \<le> 0 + cursorMaximumAge"
    by (simp_all add: sample_ring_def sample_key_def validMicrosecondTime_def zero_time_def year_10000_def
        cursorMaximumAge_def ns_hour_def ns_minute_def ns_second_def)
  have enough: "[ex_busy_call (10 * ns_second), ex_busy_call (12 * ns_second)] \<noteq> []"
    "length (activity_posts ex_busy (is_staff (ex_actor 2 RoleMember)) (ac_authenticated (ex_actor 2 RoleMember))
       (ac_group_ids (ex_actor 2 RoleMember))) \<le> 25 * length [ex_busy_call (10 * ns_second), ex_busy_call (12 * ns_second)]"
    using arg_cong [OF order, of length] by (simp_all add: actor)
  show ?thesis
    using activity_walk_complete [OF length_sample_hmac ids valid actor(1,2) key served clocks enough] order
    by (simp only: actor)
qed

theorem sql_filter_is_policy_witness:
  "sql_page_topic_visible (ex_db1\<lparr>db_area_groups := [(1, 4)]\<rparr>) False True [4] (hd (db_topics ex_db1))
     (ex_area\<lparr>a_visibility := VisibilityGroups\<rparr>)"
proof -
  let ?db = "ex_db1\<lparr>db_area_groups := [(1, 4)]\<rparr>" and ?a = "ex_area\<lparr>a_visibility := VisibilityGroups\<rparr>"
  have facts: "Valid sample_reader" "is_staff sample_reader = False" "ac_authenticated sample_reader"
    "ac_group_ids sample_reader = [4]" "CanViewTopic sample_reader (t_state (hd (db_topics ex_db1)))"
    "t_deleted_at (hd (db_topics ex_db1)) = None" "t_state (hd (db_topics ex_db1)) = TopicOpen"
    "CanViewArea sample_reader (area_policy_of ?db ?a)"
    by code_simp+
  have "area_constraints ?db ?a" "topic_constraints (hd (db_topics ex_db1))"
    by (simp_all add: area_constraints_def topic_constraints_def facts ex_area_def policy_values)
  from sql_filter_is_policy [OF facts(1) this] show ?thesis by (simp add: facts(1-6,8))
qed

end
