(* ===== verification/SearchRequest.thy ===== *)
theory SearchRequest
  imports Utf8 Cursor
begin

text \<open>
  The query strings of search and recent activity, \<open>internal/discovery/request.go\<close>, with what it uses
  of \<open>net/url\<close>, \<open>strconv\<close>, \<open>time\<close> and \<open>strings\<close>. Unicode normalization is a parameter. The revalidation
  of a parsed request at the store boundary is \<open>validSearchRequest\<close> of \<open>internal/discovery/store.go\<close>.
\<close>

definition MaximumSearchRawQueryBytes :: nat where "MaximumSearchRawQueryBytes = 2048"
definition MaximumSearchQueryBytes :: nat where "MaximumSearchQueryBytes = 256"
definition MaximumActivityRawBytes :: nat where "MaximumActivityRawBytes = 256"

subsection \<open>Query strings\<close>

text \<open>\<open>strings.Contains\<close>, and the test of the runes both validations make.\<close>

definition contains_string :: "string \<Rightarrow> string \<Rightarrow> bool" where
  "contains_string s sub = list_ex (\<lambda>i. has_prefix (drop i s) sub) [0..<Suc (length s)]"

definition wire_control :: "int option \<Rightarrow> bool" where
  "wire_control r = (case r of None \<Rightarrow> False | Some c \<Rightarrow> c = 0 \<or> c < 32 \<or> c = 127)"

definition validRawQuery :: "string \<Rightarrow> bool" where
  "validRawQuery raw =
     (if contains_string raw '';'' \<or> has_prefix raw ''&'' \<or> has_suffix raw ''&'' \<or> contains_string raw ''&&''
      then False
      else if list_ex wire_control (runes raw) then False
      else valid_utf8 raw)"

definition validDecoded :: "string \<Rightarrow> bool" where
  "validDecoded v = (if \<not> valid_utf8 v then False else \<not> list_ex wire_control (runes v))"

text \<open>\<open>url.QueryUnescape\<close>, and \<open>url.ParseQuery\<close> as the pairs in their order, or none on its error.\<close>

definition hex_value :: "char \<Rightarrow> nat option" where
  "hex_value c =
     (if in_range (CHR ''0'') (CHR ''9'') c then Some (of_char c - 48)
      else if in_range (CHR ''a'') (CHR ''f'') c then Some (of_char c - 87)
      else if in_range (CHR ''A'') (CHR ''F'') c then Some (of_char c - 55) else None)"

fun query_unescape :: "string \<Rightarrow> string option" where
  "query_unescape [] = Some []"
| "query_unescape (c # cs) =
     (if c = CHR ''%''
      then (case cs of
              h # l # rest \<Rightarrow>
                (case (hex_value h, hex_value l) of
                   (Some a, Some b) \<Rightarrow> map_option ((#) (char_of (a * 16 + b))) (query_unescape rest)
                 | _ \<Rightarrow> None)
            | _ \<Rightarrow> None)
      else map_option ((#) (if c = CHR ''+'' then CHR '' '' else c)) (query_unescape cs))"

definition cut_at :: "char \<Rightarrow> string \<Rightarrow> string \<times> string" where
  "cut_at sep s = (takeWhile (\<lambda>c. c \<noteq> sep) s, drop 1 (dropWhile (\<lambda>c. c \<noteq> sep) s))"

definition parse_pair :: "string \<Rightarrow> (string \<times> string) option" where
  "parse_pair piece =
     (if contains_string piece '';'' then None
      else let (k, v) = cut_at (CHR ''='') piece in
        case (query_unescape k, query_unescape v) of
          (Some key, Some val) \<Rightarrow> Some (key, val)
        | _ \<Rightarrow> None)"

definition ParseQuery :: "string \<Rightarrow> (string \<times> string) list option" where
  "ParseQuery query = all_some (map parse_pair (filter (\<lambda>p. p \<noteq> []) (split_on (CHR ''&'') query)))"

text \<open>The entries of a key, and the single value once multiplicity is closed.\<close>

definition url_entries :: "(string \<times> string) list \<Rightarrow> string \<Rightarrow> string list" where
  "url_entries values key = map snd (filter (\<lambda>p. fst p = key) values)"

definition single :: "(string \<times> string) list \<Rightarrow> string \<Rightarrow> string option" where
  "single values key = (case url_entries values key of [] \<Rightarrow> None | v # _ \<Rightarrow> Some v)"

subsection \<open>Numbers and dates\<close>

definition digit :: "char \<Rightarrow> bool" where
  "digit c = in_range (CHR ''0'') (CHR ''9'') c"

definition digits_value :: "string \<Rightarrow> int" where
  "digits_value s = foldl (\<lambda>n c. 10 * n + (of_char c - 48)) 0 s"

definition max_int64 :: int where "max_int64 = 2 ^ 63 - 1"

definition parseCanonicalPositiveInt64 :: "string \<Rightarrow> go_error + int" where
  "parseCanonicalPositiveInt64 raw =
     (if raw = [] \<or> hd raw = CHR ''0'' then Inl (Fail ''invalid positive integer'')
      else if \<not> list_all digit raw then Inl (Fail ''invalid positive integer'')
      else let parsed = digits_value raw in
        if max_int64 < parsed \<or> parsed \<le> 0 then Inl (Fail ''invalid positive integer'')
        else Inr parsed)"

text \<open>The Gregorian calendar of \<open>time.Date\<close>, from year 0 on.\<close>

definition leap_year :: "int \<Rightarrow> bool" where
  "leap_year y \<longleftrightarrow> y mod 4 = 0 \<and> (y mod 100 \<noteq> 0 \<or> y mod 400 = 0)"

definition days_in_month :: "int \<Rightarrow> int \<Rightarrow> int" where
  "days_in_month y m =
     (if m = 2 then (if leap_year y then 29 else 28)
      else if m = 4 \<or> m = 6 \<or> m = 9 \<or> m = 11 then 30 else 31)"

definition days_before_year :: "int \<Rightarrow> int" where
  "days_before_year y = 365 * y + (y + 3) div 4 - (y + 99) div 100 + (y + 399) div 400"

definition civil_day :: "int \<Rightarrow> int \<Rightarrow> int \<Rightarrow> int" where
  "civil_day y m d = days_before_year y + sum_list (map (days_in_month y) [1..m - 1]) + d - 1 - 719528"

definition ns_day :: int where "ns_day = 86400 * ns_second"

record civil_date =
  cd_year :: int
  cd_month :: int
  cd_day :: int

definition date_time :: "civil_date \<Rightarrow> gotime" where
  "date_time c = civil_day (cd_year c) (cd_month c) (cd_day c) * ns_day"

text \<open>
  \<open>time.Parse("2006-01-02", raw)\<close> on a string of ten bytes: four digits, two digits and two digits
  between hyphens, a month from 1 to 12 and a day that the month has. Printing the result in the
  same layout gives the same ten digits back, so the second test of the code always passes.
\<close>

definition parseSearchDate :: "string \<Rightarrow> go_error + civil_date" where
  "parseSearchDate raw =
     (if length raw \<noteq> 10 \<or> raw ! 4 \<noteq> CHR ''-'' \<or> raw ! 7 \<noteq> CHR ''-'' then Inl (Fail ''invalid date'')
      else let ys = take 4 raw; ms = take 2 (drop 5 raw); ds = drop 8 raw;
               y = digits_value ys; m = digits_value ms; d = digits_value ds
           in if \<not> list_all digit (ys @ ms @ ds) \<or> m < 1 \<or> 12 < m \<or> d < 1 \<or> days_in_month y m < d
              then Inl (Fail ''invalid date'')
              else Inr \<lparr>cd_year = y, cd_month = m, cd_day = d\<rparr>)"

subsection \<open>Trimming\<close>

text \<open>The runes of a string with their bytes, and \<open>strings.TrimFunc\<close> for a valid string.\<close>

function rune_chunks :: "string \<Rightarrow> (int option \<times> string) list" where
  "rune_chunks [] = []"
| "rune_chunks (c # cs) =
     (let (r, n) = first_rune (of_char c) (map of_char cs)
      in (r, c # take n cs) # rune_chunks (drop n cs))"
  by pat_completeness auto
termination
  by (relation "measure length") auto

definition isUnicode15WhiteSpace :: "int option \<Rightarrow> bool" where
  "isUnicode15WhiteSpace r =
     (case r of None \<Rightarrow> False
      | Some c \<Rightarrow>
          c \<in> {0x09, 0x0A, 0x0B, 0x0C, 0x0D, 0x20, 0x85, 0xA0, 0x1680, 0x2028, 0x2029, 0x202F, 0x205F, 0x3000} \<or>
          0x2000 \<le> c \<and> c \<le> 0x200A)"

definition trim_chunks :: "(int option \<times> string) list \<Rightarrow> (int option \<times> string) list" where
  "trim_chunks cs =
     (let white = (\<lambda>c. isUnicode15WhiteSpace (fst c))
      in rev (dropWhile white (rev (dropWhile white cs))))"

definition trimUnicode15WhiteSpace :: "string \<Rightarrow> string" where
  "trimUnicode15WhiteSpace s = concat (map snd (trim_chunks (rune_chunks s)))"

subsection \<open>Requests\<close>

record search_request =
  sr_query :: string
  sr_author_id :: int
  sr_area_slug :: string
  sr_from :: gotime
  sr_to_exclusive :: gotime
  sr_to_inclusive_maximum :: bool
  sr_page :: "8 word"

definition maximumSearchTime :: gotime where "maximumSearchTime = year_10000 - 1000"

definition is_zero_time :: "gotime \<Rightarrow> bool" where "is_zero_time t \<longleftrightarrow> t = zero_time"

definition invalid_search :: "go_error + 'a" where
  "invalid_search = Inl (Fail ''invalid search request'')"

definition allowed_keys :: "string list" where
  "allowed_keys = [''q'', ''author'', ''area'', ''from'', ''to'', ''page'']"

text \<open>The steps of \<open>ParseSearchRequest\<close> for one parameter each; a failed step ends the parse.\<close>

definition parse_q :: "(string \<Rightarrow> string) \<Rightarrow> (string \<times> string) list \<Rightarrow> string option" where
  "parse_q nfc values =
     (case single values ''q'' of
        None \<Rightarrow> Some []
      | Some q \<Rightarrow>
          let query = nfc (trimUnicode15WhiteSpace q) in
          if length query = 0 \<or> length query > MaximumSearchQueryBytes then None else Some query)"

definition parse_author :: "(string \<times> string) list \<Rightarrow> int option" where
  "parse_author values =
     (case single values ''author'' of
        None \<Rightarrow> Some 0
      | Some a \<Rightarrow> (case parseCanonicalPositiveInt64 a of Inl e \<Rightarrow> None | Inr i \<Rightarrow> Some i))"

definition parse_area :: "(string \<times> string) list \<Rightarrow> string option" where
  "parse_area values =
     (case single values ''area'' of
        None \<Rightarrow> Some []
      | Some a \<Rightarrow> if \<not> ValidAreaSlug a then None else Some a)"

definition parse_from :: "(string \<times> string) list \<Rightarrow> gotime option" where
  "parse_from values =
     (case single values ''from'' of
        None \<Rightarrow> Some zero_time
      | Some d \<Rightarrow> (case parseSearchDate d of Inl e \<Rightarrow> None | Inr c \<Rightarrow> Some (date_time c)))"

definition parse_to :: "(string \<times> string) list \<Rightarrow> (gotime \<times> bool) option" where
  "parse_to values =
     (case single values ''to'' of
        None \<Rightarrow> Some (zero_time, False)
      | Some d \<Rightarrow>
          (case parseSearchDate d of
             Inl e \<Rightarrow> None
           | Inr c \<Rightarrow>
               if cd_year c = 9999 \<and> cd_month c = 12 \<and> cd_day c = 31 then Some (maximumSearchTime, True)
               else Some (date_time c + ns_day, False)))"

definition bounds_ordered :: "gotime \<Rightarrow> gotime \<Rightarrow> bool \<Rightarrow> bool" where
  "bounds_ordered from to_exclusive inclusive =
     (if \<not> is_zero_time from \<and> \<not> is_zero_time to_exclusive
      then from < (if inclusive then to_exclusive + 1000 else to_exclusive) else True)"

definition parse_page :: "(string \<times> string) list \<Rightarrow> 8 word option" where
  "parse_page values =
     (case single values ''page'' of
        None \<Rightarrow> Some 1
      | Some p \<Rightarrow>
          (case parseCanonicalPositiveInt64 p of
             Inl e \<Rightarrow> None
           | Inr i \<Rightarrow> if i > 2 then None else Some (word_of_int i)))"

definition ParseSearchRequest :: "(string \<Rightarrow> string) \<Rightarrow> string \<Rightarrow> go_error + search_request" where
  "ParseSearchRequest nfc raw =
     (if length raw = 0 \<or> length raw > MaximumSearchRawQueryBytes \<or> \<not> validRawQuery raw then invalid_search
      else case ParseQuery raw of
        None \<Rightarrow> invalid_search
      | Some values \<Rightarrow>
          if values = [] then invalid_search
          else if list_ex (\<lambda>k. k \<notin> set allowed_keys \<or> length (url_entries values k) \<noteq> 1 \<or>
                                \<not> validDecoded (hd (url_entries values k))) (map fst values)
          then invalid_search
          else case parse_q nfc values of None \<Rightarrow> invalid_search
          | Some query \<Rightarrow> (case parse_author values of None \<Rightarrow> invalid_search
          | Some author \<Rightarrow>
              if query = [] \<and> author = 0 then invalid_search
              else case parse_area values of None \<Rightarrow> invalid_search
              | Some area \<Rightarrow> (case parse_from values of None \<Rightarrow> invalid_search
              | Some from \<Rightarrow> (case parse_to values of None \<Rightarrow> invalid_search
              | Some (to_exclusive, inclusive) \<Rightarrow>
                  if \<not> bounds_ordered from to_exclusive inclusive then invalid_search
                  else case parse_page values of None \<Rightarrow> invalid_search
                  | Some page \<Rightarrow>
                      Inr \<lparr>sr_query = query, sr_author_id = author, sr_area_slug = area, sr_from = from,
                           sr_to_exclusive = to_exclusive, sr_to_inclusive_maximum = inclusive,
                           sr_page = page\<rparr>))))"

definition ParseActivityCursorParameter :: "string \<Rightarrow> go_error + string" where
  "ParseActivityCursorParameter raw =
     (let invalid = Inl (Fail ''invalid activity request'') in
      if raw = [] then Inr []
      else if length raw > MaximumActivityRawBytes \<or> \<not> validRawQuery raw then invalid
      else case ParseQuery raw of
        None \<Rightarrow> invalid
      | Some values \<Rightarrow>
          if length (remdups (map fst values)) \<noteq> 1 then invalid
          else case url_entries values ''cursor'' of
            [c] \<Rightarrow> if length c \<noteq> EncodedCursorLength \<or> \<not> validDecoded c then invalid else Inr c
          | _ \<Rightarrow> invalid)"

text \<open>The check at the store boundary.\<close>

definition validSearchRequest :: "(string \<Rightarrow> string) \<Rightarrow> search_request \<Rightarrow> bool" where
  "validSearchRequest nfc r =
     (if sr_page r < 1 \<or> sr_page r > 2 \<or> sr_query r = [] \<and> sr_author_id r \<le> 0 \<or> sr_author_id r < 0 \<or>
         sr_query r \<noteq> [] \<and>
           (length (sr_query r) > MaximumSearchQueryBytes \<or> \<not> valid_utf8 (sr_query r) \<or>
            nfc (sr_query r) \<noteq> sr_query r \<or> trimUnicode15WhiteSpace (sr_query r) \<noteq> sr_query r) \<or>
         sr_area_slug r \<noteq> [] \<and> \<not> ValidAreaSlug (sr_area_slug r) \<or>
         \<not> is_zero_time (sr_from r) \<and> \<not> validMicrosecondTime (sr_from r) \<or>
         \<not> is_zero_time (sr_to_exclusive r) \<and> \<not> validMicrosecondTime (sr_to_exclusive r)
      then False
      else if sr_to_inclusive_maximum r \<noteq> (sr_to_exclusive r = maximumSearchTime) then False
      else if \<not> is_zero_time (sr_from r) \<and> \<not> is_zero_time (sr_to_exclusive r)
      then sr_from r < (if sr_to_inclusive_maximum r then sr_to_exclusive r + 1000 else sr_to_exclusive r)
      else True)"

end
