(* ===== verification/SearchFacts.thy ===== *)
theory SearchFacts
  imports SearchRequest
begin

text \<open>
  What the parser of search requests promises: trimming is stable, dates stay in their calendar, and
  the store accepts every parsed request whose dates are in the years 1 to 9999.
\<close>

subsection \<open>Runes and trimming\<close>

lemma first_rune_local:
  "first_rune b rest = (Some r, n) \<Longrightarrow> n \<le> length rest \<and> first_rune b (take n rest @ tail) = (Some r, n)"
  by (auto simp: first_rune_def Let_def split: if_splits list.splits)

definition chunk_ok :: "int option \<times> string \<Rightarrow> bool" where
  "chunk_ok c \<longleftrightarrow> snd c \<noteq> [] \<and> (\<exists>r. fst c = Some r) \<and>
     (\<forall>tail. first_rune (of_char (hd (snd c))) (map of_char (tl (snd c) @ tail)) =
        (fst c, length (snd c) - 1))"

lemma concat_rune_chunks [simp]: "concat (map snd (rune_chunks s)) = s"
proof (induction s rule: rune_chunks.induct)
  case (2 c cs)
  obtain r n where "first_rune (of_char c) (map of_char cs) = (r, n)" by force
  with 2 show ?case by simp
qed simp

lemma fst_rune_chunks: "map fst (rune_chunks s) = runes s"
proof (induction s rule: rune_chunks.induct)
  case (2 c cs)
  obtain r n where "first_rune (of_char c) (map of_char cs) = (r, n)" by force
  with 2 show ?case by (simp add: runes_def drop_map)
qed (simp add: runes_def)

lemma valid_utf8_chunks: "valid_utf8 s \<longleftrightarrow> (\<forall>c \<in> set (rune_chunks s). fst c \<noteq> None)"
  by (auto simp: valid_utf8_def list_all_iff fst_rune_chunks [symmetric])

lemma chunk_ok_chunks: "valid_utf8 s \<Longrightarrow> \<forall>c \<in> set (rune_chunks s). chunk_ok c"
proof (induction s rule: rune_chunks.induct)
  case (2 c cs)
  obtain r n where r: "first_rune (of_char c) (map of_char cs) = (r, n)" by force
  from 2(2) r have "r \<noteq> None" "valid_utf8 (drop n cs)" by (simp_all add: valid_utf8_chunks)
  moreover from this(1) obtain k where k: "r = Some k" by auto
  moreover have "chunk_ok (r, c # take n cs)"
    using first_rune_local [OF r [unfolded k]] by (auto simp: chunk_ok_def k take_map)
  ultimately show ?case using 2(1) r by simp
qed simp

lemma rune_chunks_concat: "\<forall>c \<in> set cs. chunk_ok c \<Longrightarrow> rune_chunks (concat (map snd cs)) = cs"
proof (induction cs)
  case Nil
  then show ?case by simp
next
  case (Cons x cs)
  obtain r w where x: "x = (r, w)" by force
  from Cons.prems have ok: "chunk_ok (r, w)" by (simp add: x)
  then obtain b t where w: "w = b # t" by (cases w) (auto simp: chunk_ok_def)
  from ok have "first_rune (of_char b) (map of_char (t @ concat (map snd cs))) = (r, length t)"
    unfolding chunk_ok_def w by (simp del: map_append)
  with Cons w x show ?case by simp
qed

lemma trim_chunks_subset: "set (trim_chunks cs) \<subseteq> set cs"
  by (auto simp: trim_chunks_def Let_def dest!: set_dropWhileD)

lemma trim_chunks_idem [simp]: "trim_chunks (trim_chunks cs) = trim_chunks cs"
proof -
  let ?w = "\<lambda>c. isUnicode15WhiteSpace (fst c)"
  define ds where "ds = dropWhile ?w cs"
  define es where "es = rev (dropWhile ?w (rev ds))"
  have pre: "\<exists>zs. ds = es @ zs"
    by (metis es_def rev_append rev_rev_ident takeWhile_dropWhile_id)
  have "dropWhile ?w es = es"
  proof (cases es)
    case (Cons e es')
    with pre have "ds \<noteq> [] \<and> hd ds = e" by auto
    then have "\<not> ?w e" unfolding ds_def by (metis hd_dropWhile)
    with Cons show ?thesis by simp
  qed simp
  moreover have "dropWhile ?w (rev es) = rev es" by (simp add: es_def dropWhile_idem)
  ultimately show ?thesis by (simp add: trim_chunks_def Let_def ds_def es_def)
qed

lemma rune_chunks_trim:
  "valid_utf8 s \<Longrightarrow> rune_chunks (trimUnicode15WhiteSpace s) = trim_chunks (rune_chunks s)"
  using chunk_ok_chunks [of s] trim_chunks_subset [of "rune_chunks s"]
  by (auto simp: trimUnicode15WhiteSpace_def intro!: rune_chunks_concat)

lemma trim_idem: "valid_utf8 s \<Longrightarrow> trimUnicode15WhiteSpace (trimUnicode15WhiteSpace s) = trimUnicode15WhiteSpace s"
  by (simp add: trimUnicode15WhiteSpace_def [of "trimUnicode15WhiteSpace s"] rune_chunks_trim)
     (simp add: trimUnicode15WhiteSpace_def)

lemma trim_valid: "valid_utf8 s \<Longrightarrow> valid_utf8 (trimUnicode15WhiteSpace s)"
  using trim_chunks_subset [of "rune_chunks s"] by (auto simp: valid_utf8_chunks rune_chunks_trim)

subsection \<open>Dates\<close>

lemma of_char_int: "(of_char c :: int) = int (of_char c)"
  by (simp add: of_nat_of_char)

lemma foldl_digits: "list_all digit s \<Longrightarrow> 0 \<le> n \<Longrightarrow>
    0 \<le> foldl (\<lambda>n c. 10 * n + (of_char c - 48)) (n :: int) s \<and>
    foldl (\<lambda>n c. 10 * n + (of_char c - 48)) n s < (n + 1) * 10 ^ length s"
proof (induction s arbitrary: n)
  case Nil
  then show ?case by simp
next
  case (Cons c s)
  have "CHR ''0'' \<le> c" "c \<le> CHR ''9''" using Cons.prems by (simp_all add: digit_def in_range_def)
  then have c: "0 \<le> (of_char c :: int) - 48" "(of_char c :: int) - 48 \<le> 9"
    by (simp_all add: less_eq_char_def of_char_int)
  then have n': "0 \<le> 10 * n + (of_char c - 48)" "10 * n + (of_char c - 48) + 1 \<le> (n + 1) * 10"
    using Cons.prems(2) by simp_all
  have "foldl (\<lambda>n c. 10 * n + (of_char c - 48)) n (c # s) < (10 * n + (of_char c - 48) + 1) * 10 ^ length s"
    using Cons.IH [OF _ n'(1)] Cons.prems by simp
  also have "\<dots> \<le> (n + 1) * 10 * 10 ^ length s"
    using n'(2) by (intro mult_right_mono) simp_all
  finally show ?case using Cons.IH [OF _ n'(1)] Cons.prems by (simp add: algebra_simps)
qed

lemma digits_value_bounds: "list_all digit s \<Longrightarrow> 0 \<le> digits_value s \<and> digits_value s < 10 ^ length s"
  using foldl_digits [of s 0] by (simp add: digits_value_def)

lemma div_round_up:
  fixes y n :: int
  assumes "0 < n"
  shows "(y + (n - 1)) div n = y div n + (if y mod n = 0 then 0 else 1)"
proof (cases "y mod n = 0")
  case True
  have "y + (n - 1) = (n - 1) + y div n * n"
    using True div_mult_mod_eq [of y n] by simp
  then have "(y + (n - 1)) div n = y div n + (n - 1) div n"
    using assms by (metis div_mult_self1 less_irrefl)
  with True assms show ?thesis by (simp add: div_pos_pos_trivial)
next
  case False
  have "y + (n - 1) = (y mod n - 1) + (y div n + 1) * n"
    using div_mult_mod_eq [of y n] by (simp add: algebra_simps)
  then have "(y + (n - 1)) div n = (y div n + 1) + (y mod n - 1) div n"
    using assms by (metis div_mult_self1 less_irrefl)
  moreover have "0 \<le> y mod n - 1" "y mod n - 1 < n"
    using False pos_mod_sign [OF assms, of y] pos_mod_bound [OF assms, of y] by linarith+
  ultimately show ?thesis using False by (simp add: div_pos_pos_trivial)
qed

lemma div_round_step:
  fixes y n :: int
  assumes "0 < n"
  shows "(y + n) div n = (y + (n - 1)) div n + (if y mod n = 0 then 1 else 0)"
  unfolding div_round_up [OF assms] using div_add_self2 [of n y] assms by simp

lemma leap_step:
  "(p100 \<longrightarrow> p4) \<Longrightarrow> (p400 \<longrightarrow> p100) \<Longrightarrow>
   365 * (y + 1) + (a + (if p4 then 1 else 0)) - (b + (if p100 then 1 else 0)) + (c + (if p400 then 1 else 0)) =
   365 * y + a - b + c + (if p4 \<and> (\<not> p100 \<or> p400) then 366 else (365 :: int))"
  by (cases p4; cases p100; cases p400; simp)

lemma days_before_year_Suc: "days_before_year (y + 1) = days_before_year y + (if leap_year y then 366 else 365)"
proof -
  have d: "(4 :: int) dvd 100" "(100 :: int) dvd 400" by simp_all
  have m: "y mod 100 = 0 \<longrightarrow> y mod 4 = 0" "y mod 400 = 0 \<longrightarrow> y mod 100 = 0"
    unfolding mod_eq_0_iff_dvd using dvd_trans [OF d(1)] dvd_trans [OF d(2)] by blast+
  have "y + 1 + 3 = y + 4" "y + 1 + 99 = y + 100" "y + 1 + 399 = y + 400" by simp_all
  then have "(y + 1 + 3) div 4 = (y + 3) div 4 + (if y mod 4 = 0 then 1 else 0)"
    "(y + 1 + 99) div 100 = (y + 99) div 100 + (if y mod 100 = 0 then 1 else 0)"
    "(y + 1 + 399) div 400 = (y + 399) div 400 + (if y mod 400 = 0 then 1 else 0)"
    using div_round_step [of 4 y] div_round_step [of 100 y] div_round_step [of 400 y]
    by (simp_all only: zero_less_numeral simp_thms)
  then show ?thesis
    unfolding days_before_year_def leap_year_def by (simp only: leap_step [OF m])
qed

lemma days_before_year_mono: "y \<le> z \<Longrightarrow> days_before_year y \<le> days_before_year z"
proof (induction z rule: int_ge_induct)
  case (step z)
  then show ?case by (simp add: days_before_year_Suc split: if_splits)
qed simp

text \<open>A date lies in its year, and is the last of the year only on December 31.\<close>

lemma month_days: "1 \<le> m \<Longrightarrow> m \<le> 12 \<Longrightarrow> 1 \<le> d \<Longrightarrow> d \<le> days_in_month y m \<Longrightarrow>
    0 \<le> sum_list (map (days_in_month y) [1..m - 1]) + d - 1 \<and>
    sum_list (map (days_in_month y) [1..m - 1]) + d - 1 < (if leap_year y then 366 else 365) \<and>
    (m \<noteq> 12 \<or> d \<noteq> 31 \<longrightarrow>
      sum_list (map (days_in_month y) [1..m - 1]) + d < (if leap_year y then 366 else 365))"
proof -
  assume m: "1 \<le> m" "m \<le> 12" and d: "1 \<le> d" "d \<le> days_in_month y m"
  have "m \<in> set [1..12]" using m by simp
  then have "m \<in> {1, 2, 3, 4, 5, 6, 7, 8, 9, 10, 11, 12}" by (simp add: upto.simps)
  then show ?thesis
    using d by (elim insertE emptyE; simp add: upto.simps days_in_month_def split: if_splits)
qed

definition date_ok :: "civil_date \<Rightarrow> bool" where
  "date_ok c \<longleftrightarrow> 0 \<le> cd_year c \<and> cd_year c \<le> 9999 \<and> 1 \<le> cd_month c \<and> cd_month c \<le> 12 \<and> 1 \<le> cd_day c \<and>
     cd_day c \<le> days_in_month (cd_year c) (cd_month c)"

lemma parseSearchDate_ok: "parseSearchDate raw = Inr c \<Longrightarrow> date_ok c"
  using digits_value_bounds [of "take 4 raw"]
  by (auto simp: parseSearchDate_def Let_def date_ok_def split: if_splits)

lemma civil_day_bounds:
  assumes "date_ok c"
  shows "civil_day (cd_year c) (cd_month c) (cd_day c) < 2932897"
    "civil_day (cd_year c) (cd_month c) (cd_day c) < 2932896 \<or>
       cd_year c = 9999 \<and> cd_month c = 12 \<and> cd_day c = 31"
    "- 719528 \<le> civil_day (cd_year c) (cd_month c) (cd_day c)"
proof -
  let ?y = "cd_year c"
  have ends: "days_before_year 0 = 0" "days_before_year 9999 = 3652060" "days_before_year 10000 = 3652425"
    by (simp_all add: days_before_year_def)
  have up: "days_before_year (?y + 1) \<le> 3652425" and low: "0 \<le> days_before_year ?y"
    using days_before_year_mono [of "?y + 1" 10000] days_before_year_mono [of 0 ?y] assms
    by (simp_all add: date_ok_def ends)
  have less: "?y \<noteq> 9999 \<Longrightarrow> days_before_year (?y + 1) \<le> 3652060"
    using days_before_year_mono [of "?y + 1" 9999] assms by (simp add: date_ok_def ends)
  from assms have d: "1 \<le> cd_month c" "cd_month c \<le> 12" "1 \<le> cd_day c"
    "cd_day c \<le> days_in_month ?y (cd_month c)" by (simp_all add: date_ok_def)
  note m = month_days [OF d]
  show "civil_day ?y (cd_month c) (cd_day c) < 2932897" "- 719528 \<le> civil_day ?y (cd_month c) (cd_day c)"
    using m up low by (auto simp: civil_day_def days_before_year_Suc split: if_splits)
  show "civil_day ?y (cd_month c) (cd_day c) < 2932896 \<or> ?y = 9999 \<and> cd_month c = 12 \<and> cd_day c = 31"
  proof (cases "?y = 9999")
    case True
    then have "\<not> leap_year ?y" by (simp add: leap_year_def)
    with True m show ?thesis by (auto simp: civil_day_def ends)
  next
    case False
    with m less show ?thesis by (auto simp: civil_day_def days_before_year_Suc split: if_splits)
  qed
qed

lemma day_time:
  "d < 2932897 \<Longrightarrow> d * ns_day < year_10000" "(d * ns_day) mod ns_second mod 1000 = 0"
  "d * ns_day \<noteq> maximumSearchTime"
proof -
  show "d < 2932897 \<Longrightarrow> d * ns_day < year_10000"
    by (simp add: ns_day_def year_10000_def ns_second_def)
  have k: "d * ns_day = (d * 86400) * ns_second" by (simp add: ns_day_def)
  have z: "(d * ns_day) mod ns_second = 0" unfolding k by simp
  then show "(d * ns_day) mod ns_second mod 1000 = 0" by simp
  have "maximumSearchTime mod ns_second \<noteq> 0"
    by (simp add: maximumSearchTime_def year_10000_def ns_second_def)
  with z show "d * ns_day \<noteq> maximumSearchTime" by auto
qed

lemma date_time_valid:
  assumes "date_ok c"
  shows "validMicrosecondTime (date_time c) \<longleftrightarrow> zero_time \<le> date_time c"
  using civil_day_bounds [OF assms] day_time by (simp add: validMicrosecondTime_def date_time_def)

lemma next_day_valid:
  assumes "date_ok c" and "\<not> (cd_year c = 9999 \<and> cd_month c = 12 \<and> cd_day c = 31)"
  shows "validMicrosecondTime (date_time c + ns_day) \<longleftrightarrow> zero_time \<le> date_time c + ns_day"
    "date_time c + ns_day \<noteq> maximumSearchTime"
proof -
  have eq: "date_time c + ns_day = (civil_day (cd_year c) (cd_month c) (cd_day c) + 1) * ns_day"
    by (simp add: date_time_def algebra_simps)
  have "civil_day (cd_year c) (cd_month c) (cd_day c) + 1 < 2932897"
    using civil_day_bounds(2) [OF assms(1)] assms(2) by auto
  then show "validMicrosecondTime (date_time c + ns_day) \<longleftrightarrow> zero_time \<le> date_time c + ns_day"
    "date_time c + ns_day \<noteq> maximumSearchTime"
    unfolding eq using day_time by (simp_all add: validMicrosecondTime_def)
qed

subsection \<open>Parsed requests\<close>

lemma parseCanonicalPositiveInt64_pos: "parseCanonicalPositiveInt64 raw = Inr i \<Longrightarrow> 0 < i"
  by (auto simp: parseCanonicalPositiveInt64_def Let_def split: if_splits)

lemma single_entries: "single values k = Some v \<Longrightarrow> k \<in> set (map fst values) \<and> v = hd (url_entries values k)"
  by (force simp: single_def url_entries_def filter_eq_Cons_iff split: list.splits)

lemma parse_q_Some:
  assumes "parse_q nfc values = Some q" "\<forall>k \<in> set (map fst values). validDecoded (hd (url_entries values k))"
    and nfc: "\<And>s. valid_utf8 s \<Longrightarrow> valid_utf8 (nfc s) \<and> nfc (nfc s) = nfc s"
      "\<And>s. valid_utf8 s \<Longrightarrow> trimUnicode15WhiteSpace s = s \<Longrightarrow> trimUnicode15WhiteSpace (nfc s) = nfc s"
  shows "q = [] \<or> length q \<le> 256 \<and> valid_utf8 q \<and> nfc q = q \<and> trimUnicode15WhiteSpace q = q"
proof (cases "single values ''q''")
  case None
  with assms(1) show ?thesis by (simp add: parse_q_def)
next
  case (Some s)
  with single_entries [OF Some] assms(2) have v: "valid_utf8 s" by (auto simp: validDecoded_def split: if_splits)
  from Some assms(1) have "q = nfc (trimUnicode15WhiteSpace s)" "length q \<le> 256"
    by (auto simp: parse_q_def Let_def MaximumSearchQueryBytes_def split: if_splits)
  with nfc(1,2) [OF trim_valid [OF v]] trim_idem [OF v] show ?thesis by simp
qed

lemma parse_from_Some: "parse_from values = Some t \<Longrightarrow>
    t = zero_time \<or> (validMicrosecondTime t \<longleftrightarrow> zero_time \<le> t)"
  by (auto simp: parse_from_def split: option.splits sum.splits dest!: parseSearchDate_ok date_time_valid)

lemma parse_to_Some: "parse_to values = Some (t, i) \<Longrightarrow>
    (t = zero_time \<or> (validMicrosecondTime t \<longleftrightarrow> zero_time \<le> t)) \<and> (i \<longleftrightarrow> t = maximumSearchTime)"
proof -
  have top: "validMicrosecondTime maximumSearchTime" "zero_time \<noteq> maximumSearchTime"
    by (simp_all add: validMicrosecondTime_def maximumSearchTime_def year_10000_def zero_time_def ns_second_def)
  assume "parse_to values = Some (t, i)"
  then show ?thesis
    using top next_day_valid [OF parseSearchDate_ok]
    by (auto simp: parse_to_def validMicrosecondTime_def split: option.splits sum.splits if_splits)
qed

lemma parse_page_Some: "parse_page values = Some p \<Longrightarrow> p = 1 \<or> p = 2"
proof -
  assume "parse_page values = Some p"
  then consider "p = 1" | i where "p = word_of_int i" "0 < i" "i \<le> 2"
    by (auto simp: parse_page_def split: option.splits sum.splits if_splits dest: parseCanonicalPositiveInt64_pos)
  then show ?thesis
  proof cases
    case 2
    then have "i = 1 \<or> i = 2" by linarith
    with 2(1) show ?thesis by auto
  qed simp
qed

lemma ParseSearchRequest_Inr:
  assumes "ParseSearchRequest nfc raw = Inr r"
  shows "\<exists>values. (\<forall>k \<in> set (map fst values). validDecoded (hd (url_entries values k))) \<and>
    parse_q nfc values = Some (sr_query r) \<and> parse_author values = Some (sr_author_id r) \<and>
    (sr_query r \<noteq> [] \<or> sr_author_id r \<noteq> 0) \<and> parse_area values = Some (sr_area_slug r) \<and>
    parse_from values = Some (sr_from r) \<and>
    parse_to values = Some (sr_to_exclusive r, sr_to_inclusive_maximum r) \<and>
    bounds_ordered (sr_from r) (sr_to_exclusive r) (sr_to_inclusive_maximum r) \<and>
    parse_page values = Some (sr_page r)"
  using assms
  by (auto simp: ParseSearchRequest_def invalid_search_def list_ex_iff split: if_splits option.splits prod.splits)

text \<open>
  C40. The store accepts what the parser produces, except for dates before year 1: a parsed request passes
  the revalidation at the store boundary exactly when neither of its bounds lies before January 1 of
  year 1. Normalization is assumed to be idempotent, to keep valid UTF-8 valid and to leave a trimmed
  string trimmed.
\<close>

theorem parsed_search_is_valid:
  assumes nfc: "\<And>s. valid_utf8 s \<Longrightarrow> valid_utf8 (nfc s) \<and> nfc (nfc s) = nfc s"
      "\<And>s. valid_utf8 s \<Longrightarrow> trimUnicode15WhiteSpace s = s \<Longrightarrow> trimUnicode15WhiteSpace (nfc s) = nfc s"
    and parsed: "ParseSearchRequest nfc raw = Inr r"
  shows "validSearchRequest nfc r \<longleftrightarrow> zero_time \<le> sr_from r \<and> zero_time \<le> sr_to_exclusive r"
proof -
  from ParseSearchRequest_Inr [OF parsed] obtain vs where
    dec: "\<forall>k \<in> set (map fst vs). validDecoded (hd (url_entries vs k))"
    and q: "parse_q nfc vs = Some (sr_query r)" and a: "parse_author vs = Some (sr_author_id r)"
    and initiated: "sr_query r \<noteq> [] \<or> sr_author_id r \<noteq> 0" and area: "parse_area vs = Some (sr_area_slug r)"
    and bounds: "parse_from vs = Some (sr_from r)"
      "parse_to vs = Some (sr_to_exclusive r, sr_to_inclusive_maximum r)"
      "bounds_ordered (sr_from r) (sr_to_exclusive r) (sr_to_inclusive_maximum r)"
    and pg: "parse_page vs = Some (sr_page r)" by blast
  have query: "sr_query r = [] \<or> length (sr_query r) \<le> 256 \<and> valid_utf8 (sr_query r) \<and>
      nfc (sr_query r) = sr_query r \<and> trimUnicode15WhiteSpace (sr_query r) = sr_query r"
    using parse_q_Some [OF q dec] nfc by blast
  have author: "0 \<le> sr_author_id r"
    using a by (auto simp: parse_author_def split: option.splits sum.splits dest: parseCanonicalPositiveInt64_pos)
  have slug: "sr_area_slug r = [] \<or> ValidAreaSlug (sr_area_slug r)"
    using area by (auto simp: parse_area_def split: option.splits if_splits)
  have page': "\<not> (sr_page r < 1 \<or> sr_page r > 2)"
    using parse_page_Some [OF pg] by auto
  have zero: "validMicrosecondTime t \<Longrightarrow> zero_time \<le> t" for t by (simp add: validMicrosecondTime_def)
  have "validSearchRequest nfc r \<longleftrightarrow>
      (sr_from r = zero_time \<or> validMicrosecondTime (sr_from r)) \<and>
      (sr_to_exclusive r = zero_time \<or> validMicrosecondTime (sr_to_exclusive r))"
    using query author slug page' initiated parse_to_Some [OF bounds(2)] bounds(3)
    by (auto simp: validSearchRequest_def bounds_ordered_def is_zero_time_def MaximumSearchQueryBytes_def
        split: if_splits)
  then show ?thesis
    using parse_from_Some [OF bounds(1)] parse_to_Some [OF bounds(2)] zero by auto
qed

definition search_example :: string where
  "search_example = ''q=+tea%20time+&author=42&area=public-square&from=2026-02-01&to=9999-12-31&page=2''"

theorem parsed_search_is_valid_witness:
  "\<exists>r. ParseSearchRequest id search_example = Inr r \<and> sr_query r = ''tea time'' \<and> validSearchRequest id r"
proof -
  define r where "r = projr (ParseSearchRequest id search_example)"
  have r: "ParseSearchRequest id search_example = Inr r" "sr_query r = ''tea time''"
    "zero_time \<le> sr_from r" "zero_time \<le> sr_to_exclusive r"
    unfolding r_def by code_simp+
  have "validSearchRequest id r"
    using parsed_search_is_valid [of id, OF _ _ r(1)] r(3,4) by simp
  with r show ?thesis by blast
qed

text \<open>
  The parser accepts dates of year 0, which the specification excludes: such a lower bound is parsed
  and then refused by the store, an upper bound of 0000-12-31 silently becomes no bound at all, and the
  order of the two bounds is then not checked.
\<close>

lemma year_zero_dates_parsed:
  "map_sum id (validSearchRequest id) (ParseSearchRequest id ''q=tea&from=0000-05-01'') = Inr False \<and>
   ParseSearchRequest id ''q=tea&to=0000-12-31'' = ParseSearchRequest id ''q=tea'' \<and>
   map_sum id (validSearchRequest id) (ParseSearchRequest id ''q=tea&from=0001-01-01&to=0000-12-31'') = Inr True"
  by (intro conjI) code_simp+

end
