(* ===== verification/AuthLaws.thy ===== *)
theory AuthLaws
  imports BoardLaws
begin

text \<open>
  What no sequence of services can undo in \<open>internal/auth\<close>: the keys of sessions and login attempts
  stay unique, a credential whose session was revoked stays dead, and a login state that was consumed
  stays consumed. Each law is an interpretation of the board interface.
\<close>

subsection \<open>Marked keys\<close>

text \<open>A key is in the table, and every row with it carries a mark.\<close>

definition all_marked :: "('r \<Rightarrow> 'k) \<Rightarrow> ('r \<Rightarrow> bool) \<Rightarrow> 'k \<Rightarrow> 'r list \<Rightarrow> bool" where
  "all_marked k d h rows \<longleftrightarrow> (\<exists>r \<in> set rows. k r = h) \<and> (\<forall>r \<in> set rows. k r = h \<longrightarrow> d r)"

lemma all_marked_upd:
  assumes "all_marked k d h rows" and "\<And>r. p r \<Longrightarrow> k (f r) = k r" and "\<And>r. p r \<Longrightarrow> d r \<Longrightarrow> d (f r)"
  shows "all_marked k d h (upd_where p f rows)"
proof -
  let ?g = "\<lambda>r. if p r then f r else r"
  have key: "k (?g r) = k r" and mark: "d r \<Longrightarrow> d (?g r)" for r using assms(2,3) by auto
  from assms(1) obtain r where "r \<in> set rows" "k r = h" by (auto simp: all_marked_def)
  then have "?g r \<in> set (upd_where p f rows)" "k (?g r) = h" by (auto simp: set_upd_where key)
  moreover have "d r'" if "r' \<in> set (upd_where p f rows)" "k r' = h" for r'
  proof -
    from that obtain q where q: "q \<in> set rows" "r' = ?g q" unfolding set_upd_where by blast
    with that(2) have "k q = h" using key [of q] by simp
    with q(1) assms(1) have "d q" by (auto simp: all_marked_def)
    with q(2) show "d r'" using mark [of q] by simp
  qed
  ultimately show ?thesis by (auto simp: all_marked_def)
qed

lemma all_marked_append:
  "all_marked k d h rows \<Longrightarrow> \<not> list_ex (\<lambda>r. k r = k new) rows \<Longrightarrow> all_marked k d h (rows @ [new])"
  unfolding all_marked_def by (auto simp: list_ex_iff)

lemma all_marked_filter: "all_marked k d h rows \<Longrightarrow> (\<And>r. d r \<Longrightarrow> q r) \<Longrightarrow> all_marked k d h (filter q rows)"
  unfolding all_marked_def by auto

lemma all_marked_unique:
  assumes "distinct (map k rows)" and "r \<in> set rows" and "d r"
  shows "all_marked k d (k r) rows"
  using assms distinct_key_eq [OF assms(1) _ assms(2)] unfolding all_marked_def by blast

subsection \<open>Keys\<close>

definition auth_keys :: "forum_db \<Rightarrow> bool" where
  "auth_keys db \<longleftrightarrow>
     distinct (map s_id (db_sessions db)) \<and> distinct (map s_token_hash (db_sessions db)) \<and>
     distinct (map la_state_hash (db_login_attempts db))"

definition keys_stay :: "forum_db \<Rightarrow> forum_db \<Rightarrow> bool" where
  "keys_stay db db' \<longleftrightarrow> (auth_keys db \<longrightarrow> auth_keys db')"

interpretation auth_keys: table_relation keys_stay
  by unfold_locales (auto simp: keys_stay_def auth_keys_def)

lemma attempts_insert_topic:
  "db_login_attempts (snd (insert_topic area author title search stamp body db)) = db_login_attempts db"
  by (auto simp: insert_topic_def Let_def case_prod_unfold nextval_def split: sum.split)

lemma attempts_insert_reply:
  "db_login_attempts (snd (insert_reply author body parent stamp topic db)) = db_login_attempts db"
  by (auto simp: insert_reply_def Let_def case_prod_unfold nextval_def split: option.split sum.split)

lemmas auth_tables_unchanged =
  sessions_insert_topic sessions_insert_reply attempts_insert_topic attempts_insert_reply

lemma keys_insert_topic: "auth_keys (snd (insert_topic area author title search stamp body db)) = auth_keys db"
  by (simp add: auth_keys_def auth_tables_unchanged)

lemma keys_insert_reply: "auth_keys (snd (insert_reply author body parent stamp topic db)) = auth_keys db"
  by (simp add: auth_keys_def auth_tables_unchanged)

interpretation auth_keys_free: registration_free keys_stay
  by unfold_locales (simp_all add: keys_stay_def auth_keys_def)

interpretation auth_keys_board: board_relation keys_stay
  by (unfold_locales; (unfold row_statements changed_rows)?; (unfold shared_statements)?;
      (intro auth_keys.relates_bind auth_keys.relates_clock auth_keys.relates_statement)?;
      (auto simp: keys_stay_def auth_keys_def Let_def case_prod_unfold auth_tables_unchanged map_upd_where
        list_ex_iff new_session_def distinct_map_filter split: option.split))

lemma board_run_auth_keys: "board_run db db' \<Longrightarrow> auth_keys db \<Longrightarrow> auth_keys db'"
  using auth_keys_board.board_run_relates by (simp add: keys_stay_def)

subsection \<open>Dead credentials\<close>

definition dead_token :: "forum_db \<Rightarrow> bytes \<Rightarrow> bool" where
  "dead_token db h \<longleftrightarrow> all_marked s_token_hash (\<lambda>s. s_revoked_at s \<noteq> None) h (db_sessions db)"

definition dead_tokens_stay :: "forum_db \<Rightarrow> forum_db \<Rightarrow> bool" where
  "dead_tokens_stay db db' \<longleftrightarrow> (\<forall>h. dead_token db h \<longrightarrow> dead_token db' h)"

interpretation dead_tokens: table_relation dead_tokens_stay
  by unfold_locales (auto simp: dead_tokens_stay_def dead_token_def)

interpretation dead_tokens_free: registration_free dead_tokens_stay
  by unfold_locales (simp_all add: dead_tokens_stay_def dead_token_def)

interpretation dead_tokens_board: board_relation dead_tokens_stay
  by (unfold_locales; (unfold row_statements changed_rows)?; (unfold shared_statements)?;
      (intro dead_tokens.relates_bind dead_tokens.relates_clock dead_tokens.relates_statement)?;
      (auto simp: dead_tokens_stay_def dead_token_def Let_def case_prod_unfold auth_tables_unchanged new_session_def
        intro!: all_marked_upd all_marked_append split: option.split))

lemma board_run_dead_token: "board_run db db' \<Longrightarrow> dead_token db h \<Longrightarrow> dead_token db' h"
  using dead_tokens_board.board_run_relates by (auto simp: dead_tokens_stay_def)

subsection \<open>Spent login states\<close>

definition spent_state :: "forum_db \<Rightarrow> bytes \<Rightarrow> bool" where
  "spent_state db h \<longleftrightarrow> all_marked la_state_hash (\<lambda>a. la_consumed_at a \<noteq> None) h (db_login_attempts db)"

definition spent_states_stay :: "forum_db \<Rightarrow> forum_db \<Rightarrow> bool" where
  "spent_states_stay db db' \<longleftrightarrow> (\<forall>h. spent_state db h \<longrightarrow> spent_state db' h)"

interpretation spent_states: table_relation spent_states_stay
  by unfold_locales (auto simp: spent_states_stay_def spent_state_def)

interpretation spent_states_free: registration_free spent_states_stay
  by unfold_locales (simp_all add: spent_states_stay_def spent_state_def)

interpretation spent_states_board: board_relation spent_states_stay
  by (unfold_locales; (unfold row_statements changed_rows)?; (unfold shared_statements)?;
      (intro spent_states.relates_bind spent_states.relates_clock spent_states.relates_statement)?;
      (auto simp: spent_states_stay_def spent_state_def Let_def case_prod_unfold auth_tables_unchanged
        intro!: all_marked_upd all_marked_append all_marked_filter split: option.split))

lemma board_run_spent_state: "board_run db db' \<Longrightarrow> spent_state db h \<Longrightarrow> spent_state db' h"
  using spent_states_board.board_run_relates by (auto simp: spent_states_stay_def)

end
