(* ===== verification/SessionFacts.thy ===== *)
theory SessionFacts
  imports AuthLaws Example
begin

text \<open>
  What the session services promise: a request is authenticated only by a live session of an account
  that may act, with the authority the tables hold now; every such session does authenticate; and a
  session that was revoked never does again.
\<close>

subsection \<open>Live sessions\<close>

text \<open>The instant of a call, as the service truncates it, and the durations its policy gives.\<close>

definition service_now :: "auth_service \<Rightarrow> gotime" where
  "service_now sv = (case sv_clock sv of None \<Rightarrow> 0 | Some c \<Rightarrow> truncate_us (c 0))"

definition session_policy :: "auth_service \<Rightarrow> forum_db \<Rightarrow> duration \<Rightarrow> duration \<Rightarrow> bool" where
  "session_policy sv db idle revalidation \<longleftrightarrow>
     ns_second \<le> idle \<and> ns_second \<le> revalidation \<and>
     (if sv_dynamic sv
      then \<exists>st. db_settings db = [st] \<and> idle = st_session_idle_seconds st * ns_second \<and>
             revalidation = st_auth_revalidate_seconds st * ns_second \<and>
             idle \<le> cg_session_idle (sv_ceilings sv) \<and> revalidation \<le> cg_auth_revalidate (sv_ceilings sv) \<and>
             idle \<le> cg_session_maximum_age (sv_ceilings sv) \<and> revalidation \<le> cg_session_maximum_age (sv_ceilings sv)
      else idle = sv_idle sv \<and> revalidation = sv_revalidation sv)"

text \<open>A session with this credential that is not revoked, expired or idle, of an accepted account.\<close>

definition live_session :: "forum_db \<Rightarrow> bytes \<Rightarrow> gotime \<Rightarrow> duration \<Rightarrow> session_row \<Rightarrow> user_row \<Rightarrow> bool" where
  "live_session db h now idle s u \<longleftrightarrow>
     s \<in> set (db_sessions db) \<and> s_token_hash s = h \<and> s_revoked_at s = None \<and> s_expires_at s > At now \<and>
     s_last_seen_at s > At (now - idle) \<and> find_user db (s_user_id s) = Some u \<and>
     u_sync_state u = ''accepted'' \<and> sql_unsuspended (At now) u"

text \<open>The times and the account of a session the code accepts from the loader.\<close>

definition sane_session :: "forum_db \<Rightarrow> gotime \<Rightarrow> session_row \<Rightarrow> user_row \<Rightarrow> bool" where
  "sane_session db now s u \<longleftrightarrow>
     0 < s_id s \<and> 0 < s_user_id s \<and> session_role (u_role u) \<noteq> None \<and>
     ascending_groups 0 (group_ids_of_user db (u_id u)) \<and>
     (\<exists>i l v e. s_issued_at s = At i \<and> s_last_seen_at s = At l \<and> s_validated_at s = At v \<and> s_expires_at s = At e \<and>
        i \<le> l \<and> l \<le> now \<and> i \<le> v \<and> v \<le> now \<and> l \<le> e \<and> v \<le> e)"

definition authority_of :: "forum_db \<Rightarrow> gotime \<Rightarrow> duration \<Rightarrow> session_row \<Rightarrow> user_row \<Rightarrow> session_authentication \<Rightarrow> bool" where
  "authority_of db now revalidation s u a \<longleftrightarrow>
     ac_authenticated (sa_access a) \<and> sa_session_id a = s_id s \<and> ac_user_id (sa_access a) = s_user_id s \<and>
     session_role (u_role u) = Some (ac_role (sa_access a)) \<and>
     ac_group_ids (sa_access a) = group_ids_of_user db (u_id u) \<and> Policy.Valid (sa_access a) \<and>
     (sa_requires_revalidation a \<longleftrightarrow> ts_time (Some (s_validated_at s)) \<le> now - revalidation)"

text \<open>At most the last activity of one session is written.\<close>

definition only_touched :: "int \<Rightarrow> gotime \<Rightarrow> forum_db \<Rightarrow> forum_db \<Rightarrow> bool" where
  "only_touched i now db db' \<longleftrightarrow>
     db' = db\<lparr>db_sessions := db_sessions db'\<rparr> \<and>
     list_all2 (\<lambda>s s'. s' = s \<or> s_id s = i \<and> s' = s\<lparr>s_last_seen_at := At now\<rparr>) (db_sessions db) (db_sessions db')"

lemma only_touched_refl [simp]: "only_touched i now db db"
  by (simp add: only_touched_def list_all2_refl)

subsection \<open>The pieces\<close>

lemma find_by_key:
  assumes "distinct (map k rows)" and "r \<in> set rows" and "P r" and "\<And>x. P x \<Longrightarrow> k x = k r"
  shows "find P rows = Some r"
proof (cases "find P rows")
  case None
  with assms(2,3) show ?thesis by (auto simp: find_None_iff2)
next
  case (Some y)
  then have y: "y \<in> set rows" "P y" by (auto dest: find_Some_iff2)
  have "y = r" by (rule distinct_key_eq [OF assms(1) y(1) assms(2) assms(4) [OF y(2)]])
  with Some show ?thesis by simp
qed

lemma active_session_for_Some:
  assumes "auth_keys db" and "active_session_for db h (At now) (At (now - idle)) = Some (s, u)"
  shows "live_session db h now idle s u"
proof -
  let ?hit = "\<lambda>i s. s_id s = i \<and> s_revoked_at s = None \<and> s_expires_at s > At now \<and> s_last_seen_at s > At (now - idle)"
  from assms(2) obtain s0 where s0: "find (\<lambda>s. s_token_hash s = h) (db_sessions db) = Some s0"
    by (cases "find (\<lambda>s. s_token_hash s = h) (db_sessions db)") (simp_all add: active_session_for_def session_id_for_token_def)
  from assms(2) have s: "find (?hit (s_id s0)) (db_sessions db) = Some s"
    and u: "find_user db (s_user_id s) = Some u" "u_sync_state u = ''accepted''" "sql_unsuspended (At now) u"
    by (simp_all add: active_session_for_def session_id_for_token_def s0 split: option.split_asm if_split_asm)
  from find_Some_iff2 [OF s0] find_Some_iff2 [OF s] have "s0 = s"
    using assms(1) distinct_key_eq [of s_id "db_sessions db" s0 s] by (auto simp: auth_keys_def)
  with find_Some_iff2 [OF s0] find_Some_iff2 [OF s] u show ?thesis by (auto simp: live_session_def)
qed

lemma active_session_for_live:
  assumes "auth_keys db" and live: "live_session db h now idle s u"
  shows "active_session_for db h (At now) (At (now - idle)) = Some (s, u)"
proof -
  have mem: "s \<in> set (db_sessions db)" and h: "s_token_hash s = h" using live by (auto simp: live_session_def)
  from assms(1) have ids: "distinct (map s_id (db_sessions db))" "distinct (map s_token_hash (db_sessions db))"
    by (simp_all add: auth_keys_def)
  have "find (\<lambda>x. s_token_hash x = s_token_hash s) (db_sessions db) = Some s"
    by (rule find_distinct_key [OF ids(2) mem])
  moreover have "find (\<lambda>x. s_id x = s_id s \<and> s_revoked_at x = None \<and> s_expires_at x > At now \<and>
      s_last_seen_at x > At (now - idle)) (db_sessions db) = Some s"
    using live by (intro find_by_key [OF ids(1) mem]) (auto simp: live_session_def)
  ultimately show ?thesis
    using live h by (simp add: active_session_for_def session_id_for_token_def live_session_def)
qed

lemma find_user_id: "find_user db i = Some u \<Longrightarrow> u_id u = i"
  unfolding find_user_def by (drule find_Some_iff2) simp

lemma ascending_groups_positive: "ascending_groups prev gs \<Longrightarrow> 0 \<le> prev \<Longrightarrow> list_all (\<lambda>g. \<not> g \<le> 0) gs"
  by (induction prev gs rule: ascending_groups.induct) auto

lemma session_role_closed:
  "session_role r = Some role \<Longrightarrow> role = RoleMember \<or> role = RoleModerator \<or> role = RoleAdministrator"
  by (auto simp: session_role_def split: if_splits)

lemma touch_if_due_Inr:
  "touch_if_due cx r now interval w = (Inr x, w') \<Longrightarrow> only_touched (as_session_id r) now (w_db w) (w_db w')"
  by (auto simp: touch_if_due_def TouchSession_def tx_inverts Let_def only_touched_def upd_where_def list_all2_map2
      intro!: list_all2_refl split: if_splits)

text \<open>What \<open>accept_session\<close> lets through, and when it does.\<close>

lemma accept_session_Inr:
  assumes "accept_session cx now (active_session_of db (s, u)) idle revalidation w = (Inr a, w')"
  shows "authority_of db now revalidation s u a \<and> only_touched (s_id s) now (w_db w) (w_db w') \<and>
    ns_second \<le> idle \<and> ns_second \<le> revalidation"
proof -
  let ?r = "active_session_of db (s, u)"
  from assms obtain role w1 where role: "session_role (u_role u) = Some role"
    and r: "\<not> invalid_active_session ?r now (now - idle)" "ascending_groups 0 (as_group_ids ?r)"
      "ns_second \<le> idle" "ns_second \<le> revalidation"
    and touch: "touch_if_due cx ?r now (touch_interval idle) w = (Inr (), w')"
    and a: "a = authenticated_as ?r role now revalidation"
    by (auto simp: accept_session_def tx_inverts active_session_of_def split: option.splits)
  have "Policy.Valid (sa_access a)"
    using r ascending_groups_positive [of 0 "as_group_ids ?r"] session_role_closed [OF role]
    by (auto simp: a authenticated_as_def Valid_def invalid_active_session_def active_session_of_def)
  moreover have "only_touched (s_id s) now (w_db w) (w_db w')"
    using touch_if_due_Inr [OF touch] by (simp add: active_session_of_def)
  ultimately show ?thesis
    using role r by (auto simp: authority_of_def a authenticated_as_def active_session_of_def not_less)
qed

lemma accept_session_succeeds:
  assumes "sane_session db now s u" and "s_expires_at s > At now" and "s_last_seen_at s > At (now - idle)"
    and "w_faults w = []" and "ns_second \<le> idle" "ns_second \<le> revalidation"
    and "auth_keys (w_db w)"
  shows "\<exists>a w'. accept_session cx now (active_session_of db (s, u)) idle revalidation w = (Inr a, w')"
proof -
  let ?r = "active_session_of db (s, u)"
  obtain role where role: "session_role (u_role u) = Some role" using assms(1) by (auto simp: sane_session_def)
  have ok: "\<not> invalid_active_session ?r now (now - idle)"
    using assms(1-3) by (auto simp: invalid_active_session_def active_session_of_def sane_session_def)
  have one: "length (filter (\<lambda>x. s_id x = i \<and> Q x) xs) \<le> 1" if "distinct (map s_id xs)" for i Q and xs :: "session_row list"
    using that by (induction xs) (auto simp: filter_empty_conv image_iff)
  have "\<not> 1 < length (filter (\<lambda>x. s_id x = s_id s \<and> s_revoked_at x = None \<and> s_expires_at x > At now \<and>
      s_last_seen_at x \<le> At (now - touch_interval idle) \<and> s_last_seen_at x < At now) (db_sessions (w_db w)))"
    unfolding not_less by (rule one) (use assms(7) in \<open>simp add: auth_keys_def\<close>)
  then have "\<exists>w'. touch_if_due cx ?r now (touch_interval idle) w = (Inr (), w')"
    using assms(4)
    by (auto simp: touch_if_due_def TouchSession_def tx_try_def statement_def Let_def tx_guard_def tx_return_def
        active_session_of_def auth_keys_def)
  then show ?thesis
    using role ok assms(1,5,6)
    by (auto simp: accept_session_def tx_bind_def tx_guard_def tx_return_def sane_session_def active_session_of_def)
qed

subsection \<open>The service\<close>

text \<open>The loader the service takes.\<close>

definition service_loader :: "auth_service \<Rightarrow> session_loader" where
  "service_loader sv =
     (if sv_dynamic sv then load_with_control (sv_ceilings sv)
      else (\<lambda>h now. tx_bind (GetActiveSession h (At now) (At (now - sv_idle sv)))
              (\<lambda>r. tx_return (r, sv_idle sv, sv_revalidation sv))))"

lemma AuthenticateSession_unfold:
  "AuthenticateSession C sv cx token =
     (if \<not> sv_database sv \<or> sv_clock sv = None \<or> sv_idle sv < ns_second \<or> sv_revalidation sv < ns_second
      then tx_fail (Fail ''authentication service is not initialized for session lookup'')
      else if sv_dynamic sv \<and> \<not> ceilings_valid (sv_ceilings sv)
      then tx_fail (Fail ''authentication service control ceilings are invalid'')
      else authenticateSessionWithPolicy C cx (map_option (\<lambda>c. c 0) (sv_clock sv)) (service_loader sv) token)"
  by (auto simp: AuthenticateSession_def authenticateSession_def service_loader_def Let_def)

lemma load_with_control_Inr:
  "load_with_control c h now w = (Inr (r, idle, revalidation), w1) \<longleftrightarrow>
     fault_free w \<and> w1 = after_statement w (w_db w) \<and>
     (\<exists>st x. db_settings (w_db w) = [st] \<and> idle = st_session_idle_seconds st * ns_second \<and>
        revalidation = st_auth_revalidate_seconds st * ns_second \<and>
        0 < st_session_idle_seconds st \<and> 0 < st_auth_revalidate_seconds st \<and>
        idle \<le> cg_session_idle c \<and> revalidation \<le> cg_auth_revalidate c \<and>
        idle \<le> cg_session_maximum_age c \<and> revalidation \<le> cg_session_maximum_age c \<and>
        active_session_for (w_db w) h (At now) (At (now - idle)) = Some x \<and> r = active_session_of (w_db w) x)"
  by (auto simp: load_with_control_def GetActiveSessionWithControl_def Let_def tx_inverts not_le
      split: list.splits)

lemma seconds_positive: "ns_second \<le> k * ns_second \<longleftrightarrow> 0 < k"
  by (auto simp: ns_second_def)

lemma service_loader_Inr:
  assumes "ns_second \<le> sv_idle sv" and "ns_second \<le> sv_revalidation sv"
  shows "service_loader sv h now w = (Inr (r, idle, revalidation), w1) \<longleftrightarrow>
     fault_free w \<and> w1 = after_statement w (w_db w) \<and> session_policy sv (w_db w) idle revalidation \<and>
     (\<exists>x. active_session_for (w_db w) h (At now) (At (now - idle)) = Some x \<and> r = active_session_of (w_db w) x)"
  using assms
  by (auto simp: service_loader_def load_with_control_Inr session_policy_def GetActiveSession_def tx_inverts
      seconds_positive)

lemma authenticated_run:
  assumes "AuthenticateSession C sv cx token w = (Inr a, w')"
  shows "a = anonymous \<and> w_db w' = w_db w \<or>
    (\<exists>s u idle revalidation w1. session_policy sv (w_db w) idle revalidation \<and>
       active_session_for (w_db w) (cr_sha C (string_bytes token)) (At (service_now sv)) (At (service_now sv - idle)) = Some (s, u) \<and>
       w_db w1 = w_db w \<and>
       accept_session cx (service_now sv) (active_session_of (w_db w) (s, u)) idle revalidation w1 = (Inr a, w'))"
proof -
  from assms have ready: "ns_second \<le> sv_idle sv" "ns_second \<le> sv_revalidation sv"
    and "\<exists>c. sv_clock sv = Some c"
    and run: "authenticateSessionWithPolicy C cx (map_option (\<lambda>c. c 0) (sv_clock sv)) (service_loader sv) token w = (Inr a, w')"
    by (auto simp: AuthenticateSession_unfold tx_fail_Inr split: if_splits)
  then obtain c where c: "sv_clock sv = Some c" by blast
  have now: "service_now sv = truncate_us (c 0)" by (simp add: service_now_def c)
  let ?load = "service_loader sv (cr_sha C (string_bytes token)) (service_now sv)"
  from run have "a = anonymous \<and> w' = w \<or> (\<exists>e. ?load w = (Inl e, w') \<and> a = anonymous) \<or>
      (\<exists>r idle revalidation w1. ?load w = (Inr (r, idle, revalidation), w1) \<and>
         accept_session cx (service_now sv) r idle revalidation w1 = (Inr a, w'))"
    by (auto simp: authenticateSessionWithPolicy_def auth_context_error_def c now Let_def tx_inverts split: if_splits option.splits)
  then show ?thesis
  proof (elim disjE exE conjE)
    fix e assume "?load w = (Inl e, w')"
    then have "w_db w' = w_db w"
      by (auto simp: service_loader_def load_with_control_def GetActiveSessionWithControl_def GetActiveSession_def
          tx_bind_def select_one_def statement_def tx_return_def tx_guard_def Let_def
          split: if_splits option.splits sum.splits prod.splits list.splits)
    then show ?thesis if "a = anonymous" using that by simp
  next
    fix r idle revalidation w1
    assume load: "?load w = (Inr (r, idle, revalidation), w1)"
      and acc: "accept_session cx (service_now sv) r idle revalidation w1 = (Inr a, w')"
    from load [unfolded service_loader_Inr [OF ready]] obtain s u where
      "w_db w1 = w_db w" "session_policy sv (w_db w) idle revalidation" "r = active_session_of (w_db w) (s, u)"
      "active_session_for (w_db w) (cr_sha C (string_bytes token)) (At (service_now sv)) (At (service_now sv - idle)) = Some (s, u)"
      by auto
    with acc show ?thesis by blast
  qed simp
qed

text \<open>A credential whose sessions are all revoked is anonymous.\<close>

lemma dead_token_anonymous:
  assumes "auth_keys (w_db w)" and "dead_token (w_db w) (cr_sha C (string_bytes token))"
    and "AuthenticateSession C sv cx token w = (Inr a, w')"
  shows "a = anonymous"
proof (rule ccontr)
  assume "a \<noteq> anonymous"
  with authenticated_run [OF assms(3)] obtain s u idle where
    "active_session_for (w_db w) (cr_sha C (string_bytes token)) (At (service_now sv)) (At (service_now sv - idle)) = Some (s, u)"
    by blast
  from active_session_for_Some [OF assms(1) this] assms(2) show False
    by (auto simp: live_session_def dead_token_def all_marked_def)
qed

lemma revoked_session_dead:
  "auth_keys db \<Longrightarrow> s \<in> set (db_sessions db) \<Longrightarrow> s_revoked_at s \<noteq> None \<Longrightarrow> dead_token db (s_token_hash s)"
  unfolding dead_token_def auth_keys_def by (rule all_marked_unique) auto

text \<open>A revoked session stays out, whatever the services do in between.\<close>

lemma revoked_session_stays_out:
  assumes "auth_keys db" and "s \<in> set (db_sessions db)" and "s_revoked_at s \<noteq> None"
    and "board_run db (w_db w)" and "cr_sha C (string_bytes token) = s_token_hash s"
    and "AuthenticateSession C sv cx token w = (Inr a, w')"
  shows "a = anonymous"
  using dead_token_anonymous [OF board_run_auth_keys [OF assms(4,1)] _ assms(6)]
    board_run_dead_token [OF assms(4) revoked_session_dead [OF assms(1-3)]] assms(5) by simp

text \<open>What a successful logout does to the sessions.\<close>

lemma RevokeSession_True:
  assumes "RevokeSession C sv cx token w = (Inr True, w')"
  shows "\<exists>s \<in> set (db_sessions (w_db w)). s_token_hash s = cr_sha C (string_bytes token) \<and> s_revoked_at s = None \<and>
    s\<lparr>s_revoked_at := Some (At (service_now sv))\<rparr> \<in> set (db_sessions (w_db w')) \<and>
    w_db w' = (w_db w)\<lparr>db_sessions := upd_where (\<lambda>x. s_token_hash x = cr_sha C (string_bytes token) \<and>
       s_revoked_at x = None \<and> s_issued_at x \<le> At (service_now sv))
       (\<lambda>x. x\<lparr>s_revoked_at := Some (At (service_now sv))\<rparr>) (db_sessions (w_db w))\<rparr>"
proof -
  let ?hit = "\<lambda>x. s_token_hash x = cr_sha C (string_bytes token) \<and> s_revoked_at x = None \<and> s_issued_at x \<le> At (service_now sv)"
  let ?f = "\<lambda>x. x\<lparr>s_revoked_at := Some (At (service_now sv))\<rparr>"
  from assms have db: "w_db w' = (w_db w)\<lparr>db_sessions := upd_where ?hit ?f (db_sessions (w_db w))\<rparr>"
    and one: "length (filter ?hit (db_sessions (w_db w))) = 1"
    by (auto simp: RevokeSession_def revokeSession_def auth_context_error_def query_RevokeSession_def service_now_def
        Let_def tx_inverts split: if_splits option.splits)
  from one have "filter ?hit (db_sessions (w_db w)) \<noteq> []" by auto
  then obtain s where s: "s \<in> set (db_sessions (w_db w))" "?hit s" by (auto simp: filter_empty_conv)
  then have "?f s \<in> set (upd_where ?hit ?f (db_sessions (w_db w)))"
    unfolding set_upd_where by (intro image_eqI [of _ _ s]) auto
  with s db show ?thesis by (intro bexI [of _ s]) auto
qed

subsection \<open>An example\<close>

text \<open>Parameters that meet the laws, without any secrecy.\<close>

definition sample_crypto :: crypto where
  "sample_crypto =
     \<lparr>cr_sha = (\<lambda>m. take 32 (m @ replicate 32 0)), cr_hmac = (\<lambda>k m. take 32 (m @ k @ replicate 32 0)),
      cr_seal = (\<lambda>k n p a. p @ replicate 16 0),
      cr_open = (\<lambda>k n c a. if length c < 16 then None else Some (take (length c - 16) c))\<rparr>"

lemma sample_crypto_laws: "crypto_laws sample_crypto"
  by (simp add: crypto_laws_def sample_crypto_def min_def)

definition ex_token :: string where "ex_token = raw_url_encode (replicate 32 5)"

definition ex_auth_session :: session_row where
  "ex_auth_session = ex_session\<lparr>s_token_hash := cr_sha sample_crypto (string_bytes ex_token), s_expires_at := At (20 * ns_hour)\<rparr>"

definition ex_auth_db :: forum_db where "ex_auth_db = ex_db\<lparr>db_sessions := [ex_auth_session]\<rparr>"

definition ex_ceilings :: control_ceilings where
  "ex_ceilings =
     \<lparr>cg_publish_limit = 10, cg_new_account_limit = 5, cg_publish_window = ns_minute,
      cg_new_account_period = ns_hour, cg_session_idle = ns_hour, cg_auth_revalidate = ns_hour,
      cg_session_maximum_age = 24 * ns_hour\<rparr>"

definition ex_service :: "gotime \<Rightarrow> auth_service" where
  "ex_service t =
     \<lparr>sv_provider = True, sv_database = True, sv_entropy = Some (replicate 32 1 @ replicate 32 2 @ replicate 56 3),
      sv_clock = Some (\<lambda>n. t), sv_maximum_age = 24 * ns_hour, sv_idle = ns_hour, sv_revalidation = ns_hour,
      sv_ceilings = ex_ceilings, sv_dynamic = False, sv_return_path = Some Inr\<rparr>"

definition ex_cx :: auth_context where
  "ex_cx = \<lparr>cx_given = True, cx_error = None, cx_late = None\<rparr>"

lemma ex_auth_keys: "auth_keys ex_auth_db"
  by (simp add: auth_keys_def ex_auth_db_def ex_db_def)

text \<open>Ten minutes later the session still authenticates, and its last activity is written.\<close>

definition ex_auth_call :: "(go_error + session_authentication) \<times> world" where
  "ex_auth_call =
     AuthenticateSession sample_crypto (ex_service (10 * ns_minute)) ex_cx ex_token (ex_world ex_auth_db [])"

lemma ex_auth_result: "map_sum id (\<lambda>a. (sa_session_id a, ac_user_id (sa_access a))) (fst ex_auth_call) = Inr (1, 2)"
  by code_simp

definition ex_logout_call :: "(go_error + bool) \<times> world" where
  "ex_logout_call =
     RevokeSession sample_crypto (ex_service (20 * ns_minute)) ex_cx ex_token (ex_world ex_auth_db [])"

lemma ex_logout_result: "fst ex_logout_call = Inr True"
  by code_simp

lemma ex_auth_call_eq:
  obtains a where "AuthenticateSession sample_crypto (ex_service (10 * ns_minute)) ex_cx ex_token (ex_world ex_auth_db [])
      = (Inr a, snd ex_auth_call)" and "sa_session_id a = 1"
  using ex_auth_result by (cases "fst ex_auth_call") (auto simp: ex_auth_call_def prod_eq_iff)

lemma ex_logout_call_eq:
  "RevokeSession sample_crypto (ex_service (20 * ns_minute)) ex_cx ex_token (ex_world ex_auth_db []) = (Inr True, snd ex_logout_call)"
  by (metis ex_logout_call_def ex_logout_result prod.collapse)

text \<open>After the logout the same credential is tried again.\<close>

definition ex_retry_call :: "(go_error + session_authentication) \<times> world" where
  "ex_retry_call =
     AuthenticateSession sample_crypto (ex_service (21 * ns_minute)) ex_cx ex_token (snd ex_logout_call)"

lemma ex_retry_result: "\<not> isl (fst ex_retry_call)"
  by code_simp

subsection \<open>Properties\<close>

text \<open>
  C1. A request is authenticated only by a live session: whatever the token, the tables and the
  faults, a result other than the anonymous visitor comes from a session with that credential which is
  not revoked, not expired and not idle under the policy in force (under dynamic control the stored
  settings, and those within the startup ceilings), whose account is accepted and not suspended; the
  access snapshot is valid and carries the role and the groups the tables hold at that moment, the
  freshness decision is the one of the policy, and nothing is written but that session's last activity.
\<close>

theorem authentication_is_justified:
  assumes "auth_keys (w_db w)" and "AuthenticateSession C sv cx token w = (Inr a, w')"
  shows "a = anonymous \<and> w_db w' = w_db w \<or>
    (\<exists>s u idle revalidation. session_policy sv (w_db w) idle revalidation \<and>
       live_session (w_db w) (cr_sha C (string_bytes token)) (service_now sv) idle s u \<and>
       authority_of (w_db w) (service_now sv) revalidation s u a \<and>
       only_touched (s_id s) (service_now sv) (w_db w) (w_db w'))"
proof (cases "a = anonymous \<and> w_db w' = w_db w")
  case False
  with authenticated_run [OF assms(2)] obtain s u idle revalidation w1 where
    pol: "session_policy sv (w_db w) idle revalidation" and
    row: "active_session_for (w_db w) (cr_sha C (string_bytes token)) (At (service_now sv)) (At (service_now sv - idle)) = Some (s, u)" and
    w1: "w_db w1 = w_db w" and
    acc: "accept_session cx (service_now sv) (active_session_of (w_db w) (s, u)) idle revalidation w1 = (Inr a, w')"
    by blast
  from accept_session_Inr [OF acc] active_session_for_Some [OF assms(1) row] pol w1 show ?thesis by auto
qed simp

theorem authentication_is_justified_witness:
  "\<exists>s u a. live_session ex_auth_db (cr_sha sample_crypto (string_bytes ex_token)) (10 * ns_minute) ns_hour s u \<and>
     authority_of ex_auth_db (10 * ns_minute) ns_hour s u a"
proof -
  obtain a where call: "AuthenticateSession sample_crypto (ex_service (10 * ns_minute)) ex_cx ex_token
      (ex_world ex_auth_db []) = (Inr a, snd ex_auth_call)" and one: "sa_session_id a = 1"
    by (rule ex_auth_call_eq)
  have "service_now (ex_service (10 * ns_minute)) = 10 * ns_minute" by code_simp
  with authentication_is_justified [OF _ call] ex_auth_keys one show ?thesis
    by (auto simp: anonymous_def session_policy_def ex_service_def)
qed

text \<open>
  C2. Every live session authenticates: with an initialised service, an open context and a database
  that answers, a well-formed credential of a session that is live under the policy in force, with an
  account and times the code accepts, gives the authority of that session and not the anonymous
  visitor.
\<close>

theorem live_session_authenticates:
  assumes "auth_keys (w_db w)" and "w_faults w = []" and "session_policy sv (w_db w) idle revalidation"
    and "live_session (w_db w) (cr_sha C (string_bytes token)) (service_now sv) idle s u"
    and "sane_session (w_db w) (service_now sv) s u" and "well_formed_token token"
    and "sv_database sv" and "sv_clock sv = Some c" and "c 0 \<noteq> zero_time"
    and "ns_second \<le> sv_idle sv" and "ns_second \<le> sv_revalidation sv" and "sv_dynamic sv \<Longrightarrow> ceilings_valid (sv_ceilings sv)"
    and "cx_given cx" and "cx_error cx = None"
  shows "\<exists>a w'. AuthenticateSession C sv cx token w = (Inr a, w') \<and>
    authority_of (w_db w) (service_now sv) revalidation s u a"
proof -
  let ?w1 = "after_statement w (w_db w)"
  have load: "service_loader sv (cr_sha C (string_bytes token)) (service_now sv) w =
      (Inr (active_session_of (w_db w) (s, u), idle, revalidation), ?w1)"
    using active_session_for_live [OF assms(1,4)] assms(2,3)
    by (subst service_loader_Inr [OF assms(10,11)]) (auto simp: fault_free_def)
  obtain a w' where acc: "accept_session cx (service_now sv) (active_session_of (w_db w) (s, u)) idle revalidation ?w1 = (Inr a, w')"
    using accept_session_succeeds [of "w_db w" "service_now sv" s u idle ?w1 revalidation cx] assms
    by (auto simp: live_session_def session_policy_def after_statement_def)
  have ceil: "\<not> (sv_dynamic sv \<and> \<not> ceilings_valid (sv_ceilings sv))" using assms(12) by blast
  have "service_now sv = truncate_us (c 0)" using assms(8) by (simp add: service_now_def)
  then have "AuthenticateSession C sv cx token w = (Inr a, w')"
    using load acc assms(6-11,13,14)
    by (simp add: AuthenticateSession_unfold ceil authenticateSessionWithPolicy_def auth_context_error_def tx_bind_def
        tx_return_def tx_try_def Let_def)
  with accept_session_Inr [OF acc] show ?thesis by blast
qed

theorem live_session_authenticates_witness:
  "\<exists>a w'. AuthenticateSession sample_crypto (ex_service (10 * ns_minute)) ex_cx ex_token (ex_world ex_auth_db []) = (Inr a, w') \<and>
     authority_of ex_auth_db (10 * ns_minute) ns_hour ex_auth_session (ex_user 2 ''member'') a"
proof -
  have now: "service_now (ex_service (10 * ns_minute)) = 10 * ns_minute" by code_simp
  have "live_session ex_auth_db (cr_sha sample_crypto (string_bytes ex_token)) (10 * ns_minute) ns_hour ex_auth_session (ex_user 2 ''member'')"
    by (simp add: live_session_def ex_auth_session_def ex_auth_db_def ex_session_def ex_db_def find_user_def ex_user_def
        sql_unsuspended_def ns_minute_def ns_hour_def ns_second_def)
  moreover have "sane_session ex_auth_db (10 * ns_minute) ex_auth_session (ex_user 2 ''member'')"
    by (simp add: sane_session_def ex_auth_session_def ex_session_def ex_user_def ex_auth_db_def ex_db_def
        group_ids_of_user_def session_role_def ns_minute_def ns_hour_def ns_second_def)
  moreover have "well_formed_token ex_token" by (simp add: ex_token_def well_formed_token_encode)
  moreover have "10 * ns_minute \<noteq> zero_time" by code_simp
  ultimately show ?thesis
    using live_session_authenticates [of "ex_world ex_auth_db []" "ex_service (10 * ns_minute)" ns_hour ns_hour
        sample_crypto ex_token ex_auth_session "ex_user 2 ''member''" "\<lambda>n. 10 * ns_minute" ex_cx, unfolded now]
      ex_auth_keys
    by (simp add: ex_world_def ex_service_def session_policy_def ex_cx_def) (simp add: ns_hour_def ns_minute_def ns_second_def)
qed

text \<open>
  C3. Logging out is final: once a credential was revoked, no later call with it is authenticated, under
  any service configuration and after any sequence of services on the board, logins, revalidations and
  further authentications included.
\<close>

theorem logout_is_final:
  assumes "auth_keys (w_db w)" and "RevokeSession C sv cx token w = (Inr True, w')"
    and "board_run (w_db w') (w_db w2)" and "AuthenticateSession C sv2 cx2 token w2 = (Inr a, w3)"
  shows "a = anonymous"
proof -
  from RevokeSession_True [OF assms(2)] obtain s where
    s: "s_token_hash s = cr_sha C (string_bytes token)"
      "s\<lparr>s_revoked_at := Some (At (service_now sv))\<rparr> \<in> set (db_sessions (w_db w'))" (is "?s \<in> _")
    by blast
  have "board_step (w_db w) (w_db w')"
    using board_step.call [of w "CallRevoke C sv cx token"] assms(2) by simp
  then have "board_run (w_db w) (w_db w')" by (simp add: board_run_def r_into_rtranclp)
  then have "auth_keys (w_db w')" by (rule board_run_auth_keys [OF _ assms(1)])
  from revoked_session_stays_out [OF this s(2) _ assms(3) _ assms(4)] s(1) show ?thesis by simp
qed

theorem logout_is_final_witness:
  "fst ex_retry_call = Inr anonymous"
proof -
  obtain a where a: "fst ex_retry_call = Inr a" using ex_retry_result by (cases "fst ex_retry_call") auto
  then have retry: "AuthenticateSession sample_crypto (ex_service (21 * ns_minute)) ex_cx ex_token (snd ex_logout_call)
      = (Inr a, snd ex_retry_call)"
    by (metis ex_retry_call_def prod.collapse)
  have keys: "auth_keys (w_db (ex_world ex_auth_db []))" by (simp add: ex_auth_keys)
  have "board_run (w_db (snd ex_logout_call)) (w_db (snd ex_logout_call))" by (simp add: board_run_def)
  from logout_is_final [OF keys ex_logout_call_eq this retry] a show ?thesis by simp
qed

end
