(* ===== verification/IdentityFacts.thy ===== *)
theory IdentityFacts
  imports SessionFacts
begin

text \<open>
  What the logins promise: an attempt is used once, its secrets survive the way through the database,
  a login gives a session of the account its identity names and no authority, and a revalidation
  replaces exactly one session of the same identity.
\<close>

subsection \<open>Consuming an attempt\<close>

lemma ConsumeOIDCLoginAttempt_spent:
  assumes "ConsumeOIDCLoginAttempt t h w = (Inr a, w')" and "auth_keys (w_db w)"
  shows "spent_state (w_db w') h"
proof -
  let ?hit = "\<lambda>a. la_state_hash a = h \<and> la_consumed_at a = None \<and> la_created_at a \<le> t \<and> la_expires_at a > t"
  let ?f = "\<lambda>a. a\<lparr>la_consumed_at := Some t\<rparr>"
  from assms(1) obtain b where b: "find ?hit (db_login_attempts (w_db w)) = Some b"
    and db: "db_login_attempts (w_db w') = upd_where ?hit ?f (db_login_attempts (w_db w))"
    by (auto simp: ConsumeOIDCLoginAttempt_def tx_inverts Let_def split: option.splits)
  from find_Some_iff2 [OF b] have hit: "b \<in> set (db_login_attempts (w_db w))" "?hit b" by auto
  then have mem: "?f b \<in> set (upd_where ?hit ?f (db_login_attempts (w_db w)))"
    unfolding set_upd_where by (intro image_eqI [of _ _ b]) auto
  have "distinct (map la_state_hash (upd_where ?hit ?f (db_login_attempts (w_db w))))"
    using assms(2) by (subst map_upd_where) (auto simp: auth_keys_def)
  from all_marked_unique [OF this mem] hit(2) show ?thesis by (simp add: spent_state_def db)
qed

lemma spent_state_refused:
  "spent_state (w_db w) h \<Longrightarrow> ConsumeOIDCLoginAttempt t h w \<noteq> (Inr a, w')"
  by (auto simp: ConsumeOIDCLoginAttempt_def tx_inverts Let_def spent_state_def all_marked_def
      split: option.splits dest!: find_Some_iff2)

lemma consumeLoginAttempt_Inr:
  assumes "consumeLoginAttempt C cx clock validate purpose state w = (Inr c, w')"
  shows "\<exists>reading a. clock = Some reading \<and>
    ConsumeOIDCLoginAttempt (At (truncate_us reading)) (cr_sha C (string_bytes state)) w = (Inr a, w') \<and>
    la_purpose a = purpose \<and> attempt_session purpose a = Inr (cn_session_id c)"
  using assms
  by (auto simp: consumeLoginAttempt_def auth_context_error_def tx_inverts split: option.splits if_splits)

lemma CompleteInitialLogin_Inr:
  assumes "CompleteInitialLogin C sv P cx env state code w = (Inr l, w')"
  shows "\<exists>c consumed w1 claims created.
    sv_clock sv = Some c \<and>
    consumeLoginAttempt C cx (Some (c 0)) (sv_return_path sv) ''login'' state w = (Inr consumed, w1) \<and>
    op_exchange P code (cn_material consumed) = Inr claims \<and>
    createInitialSession C env (sv_entropy sv) (Some (c 1)) (sv_maximum_age sv) claims w1 = (Inr created, w') \<and>
    l = \<lparr>cl_token = cs_token created, cl_return_path = cn_return_path consumed, cl_expires_at = cs_expires_at created\<rparr>"
  using assms
  by (auto simp: CompleteInitialLogin_def completeInitialLogin_def completion_stage_def auth_context_error_def
      ready_to_begin_def tx_inverts split: option.splits if_splits)

lemma CompleteRevalidation_Inr:
  assumes "CompleteRevalidation C sv P cx env state code token w = (Inr l, w')"
  shows "\<exists>c consumed w1 claims created.
    sv_clock sv = Some c \<and>
    consumeLoginAttempt C cx (Some (c 0)) (sv_return_path sv) ''revalidate'' state w = (Inr consumed, w1) \<and>
    op_exchange P code (cn_material consumed) = Inr claims \<and>
    rotateRevalidatedSession C env (sv_entropy sv) (Some (c 1)) (sv_maximum_age sv) (sv_idle sv)
      (cn_session_id consumed) token claims w1 = (Inr created, w') \<and>
    l = \<lparr>cl_token = cs_token created, cl_return_path = cn_return_path consumed, cl_expires_at = cs_expires_at created\<rparr>"
  using assms
  by (auto simp: CompleteRevalidation_def completeRevalidation_def completion_stage_def auth_context_error_def
      ready_to_begin_def tx_inverts split: option.splits if_splits)

subsection \<open>The account of a login\<close>

lemma select_one_db: "select_one q w = (r, w') \<Longrightarrow> w_db w' = w_db w"
  by (auto simp: select_one_def statement_def Let_def split: if_splits option.splits prod.splits)

text \<open>A row before and after a login: the profile may change, nothing that grants or restricts.\<close>

definition same_authority :: "user_row \<Rightarrow> user_row \<Rightarrow> bool" where
  "same_authority u u' \<longleftrightarrow>
     u' = u\<lparr>u_display_name := u_display_name u', u_email := u_email u', u_avatar_url := u_avatar_url u',
           u_updated_at := u_updated_at u', u_last_login_at := u_last_login_at u'\<rparr>"

lemma same_authority_refl [simp]: "same_authority u u"
  by (simp add: same_authority_def)

lemma same_authority_refresh [simp]: "same_authority u (refresh_profile claims stamp u)"
  by (simp add: same_authority_def refresh_profile_def)

text \<open>The account rows after a login: the ones before with their authority, and at most one new member.\<close>

definition users_of_login :: "user_row list \<Rightarrow> user_row list \<Rightarrow> bool" where
  "users_of_login us us' \<longleftrightarrow>
     (\<exists>kept added. us' = kept @ added \<and> list_all2 same_authority us kept \<and>
        (added = [] \<or> (\<exists>i claims stamp. added = [new_user i claims stamp] \<and> i \<notin> u_id ` set us)))"

lemma users_of_login_upd: "users_of_login us (upd_where p (refresh_profile claims stamp) us)"
  unfolding users_of_login_def
  by (rule exI [of _ "upd_where p (refresh_profile claims stamp) us"], rule exI [of _ "[]"])
    (auto simp: upd_where_def list_all2_map2 intro!: list_all2_refl)

lemma users_of_login_add: "i \<notin> u_id ` set us \<Longrightarrow> users_of_login us (us @ [new_user i claims stamp])"
  unfolding users_of_login_def by (rule exI [of _ us]) (auto intro!: list_all2_refl)

lemma UpdateUserFromOIDC_Inr:
  "UpdateUserFromOIDC claims stamp i w = (Inr u, w') \<longleftrightarrow>
     fault_free w \<and> (\<exists>u0. find (\<lambda>u. u_id u = i \<and> u_sync_state u = ''accepted'') (db_users (w_db w)) = Some u0 \<and>
       u = refresh_profile claims stamp u0 \<and>
       w' = after_statement w ((w_db w)\<lparr>db_users := upd_where (\<lambda>u. u_id u = i \<and> u_sync_state u = ''accepted'')
              (refresh_profile claims stamp) (db_users (w_db w))\<rparr>))"
  by (auto simp: UpdateUserFromOIDC_def tx_inverts Let_def split: option.splits)

lemma refresh_profile_id [simp]:
  "u_id (refresh_profile claims stamp u) = u_id u"
  "u_sync_state (refresh_profile claims stamp u) = u_sync_state u"
  by (simp_all add: refresh_profile_def)

lemma UpdateUserFromOIDC_accepted:
  assumes "UpdateUserFromOIDC claims stamp i w = (Inr u, w')"
  shows "u_id u = i \<and> u \<in> set (db_users (w_db w')) \<and> u_sync_state u = ''accepted''"
proof -
  let ?hit = "\<lambda>u. u_id u = i \<and> u_sync_state u = ''accepted''"
  from assms obtain u0 where u0: "find ?hit (db_users (w_db w)) = Some u0" "u = refresh_profile claims stamp u0"
    and db: "db_users (w_db w') = upd_where ?hit (refresh_profile claims stamp) (db_users (w_db w))"
    by (auto simp: UpdateUserFromOIDC_Inr)
  from find_Some_iff2 [OF u0(1)] have "u0 \<in> set (db_users (w_db w))" "?hit u0" by auto
  then show ?thesis unfolding db set_upd_where u0(2) by (auto intro!: image_eqI [of _ _ u0])
qed

text \<open>What a login does to accounts and identities.\<close>

definition account_of_login :: "verified_identity_claims \<Rightarrow> user_row \<Rightarrow> forum_db \<Rightarrow> forum_db \<Rightarrow> bool" where
  "account_of_login claims u db db' \<longleftrightarrow>
     db' = db\<lparr>db_users := db_users db', db_identities := db_identities db', db_seqs := db_seqs db'\<rparr> \<and>
     users_of_login (db_users db) (db_users db') \<and>
     u \<in> set (db_users db') \<and> u_sync_state u = ''accepted'' \<and>
     (\<exists>r \<in> set (db_identities db'). id_issuer r = vc_issuer claims \<and> id_subject r = vc_subject claims \<and> id_user_id r = u_id u)"

lemma refresh_user_Inr:
  assumes "refresh_user claims stamp v w = (Inr u, w')"
    and r: "r \<in> set (db_identities (w_db w))" "id_issuer r = vc_issuer claims" "id_subject r = vc_subject claims"
      "id_user_id r = u_id v"
  shows "account_of_login claims u (w_db w) (w_db w')"
proof -
  from assms(1) obtain w1 where up: "UpdateUserFromOIDC claims stamp (u_id v) w = (Inr u, w1)"
    and db: "w_db w' = (w_db w1)\<lparr>db_identities := upd_where (\<lambda>r. id_user_id r = u_id u) (\<lambda>r. r\<lparr>id_last_verified_at := stamp\<rparr>)
        (db_identities (w_db w1))\<rparr>"
    by (auto simp: refresh_user_def UpdateExternalIdentityVerification_def tx_inverts)
  note u = UpdateUserFromOIDC_accepted [OF up]
  from up have w1: "w_db w1 = (w_db w)\<lparr>db_users := upd_where (\<lambda>x. u_id x = u_id v \<and> u_sync_state x = ''accepted'')
      (refresh_profile claims stamp) (db_users (w_db w))\<rparr>"
    by (auto simp: UpdateUserFromOIDC_Inr)
  let ?r = "if id_user_id r = u_id u then r\<lparr>id_last_verified_at := stamp\<rparr> else r"
  have "?r \<in> set (db_identities (w_db w'))"
    using r(1) by (auto simp: db w1 set_upd_where intro!: image_eqI [of _ _ r])
  moreover have "id_issuer ?r = vc_issuer claims" "id_subject ?r = vc_subject claims" "id_user_id ?r = u_id u"
    using r u by auto
  ultimately show ?thesis
    using u users_of_login_upd by (auto simp: account_of_login_def db w1)
qed

lemma create_user_Inr:
  assumes "create_user claims stamp w = (Inr u, w')"
  shows "account_of_login claims u (w_db w) (w_db w')"
  using assms
  by (auto simp: create_user_def InsertUser_def InsertExternalIdentity_def tx_inverts nextval_def Let_def
      account_of_login_def list_ex_iff new_user_def [of _ claims stamp, symmetric] intro!: users_of_login_add
      split: if_splits)
    (auto simp: new_user_def)

lemma local_user_Inr:
  assumes "local_user claims stamp w = (Inr u, w')"
  shows "account_of_login claims u (w_db w) (w_db w')"
proof -
  let ?get = "GetUserByExternalIdentity (vc_issuer claims) (vc_subject claims)"
  from assms consider (new) e w1 where "?get w = (Inl e, w1)" "create_user claims stamp w1 = (Inr u, w')"
    | (known) v w1 where "?get w = (Inr v, w1)" "refresh_user claims stamp v w1 = (Inr u, w')"
    by (auto simp: local_user_def tx_inverts split: if_splits)
  then show ?thesis
  proof cases
    case new
    have "w_db w1 = w_db w" using select_one_db new(1) unfolding GetUserByExternalIdentity_def by blast
    with create_user_Inr [OF new(2)] show ?thesis by simp
  next
    case known
    have db: "w_db w1 = w_db w" using select_one_db known(1) unfolding GetUserByExternalIdentity_def by blast
    from known(1) obtain r where "find_identity (w_db w) (vc_issuer claims) (vc_subject claims) = Some r"
      "find_user (w_db w) (id_user_id r) = Some v"
      by (auto simp: GetUserByExternalIdentity_def tx_inverts split: option.splits)
    with find_user_id [of "w_db w" "id_user_id r" v] refresh_user_Inr [OF known(2), of r] db show ?thesis
      unfolding find_identity_def by (auto dest!: find_Some_iff2)
  qed
qed

subsection \<open>Sessions that are created\<close>

lemma InsertSession_Inr:
  assumes "InsertSession h user issued expires w = (Inr (i, v), w')"
  shows "v = user \<and> i \<notin> s_id ` set (db_sessions (w_db w)) \<and> h \<notin> s_token_hash ` set (db_sessions (w_db w)) \<and>
    w_db w' = (w_db w)\<lparr>db_sessions := db_sessions (w_db w) @ [new_session i h user issued expires],
                       db_seqs := db_seqs (w_db w')\<rparr>"
  using assms by (auto simp: InsertSession_def nextval_def Let_def tx_inverts list_ex_iff split: if_splits)

definition approved_subject :: "forum_db \<Rightarrow> string \<Rightarrow> bool" where
  "approved_subject db subject =
     (case find (\<lambda>r. pn_subject r = subject) (db_registrations db) of
        None \<Rightarrow> True | Some r \<Rightarrow> pn_status r = ''approved'')"

lemma require_approval_Inr:
  assumes "require_approval subject w = (Inr x, w')"
  shows "approved_subject (w_db w) subject \<and> w_db w' = w_db w"
proof -
  let ?get = "GetPendingRegistrationLoginState subject"
  from assms consider (none) e w1 where "?get w = (Inl e, w1)" "err_is e NoRows" "w' = w1"
    | (some) st where "?get w = (Inr st, w')" "st = ''approved''"
    by (auto simp: require_approval_def tx_inverts split: if_splits)
  then show ?thesis
  proof cases
    case none
    have "w_db w1 = w_db w" using select_one_db none(1) unfolding GetPendingRegistrationLoginState_def by blast
    moreover from none(1,2) have "find (\<lambda>r. pn_subject r = subject) (db_registrations (w_db w)) = None"
      by (auto simp: GetPendingRegistrationLoginState_def select_one_def statement_def Let_def
          split: if_splits option.splits prod.splits)
    ultimately show ?thesis using none(3) by (simp add: approved_subject_def)
  next
    case some
    then show ?thesis
      by (auto simp: GetPendingRegistrationLoginState_def tx_inverts approved_subject_def)
  qed
qed

text \<open>A session that was appended: its credential is new, and its account and times are as said.\<close>

definition fresh_session :: "crypto \<Rightarrow> string \<Rightarrow> int \<Rightarrow> int \<Rightarrow> gotime \<Rightarrow> gotime \<Rightarrow> session_row list \<Rightarrow> session_row \<Rightarrow> bool" where
  "fresh_session C token i user now expires ss new \<longleftrightarrow>
     well_formed_token token \<and> new = new_session i (cr_sha C (string_bytes token)) user (At now) (At expires) \<and>
     i \<notin> s_id ` set ss \<and> cr_sha C (string_bytes token) \<notin> s_token_hash ` set ss"

lemma generated_token:
  "generateSessionMaterial C entropy = Inr m \<Longrightarrow>
   well_formed_token (sm_token m) \<and> sm_hash m = cr_sha C (string_bytes (sm_token m))"
  by (auto simp: generateSessionMaterial_Inr intro!: well_formed_token_encode)

lemma createInitialSession_Inr:
  assumes "createInitialSession C env entropy (Some reading) age claims w = (Inr created, w')"
  shows "\<exists>u db1 new. approved_subject (w_db w) (vc_subject claims) \<and>
    account_of_login claims u (w_db w) db1 \<and> cs_user_id created = u_id u \<and>
    cs_expires_at created = truncate_us (truncate_us reading + age) \<and> truncate_us reading < cs_expires_at created \<and>
    fresh_session C (cs_token created) (cs_session_id created) (u_id u) (truncate_us reading) (cs_expires_at created)
      (db_sessions (w_db w)) new \<and>
    w_db w' = db1\<lparr>db_sessions := db_sessions (w_db w) @ [new], db_seqs := db_seqs (w_db w')\<rparr>"
proof -
  let ?now = "truncate_us reading" let ?exp = "truncate_us (?now + age)"
  from assms obtain m where m: "generateSessionMaterial C entropy = Inr m" and order: "?now < ?exp"
    and body: "createInitialSession_body m ?now ?exp claims w = (Inr created, w')"
    by (auto simp: createInitialSession_def context_error_def Let_def tx_inverts within_tx_Inr not_le
        split: if_splits option.splits sum.splits)
  from body obtain w1 w2 u i v where
    app: "require_approval (vc_subject claims) (after_statement w (w_db w)) = (Inr (), w1)"
    and user: "local_user claims (At ?now) w1 = (Inr u, w2)"
    and ins: "InsertSession (sm_hash m) (u_id u) (At ?now) (At ?exp) w2 = (Inr (i, v), w')"
    and created: "created = \<lparr>cs_token = sm_token m, cs_user_id = u_id u, cs_session_id = i, cs_expires_at = ?exp\<rparr>"
    by (clarsimp simp: createInitialSession_body_def LockExternalIdentity_def tx_inverts)
  from require_approval_Inr [OF app] have a: "approved_subject (w_db w) (vc_subject claims)" "w_db w1 = w_db w" by auto
  from local_user_Inr [OF user] a have acc: "account_of_login claims u (w_db w) (w_db w2)" by simp
  then have eq: "w_db w2 = (w_db w)\<lparr>db_users := db_users (w_db w2), db_identities := db_identities (w_db w2),
      db_seqs := db_seqs (w_db w2)\<rparr>" by (simp add: account_of_login_def)
  have "db_sessions (w_db w2) = db_sessions (w_db w)" by (subst eq) simp
  note facts = this InsertSession_Inr [OF ins] generated_token [OF m] acc a order
  show ?thesis
    by (rule exI [of _ u], rule exI [of _ "w_db w2"], rule exI [of _ "new_session i (sm_hash m) (u_id u) (At ?now) (At ?exp)"])
      (use facts in \<open>auto simp: created fresh_session_def\<close>)
qed

subsection \<open>The rotation\<close>

text \<open>
  The sessions after a rotation: exactly the old one is revoked, at the instant the new one is issued.
\<close>

definition session_replaced :: "int \<Rightarrow> gotime \<Rightarrow> session_row \<Rightarrow> session_row list \<Rightarrow> session_row list \<Rightarrow> bool" where
  "session_replaced old now new ss ss' \<longleftrightarrow>
     ss' = upd_where (\<lambda>s. s_id s = old) (\<lambda>s. s\<lparr>s_revoked_at := Some (At now)\<rparr>) ss @ [new]"

text \<open>The row the rotation locks: the live session of the credential and its stored identity.\<close>

lemma rotation_row_for_Some:
  assumes "auth_keys db" and "rotation_row_for db i h (At now) (At cutoff) = Some r"
  shows "\<exists>s u x. live_session db h now (now - cutoff) s u \<and> s_id s = i \<and> s_issued_at s \<le> At now \<and>
    rr_user_id r = s_user_id s \<and> x \<in> set (db_identities db) \<and> id_user_id x = s_user_id s \<and>
    rr_issuer r = id_issuer x \<and> rr_subject r = id_subject x"
proof -
  let ?hit = "\<lambda>s. s_id s = i \<and> s_revoked_at s = None \<and> s_issued_at s \<le> At now \<and> s_last_seen_at s \<le> At now \<and>
      s_validated_at s \<le> At now \<and> s_expires_at s > At now \<and> s_last_seen_at s > At cutoff"
  from assms(2) have tok: "session_id_for_token db h = Some i" by (simp add: rotation_row_for_def split: if_split_asm)
  with assms(2) obtain s where s: "find ?hit (db_sessions db) = Some s"
    by (cases "find ?hit (db_sessions db)") (simp_all add: rotation_row_for_def)
  with tok assms(2) obtain u x where u: "find_user db (s_user_id s) = Some u" "u_sync_state u = ''accepted''"
      "sql_unsuspended (At now) u" and x: "find (\<lambda>r. id_user_id r = s_user_id s) (db_identities db) = Some x"
    and r: "r = \<lparr>rr_user_id = s_user_id s, rr_issuer = id_issuer x, rr_subject = id_subject x,
                 rr_expires_at = Some (s_expires_at s)\<rparr>"
    by (auto simp: rotation_row_for_def split: option.split_asm if_split_asm)
  from tok obtain s0 where s0: "find (\<lambda>s. s_token_hash s = h) (db_sessions db) = Some s0" "s_id s0 = i"
    by (auto simp: session_id_for_token_def)
  from find_Some_iff2 [OF s] have hit: "s \<in> set (db_sessions db)" "?hit s" by auto
  have "s0 = s"
    using distinct_key_eq [of s_id "db_sessions db" s0 s] find_Some_iff2 [OF s0(1)] s0(2) hit assms(1)
    by (simp add: auth_keys_def)
  with find_Some_iff2 [OF s0(1)] hit u have live: "live_session db h now (now - cutoff) s u"
    by (simp add: live_session_def)
  from find_Some_iff2 [OF x] have "x \<in> set (db_identities db)" "id_user_id x = s_user_id s" by auto
  with live hit r show ?thesis by auto
qed

lemma revoke_one:
  assumes "distinct (map s_id ss)" and "s \<in> set ss" and "s_id s = i" and "Q s" and "\<And>x. Q x \<Longrightarrow> s_token_hash x = h"
    and "s_token_hash new \<noteq> h"
  shows "upd_where (\<lambda>x. s_id x = i \<and> Q x) f (ss @ [new]) = upd_where (\<lambda>x. s_id x = i) f ss @ [new]"
proof -
  have "s_id x = i \<and> Q x \<longleftrightarrow> s_id x = i" if "x \<in> set ss" for x
    using distinct_key_eq [OF assms(1) that assms(2)] assms(3,4) by auto
  then have "upd_where (\<lambda>x. s_id x = i \<and> Q x) f ss = upd_where (\<lambda>x. s_id x = i) f ss"
    by (auto simp: upd_where_def)
  moreover have "\<not> Q new" using assms(5) [of new] assms(6) by blast
  ultimately show ?thesis by (simp add: upd_where_def)
qed

lemma rotateRevalidatedSession_Inr:
  assumes run: "rotateRevalidatedSession C env entropy (Some reading) age idle i token claims w = (Inr created, w')"
    and keys: "auth_keys (w_db w)"
  shows "\<exists>s u x new. live_session (w_db w) (cr_sha C (string_bytes token)) (truncate_us reading)
      (truncate_us reading - truncate_us (truncate_us reading - idle)) s u \<and> s_id s = i \<and>
    x \<in> set (db_identities (w_db w)) \<and> id_user_id x = s_user_id s \<and> id_issuer x = vc_issuer claims \<and>
    id_subject x = vc_subject claims \<and> cs_user_id created = s_user_id s \<and>
    cs_expires_at created = truncate_us (truncate_us reading + age) \<and>
    fresh_session C (cs_token created) (cs_session_id created) (s_user_id s) (truncate_us reading) (cs_expires_at created)
      (db_sessions (w_db w)) new \<and>
    session_replaced i (truncate_us reading) new (db_sessions (w_db w)) (db_sessions (w_db w')) \<and>
    list_all2 same_authority (db_users (w_db w)) (db_users (w_db w')) \<and>
    w_db w' = (w_db w)\<lparr>db_users := db_users (w_db w'), db_identities := db_identities (w_db w'),
                       db_sessions := db_sessions (w_db w'), db_seqs := db_seqs (w_db w')\<rparr>"
proof -
  let ?now = "truncate_us reading" let ?exp = "truncate_us (?now + age)" let ?h = "cr_sha C (string_bytes token)"
  from run obtain m where m: "generateSessionMaterial C entropy = Inr m"
    and body: "rotateRevalidatedSession_body m ?now ?exp (truncate_us (?now - idle)) i ?h claims w = (Inr created, w')"
    by (auto simp: rotateRevalidatedSession_def context_error_def Let_def tx_inverts within_tx_Inr not_le
        split: if_splits option.splits sum.splits)
  from body obtain r v w1 w2 w3 j where
    row: "rotation_row_for (w_db w) i ?h (At ?now) (At (truncate_us (?now - idle))) = Some r" and
    same: "rr_issuer r = vc_issuer claims" "rr_subject r = vc_subject claims" and
    up: "UpdateUserFromOIDC claims (At ?now) (rr_user_id r) (after_statement w (w_db w)) = (Inr v, w1)" and
    ver: "UpdateExternalIdentityVerification (At ?now) (rr_user_id r) w1 = (Inr (), w2)" and
    ins: "InsertSession (sm_hash m) (rr_user_id r) (At ?now) (At ?exp) w2 = (Inr (j, rr_user_id r), w3)" and
    rev: "RevokeSessionForRotation i ?h (At ?now) w3 = (Inr 1, w')" and
    created: "created = \<lparr>cs_token = sm_token m, cs_user_id = rr_user_id r, cs_session_id = j, cs_expires_at = ?exp\<rparr>"
    by (clarsimp simp: rotateRevalidatedSession_body_def GetActiveSessionForRotation_def tx_inverts)
  from rotation_row_for_Some [OF keys row] same obtain s u x where
    s: "live_session (w_db w) ?h ?now (?now - truncate_us (?now - idle)) s u" "s_id s = i" "s_issued_at s \<le> At ?now"
      "rr_user_id r = s_user_id s" and
    x: "x \<in> set (db_identities (w_db w))" "id_user_id x = s_user_id s" "id_issuer x = vc_issuer claims" "id_subject x = vc_subject claims"
    by auto
  let ?hit = "\<lambda>x. s_id x = i \<and> s_token_hash x = ?h \<and> s_revoked_at x = None \<and> s_issued_at x \<le> At ?now \<and> s_expires_at x > At ?now"
  let ?f = "\<lambda>x. x\<lparr>s_revoked_at := Some (At ?now)\<rparr>"
  let ?new = "new_session j (sm_hash m) (rr_user_id r) (At ?now) (At ?exp)"
  from up have w1: "w_db w1 = (w_db w)\<lparr>db_users := upd_where (\<lambda>y. u_id y = rr_user_id r \<and> u_sync_state y = ''accepted'')
      (refresh_profile claims (At ?now)) (db_users (w_db w))\<rparr>"
    by (auto simp: UpdateUserFromOIDC_Inr)
  from ver obtain xs where w2: "w_db w2 = (w_db w1)\<lparr>db_identities := xs\<rparr>"
    by (auto simp: UpdateExternalIdentityVerification_def tx_inverts)
  from InsertSession_Inr [OF ins] obtain sq where w3: "j \<notin> s_id ` set (db_sessions (w_db w2))"
      "sm_hash m \<notin> s_token_hash ` set (db_sessions (w_db w2))"
      "w_db w3 = (w_db w2)\<lparr>db_sessions := db_sessions (w_db w2) @ [?new], db_seqs := sq\<rparr>"
    by blast
  from rev have w': "w_db w' = (w_db w3)\<lparr>db_sessions := upd_where ?hit ?f (db_sessions (w_db w3))\<rparr>"
    by (auto simp: RevokeSessionForRotation_def tx_inverts Let_def)
  have ss: "db_sessions (w_db w2) = db_sessions (w_db w)"
    by (simp add: w2 w1)
  have live: "s \<in> set (db_sessions (w_db w))" "s_token_hash s = ?h" "s_revoked_at s = None" "s_expires_at s > At ?now"
    using s(1) by (auto simp: live_session_def)
  have "upd_where ?hit ?f (db_sessions (w_db w) @ [?new]) = upd_where (\<lambda>x. s_id x = i) ?f (db_sessions (w_db w)) @ [?new]"
  proof (rule revoke_one [where s = s and h = ?h])
    show "distinct (map s_id (db_sessions (w_db w)))" using keys by (simp add: auth_keys_def)
    show "s_token_hash ?new \<noteq> ?h" using w3(2) live(1,2) unfolding ss by (auto simp: new_session_def image_iff)
  qed (use live s in auto)
  moreover have "db_sessions (w_db w3) = db_sessions (w_db w) @ [?new]" by (subst w3(3)) (simp add: ss)
  moreover have "db_sessions (w_db w') = upd_where ?hit ?f (db_sessions (w_db w3))" by (simp add: w')
  ultimately have rep: "session_replaced i ?now ?new (db_sessions (w_db w)) (db_sessions (w_db w'))"
    by (simp add: session_replaced_def)
  have users: "list_all2 same_authority (db_users (w_db w)) (db_users (w_db w'))"
    by (simp add: w' w3(3) w2 w1) (auto simp: upd_where_def list_all2_map2 intro!: list_all2_refl)
  have frame: "w_db w' = (w_db w)\<lparr>db_users := db_users (w_db w'), db_identities := db_identities (w_db w'),
                       db_sessions := db_sessions (w_db w'), db_seqs := db_seqs (w_db w')\<rparr>"
    by (simp add: w' w3(3) w2 w1)
  have fresh: "fresh_session C (cs_token created) (cs_session_id created) (s_user_id s) ?now (cs_expires_at created)
      (db_sessions (w_db w)) ?new"
    using generated_token [OF m] w3(1,2) ss s(4) by (simp add: fresh_session_def created)
  show ?thesis
    by (intro exI [of _ s] exI [of _ u] exI [of _ x] exI [of _ ?new] conjI)
      (use s x fresh rep users frame in \<open>simp_all add: created\<close>)
qed

subsection \<open>The services\<close>

lemma ConsumeOIDCLoginAttempt_db:
  "ConsumeOIDCLoginAttempt t h w = (Inr a, w') \<Longrightarrow>
   \<exists>as. w_db w' = (w_db w)\<lparr>db_login_attempts := as\<rparr>"
  by (auto simp: ConsumeOIDCLoginAttempt_def tx_inverts Let_def split: option.splits)

lemma keys_after_consume:
  "ConsumeOIDCLoginAttempt t h w = (Inr a, w') \<Longrightarrow> auth_keys (w_db w) \<Longrightarrow> auth_keys (w_db w')"
  by (auto simp: ConsumeOIDCLoginAttempt_def tx_inverts Let_def auth_keys_def map_upd_where split: option.splits)

lemma ConsumeOIDCLoginAttempt_row:
  assumes "ConsumeOIDCLoginAttempt t h w = (Inr a, w')"
  shows "\<exists>b \<in> set (db_login_attempts (w_db w)). la_state_hash b = h \<and> la_consumed_at b = None \<and>
    a = b\<lparr>la_consumed_at := Some t\<rparr>"
  using assms by (auto simp: ConsumeOIDCLoginAttempt_def tx_inverts Let_def split: option.splits dest!: find_Some_iff2)

text \<open>After a completion the state is spent, and a spent state completes nothing.\<close>

lemma consumeLoginAttempt_spent:
  assumes "consumeLoginAttempt C cx clock validate purpose state w = (Inr c, w')" and "auth_keys (w_db w)"
  shows "spent_state (w_db w') (cr_sha C (string_bytes state))"
  using consumeLoginAttempt_Inr [OF assms(1)] ConsumeOIDCLoginAttempt_spent assms(2) by blast

lemma spent_state_consume:
  assumes "spent_state (w_db w) (cr_sha C (string_bytes state))"
  shows "consumeLoginAttempt C cx clock validate purpose state w \<noteq> (Inr c, w')"
  using spent_state_refused [OF assms] by (auto dest: consumeLoginAttempt_Inr)

lemma isl_iff_no_Inr: "isl (fst r) \<longleftrightarrow> (\<forall>x w. r \<noteq> (Inr x, w))"
  by (cases r; cases "fst r") auto

lemma spent_state_completions:
  assumes "spent_state (w_db w) (cr_sha C (string_bytes state))"
  shows "isl (fst (CompleteInitialLogin C sv P cx env state code w))"
    and "isl (fst (CompleteRevalidation C sv P cx env state code token w))"
  unfolding isl_iff_no_Inr
  by (auto dest!: CompleteInitialLogin_Inr CompleteRevalidation_Inr simp: spent_state_consume [OF assms])

lemma CompleteInitialLogin_spent:
  assumes "CompleteInitialLogin C sv P cx env state code w = (Inr l, w')" and "auth_keys (w_db w)"
  shows "spent_state (w_db w') (cr_sha C (string_bytes state))"
proof -
  from CompleteInitialLogin_Inr [OF assms(1)] obtain c consumed w1 claims created where
    clock: "sv_clock sv = Some c" and
    con: "consumeLoginAttempt C cx (Some (c 0)) (sv_return_path sv) ''login'' state w = (Inr consumed, w1)" and
    cre: "createInitialSession C env (sv_entropy sv) (Some (c 1)) (sv_maximum_age sv) claims w1 = (Inr created, w')"
    by blast
  have "spent_states_stay (w_db w1) (w_db w')"
    using relatesD [OF spent_states_board.relates_createInitialSession, of w1 C env "sv_entropy sv" "Some (c 1)"
        "sv_maximum_age sv" claims] cre by simp
  with consumeLoginAttempt_spent [OF con assms(2)] show ?thesis by (simp add: spent_states_stay_def)
qed

text \<open>A login that has begun can be consumed with the state handed to the browser.\<close>

lemma BeginInitialLogin_Inr:
  assumes "BeginInitialLogin C sv P cx path w = (Inr (url, state), w')"
  shows "\<exists>v p m pl. sv_return_path sv = Some v \<and> v path = Inr p \<and> p \<noteq> [] \<and> fresh_material m \<and>
    (\<exists>entropy. protectLoginMaterial C m entropy = Inr pl) \<and> url = op_code_url P m \<and> state = lm_state m \<and>
    \<not> list_ex (\<lambda>b. la_state_hash b = pl_state_hash pl) (db_login_attempts (w_db w)) \<and>
    db_login_attempts (w_db w') = db_login_attempts (w_db w) @
      [\<lparr>la_state_hash = pl_state_hash pl, la_nonce = pl_nonce pl, la_verifier = pl_verifier pl,
        la_purpose = ''login'', la_session_id = None, la_return_path = p, la_created_at = At (service_now sv),
        la_expires_at = At (service_now sv + initialLoginAttemptLifetime), la_consumed_at = None\<rparr>]"
proof -
  from assms obtain m where
    run: "beginInitialLogin C cx InsertOIDCLoginAttempt (sv_entropy sv) (map_option (\<lambda>c. c 0) (sv_clock sv))
      (sv_return_path sv) path w = (Inr m, w')" and
    url: "initialAuthorizationURL sv P m = Inr url" "state = lm_state m"
    by (auto simp: BeginInitialLogin_def tx_inverts split: if_splits)
  from url(1) have u: "url = op_code_url P m"
    by (auto simp: initialAuthorizationURL_def Let_def split: if_splits sum.splits)
  obtain g rest where g: "generateLoginMaterial (sv_entropy sv) = (g, rest)" by force
  from run obtain c v p pl where c: "sv_clock sv = Some c" and v: "sv_return_path sv = Some v" "v path = Inr p" "p \<noteq> []"
    and m: "g = Inr m" and pl: "protectLoginMaterial C m rest = Inr pl"
    and ins: "InsertOIDCLoginAttempt \<lparr>la_state_hash = pl_state_hash pl, la_nonce = pl_nonce pl,
        la_verifier = pl_verifier pl, la_purpose = ''login'', la_session_id = None, la_return_path = p,
        la_created_at = At (truncate_us (c 0)), la_expires_at = At (truncate_us (c 0) + initialLoginAttemptLifetime),
        la_consumed_at = None\<rparr> w = (Inr (), w')"
    by (auto simp: beginInitialLogin_def auth_context_error_def tx_inverts Let_def g split: option.splits if_splits)
  from ins c v u url(2) pl generateLoginMaterial_fresh [of "sv_entropy sv" m rest] g m show ?thesis
    by (auto simp: InsertOIDCLoginAttempt_def tx_inverts service_now_def split: if_splits)
qed

subsection \<open>An example\<close>

definition ex_claims :: verified_identity_claims where
  "ex_claims =
     \<lparr>vc_issuer = ''https://id.example/'', vc_subject = ''s-1'', vc_display_name = ''Ada'', vc_email = None,
      vc_avatar_url = None\<rparr>"

definition ex_provider :: oidc_provider where
  "ex_provider = \<lparr>op_code_url = lm_nonce, op_exchange = (\<lambda>code m. Inr ex_claims)\<rparr>"

text \<open>The tables with free identifiers for new sessions and accounts, and an identity of account 2.\<close>

definition ex_login_db :: forum_db where
  "ex_login_db = ex_auth_db\<lparr>db_seqs := (\<lambda>_. 10),
     db_identities := [\<lparr>id_user_id = 2, id_issuer = ''https://id.example/'', id_subject = ''s-1'',
       id_created_at = At 1000, id_last_verified_at = At 1000\<rparr>]\<rparr>"

text \<open>The material the service draws from its entropy, and the attempts it stores.\<close>

definition ex_material :: login_material where
  "ex_material =
     \<lparr>lm_state = raw_url_encode (replicate 32 1), lm_nonce = raw_url_encode (replicate 32 2),
      lm_verifier = raw_url_encode (replicate 32 3)\<rparr>"

definition ex_attempt :: "string \<Rightarrow> int option \<Rightarrow> gotime \<Rightarrow> attempt_row" where
  "ex_attempt purpose session t =
     \<lparr>la_state_hash = cr_sha sample_crypto (string_bytes (lm_state ex_material)),
      la_nonce = 1 # replicate 12 3 @ string_bytes (lm_nonce ex_material) @ replicate 16 0,
      la_verifier = 1 # replicate 12 3 @ string_bytes (lm_verifier ex_material) @ replicate 16 0,
      la_purpose = purpose, la_session_id = session, la_return_path = ''/'', la_created_at = At t,
      la_expires_at = At (t + initialLoginAttemptLifetime), la_consumed_at = None\<rparr>"


text \<open>The tables with the attempt, and after its consumption three minutes later.\<close>

definition ex_attempt_db :: "string \<Rightarrow> int option \<Rightarrow> settings_row list \<Rightarrow> forum_db" where
  "ex_attempt_db purpose session sts =
     ex_login_db\<lparr>db_login_attempts := [ex_attempt purpose session (10 * ns_minute)], db_settings := sts\<rparr>"

definition ex_spent_db :: "string \<Rightarrow> int option \<Rightarrow> settings_row list \<Rightarrow> forum_db" where
  "ex_spent_db purpose session sts = ex_login_db\<lparr>db_login_attempts :=
     [(ex_attempt purpose session (10 * ns_minute))\<lparr>la_consumed_at := Some (At (13 * ns_minute))\<rparr>], db_settings := sts\<rparr>"

lemma ex_now:
  "truncate_us (13 * ns_minute) = 13 * ns_minute" "13 * ns_minute \<noteq> zero_time"
  "truncate_us (13 * ns_minute + 24 * ns_hour) = 13 * ns_minute + 24 * ns_hour"
  "13 * ns_minute < 13 * ns_minute + 24 * ns_hour" "0 < 24 * ns_hour" "1000 \<le> ns_hour" "ns_hour \<le> 24 * ns_hour"
  "1000 \<le> 24 * ns_hour" "truncate_us (13 * ns_minute - ns_hour) < 2000" "2000 \<le> 13 * ns_minute"
  "13 * ns_minute < 20 * ns_hour" "13 * ns_minute + 24 * ns_hour \<noteq> zero_time"
  "10 * ns_minute \<le> 13 * ns_minute" "13 * ns_minute < 10 * ns_minute + initialLoginAttemptLifetime"
  by code_simp+

lemma ex_fresh:
  "cr_sha sample_crypto (string_bytes (raw_url_encode (replicate 32 1))) \<noteq> cr_sha sample_crypto (string_bytes ex_token)"
  by code_simp

lemma ex_fresh_material: "fresh_material ex_material"
  unfolding fresh_material_def ex_material_def by (intro exI conjI) (auto simp: repeats_def)

lemma ex_recover:
  "recoverLoginMaterial sample_crypto (lm_state ex_material) (la_state_hash (ex_attempt p s t)) (la_nonce (ex_attempt p s t))
     (la_verifier (ex_attempt p s t)) = Inr ex_material"
proof -
  have "protectLoginMaterial sample_crypto ex_material (Some (replicate 24 3)) =
    Inr \<lparr>pl_state_hash = la_state_hash (ex_attempt p s t), pl_nonce = la_nonce (ex_attempt p s t),
         pl_verifier = la_verifier (ex_attempt p s t)\<rparr>"
    by (simp add: protectLoginMaterial_def ex_material_def repeats_def read_full_def loginGCMNonceBytes_def Let_def
        protect_envelopes_def seal_secret_def sample_crypto_def protectedSecretBytes_def loginGCMTagBytes_def
        length_raw_url_encode ex_attempt_def loginProtectionVersion_def)
  then show ?thesis using recover_protected(1) [OF sample_crypto_laws ex_fresh_material] by fastforce
qed

lemma ex_consume:
  assumes "purpose = ''login'' \<and> session = None \<or> purpose = ''revalidate'' \<and> session = Some 1"
  shows "consumeLoginAttempt sample_crypto ex_cx (Some (13 * ns_minute)) (Some Inr) purpose (lm_state ex_material)
      (ex_world (ex_attempt_db purpose session sts) []) =
    (Inr \<lparr>cn_material = ex_material, cn_return_path = ''/'', cn_session_id = (case session of None \<Rightarrow> 0 | Some i \<Rightarrow> i)\<rparr>,
     ex_world (ex_spent_db purpose session sts) [])"
proof -
  have "decode_secret m (lm_state ex_material) = Inr (replicate 32 1)" for m by (simp add: ex_material_def)
  moreover have "la_state_hash (ex_attempt purpose session m) = cr_sha sample_crypto (string_bytes (lm_state ex_material))" for m
    by (simp add: ex_attempt_def)
  ultimately show ?thesis using assms ex_recover [of purpose session "10 * ns_minute"] ex_now
    by (auto simp: consumeLoginAttempt_def auth_context_error_def ex_cx_def tx_bind_def tx_return_def tx_lift_def tx_guard_def
        tx_wrap_def ConsumeOIDCLoginAttempt_def statement_def ex_world_def ex_attempt_db_def ex_spent_db_def Let_def
        upd_where_def attempt_session_def ex_attempt_def)
qed

lemmas tx_run_defs =
  tx_bind_def tx_return_def tx_lift_def tx_guard_def tx_wrap_def tx_replace_def tx_try_def tx_fail_def statement_def
  select_one_def select_all_def within_tx_def context_error_def auth_context_error_def Let_def

lemmas ex_table_defs =
  ex_world_def ex_spent_db_def ex_login_db_def ex_auth_db_def ex_db_def ex_user_def ex_auth_session_def ex_session_def

definition ex_created :: created_session where
  "ex_created = \<lparr>cs_token = raw_url_encode (replicate 32 1), cs_user_id = 2, cs_session_id = 10,
     cs_expires_at = 13 * ns_minute + 24 * ns_hour\<rparr>"

lemma ex_create:
  "\<exists>w'. createInitialSession sample_crypto ex_tx (sv_entropy (ex_service t)) (Some (13 * ns_minute)) (24 * ns_hour) ex_claims
      (ex_world (ex_spent_db p s sts) []) = (Inr ex_created, w')"
  using ex_fresh ex_now
  by (simp add: createInitialSession_def ex_service_def ex_tx_def incomplete_claims_def ex_claims_def tx_run_defs
      generateSessionMaterial_def read_full_def sessionTokenBytes_def createInitialSession_body_def LockExternalIdentity_def
      require_approval_def GetPendingRegistrationLoginState_def ex_table_defs local_user_def GetUserByExternalIdentity_def
      find_identity_def find_user_def refresh_user_def UpdateUserFromOIDC_def refresh_profile_def
      UpdateExternalIdentityVerification_def InsertSession_def nextval_def upd_where_def ex_created_def)

lemma ex_rotate:
  "\<exists>w'. rotateRevalidatedSession sample_crypto ex_tx (sv_entropy (ex_service t)) (Some (13 * ns_minute)) (24 * ns_hour) ns_hour
      1 ex_token ex_claims (ex_world (ex_spent_db p s sts) []) = (Inr ex_created, w')"
  using ex_fresh ex_now
  by (simp add: rotateRevalidatedSession_def ex_service_def ex_tx_def incomplete_claims_def ex_claims_def tx_run_defs not_less
      generateSessionMaterial_def read_full_def sessionTokenBytes_def rotateRevalidatedSession_body_def
      GetActiveSessionForRotation_def rotation_row_for_def session_id_for_token_def sql_unsuspended_def
      ex_table_defs find_user_def UpdateUserFromOIDC_def refresh_profile_def
      UpdateExternalIdentityVerification_def InsertSession_def nextval_def upd_where_def ex_created_def
      RevokeSessionForRotation_def new_session_def well_formed_token_encode ex_token_def)

text \<open>The calls: a login, and the revalidation of session 1, three minutes after their attempt.\<close>

lemma encoded_nonempty: "n \<noteq> 0 \<Longrightarrow> raw_url_encode (replicate n b) \<noteq> []"
  using length_raw_url_encode [of "replicate n b"] by (cases "raw_url_encode (replicate n b)") (auto simp: div_eq_0_iff)

lemma ex_call_parts:
  "sv_clock (ex_service t) = Some (\<lambda>n. t)" "sv_return_path (ex_service t) = Some Inr" "sv_maximum_age (ex_service t) = 24 * ns_hour"
  "sv_idle (ex_service t) = ns_hour" "ready_to_begin (ex_service t)" "op_exchange ex_provider code m = Inr ex_claims"
  "cx_given ex_cx" "cx_error ex_cx = None" "lm_state ex_material \<noteq> []" "ex_token \<noteq> []" "cs_token ex_created \<noteq> []"
  "\<not> 24 * ns_hour < ns_second" "\<not> ns_hour < ns_second"
  by (simp_all add: ex_service_def ready_to_begin_def ex_provider_def ex_cx_def ex_material_def ex_token_def ex_created_def
      ns_hour_def ns_minute_def ns_second_def encoded_nonempty)

definition ex_login :: "(go_error + completed_login) \<times> world" where
  "ex_login = CompleteInitialLogin sample_crypto (ex_service (13 * ns_minute)) ex_provider ex_cx ex_tx (lm_state ex_material)
     ''code'' (ex_world (ex_attempt_db ''login'' None []) [])"

lemma ex_login_eq:
  obtains l where "CompleteInitialLogin sample_crypto (ex_service (13 * ns_minute)) ex_provider ex_cx ex_tx (lm_state ex_material)
     ''code'' (ex_world (ex_attempt_db ''login'' None []) []) = (Inr l, snd ex_login)"
proof -
  obtain w' where "createInitialSession sample_crypto ex_tx (sv_entropy (ex_service (13 * ns_minute))) (Some (13 * ns_minute))
      (24 * ns_hour) ex_claims (ex_world (ex_spent_db ''login'' None []) []) = (Inr ex_created, w')"
    using ex_create by blast
  then have "\<exists>l. CompleteInitialLogin sample_crypto (ex_service (13 * ns_minute)) ex_provider ex_cx ex_tx (lm_state ex_material)
     ''code'' (ex_world (ex_attempt_db ''login'' None []) []) = (Inr l, w')"
    using ex_now
    by (simp add: CompleteInitialLogin_def completeInitialLogin_def completion_stage_def ex_call_parts ex_consume tx_run_defs)
      (simp add: ex_created_def)
  with that show thesis by (auto simp: ex_login_def)
qed

lemma ex_rotation_eq:
  obtains l w' where "CompleteRevalidation sample_crypto ((ex_service (13 * ns_minute))\<lparr>sv_dynamic := dynamic\<rparr>) ex_provider
     ex_cx ex_tx (lm_state ex_material) ''code'' ex_token (ex_world (ex_attempt_db ''revalidate'' (Some 1) sts) []) = (Inr l, w')"
proof -
  obtain w' where "rotateRevalidatedSession sample_crypto ex_tx (sv_entropy (ex_service (13 * ns_minute))) (Some (13 * ns_minute))
      (24 * ns_hour) ns_hour 1 ex_token ex_claims (ex_world (ex_spent_db ''revalidate'' (Some 1) sts) []) = (Inr ex_created, w')"
    using ex_rotate by blast
  moreover have "ready_to_begin ((ex_service (13 * ns_minute))\<lparr>sv_dynamic := dynamic\<rparr>)"
    using ex_call_parts(5) [of "13 * ns_minute"] by (simp add: ready_to_begin_def)
  ultimately have "\<exists>l. CompleteRevalidation sample_crypto ((ex_service (13 * ns_minute))\<lparr>sv_dynamic := dynamic\<rparr>) ex_provider
     ex_cx ex_tx (lm_state ex_material) ''code'' ex_token (ex_world (ex_attempt_db ''revalidate'' (Some 1) sts) []) = (Inr l, w')"
    using ex_now
    by (simp add: CompleteRevalidation_def completeRevalidation_def completion_stage_def ex_call_parts ex_consume tx_run_defs)
      (simp add: ex_created_def)
  with that show thesis by blast
qed

lemma ex_attempt_keys: "auth_keys (ex_attempt_db purpose session sts)"
  by (simp add: auth_keys_def ex_attempt_db_def ex_login_db_def ex_auth_db_def ex_db_def)

text \<open>The start of that login.\<close>

lemma ex_begin:
  obtains url state w' where "BeginInitialLogin sample_crypto (ex_service (10 * ns_minute)) ex_provider ex_cx ''/''
      (ex_world ex_login_db []) = (Inr (url, state), w')"
    and "state = lm_state ex_material" "w_faults w' = []" "auth_keys (w_db w')"
proof -
  have "truncate_us (10 * ns_minute) = 10 * ns_minute" "10 * ns_minute \<noteq> zero_time" by code_simp+
  moreover have "crypto_laws sample_crypto" by (rule sample_crypto_laws)
  ultimately have "\<exists>url w'. BeginInitialLogin sample_crypto (ex_service (10 * ns_minute)) ex_provider ex_cx ''/''
      (ex_world ex_login_db []) = (Inr (url, lm_state ex_material), w') \<and> w_faults w' = [] \<and> auth_keys (w_db w')"
    by (simp add: BeginInitialLogin_def beginInitialLogin_def ready_to_begin_def ex_service_def ex_provider_def ex_cx_def
        tx_run_defs generateLoginMaterial_def loginSecretBytes_def read_full_def repeats_def
        initialAuthorizationURL_def protectLoginMaterial_def loginGCMNonceBytes_def protect_envelopes_def seal_secret_def
        sample_crypto_def protectedSecretBytes_def loginGCMTagBytes_def length_raw_url_encode
        InsertOIDCLoginAttempt_def ex_world_def ex_login_db_def ex_auth_db_def ex_db_def ex_material_def auth_keys_def)
  with that show thesis by blast
qed

subsection \<open>Properties\<close>

text \<open>
  C4. A login comes back: the state that a start hands to the browser recovers, from whatever tables
  still hold its attempt, exactly the material the authorization URL was built from and the return path
  that was validated, as long as the attempt has not expired.
\<close>

theorem login_round_trip:
  assumes "crypto_laws C" and "BeginInitialLogin C sv P cx path w = (Inr (url, state), w')"
    and "sv_return_path sv = Some v" and "\<And>p. v path = Inr p \<Longrightarrow> v p = Inr p"
    and "auth_keys (w_db w2)" and "last (db_login_attempts (w_db w')) \<in> set (db_login_attempts (w_db w2))"
    and "w_faults w2 = []" and "cx_given cx2" and "cx_error cx2 = None" and "reading \<noteq> zero_time"
    and "service_now sv \<le> truncate_us reading" and "truncate_us reading < service_now sv + initialLoginAttemptLifetime"
  shows "\<exists>m p w3. v path = Inr p \<and> url = op_code_url P m \<and> state = lm_state m \<and> fresh_material m \<and>
    consumeLoginAttempt C cx2 (Some reading) (Some v) ''login'' state w2 =
      (Inr \<lparr>cn_material = m, cn_return_path = p, cn_session_id = 0\<rparr>, w3)"
proof -
  from BeginInitialLogin_Inr [OF assms(2)] assms(3) obtain p m pl entropy where
    p: "v path = Inr p" "p \<noteq> []" and fresh: "fresh_material m" and pl: "protectLoginMaterial C m entropy = Inr pl" and
    url: "url = op_code_url P m" "state = lm_state m" and
    att: "db_login_attempts (w_db w') = db_login_attempts (w_db w) @
      [\<lparr>la_state_hash = pl_state_hash pl, la_nonce = pl_nonce pl, la_verifier = pl_verifier pl,
        la_purpose = ''login'', la_session_id = None, la_return_path = p, la_created_at = At (service_now sv),
        la_expires_at = At (service_now sv + initialLoginAttemptLifetime), la_consumed_at = None\<rparr>]" (is "_ = _ @ [?a]")
    by auto
  note rec = recover_protected [OF assms(1) fresh pl]
  have mem: "?a \<in> set (db_login_attempts (w_db w2))" using assms(6) by (simp add: att)
  have "find (\<lambda>a. la_state_hash a = pl_state_hash pl \<and> la_consumed_at a = None \<and> la_created_at a \<le> At (truncate_us reading) \<and>
      la_expires_at a > At (truncate_us reading)) (db_login_attempts (w_db w2)) = Some ?a"
    by (rule find_by_key [where k = la_state_hash, OF _ mem])
      (use assms(5,11,12) in \<open>auto simp: auth_keys_def\<close>)
  moreover obtain raw where "decode_secret ''login state has an invalid encoding or length'' state = Inr raw"
    using fresh by (auto simp: fresh_material_def url(2))
  ultimately show ?thesis
    using p fresh url rec assms(4) [OF p(1)] assms(7-10)
    by (simp add: consumeLoginAttempt_def auth_context_error_def tx_run_defs ConsumeOIDCLoginAttempt_def attempt_session_def)
qed

theorem login_round_trip_witness:
  "\<exists>url state w' m w3. BeginInitialLogin sample_crypto (ex_service (10 * ns_minute)) ex_provider ex_cx ''/''
       (ex_world ex_login_db []) = (Inr (url, state), w') \<and> url = op_code_url ex_provider m \<and>
     consumeLoginAttempt sample_crypto ex_cx (Some (13 * ns_minute)) (Some Inr) ''login'' state w' =
       (Inr \<lparr>cn_material = m, cn_return_path = ''/'', cn_session_id = 0\<rparr>, w3)"
proof -
  obtain url state w' where start: "BeginInitialLogin sample_crypto (ex_service (10 * ns_minute)) ex_provider ex_cx ''/''
       (ex_world ex_login_db []) = (Inr (url, state), w')"
    and state: "state = lm_state ex_material" "w_faults w' = []" "auth_keys (w_db w')"
    by (rule ex_begin)
  have now: "service_now (ex_service (10 * ns_minute)) = 10 * ns_minute" by code_simp
  from BeginInitialLogin_Inr [OF start] have last: "last (db_login_attempts (w_db w')) \<in> set (db_login_attempts (w_db w'))"
    by auto
  obtain m p w3 where m: "p = ''/''" "fresh_material m" "state = lm_state m" "url = op_code_url ex_provider m"
    and consume: "consumeLoginAttempt sample_crypto ex_cx (Some (13 * ns_minute)) (Some Inr) ''login'' state w' =
       (Inr \<lparr>cn_material = m, cn_return_path = p, cn_session_id = 0\<rparr>, w3)"
    using login_round_trip [OF sample_crypto_laws start _ _ state(3) last state(2), of Inr ex_cx "13 * ns_minute"]
      ex_now ex_call_parts(2,7,8) now by auto
  show ?thesis using start consume m(1,4) by blast
qed

text \<open>
  C5. A login state is used once: after a completed login no completion with the same state succeeds,
  neither of a login nor of a revalidation, under any service, provider and code, and after any
  sequence of services on the board.
\<close>

theorem login_state_single_use:
  assumes "auth_keys (w_db w)" and "CompleteInitialLogin C sv P cx env state code w = (Inr l, w')"
    and "board_run (w_db w') (w_db w2)"
  shows "isl (fst (CompleteInitialLogin C sv2 P2 cx2 env2 state code2 w2)) \<and>
    isl (fst (CompleteRevalidation C sv2 P2 cx2 env2 state code2 token w2))"
  using spent_state_completions [OF board_run_spent_state [OF assms(3) CompleteInitialLogin_spent [OF assms(2,1)]]]
  by simp

theorem login_state_single_use_witness:
  "isl (fst (CompleteInitialLogin sample_crypto (ex_service (13 * ns_minute)) ex_provider ex_cx ex_tx (lm_state ex_material)
     ''code'' (snd ex_login)))"
proof -
  obtain l where run: "CompleteInitialLogin sample_crypto (ex_service (13 * ns_minute)) ex_provider ex_cx ex_tx (lm_state ex_material)
     ''code'' (ex_world (ex_attempt_db ''login'' None []) []) = (Inr l, snd ex_login)"
    by (rule ex_login_eq)
  have "board_run (w_db (snd ex_login)) (w_db (snd ex_login))" by (simp add: board_run_def)
  from login_state_single_use [OF _ run this] show ?thesis by (simp add: ex_attempt_keys)
qed

text \<open>
  C6. What a login does: it succeeds only for a subject that is approved where a registration of it is
  known; its session is one new row, with an unused credential that the browser gets, of the accepted
  account that the stored identity of the verified issuer and subject names; an account that was
  there keeps its role, restrictions and groups, and one that was not is added as a plain member.
\<close>

theorem login_effect:
  assumes "CompleteInitialLogin C sv P cx env state code w = (Inr l, w')"
  shows "\<exists>c claims attempts u db1 new i.
    sv_clock sv = Some c \<and> (\<exists>m. op_exchange P code m = Inr claims) \<and>
    approved_subject (w_db w) (vc_subject claims) \<and>
    account_of_login claims u ((w_db w)\<lparr>db_login_attempts := attempts\<rparr>) db1 \<and>
    cl_expires_at l = truncate_us (truncate_us (c 1) + sv_maximum_age sv) \<and>
    fresh_session C (cl_token l) i (u_id u) (truncate_us (c 1)) (cl_expires_at l) (db_sessions (w_db w)) new \<and>
    w_db w' = db1\<lparr>db_sessions := db_sessions (w_db w) @ [new], db_seqs := db_seqs (w_db w')\<rparr>"
proof -
  from CompleteInitialLogin_Inr [OF assms(1)] obtain c consumed w1 claims created where
    clock: "sv_clock sv = Some c" and
    con: "consumeLoginAttempt C cx (Some (c 0)) (sv_return_path sv) ''login'' state w = (Inr consumed, w1)" and
    exch: "op_exchange P code (cn_material consumed) = Inr claims" and
    cre: "createInitialSession C env (sv_entropy sv) (Some (c 1)) (sv_maximum_age sv) claims w1 = (Inr created, w')" and
    l: "l = \<lparr>cl_token = cs_token created, cl_return_path = cn_return_path consumed, cl_expires_at = cs_expires_at created\<rparr>"
    by blast
  from consumeLoginAttempt_Inr [OF con] ConsumeOIDCLoginAttempt_db obtain as where
    w1: "w_db w1 = (w_db w)\<lparr>db_login_attempts := as\<rparr>" by blast
  from createInitialSession_Inr [OF cre] obtain u db1 new where
    "approved_subject (w_db w1) (vc_subject claims)" "account_of_login claims u (w_db w1) db1"
    "cs_expires_at created = truncate_us (truncate_us (c 1) + sv_maximum_age sv)"
    "fresh_session C (cs_token created) (cs_session_id created) (u_id u) (truncate_us (c 1)) (cs_expires_at created)
      (db_sessions (w_db w1)) new"
    "w_db w' = db1\<lparr>db_sessions := db_sessions (w_db w1) @ [new], db_seqs := db_seqs (w_db w')\<rparr>"
    by blast
  then show ?thesis
    using clock exch w1
    by (intro exI [of _ c] exI [of _ claims] exI [of _ as] exI [of _ u] exI [of _ db1] exI [of _ new]
        exI [of _ "cs_session_id created"]) (auto simp: l approved_subject_def)
qed

theorem login_effect_witness:
  "\<exists>claims u db1. (\<exists>m. op_exchange ex_provider ''code'' m = Inr claims) \<and>
     approved_subject (ex_attempt_db ''login'' None []) (vc_subject claims) \<and>
     (\<exists>as. account_of_login claims u ((ex_attempt_db ''login'' None [])\<lparr>db_login_attempts := as\<rparr>) db1)"
proof -
  obtain l where "CompleteInitialLogin sample_crypto (ex_service (13 * ns_minute)) ex_provider ex_cx ex_tx (lm_state ex_material)
     ''code'' (ex_world (ex_attempt_db ''login'' None []) []) = (Inr l, snd ex_login)"
    by (rule ex_login_eq)
  from login_effect [OF this] show ?thesis unfolding w_db_ex_world by blast
qed

text \<open>
  The idle lifetime that is in force: the stored one under dynamic control, which the service reads with every
  request, and the one it was built with otherwise.
\<close>

definition current_idle :: "auth_service \<Rightarrow> forum_db \<Rightarrow> duration option" where
  "current_idle sv db =
     (if sv_dynamic sv
      then case db_settings db of [st] \<Rightarrow> Some (st_session_idle_seconds st * ns_second) | _ \<Rightarrow> None
      else Some (sv_idle sv))"

text \<open>The bound on the last activity is compared with times of the database, in microseconds.\<close>

definition idle_bound :: "gotime \<Rightarrow> duration \<Rightarrow> duration" where
  "idle_bound now idle = now - truncate_us (now - idle)"

lemma idle_bound_mono: "idle \<le> idle' \<Longrightarrow> idle_bound now idle \<le> idle_bound now idle'"
proof -
  assume "idle \<le> idle'"
  then have "(now - idle') div 1000 \<le> (now - idle) div 1000" by (simp add: zdiv_mono1)
  then show ?thesis by (simp add: idle_bound_def truncate_us_def minus_mod_eq_mult_div)
qed

lemma live_session_idle: "live_session db h now idle s u \<Longrightarrow> idle \<le> idle' \<Longrightarrow> live_session db h now idle' s u"
  unfolding live_session_def by (auto intro: le_less_trans [of "At (now - idle')" "At (now - idle)"])

text \<open>
  C7. A revalidation replaces one session. It succeeds only for a session the attempt is bound to and whose
  credential the browser still holds, that is not revoked and not expired, belongs to an accepted and unsuspended
  account and was active within the idle lifetime the service was built with; and only when the provider verifies
  the very issuer and subject stored for its account. That session is revoked at the instant the new one of the
  same account is issued, no account changes its authority, and the old credential is dead from then on. Where the
  idle lifetime in force is not shorter than the one the service was built with, the session is therefore live
  under the settings in force; where it has been shortened since, the code does not look at it, against the
  specification, and \<open>rotation_uses_startup_idle\<close> below shows a session that no longer authenticates being
  replaced.
\<close>

theorem rotation_replaces_session:
  assumes "auth_keys (w_db w)" and "CompleteRevalidation C sv P cx env state code token w = (Inr l, w')"
  shows "\<exists>c s u x claims new i.
    sv_clock sv = Some c \<and> (\<exists>m. op_exchange P code m = Inr claims) \<and>
    live_session (w_db w) (cr_sha C (string_bytes token)) (truncate_us (c 1))
      (idle_bound (truncate_us (c 1)) (sv_idle sv)) s u \<and>
    (\<forall>idle. current_idle sv (w_db w) = Some idle \<and> sv_idle sv \<le> idle \<longrightarrow>
       live_session (w_db w) (cr_sha C (string_bytes token)) (truncate_us (c 1)) (idle_bound (truncate_us (c 1)) idle) s u) \<and>
    (\<exists>a \<in> set (db_login_attempts (w_db w)). la_state_hash a = cr_sha C (string_bytes state) \<and>
       la_purpose a = ''revalidate'' \<and> la_consumed_at a = None \<and> la_session_id a = Some (s_id s)) \<and>
    x \<in> set (db_identities (w_db w)) \<and> id_user_id x = s_user_id s \<and>
    id_issuer x = vc_issuer claims \<and> id_subject x = vc_subject claims \<and>
    fresh_session C (cl_token l) i (s_user_id s) (truncate_us (c 1)) (cl_expires_at l) (db_sessions (w_db w)) new \<and>
    session_replaced (s_id s) (truncate_us (c 1)) new (db_sessions (w_db w)) (db_sessions (w_db w')) \<and>
    list_all2 same_authority (db_users (w_db w)) (db_users (w_db w')) \<and>
    dead_token (w_db w') (cr_sha C (string_bytes token))"
proof -
  from CompleteRevalidation_Inr [OF assms(2)] obtain c consumed w1 claims created where
    clock: "sv_clock sv = Some c" and
    con: "consumeLoginAttempt C cx (Some (c 0)) (sv_return_path sv) ''revalidate'' state w = (Inr consumed, w1)" and
    exch: "op_exchange P code (cn_material consumed) = Inr claims" and
    rot: "rotateRevalidatedSession C env (sv_entropy sv) (Some (c 1)) (sv_maximum_age sv) (sv_idle sv)
      (cn_session_id consumed) token claims w1 = (Inr created, w')" and
    l: "l = \<lparr>cl_token = cs_token created, cl_return_path = cn_return_path consumed, cl_expires_at = cs_expires_at created\<rparr>"
    by blast
  from consumeLoginAttempt_Inr [OF con] obtain a where
    cons: "ConsumeOIDCLoginAttempt (At (truncate_us (c 0))) (cr_sha C (string_bytes state)) w = (Inr a, w1)" and
    bound: "la_purpose a = ''revalidate''" "attempt_session ''revalidate'' a = Inr (cn_session_id consumed)" by auto
  from ConsumeOIDCLoginAttempt_db [OF cons] obtain as where
    w1: "w_db w1 = (w_db w)\<lparr>db_login_attempts := as\<rparr>" by blast
  have "board_run (w_db w) (w_db w')"
    using board_step.call [of w "CallCompleteRevalidation C sv P cx env state code token"] assms(2)
    by (simp add: board_run_def r_into_rtranclp)
  then have keys': "auth_keys (w_db w')" using assms(1) by (rule board_run_auth_keys)
  have "auth_keys (w_db w1)" using keys_after_consume [OF cons assms(1)] .
  from rotateRevalidatedSession_Inr [OF rot this] obtain s u x new where
    s: "live_session (w_db w1) (cr_sha C (string_bytes token)) (truncate_us (c 1))
      (truncate_us (c 1) - truncate_us (truncate_us (c 1) - sv_idle sv)) s u" "s_id s = cn_session_id consumed" and
    x: "x \<in> set (db_identities (w_db w1))" "id_user_id x = s_user_id s" "id_issuer x = vc_issuer claims"
      "id_subject x = vc_subject claims" and
    new: "fresh_session C (cs_token created) (cs_session_id created) (s_user_id s) (truncate_us (c 1)) (cs_expires_at created)
      (db_sessions (w_db w1)) new" and
    rep: "session_replaced (cn_session_id consumed) (truncate_us (c 1)) new (db_sessions (w_db w1)) (db_sessions (w_db w'))" and
    users: "list_all2 same_authority (db_users (w_db w1)) (db_users (w_db w'))"
    by blast
  have live: "live_session (w_db w) (cr_sha C (string_bytes token)) (truncate_us (c 1))
      (idle_bound (truncate_us (c 1)) (sv_idle sv)) s u"
    using s(1) by (simp add: live_session_def w1 find_user_def idle_bound_def)
  have now: "\<forall>idle. current_idle sv (w_db w) = Some idle \<and> sv_idle sv \<le> idle \<longrightarrow>
      live_session (w_db w) (cr_sha C (string_bytes token)) (truncate_us (c 1)) (idle_bound (truncate_us (c 1)) idle) s u"
    using live_session_idle [OF live idle_bound_mono] by blast
  have "s\<lparr>s_revoked_at := Some (At (truncate_us (c 1)))\<rparr> \<in> set (db_sessions (w_db w'))"
    using rep live s(2) by (auto simp: session_replaced_def w1 live_session_def set_upd_where intro!: image_eqI [of _ _ s])
  from revoked_session_dead [OF keys' this] live have dead: "dead_token (w_db w') (cr_sha C (string_bytes token))"
    by (simp add: live_session_def)
  from ConsumeOIDCLoginAttempt_row [OF cons] bound s(2) have
    "\<exists>a \<in> set (db_login_attempts (w_db w)). la_state_hash a = cr_sha C (string_bytes state) \<and>
       la_purpose a = ''revalidate'' \<and> la_consumed_at a = None \<and> la_session_id a = Some (s_id s)"
    by (auto simp: attempt_session_def split: option.splits if_splits)
  with clock exch live now x new rep users dead s(2) show ?thesis
    by (intro exI [of _ c] exI [of _ s] exI [of _ u] exI [of _ x] exI [of _ claims] exI [of _ new]
        exI [of _ "cs_session_id created"]) (auto simp: l w1)
qed

theorem rotation_replaces_session_witness:
  "\<exists>s u l w'. live_session (ex_attempt_db ''revalidate'' (Some 1) [ex_settings 3600 3600])
       (cr_sha sample_crypto (string_bytes ex_token)) (13 * ns_minute) (idle_bound (13 * ns_minute) (3600 * ns_second)) s u \<and>
     CompleteRevalidation sample_crypto ((ex_service (13 * ns_minute))\<lparr>sv_dynamic := True\<rparr>) ex_provider ex_cx ex_tx
       (lm_state ex_material) ''code'' ex_token
       (ex_world (ex_attempt_db ''revalidate'' (Some 1) [ex_settings 3600 3600]) []) = (Inr l, w') \<and>
     dead_token (w_db w') (cr_sha sample_crypto (string_bytes ex_token))"
proof -
  let ?sv = "(ex_service (13 * ns_minute))\<lparr>sv_dynamic := True\<rparr>"
  let ?w = "ex_world (ex_attempt_db ''revalidate'' (Some 1) [ex_settings 3600 3600]) []"
  obtain l w' where run: "CompleteRevalidation sample_crypto ?sv ex_provider ex_cx ex_tx (lm_state ex_material) ''code'' ex_token ?w
      = (Inr l, w')"
    by (rule ex_rotation_eq)
  have "auth_keys (w_db ?w)" by (simp add: ex_attempt_keys)
  from rotation_replaces_session [OF this run] obtain c s u where c: "sv_clock ?sv = Some c"
    and live: "\<forall>idle. current_idle ?sv (w_db ?w) = Some idle \<and> sv_idle ?sv \<le> idle \<longrightarrow>
      live_session (w_db ?w) (cr_sha sample_crypto (string_bytes ex_token)) (truncate_us (c 1))
        (idle_bound (truncate_us (c 1)) idle) s u"
    and dead: "dead_token (w_db w') (cr_sha sample_crypto (string_bytes ex_token))"
    by (elim exE conjE) (rule that)
  have "current_idle ?sv (w_db ?w) = Some (3600 * ns_second)"
    by (simp add: current_idle_def ex_attempt_db_def ex_settings_def)
  moreover have "sv_idle ?sv \<le> 3600 * ns_second" by (simp add: ex_call_parts ns_hour_def ns_minute_def ns_second_def)
  moreover from c have "c = (\<lambda>n. 13 * ns_minute)" by (simp add: ex_call_parts)
  ultimately have "live_session (ex_attempt_db ''revalidate'' (Some 1) [ex_settings 3600 3600])
      (cr_sha sample_crypto (string_bytes ex_token)) (13 * ns_minute) (idle_bound (13 * ns_minute) (3600 * ns_second)) s u"
    using live by (simp add: ex_now)
  with run dead show ?thesis by blast
qed

text \<open>
  The idle bound of a rotation is the one the service was built with. Under dynamic control a session
  that the stored settings call idle, and which authenticates nothing any more, is therefore replaced by
  a fresh one.
\<close>

lemma rotation_uses_startup_idle:
  fixes sv sts
  defines "sv \<equiv> (ex_service (13 * ns_minute))\<lparr>sv_dynamic := True\<rparr>"
    and "sts \<equiv> [ex_settings 60 60]"
  shows "fst (AuthenticateSession sample_crypto sv ex_cx ex_token (ex_world (ex_attempt_db ''revalidate'' (Some 1) sts) []))
      = Inr anonymous"
    and "\<exists>l w'. CompleteRevalidation sample_crypto sv ex_provider ex_cx ex_tx (lm_state ex_material) ''code'' ex_token
      (ex_world (ex_attempt_db ''revalidate'' (Some 1) sts) []) = (Inr l, w')"
proof -
  show "\<exists>l w'. CompleteRevalidation sample_crypto sv ex_provider ex_cx ex_tx (lm_state ex_material) ''code'' ex_token
      (ex_world (ex_attempt_db ''revalidate'' (Some 1) sts) []) = (Inr l, w')"
    unfolding sv_def by (rule ex_rotation_eq [of True sts]) blast
  show "fst (AuthenticateSession sample_crypto sv ex_cx ex_token (ex_world (ex_attempt_db ''revalidate'' (Some 1) sts) []))
      = Inr anonymous"
  proof -
    have "\<not> isl (NewPublicationPolicy 10 5 60000000000 3600000000000)" by code_simp
    moreover have "well_formed_token ex_token" by (simp add: ex_token_def well_formed_token_encode)
    ultimately show ?thesis
      using ex_now
      by (simp add: AuthenticateSession_unfold sv_def sts_def ex_call_parts service_loader_def load_with_control_def
          ex_settings_def GetActiveSessionWithControl_def authenticateSessionWithPolicy_def active_session_for_def session_id_for_token_def
          tx_run_defs ex_attempt_db_def ex_table_defs ex_service_def ex_ceilings_def ceilings_valid_def
          ns_hour_def ns_minute_def ns_second_def ex_cx_def)
  qed
qed

end
