(* ===== verification/AccountFacts.thy ===== *)
theory AccountFacts
  imports SuspensionFacts
begin

text \<open>
  What the changes of \<open>internal/administration/account.go\<close> do when they succeed: a change of role takes
  an active administrator other than the target, changes the target's row only, is audited and ends the
  sessions of the account.
\<close>

subsection \<open>Locked accounts\<close>

text \<open>The account of an actor at an instant, as every change of this package requires it.\<close>

definition acting_administrator :: "forum_db \<Rightarrow> access_context \<Rightarrow> gotime \<Rightarrow> bool" where
  "acting_administrator db actor now \<longleftrightarrow>
     (\<exists>u. find_user db (ac_user_id actor) = Some u \<and> validLockedAdministrator u actor now)"

lemma lockAdministrationUsers_Inr:
  assumes "lockAdministrationUsers actor target w = (Inr (a, t), w')"
  shows "find_user (w_db w) actor = Some a \<and> find_user (w_db w) target = Some t \<and> w_db w' = w_db w"
  using assms
  by (auto simp: lockAdministrationUsers_def LockAdministrationUser_def Let_def tx_inverts min_def max_def
      split: if_splits dest: find_user_mem)

lemma validLockedAdministrator_active:
  assumes "validLockedAdministrator u actor now"
  shows "u_role u = ''administrator'' \<and> u_sync_state u = ''accepted'' \<and> active_administrator (At now) u"
proof -
  from assms have u: "u_role u = ''administrator''" "u_sync_state u = ''accepted''" "\<not> effectiveSuspended u now"
    and v: "validLockedAdministrationUser u (ac_user_id actor)"
    unfolding validLockedAdministrator_def by (auto split: if_splits)
  have "sql_unsuspended (At now) u"
  proof (cases "u_suspended_at u")
    case None
    then show ?thesis by (simp add: sql_unsuspended_def)
  next
    case (Some s)
    with v have fin: "finite_ts (Some s)" "u_suspended_until u = None \<or> finite_ts (u_suspended_until u)"
      by (auto simp: validLockedAdministrationUser_def finiteAdministrationTime_def Let_def split: if_splits)
    with u(3) Some show ?thesis
      by (auto simp: effectiveSuspended_def sql_unsuspended_def finite_ts_iff)
  qed
  with u show ?thesis by (simp add: active_administrator_def)
qed

subsection \<open>Roles\<close>

text \<open>The account rows before and after a change of role: the target's row gets the role and a new revision.\<close>

definition role_changed :: "int \<Rightarrow> string \<Rightarrow> int \<Rightarrow> user_row list \<Rightarrow> user_row list \<Rightarrow> bool" where
  "role_changed i role rv us us' \<longleftrightarrow>
     list_all2 (\<lambda>u u'. u_id u' = u_id u \<and> u_sync_state u' = u_sync_state u \<and> u_suspended_at u' = u_suspended_at u \<and>
       (u' = u \<or> u_id u = i \<and> u_role u' = role \<and> u_administration_revision u = rv \<and>
                 u_administration_revision u' = rv + 1)) us us' \<and>
     (\<exists>u' \<in> set us'. u_id u' = i \<and> u_role u' = role \<and> u_administration_revision u' = rv + 1)"

lemma ChangeAdministrationRoleAndAudit_Inr:
  assumes "ChangeAdministrationRoleAndAudit role stamp i expected_role rv actor reason req w = (Inr (v, k, n), w')"
  shows "role_changed i role rv (db_users (w_db w)) (db_users (w_db w')) \<and>
    sessions_ended i (db_sessions (w_db w)) (db_sessions (w_db w')) \<and>
    audited (w_db w) (w_db w') (ActorUser actor) ''change_role'' (Some reason) req (TargetUser i) k \<and>
    n = int (length (filter (\<lambda>s. s_user_id s = i \<and> s_revoked_at s = None) (db_sessions (w_db w))))"
proof -
  let ?hit = "\<lambda>u. u_id u = i \<and> u_role u = expected_role \<and> u_administration_revision u = rv \<and>
      u_administration_revision u < max_int64"
  let ?change = "\<lambda>u. u\<lparr>u_role := role, u_updated_at := max (u_updated_at u) stamp,
      u_administration_revision := u_administration_revision u + 1\<rparr>"
  let ?own = "\<lambda>s. s_user_id s = i \<and> s_revoked_at s = None"
  from assms obtain u where u: "find ?hit (db_users (w_db w)) = Some u" "v = ?change u"
    and users: "db_users (w_db w') = upd_where ?hit ?change (db_users (w_db w))"
    and sessions: "db_sessions (w_db w') = upd_where ?own
        (\<lambda>s. s\<lparr>s_revoked_at := Some (max (s_issued_at s) stamp)\<rparr>) (db_sessions (w_db w))"
    and audit: "audited (w_db w) (w_db w') (ActorUser actor) ''change_role'' (Some reason) req (TargetUser (u_id v)) k"
    and n: "n = int (length (filter ?own (db_sessions (w_db w))))"
    unfolding ChangeAdministrationRoleAndAudit_def
    by (auto simp: tx_inverts Let_def case_prod_unfold audited_def insert_audit_audits split: option.splits)
  from u(1) have hit: "u \<in> set (db_users (w_db w))" "?hit u" by (auto dest!: find_Some_iff2)
  from upd_where_hit [of u _ ?hit ?change, OF hit] have "?change u \<in> set (db_users (w_db w'))" by (simp add: users)
  then have "role_changed i role rv (db_users (w_db w)) (db_users (w_db w'))"
    using hit(2) unfolding role_changed_def
    by (intro conjI bexI [of _ "?change u"]) (auto simp: users upd_where_def list_all2_map2 intro!: list_all2_refl)
  with hit(2) sessions u(2) audit n show ?thesis
    by (auto simp: upd_where_def sessions_ended_def list_all2_map2 intro!: list_all2_refl)
qed

lemma ChangeAccountRole_body_Inr:
  assumes "ChangeAccountRole_body now actor i role expected reason rv req w = (Inr res, w')"
  shows "acting_administrator (w_db w) actor now \<and>
    (\<exists>t. find_user (w_db w) i = Some t \<and> administrationRole (u_role t) = Some expected \<and>
         u_administration_revision t = rv \<and> \<not> effectiveSuspended t now) \<and>
    role_changed i (administrationRoleName role) rv (db_users (w_db w)) (db_users (w_db w')) \<and>
    sessions_ended i (db_sessions (w_db w)) (db_sessions (w_db w')) \<and>
    audited (w_db w) (w_db w') (ActorUser (ac_user_id actor)) ''change_role'' (Some reason) req (TargetUser i)
      (am_audit_id res) \<and>
    am_role res = role \<and> am_revision res = rv + 1 \<and>
    am_revoked_sessions res =
      int (length (filter (\<lambda>s. s_user_id s = i \<and> s_revoked_at s = None) (db_sessions (w_db w))))"
proof -
  note defs = ChangeAccountRole_body_def configureAccountTransaction_def ConfigureAdministrationTransaction_def
    LockGovernanceState_def CountActiveAdministrators_def Let_def tx_inverts
  from assms show ?thesis
    by (auto simp: defs acting_administrator_def split: if_splits
        dest!: lockAdministrationUsers_Inr ChangeAdministrationRoleAndAudit_Inr)
qed

lemma ChangeAccountRole_Inr:
  assumes "ChangeAccountRole env clock actor i role expected reason rv req w = (Inr res, w')"
  shows "\<exists>reading. clock = Some reading \<and> i \<noteq> ac_user_id actor \<and> validAdministrationRole role \<and> role \<noteq> expected \<and>
    ChangeAccountRole_body (truncate_us reading) actor i role expected reason rv req w = (Inr res, w')"
  using assms
  by (auto simp: ChangeAccountRole_def validateAccountMutationBoundary_def accountMutationTime_def context_error_def
      tx_inverts within_tx_Inr split: option.splits if_splits)

end
