(* ===== verification/GovernanceLaws.thy ===== *)
theory GovernanceLaws
  imports AuthLaws AccountFacts
begin

text \<open>
  What no sequence of services can undo in \<open>internal/governance\<close> and \<open>internal/administration\<close>: every
  role held was held before, granted on the audit record or the membership of a new account; and a board
  with an administrator keeps one. The second law rests on decisions two services take on rows they
  locked, so it interprets the interface of services, not that of statements.
\<close>

subsection \<open>Relations that hold of the successful runs only\<close>

context table_relation
begin

text \<open>The body of a transaction only has to move the tables along the relation where it succeeds.\<close>

lemma relates_within_tx_success:
  assumes "\<And>w x w'. m w = (Inr x, w') \<Longrightarrow> R (w_db w) (w_db w')"
  shows "relates R (within_tx env m)"
proof (rule relatesI)
  fix w :: world
  obtain r w1 where m: "m w = (r, w1)" by force
  have "R (w_db w) (w_db (rolled_back w w1))" by (simp add: rolled_back_def R_seqs)
  moreover have "R (w_db w) (w_db w1)" if "r = Inr x" for x using assms m that by simp
  ultimately show "R (w_db w) (w_db (snd (within_tx env m w)))"
    using m by (auto simp: within_tx_def R_refl split: option.splits begin_outcome.splits sum.splits
        commit_outcome.splits)
qed

lemma relates_guarded: "(\<not> c \<Longrightarrow> relates R m) \<Longrightarrow> relates R (tx_bind (tx_guard c e) (\<lambda>_. m))"
  by (cases c) (simp_all add: relates_def tx_bind_def tx_guard_def R_refl)

lemma relates_guarded_unit:
  "(\<not> c \<Longrightarrow> relates R (m ())) \<Longrightarrow> relates R (tx_bind (tx_guard c e) m)"
  by (cases c) (simp_all add: relates_def tx_bind_def tx_guard_def R_refl)

end

subsection \<open>Roles on record\<close>

text \<open>An audit row appended between two states that grants a role to an account.\<close>

definition role_recorded :: "forum_db \<Rightarrow> forum_db \<Rightarrow> user_row \<Rightarrow> bool" where
  "role_recorded db db' u \<longleftrightarrow>
     (\<exists>a r. a \<in> set (drop (length (db_audits db)) (db_audits db')) \<and> au_target a = TargetUser (u_id u) \<and>
            au_resulting a = RoleIs (u_role u) r)"

definition role_explained :: "forum_db \<Rightarrow> forum_db \<Rightarrow> user_row \<Rightarrow> bool" where
  "role_explained db db' u \<longleftrightarrow>
     (\<exists>v \<in> set (db_users db). u_id v = u_id u \<and> u_role v = u_role u) \<or> role_recorded db db' u \<or>
     u_role u = ''member'' \<and> u_id u \<notin> u_id ` set (db_users db)"

definition roles_explained :: "forum_db \<Rightarrow> forum_db \<Rightarrow> bool" where
  "roles_explained db db' \<longleftrightarrow>
     audits_grow db db' \<and> u_id ` set (db_users db) \<subseteq> u_id ` set (db_users db') \<and>
     (\<forall>u \<in> set (db_users db'). role_explained db db' u)"

lemma role_recorded_later:
  assumes "audits_grow db1 db2" and "role_recorded db2 db3 u"
  shows "role_recorded db1 db3 u"
proof -
  from assms(1) have "length (db_audits db1) \<le> length (db_audits db2)" by (auto simp: audits_grow_def)
  then have "set (drop (length (db_audits db2)) (db_audits db3)) \<subseteq> set (drop (length (db_audits db1)) (db_audits db3))"
    by (rule set_drop_subset_set_drop)
  with assms(2) show ?thesis unfolding role_recorded_def by blast
qed

lemma role_recorded_earlier:
  assumes "audits_grow db2 db3" and "role_recorded db1 db2 u"
  shows "role_recorded db1 db3 u"
  using assms unfolding role_recorded_def audits_grow_def by fastforce

lemma role_recorded_same:
  "role_recorded db db' u \<Longrightarrow> u_id v = u_id u \<Longrightarrow> u_role v = u_role u \<Longrightarrow> role_recorded db db' v"
  by (simp add: role_recorded_def)

lemma roles_explained_trans:
  assumes ab: "roles_explained a b" and bc: "roles_explained b c"
  shows "roles_explained a c"
proof -
  from ab bc have grow: "audits_grow a b" "audits_grow b c"
    and ids: "u_id ` set (db_users a) \<subseteq> u_id ` set (db_users b)"
    by (simp_all add: roles_explained_def)
  have "role_explained a c u" if u: "u \<in> set (db_users c)" for u
  proof -
    from bc u have "role_explained b c u" by (simp add: roles_explained_def)
    then consider (old) v where "v \<in> set (db_users b)" "u_id v = u_id u" "u_role v = u_role u"
      | (rec) "role_recorded b c u" | (new) "u_role u = ''member''" "u_id u \<notin> u_id ` set (db_users b)"
      unfolding role_explained_def by blast
    then show ?thesis
    proof cases
      case old
      with ab have "role_explained a b v" by (simp add: roles_explained_def)
      with old(2,3) show ?thesis
        using role_recorded_earlier [OF grow(2), of a v] role_recorded_same [of a c v u]
        unfolding role_explained_def by auto
    next
      case rec
      with role_recorded_later [OF grow(1)] show ?thesis by (simp add: role_explained_def)
    next
      case new
      with ids show ?thesis by (auto simp: role_explained_def)
    qed
  qed
  moreover from ab bc have "u_id ` set (db_users a) \<subseteq> u_id ` set (db_users c)"
    unfolding roles_explained_def by (meson subset_trans)
  ultimately show ?thesis using audits.R_trans [OF grow] by (simp add: roles_explained_def)
qed

lemma roles_explained_same: "db_users db' = db_users db \<Longrightarrow> audits_grow db db' \<Longrightarrow> roles_explained db db'"
  by (auto simp: roles_explained_def role_explained_def)

interpretation roles: table_relation roles_explained
  by unfold_locales
    (auto intro: roles_explained_same roles_explained_trans audits.R_refl audits.R_seqs)

lemma roles_explained_upd:
  assumes "db_users db' = upd_where p f (db_users db)" and "audits_grow db db'"
    and "\<And>u. u_id (f u) = u_id u"
    and "\<And>u. u \<in> set (db_users db) \<Longrightarrow> p u \<Longrightarrow> u_role (f u) = u_role u \<or> role_recorded db db' (f u)"
  shows "roles_explained db db'"
proof -
  let ?g = "\<lambda>u. if p u then f u else u"
  have "map u_id (db_users db') = map u_id (db_users db)" unfolding assms(1) by (rule map_upd_where) (rule assms(3))
  then have ids: "u_id ` set (db_users db') = u_id ` set (db_users db)" by (metis list.set_map)
  have "role_explained db db' u" if "u \<in> set (db_users db')" for u
  proof -
    from that obtain v where v: "v \<in> set (db_users db)" "u = ?g v"
      unfolding assms(1) set_upd_where by blast
    then show ?thesis
      using assms(3) [of v] assms(4) [OF v(1)] unfolding role_explained_def
      by (cases "p v") (auto intro!: bexI [OF _ v(1)])
  qed
  with ids assms(2) show ?thesis by (simp add: roles_explained_def)
qed

lemma recorded_append:
  "db_audits db' = db_audits db @ [a] \<Longrightarrow> au_target a = TargetUser (u_id u) \<Longrightarrow>
   au_resulting a = RoleIs (u_role u) r \<Longrightarrow> role_recorded db db' u"
  by (auto simp: role_recorded_def)

lemma users_insert_topic: "db_users (snd (insert_topic area author title search stamp body db)) = db_users db"
  by (auto simp: insert_topic_def Let_def case_prod_unfold split: sum.split)

lemma users_insert_reply: "db_users (snd (insert_reply author body parent stamp topic db)) = db_users db"
  by (auto simp: insert_reply_def Let_def case_prod_unfold split: option.split sum.split)

lemmas user_tables_unchanged = users_insert_topic users_insert_reply audits_insert_topic audits_insert_reply

text \<open>A statement that changes account rows and appends an audit row that names the role they get.\<close>

lemma roles_explained_tables [simp]:
  "roles_explained db (db'\<lparr>db_sessions := ss\<rparr>) = roles_explained db db'"
  "roles_explained db (db'\<lparr>db_identities := rs\<rparr>) = roles_explained db db'"
  "roles_explained db (db'\<lparr>db_login_attempts := as\<rparr>) = roles_explained db db'"
  by (simp_all add: roles_explained_def role_explained_def role_recorded_def audits_grow_def)

lemma roles_granted:
  assumes "\<And>u. u_id (f u) = u_id u" and "\<And>u. p u \<Longrightarrow> ai_target a = TargetUser (u_id u)"
    and "\<And>u. \<exists>n. ai_resulting a = RoleIs (u_role (f u)) n"
  shows "roles_explained db ((snd (insert_audit a c db))\<lparr>db_users := upd_where p f (db_users db)\<rparr>)"
proof (rule roles_explained_upd)
  let ?db = "(snd (insert_audit a c db))\<lparr>db_users := upd_where p f (db_users db)\<rparr>"
  show "audits_grow db ?db" by (simp add: audits_grow_def insert_audit_audits)
  show "u_role (f u) = u_role u \<or> role_recorded db ?db (f u)" if "p u" for u
    using assms(1) [of u] assms(2) [OF that] assms(3) [of u]
    by (auto simp: role_recorded_def insert_audit_audits)
qed (simp_all add: assms(1))

lemma roles_kept:
  assumes "\<And>u. u_id (f u) = u_id u" and "\<And>u. u_role (f u) = u_role u" and "audits_grow db db'"
  shows "roles_explained db (db'\<lparr>db_users := upd_where p f (db_users db)\<rparr>)"
proof (rule roles_explained_upd [where p = p and f = f])
  show "audits_grow db (db'\<lparr>db_users := upd_where p f (db_users db)\<rparr>)" using assms(3) by (simp add: audits_grow_def)
qed (simp_all add: assms)

lemma roles_bootstrap: "relates roles_explained (BootstrapAdministratorAndAudit user stamp operator req)"
  unfolding BootstrapAdministratorAndAudit_def
  by (rule roles.relates_statement)
    (auto simp: Let_def case_prod_unfold roles.R_refl promote_def
      intro!: roles_granted dest!: find_Some_iff2 split: option.split)

lemma roles_claim: "relates roles_explained (ClaimInitialAdministratorAndAudit session user stamp issuer subject req)"
  unfolding ClaimInitialAdministratorAndAudit_def
  by (rule roles.relates_statement)
    (auto simp: Let_def case_prod_unfold roles.R_refl promote_def
      intro!: roles_granted dest!: find_Some_iff2 split: option.split)

lemma roles_change:
  "relates roles_explained (ChangeAdministrationRoleAndAudit role stamp user expected_role expected actor reason req)"
  unfolding ChangeAdministrationRoleAndAudit_def
  by (rule roles.relates_statement)
    (auto simp: Let_def case_prod_unfold roles.R_refl
      intro!: roles_granted dest!: find_Some_iff2 split: option.split)

lemma roles_change_user:
  assumes "\<And>u. u_id (f u) = u_id u" and "\<And>u. u_role (f u) = u_role u"
  shows "relates roles_explained (change_user p f audit)"
  unfolding change_user_def using assms
  by (intro roles.relates_statement)
    (auto simp: Let_def case_prod_unfold roles.R_refl audits_grow_def insert_audit_audits
      intro!: roles_kept split: option.split)

lemma roles_new_user: "relates roles_explained (InsertUser claims stamp)"
  unfolding InsertUser_def
  by (rule roles.relates_statement)
    (auto simp: Let_def case_prod_unfold roles_explained_def role_explained_def audits_grow_def new_user_def list_ex_iff)

interpretation roles_free: registration_free roles_explained
proof
  show "roles_explained db (db\<lparr>db_users := upd_where p f (db_users db)\<rparr>)"
    if "\<And>u. sync_touched u (f u)" for db p and f :: "user_row \<Rightarrow> user_row"
    using that by (intro roles_kept) (simp_all add: sync_touched_def audits.R_refl)
qed (auto intro!: roles_explained_same simp: audits_grow_def insert_audit_audits)

interpretation roles_board: board_relation roles_explained
  by (unfold_locales; (rule roles_bootstrap roles_claim roles_change roles_new_user)?;
      (unfold row_statements changed_rows)?; (rule roles_change_user; simp)?; (unfold shared_statements)?;
      (intro roles.relates_bind roles.relates_clock roles.relates_statement)?;
      (auto simp: Let_def case_prod_unfold user_tables_unchanged audits_grow_def insert_audit_audits refresh_profile_def
        roles.R_refl intro!: roles_kept intro: roles_explained_same split: option.split))

lemma board_run_roles: "board_run db db' \<Longrightarrow> roles_explained db db'"
  using roles_board.board_run_relates .

subsection \<open>Administrators\<close>

text \<open>
  Accounts with unique identifiers, of which those with a suspension are not in the accepted state and
  one at least is an accepted administrator.
\<close>

definition administers :: "user_row \<Rightarrow> bool" where
  "administers u \<longleftrightarrow> u_role u = ''administrator'' \<and> u_sync_state u = ''accepted''"

definition suspension_leaves :: "user_row \<Rightarrow> bool" where
  "suspension_leaves u \<longleftrightarrow> (u_suspended_at u \<noteq> None \<longrightarrow> u_sync_state u \<noteq> ''accepted'')"

definition governed :: "user_row list \<Rightarrow> bool" where
  "governed us \<longleftrightarrow> distinct (map u_id us) \<and> list_all suspension_leaves us \<and> list_ex administers us"

definition stays_governed :: "forum_db \<Rightarrow> forum_db \<Rightarrow> bool" where
  "stays_governed db db' \<longleftrightarrow> (governed (db_users db) \<longrightarrow> governed (db_users db'))"

interpretation governing: table_relation stays_governed
  by unfold_locales (auto simp: stays_governed_def)

lemma governed_upd:
  assumes "governed us" and "\<And>u. u_id (f u) = u_id u"
    and "\<And>u. u \<in> set us \<Longrightarrow> p u \<Longrightarrow> suspension_leaves u \<Longrightarrow> suspension_leaves (f u)"
    and "\<exists>u \<in> set us. administers u \<and> (p u \<longrightarrow> administers (f u))"
  shows "governed (upd_where p f us)"
proof -
  have "map u_id (upd_where p f us) = map u_id us" by (rule map_upd_where) (rule assms(2))
  moreover have "\<forall>u \<in> set (upd_where p f us). suspension_leaves u"
    using assms(1,3) by (auto simp: set_upd_where governed_def list_all_iff)
  moreover from assms(4) obtain u where u: "u \<in> set us" "administers u" "p u \<longrightarrow> administers (f u)" by blast
  then have "(if p u then f u else u) \<in> set (upd_where p f us)" "administers (if p u then f u else u)"
    by (auto simp: set_upd_where)
  ultimately show ?thesis using assms(1) unfolding governed_def list_all_iff list_ex_iff by metis
qed

lemma governed_upd_same:
  assumes "governed us" and "\<And>u. u_id (f u) = u_id u" and "\<And>u. suspension_leaves u \<Longrightarrow> suspension_leaves (f u)"
    and "\<And>u. administers u \<Longrightarrow> administers (f u)"
  shows "governed (upd_where p f us)"
  using assms by (intro governed_upd) (auto simp: governed_def list_ex_iff)

lemma governed_append:
  "governed us \<Longrightarrow> u_id u \<notin> u_id ` set us \<Longrightarrow> suspension_leaves u \<Longrightarrow> governed (us @ [u])"
  by (auto simp: governed_def)

lemma governing_change_user:
  assumes "\<And>u. u_id (f u) = u_id u" and "\<And>u. suspension_leaves u \<Longrightarrow> suspension_leaves (f u)"
    and "\<And>u. administers u \<Longrightarrow> administers (f u)"
  shows "relates stays_governed (change_user p f audit)"
  unfolding change_user_def using assms
  by (intro governing.relates_statement)
    (auto simp: Let_def case_prod_unfold stays_governed_def intro!: governed_upd_same split: option.split)

text \<open>What an identity's state may become: an administrator who is accepted is not suspended and is left alone.\<close>

lemma governing_change_account:
  assumes "\<And>u. u_id (f u) = u_id u"
    and "\<And>db u. p db u \<Longrightarrow> suspension_leaves u \<Longrightarrow> suspension_leaves (f u)"
    and "\<And>db u. p db u \<Longrightarrow> suspension_leaves u \<Longrightarrow> administers u \<Longrightarrow> administers (f u)"
  shows "relates stays_governed (change_account p f audits answer stamp)"
  unfolding change_account_def
proof (rule governing.relates_statement, goal_cases)
  case (1 db)
  have "governed (upd_where (p db) f (db_users db))" if g: "governed (db_users db)"
  proof (rule governed_upd [OF g assms(1)])
    show "suspension_leaves (f u)" if "p db u" "suspension_leaves u" for u using assms(2) that by blast
    from g obtain u where "u \<in> set (db_users db)" "administers u" "suspension_leaves u"
      by (auto simp: governed_def list_ex_iff list_all_iff)
    with assms(3) show "\<exists>u \<in> set (db_users db). administers u \<and> (p db u \<longrightarrow> administers (f u))" by blast
  qed
  then show ?case
    by (auto simp: stays_governed_def Let_def case_prod_unfold insert_audits_tables split: option.split)
qed

lemma governing_claim_expired: "relates stays_governed (ClaimExpiredIdentityReconciliations acquired free stamp later)"
  unfolding ClaimExpiredIdentityReconciliations_def
proof (rule governing.relates_statement, goal_cases)
  case (1 db)
  let ?c = "if acquired then take 5 (sort_key claim_order (filter (expired_candidate db stamp free) (db_users db))) else []"
  let ?p = "\<lambda>u. u_id u \<in> set (map u_id ?c)"
  let ?f = "\<lambda>u. (attempted stamp (Some later) None u)\<lparr>u_sync_state := ''grant_required''\<rparr>"
  have "governed (upd_where ?p ?f (db_users db))" if g: "governed (db_users db)"
  proof (rule governed_upd [OF g])
    have c: "v \<in> set (db_users db) \<and> expired_candidate db stamp free v" if "v \<in> set ?c" for v
      using that by (auto split: if_splits dest: in_set_takeD)
    from g obtain u where u: "u \<in> set (db_users db)" "administers u" by (auto simp: governed_def list_ex_iff)
    have "\<not> ?p u"
    proof
      assume "?p u"
      then obtain v where v: "v \<in> set ?c" "u_id v = u_id u" by auto
      from c [OF v(1)] v(2) u(1) g have "v = u"
        using distinct_key_eq [of u_id "db_users db" v u] by (simp add: governed_def)
      with c [OF v(1)] u(2) show False by (auto simp: expired_candidate_def administers_def)
    qed
    with u show "\<exists>u \<in> set (db_users db). administers u \<and> (?p u \<longrightarrow> administers (?f u))" by blast
  qed (simp_all add: attempted_def suspension_leaves_def)
  then show ?case by (simp add: stays_governed_def Let_def)
qed

interpretation governing_statements: area_statements stays_governed
  by (unfold_locales; (rule governing_claim_expired)?; (unfold registration_shapes)?;
      (rule governing_change_account; auto simp: administers_def suspension_leaves_def attempted_def restored_def
        suspension_runs_def split: option.splits)?; (unfold registration_row_statements row_statements changed_rows)?;
      (rule governing_change_user; simp add: administers_def suspension_leaves_def)?; (unfold shared_statements)?;
      (intro governing.relates_bind governing.relates_clock governing.relates_statement)?;
      (auto simp: stays_governed_def Let_def case_prod_unfold user_tables_unchanged refresh_profile_def promote_def
        new_user_def list_ex_iff administers_def suspension_leaves_def
        intro!: governed_upd_same governed_append split: option.split))

text \<open>A suspension: the actor remains, or is a moderator and can only suspend a member.\<close>

lemma governed_suspension:
  assumes "governed us" and rows: "suspended_rows i us us'" and rest: "\<exists>u \<in> set us. administers u \<and> u_id u \<noteq> i"
  shows "governed us'"
proof -
  have all: "list_all2 (\<lambda>u u'. u_id u' = u_id u \<and> (u' = u \<or> u_id u = i \<and> u_sync_state u' = ''removal_required'')) us us'"
    using rows unfolding suspended_rows_def by (auto elim!: list_all2_mono)
  then have "map u_id us' = map u_id us" by (rule list_all2_map_eq)
  moreover have "suspension_leaves u'" if "u' \<in> set us'" for u'
    using list_all2_set2 [OF all that] assms(1) by (auto simp: governed_def list_all_iff suspension_leaves_def)
  moreover from rest obtain u where "u \<in> set us" "administers u" "u_id u \<noteq> i" by blast
  then have "\<exists>u \<in> set us'. administers u" using list_all2_set [OF all] by metis
  ultimately show ?thesis using assms(1) by (simp add: governed_def list_all_iff list_ex_iff)
qed

lemma governing_suspend:
  assumes other: "i \<noteq> ac_user_id actor" and role: "ac_role actor = RoleModerator \<or> ac_role actor = RoleAdministrator"
  shows "relates stays_governed (within_tx env (ChangeUserSuspension_body now actor i True reason req))"
proof (rule governing.relates_within_tx_success)
  fix w w' x assume "ChangeUserSuspension_body now actor i True reason req w = (Inr x, w')"
  from ChangeUserSuspension_body_Inr [OF this other] obtain u v where
    uv: "find_user (w_db w) (ac_user_id actor) = Some u" "find_user (w_db w) i = Some v"
      "active_account u actor now" "ac_role actor = RoleModerator \<longrightarrow> u_role v = ''member''"
    and rows: "suspended_rows i (db_users (w_db w)) (db_users (w_db w'))"
    by auto
  note mem = find_user_mem [OF uv(1)] find_user_mem [OF uv(2)]
  show "stays_governed (w_db w) (w_db w')"
    unfolding stays_governed_def
  proof
    assume g: "governed (db_users (w_db w))"
    have "\<exists>u \<in> set (db_users (w_db w)). administers u \<and> u_id u \<noteq> i"
      using role
    proof
      assume "ac_role actor = RoleAdministrator"
      with active_account_administrator [OF uv(3)] have "administers u"
        by (simp add: active_administrator_def administers_def)
      with mem(1) other show ?thesis by auto
    next
      assume "ac_role actor = RoleModerator"
      then have member: "u_role v = ''member''" using uv(4) by simp
      from g obtain x where x: "x \<in> set (db_users (w_db w))" "administers x"
        by (auto simp: governed_def list_ex_iff)
      have "u_id x \<noteq> i"
        using g x member mem(2) distinct_key_eq [of u_id "db_users (w_db w)" x v]
        by (auto simp: governed_def administers_def)
      with x show ?thesis by blast
    qed
    with governed_suspension [OF g rows] show "governed (db_users (w_db w'))" .
  qed
qed

lemma governing_reinstate:
  "relates stays_governed (within_tx env (ChangeUserSuspension_body now actor i False reason req))"
  unfolding ChangeUserSuspension_body_def reinstate_target_def Let_def LockUserForSuspension_def
    ConfigureAdministrationTransaction_def LockGovernanceState_def CountActiveAdministrators_def
    ReinstateUserAndAudit_def if_False simp_thms(21,22)
  by (intro governing.combinator_rules governing_change_user)
    (simp_all add: administers_def suspension_leaves_def)

lemma governing_suspension_call: "relates stays_governed (ChangeUserSuspension tenv clock actx target susp reason req)"
proof -
  have body: "relates stays_governed (within_tx tenv (ChangeUserSuspension_body now actx target susp reason req))"
    if "\<not> target = ac_user_id actx" "\<not> (ac_suspended actx \<or> ac_muted_until actx \<noteq> None \<or>
         ac_role actx \<noteq> RoleModerator \<and> ac_role actx \<noteq> RoleAdministrator)" for now
    using that governing_suspend governing_reinstate by (cases susp) auto
  show ?thesis
    unfolding ChangeUserSuspension_def
    by (intro governing.relates_guarded governing.relates_case_option governing.relates_fail governing.relates_bind
        governing.relates_context_error governing.relates_wrap body)
qed

text \<open>A change of roles: the actor is an active administrator other than the target, and remains.\<close>

lemma governed_role:
  assumes "governed us" and rows: "role_changed i role rv us us'" and rest: "u \<in> set us" "administers u" "u_id u \<noteq> i"
  shows "governed us'"
proof -
  have all: "list_all2 (\<lambda>u u'. u_id u' = u_id u \<and> (u_sync_state u' = u_sync_state u \<and>
      u_suspended_at u' = u_suspended_at u \<and> (u' = u \<or> u_id u = i))) us us'"
    using rows unfolding role_changed_def by (auto elim!: list_all2_mono)
  then have "map u_id us' = map u_id us" by (rule list_all2_map_eq)
  moreover have "suspension_leaves u'" if "u' \<in> set us'" for u'
    using list_all2_set2 [OF all that] assms(1) by (auto simp: governed_def list_all_iff suspension_leaves_def)
  moreover have "\<exists>u \<in> set us'. administers u" using list_all2_set [OF all rest(1)] rest(2,3) by auto
  ultimately show ?thesis using assms(1) by (simp add: governed_def list_all_iff list_ex_iff)
qed

lemma governing_role_body:
  assumes "i \<noteq> ac_user_id actor"
  shows "relates stays_governed (within_tx env (ChangeAccountRole_body now actor i role expected reason rv req))"
proof (rule governing.relates_within_tx_success)
  fix w w' res assume "ChangeAccountRole_body now actor i role expected reason rv req w = (Inr res, w')"
  from ChangeAccountRole_body_Inr [OF this] obtain u where
    u: "find_user (w_db w) (ac_user_id actor) = Some u" "validLockedAdministrator u actor now"
    and rows: "role_changed i (administrationRoleName role) rv (db_users (w_db w)) (db_users (w_db w'))"
    by (auto simp: acting_administrator_def)
  from validLockedAdministrator_active [OF u(2)] find_user_mem [OF u(1)] assms
  have "u \<in> set (db_users (w_db w))" "administers u" "u_id u \<noteq> i" by (auto simp: administers_def)
  with governed_role [OF _ rows] show "stays_governed (w_db w) (w_db w')" by (auto simp: stays_governed_def)
qed

lemma governing_role_call:
  "relates stays_governed (ChangeAccountRole tenv clock actx target role expected_role reason rv req)"
  unfolding ChangeAccountRole_def
  by (intro governing.relates_guarded governing.relates_bind governing_statements.relates_validateAccountMutationBoundary
      governing.relates_lift governing.relates_wrap governing.relates_guard governing_role_body) simp_all

interpretation governing_services: service_relation stays_governed
  by unfold_locales (rule governing_suspension_call governing_role_call governing_statements.area_calls)+

lemma board_run_governed: "board_run db db' \<Longrightarrow> governed (db_users db) \<Longrightarrow> governed (db_users db')"
  using governing_services.board_run_relates by (simp add: stays_governed_def)

subsection \<open>Identities\<close>

text \<open>An account has one identity at the provider, and an identity one account.\<close>

definition identity_keys :: "forum_db \<Rightarrow> bool" where
  "identity_keys db \<longleftrightarrow>
     distinct (map id_user_id (db_identities db)) \<and> distinct (map (\<lambda>r. (id_issuer r, id_subject r)) (db_identities db))"

definition identities_stay :: "forum_db \<Rightarrow> forum_db \<Rightarrow> bool" where
  "identities_stay db db' \<longleftrightarrow> (identity_keys db \<longrightarrow> identity_keys db')"

interpretation identities: table_relation identities_stay
  by unfold_locales (auto simp: identities_stay_def identity_keys_def)

lemma identities_insert_topic:
  "db_identities (snd (insert_topic area author title search stamp body db)) = db_identities db"
  by (auto simp: insert_topic_def Let_def case_prod_unfold nextval_def split: sum.split)

lemma identities_insert_reply: "db_identities (snd (insert_reply author body parent stamp topic db)) = db_identities db"
  by (auto simp: insert_reply_def Let_def case_prod_unfold nextval_def split: option.split sum.split)

lemma distinct_map_upd:
  assumes "distinct (map k rows)" and "\<And>r r'. r \<in> set rows \<Longrightarrow> r' \<in> set rows \<Longrightarrow> p r \<Longrightarrow> p r' \<Longrightarrow> r = r'"
    and "\<And>r r'. r \<in> set rows \<Longrightarrow> r' \<in> set rows \<Longrightarrow> p r \<Longrightarrow> \<not> p r' \<Longrightarrow> k (f r) \<noteq> k r'"
  shows "distinct (map k (upd_where p f rows))"
  using assms
proof (induction rows)
  case Nil
  then show ?case by simp
next
  case (Cons a rows)
  have "distinct (map k (upd_where p f rows))" using Cons.prems by (intro Cons.IH) auto
  moreover have apart: "k (if p a then f a else a) \<noteq> k (if p r then f r else r)" if "r \<in> set rows" for r
    using Cons.prems(1) Cons.prems(2) [of a r] Cons.prems(3) [of a r] Cons.prems(3) [of r a] that by auto
  then have "k (if p a then f a else a) \<notin> set (map k (upd_where p f rows))"
    unfolding list.set_map set_upd_where by blast
  ultimately show ?case by simp
qed

lemma find_identity_Some:
  "find_identity db issuer subject = Some r \<Longrightarrow> r \<in> set (db_identities db) \<and> id_issuer r = issuer \<and> id_subject r = subject"
  unfolding find_identity_def by (drule find_Some_iff2) simp

lemma identities_rebind:
  "relates identities_stay (RebindExternalIdentityAndAudit issuer subject new_issuer new_subject stamp operator req)"
  unfolding RebindExternalIdentityAndAudit_def
proof (rule identities.relates_statement, goal_cases)
  case (1 db)
  show ?case
    by (auto simp: identities_stay_def identity_keys_def Let_def case_prod_unfold map_upd_where list_ex_iff
        intro!: distinct_map_upd dest: distinct_key_eq split: option.split)
qed

lemma identities_new: "relates identities_stay (InsertExternalIdentity user issuer subject stamp)"
  unfolding InsertExternalIdentity_def
  by (rule identities.relates_statement)
    (auto simp: identities_stay_def identity_keys_def find_identity_def find_None_iff2 list_ex_iff)

interpretation identities_free: registration_free identities_stay
  by unfold_locales (simp_all add: identities_stay_def identity_keys_def)

interpretation identities_board: board_relation identities_stay
  by (unfold_locales; (rule identities_rebind identities_new)?; (unfold row_statements changed_rows)?;
      (unfold shared_statements)?;
      (intro identities.relates_bind identities.relates_clock identities.relates_statement)?;
      (auto simp: identities_stay_def identity_keys_def Let_def case_prod_unfold identities_insert_topic
        identities_insert_reply map_upd_where split: option.split)?)

lemma board_run_identity_keys: "board_run db db' \<Longrightarrow> identity_keys db \<Longrightarrow> identity_keys db'"
  using identities_board.board_run_relates by (simp add: identities_stay_def)

end
