(* ===== verification/GovernanceFacts.thy ===== *)
theory GovernanceFacts
  imports GovernanceLaws
begin

text \<open>
  Who can come to govern the board and who cannot cease to, over every sequence of services: the set-up
  happens once, roles are on record, an administrator remains, and a change of role signs the account out.
\<close>

subsection \<open>The set-up\<close>

text \<open>The two ways a first administrator is made, when they succeed.\<close>

inductive setup_succeeds :: "world \<Rightarrow> world \<Rightarrow> bool" where
  operator: "BootstrapAdministrator env clock issuer subject operator req w = (Inr r, w') \<Longrightarrow> setup_succeeds w w'"
| claimed: "ClaimInitialAdministrator env clock user session issuer subject req w = (Inr c, w') \<Longrightarrow> setup_succeeds w w'"

inductive_cases setup_succeedsE: "setup_succeeds w w'"

definition setup_recorded :: "forum_db \<Rightarrow> bool" where
  "setup_recorded db \<longleftrightarrow> (\<exists>a \<in> set (db_audits db). au_action a = ''bootstrap_administrator'')"

lemma setup_open_Inr:
  assumes "setup_open now closed w = (Inr u, w')"
  shows "\<not> setup_recorded (w_db w) \<and> \<not> (\<exists>x \<in> set (db_users (w_db w)). active_administrator (At now) x) \<and>
    w_db w' = w_db w"
  using assms
  by (auto simp: setup_open_def LockGovernanceState_def CountAdministratorBootstraps_def CountActiveAdministrators_def
      tx_inverts setup_recorded_def filter_empty_conv split: if_splits)

lemma BootstrapAdministratorAndAudit_Inr:
  assumes "BootstrapAdministratorAndAudit user stamp operator req w = (Inr (i, k), w')"
  shows "i = user \<and> audited (w_db w) (w_db w') (ActorOperator operator) ''bootstrap_administrator'' None req (TargetUser user) k"
  using assms
  by (auto simp: BootstrapAdministratorAndAudit_def tx_inverts Let_def case_prod_unfold audited_def insert_audit_audits
      split: option.splits dest!: find_Some_iff2)

lemma ClaimInitialAdministratorAndAudit_Inr:
  assumes "ClaimInitialAdministratorAndAudit session user stamp issuer subject req w = (Inr (i, k, s), w')"
  shows "i = user \<and> audited (w_db w) (w_db w') (ActorUser user) ''bootstrap_administrator'' None req (TargetUser user) k"
  using assms
  by (auto simp: ClaimInitialAdministratorAndAudit_def tx_inverts Let_def case_prod_unfold audited_def insert_audit_audits
      split: option.splits if_splits dest!: find_Some_iff2)

lemma audited_bootstrap_recorded:
  "audited db db' actor ''bootstrap_administrator'' reason req target k \<Longrightarrow> setup_recorded db'"
  by (auto simp: audited_def setup_recorded_def)

lemma BootstrapAdministrator_Inr:
  assumes "BootstrapAdministrator env clock issuer subject operator req w = (Inr r, w')"
  shows "\<exists>reading. clock = Some reading \<and>
    BootstrapAdministrator_body (truncate_us reading) issuer subject operator req w = (Inr r, w')"
  using assms
  by (auto simp: BootstrapAdministrator_def context_error_def tx_inverts within_tx_Inr split: option.splits if_splits)

lemma ClaimInitialAdministrator_Inr:
  assumes "ClaimInitialAdministrator env clock user session issuer subject req w = (Inr r, w')"
  shows "\<exists>reading. clock = Some reading \<and>
    ClaimInitialAdministrator_body (truncate_us reading) user session issuer subject req w = (Inr r, w')"
  using assms
  by (auto simp: ClaimInitialAdministrator_def context_error_def tx_inverts within_tx_Inr split: option.splits if_splits)

lemma setup_succeeds_recorded:
  assumes "setup_succeeds w w'"
  shows "\<not> setup_recorded (w_db w) \<and> setup_recorded (w_db w')"
  using assms
proof (cases rule: setup_succeeds.cases)
  case (operator env clock issuer subject operator req r)
  from BootstrapAdministrator_Inr [OF operator] obtain reading where
    "BootstrapAdministrator_body (truncate_us reading) issuer subject operator req w = (Inr r, w')" by auto
  then show ?thesis
    by (auto simp: BootstrapAdministrator_body_def GetUserByExternalIdentity_def tx_inverts
        dest!: setup_open_Inr BootstrapAdministratorAndAudit_Inr intro: audited_bootstrap_recorded)
next
  case (claimed env clock user session issuer subject req c)
  from ClaimInitialAdministrator_Inr [OF claimed] obtain reading where
    "ClaimInitialAdministrator_body (truncate_us reading) user session issuer subject req w = (Inr c, w')" by auto
  then show ?thesis
    by (auto simp: ClaimInitialAdministrator_body_def tx_inverts
        dest!: setup_open_Inr ClaimInitialAdministratorAndAudit_Inr intro: audited_bootstrap_recorded)
qed

lemma setup_recorded_stays: "board_run db db' \<Longrightarrow> setup_recorded db \<Longrightarrow> setup_recorded db'"
  using audits_board.board_run_relates by (fastforce simp: audits_grow_def setup_recorded_def)

subsection \<open>The example\<close>

text \<open>
  A board without an administrator: the operator makes account 2 one, which makes account 3 another, which
  takes the role from account 2 again.
\<close>

definition ex_setup_db :: forum_db where
  "ex_setup_db =
     ex_db\<lparr>db_users := [ex_user 2 ''member'', ex_user 3 ''moderator''],
           db_identities := [\<lparr>id_user_id = 2, id_issuer = ''https://id'', id_subject = ''two'',
             id_created_at = At 1000, id_last_verified_at = At 1000\<rparr>]\<rparr>"

definition ex_bootstrap_call :: "(go_error + (int \<times> int)) \<times> world" where
  "ex_bootstrap_call =
     BootstrapAdministrator ex_tx (Some 9000) ''https://id'' ''two'' ''operator'' (Some 1) (ex_world ex_setup_db [])"

definition ex_bootstrap_db :: forum_db where "ex_bootstrap_db = w_db (snd ex_bootstrap_call)"

lemma ex_bootstrap_result: "fst ex_bootstrap_call = Inr (2, 1)"
  by code_simp

definition ex_promote_call :: "(go_error + account_mutation_result) \<times> world" where
  "ex_promote_call =
     ChangeAccountRole ex_tx (Some 20000) (ex_actor 2 RoleAdministrator) 3 RoleAdministrator RoleModerator ''trusted'' 1
       (Some 2) (ex_world ex_bootstrap_db [])"

definition ex_promote_db :: forum_db where "ex_promote_db = w_db (snd ex_promote_call)"

definition ex_demote_call :: "(go_error + account_mutation_result) \<times> world" where
  "ex_demote_call =
     ChangeAccountRole ex_tx (Some 30000) (ex_actor 3 RoleAdministrator) 2 RoleMember RoleAdministrator ''stepping down'' 1
       (Some 3) (ex_world ex_promote_db [])"

definition ex_demote_db :: forum_db where "ex_demote_db = w_db (snd ex_demote_call)"

lemma ex_promote_result: "map_sum id am_audit_id (fst ex_promote_call) = Inr 2"
  by code_simp

lemma ex_demote_result: "map_sum id am_audit_id (fst ex_demote_call) = Inr 3"
  by code_simp

lemma ex_bootstrap_governed: "governed (db_users ex_bootstrap_db)"
  by code_simp

lemma ex_bootstrap_succeeds: "setup_succeeds (ex_world ex_setup_db []) (snd ex_bootstrap_call)"
  using ex_bootstrap_result
  by (intro setup_succeeds.operator [of ex_tx "Some 9000" "''https://id''" "''two''" "''operator''" "Some 1" _ "(2, 1)"])
    (simp add: ex_bootstrap_call_def prod_eq_iff)

lemma ex_call_step: "w_db w = db \<Longrightarrow> board_run db (w_db (run_call c w))"
  using board_step.call [of w c] by (simp add: board_run_def r_into_rtranclp)

lemma board_run_trans: "board_run a b \<Longrightarrow> board_run b c \<Longrightarrow> board_run a c"
  by (simp add: board_run_def)

lemma ex_bootstrap_run: "board_run ex_setup_db ex_bootstrap_db"
  using ex_call_step [of "ex_world ex_setup_db []" ex_setup_db
      "CallBootstrap ex_tx (Some 9000) ''https://id'' ''two'' ''operator'' (Some 1)"]
  by (simp add: ex_bootstrap_db_def ex_bootstrap_call_def)

lemma ex_promote_run: "board_run ex_bootstrap_db ex_promote_db"
  using ex_call_step [of "ex_world ex_bootstrap_db []" ex_bootstrap_db
      "CallRole ex_tx (Some 20000) (ex_actor 2 RoleAdministrator) 3 RoleAdministrator RoleModerator ''trusted'' 1 (Some 2)"]
  by (simp add: ex_promote_db_def ex_promote_call_def)

lemma ex_demote_run: "board_run ex_promote_db ex_demote_db"
  using ex_call_step [of "ex_world ex_promote_db []" ex_promote_db
      "CallRole ex_tx (Some 30000) (ex_actor 3 RoleAdministrator) 2 RoleMember RoleAdministrator ''stepping down'' 1 (Some 3)"]
  by (simp add: ex_demote_db_def ex_demote_call_def)

lemmas ex_role_runs = board_run_trans [OF ex_promote_run ex_demote_run]

lemma ex_demote_call_eq:
  obtains res where "ChangeAccountRole ex_tx (Some 30000) (ex_actor 3 RoleAdministrator) 2 RoleMember RoleAdministrator
      ''stepping down'' 1 (Some 3) (ex_world ex_promote_db []) = (Inr res, snd ex_demote_call)"
    and "am_audit_id res = 3"
  using ex_demote_result by (cases "fst ex_demote_call") (auto simp: ex_demote_call_def prod_eq_iff)

subsection \<open>Properties\<close>

text \<open>
  C17. The board is set up once: after a first administrator was granted by the operator or claimed by a
  member, no grant and no claim ever succeeds again, whatever services run in between and whoever has lost
  the role since.
\<close>

theorem setup_happens_once:
  assumes "setup_succeeds w w'" and "board_run (w_db w') (w_db w2)"
  shows "\<not> setup_succeeds w2 w3"
  using setup_succeeds_recorded [OF assms(1)] setup_recorded_stays [OF assms(2)] setup_succeeds_recorded [of w2 w3]
  by auto

theorem setup_happens_once_witness:
  "(\<forall>w3. \<not> setup_succeeds (ex_world ex_demote_db []) w3) \<and> \<not> list_ex (\<lambda>u. u_id u = 2 \<and> administers u) (db_users ex_demote_db)"
proof -
  have run: "board_run (w_db (snd ex_bootstrap_call)) (w_db (ex_world ex_demote_db []))"
    using ex_role_runs by (simp add: ex_bootstrap_db_def)
  have "\<not> list_ex (\<lambda>u. u_id u = 2 \<and> administers u) (db_users ex_demote_db)" by code_simp
  with setup_happens_once [OF ex_bootstrap_succeeds run] show ?thesis by blast
qed

text \<open>
  C16. Roles are on the record: after any sequence of services, each account that has a role had it before,
  or got it by a change, a grant or a claim whose audit row, appended in between, names the account and
  the role, or is a new account, which is a member.
\<close>

theorem roles_are_recorded:
  assumes "board_run db db'" and "u \<in> set (db_users db')"
  shows "role_explained db db' u"
  using board_run_roles [OF assms(1)] assms(2) by (simp add: roles_explained_def)

theorem roles_are_recorded_witness:
  "\<exists>u \<in> set (db_users ex_demote_db). u_id u = 3 \<and> u_role u = ''administrator'' \<and> role_explained ex_setup_db ex_demote_db u"
proof -
  have "list_ex (\<lambda>u. u_id u = 3 \<and> u_role u = ''administrator'') (db_users ex_demote_db)" by code_simp
  then obtain u where u: "u \<in> set (db_users ex_demote_db)" "u_id u = 3" "u_role u = ''administrator''"
    by (auto simp: list_ex_iff)
  from roles_are_recorded [OF board_run_trans [OF ex_bootstrap_run ex_role_runs] u(1)] u show ?thesis by blast
qed

text \<open>
  C15. The board keeps an administrator: from a state in which some accepted account is an administrator,
  and no suspended account is accepted, every sequence of services leads to such a state again, with an
  account that is an active administrator at every instant.
\<close>

theorem administrator_remains:
  assumes "board_run db db'" and "governed (db_users db)"
  shows "governed (db_users db') \<and> (\<exists>u \<in> set (db_users db'). \<forall>t. active_administrator t u)"
proof -
  have g: "governed (db_users db')" by (rule board_run_governed [OF assms])
  then obtain u where "u \<in> set (db_users db')" "administers u" "suspension_leaves u"
    by (auto simp: governed_def list_ex_iff list_all_iff)
  then have "\<forall>t. active_administrator t u"
    by (auto simp: administers_def suspension_leaves_def active_administrator_def sql_unsuspended_def)
  with g \<open>u \<in> _\<close> show ?thesis by blast
qed

theorem administrator_remains_witness:
  "\<exists>u \<in> set (db_users ex_demote_db). \<forall>t. active_administrator t u"
  using administrator_remains [OF ex_role_runs ex_bootstrap_governed] by blast

subsection \<open>Roles\<close>

text \<open>
  C23. A change of role takes an active administrator, as locked, other than the account it is about, and the
  role and the revision the administrator saw; it changes the row of that account only, appends exactly one
  audit row that names the actor and the reason, and ends every session of the account for good.
\<close>

theorem role_change_effect:
  assumes "ChangeAccountRole env clock actor i role expected reason rv req w = (Inr res, w')"
  shows "\<exists>reading t. clock = Some reading \<and> i \<noteq> ac_user_id actor \<and>
    acting_administrator (w_db w) actor (truncate_us reading) \<and>
    find_user (w_db w) i = Some t \<and> administrationRole (u_role t) = Some expected \<and> u_administration_revision t = rv \<and>
    role_changed i (administrationRoleName role) rv (db_users (w_db w)) (db_users (w_db w')) \<and>
    audited (w_db w) (w_db w') (ActorUser (ac_user_id actor)) ''change_role'' (Some reason) req (TargetUser i)
      (am_audit_id res) \<and>
    (\<forall>db' s. board_run (w_db w') db' \<and> s \<in> set (db_sessions (w_db w)) \<and> s_user_id s = i \<longrightarrow>
       (\<exists>s' \<in> set (db_sessions db'). s_id s' = s_id s \<and> s_user_id s' = i \<and> s_revoked_at s' \<noteq> None))"
proof -
  from ChangeAccountRole_Inr [OF assms] obtain reading where c: "clock = Some reading" "i \<noteq> ac_user_id actor"
    and body: "ChangeAccountRole_body (truncate_us reading) actor i role expected reason rv req w = (Inr res, w')"
    by auto
  note facts = ChangeAccountRole_body_Inr [OF body]
  have "\<exists>s' \<in> set (db_sessions db'). s_id s' = s_id s \<and> s_user_id s' = i \<and> s_revoked_at s' \<noteq> None"
    if "board_run (w_db w') db'" "s \<in> set (db_sessions (w_db w))" "s_user_id s = i" for db' s
    using ended_sessions_stay [OF _ that] facts by blast
  with c facts show ?thesis by blast
qed

theorem role_change_effect_witness:
  "acting_administrator ex_promote_db (ex_actor 3 RoleAdministrator) 30000 \<and>
   role_changed 2 ''member'' 1 (db_users ex_promote_db) (db_users ex_demote_db) \<and>
   audited ex_promote_db ex_demote_db (ActorUser 3) ''change_role'' (Some ''stepping down'') (Some 3) (TargetUser 2) 3"
proof -
  obtain res where call: "ChangeAccountRole ex_tx (Some 30000) (ex_actor 3 RoleAdministrator) 2 RoleMember
      RoleAdministrator ''stepping down'' 1 (Some 3) (ex_world ex_promote_db []) = (Inr res, snd ex_demote_call)"
      "am_audit_id res = 3"
    by (rule ex_demote_call_eq)
  have t: "truncate_us 30000 = 30000" by code_simp
  from role_change_effect [OF call(1)] call(2) t show ?thesis
    by (auto simp: ex_demote_db_def ex_actor_def administrationRoleName_def)
qed

subsection \<open>Identities\<close>

definition sessions_dead :: "int \<Rightarrow> forum_db \<Rightarrow> bool" where
  "sessions_dead i db \<longleftrightarrow> (\<forall>s \<in> set (db_sessions db). s_user_id s = i \<longrightarrow> s_revoked_at s \<noteq> None)"

lemma find_only: "y \<in> set xs \<Longrightarrow> P y \<Longrightarrow> (\<And>x. x \<in> set xs \<Longrightarrow> P x \<Longrightarrow> x = y) \<Longrightarrow> find P xs = Some y"
  using find_None_iff2 [of P xs] find_Some_iff2 [of P xs] by (cases "find P xs") blast+

lemma RebindExternalIdentityAndAudit_Inr:
  assumes "RebindExternalIdentityAndAudit issuer subject new_issuer new_subject stamp operator req w = (Inr res, w')"
    and "identity_keys (w_db w)" and "(issuer, subject) \<noteq> (new_issuer, new_subject)"
  shows "\<exists>r r'. find_identity (w_db w) issuer subject = Some r \<and> id_user_id r = rb_user_id res \<and>
    find_identity (w_db w') new_issuer new_subject = Some r' \<and> id_user_id r' = rb_user_id res \<and>
    find_identity (w_db w') issuer subject = None \<and> sessions_dead (rb_user_id res) (w_db w') \<and>
    (\<forall>a \<in> set (db_login_attempts (w_db w')). la_consumed_at a \<noteq> None) \<and>
    audited (w_db w) (w_db w') (ActorOperator operator) ''rebind_external_identity'' None req
      (TargetUser (rb_user_id res)) (rb_audit_id res)"
proof -
  let ?hit = "\<lambda>i x. id_user_id x = i"
  let ?change = "\<lambda>x. x\<lparr>id_issuer := new_issuer, id_subject := new_subject, id_last_verified_at := max (id_last_verified_at x) stamp\<rparr>"
  from assms(1) obtain r where r: "find_identity (w_db w) issuer subject = Some r"
    unfolding RebindExternalIdentityAndAudit_def statement_Inr by (auto split: option.splits)
  let ?own = "\<lambda>s. s_user_id s = id_user_id r \<and> s_revoked_at s = None"
  from assms(1) have run: "\<not> list_ex (\<lambda>c. id_issuer c = new_issuer \<and> id_subject c = new_subject \<and> id_user_id c \<noteq> id_user_id r)
        (db_identities (w_db w))"
    "rb_user_id res = id_user_id r"
    "db_identities (w_db w') = upd_where (?hit (id_user_id r)) ?change (db_identities (w_db w))"
    "db_sessions (w_db w') = upd_where ?own (\<lambda>s. s\<lparr>s_revoked_at := Some (max (s_issued_at s) stamp)\<rparr>) (db_sessions (w_db w))"
    "db_login_attempts (w_db w') = filter (\<lambda>a. la_consumed_at a \<noteq> None) (db_login_attempts (w_db w))"
    "audited (w_db w) (w_db w') (ActorOperator operator) ''rebind_external_identity'' None req
        (TargetUser (id_user_id r)) (rb_audit_id res)"
    unfolding RebindExternalIdentityAndAudit_def statement_Inr r option.case Let_def case_prod_unfold
    by (auto simp only: split: if_splits) (auto simp: audited_def insert_audit_audits)
  then have user: "rb_user_id res = id_user_id r"
    and ids: "db_identities (w_db w') = upd_where (?hit (id_user_id r)) ?change (db_identities (w_db w))"
    and rest: "sessions_dead (id_user_id r) (w_db w')" "\<forall>a \<in> set (db_login_attempts (w_db w')). la_consumed_at a \<noteq> None"
    by (auto simp: sessions_dead_def set_upd_where)
  note old = find_identity_Some [OF r]
  have same: "x = r" if "x \<in> set (db_identities (w_db w))" "id_user_id x = id_user_id r \<or> id_issuer x = issuer \<and> id_subject x = subject" for x
    using that old assms(2) distinct_key_eq [of id_user_id "db_identities (w_db w)" x r]
      distinct_key_eq [of "\<lambda>x. (id_issuer x, id_subject x)" "db_identities (w_db w)" x r]
    by (auto simp: identity_keys_def)
  have bound: "find_identity (w_db w') new_issuer new_subject = Some (?change r)"
    unfolding find_identity_def
  proof (rule find_only)
    show "?change r \<in> set (db_identities (w_db w'))" using old by (auto simp: ids set_upd_where)
    show "x = ?change r" if "x \<in> set (db_identities (w_db w'))" "id_issuer x = new_issuer \<and> id_subject x = new_subject" for x
      using that same run(1) unfolding ids set_upd_where list_ex_iff by auto
  qed simp
  have gone: "find_identity (w_db w') issuer subject = None"
    using same assms(3) by (auto simp: find_identity_def find_None_iff2 ids set_upd_where)
  from r bound gone rest run(6) show ?thesis by (simp add: user)
qed

lemma RebindExternalIdentity_Inr:
  assumes "RebindExternalIdentity env clock issuer subject new_issuer new_subject operator req w = (Inr res, w')"
  shows "\<exists>reading w1. (issuer, subject) \<noteq> (new_issuer, new_subject) \<and> w_db w1 = w_db w \<and>
    RebindExternalIdentityAndAudit issuer subject new_issuer new_subject (At (truncate_us reading)) operator req w1 = (Inr res, w')"
  using assms
  by (auto simp: RebindExternalIdentity_def RebindExternalIdentity_body_def lock_identity_def LockExternalIdentity_def
      context_error_def tx_inverts within_tx_Inr split: option.splits if_splits
      intro!: exI [of _ "after_statement (after_statement w (w_db w)) (w_db w)"])

text \<open>
  C24. Rebinding hands an account over: the account of the old identity is the account of the new one, the old
  identity is nobody's, every session of the account is revoked and every login or revalidation that was under
  way is void, and the act is on record under the operator.
\<close>

theorem rebind_effect:
  assumes "RebindExternalIdentity env clock issuer subject new_issuer new_subject operator req w = (Inr res, w')"
    and "identity_keys (w_db w)"
  shows "\<exists>r r'. find_identity (w_db w) issuer subject = Some r \<and> id_user_id r = rb_user_id res \<and>
    find_identity (w_db w') new_issuer new_subject = Some r' \<and> id_user_id r' = rb_user_id res \<and>
    find_identity (w_db w') issuer subject = None \<and> sessions_dead (rb_user_id res) (w_db w') \<and>
    (\<forall>a \<in> set (db_login_attempts (w_db w')). la_consumed_at a \<noteq> None) \<and>
    audited (w_db w) (w_db w') (ActorOperator operator) ''rebind_external_identity'' None req
      (TargetUser (rb_user_id res)) (rb_audit_id res)"
proof -
  from RebindExternalIdentity_Inr [OF assms(1)] obtain t w1 where
    "(issuer, subject) \<noteq> (new_issuer, new_subject)" "w_db w1 = w_db w"
    "RebindExternalIdentityAndAudit issuer subject new_issuer new_subject t operator req w1 = (Inr res, w')" by auto
  with RebindExternalIdentityAndAudit_Inr [of issuer subject new_issuer new_subject t operator req w1 res w'] assms(2)
  show ?thesis by simp
qed

definition ex_rebind_call :: "(go_error + rebind_result) \<times> world" where
  "ex_rebind_call =
     RebindExternalIdentity ex_tx (Some 9000) ''https://id'' ''two'' ''https://new'' ''zwei'' ''operator'' (Some 8)
       (ex_world ex_setup_db [])"

lemma ex_rebind_result: "map_sum id rb_user_id (fst ex_rebind_call) = Inr 2"
  by code_simp

theorem rebind_effect_witness:
  "find_identity (w_db (snd ex_rebind_call)) ''https://id'' ''two'' = None \<and> sessions_dead 2 (w_db (snd ex_rebind_call))"
proof -
  obtain res where res: "RebindExternalIdentity ex_tx (Some 9000) ''https://id'' ''two'' ''https://new'' ''zwei'' ''operator''
      (Some 8) (ex_world ex_setup_db []) = (Inr res, snd ex_rebind_call)" "rb_user_id res = 2"
    using ex_rebind_result by (cases "fst ex_rebind_call") (auto simp: ex_rebind_call_def prod_eq_iff)
  have "identity_keys ex_setup_db" by code_simp
  with rebind_effect [OF res(1)] res(2) show ?thesis by auto
qed

end
