(* ===== verification/PagingFacts.thy ===== *)
theory PagingFacts
  imports AccountFacts
begin

text \<open>
  The keyset pages of \<open>internal/administration/account.go\<close>: a page holds the next fifty rows in the
  order of their identifiers, its continuation is the last of them, and following the continuations
  ends and shows every row exactly once.
\<close>

subsection \<open>One page\<close>

definition ascending_from :: "('r \<Rightarrow> int) \<Rightarrow> int \<Rightarrow> 'r list \<Rightarrow> bool" where
  "ascending_from k after rows \<longleftrightarrow> sorted_wrt (<) (after # map k rows)"

text \<open>The page that rows in ascending order make, of which the row after the fiftieth is only looked at.\<close>

definition page_of :: "('r \<Rightarrow> int) \<Rightarrow> ('r \<Rightarrow> 'a) \<Rightarrow> 'r list \<Rightarrow> 'a id_page" where
  "page_of k x rows =
     \<lparr>pg_items = map (\<lambda>r. (k r, x r)) (take administrationPageSize rows),
      pg_next_after = (if length rows \<le> administrationPageSize then 0 else k (rows ! (administrationPageSize - 1)))\<rparr>"

lemma page_rows_append:
  assumes "ascending_from k prev xs" and "\<And>r. r \<in> set xs \<Longrightarrow> item r = Some (k r, x r)"
    and "i + length xs \<le> administrationPageSize"
  shows "page_rows malformed item i prev (xs @ ys) page =
    page_rows malformed item (i + length xs) (last (prev # map k xs)) ys
      (page\<lparr>pg_items := pg_items page @ map (\<lambda>r. (k r, x r)) xs\<rparr>)"
  using assms
proof (induction xs arbitrary: i prev page)
  case Nil
  then show ?case by simp
next
  case (Cons r xs)
  from Cons.prems(1) have "prev < k r" "ascending_from k (k r) xs"
    by (auto simp: ascending_from_def)
  with Cons.prems Cons.IH [of "k r" "i + 1" "page\<lparr>pg_items := pg_items page @ [(k r, x r)]\<rparr>"] show ?case
    by (simp add: not_le)
qed

lemma page_rows_last:
  "item y = Some (k, x) \<Longrightarrow> prev < k \<Longrightarrow>
   page_rows malformed item administrationPageSize prev [y] page = Inr (page\<lparr>pg_next_after := fst (last (pg_items page))\<rparr>)"
  by simp

lemma page_rows_page:
  assumes "ascending_from k after rows" and "\<And>r. r \<in> set rows \<Longrightarrow> item r = Some (k r, x r)"
    and "length rows \<le> administrationPageQueryLimit"
  shows "page_rows malformed item 0 after rows \<lparr>pg_items = [], pg_next_after = 0\<rparr> = Inr (page_of k x rows)"
proof (cases "length rows \<le> administrationPageSize")
  case True
  with page_rows_append [OF assms(1,2), of 0 malformed "[]"] show ?thesis by (simp add: page_of_def)
next
  case False
  with assms(3) have n: "length rows = 51"
    by (simp add: administrationPageSize_def administrationPageQueryLimit_def)
  let ?xs = "take 50 rows" and ?y = "rows ! 50"
  have rows: "rows = ?xs @ [?y]"
    using n take_Suc_conv_app_nth [of 50 rows] by simp
  from assms(1) have asc: "ascending_from k after (?xs @ [?y])" using rows by simp
  then have pre: "ascending_from k after ?xs" and above: "\<forall>z \<in> set (after # map k ?xs). z < k ?y"
    by (auto simp: ascending_from_def sorted_wrt_append simp del: take_append)
  have gt: "last (after # map k ?xs) < k ?y" by (rule bspec [OF above last_in_set]) simp
  have y: "item ?y = Some (k ?y, x ?y)" by (rule assms(2)) (simp add: n)
  have "?xs \<noteq> []" using n by auto
  then have last_xs: "last (map (\<lambda>r. (k r, x r)) ?xs) = (k (rows ! 49), x (rows ! 49))"
    using n by (simp add: last_map last_conv_nth)
  have "item r = Some (k r, x r)" if "r \<in> set ?xs" for r using that by (intro assms(2)) (rule in_set_takeD)
  moreover have "0 + length ?xs = administrationPageSize" using n by (simp add: administrationPageSize_def)
  ultimately have "page_rows malformed item 0 after (?xs @ [?y]) \<lparr>pg_items = [], pg_next_after = 0\<rparr> =
    Inr \<lparr>pg_items = map (\<lambda>r. (k r, x r)) ?xs, pg_next_after = fst (last (map (\<lambda>r. (k r, x r)) ?xs))\<rparr>"
    using page_rows_append [OF pre, of item x 0 malformed "[?y]"] page_rows_last [of item ?y "k ?y" "x ?y", OF y gt]
    by (simp del: page_rows.simps)
  with rows n last_xs show ?thesis by (simp add: page_of_def administrationPageSize_def)
qed

subsection \<open>Walking the pages\<close>

text \<open>A reader that follows the continuations; it gives up when its fuel is spent or a page cannot be loaded.\<close>

fun walk_pages :: "nat \<Rightarrow> (int \<Rightarrow> 'a id_page option) \<Rightarrow> int \<Rightarrow> (int \<times> 'a) list option" where
  "walk_pages 0 load after = None"
| "walk_pages (Suc fuel) load after =
     (case load after of
        None \<Rightarrow> None
      | Some page \<Rightarrow>
          if pg_next_after page = 0 then Some (pg_items page)
          else map_option (\<lambda>rest. pg_items page @ rest) (walk_pages fuel load (pg_next_after page)))"

lemma after_id_ascending:
  assumes "distinct (map k rows)"
  shows "ascending_from k after (after_id k after n rows)"
proof -
  let ?s = "sort_key k (filter (\<lambda>r. k r > after) rows)"
  have "distinct (map k (filter (\<lambda>r. k r > after) rows))" by (rule distinct_map_filter [OF assms])
  then have "distinct (map k ?s)" by (simp only: distinct_map distinct_sort set_sort)
  moreover have "sorted (map k ?s)" by (rule sorted_sort_key)
  ultimately have "sorted_wrt (<) (map k ?s)" unfolding strict_sorted_iff by blast
  then have "sorted_wrt (<) (map k (take n ?s))" unfolding take_map [symmetric] by (rule sorted_wrt_take)
  moreover have "\<forall>r \<in> set (take n ?s). after < k r" by (auto dest: in_set_takeD)
  ultimately show ?thesis unfolding ascending_from_def after_id_def sorted_wrt.simps list.set_map by blast
qed

text \<open>After the first \<open>n\<close> rows of a table in ascending order come the others.\<close>

lemma rows_after:
  fixes k :: "'r \<Rightarrow> int"
  assumes "distinct (map k rows)" and "n < length (sort_key k (filter (\<lambda>r. k r > after) rows))"
  defines "s \<equiv> sort_key k (filter (\<lambda>r. k r > after) rows)"
  shows "sort_key k (filter (\<lambda>r. k r > k (s ! n)) rows) = drop (Suc n) s"
proof -
  have all: "ascending_from k after s"
    using after_id_ascending [OF assms(1), of after "length s"] by (simp add: after_id_def s_def)
  then have asc: "sorted_wrt (<) (map k s)" and above: "after < k (s ! n)"
    using assms(2) nth_mem [of n s] by (auto simp: ascending_from_def s_def)
  have nth: "k (s ! i) < k (s ! j) \<longleftrightarrow> i < j" if "i < length s" "j < length s" for i j
    using sorted_wrt_nth_less [OF asc, of i j] sorted_wrt_nth_less [OF asc, of j i] that
    by (metis length_map less_asym linorder_neqE_nat nth_map order_less_irrefl)
  have "sort_key k (filter (\<lambda>r. k r > k (s ! n)) rows) = filter (\<lambda>r. k r > k (s ! n)) (sort_key k rows)"
    by (simp add: filter_sort)
  also have "\<dots> = filter (\<lambda>r. k r > k (s ! n)) (filter (\<lambda>r. k r > after) (sort_key k rows))"
    using above by (auto intro!: filter_cong)
  also have "\<dots> = filter (\<lambda>r. k r > k (s ! n)) (take (Suc n) s @ drop (Suc n) s)"
    by (simp add: s_def filter_sort)
  also have "\<dots> = drop (Suc n) s"
  proof -
    have "filter (\<lambda>r. k r > k (s ! n)) (take (Suc n) s) = []"
      using nth assms(2) by (auto simp: filter_empty_conv in_set_conv_nth s_def)
    moreover have "filter (\<lambda>r. k r > k (s ! n)) (drop (Suc n) s) = drop (Suc n) s"
      using nth assms(2) by (auto simp: filter_id_conv in_set_conv_nth s_def)
    ultimately show ?thesis by (simp only: filter_append append_Nil)
  qed
  finally show ?thesis .
qed

text \<open>
  A loader whose pages are the fifty rows after the continuation: the walk shows all rows in ascending
  order, with a page less of fuel than there are rows to spare.
\<close>

lemma walk_pages_all:
  assumes keys: "distinct (map k rows)" and pos: "\<And>r. r \<in> set rows \<Longrightarrow> 0 < k r"
    and load: "\<And>after. 0 \<le> after \<Longrightarrow> load after = Some (page_of k x (after_id k after administrationPageQueryLimit rows))"
    and start: "0 \<le> after" and fuel: "length (filter (\<lambda>r. k r > after) rows) < fuel * administrationPageSize + 1" "0 < fuel"
  shows "walk_pages fuel load after = Some (map (\<lambda>r. (k r, x r)) (sort_key k (filter (\<lambda>r. k r > after) rows)))"
  using start fuel
proof (induction fuel arbitrary: after)
  case 0
  then show ?case by simp
next
  case (Suc fuel)
  let ?s = "sort_key k (filter (\<lambda>r. k r > after) rows)"
  have page: "load after = Some (page_of k x (take 51 ?s))"
    using load [OF Suc.prems(1)] by (simp add: after_id_def administrationPageQueryLimit_def)
  show ?case
  proof (cases "length ?s \<le> 50")
    case True
    then show ?thesis by (simp add: page page_of_def administrationPageSize_def)
  next
    case False
    let ?n = "k (?s ! 49)"
    have "?s ! 49 \<in> set ?s" using False by (intro nth_mem) simp
    then have n: "0 < ?n" using pos by auto
    have rest: "sort_key k (filter (\<lambda>r. k r > ?n) rows) = drop 50 ?s"
      using rows_after [OF keys, of 49 after] False by simp
    have "length (filter (\<lambda>r. k r > ?n) rows) = length ?s - 50"
      using arg_cong [OF rest, of length] by simp
    then have len: "length (filter (\<lambda>r. k r > ?n) rows) < fuel * administrationPageSize + 1" "0 < fuel"
      using Suc.prems(2) False by (auto simp: administrationPageSize_def)
    have p: "page_of k x (take 51 ?s) = \<lparr>pg_items = map (\<lambda>r. (k r, x r)) (take 50 ?s), pg_next_after = ?n\<rparr>"
      using False by (simp add: page_of_def administrationPageSize_def)
    have "walk_pages (Suc fuel) load after =
        map_option (\<lambda>rest. map (\<lambda>r. (k r, x r)) (take 50 ?s) @ rest) (walk_pages fuel load ?n)"
      using n by (simp add: page p)
    also have "\<dots> = Some (map (\<lambda>r. (k r, x r)) (take 50 ?s) @ map (\<lambda>r. (k r, x r)) (drop 50 ?s))"
      using Suc.IH [OF less_imp_le [OF n] len] by (simp add: rest)
    also have "\<dots> = Some (map (\<lambda>r. (k r, x r)) ?s)" by (simp flip: map_append)
    finally show ?thesis .
  qed
qed

subsection \<open>The pages of the accounts\<close>

text \<open>The summary of an account at an instant, where its row meets the constraints of the table.\<close>

definition account_of_row :: "gotime \<Rightarrow> user_row \<Rightarrow> account_summary option" where
  "account_of_row t u = accountFromRow (account_list_row_of (At (truncate_us t)) u)"

definition account_rows_valid :: "gotime \<Rightarrow> forum_db \<Rightarrow> bool" where
  "account_rows_valid t db \<longleftrightarrow>
     distinct (map u_id (db_users db)) \<and> list_all (\<lambda>u. account_of_row t u \<noteq> None) (db_users db)"

text \<open>A reader the pages are open to: an administrator by its context and by the tables.\<close>

definition may_administer :: "tx_env \<Rightarrow> access_context \<Rightarrow> gotime \<Rightarrow> forum_db \<Rightarrow> bool" where
  "may_administer env actor t db \<longleftrightarrow>
     te_context_given env \<and> te_beginner_given env \<and> te_context_error env = None \<and> CanAdminister actor \<and>
     t \<noteq> zero_time \<and> sql_administrator db (ac_user_id actor) (At (truncate_us t))"

lemma accountFromRow_id: "accountFromRow r = Some a \<Longrightarrow> sy_id a = al_id r \<and> 0 < al_id r"
  by (auto simp: accountFromRow_def Let_def split: if_splits)

lemma length_after_id: "length (after_id k after n rows) \<le> n"
  by (simp add: after_id_def)

lemma set_after_id: "set (after_id k after n rows) \<subseteq> set rows"
  by (auto simp: after_id_def dest: in_set_takeD)

lemma page_of_map: "page_of k x (map f rows) = page_of (\<lambda>r. k (f r)) (\<lambda>r. x (f r)) rows"
  by (simp add: page_of_def take_map administrationPageSize_def)

lemma ascending_from_map: "ascending_from k after (map f rows) = ascending_from (\<lambda>r. k (f r)) after rows"
  by (simp add: ascending_from_def comp_def)

lemma read_page_rows:
  assumes us: "us \<noteq> []" "length us \<le> administrationPageQueryLimit" "ascending_from k after us"
    and row: "\<And>u. present (row u)" "\<And>u. u \<in> set us \<Longrightarrow> item (row u) = Some (k u, x u)"
  shows "read_page malformed present bare item after (map row us) = Inr (page_of k x us)"
proof -
  have "page_rows malformed item 0 after (map row us) \<lparr>pg_items = [], pg_next_after = 0\<rparr> =
      page_rows malformed (item \<circ> row) 0 after us \<lparr>pg_items = [], pg_next_after = 0\<rparr>"
  proof -
    have "page_rows malformed item i prev (map row us) page = page_rows malformed (item \<circ> row) i prev us page" for i prev page
      by (induction us arbitrary: i prev page) (simp_all split: option.split)
    then show ?thesis .
  qed
  also have "\<dots> = Inr (page_of k x us)" by (rule page_rows_page) (use us row in simp_all)
  finally show ?thesis using us row(1) by (auto simp: read_page_def Let_def list_ex_iff)
qed

lemma ListAccounts_page:
  assumes "may_administer env actor t (w_db w)" and "account_rows_valid t (w_db w)" and "0 \<le> after" and "fault_free w"
  shows "fst (ListAccounts env actor t after w) =
    Inr (page_of u_id (\<lambda>u. the (account_of_row t u)) (after_id u_id after administrationPageQueryLimit (db_users (w_db w))))"
proof -
  let ?us = "after_id u_id after administrationPageQueryLimit (db_users (w_db w))"
  let ?item = "\<lambda>r. map_option (\<lambda>a. (sy_id a, a)) (accountFromRow r)"
  let ?row = "account_list_row_of (At (truncate_us t))"
  let ?rows = "case ?us of [] \<Rightarrow> [empty_account_list_row] | us \<Rightarrow> map ?row us"
  have run: "fst (ListAccounts env actor t after w) =
      read_page (malformedAdministrationRows ''accounts'') al_present emptyAccountRow ?item after ?rows"
    using assms
    by (auto simp: ListAccounts_def ListAccountsForAdministration_def validateAccountReadBoundary_def may_administer_def
        context_error_def tx_unfold fault_free_def split: sum.split)
  have valid: "?item (?row u) = Some (u_id u, the (account_of_row t u))" if "u \<in> set ?us" for u
  proof -
    from that have "u \<in> set (db_users (w_db w))" by (rule subsetD [OF set_after_id])
    with assms(2) have "account_of_row t u \<noteq> None" by (simp add: account_rows_valid_def list_all_iff)
    then show ?thesis
      using accountFromRow_id [of "?row u"] by (auto simp: account_of_row_def account_list_row_of_def)
  qed
  show ?thesis
  proof (cases "?us = []")
    case True
    then show ?thesis
      by (simp add: run read_page_def page_of_def empty_account_list_row_def emptyAccountRow_def
          administrationPageQueryLimit_def)
  next
    case False
    then have rows: "?rows = map ?row ?us" by (simp split: list.split)
    have asc: "ascending_from u_id after ?us"
      using assms(2) by (intro after_id_ascending) (simp add: account_rows_valid_def)
    show ?thesis
      unfolding run rows
      by (rule read_page_rows [OF False length_after_id asc]) (simp add: account_list_row_of_def, erule valid)
  qed
qed

definition load_accounts ::
  "tx_env \<Rightarrow> access_context \<Rightarrow> gotime \<Rightarrow> world \<Rightarrow> int \<Rightarrow> account_summary id_page option" where
  "load_accounts env actor t w after =
     (case fst (ListAccounts env actor t after w) of Inl e \<Rightarrow> None | Inr page \<Rightarrow> Some page)"

text \<open>
  C25. The pages of accounts are complete and the walk along them ends: an administrator who follows the
  continuations from the start over unchanged tables loads at most one page per fifty accounts, one at least,
  and sees the summary of every account exactly once, in the order of the identifiers.
\<close>

theorem account_pages_complete:
  assumes "may_administer env actor t (w_db w)" and "account_rows_valid t (w_db w)" and "fault_free w"
    and "length (db_users (w_db w)) \<le> fuel * 50" and "0 < fuel"
  shows "walk_pages fuel (load_accounts env actor t w) 0 =
    Some (map (\<lambda>u. (u_id u, the (account_of_row t u))) (sort_key u_id (db_users (w_db w))))"
proof -
  let ?users = "db_users (w_db w)"
  have pos: "0 < u_id u" if "u \<in> set ?users" for u
  proof -
    from that assms(2) have "account_of_row t u \<noteq> None" by (simp add: account_rows_valid_def list_all_iff)
    then show ?thesis using accountFromRow_id by (fastforce simp: account_of_row_def account_list_row_of_def)
  qed
  have load: "load_accounts env actor t w after =
      Some (page_of u_id (\<lambda>u. the (account_of_row t u)) (after_id u_id after administrationPageQueryLimit ?users))"
    if "0 \<le> after" for after
    using ListAccounts_page [OF assms(1,2) that assms(3)] by (simp add: load_accounts_def)
  have "filter (\<lambda>u. u_id u > 0) ?users = ?users" using pos by (simp add: filter_id_conv)
  with walk_pages_all [of u_id ?users _ _ 0 fuel, OF _ pos load] assms(2,4,5) show ?thesis
    by (simp add: account_rows_valid_def administrationPageSize_def)
qed

text \<open>A board of 55 accounts: two pages.\<close>

definition ex_many_db :: forum_db where
  "ex_many_db = ex_db\<lparr>db_users := ex_user 70 ''administrator'' # map (\<lambda>i. ex_user i ''member'') [1..54]\<rparr>"

theorem account_pages_complete_witness:
  "map_option (map fst) (walk_pages 2 (load_accounts ex_tx (ex_actor 70 RoleAdministrator) 9000 (ex_world ex_many_db [])) 0)
     = Some ([1..54] @ [70])"
proof -
  have may: "may_administer ex_tx (ex_actor 70 RoleAdministrator) 9000 (w_db (ex_world ex_many_db []))" by code_simp
  have valid: "account_rows_valid 9000 (w_db (ex_world ex_many_db []))" by code_simp
  have free: "fault_free (ex_world ex_many_db [])" by code_simp
  have len: "length (db_users (w_db (ex_world ex_many_db []))) \<le> 2 * 50" by code_simp
  have ids: "map u_id (sort_key u_id (db_users ex_many_db)) = [1..54] @ [70]" by code_simp
  from account_pages_complete [OF may valid free len] ids show ?thesis by (simp add: comp_def)
qed

end
