(* ===== verification/ControlFacts.thy ===== *)
theory ControlFacts
  imports SessionFacts AccountFacts
begin

text \<open>
  The settings of \<open>internal/control\<close>: what an administrator sets is what the board loads, to the second,
  as long as the ceilings of the start-up fit the columns; beyond that the conversion of the seconds wraps.
\<close>

subsection \<open>Widths\<close>

lemma to_int32_id: "0 \<le> n \<Longrightarrow> n < 2 ^ 31 \<Longrightarrow> to_int32 n = n"
  unfolding to_int32_def by (simp add: sint_uint uint_word_of_int_eq take_bit_int_eq_self signed_take_bit_int_eq_self)

lemma seconds_exact: "d mod ns_second = 0 \<Longrightarrow> d div ns_second * ns_second = (d::int)"
  using div_mult_mod_eq [of d ns_second] by simp

lemma seconds_round_trip:
  assumes "d mod ns_second = 0" and "ns_second \<le> d" and "d < 2 ^ 31 * ns_second"
  shows "to_int32 (d div ns_second) * ns_second = d" and "0 < to_int32 (d div ns_second)"
proof -
  have "1 \<le> d div ns_second" "d div ns_second < 2 ^ 31"
    using assms(2,3) unfolding ns_second_def by linarith+
  then show "to_int32 (d div ns_second) * ns_second = d" "0 < to_int32 (d div ns_second)"
    using seconds_exact [OF assms(1)] by (simp_all add: to_int32_id)
qed

lemma limit_round_trip: "uint (l::u32) \<le> 2147483647 \<Longrightarrow> word_of_int (to_int32 (uint l)) = l"
  by (simp add: to_int32_id)

subsection \<open>The accepted input\<close>

definition settings_of_input :: "control_input \<Rightarrow> int \<Rightarrow> control_settings" where
  "settings_of_input x revision =
     \<lparr>cs_registration = ci_registration x, cs_maintenance_enabled = ci_maintenance_enabled x,
      cs_maintenance_message = ci_maintenance_message x,
      cs_publication = \<lparr>pp_established_limit = ci_publish_limit x, pp_new_account_limit = ci_new_account_limit x,
        pp_window = ci_publish_window x, pp_new_account_period = ci_new_account_period x\<rparr>,
      cs_session_idle = ci_session_idle x, cs_auth_revalidate = ci_auth_revalidate x, cs_revision = revision\<rparr>"

lemma ceilings_fit:
  assumes "ceilings_valid c" and "cg_session_maximum_age c < 2 ^ 31 * ns_second"
  shows "cg_publish_window c < 2 ^ 31 * ns_second" "cg_new_account_period c < 2 ^ 31 * ns_second"
    "cg_session_idle c < 2 ^ 31 * ns_second" "cg_auth_revalidate c < 2 ^ 31 * ns_second"
  using assms
  by (auto simp: ceilings_valid_def NewPublicationPolicy_def PublicationPolicyValid_def Let_def ns_second_def ns_minute_def
      ns_hour_def split: if_splits)

text \<open>The row that is written loads as the settings that were asked for, with whatever revision it gets.\<close>

lemma input_row_loads:
  assumes valid: "ceilings_valid c" and fit: "cg_session_maximum_age c < 2 ^ 31 * ns_second"
    and accepted: "validateInput x c True = Inr requested" and rv: "0 < rv"
  shows "validateRow ((input_row x stamp)\<lparr>st_administration_revision := rv, st_updated_at := stamp'\<rparr>) c =
    Inr (settings_of_input x rv)"
proof -
  from accepted have limits: "uint (ci_publish_limit x) \<le> 2147483647" "uint (ci_new_account_limit x) \<le> 2147483647"
    and window: "ci_publish_window x mod ns_second = 0" "ns_second \<le> ci_publish_window x" "ci_publish_window x \<le> cg_publish_window c"
    and period: "ci_new_account_period x mod ns_second = 0" "ns_minute \<le> ci_new_account_period x"
      "ci_new_account_period x \<le> cg_new_account_period c"
    and idle: "ci_session_idle x mod ns_second = 0" "ns_second \<le> ci_session_idle x" "ci_session_idle x \<le> cg_session_idle c"
    and again: "ci_auth_revalidate x mod ns_second = 0" "ns_second \<le> ci_auth_revalidate x"
      "ci_auth_revalidate x \<le> cg_auth_revalidate c"
    and row: "validateRow (input_row x (At 0)) c = Inr requested"
    by (auto simp: validateInput_def split: if_splits sum.splits)
  note fits = ceilings_fit [OF valid fit]
  have "ns_second \<le> ci_new_account_period x" using period(2) by (simp add: ns_minute_def ns_second_def)
  note seconds [simp] =
    seconds_round_trip [OF window(1,2) le_less_trans [OF window(3) fits(1)]]
    seconds_round_trip [OF period(1) this le_less_trans [OF period(3) fits(2)]]
    seconds_round_trip [OF idle(1,2) le_less_trans [OF idle(3) fits(3)]]
    seconds_round_trip [OF again(1,2) le_less_trans [OF again(3) fits(4)]]
  show ?thesis
    using row rv limit_round_trip [OF limits(1)] limit_round_trip [OF limits(2)]
    by (auto simp: validateRow_def input_row_def settings_of_input_def NewPublicationPolicy_def Let_def
        split: if_splits sum.splits)
qed

subsection \<open>The change\<close>

definition only_settings_change :: "forum_db \<Rightarrow> forum_db \<Rightarrow> bool" where
  "only_settings_change db db' \<longleftrightarrow>
     (\<exists>seqs audits settings. db' = db\<lparr>db_seqs := seqs, db_audits := audits, db_settings := settings\<rparr>)"

lemma UpdateControlSettingsAndAudit_Inr:
  assumes "UpdateControlSettingsAndAudit sha new previous expected actor reason observed req w = (Inr (rv, k), w')"
  shows "\<exists>st. find (\<lambda>st. st_administration_revision st = expected \<and> st_administration_revision st < max_int64)
      (db_settings (w_db w)) = Some st \<and> rv = expected + 1 \<and>
    only_settings_change (w_db w) (w_db w') \<and>
    db_settings (w_db w') = upd_where (\<lambda>st. st_administration_revision st = expected \<and> st_administration_revision st < max_int64)
        (\<lambda>_. new\<lparr>st_administration_revision := rv, st_updated_at := observed\<rparr>) (db_settings (w_db w)) \<and>
    audited (w_db w) (w_db w') (ActorUser actor) ''update_control_settings'' (Some reason) req TargetSite k"
  using assms
  by (auto simp: UpdateControlSettingsAndAudit_def tx_inverts Let_def case_prod_unfold audited_def insert_audit_def
      nextval_def only_settings_change_def split: option.splits dest!: find_Some_iff2)

lemma Update_Inr:
  assumes "Update sha env clock actor x c req w = (Inr (rv, k), w')"
  shows "\<exists>reading requested. clock = Some reading \<and> ceilings_valid c \<and> CanAdminister actor \<and>
    validateInput x c True = Inr requested \<and>
    Update_body sha (truncate_us reading) actor x requested c req w = (Inr (rv, k), w')"
  using assms
  by (auto simp: Update_def context_error_def tx_inverts within_tx_Inr split: option.splits if_splits sum.splits)

lemma require_mail_Inr:
  assumes "require_mail requested w = (Inr u, w')"
  shows "w_db w' = w_db w \<and> (cs_registration requested \<noteq> RegistrationClosed \<longrightarrow>
    (\<exists>sm. db_smtp (w_db w) = [sm] \<and> sm_host sm \<noteq> [] \<and> sm_verified_revision sm = Some (sm_administration_revision sm)))"
  using assms
  by (auto simp: require_mail_def LockRuntimeSMTPSettings_def tx_inverts split: if_splits list.splits)

lemma Update_body_Inr:
  assumes "Update_body sha now actor x requested c req w = (Inr (rv, k), w')"
  shows "sql_administrator (w_db w) (ac_user_id actor) (At now) \<and>
    (\<exists>st rest current. db_settings (w_db w) = st # rest \<and> validateRow st c = Inr current \<and>
       st_administration_revision st = ci_revision x \<and> \<not> sameSettings current requested) \<and>
    (cs_registration requested \<noteq> RegistrationClosed \<longrightarrow>
      (\<exists>sm. db_smtp (w_db w) = [sm] \<and> sm_host sm \<noteq> [] \<and> sm_verified_revision sm = Some (sm_administration_revision sm))) \<and>
    rv = ci_revision x + 1 \<and>
    only_settings_change (w_db w) (w_db w') \<and>
    db_settings (w_db w') = upd_where (\<lambda>st. st_administration_revision st = ci_revision x \<and> st_administration_revision st < max_int64)
        (\<lambda>_. (input_row x (At now))\<lparr>st_administration_revision := rv, st_updated_at := At now\<rparr>) (db_settings (w_db w)) \<and>
    audited (w_db w) (w_db w') (ActorUser (ac_user_id actor)) ''update_control_settings'' (Some (ci_reason x)) req TargetSite k"
proof -
  have row: "cs_revision s = st_administration_revision st" if "validateRow st c = Inr s" for st s
    using that by (auto simp: validateRow_def Let_def split: if_splits sum.splits)
  show ?thesis
    using assms unfolding Update_body_def ConfigureAdministrationTransaction_def LockControlSettingsAdministrator_def
      LockRuntimeControlSettings_def
    by (auto simp: tx_inverts row split: if_splits list.splits dest!: UpdateControlSettingsAndAudit_Inr require_mail_Inr)
qed

lemma Update_body_hit:
  assumes "Update_body sha now actor x requested c req w = (Inr (rv, k), w')"
  shows "ci_revision x < max_int64"
  using assms unfolding Update_body_def ConfigureAdministrationTransaction_def LockControlSettingsAdministrator_def
    LockRuntimeControlSettings_def
  by (auto simp: tx_inverts split: if_splits list.splits dest!: UpdateControlSettingsAndAudit_Inr find_Some_iff2)

subsection \<open>The example\<close>

definition ex_control_db :: forum_db where
  "ex_control_db = ex_db\<lparr>db_settings := [ex_settings 900 1800],
     db_smtp := [\<lparr>sm_host = ''mail'', sm_administration_revision = 4, sm_verified_revision = Some 4\<rparr>]\<rparr>"

definition ex_control_input :: control_input where
  "ex_control_input =
     \<lparr>ci_registration = RegistrationInvitationOnly, ci_maintenance_enabled = True, ci_maintenance_message = ''back soon'',
      ci_publish_limit = 8, ci_new_account_limit = 3, ci_publish_window = 30 * ns_second,
      ci_new_account_period = 30 * ns_minute, ci_session_idle = 600 * ns_second, ci_auth_revalidate = ns_hour,
      ci_revision = 1, ci_reason = ''upgrade''\<rparr>"

definition ex_control_call :: "(go_error + (int \<times> int)) \<times> world" where
  "ex_control_call =
     Update id ex_tx (Some 9000) (ex_actor 1 RoleAdministrator) ex_control_input ex_ceilings (Some 4)
       (ex_world ex_control_db [])"

lemma ex_control_result: "fst ex_control_call = Inr (2, 1)"
  by code_simp

lemma ex_control_call_eq:
  "Update id ex_tx (Some 9000) (ex_actor 1 RoleAdministrator) ex_control_input ex_ceilings (Some 4)
     (ex_world ex_control_db []) = (Inr (2, 1), snd ex_control_call)"
  using ex_control_result by (simp add: ex_control_call_def prod_eq_iff)

subsection \<open>Properties\<close>

text \<open>
  A change of the settings is the act of an administrator, as locked, on the revision that was read: it
  writes nothing but the settings row and one audit row, the revision goes up by one, something changes, and
  registration is opened only with mail settings that were verified in their current revision.
\<close>

lemma control_update_effect:
  assumes "Update sha env clock actor x c req w = (Inr (rv, k), w')"
  shows "\<exists>reading st rest current requested. clock = Some reading \<and> validateInput x c True = Inr requested \<and>
    sql_administrator (w_db w) (ac_user_id actor) (At (truncate_us reading)) \<and>
    db_settings (w_db w) = st # rest \<and> st_administration_revision st = ci_revision x \<and> rv = ci_revision x + 1 \<and>
    validateRow st c = Inr current \<and> \<not> sameSettings current requested \<and>
    (cs_registration requested \<noteq> RegistrationClosed \<longrightarrow>
      (\<exists>sm. db_smtp (w_db w) = [sm] \<and> sm_host sm \<noteq> [] \<and> sm_verified_revision sm = Some (sm_administration_revision sm))) \<and>
    only_settings_change (w_db w) (w_db w') \<and>
    audited (w_db w) (w_db w') (ActorUser (ac_user_id actor)) ''update_control_settings'' (Some (ci_reason x)) req TargetSite k"
proof -
  from Update_Inr [OF assms] obtain reading requested where
    up: "clock = Some reading" "validateInput x c True = Inr requested"
      "Update_body sha (truncate_us reading) actor x requested c req w = (Inr (rv, k), w')" by auto
  note facts = Update_body_Inr [OF up(3)]
  from facts obtain st rest current where st: "db_settings (w_db w) = st # rest" "validateRow st c = Inr current"
      "st_administration_revision st = ci_revision x" "\<not> sameSettings current requested" by auto
  with facts up show ?thesis by blast
qed

lemma control_update_effect_witness:
  "only_settings_change ex_control_db (w_db (snd ex_control_call)) \<and>
   audited ex_control_db (w_db (snd ex_control_call)) (ActorUser 1) ''update_control_settings'' (Some ''upgrade'') (Some 4) TargetSite 1"
  using control_update_effect [OF ex_control_call_eq] by (auto simp: ex_actor_def ex_control_input_def)

text \<open>
  C26. What an administrator sets is what the board runs on: on the tables a successful change leaves, the
  settings load without error and are the settings of the input, durations and limits exactly, under the next
  revision, as long as the maximum age of a session, which bounds the other ceilings, fits the columns.
\<close>

theorem control_round_trip:
  assumes "Update sha env clock actor x c req w = (Inr (rv, k), w')"
    and "length (db_settings (w_db w)) = 1" and "cg_session_maximum_age c < 2 ^ 31 * ns_second"
    and "w_db w2 = w_db w'" and "fault_free w2" and "cx_given cx" and "cx_error cx = None"
  shows "fst (Load cx True c w2) = Inr (settings_of_input x (ci_revision x + 1))"
proof -
  from Update_Inr [OF assms(1)] obtain reading requested where
    up: "ceilings_valid c" "validateInput x c True = Inr requested"
      "Update_body sha (truncate_us reading) actor x requested c req w = (Inr (rv, k), w')" by auto
  note facts = Update_body_Inr [OF up(3)]
  from facts obtain st rest where "db_settings (w_db w) = st # rest" "st_administration_revision st = ci_revision x" by blast
  with assms(2) have st: "db_settings (w_db w) = [st]" "st_administration_revision st = ci_revision x" by simp_all
  have pos: "0 < ci_revision x" using up(2) by (auto simp: validateInput_def split: if_splits)
  let ?hit = "\<lambda>st. st_administration_revision st = ci_revision x \<and> st_administration_revision st < max_int64"
  let ?new = "(input_row x (At (truncate_us reading)))\<lparr>st_administration_revision := ci_revision x + 1,
      st_updated_at := At (truncate_us reading)\<rparr>"
  have "db_settings (w_db w') = upd_where ?hit (\<lambda>_. ?new) (db_settings (w_db w))"
    using facts by simp
  moreover have "?hit st" using Update_body_hit [OF up(3)] st by simp
  ultimately have row: "db_settings (w_db w2) = [?new]" by (simp add: st assms(4))
  have load: "fst (Load cx True c w2) = validateRow ?new c"
    using assms(5,6,7) up(1) row
    by (auto simp: Load_def LoadRuntimeControlSettings_def auth_context_error_def tx_unfold fault_free_def split: sum.split)
  show ?thesis unfolding load by (rule input_row_loads [OF up(1) assms(3) up(2)]) (use pos in simp)
qed

theorem control_round_trip_witness:
  "fst (Load ex_cx True ex_ceilings (ex_world (w_db (snd ex_control_call)) [])) = Inr (settings_of_input ex_control_input 2)"
proof -
  have one: "length (db_settings (w_db (ex_world ex_control_db []))) = 1" by code_simp
  have age: "cg_session_maximum_age ex_ceilings < 2 ^ 31 * ns_second" by code_simp
  from control_round_trip [OF ex_control_call_eq one age, of "ex_world (w_db (snd ex_control_call)) []" ex_cx]
  show ?thesis by (simp add: ex_world_def fault_free_def ex_cx_def ex_control_input_def)
qed

text \<open>
  Seconds beyond the columns wrap: with a ceiling of 136 years, an idle time of 2 ^ 32 + 1 seconds is accepted
  and stands for one second.
\<close>

lemma control_seconds_wrap:
  "(let big = 4294967297 * ns_second;
        c = ex_ceilings\<lparr>cg_session_idle := big, cg_session_maximum_age := big\<rparr>
    in ceilings_valid c \<and>
       map_sum id cs_session_idle (validateInput (ex_control_input\<lparr>ci_session_idle := big\<rparr>) c True) = Inr ns_second)"
  by code_simp

end
