(* ===== verification/RegistrationFacts.thy ===== *)
theory RegistrationFacts
  imports BoardLaws Example
begin

text \<open>
  What holds of registrations under every sequence of services: no registration is lost, a decision once on
  record is final and keeps the request it was made under, and success is reported only after the identity
  provider confirmed it. Retrying under another request does not succeed.
\<close>

subsection \<open>The life of a registration\<close>

definition same_registrant :: "registration_row \<Rightarrow> registration_row \<Rightarrow> bool" where
  "same_registrant r r' \<longleftrightarrow>
     pn_id r' = pn_id r \<and> pn_user_id r' = pn_user_id r \<and> pn_subject r' = pn_subject r \<and> pn_intake_at r' = pn_intake_at r"

definition registration_kept :: "registration_row \<Rightarrow> registration_row \<Rightarrow> bool" where
  "registration_kept r r' \<longleftrightarrow>
     r' = r \<or>
     same_registrant r r' \<and> pn_revision r \<le> pn_revision r' \<and>
     (pn_status r = ''pending'' \<or>
      decision_required (pn_status r) \<and> pn_request r' = pn_request r \<and>
      (pn_status r' = pn_status r \<or> decision_outcome (pn_status r) (pn_status r')))"

definition registration_keys :: "forum_db \<Rightarrow> bool" where
  "registration_keys db \<longleftrightarrow> distinct (map pn_id (db_registrations db))"

definition registrations_forward :: "forum_db \<Rightarrow> forum_db \<Rightarrow> bool" where
  "registrations_forward db db' \<longleftrightarrow>
     (registration_keys db \<longrightarrow> registration_keys db') \<and>
     rows_move registration_kept (db_registrations db) (db_registrations db')"

lemma registration_kept_refl [simp]: "registration_kept r r"
  by (simp add: registration_kept_def)

lemma outcome_settled: "decision_outcome a b \<Longrightarrow> \<not> decision_required b \<and> b \<noteq> ''pending''"
  by (auto simp: decision_outcome_def decision_required_def)

lemma required_not_pending: "decision_required a \<Longrightarrow> a \<noteq> ''pending''"
  by (auto simp: decision_required_def)

lemma registration_kept_trans:
  assumes ab: "registration_kept a b" and bc: "registration_kept b c"
  shows "registration_kept a c"
proof (cases "b = a \<or> c = b")
  case True
  with ab bc show ?thesis by auto
next
  case False
  with ab bc have "same_registrant a c" "pn_revision a \<le> pn_revision c"
    by (auto simp: registration_kept_def same_registrant_def)
  with False ab bc show ?thesis
    using outcome_settled [of "pn_status a" "pn_status b"] required_not_pending [of "pn_status a"]
    unfolding registration_kept_def by auto
qed

lemma registrations_forward_same: "db_registrations db' = db_registrations db \<Longrightarrow> registrations_forward db db'"
  by (simp add: registrations_forward_def registration_keys_def rows_move_refl)

interpretation registrations: table_relation registrations_forward
proof
  show "registrations_forward db1 db3" if "registrations_forward db1 db2" "registrations_forward db2 db3" for db1 db2 db3
    using that rows_move_trans [OF registration_kept_trans] by (auto simp: registrations_forward_def)
qed (simp_all add: registrations_forward_same)

lemma registrations_change:
  assumes "\<And>r. hit r \<Longrightarrow> registration_kept r (change r)" and "\<And>r. pn_id (change r) = pn_id r"
  shows "relates registrations_forward (change_registration hit change audit stamp)"
  unfolding change_registration_def
  by (rule registrations.relates_statement)
    (auto simp: Let_def case_prod_unfold rows_move_refl registrations_forward_def registration_keys_def
      map_upd_where assms intro!: rows_move_upd split: option.split)

lemma registrations_begin:
  "relates registrations_forward
     (BeginPendingRegistrationDecision required req i expected actor action reason reference stamp)"
  unfolding BeginPendingRegistrationDecision_def
  by (rule registrations_change) (auto simp: registration_kept_def same_registrant_def)

lemma registrations_complete:
  "decision_outcome required resulting \<Longrightarrow>
   relates registrations_forward
     (CompletePendingRegistrationDecision resulting stamp actor i required req expected action reason reference)"
  unfolding CompletePendingRegistrationDecision_def
  by (rule registrations_change)
    (auto simp: registration_kept_def same_registrant_def decision_outcome_def decision_required_def)

lemma registrations_failure:
  "decision_required required \<Longrightarrow>
   relates registrations_forward
     (RecordPendingRegistrationDecisionFailure failure i required req expected actor reason reference stamp)"
  unfolding RecordPendingRegistrationDecisionFailure_def
  by (rule registrations_change) (auto simp: registration_kept_def same_registrant_def)

lemma registrations_intake: "relates registrations_forward (UpsertPendingRegistrationIntake subject user name email stamp)"
  unfolding UpsertPendingRegistrationIntake_def
proof (rule registrations.relates_statement, goal_cases)
  case (1 db)
  have "rows_move registration_kept rs
      (upd_where (\<lambda>x. pn_subject x = subject \<and> pn_user_id x = user \<and> pn_status x = ''pending'')
        (\<lambda>x. x\<lparr>pn_display_name := name, pn_email := email\<rparr>) rs)" for rs
    by (rule rows_move_upd) (auto simp: registration_kept_def same_registrant_def)
  then show ?case
    by (auto simp: Let_def case_prod_unfold registrations_forward_def registration_keys_def nextval_def map_upd_where
        rows_move_refl rows_move_append registration_taken_def list_ex_iff new_registration_def split: option.split)
qed

lemma registrations_adoption:
  "relates registrations_forward (InsertOrLoadPendingRegistrationAdoption user subject name email stamp)"
  unfolding InsertOrLoadPendingRegistrationAdoption_def
  by (rule registrations.relates_statement)
    (auto simp: Let_def case_prod_unfold registrations_forward_def registration_keys_def nextval_def rows_move_refl
      rows_move_append registration_taken_def list_ex_iff new_registration_def split: option.split)

lemma registrations_insert_topic:
  "db_registrations (snd (insert_topic area author title search stamp body db)) = db_registrations db"
  by (auto simp: insert_topic_def Let_def case_prod_unfold nextval_def split: sum.split)

lemma registrations_insert_reply:
  "db_registrations (snd (insert_reply author body parent stamp topic db)) = db_registrations db"
  by (auto simp: insert_reply_def Let_def case_prod_unfold nextval_def split: option.split sum.split)

interpretation registrations_board: board_relation registrations_forward
  by (unfold_locales;
      (rule registrations_intake registrations_adoption registrations_begin |
        erule registrations_complete registrations_failure)?;
      (unfold registration_shapes registration_row_statements row_statements changed_rows)?;
      (unfold shared_statements change_account_def ClaimExpiredIdentityReconciliations_def)?;
      (intro registrations.relates_bind registrations.relates_clock registrations.relates_statement
        registrations_forward_same)?;
      (auto simp: Let_def case_prod_unfold registrations_insert_topic registrations_insert_reply
        insert_audits_tables split: option.split)?)

lemma board_run_registrations: "board_run db db' \<Longrightarrow> registrations_forward db db'"
  using registrations_board.board_run_relates .

subsection \<open>The phases of a decision\<close>

definition registration_at :: "forum_db \<Rightarrow> int \<Rightarrow> registration_row option" where
  "registration_at db i = find (\<lambda>r. pn_id r = i) (db_registrations db)"

lemma inDecisionTx_Inr:
  "inDecisionTx re k body w = (Inr x, w') \<Longrightarrow> \<exists>w1. w_db w1 = w_db w \<and> body w1 = (Inr x, w')"
  by (rule exI [of _ "after_statement w (w_db w)"])
    (auto simp: inDecisionTx_def ConfigureAdministrationTransaction_def within_tx_Inr tx_inverts)

lemma lockAdministrator_Inr:
  "lockAdministrator actor at w = (Inr u, w') \<Longrightarrow> w_db w' = w_db w \<and> sql_administrator (w_db w) actor (At at)"
  by (auto simp: lockAdministrator_def LockRegistrationAdministrator_def tx_inverts split: if_splits)

lemma LockPendingRegistration_Inr:
  "LockPendingRegistration i w = (Inr row, w') \<Longrightarrow> w_db w' = w_db w \<and> registration_at (w_db w) i = Some row"
  by (auto simp: LockPendingRegistration_def registration_at_def tx_inverts)

text \<open>A registration that was changed is the one read under its identifier afterwards.\<close>

lemma change_registration_Inr:
  assumes "change_registration hit change audit stamp w = (Inr (row, i), w')"
    and "\<And>r. hit r \<Longrightarrow> pn_id r = key" and "\<And>r. pn_id (change r) = pn_id r"
    and "registration_keys (w_db w)"
  shows "\<exists>r. registration_at (w_db w) key = Some r \<and> hit r \<and> row = change r \<and>
    registration_at (w_db w') key = Some row"
proof -
  from assms(1) obtain r db where r: "find hit (db_registrations (w_db w)) = Some r" "row = change r"
      "w_db w' = db" "db_registrations db = upd_where hit change (db_registrations (w_db w))"
    by (auto simp: change_registration_def statement_Inr Let_def case_prod_unfold split: option.splits if_splits)
  have mem: "r \<in> set (db_registrations (w_db w))" "hit r" using find_Some_iff2 [OF r(1)] by auto
  have key: "pn_id r = key" using assms(2) mem by blast
  have at: "registration_at (w_db w) key = Some r"
    unfolding registration_at_def key [symmetric]
    by (rule find_distinct_key) (use assms(4) mem in \<open>simp_all add: registration_keys_def\<close>)
  then have "registration_at (w_db w') key = Some (if hit r then change r else r)"
    unfolding registration_at_def r(3,4) using assms(3) by (simp add: find_upd_where)
  with at mem r(2) show ?thesis by auto
qed

definition intended :: "string \<Rightarrow> int option \<Rightarrow> registration_row \<Rightarrow> registration_row" where
  "intended required req r =
     r\<lparr>pn_status := required, pn_revision := pn_revision r + 1, pn_request := req, pn_class := None\<rparr>"

definition settled :: "string \<Rightarrow> tstamp \<Rightarrow> int \<Rightarrow> registration_row \<Rightarrow> registration_row" where
  "settled st stamp actor r =
     r\<lparr>pn_status := st, pn_revision := pn_revision r + 1, pn_decided_at := Some stamp, pn_decided_by := Some actor,
       pn_class := None\<rparr>"

lemma BeginPendingRegistrationDecision_Inr:
  assumes "BeginPendingRegistrationDecision required req i expected actor action reason reference stamp w =
      (Inr (changed, audit), w')"
    and "registration_keys (w_db w)"
  shows "\<exists>r. registration_at (w_db w) i = Some r \<and> pn_status r = ''pending'' \<and> pn_revision r = expected \<and>
    changed = intended required req r \<and> registration_at (w_db w') i = Some (intended required req r)"
  using change_registration_Inr [OF assms(1) [unfolded BeginPendingRegistrationDecision_def], of i] assms(2)
  by (auto simp: intended_def)

lemma CompletePendingRegistrationDecision_Inr:
  assumes "CompletePendingRegistrationDecision resulting stamp actor i required req expected action reason reference w =
      (Inr (changed, audit), w')"
    and "registration_keys (w_db w)"
  shows "\<exists>r. registration_at (w_db w) i = Some r \<and> pn_status r = required \<and> pn_request r = req \<and> pn_revision r = expected \<and>
    changed = settled resulting stamp actor r \<and> registration_at (w_db w') i = Some (settled resulting stamp actor r)"
  using change_registration_Inr [OF assms(1) [unfolded CompletePendingRegistrationDecision_def], of i] assms(2)
  by (auto simp: settled_def)

definition intent_reached ::
  "decision_names \<Rightarrow> decision_input \<Rightarrow> registration_row \<Rightarrow> int \<Rightarrow> bool \<Rightarrow> forum_db \<Rightarrow> forum_db \<Rightarrow> bool" where
  "intent_reached names x row revision over db db' \<longleftrightarrow>
     (if over then db' = db \<and> pn_status row = dn_terminal names \<and> pn_request row = di_request x \<and>
                   di_request x \<noteq> None \<and> revision = pn_revision row
      else \<exists>row'. registration_at db' (di_registration x) = Some row' \<and> pn_request row' = di_request x \<and>
             pn_status row' = dn_required names \<and> pn_revision row' = revision \<and> same_registrant row row' \<and>
             (pn_status row = ''pending'' \<and> di_revision x = pn_revision row \<or> row' = row \<and> db' = db))"

lemma decide_intent_Inr:
  assumes run: "decide_intent actor at names x reference row subject w = (Inr (subject', revision, over), w')"
    and keys: "registration_keys (w_db w)" and row: "registration_at (w_db w) (di_registration x) = Some row"
  shows "subject' = subject \<and> intent_reached names x row revision over (w_db w) (w_db w')"
proof -
  consider (over) "pn_status row = dn_terminal names" "pn_request row = di_request x" "pn_request row \<noteq> None"
    | (again) "\<not> (pn_status row = dn_terminal names \<and> pn_request row = di_request x \<and> pn_request row \<noteq> None)"
        "pn_status row = dn_required names" "pn_request row = di_request x" "pn_request row \<noteq> None"
    | (new) "\<not> (pn_status row = dn_terminal names \<and> pn_request row = di_request x \<and> pn_request row \<noteq> None)"
        "\<not> (pn_status row = dn_required names \<and> pn_request row = di_request x \<and> pn_request row \<noteq> None)"
    by argo
  then show ?thesis
  proof cases
    case over
    with run show ?thesis by (simp add: decide_intent_def tx_return_Inr intent_reached_def)
  next
    case again
    have "decide_intent actor at names x reference row subject = tx_return (subject, pn_revision row, False)"
      unfolding decide_intent_def if_not_P [OF again(1)] using again(2-4) by simp
    with run have "subject' = subject" "revision = pn_revision row" "over = False" "w' = w"
      by (simp_all add: tx_return_Inr)
    with row again show ?thesis by (auto simp: intent_reached_def same_registrant_def)
  next
    case new
    from run obtain changed audit where
      began: "BeginPendingRegistrationDecision (dn_required names) (di_request x) (di_registration x)
          (di_revision x) actor (dn_request names) (di_reason x) reference (At at) w = (Inr (changed, audit), w')"
      and res: "subject' = subject" "revision = pn_revision changed" "\<not> over"
      unfolding decide_intent_def if_not_P [OF new(1)] if_not_P [OF new(2)]
      by (auto simp: tx_bind_Inr tx_map_error_Inr tx_guard_Inr tx_fail_Inr tx_return_Inr split: if_splits)
    from BeginPendingRegistrationDecision_Inr [OF began keys] row
    have "pn_status row = ''pending''" "pn_revision row = di_revision x"
      "changed = intended (dn_required names) (di_request x) row"
      "registration_at (w_db w') (di_registration x) = Some (intended (dn_required names) (di_request x) row)"
      by simp_all
    with res show ?thesis by (simp add: intent_reached_def intended_def same_registrant_def)
  qed
qed

lemma decide_begin_body_Inr:
  assumes "decide_begin_body actor at names x reference w = (Inr (subject, revision, over), w')"
  shows "\<exists>row w1. registration_at (w_db w) (di_registration x) = Some row \<and> row_subject row = Some subject \<and>
    sql_administrator (w_db w) actor (At at) \<and> w_db w1 = w_db w \<and>
    decide_intent actor at names x reference row subject w1 = (Inr (subject, revision, over), w')"
proof -
  from assms obtain u w2 row w3 subj where parts: "lockAdministrator actor at w = (Inr u, w2)"
      "LockPendingRegistration (di_registration x) w2 = (Inr row, w3)" "row_subject row = Some subj"
      "decide_intent actor at names x reference row subj w3 = (Inr (subject, revision, over), w')"
    by (auto simp: decide_begin_body_def tx_bind_Inr tx_map_error_Inr tx_guard_Inr tx_fail_Inr split: option.splits)
  have "subj = subject"
    using parts(4) by (auto simp: decide_intent_def tx_bind_Inr tx_fail_Inr tx_return_Inr split: if_splits)
  then show ?thesis
    using parts lockAdministrator_Inr [OF parts(1)] LockPendingRegistration_Inr [OF parts(2)] by auto
qed

lemma decide_begin_Inr:
  assumes "decide_begin re k actor at names x reference w = (Inr (subject, revision, over), w')"
  shows "\<exists>row w1. registration_at (w_db w) (di_registration x) = Some row \<and> row_subject row = Some subject \<and>
    sql_administrator (w_db w) actor (At at) \<and> w_db w1 = w_db w \<and>
    decide_intent actor at names x reference row subject w1 = (Inr (subject, revision, over), w')"
proof -
  from assms obtain w1 where "w_db w1 = w_db w"
    and "decide_begin_body actor at names x reference w1 = (Inr (subject, revision, over), w')"
    by (auto simp: decide_begin_def tx_wrap_Inr dest: inDecisionTx_Inr)
  with decide_begin_body_Inr show ?thesis by metis
qed

lemma decide_complete_Inr:
  assumes "decide_complete re k actor at names x reference revision w = (Inr res, w')"
    and keys: "registration_keys (w_db w)"
  shows "\<exists>row row'. registration_at (w_db w) (di_registration x) = Some row \<and>
    registration_at (w_db w') (di_registration x) = Some row' \<and> pn_status row' = dn_terminal names \<and>
    pn_request row' = di_request x \<and> dc_status res = dn_terminal names \<and> dc_revision res = pn_revision row' \<and>
    (row' = row \<and> w_db w' = w_db w \<or> row' = settled (dn_terminal names) (At at) actor row)"
proof -
  from assms(1) obtain w1 where "w_db w1 = w_db w"
    and "decide_complete_body actor at names x reference revision w1 = (Inr res, w')"
    by (auto simp: decide_complete_def tx_wrap_Inr dest: inDecisionTx_Inr)
  then obtain u w2 row w3 where parts: "lockAdministrator actor at w1 = (Inr u, w2)"
      "LockPendingRegistration (di_registration x) w2 = (Inr row, w3)"
      "decide_record actor at names x reference revision row w3 = (Inr res, w')"
    by (auto simp: decide_complete_body_def tx_bind_Inr tx_replace_Inr)
  have w3: "w_db w3 = w_db w" "registration_at (w_db w) (di_registration x) = Some row"
    using lockAdministrator_Inr [OF parts(1)] LockPendingRegistration_Inr [OF parts(2)] \<open>w_db w1 = w_db w\<close> by simp_all
  note rest = parts(3) [unfolded decide_record_def]
  show ?thesis
  proof (cases "pn_status row = dn_terminal names \<and> pn_request row = di_request x \<and> pn_request row \<noteq> None")
    case True
    then have "decide_record actor at names x reference revision row =
        tx_return \<lparr>dc_status = pn_status row, dc_revision = pn_revision row, dc_audit = 0\<rparr>"
      unfolding decide_record_def by (rule if_P)
    with parts(3) have "res = \<lparr>dc_status = pn_status row, dc_revision = pn_revision row, dc_audit = 0\<rparr>" "w' = w3"
      by (simp_all add: tx_return_Inr)
    with True w3 show ?thesis by auto
  next
    case False
    from rest obtain changed audit where
      wrote: "CompletePendingRegistrationDecision (dn_terminal names) (At at) actor (di_registration x)
          (dn_required names) (di_request x) revision (dn_complete names) (di_reason x) reference w3 = (Inr (changed, audit), w')"
      and res: "res = \<lparr>dc_status = pn_status changed, dc_revision = pn_revision changed, dc_audit = audit\<rparr>"
      unfolding if_not_P [OF False]
      by (auto simp: tx_bind_Inr tx_map_error_Inr tx_guard_Inr tx_fail_Inr tx_return_Inr split: if_splits)
    from CompletePendingRegistrationDecision_Inr [OF wrote] keys w3
    have "pn_request row = di_request x" "changed = settled (dn_terminal names) (At at) actor row"
      "registration_at (w_db w') (di_registration x) = Some (settled (dn_terminal names) (At at) actor row)"
      by simp_all
    with res w3 show ?thesis by (simp add: settled_def)
  qed
qed

text \<open>What a gateway that completed a decision has answered.\<close>

definition provider_confirms :: "gateway \<Rightarrow> bool \<Rightarrow> string \<Rightarrow> bool" where
  "provider_confirms gw approve subject \<longleftrightarrow>
     (case gw_user gw subject of
        Inl e \<Rightarrow> False
      | Inr st \<Rightarrow> verified_identity subject st \<and>
          (if approve then us_accepted st \<and> \<not> us_suspended st else \<not> us_accepted st))"

lemma first_error_None: "first_error es = None \<longleftrightarrow> (\<forall>e \<in> set es. e = None)"
  by (induction es rule: first_error.induct) auto

lemma readback_None: "readback answer fits = None \<longleftrightarrow> (\<exists>st. answer = Inr st \<and> fits st)"
  by (auto simp: readback_def split: sum.split)

lemma applyRemoteDecision_None: "applyRemoteDecision gw approve subject = None \<Longrightarrow> provider_confirms gw approve subject"
  by (auto simp: applyRemoteDecision_def first_error_None readback_None provider_confirms_def)

lemma Decide_Inr:
  assumes "Decide re actor x key w = (Inr res, w')"
  shows "\<exists>names at subject revision over w1. names_of (di_decision x) = Some names \<and>
    decide_begin re 0 (ac_user_id actor) at names x (registrationReference (re_hmac re) key (di_registration x)) w =
      (Inr (subject, revision, over), w1) \<and>
    (if over then res = \<lparr>dc_status = dn_terminal names, dc_revision = revision, dc_audit = 0\<rparr> \<and> w' = w1
     else applyRemoteDecision (the (re_gateway re)) (di_decision x = Approve) subject = None \<and>
       (\<exists>k at' ref. decide_complete re k (ac_user_id actor) at' names x ref revision w1 = (Inr res, w')))"
proof -
  from assms obtain names where bound: "validateDecisionBoundary re actor x key = Inr names"
    by (auto simp: Decide_def tx_bind_Inr tx_lift_Inr)
  then have "names_of (di_decision x) = Some names"
    by (auto simp: validateDecisionBoundary_def split: if_splits option.splits)
  moreover from assms bound obtain at subject revision over w1 where
    began: "decide_begin re 0 (ac_user_id actor) at names x (registrationReference (re_hmac re) key (di_registration x)) w =
      (Inr (subject, revision, over), w1)"
    and rest: "(if over
      then tx_return \<lparr>dc_status = dn_terminal names, dc_revision = revision, dc_audit = 0\<rparr>
      else let remoteErr = applyRemoteDecision (the (re_gateway re)) (di_decision x = Approve) subject in
       tx_bind (tx_lift (observedAt re 1)) (\<lambda>resultAt.
       case remoteErr of
         Some e \<Rightarrow>
           let failure = remoteFailureClass e in
           tx_bind (tx_map_error (\<lambda>r. Wrap (failure @ ''; record failure'') (Sentinel RegistrationRemote))
                     (recordDecisionFailure re 1 (ac_user_id actor) x names
                        (registrationReference (re_hmac re) key (di_registration x)) revision failure resultAt)) (\<lambda>_.
           tx_fail (Wrap failure (Sentinel RegistrationRemote)))
       | None \<Rightarrow> decide_complete re 1 (ac_user_id actor) resultAt names x
                   (registrationReference (re_hmac re) key (di_registration x)) revision)) w1 = (Inr res, w')"
    unfolding Decide_def by (auto simp: tx_bind_Inr tx_lift_Inr Let_def)
  from rest have "if over then res = \<lparr>dc_status = dn_terminal names, dc_revision = revision, dc_audit = 0\<rparr> \<and> w' = w1
     else applyRemoteDecision (the (re_gateway re)) (di_decision x = Approve) subject = None \<and>
       (\<exists>k at' ref. decide_complete re k (ac_user_id actor) at' names x ref revision w1 = (Inr res, w'))"
    by (auto simp: tx_bind_Inr tx_lift_Inr tx_fail_Inr tx_return_Inr Let_def split: option.splits) blast
  ultimately show ?thesis using began by blast
qed

subsection \<open>Refusals\<close>

lemma within_tx_failed:
  "isl (fst (m w)) \<Longrightarrow> isl (fst (within_tx env m w)) \<and> same_tables w (snd (within_tx env m w))"
  by (cases "m w")
    (auto simp: within_tx_def isl_def split: option.splits begin_outcome.splits sum.splits commit_outcome.splits)

lemma run_isl: "(\<And>x w'. m w = (Inr x, w') \<Longrightarrow> False) \<Longrightarrow> isl (fst (m w))"
  by (cases "m w"; cases "fst (m w)") auto

lemma tx_wrap_failed: "isl (fst (tx_wrap msg m w)) = isl (fst (m w))"
  by (cases "m w"; cases "fst (m w)") (auto simp: tx_wrap_def)

lemma decide_begin_refused:
  assumes row: "registration_at (w_db w) (di_registration x) = Some row"
    and no: "pn_status row \<noteq> ''pending''" "pn_request row \<noteq> di_request x"
  shows "isl (fst (decide_begin re k actor at names x reference w)) \<and>
    same_tables w (snd (decide_begin re k actor at names x reference w))"
proof -
  let ?body = "tx_bind (tx_replace (Wrap ''configure transaction'' (Sentinel RegistrationUnavailable))
                  ConfigureAdministrationTransaction) (\<lambda>configured.
        tx_bind (tx_guard (fst configured \<noteq> ''2s'' \<or> snd configured \<noteq> ''250ms'')
                  (Wrap ''configure transaction'' (Sentinel RegistrationUnavailable)))
          (\<lambda>_. decide_begin_body actor at names x reference))"
  have "isl (fst (?body w))"
  proof (rule run_isl)
    fix res w2 assume "?body w = (Inr res, w2)"
    then have "decide_begin_body actor at names x reference (after_statement w (w_db w)) = (Inr res, w2)"
      by (auto simp: ConfigureAdministrationTransaction_def tx_bind_Inr tx_replace_Inr tx_guard_Inr select_all_Inr)
    then obtain w1 where w1: "w_db w1 = w_db w" and run: "decide_begin_body actor at names x reference w1 = (Inr res, w2)"
      by (rule that [rotated]) simp
    obtain subject revision over where "res = (subject, revision, over)" by (cases res)
    with decide_begin_body_Inr [of actor at names x reference w1 subject revision over w2] run w1 row
    obtain w3 where "decide_intent actor at names x reference row subject w3 = (Inr (subject, revision, over), w2)"
      by auto
    moreover from no have "decide_intent actor at names x reference row subject = tx_fail (Sentinel RegistrationConflict)"
      unfolding decide_intent_def by simp
    ultimately show False by (simp add: tx_fail_Inr)
  qed
  from within_tx_failed [of ?body w "re_tx re k", OF this]
  show ?thesis by (simp add: decide_begin_def inDecisionTx_def tx_wrap_failed)
qed

lemma Decide_refused:
  assumes "registration_at (w_db w) (di_registration x) = Some row"
    and "pn_status row \<noteq> ''pending''" and "pn_request row \<noteq> di_request x"
  shows "isl (fst (Decide re actor x key w)) \<and> same_tables w (snd (Decide re actor x key w))"
proof -
  have none: "decide_begin re k actor at names x reference w \<noteq> (Inr z, w1)"
    and same: "decide_begin re k actor at names x reference w = (r, w1) \<Longrightarrow> same_tables w w1"
    for re k actor at names reference z w1 r
    using decide_begin_refused [OF assms, of re k actor at names reference] by auto
  have "isl (fst (Decide re actor x key w))"
  proof (rule run_isl)
    fix res w' assume "Decide re actor x key w = (Inr res, w')"
    from Decide_Inr [OF this] none show False by blast
  qed
  moreover have "same_tables w (snd (Decide re actor x key w))"
    using same by (auto simp: Decide_def tx_bind_def tx_lift_def Let_def none split: sum.split prod.split)
  ultimately show ?thesis by simp
qed

subsection \<open>An example\<close>

text \<open>
  A call under request 7 has put its intent to approve on record and its second transaction has not run. A call
  under request 8 is refused, the retry under request 7 completes.
\<close>

definition ex_subject :: string where "ex_subject = ''11111111-1111-4111-8111-111111111111''"

definition ex_registration :: registration_row where
  "ex_registration =
     \<lparr>pn_id = 5, pn_user_id = 50, pn_subject = ex_subject, pn_display_name = ''Ada'', pn_email = '''',
      pn_status = ''pending'', pn_revision = 1, pn_intake_at = At 1000, pn_decided_at = None, pn_decided_by = None,
      pn_request = None, pn_class = None\<rparr>"

definition ex_waiting :: forum_db where "ex_waiting = ex_db\<lparr>db_registrations := [ex_registration]\<rparr>"

definition ex_gateway :: gateway where
  "ex_gateway =
     \<lparr>gw_add_user = (\<lambda>_ _. None), gw_remove_user = (\<lambda>_ _. None),
      gw_user = (\<lambda>subject. Inr
        \<lparr>us_user = \<lparr>ru_id = 50, ru_uuid = subject, ru_username = ''ada'', ru_name = ''Ada'', ru_email = '''', ru_active = True\<rparr>,
         us_accepted = True, us_pending = False, us_suspended = False\<rparr>),
      gw_pending_users = Inl (Sentinel RemoteUnavailable),
      gw_create_invitation = (\<lambda>_ _ _ _. Inl (Sentinel RemoteUnavailable)),
      gw_invitations = Inl (Sentinel RemoteUnavailable), gw_invitation = (\<lambda>_. Inl (Sentinel RemoteUnavailable)),
      gw_delete_invitation = (\<lambda>_. None)\<rparr>"

definition ex_reg :: "(nat \<Rightarrow> tx_env) \<Rightarrow> reg_env" where
  "ex_reg tx =
     \<lparr>re_tx = tx, re_clock = Some (\<lambda>k. 5000 + 1000 * int k), re_gateway = Some ex_gateway, re_hmac = (\<lambda>_ _. []),
      re_is_address = (\<lambda>_. True)\<rparr>"

definition ex_approval :: "int \<Rightarrow> decision_input" where
  "ex_approval req =
     \<lparr>di_registration = 5, di_revision = 1, di_decision = Approve, di_reason = ''welcome'', di_request = Some req\<rparr>"

definition ex_approve :: "int \<Rightarrow> world \<Rightarrow> (go_error + decision_result) \<times> world" where
  "ex_approve req = Decide (ex_reg (\<lambda>_. ex_tx)) (ex_actor 1 RoleAdministrator) (ex_approval req) [1]"

definition ex_begin_call :: registration_call where
  "ex_begin_call = CallDecideBegin (ex_reg (\<lambda>_. ex_tx)) 0 1 5000 (ex_approval 7) ''reference''"

definition ex_intended :: forum_db where "ex_intended = w_db (run_registration ex_begin_call (ex_world ex_waiting []))"

definition ex_complete_call :: registration_call where
  "ex_complete_call = CallDecideComplete (ex_reg (\<lambda>_. ex_tx)) 1 1 6000 (ex_approval 7) ''reference'' 2"

lemma ex_registration_run: "board_run (w_db w) (w_db (run_registration c w))"
  using board_step.call [of w "CallRegistration c"] by (simp add: board_run_def r_into_rtranclp)

lemma ex_intended_rows:
  "db_registrations ex_intended =
     [ex_registration\<lparr>pn_status := ''approval_required'', pn_revision := 2, pn_request := Some 7\<rparr>]"
  by code_simp

lemma ex_keys: "registration_keys ex_waiting" "registration_keys ex_intended"
  by (simp_all add: registration_keys_def ex_waiting_def ex_intended_rows)

lemma ex_approved: "db_registrations (w_db (run_registration ex_complete_call (ex_world ex_intended []))) =
    [ex_registration\<lparr>pn_status := ''approved'', pn_revision := 3, pn_request := Some 7,
       pn_decided_at := Some (At 6000), pn_decided_by := Some 1\<rparr>]"
  by code_simp

lemma ex_approval_result: "map_sum id dc_revision (fst (ex_approve 7 (ex_world ex_intended []))) = Inr 3"
  by code_simp

subsection \<open>Properties\<close>

lemma registrations_forward_at:
  assumes "registrations_forward db db'" "registration_keys db" "r \<in> set (db_registrations db)"
  shows "\<exists>r'. registration_at db' (pn_id r) = Some r' \<and> registration_kept r r'"
proof -
  from assms obtain r' where r': "r' \<in> set (db_registrations db')" "registration_kept r r'"
    by (auto simp: registrations_forward_def rows_move_def)
  then have "pn_id r' = pn_id r" by (auto simp: registration_kept_def same_registrant_def)
  moreover have "find (\<lambda>x. pn_id x = pn_id r') (db_registrations db') = Some r'"
    by (rule find_distinct_key) (use assms r' in \<open>simp_all add: registrations_forward_def registration_keys_def\<close>)
  ultimately show ?thesis using r' by (auto simp: registration_at_def)
qed

text \<open>
  C19. Decisions are final. Whatever services run, a registration is never lost and never becomes another
  person's; once approved or rejected its row does not change at all; while an intent is on record it keeps the
  request it was made under, and its status can only become the outcome that intent was for.
\<close>

theorem registration_decisions_final:
  assumes "board_run db db'" and "registration_keys db" and "r \<in> set (db_registrations db)"
  shows "\<exists>r'. registration_at db' (pn_id r) = Some r' \<and> same_registrant r r' \<and>
    (pn_status r = ''approved'' \<or> pn_status r = ''rejected'' \<longrightarrow> r' = r) \<and>
    (decision_required (pn_status r) \<longrightarrow>
       pn_request r' = pn_request r \<and>
       (pn_status r' = pn_status r \<or> decision_outcome (pn_status r) (pn_status r')))"
proof -
  from registrations_forward_at [OF board_run_registrations [OF assms(1)] assms(2,3)]
  obtain r' where "registration_at db' (pn_id r) = Some r'" "registration_kept r r'" by blast
  then show ?thesis
    by (auto simp: registration_kept_def same_registrant_def decision_required_def)
qed

theorem registration_decisions_final_witness:
  "\<exists>r'. registration_at (w_db (run_registration ex_complete_call (ex_world ex_intended []))) 5 = Some r' \<and>
     pn_status r' = ''approved'' \<and> pn_request r' = Some 7"
proof -
  let ?r = "ex_registration\<lparr>pn_status := ''approval_required'', pn_revision := 2, pn_request := Some 7\<rparr>"
  have run: "board_run ex_intended (w_db (run_registration ex_complete_call (ex_world ex_intended [])))"
    using ex_registration_run [of "ex_world ex_intended []"] by simp
  have "?r \<in> set (db_registrations ex_intended)" by (simp add: ex_intended_rows)
  from registration_decisions_final [OF run ex_keys(2) this] obtain r' where
    at: "registration_at (w_db (run_registration ex_complete_call (ex_world ex_intended []))) 5 = Some r'"
    and kept: "decision_required ''approval_required'' \<longrightarrow> pn_request r' = Some 7"
    by (auto simp: ex_registration_def)
  have "pn_status r' = ''approved''" using at by (auto simp: registration_at_def ex_approved split: if_splits)
  with at kept show ?thesis by (auto simp: decision_required_def)
qed

lemma decide_begin_keys:
  "registration_keys (w_db w) \<Longrightarrow> decide_begin re k actor at names x reference w = (r, w') \<Longrightarrow>
   names_of d = Some names \<Longrightarrow> registration_keys (w_db w')"
  using registrations_board.relates_decide_begin [of d names re k actor at x reference]
  by (auto simp: relates_def registrations_forward_def)

text \<open>
  C18. No success without the provider. When a decision reports success, an administrator was in place when it
  began, the registration is the one asked for and its row records the outcome under this request; and either it
  recorded that outcome before and nothing changed, or the provider was asked about this very subject and confirmed
  what was decided: accepted and not suspended for an approval, not accepted for a rejection.
\<close>

theorem decision_needs_provider:
  assumes "Decide re actor x key w = (Inr res, w')" and "registration_keys (w_db w)"
  shows "\<exists>names at row row'. names_of (di_decision x) = Some names \<and> sql_administrator (w_db w) (ac_user_id actor) at \<and>
    registration_at (w_db w) (di_registration x) = Some row \<and>
    registration_at (w_db w') (di_registration x) = Some row' \<and> same_registrant row row' \<and>
    pn_status row' = dn_terminal names \<and> pn_request row' = di_request x \<and>
    dc_status res = pn_status row' \<and> dc_revision res = pn_revision row' \<and>
    (row' = row \<and> w_db w' = w_db w \<or>
     provider_confirms (the (re_gateway re)) (di_decision x = Approve) (pn_subject row))"
proof -
  from Decide_Inr [OF assms(1)] obtain names at subject revision over w1 where
    names: "names_of (di_decision x) = Some names"
    and began: "decide_begin re 0 (ac_user_id actor) at names x
        (registrationReference (re_hmac re) key (di_registration x)) w = (Inr (subject, revision, over), w1)"
    and rest: "if over then res = \<lparr>dc_status = dn_terminal names, dc_revision = revision, dc_audit = 0\<rparr> \<and> w' = w1
     else applyRemoteDecision (the (re_gateway re)) (di_decision x = Approve) subject = None \<and>
       (\<exists>k at' ref. decide_complete re k (ac_user_id actor) at' names x ref revision w1 = (Inr res, w'))"
    by blast
  from decide_begin_Inr [OF began] obtain row w0 where
    row: "registration_at (w_db w) (di_registration x) = Some row" "row_subject row = Some subject"
      "sql_administrator (w_db w) (ac_user_id actor) (At at)"
    and intent: "w_db w0 = w_db w"
      "decide_intent (ac_user_id actor) at names x (registrationReference (re_hmac re) key (di_registration x)) row
         subject w0 = (Inr (subject, revision, over), w1)"
    by blast
  have subject: "subject = pn_subject row" using row(2) by (simp add: row_subject_def split: if_splits)
  have reached: "intent_reached names x row revision over (w_db w) (w_db w1)"
    using decide_intent_Inr [OF intent(2)] intent(1) row(1) assms(2) by simp
  show ?thesis
  proof (cases over)
    case True
    with rest reached row(1) have "pn_status row = dn_terminal names" "pn_request row = di_request x"
      "dc_status res = pn_status row" "dc_revision res = pn_revision row" "w_db w' = w_db w"
      by (simp_all add: intent_reached_def)
    moreover have "same_registrant row row" by (simp add: same_registrant_def)
    ultimately show ?thesis using names row by (metis (no_types))
  next
    case False
    with reached obtain row1 where row1: "registration_at (w_db w1) (di_registration x) = Some row1"
      "same_registrant row row1" by (auto simp: intent_reached_def)
    from False rest obtain k at' ref where confirmed: "applyRemoteDecision (the (re_gateway re)) (di_decision x = Approve) subject = None"
      and ended: "decide_complete re k (ac_user_id actor) at' names x ref revision w1 = (Inr res, w')" by auto
    from decide_complete_Inr [OF ended decide_begin_keys [OF assms(2) began names]] row1(1)
    obtain row' where row': "registration_at (w_db w') (di_registration x) = Some row'"
      "pn_status row' = dn_terminal names" "pn_request row' = di_request x"
      "dc_status res = pn_status row'" "dc_revision res = pn_revision row'"
      "row' = row1 \<or> row' = settled (dn_terminal names) (At at') (ac_user_id actor) row1" by auto
    have "same_registrant row row'" using row1(2) row'(6) by (auto simp: same_registrant_def settled_def)
    with names row row' applyRemoteDecision_None [OF confirmed] show ?thesis unfolding subject by blast
  qed
qed

theorem decision_needs_provider_witness:
  "provider_confirms ex_gateway True ex_subject \<and>
   (\<exists>row'. registration_at (w_db (snd (ex_approve 7 (ex_world ex_intended [])))) 5 = Some row' \<and>
      pn_status row' = ''approved'')"
proof -
  let ?w = "ex_world ex_intended []"
  obtain res where res: "ex_approve 7 ?w = (Inr res, snd (ex_approve 7 ?w))"
    using ex_approval_result by (cases "ex_approve 7 ?w"; cases "fst (ex_approve 7 ?w)") auto
  have "registration_keys (w_db ?w)" using ex_keys(2) by simp
  from decision_needs_provider [OF res [unfolded ex_approve_def] this]
  show ?thesis
    by (auto simp: ex_approval_def ex_reg_def ex_approve_def registration_at_def ex_intended_rows ex_registration_def
        split: if_splits)
qed

text \<open>
  C20. A pending intent belongs to its request. Once an intent is on record under a request, no call under another
  request can decide that registration, whatever the provider would answer and whatever services ran in
  between: every such call fails and changes nothing.
\<close>

theorem foreign_request_never_decides:
  assumes "decision_required (pn_status r)" and "r \<in> set (db_registrations db)" and "registration_keys db"
    and "board_run db (w_db w)"
    and "di_registration x = pn_id r" and "di_request x \<noteq> pn_request r"
  shows "isl (fst (Decide re actor x key w)) \<and> same_tables w (snd (Decide re actor x key w))"
proof -
  from registrations_forward_at [OF board_run_registrations [OF assms(4)] assms(3,2)]
  obtain r' where r': "registration_at (w_db w) (di_registration x) = Some r'" "registration_kept r r'"
    unfolding assms(5) by blast
  from r'(2) assms(1) have "pn_request r' = pn_request r" "pn_status r' \<noteq> ''pending''"
    by (auto simp: registration_kept_def decision_required_def decision_outcome_def)
  with r'(1) assms(6) show ?thesis by (intro Decide_refused) auto
qed

theorem foreign_request_never_decides_witness:
  "isl (fst (ex_approve 8 (ex_world ex_intended []))) \<and>
   same_tables (ex_world ex_intended []) (snd (ex_approve 8 (ex_world ex_intended [])))"
proof -
  let ?r = "ex_registration\<lparr>pn_status := ''approval_required'', pn_revision := 2, pn_request := Some 7\<rparr>"
  show ?thesis
    unfolding ex_approve_def
    by (rule foreign_request_never_decides [of ?r ex_intended])
      (simp_all add: decision_required_def ex_intended_rows ex_keys board_run_def ex_approval_def ex_registration_def)
qed

end
