(* ===== verification/AreaFacts.thy ===== *)
theory AreaFacts
  imports GovernanceLaws Example
begin

text \<open>
  What holds of areas under every sequence of services: the keys of the table, that groups are mapped to areas with
  groups visibility only and such an area always has one, that nothing renames an area in its address, and that
  two changes from the same revision never both succeed.
\<close>

subsection \<open>Sound tables\<close>

definition area_tables_ok :: "area_row list \<Rightarrow> (int \<times> int) list \<Rightarrow> int set \<Rightarrow> bool" where
  "area_tables_ok areas maps gids \<longleftrightarrow>
     distinct (map a_id areas) \<and> distinct (map a_slug areas) \<and> distinct maps \<and>
     (\<forall>m \<in> set maps. snd m \<in> gids \<and> (\<exists>a \<in> set areas. a_id a = fst m \<and> a_visibility a = VisibilityGroups)) \<and>
     (\<forall>a \<in> set areas. a_visibility a = VisibilityGroups \<longrightarrow> (\<exists>g. (a_id a, g) \<in> set maps))"

definition group_keys :: "forum_db \<Rightarrow> int set" where "group_keys db = g_id ` set (db_groups db)"

definition areas_sound :: "forum_db \<Rightarrow> bool" where
  "areas_sound db \<longleftrightarrow> area_tables_ok (db_areas db) (db_area_groups db) (group_keys db)"

definition area_kept :: "area_row \<Rightarrow> area_row \<Rightarrow> bool" where
  "area_kept a a' \<longleftrightarrow>
     a_id a' = a_id a \<and> a_slug a' = a_slug a \<and> a_created_by a' = a_created_by a \<and> a_created_at a' = a_created_at a \<and>
     a_revision a \<le> a_revision a'"

definition areas_move :: "forum_db \<Rightarrow> forum_db \<Rightarrow> bool" where
  "areas_move db db' \<longleftrightarrow> (areas_sound db \<longrightarrow> areas_sound db') \<and> rows_move area_kept (db_areas db) (db_areas db')"

lemma area_kept_refl: "area_kept a a"
  by (simp add: area_kept_def)

lemma area_tables_groups: "area_tables_ok areas maps gids \<Longrightarrow> gids \<subseteq> gids' \<Longrightarrow> area_tables_ok areas maps gids'"
  unfolding area_tables_ok_def by blast

lemma areas_move_same:
  "db_areas db' = db_areas db \<Longrightarrow> db_area_groups db' = db_area_groups db \<Longrightarrow> group_keys db \<subseteq> group_keys db' \<Longrightarrow>
   areas_move db db'"
  by (auto simp: areas_move_def areas_sound_def rows_move_refl area_kept_refl intro: area_tables_groups)

lemma mapped_area:
  "area_tables_ok areas maps gids \<Longrightarrow> (i, g) \<in> set maps \<Longrightarrow> \<exists>a \<in> set areas. a_id a = i \<and> a_visibility a = VisibilityGroups"
  by (fastforce simp: area_tables_ok_def)

lemma no_maps_kept:
  assumes "area_tables_ok areas maps gids" "a \<in> set areas" "a_visibility a \<noteq> VisibilityGroups"
  shows "filter (\<lambda>m. fst m \<noteq> a_id a) maps = maps"
proof -
  have "fst m \<noteq> a_id a" if m: "m \<in> set maps" for m
  proof
    assume "fst m = a_id a"
    with m mapped_area [OF assms(1), of "a_id a" "snd m"] obtain b where
      b: "b \<in> set areas" "a_id b = a_id a" "a_visibility b = VisibilityGroups"
      by (metis prod.collapse)
    have "b = a" by (rule distinct_key_eq [of a_id areas]) (use assms(1,2) b in \<open>simp_all add: area_tables_ok_def\<close>)
    with b(3) assms(3) show False by simp
  qed
  then show ?thesis by simp
qed

lemma area_tables_add:
  assumes ok: "area_tables_ok areas maps gids" and new: "a_id a \<notin> a_id ` set areas" "a_slug a \<notin> a_slug ` set areas"
    and ids: "distinct ids" "set ids \<subseteq> gids" "a_visibility a = VisibilityGroups \<longleftrightarrow> ids \<noteq> []"
  shows "area_tables_ok (areas @ [a]) (maps @ map (Pair (a_id a)) ids) gids"
proof -
  have "(a_id a, g) \<notin> set maps" for g
    using mapped_area [OF ok, of "a_id a" g] new(1) by (metis image_eqI)
  moreover have "a_id b \<noteq> a_id a" if "b \<in> set areas" for b using that new(1) by (metis image_eqI)
  ultimately show ?thesis
    using ok new ids unfolding area_tables_ok_def
    by (cases ids) (auto simp: distinct_map inj_on_def)
qed

text \<open>A changed row stays under its identifier and slug; its mappings are replaced.\<close>

lemma area_tables_change:
  assumes ok: "area_tables_ok areas maps gids" and mem: "a \<in> set areas"
    and change: "a_id (change a) = a_id a" "a_slug (change a) = a_slug a"
    and hit: "\<And>b. b \<in> set areas \<Longrightarrow> hit b \<longleftrightarrow> b = a"
    and maps': "distinct maps'" "\<And>b g. b \<noteq> a_id a \<Longrightarrow> (b, g) \<in> set maps' \<longleftrightarrow> (b, g) \<in> set maps"
      "\<And>g. (a_id a, g) \<in> set maps' \<Longrightarrow> g \<in> gids"
      "a_visibility (change a) = VisibilityGroups \<longleftrightarrow> (\<exists>g. (a_id a, g) \<in> set maps')"
  shows "area_tables_ok (upd_where hit change areas) maps' gids"
proof -
  let ?up = "\<lambda>b. if b = a then change a else b"
  have rows: "upd_where hit change areas = map ?up areas" using hit by (auto simp: upd_where_def)
  have key: "b = a" if "b \<in> set areas" "a_id b = a_id a" for b
    by (rule distinct_key_eq [of a_id areas]) (use ok mem that in \<open>simp_all add: area_tables_ok_def\<close>)
  have keys: "map a_id (map ?up areas) = map a_id areas" "map a_slug (map ?up areas) = map a_slug areas"
    using change by auto
  have mapped: "snd m \<in> gids \<and> (\<exists>b \<in> set (map ?up areas). a_id b = fst m \<and> a_visibility b = VisibilityGroups)"
    if m: "m \<in> set maps'" for m
  proof (cases "fst m = a_id a")
    case True
    with m maps'(3,4) have "snd m \<in> gids" "a_visibility (change a) = VisibilityGroups" by (metis prod.collapse)+
    with True mem change(1) show ?thesis by auto
  next
    case False
    with m maps'(2) have "m \<in> set maps" by (metis prod.collapse)
    with ok obtain b where "snd m \<in> gids" "b \<in> set areas" "a_id b = fst m" "a_visibility b = VisibilityGroups"
      by (auto simp: area_tables_ok_def)
    with False show ?thesis by force
  qed
  have guarded: "\<exists>g. (a_id c, g) \<in> set maps'"
    if c: "c \<in> set (map ?up areas)" "a_visibility c = VisibilityGroups" for c
  proof -
    from c(1) obtain b where b: "b \<in> set areas" "c = ?up b" by auto
    show ?thesis
    proof (cases "b = a")
      case True
      with b c(2) maps'(4) change show ?thesis by auto
    next
      case False
      with b c(2) ok obtain g where "(a_id b, g) \<in> set maps" by (auto simp: area_tables_ok_def)
      with False b key maps'(2) show ?thesis by metis
    qed
  qed
  have dist: "distinct (map a_id areas)" "distinct (map a_slug areas)" using ok by (simp_all add: area_tables_ok_def)
  show ?thesis
    unfolding area_tables_ok_def rows keys
    by (rule conjI [OF dist(1) conjI [OF dist(2) conjI [OF maps'(1) conjI [OF ballI ballI]]]])
      (erule mapped, rule impI, erule (1) guarded)
qed

subsection \<open>The statements of other components\<close>

interpretation areas: table_relation areas_move
proof
  show "areas_move db1 db3" if "areas_move db1 db2" "areas_move db2 db3" for db1 db2 db3
    using that rows_move_trans [of area_kept] by (auto simp: areas_move_def area_kept_def)
qed (simp_all add: areas_move_same group_keys_def)

lemma areas_insert_topic:
  "db_areas (snd (insert_topic area author title search stamp body db)) = db_areas db"
  "db_area_groups (snd (insert_topic area author title search stamp body db)) = db_area_groups db"
  "db_groups (snd (insert_topic area author title search stamp body db)) = db_groups db"
  by (auto simp: insert_topic_def Let_def case_prod_unfold nextval_def split: sum.split)

lemma areas_insert_reply:
  "db_areas (snd (insert_reply author body parent stamp topic db)) = db_areas db"
  "db_area_groups (snd (insert_reply author body parent stamp topic db)) = db_area_groups db"
  "db_groups (snd (insert_reply author body parent stamp topic db)) = db_groups db"
  by (auto simp: insert_reply_def Let_def case_prod_unfold nextval_def split: option.split sum.split)

lemma image_upd_where: "(\<And>r. p r \<Longrightarrow> k (f r) = k r) \<Longrightarrow> k ` set (upd_where p f rows) = k ` set rows"
  unfolding set_map [symmetric] by (simp add: map_upd_where)

interpretation areas_accounts: account_statements areas_move
  by (unfold_locales;
      (unfold registration_shapes registration_row_statements row_statements changed_rows)?;
      (unfold shared_statements change_account_def ClaimExpiredIdentityReconciliations_def)?;
      (intro areas.relates_bind areas.relates_clock areas.relates_statement areas_move_same)?;
      (auto simp: Let_def case_prod_unfold areas_insert_topic areas_insert_reply insert_audits_tables group_keys_def
        image_upd_where split: option.split)?)

subsection \<open>What the statements on areas write\<close>

text \<open>The three tables the statements on areas work on.\<close>

abbreviation area_view :: "forum_db \<Rightarrow> area_row list \<times> (int \<times> int) list \<times> group_row list" where
  "area_view db \<equiv> (db_areas db, db_area_groups db, db_groups db)"

lemma CreateAreaForAdministration_Inr:
  assumes "CreateAreaForAdministration core actor stamp w = (Inr a, w')"
  shows "a_visibility a = af_visibility core \<and> a_revision a = 1 \<and> a_id a \<notin> a_id ` set (db_areas (w_db w)) \<and>
    a_slug a \<notin> a_slug ` set (db_areas (w_db w)) \<and>
    area_view (w_db w') = (db_areas (w_db w) @ [a], db_area_groups (w_db w), db_groups (w_db w))"
  using assms
  by (auto simp: CreateAreaForAdministration_def statement_Inr Let_def case_prod_unfold nextval_def list_ex_iff
      new_area_def split: if_splits)

lemma AddAreaGroupForAdministration_Inr:
  assumes "AddAreaGroupForAdministration area g actor w = (Inr u, w')"
  shows "g \<in> group_keys (w_db w) \<and> (area, g) \<notin> set (db_area_groups (w_db w)) \<and>
    area_view (w_db w') = (db_areas (w_db w), db_area_groups (w_db w) @ [(area, g)], db_groups (w_db w))"
  using assms
  by (auto simp: AddAreaGroupForAdministration_def statement_Inr group_keys_def find_group_def find_None_iff
      split: if_splits)

lemma replaceAreaGroups_Inr:
  "replaceAreaGroups area actor ids w = (Inr u, w') \<Longrightarrow>
   distinct ids \<and> set ids \<subseteq> group_keys (w_db w) \<and> (\<forall>g \<in> set ids. (area, g) \<notin> set (db_area_groups (w_db w))) \<and>
   area_view (w_db w') = (db_areas (w_db w), db_area_groups (w_db w) @ map (Pair area) ids, db_groups (w_db w))"
proof (induction ids arbitrary: w)
  case Nil
  then show ?case by (simp add: tx_return_Inr)
next
  case (Cons g ids)
  then obtain u1 w1 where one: "AddAreaGroupForAdministration area g actor w = (Inr u1, w1)"
    and more: "replaceAreaGroups area actor ids w1 = (Inr u, w')"
    by (auto simp: tx_inverts)
  from AddAreaGroupForAdministration_Inr [OF one] Cons.IH [OF more] show ?case
    by (auto simp: group_keys_def)
qed

lemma area_audits_Inr:
  "insertAreaAudit actor area action reason previous core req stamp w = (Inr j, w') \<Longrightarrow> area_view (w_db w') = area_view (w_db w)"
  "insertBoundedAreaAudit actor area action reason previous resulting req stamp w = (Inr j, w') \<Longrightarrow>
   area_view (w_db w') = area_view (w_db w)"
  by (auto simp: insertAreaAudit_def insertBoundedAreaAudit_def CreateAreaAdministrationAudit_def tx_inverts Let_def
      case_prod_unfold)

lemma UpdateAreaForAdministration_Inr:
  assumes "UpdateAreaForAdministration core actor stamp area w = (Inr v, w')"
  shows "area_view (w_db w') =
    (upd_where (\<lambda>a. a_id a = area) (area_core_change core actor stamp) (db_areas (w_db w)),
     db_area_groups (w_db w), db_groups (w_db w))"
  using assms by (auto simp: UpdateAreaForAdministration_def statement_Inr split: option.splits if_splits)

lemma DeleteAreaGroupsForAdministration_Inr:
  assumes "DeleteAreaGroupsForAdministration area w = (Inr u, w')"
  shows "area_view (w_db w') =
    (db_areas (w_db w), filter (\<lambda>m. fst m \<noteq> area) (db_area_groups (w_db w)), db_groups (w_db w))"
  using assms by (auto simp: DeleteAreaGroupsForAdministration_def statement_Inr)

text \<open>A statement under an expected revision: which row it revised, and from where to where.\<close>

definition revision_of :: "int \<Rightarrow> int \<Rightarrow> area_row \<Rightarrow> bool" where
  "revision_of area expected a \<longleftrightarrow> a_id a = area \<and> a_revision a = expected \<and> a_revision a < max_int64"

definition area_revised :: "(area_row \<Rightarrow> area_row) \<Rightarrow> area_row \<Rightarrow> area_row" where
  "area_revised change a = (change a)\<lparr>a_revision := a_revision a + 1\<rparr>"

lemma revise_area_Inr:
  assumes "revise_area area expected change audit db = (Inr (v, j), db')"
  shows "\<exists>a. find (revision_of area expected) (db_areas db) = Some a \<and> v = area_revised change a \<and>
    area_view db' =
      (upd_where (revision_of area expected) (area_revised change) (db_areas db), db_area_groups db, db_groups db)"
proof -
  have hits: "(\<lambda>a. a_id a = area \<and> a_revision a = expected \<and> a_revision a < max_int64) = revision_of area expected"
    "(\<lambda>a. (change a)\<lparr>a_revision := a_revision a + 1\<rparr>) = area_revised change"
    by (simp_all add: fun_eq_iff revision_of_def area_revised_def)
  from assms show ?thesis
    unfolding revise_area_def hits
    by (auto simp: Let_def case_prod_unfold split: option.splits)
qed

lemma UpdateAdministrationAreaAndAudit_Inr:
  assumes "UpdateAdministrationAreaAndAudit core actor stamp area expected reason previous resulting req w = (Inr (v, j), w')"
  shows "\<exists>a. find (revision_of area expected) (db_areas (w_db w)) = Some a \<and>
    v = area_revised (area_core_change core actor stamp) a \<and>
    area_view (w_db w') =
      (upd_where (revision_of area expected) (area_revised (area_core_change core actor stamp)) (db_areas (w_db w)),
       db_area_groups (w_db w), db_groups (w_db w))"
  using assms
  by (auto simp: UpdateAdministrationAreaAndAudit_def statement_Inr Let_def split: option.splits if_splits
      dest!: revise_area_Inr)

lemma GrantAdministrationAreaGroupAndAudit_Inr:
  assumes "GrantAdministrationAreaGroupAndAudit area g actor stamp expected reason req w = (Inr (v, j), w')"
  shows "(area, g) \<notin> set (db_area_groups (w_db w)) \<and> g \<in> group_keys (w_db w) \<and>
    (\<exists>a. find (revision_of area expected) (db_areas (w_db w)) = Some a \<and> v = area_revised (touch_area actor stamp) a \<and>
     area_view (w_db w') =
       (upd_where (revision_of area expected) (area_revised (touch_area actor stamp)) (db_areas (w_db w)),
        db_area_groups (w_db w) @ [(area, g)], db_groups (w_db w)))"
  using assms
  by (auto simp: GrantAdministrationAreaGroupAndAudit_def statement_Inr group_keys_def find_group_def find_None_iff
      split: if_splits dest!: revise_area_Inr)

lemma RevokeAdministrationAreaGroupAndAudit_Inr:
  assumes "RevokeAdministrationAreaGroupAndAudit area g stamp actor expected reason req w = (Inr (v, j), w')"
  shows "1 < length (filter (\<lambda>m. fst m = area) (db_area_groups (w_db w))) \<and>
    (\<exists>a. find (revision_of area expected) (db_areas (w_db w)) = Some a \<and> v = area_revised (touch_area actor stamp) a \<and>
     area_view (w_db w') =
       (upd_where (revision_of area expected) (area_revised (touch_area actor stamp)) (db_areas (w_db w)),
        filter (\<lambda>m. m \<noteq> (area, g)) (db_area_groups (w_db w)), db_groups (w_db w)))"
  using assms
  by (auto simp: RevokeAdministrationAreaGroupAndAudit_def statement_Inr split: if_splits dest!: revise_area_Inr)

subsection \<open>The services\<close>

lemma areas_move_add:
  assumes "area_view db' = (db_areas db @ [a], db_area_groups db @ map (Pair (a_id a)) ids, db_groups db)"
    and "a_id a \<notin> a_id ` set (db_areas db)" "a_slug a \<notin> a_slug ` set (db_areas db)"
    and "distinct ids" "set ids \<subseteq> group_keys db" "a_visibility a = VisibilityGroups \<longleftrightarrow> ids \<noteq> []"
  shows "areas_move db db'"
  using assms area_tables_add [of "db_areas db" "db_area_groups db" "group_keys db" a ids]
  by (simp add: areas_move_def areas_sound_def group_keys_def rows_move_append area_kept_refl)

lemma areas_move_change:
  assumes view: "area_view db' = (upd_where hit change (db_areas db), maps', db_groups db)"
    and kept: "\<And>b. hit b \<Longrightarrow> area_kept b (change b)"
    and sound: "areas_sound db \<Longrightarrow> \<exists>a \<in> set (db_areas db). (\<forall>b \<in> set (db_areas db). hit b \<longleftrightarrow> b = a) \<and>
      distinct maps' \<and> (\<forall>b g. b \<noteq> a_id a \<longrightarrow> (b, g) \<in> set maps' \<longleftrightarrow> (b, g) \<in> set (db_area_groups db)) \<and>
      (\<forall>g. (a_id a, g) \<in> set maps' \<longrightarrow> g \<in> group_keys db) \<and>
      (a_visibility (change a) = VisibilityGroups \<longleftrightarrow> (\<exists>g. (a_id a, g) \<in> set maps'))"
  shows "areas_move db db'"
proof -
  have "areas_sound db'" if ok: "areas_sound db"
  proof -
    from sound [OF ok] obtain a where a: "a \<in> set (db_areas db)" "\<And>b. b \<in> set (db_areas db) \<Longrightarrow> hit b \<longleftrightarrow> b = a"
      and maps: "distinct maps'" "\<And>b g. b \<noteq> a_id a \<Longrightarrow> (b, g) \<in> set maps' \<longleftrightarrow> (b, g) \<in> set (db_area_groups db)"
        "\<And>g. (a_id a, g) \<in> set maps' \<Longrightarrow> g \<in> group_keys db"
        "a_visibility (change a) = VisibilityGroups \<longleftrightarrow> (\<exists>g. (a_id a, g) \<in> set maps')"
      by blast
    have "area_kept a (change a)" using a kept by blast
    with area_tables_change [where hit = hit and change = change, OF ok [unfolded areas_sound_def] a(1) _ _ a(2) maps] view
    show ?thesis
      by (simp add: areas_sound_def area_kept_def group_keys_def)
  qed
  moreover from view have "rows_move area_kept (db_areas db) (db_areas db')"
    by (simp add: rows_move_upd kept area_kept_refl)
  ultimately show ?thesis by (simp add: areas_move_def)
qed

text \<open>Two states of the area tables that follow one another without a change of the keys of groups.\<close>

lemma validateGroupsExist_Inr: "validateGroupsExist ids w = (Inr u, w') \<Longrightarrow> w_db w' = w_db w"
  by (auto simp: validateGroupsExist_def CountExistingForumGroups_def tx_inverts split: if_splits)

lemma find_area_Some: "find_area db i = Some a \<Longrightarrow> a \<in> set (db_areas db) \<and> a_id a = i"
  by (auto simp: find_area_def dest: find_Some_iff2)

lemma area_key_eq:
  "areas_sound db \<Longrightarrow> a \<in> set (db_areas db) \<Longrightarrow> b \<in> set (db_areas db) \<Longrightarrow> a_id b = a_id a \<Longrightarrow> b = a"
  using distinct_key_eq [of a_id "db_areas db" b a] by (simp add: areas_sound_def area_tables_ok_def)

lemma area_core_kept: "area_kept a (area_core_change core actor stamp a)"
  by (simp add: area_kept_def area_core_change_def)

lemma area_revised_kept: "area_kept a (area_revised (area_core_change core actor stamp) a)" "area_kept a (area_revised (touch_area actor stamp) a)"
  by (simp_all add: area_kept_def area_core_change_def touch_area_def area_revised_def)

text \<open>One row changes and its mappings are replaced.\<close>

lemma areas_move_replace:
  assumes view: "area_view db' = (upd_where hit change (db_areas db),
        filter (\<lambda>m. fst m \<noteq> a_id a) (db_area_groups db) @ map (Pair (a_id a)) ids, db_groups db)"
    and kept: "\<And>b. hit b \<Longrightarrow> area_kept b (change b)"
    and a: "a \<in> set (db_areas db)" "hit a" "\<And>b. hit b \<Longrightarrow> a_id b = a_id a"
    and ids: "distinct ids" "set ids \<subseteq> group_keys db" "a_visibility (change a) = VisibilityGroups \<longleftrightarrow> ids \<noteq> []"
  shows "areas_move db db'"
proof (rule areas_move_change [OF view kept])
  assume ok: "areas_sound db"
  let ?maps = "filter (\<lambda>m. fst m \<noteq> a_id a) (db_area_groups db) @ map (Pair (a_id a)) ids"
  have "distinct ?maps" using ok ids(1) by (auto simp: areas_sound_def area_tables_ok_def distinct_map inj_on_def)
  moreover have "\<forall>b \<in> set (db_areas db). hit b \<longleftrightarrow> b = a" using area_key_eq [OF ok a(1)] a(2,3) by blast
  ultimately show "\<exists>a' \<in> set (db_areas db). (\<forall>b \<in> set (db_areas db). hit b \<longleftrightarrow> b = a') \<and> distinct ?maps \<and>
      (\<forall>b g. b \<noteq> a_id a' \<longrightarrow> (b, g) \<in> set ?maps \<longleftrightarrow> (b, g) \<in> set (db_area_groups db)) \<and>
      (\<forall>g. (a_id a', g) \<in> set ?maps \<longrightarrow> g \<in> group_keys db) \<and>
      (a_visibility (change a') = VisibilityGroups \<longleftrightarrow> (\<exists>g. (a_id a', g) \<in> set ?maps))"
    using ids(2,3) by (intro bexI [OF _ a(1)]) (cases ids; auto)
qed

lemma areas_CreateArea_body:
  assumes "CreateArea_body now actor st reason req w = (Inr res, w')"
    and "af_visibility st = VisibilityGroups \<longleftrightarrow> af_group_ids st \<noteq> []"
  shows "areas_move (w_db w) (w_db w')"
proof -
  from assms(1) obtain u1 w1 a w2 u2 w3 j w4 where
    "validateGroupsExist (af_group_ids st) w = (Inr u1, w1)"
    "CreateAreaForAdministration st (ac_user_id actor) (At now) w1 = (Inr a, w2)"
    "replaceAreaGroups (a_id a) (ac_user_id actor) (af_group_ids st) w2 = (Inr u2, w3)"
    "insertAreaAudit (ac_user_id actor) (a_id a) ''create_area'' reason EmptyState st req (At now) w3 = (Inr j, w')"
    by (auto simp: CreateArea_body_def tx_inverts)
  from validateGroupsExist_Inr [OF this(1)] CreateAreaForAdministration_Inr [OF this(2)] replaceAreaGroups_Inr [OF this(3)]
    area_audits_Inr(1) [OF this(4)] assms(2)
  show ?thesis
    by (intro areas_move_add [of _ _ a "af_group_ids st"]) (auto simp: group_keys_def)
qed

lemma areas_UpdateArea_body:
  assumes "UpdateArea_body now actor i st revision reason req w = (Inr res, w')"
    and groups: "af_visibility st = VisibilityGroups \<longleftrightarrow> af_group_ids st \<noteq> []"
  shows "areas_move (w_db w) (w_db w')"
proof -
  from assms(1) obtain a gids w1 u2 w2 u3 w3 v w4 u4 w5 j where steps:
    "LockAreaForAdministration i w = (Inr (a, gids), w1)" "validateGroupsExist (af_group_ids st) w1 = (Inr u2, w2)"
    "DeleteAreaGroupsForAdministration i w2 = (Inr u3, w3)"
    "UpdateAreaForAdministration st (ac_user_id actor) (At now) i w3 = (Inr v, w4)"
    "replaceAreaGroups i (ac_user_id actor) (af_group_ids st) w4 = (Inr u4, w5)"
    "insertAreaAudit (ac_user_id actor) i ''update_area'' reason (fields_state (locked_fields a gids)) st req
       (a_updated_at v) w5 = (Inr j, w')"
    by (auto simp: UpdateArea_body_def tx_inverts Let_def)
  have a: "find_area (w_db w) i = Some a" "w_db w1 = w_db w"
    using steps(1) by (auto simp: LockAreaForAdministration_def tx_inverts)
  note effects = validateGroupsExist_Inr [OF steps(2)] DeleteAreaGroupsForAdministration_Inr [OF steps(3)]
    UpdateAreaForAdministration_Inr [OF steps(4)] replaceAreaGroups_Inr [OF steps(5)] area_audits_Inr(1) [OF steps(6)]
  let ?maps = "filter (\<lambda>m. fst m \<noteq> i) (db_area_groups (w_db w)) @ map (Pair i) (af_group_ids st)"
  have ids: "distinct (af_group_ids st)" "set (af_group_ids st) \<subseteq> group_keys (w_db w)"
    using effects a(2) by (simp_all add: group_keys_def)
  have view: "area_view (w_db w') = (upd_where (\<lambda>x. a_id x = i) (area_core_change st (ac_user_id actor) (At now)) (db_areas (w_db w)),
      ?maps, db_groups (w_db w))"
    using effects a(2) by simp
  have mem: "a \<in> set (db_areas (w_db w))" "a_id a = i" using find_area_Some [OF a(1)] by auto
  show ?thesis
    by (rule areas_move_replace [OF view [folded mem(2)] area_core_kept mem(1) _ _ ids])
      (simp_all add: area_core_change_def groups)
qed

text \<open>The second surface revises one row from the revision that was read.\<close>

lemma area_revised_row:
  assumes "find (revision_of i expected) (db_areas db) = Some a"
  shows "a \<in> set (db_areas db) \<and> revision_of i expected a \<and> a_id a = i \<and>
    (revision_of i expected b \<longrightarrow> a_id b = a_id a)"
  using find_Some_iff2 [OF assms] by (auto simp: revision_of_def)

lemma area_revised_visibility [simp]:
  "a_visibility (area_revised (touch_area actor stamp) a) = a_visibility a"
  "a_visibility (area_revised (area_core_change core actor stamp) a) = af_visibility core"
  by (simp_all add: area_revised_def touch_area_def area_core_change_def)

text \<open>A row that keeps its visibility may keep its mappings.\<close>

lemma areas_move_revised:
  assumes view: "area_view db' = (upd_where (revision_of i rv) change (db_areas db), maps', db_groups db)"
    and kept: "\<And>b. area_kept b (change b)"
    and a: "find (revision_of i rv) (db_areas db) = Some a"
    and maps: "areas_sound db \<Longrightarrow> distinct maps' \<and>
      (\<forall>b g. b \<noteq> i \<longrightarrow> (b, g) \<in> set maps' \<longleftrightarrow> (b, g) \<in> set (db_area_groups db)) \<and>
      (\<forall>g. (i, g) \<in> set maps' \<longrightarrow> g \<in> group_keys db) \<and>
      (a_visibility (change a) = VisibilityGroups \<longleftrightarrow> (\<exists>g. (i, g) \<in> set maps'))"
  shows "areas_move db db'"
proof (rule areas_move_change [OF view kept])
  assume ok: "areas_sound db"
  note a = area_revised_row [OF a]
  have "\<forall>b \<in> set (db_areas db). revision_of i rv b \<longleftrightarrow> b = a" using area_key_eq [OF ok] a by blast
  with a maps [OF ok] show "\<exists>a \<in> set (db_areas db). (\<forall>b \<in> set (db_areas db). revision_of i rv b \<longleftrightarrow> b = a) \<and> distinct maps' \<and>
      (\<forall>b g. b \<noteq> a_id a \<longrightarrow> (b, g) \<in> set maps' \<longleftrightarrow> (b, g) \<in> set (db_area_groups db)) \<and>
      (\<forall>g. (a_id a, g) \<in> set maps' \<longrightarrow> g \<in> group_keys db) \<and>
      (a_visibility (change a) = VisibilityGroups \<longleftrightarrow> (\<exists>g. (a_id a, g) \<in> set maps'))"
    by (intro bexI [of _ a]) simp_all
qed

lemma mapped_iff:
  "areas_sound db \<Longrightarrow> a \<in> set (db_areas db) \<Longrightarrow>
   (\<exists>g. (a_id a, g) \<in> set (db_area_groups db)) \<longleftrightarrow> a_visibility a = VisibilityGroups"
  unfolding areas_sound_def using mapped_area area_key_eq [unfolded areas_sound_def]
  by (metis area_tables_ok_def)

lemma configureAccountTransaction_Inr: "configureAccountTransaction w = (Inr u, w') \<Longrightarrow> w_db w' = w_db w"
  by (auto simp: configureAccountTransaction_def ConfigureAdministrationTransaction_def tx_inverts)

lemma lockAccountActor_Inr:
  "lockAccountActor actor now w = (Inr u, w') \<Longrightarrow> w_db w' = w_db w \<and> acting_administrator (w_db w) actor now"
  by (auto simp: lockAccountActor_def LockAdministrationUser_def acting_administrator_def tx_inverts)

lemma lock_area_core_Inr: "lock_area_core msg i w = (Inr a, w') \<Longrightarrow> w_db w' = w_db w \<and> find_area (w_db w) i = Some a"
  by (auto simp: lock_area_core_def LockAdministrationAreaCore_def tx_inverts)

lemma lock_groups_Inr:
  "lock_initial_group is_nfc g w = (Inr u, w') \<Longrightarrow> w_db w' = w_db w"
  "lock_area_group is_nfc g w = (Inr u, w') \<Longrightarrow> w_db w' = w_db w"
  by (auto simp: lock_initial_group_def lock_area_group_def LockAdministrationGroup_def tx_inverts)

lemma streamAreaGroupDigest_Inr:
  "streamAreaGroupDigest sha i w = (Inr before, w') \<Longrightarrow>
   w_db w' = w_db w \<and> (fst before \<noteq> 0 \<longleftrightarrow> (\<exists>g. (i, g) \<in> set (db_area_groups (w_db w))))"
  by (auto simp: streamAreaGroupDigest_def StreamAdministrationAreaGroupIDs_def group_ids_of_area_def tx_inverts
      filter_empty_conv) force

lemma areas_CreateAreaCompletion_body:
  assumes "CreateAreaCompletion_body sha ad now actor x req w = (Inr res, w')" and "validAreaCoreInput x True"
  shows "areas_move (w_db w) (w_db w')"
proof -
  let ?ids = "if ax_initial_group x > 0 then [ax_initial_group x] else []"
  from assms(1) obtain u1 w1 u2 w2 u3 w3 a w4 u4 w5 audit where steps:
    "configureAccountTransaction w = (Inr u1, w1)" "lockAccountActor actor now w1 = (Inr u2, w2)"
    "(if ax_initial_group x > 0 then lock_initial_group (ad_is_nfc ad) (ax_initial_group x) else tx_return ()) w2 = (Inr u3, w3)"
    "CreateAreaForAdministration (ax_fields x) (ac_user_id actor) (At now) w3 = (Inr a, w4)"
    "replaceAreaGroups (a_id a) (ac_user_id actor) ?ids w4 = (Inr u4, w5)"
    "insertBoundedAreaAudit (ac_user_id actor) (a_id a) ''create_area'' (ax_reason x) EmptyState
       (bounded_state sha (af_slug (ax_fields x)) (ax_fields x) 1 (int (length ?ids), digest_ids sha ?ids)) req (At now) w5 =
       (Inr audit, w')"
    unfolding CreateAreaCompletion_body_def Let_def tx_bind_Inr tx_map_error_Inr tx_guard_Inr tx_return_Inr by blast
  have "w_db w3 = w_db w2" using steps(3) by (auto simp: tx_inverts dest: lock_groups_Inr split: if_splits)
  moreover have "af_visibility (ax_fields x) = VisibilityGroups \<longleftrightarrow> ?ids \<noteq> []"
    using assms(2) by (auto simp: validAreaCoreInput_def Let_def split: if_splits)
  ultimately show ?thesis
    using configureAccountTransaction_Inr [OF steps(1)] lockAccountActor_Inr [OF steps(2)]
      CreateAreaForAdministration_Inr [OF steps(4)] replaceAreaGroups_Inr [OF steps(5)] area_audits_Inr(2) [OF steps(6)]
    by (intro areas_move_add [of _ _ a ?ids]) (simp_all add: group_keys_def)
qed

lemma areas_ChangeAreaGroup_body:
  assumes "ChangeAreaGroup_body ad now actor i g grant reason rv req w = (Inr res, w')"
  shows "areas_move (w_db w) (w_db w')"
proof -
  from assms obtain u1 w1 u2 w2 a w3 u4 w4 assigned w5 r where steps:
    "configureAccountTransaction w = (Inr u1, w1)" "lockAccountActor actor now w1 = (Inr u2, w2)"
    "LockAdministrationAreaCore i w2 = (Inr a, w3)" "lock_area_group (ad_is_nfc ad) g w3 = (Inr u4, w4)"
    "AdministrationAreaGroupExists i g w4 = (Inr assigned, w5)"
    "(if grant then GrantAdministrationAreaGroupAndAudit i g (ac_user_id actor) (At now) rv reason req
      else RevokeAdministrationAreaGroupAndAudit i g (At now) (ac_user_id actor) rv reason req) w5 = (Inr r, w')"
    and vis: "a_visibility a = VisibilityGroups" and rv: "a_revision a = rv"
    unfolding ChangeAreaGroup_body_def tx_bind_Inr tx_map_error_Inr tx_guard_Inr tx_case_prod_Inr tx_return_Inr by blast
  obtain v j where r: "r = (v, j)" by (cases r)
  have db: "w_db w5 = w_db w" "find_area (w_db w) i = Some a"
    using configureAccountTransaction_Inr [OF steps(1)] lockAccountActor_Inr [OF steps(2)] lock_groups_Inr(2) [OF steps(4)]
      steps(3,5) by (auto simp: LockAdministrationAreaCore_def AdministrationAreaGroupExists_def tx_inverts)
  note steps = steps [unfolded r]
  note here = find_area_Some [OF db(2)]
  show ?thesis
  proof (cases grant)
    case True
    with steps(6) have "GrantAdministrationAreaGroupAndAudit i g (ac_user_id actor) (At now) rv reason req w5 = (Inr (v, j), w')" by simp
    from GrantAdministrationAreaGroupAndAudit_Inr [OF this] obtain b where
      g: "(i, g) \<notin> set (db_area_groups (w_db w))" "g \<in> group_keys (w_db w)"
      and b: "find (revision_of i rv) (db_areas (w_db w)) = Some b"
      and view: "area_view (w_db w') = (upd_where (revision_of i rv) (area_revised (touch_area (ac_user_id actor) (At now))) (db_areas (w_db w)),
        db_area_groups (w_db w) @ [(i, g)], db_groups (w_db w))"
      unfolding db by blast
    show ?thesis
      by (rule areas_move_revised [OF view area_revised_kept(2) b])
        (use g b here vis area_key_eq [of "w_db w" a b] area_revised_row [OF b] in
          \<open>auto simp: areas_sound_def area_tables_ok_def\<close>)
  next
    case False
    with steps(6) have "RevokeAdministrationAreaGroupAndAudit i g (At now) (ac_user_id actor) rv reason req w5 = (Inr (v, j), w')" by simp
    from RevokeAdministrationAreaGroupAndAudit_Inr [OF this] obtain b where
      many: "1 < length (filter (\<lambda>m. fst m = i) (db_area_groups (w_db w)))"
      and b: "find (revision_of i rv) (db_areas (w_db w)) = Some b"
      and view: "area_view (w_db w') = (upd_where (revision_of i rv) (area_revised (touch_area (ac_user_id actor) (At now))) (db_areas (w_db w)),
        filter (\<lambda>m. m \<noteq> (i, g)) (db_area_groups (w_db w)), db_groups (w_db w))"
      unfolding db by blast
    have another: "\<exists>h. (i, h) \<in> set (db_area_groups (w_db w)) \<and> h \<noteq> g" if ok: "areas_sound (w_db w)"
    proof (rule ccontr)
      assume "\<not> ?thesis"
      then have "set (filter (\<lambda>m. fst m = i) (db_area_groups (w_db w))) \<subseteq> {(i, g)}" by auto
      from card_mono [OF _ this] have "card (set (filter (\<lambda>m. fst m = i) (db_area_groups (w_db w)))) \<le> 1" by simp
      moreover have "distinct (filter (\<lambda>m. fst m = i) (db_area_groups (w_db w)))"
        using ok by (simp add: areas_sound_def area_tables_ok_def)
      ultimately have "length (filter (\<lambda>m. fst m = i) (db_area_groups (w_db w))) \<le> 1"
        by (simp only: distinct_card)
      with many show False by simp
    qed
    show ?thesis
    proof (rule areas_move_revised [OF view area_revised_kept(2) b], intro conjI allI impI)
      assume ok: "areas_sound (w_db w)"
      have "b = a" using area_key_eq [OF ok, of a b] area_revised_row [OF b] here by simp
      then show "(a_visibility (area_revised (touch_area (ac_user_id actor) (At now)) b) = VisibilityGroups) =
        (\<exists>h. (i, h) \<in> set (filter (\<lambda>m. m \<noteq> (i, g)) (db_area_groups (w_db w))))"
        using vis another [OF ok] by auto
    qed (auto simp: areas_sound_def area_tables_ok_def)
  qed
qed

text \<open>The mappings an update of the core leaves, by the visibility before and after.\<close>

lemma core_update_maps:
  assumes "(if to_groups \<and> \<not> was
      then tx_bind (lock_initial_group is_nfc g) (\<lambda>_. tx_return ((1, d1), True, False))
      else if \<not> to_groups then tx_return ((0, d2), False, fst before \<noteq> 0)
      else tx_return (before, False, False)) w = (Inr (after, add, del), w1)"
  shows "w_db w1 = w_db w \<and> (add \<longleftrightarrow> to_groups \<and> \<not> was) \<and> (del \<longleftrightarrow> \<not> to_groups \<and> fst before \<noteq> 0)"
  using assms by (auto simp: tx_bind_Inr tx_return_Inr split: if_splits dest: lock_groups_Inr)

lemma areas_UpdateAreaCompletion_body:
  assumes "UpdateAreaCompletion_body sha ad now actor i x req w = (Inr res, w')"
  shows "areas_move (w_db w) (w_db w') \<and>
    (\<exists>b. find (revision_of i (ax_revision x)) (db_areas (w_db w)) = Some b \<and>
      db_areas (w_db w') = upd_where (revision_of i (ax_revision x))
        (area_revised (area_core_change (ax_fields x) (ac_user_id actor) (At now))) (db_areas (w_db w)))"
proof -
  let ?st = "ax_fields x" and ?rv = "ax_revision x"
  let ?to = "af_visibility ?st = VisibilityGroups"
  let ?change = "area_revised (area_core_change ?st (ac_user_id actor) (At now))"
  from assms obtain u1 w1 u2 w2 a w3 before w4 kept w5 u6 w6 r w7 u8 where steps:
    "configureAccountTransaction w = (Inr u1, w1)" "lockAccountActor actor now w1 = (Inr u2, w2)"
    "lock_area_core ''lock area'' i w2 = (Inr a, w3)" "streamAreaGroupDigest sha i w3 = (Inr before, w4)"
    "(if ?to \<and> a_visibility a \<noteq> VisibilityGroups
      then tx_bind (lock_initial_group (ad_is_nfc ad) (ax_initial_group x)) (\<lambda>_.
           tx_return ((1, digest_ids sha [ax_initial_group x]), True, False))
      else if \<not> ?to then tx_return ((0, digest_ids sha []), False, fst before \<noteq> 0)
      else tx_return (before, False, False)) w4 = (Inr kept, w5)"
    "(if snd (snd kept) then tx_wrap ''replace area groups'' (DeleteAreaGroupsForAdministration i) else tx_return ()) w5 = (Inr u6, w6)"
    "\<exists>previous resulting. UpdateAdministrationAreaAndAudit ?st (ac_user_id actor) (At now) i ?rv (ax_reason x)
       previous resulting req w6 = (Inr r, w7)"
    "(if fst (snd kept) then replaceAreaGroups i (ac_user_id actor) [ax_initial_group x] else tx_return ()) w7 = (Inr u8, w')"
    unfolding UpdateAreaCompletion_body_def Let_def tx_bind_Inr tx_map_error_Inr tx_guard_Inr tx_case_prod_Inr tx_return_Inr
    by blast
  obtain after add del where kept: "kept = (after, add, del)" by (cases kept)
  have db: "w_db w4 = w_db w" "find_area (w_db w) i = Some a" "fst before \<noteq> 0 \<longleftrightarrow> (\<exists>g. (i, g) \<in> set (db_area_groups (w_db w)))"
    using configureAccountTransaction_Inr [OF steps(1)] lockAccountActor_Inr [OF steps(2)] lock_area_core_Inr [OF steps(3)]
      streamAreaGroupDigest_Inr [OF steps(4)] by simp_all
  from core_update_maps [OF steps(5) [unfolded kept]] db
  have five: "w_db w5 = w_db w" "add \<longleftrightarrow> ?to \<and> a_visibility a \<noteq> VisibilityGroups"
    "del \<longleftrightarrow> \<not> ?to \<and> (\<exists>g. (i, g) \<in> set (db_area_groups (w_db w)))" by simp_all
  let ?maps = "if ?to then db_area_groups (w_db w) else filter (\<lambda>m. fst m \<noteq> i) (db_area_groups (w_db w))"
  have unmapped: "filter (\<lambda>m. fst m \<noteq> i) (db_area_groups (w_db w)) = db_area_groups (w_db w)"
    if "\<not> (\<exists>g. (i, g) \<in> set (db_area_groups (w_db w)))" using that by (auto simp: filter_id_conv)
  have six: "area_view (w_db w6) = (db_areas (w_db w), ?maps, db_groups (w_db w))"
    using steps(6) five unmapped
    by (cases del) (auto simp: kept tx_wrap_Inr tx_return_Inr dest!: DeleteAreaGroupsForAdministration_Inr)
  obtain v j where r: "r = (v, j)" by (cases r)
  from steps(7) obtain b where b: "find (revision_of i ?rv) (db_areas (w_db w)) = Some b"
    and seven: "area_view (w_db w7) = (upd_where (revision_of i ?rv) ?change (db_areas (w_db w)), ?maps, db_groups (w_db w))"
    using six by (auto simp: r dest!: UpdateAdministrationAreaAndAudit_Inr)
  let ?final = "if add then ?maps @ [(i, ax_initial_group x)] else ?maps"
  have view: "area_view (w_db w') = (upd_where (revision_of i ?rv) ?change (db_areas (w_db w)), ?final, db_groups (w_db w))"
    and group: "add \<longrightarrow> ax_initial_group x \<in> group_keys (w_db w) \<and> (i, ax_initial_group x) \<notin> set ?maps"
    using steps(8) seven replaceAreaGroups_Inr [of i "ac_user_id actor" "[ax_initial_group x]" w7 u8 w']
    by (auto simp: kept tx_return_Inr group_keys_def split: if_splits)
  have "areas_move (w_db w) (w_db w')"
  proof (rule areas_move_revised [OF view area_revised_kept(1) b])
    assume ok: "areas_sound (w_db w)"
    note here = find_area_Some [OF db(2)]
    have "b = a" using area_key_eq [OF ok, of a b] area_revised_row [OF b] here by simp
    have mapped: "(\<exists>g. (i, g) \<in> set (db_area_groups (w_db w))) \<longleftrightarrow> a_visibility a = VisibilityGroups"
      using mapped_iff [OF ok, of a] here by simp
    have sound: "distinct (db_area_groups (w_db w))" "\<And>m. m \<in> set (db_area_groups (w_db w)) \<Longrightarrow> snd m \<in> group_keys (w_db w)"
      using ok by (auto simp: areas_sound_def area_tables_ok_def)
    show "distinct ?final \<and> (\<forall>b g. b \<noteq> i \<longrightarrow> (b, g) \<in> set ?final \<longleftrightarrow> (b, g) \<in> set (db_area_groups (w_db w))) \<and>
      (\<forall>g. (i, g) \<in> set ?final \<longrightarrow> g \<in> group_keys (w_db w)) \<and>
      (a_visibility (?change b) = VisibilityGroups \<longleftrightarrow> (\<exists>g. (i, g) \<in> set ?final))"
      using five(2) group mapped sound by (cases ?to; cases add) (auto dest: sound(2))
  qed
  with b view show ?thesis by simp
qed

subsection \<open>The composition\<close>

context table_relation
begin

text \<open>What follows a step only has to move the tables along the relation for the results the step can have.\<close>

lemma relates_bind_after:
  assumes "relates R m" and "\<And>w x w'. m w = (Inr x, w') \<Longrightarrow> relates R (f x)"
  shows "relates R (tx_bind m f)"
proof (rule relatesI)
  fix w :: world
  obtain r w1 where m: "m w = (r, w1)" by force
  have one: "R (w_db w) (w_db w1)" using relatesD [OF assms(1), of w] m by simp
  show "R (w_db w) (w_db (snd (tx_bind m f w)))"
  proof (cases r)
    case (Inl e)
    with m one show ?thesis by (simp add: tx_bind_def)
  next
    case (Inr x)
    with m assms(2) have "R (w_db w1) (w_db (snd (f x w1)))" by (auto dest: relatesD)
    with one m Inr show ?thesis by (auto simp: tx_bind_def intro: R_trans)
  qed
qed

end

context statement_relation
begin

lemma relates_first_boundary: "relates R (validateMutationBoundary tenv clock actx x req slug)"
  unfolding validateMutationBoundary_def Let_def by (intro combinator_rules relates_context_error)

lemma relates_second_boundary: "relates R (completion_boundary ad clock actx reason req)"
  unfolding completion_boundary_def by (intro combinator_rules administration_rules)

end

lemma sort_Nil_iff: "sort xs = [] \<longleftrightarrow> xs = []"
  by (metis length_0_conv length_sort)

lemma validateMutationBoundary_Inr:
  assumes "validateMutationBoundary env clock actor x req slug w = (Inr st, w')"
  shows "CanAdminister actor \<and> (af_visibility st = VisibilityGroups \<longleftrightarrow> af_group_ids st \<noteq> []) \<and>
    st = (ar_fields x)\<lparr>af_group_ids := sort (af_group_ids (ar_fields x))\<rparr>"
  using assms
  by (auto simp: validateMutationBoundary_def Let_def context_error_def tx_inverts sort_Nil_iff
      split: if_splits option.splits)

lemmas area_service_rules =
  areas.relates_bind_after areas_accounts.relates_first_boundary areas_accounts.relates_second_boundary areas.relates_lift
  areas.relates_wrap areas.relates_map_error areas.relates_guard areas.relates_within_tx_success

lemma areas_CreateArea: "relates areas_move (CreateArea env clock actor x req)"
  unfolding CreateArea_def
  by (intro area_service_rules) (auto dest!: validateMutationBoundary_Inr areas_CreateArea_body)

lemma areas_UpdateArea: "relates areas_move (UpdateArea env clock actor i x req)"
  unfolding UpdateArea_def
  by (intro area_service_rules) (auto dest!: validateMutationBoundary_Inr areas_UpdateArea_body)

lemma areas_CreateAreaCompletion: "relates areas_move (CreateAreaCompletion sha ad clock actor x req)"
  unfolding CreateAreaCompletion_def completion_tx_def
  by (intro area_service_rules) (auto simp: tx_guard_Inr dest!: areas_CreateAreaCompletion_body)

lemma areas_UpdateAreaCompletion: "relates areas_move (UpdateAreaCompletion sha ad clock actor i x req)"
  unfolding UpdateAreaCompletion_def completion_tx_def
  by (intro area_service_rules) (auto dest!: areas_UpdateAreaCompletion_body)

lemma areas_ChangeAreaGroup: "relates areas_move (ChangeAreaGroup ad clock actor i g grant reason rv req)"
  unfolding ChangeAreaGroup_def completion_tx_def
  by (intro area_service_rules) (auto dest!: areas_ChangeAreaGroup_body)

interpretation areas_services: service_relation areas_move
  by unfold_locales
    (rule areas_accounts.account_calls areas_CreateArea areas_UpdateArea areas_CreateAreaCompletion
      areas_UpdateAreaCompletion areas_ChangeAreaGroup)+

lemma board_run_areas: "board_run db db' \<Longrightarrow> areas_move db db'"
  using areas_services.board_run_relates .

subsection \<open>An example\<close>

text \<open>Administrator 1 restricts the area to group 1; a second update composed on the same revision is refused.\<close>

definition ex_area_db :: forum_db where
  "ex_area_db = ex_db\<lparr>db_groups :=
     [\<lparr>g_id = 1, g_name = ''readers'', g_created_by = 1, g_created_at = At 1000, g_updated_at = At 1000, g_revision = 1\<rparr>]\<rparr>"

definition ex_core_input :: "string \<Rightarrow> string \<Rightarrow> int \<Rightarrow> area_core_input" where
  "ex_core_input name visibility gid =
     \<lparr>ax_fields = \<lparr>af_slug = [], af_name = name, af_description = [], af_display_order = 0, af_visibility = visibility,
        af_posting_mode = PostingNormal, af_group_ids = []\<rparr>,
      ax_reason = ''restrict'', ax_initial_group = gid, ax_revision = 1\<rparr>"

definition ex_admin :: admin_env where
  "ex_admin = \<lparr>ad_tx = ex_tx, ad_is_nfc = (\<lambda>_. True), ad_lower = id\<rparr>"

definition ex_restrict :: "(go_error + area_completion_result) \<times> world" where
  "ex_restrict = UpdateAreaCompletion (\<lambda>_. []) ex_admin (Some 5000) (ex_actor 1 RoleAdministrator) 1
     (ex_core_input ''General'' VisibilityGroups 1) (Some 7) (ex_world ex_area_db [])"

lemma ex_restrict_result: "map_sum id ay_revision (fst ex_restrict) = Inr 2"
  by code_simp

lemma ex_restrict_tables:
  "map a_visibility (db_areas (w_db (snd ex_restrict))) = [VisibilityGroups]" "db_area_groups (w_db (snd ex_restrict)) = [(1, 1)]"
  by code_simp+

lemma ex_restrict_eq: "\<exists>res. ex_restrict = (Inr res, snd ex_restrict)"
  using ex_restrict_result by (cases "fst ex_restrict") (auto simp: prod_eq_iff)

lemma ex_area_sound: "areas_sound ex_area_db"
  by (simp add: areas_sound_def area_tables_ok_def ex_area_db_def ex_db_def ex_area_def VisibilityGroups_def)

lemma ex_restrict_run: "board_run ex_area_db (w_db (snd ex_restrict))"
  using board_step.call [of "ex_world ex_area_db []" "CallUpdateAreaCore (\<lambda>_. []) ex_admin (Some 5000) (ex_actor 1 RoleAdministrator) 1
     (ex_core_input ''General'' VisibilityGroups 1) (Some 7)"]
  by (simp add: board_run_def r_into_rtranclp ex_restrict_def)

subsection \<open>Properties\<close>

text \<open>
  C21. The tables of areas stay sound under every sequence of services: identifiers and addresses are unique, a group
  is mapped only to an area with groups visibility and exists, and an area with groups visibility is never left
  without a group. No area is lost, and its address and creator never change.
\<close>

theorem areas_stay_sound:
  assumes "board_run db db'" and "areas_sound db"
  shows "areas_sound db' \<and>
    (\<forall>a \<in> set (db_areas db). \<exists>a' \<in> set (db_areas db'). a_id a' = a_id a \<and> a_slug a' = a_slug a \<and>
       a_created_by a' = a_created_by a \<and> a_created_at a' = a_created_at a \<and> a_revision a \<le> a_revision a')"
  using board_run_areas [OF assms(1)] assms(2) by (auto simp: areas_move_def rows_move_def area_kept_def)

theorem areas_stay_sound_witness:
  "areas_sound (w_db (snd ex_restrict)) \<and> db_area_groups (w_db (snd ex_restrict)) = [(1, 1)] \<and>
   (\<exists>a' \<in> set (db_areas (w_db (snd ex_restrict))). a_id a' = 1 \<and> a_slug a' = ''general'')"
  using areas_stay_sound [OF ex_restrict_run ex_area_sound] ex_restrict_tables
  by (auto simp: ex_area_db_def ex_db_def ex_area_def)

lemma UpdateAreaCompletion_Inr:
  assumes "UpdateAreaCompletion sha ad clock actor i x req w = (Inr res, w')"
  shows "\<exists>now. UpdateAreaCompletion_body sha ad now actor i x req w = (Inr res, w')"
  using assms
  by (auto simp: UpdateAreaCompletion_def completion_tx_def completion_boundary_def validateAccountMutationBoundary_def
      context_error_def tx_inverts within_tx_Inr split: if_splits option.splits)

text \<open>
  C22. No update of an area is lost. Of two updates of the core of an area that were composed on the same revision,
  the second to be committed never succeeds, whatever services run in between.
\<close>

theorem area_no_lost_update:
  assumes "UpdateAreaCompletion sha ad clock actor i x req w = (Inr res, w1)" and "areas_sound (w_db w)"
    and "board_run (w_db w1) (w_db w2)" and "ax_revision y = ax_revision x"
  shows "UpdateAreaCompletion sha' ad' clock' actor' i y req' w2 \<noteq> (Inr res', w3)"
proof
  assume again: "UpdateAreaCompletion sha' ad' clock' actor' i y req' w2 = (Inr res', w3)"
  let ?rv = "ax_revision x"
  from UpdateAreaCompletion_Inr [OF assms(1)] obtain now where
    one: "UpdateAreaCompletion_body sha ad now actor i x req w = (Inr res, w1)" by blast
  from areas_UpdateAreaCompletion_body [OF one] obtain b where
    b: "find (revision_of i ?rv) (db_areas (w_db w)) = Some b"
    and rows: "db_areas (w_db w1) = upd_where (revision_of i ?rv)
        (area_revised (area_core_change (ax_fields x) (ac_user_id actor) (At now))) (db_areas (w_db w))"
    and sound: "areas_sound (w_db w1)"
    using assms(2) by (auto simp: areas_move_def)
  let ?b = "area_revised (area_core_change (ax_fields x) (ac_user_id actor) (At now)) b"
  note b = area_revised_row [OF b]
  have "?b \<in> set (db_areas (w_db w1))" unfolding rows set_upd_where using b by (auto intro: rev_image_eqI)
  moreover have "a_id ?b = i" "a_revision ?b = ?rv + 1"
    using b by (simp_all add: area_revised_def area_core_change_def revision_of_def)
  ultimately obtain c where
    c: "c \<in> set (db_areas (w_db w2))" "area_kept ?b c" and sound2: "areas_sound (w_db w2)"
    using board_run_areas [OF assms(3)] sound unfolding areas_move_def rows_move_def by blast
  then have "a_id c = i" "?rv + 1 \<le> a_revision c"
    using \<open>a_id ?b = i\<close> \<open>a_revision ?b = ?rv + 1\<close> by (simp_all add: area_kept_def)
  note c = c(1) this
  from UpdateAreaCompletion_Inr [OF again] obtain now' where
    two: "UpdateAreaCompletion_body sha' ad' now' actor' i y req' w2 = (Inr res', w3)" by blast
  from areas_UpdateAreaCompletion_body [OF two] obtain d where
    d: "find (revision_of i ?rv) (db_areas (w_db w2)) = Some d" using assms(4) by auto
  have "d = c" using area_key_eq [OF sound2 c(1), of d] area_revised_row [OF d] c(2) by simp
  with area_revised_row [OF d] c(3) show False by (simp add: revision_of_def)
qed

theorem area_no_lost_update_witness:
  "UpdateAreaCompletion (\<lambda>_. []) ex_admin (Some 6000) (ex_actor 1 RoleAdministrator) 1
     (ex_core_input ''Lounge'' VisibilityPublic 0) (Some 8) (snd ex_restrict) \<notin> range (map_prod Inr id)"
proof -
  obtain res where "ex_restrict = (Inr res, snd ex_restrict)" using ex_restrict_eq by blast
  then have one: "UpdateAreaCompletion (\<lambda>_. []) ex_admin (Some 5000) (ex_actor 1 RoleAdministrator) 1
      (ex_core_input ''General'' VisibilityGroups 1) (Some 7) (ex_world ex_area_db []) = (Inr res, snd ex_restrict)"
    by (simp only: ex_restrict_def)
  have "areas_sound (w_db (ex_world ex_area_db []))" by (simp add: ex_area_sound)
  moreover have "board_run (w_db (snd ex_restrict)) (w_db (snd ex_restrict))" by (simp add: board_run_def)
  moreover have "ax_revision (ex_core_input ''Lounge'' VisibilityPublic 0) = ax_revision (ex_core_input ''General'' VisibilityGroups 1)"
    by (simp add: ex_core_input_def)
  ultimately have "UpdateAreaCompletion (\<lambda>_. []) ex_admin (Some 6000) (ex_actor 1 RoleAdministrator) 1
     (ex_core_input ''Lounge'' VisibilityPublic 0) (Some 8) (snd ex_restrict) \<noteq> (Inr r, w)" for r w
    by (rule area_no_lost_update [OF one])
  then show ?thesis by (auto simp: map_prod_def)
qed

end
