(* ===== verification/Transaction.thy ===== *)
theory Transaction
  imports Example
begin

text \<open>
  The transaction of \<open>internal/store/transaction.go\<close> step by step: the checks before it begins, the
  callback on the working tables of an open transaction, which may return an error or panic, the commit, and the
  deferred rollback. pgx and PostgreSQL are parameters; what they promise is the locale
  \<open>postgres_driver\<close>. The atomic step \<open>within_tx\<close>, in which the rest of the development runs
  a transaction, is what this model does for a callback that is given and does not panic.
\<close>

subsection \<open>A connection\<close>

text \<open>The committed tables, the working tables of the open transaction, if one is open, and what is still to come.\<close>

record pg_conn =
  pg_committed :: forum_db
  pg_working :: "forum_db option"
  pg_clock :: "gotime list"
  pg_faults :: "bool list"

datatype 'a run = Returns "go_error + 'a" | Panics

type_synonym 'a action = "world \<Rightarrow> 'a run \<times> world"
type_synonym pg_begin = "pg_conn \<Rightarrow> (bool \<times> go_error option) \<times> pg_conn"
type_synonym pg_end = "pg_conn \<Rightarrow> go_error option \<times> pg_conn"

text \<open>Work becomes visible as a whole, or is dropped except for what sequences have handed out.\<close>

definition published :: "pg_conn \<Rightarrow> pg_conn" where
  "published c = (case pg_working c of None \<Rightarrow> c | Some db \<Rightarrow> c\<lparr>pg_committed := db, pg_working := None\<rparr>)"

definition abandoned :: "pg_conn \<Rightarrow> pg_conn" where
  "abandoned c =
     (case pg_working c of
        None \<Rightarrow> c
      | Some db \<Rightarrow> c\<lparr>pg_committed := (pg_committed c)\<lparr>db_seqs := db_seqs db\<rparr>, pg_working := None\<rparr>)"

definition opened :: "pg_conn \<Rightarrow> pg_conn" where
  "opened c = c\<lparr>pg_working := Some (pg_committed c)\<rparr>"

text \<open>
  A transaction that was begun works on a copy of the committed tables. A commit that reports success has published
  the work; one that reports an error has done so or has dropped it, and has ended the transaction either way. A
  rollback drops the work whatever it reports: what was not committed is never visible, and a connection on which
  the rollback fails is closed.
\<close>

locale postgres_driver =
  fixes begin_tx :: pg_begin and commit_tx :: pg_end and rollback_tx :: pg_end
  assumes begin_opens: "begin_tx c = ((True, e), c') \<Longrightarrow> c' = opened c"
    and begin_fails: "begin_tx c = ((False, e), c') \<Longrightarrow> c' = c"
    and commit_publishes: "commit_tx c = (None, c') \<Longrightarrow> c' = published c"
    and commit_fails: "commit_tx c = (Some d, c') \<Longrightarrow> c' = published c \<or> c' = abandoned c"
    and rollback_drops: "rollback_tx c = (e, c') \<Longrightarrow> c' = abandoned c"

subsection \<open>The code\<close>

text \<open>The callback runs on the working tables.\<close>

definition run_action :: "'a action \<Rightarrow> pg_conn \<Rightarrow> 'a run \<times> pg_conn" where
  "run_action act c =
     (case pg_working c of
        None \<Rightarrow> (Panics, c)
      | Some db \<Rightarrow>
          let (r, w) = act \<lparr>w_db = db, w_clock = pg_clock c, w_faults = pg_faults c\<rparr>
          in (r, c\<lparr>pg_working := Some (w_db w), pg_clock := w_clock w, pg_faults := w_faults w\<rparr>))"

text \<open>
  The deferred function: unless the transaction was committed it rolls back, and joins an error of the rollback to
  the result, except that the transaction is closed. A panic goes on after it.
\<close>

definition joined :: "'a run \<Rightarrow> go_error option \<Rightarrow> 'a run" where
  "joined r e =
     (case e of
        None \<Rightarrow> r
      | Some d \<Rightarrow>
          if err_is d TxClosed then r
          else case r of
            Returns (Inl err) \<Rightarrow> Returns (Inl (Join err (Wrap ''rollback transaction'' d)))
          | Returns (Inr x) \<Rightarrow> Returns (Inl (Wrap ''rollback transaction'' d))
          | Panics \<Rightarrow> Panics)"

definition deferred_rollback :: "pg_end \<Rightarrow> bool \<times> 'a run \<times> pg_conn \<Rightarrow> 'a run \<times> pg_conn" where
  "deferred_rollback rollback_tx final =
     (let (committed, r, c) = final in
      if committed then (r, c)
      else let (e, c') = rollback_tx c in (joined r e, c'))"

text \<open>What runs under the deferred function, with the flag \<open>committed\<close>.\<close>

definition tx_steps :: "pg_end \<Rightarrow> 'a action \<Rightarrow> go_error option \<Rightarrow> pg_conn \<Rightarrow> bool \<times> 'a run \<times> pg_conn" where
  "tx_steps commit_tx act err c =
     (case err of
        Some e \<Rightarrow> (False, Returns (Inl (Wrap ''begin transaction'' e)), c)
      | None \<Rightarrow>
          (case run_action act c of
             (Panics, c') \<Rightarrow> (False, Panics, c')
           | (Returns (Inl e), c') \<Rightarrow> (False, Returns (Inl (Wrap ''transaction action failed'' e)), c')
           | (Returns (Inr x), c') \<Rightarrow>
               (case commit_tx c' of
                  (Some e, d) \<Rightarrow>
                    (False,
                     Returns (Inl (Wrap ''commit transaction (outcome unknown; inspect state before retry)'' e)), d)
                | (None, d) \<Rightarrow> (True, Returns (Inr x), d))))"

definition withinTx ::
  "bool \<Rightarrow> go_error option \<Rightarrow> pg_begin option \<Rightarrow> pg_end \<Rightarrow> pg_end \<Rightarrow> 'a action option \<Rightarrow> pg_conn \<Rightarrow> 'a run \<times> pg_conn"
where
  "withinTx ctx_given ctx_error begin_tx commit_tx rollback_tx action c =
     (if \<not> ctx_given then (Returns (Inl (Fail ''transaction context is required'')), c)
      else case begin_tx of
        None \<Rightarrow> (Returns (Inl (Fail ''transaction beginner is required'')), c)
      | Some b \<Rightarrow>
      (case action of
        None \<Rightarrow> (Returns (Inl (Fail ''transaction action is required'')), c)
      | Some act \<Rightarrow>
      (case ctx_error of
        Some e \<Rightarrow> (Returns (Inl (Wrap ''transaction canceled'' e)), c)
      | None \<Rightarrow>
      (case b c of
        ((False, Some e), c') \<Rightarrow> (Returns (Inl (Wrap ''begin transaction'' e)), c')
      | ((False, None), c') \<Rightarrow> (Returns (Inl (Fail ''transaction begin returned no transaction'')), c')
      | ((True, err), c') \<Rightarrow> deferred_rollback rollback_tx (tx_steps commit_tx act err c')))))"

text \<open>The two entry points; a transaction mode is an argument of the driver's begin.\<close>

definition WithinTx ::
  "bool \<Rightarrow> go_error option \<Rightarrow> pg_begin option \<Rightarrow> pg_end \<Rightarrow> pg_end \<Rightarrow> 'a action option \<Rightarrow> pg_conn \<Rightarrow> 'a run \<times> pg_conn"
where
  "WithinTx ctx_given ctx_error beginner commit_tx rollback_tx action c =
     withinTx ctx_given ctx_error beginner commit_tx rollback_tx action c"

definition WithinTxOptions ::
  "bool \<Rightarrow> go_error option \<Rightarrow> ('o \<Rightarrow> pg_begin) option \<Rightarrow> 'o \<Rightarrow> pg_end \<Rightarrow> pg_end \<Rightarrow> 'a action option \<Rightarrow> pg_conn \<Rightarrow>
   'a run \<times> pg_conn"
where
  "WithinTxOptions ctx_given ctx_error beginner options commit_tx rollback_tx action c =
     withinTx ctx_given ctx_error (map_option (\<lambda>b. b options) beginner) commit_tx rollback_tx action c"

subsection \<open>Every way out\<close>

definition tx_world :: "pg_conn \<Rightarrow> world" where
  "tx_world c = \<lparr>w_db = pg_committed c, w_clock = pg_clock c, w_faults = pg_faults c\<rparr>"

text \<open>The tables agree, up to what sequences have handed out.\<close>

definition same_rows :: "forum_db \<Rightarrow> forum_db \<Rightarrow> bool" where
  "same_rows db db' \<longleftrightarrow> db' = db\<lparr>db_seqs := db_seqs db'\<rparr>"

lemma same_rows_iff: "same_rows db db' \<longleftrightarrow> (\<exists>s. db' = db\<lparr>db_seqs := s\<rparr>)"
  by (auto simp: same_rows_def)

lemma same_rows_refl [simp]: "same_rows db db"
  by (simp add: same_rows_def)

lemma abandoned_parts [simp]:
  "pg_working (abandoned c) = None" "same_rows (pg_committed c) (pg_committed (abandoned c))"
  by (auto simp: abandoned_def same_rows_def split: option.split)

lemma published_parts [simp]:
  "pg_working (published c) = None"
  "pg_working c = Some db \<Longrightarrow> pg_committed (published c) = db"
  by (auto simp: published_def split: option.split)

lemma abandoned_closed [simp]: "pg_working c = None \<Longrightarrow> abandoned c = c"
  by (simp add: abandoned_def)

lemma run_action_opened:
  "run_action act (opened c) =
     (let (r, w) = act (tx_world c)
      in (r, c\<lparr>pg_working := Some (w_db w), pg_clock := w_clock w, pg_faults := w_faults w\<rparr>))"
  by (simp add: run_action_def opened_def tx_world_def case_prod_unfold Let_def)

lemma joined_cases:
  "joined Panics e = Panics"
  "\<exists>e'. joined (Returns (Inl d)) e = Returns (Inl e') \<and> (\<forall>k. err_is d k \<longrightarrow> err_is e' k)"
  by (auto simp: joined_def split: option.split)

context postgres_driver
begin

text \<open>The three ways the steps end: without an effect, with a failed commit, and committed.\<close>

lemma steps_end:
  assumes "tx_steps commit_tx act err (opened c) = (committed, r, c')"
  shows "(case (err, act (tx_world c)) of
      (Some e, _) \<Rightarrow> \<not> committed \<and> r = Returns (Inl (Wrap ''begin transaction'' e)) \<and> c' = opened c
    | (None, Panics, w) \<Rightarrow> \<not> committed \<and> r = Panics \<and> pg_committed c' = pg_committed c
    | (None, Returns (Inl d), w) \<Rightarrow>
        \<not> committed \<and> r = Returns (Inl (Wrap ''transaction action failed'' d)) \<and> pg_committed c' = pg_committed c
    | (None, Returns (Inr x), w) \<Rightarrow>
        pg_working c' = None \<and> (pg_committed c' = w_db w \<or> \<not> committed \<and> same_rows (pg_committed c) (pg_committed c')) \<and>
        (if committed then r = Returns (Inr x) \<and> pg_committed c' = w_db w else \<exists>e. r = Returns (Inl e)))"
  using assms
  by (auto simp: tx_steps_def run_action_opened Let_def split: option.splits prod.splits run.splits sum.splits
      dest!: commit_publishes commit_fails)
    (auto simp: abandoned_def published_def same_rows_def)

end

subsection \<open>The atomic step\<close>

text \<open>The driver whose answers an environment of \<open>within_tx\<close> fixes.\<close>

definition env_begin :: "tx_env \<Rightarrow> pg_begin" where
  "env_begin env c =
     (case te_begin env of
        BeginOk \<Rightarrow> ((True, None), opened c)
      | BeginTxErr e \<Rightarrow> ((True, Some e), opened c)
      | BeginNoTx e \<Rightarrow> ((False, e), c))"

definition env_commit :: "tx_env \<Rightarrow> pg_end" where
  "env_commit env c =
     (case te_commit env of
        CommitOk \<Rightarrow> (None, published c)
      | CommitFailed e applied \<Rightarrow> (Some e, if applied then published c else abandoned c))"

definition env_rollback :: "tx_env \<Rightarrow> pg_end" where
  "env_rollback env c = (te_rollback_error env, abandoned c)"

interpretation env_driver: postgres_driver "env_begin env" "env_commit env" "env_rollback env" for env
  by unfold_locales
    (auto simp: env_begin_def env_commit_def env_rollback_def split: begin_outcome.splits commit_outcome.splits if_splits)

text \<open>A connection after a transaction, and a callback that does not panic.\<close>

definition tx_conn :: "world \<Rightarrow> pg_conn" where
  "tx_conn w = \<lparr>pg_committed = w_db w, pg_working = None, pg_clock = w_clock w, pg_faults = w_faults w\<rparr>"

definition callback :: "'a tx \<Rightarrow> 'a action" where
  "callback m w = map_prod Returns id (m w)"

lemma joined_with_rollback:
  "joined (Returns (Inl e)) (te_rollback_error env) = Returns (Inl (with_rollback env e))"
  by (simp add: joined_def with_rollback_def split: option.split)

lemma ended_conn:
  "pg_committed c = w_db w0 \<Longrightarrow>
   abandoned (c\<lparr>pg_working := Some (w_db w), pg_clock := w_clock w, pg_faults := w_faults w\<rparr>) = tx_conn (rolled_back w0 w)"
  "published (c\<lparr>pg_working := Some (w_db w), pg_clock := w_clock w, pg_faults := w_faults w\<rparr>) = tx_conn w"
  by (simp_all add: abandoned_def published_def tx_conn_def rolled_back_def)

lemma withinTx_within_tx:
  assumes "pg_working c = None"
  shows "withinTx (te_context_given env) (te_context_error env)
      (if te_beginner_given env then Some (env_begin env) else None) (env_commit env) (env_rollback env)
      (Some (callback m)) c =
    map_prod Returns tx_conn (within_tx env m (tx_world c))"
proof -
  obtain r w where m: "m (tx_world c) = (r, w)" by force
  have idle: "tx_conn (tx_world c) = c" "abandoned (opened c) = c" "abandoned (tx_conn v) = tx_conn v" for v
    using assms by (simp_all add: tx_conn_def tx_world_def abandoned_def opened_def)
  have committed: "pg_committed c = w_db (tx_world c)" by (simp add: tx_world_def)
  note ends = ended_conn(1) [OF committed] ended_conn(2)
  show ?thesis
    by (cases r)
      (simp_all add: withinTx_def within_tx_def env_begin_def tx_steps_def run_action_opened callback_def m idle
        deferred_rollback_def env_commit_def env_rollback_def joined_with_rollback ends
        split: option.split begin_outcome.split commit_outcome.split)
qed

subsection \<open>Atomicity\<close>

text \<open>How a transaction that was begun ends.\<close>

definition tx_ended :: "'a action \<Rightarrow> pg_conn \<Rightarrow> 'a run \<Rightarrow> pg_conn \<Rightarrow> bool" where
  "tx_ended act c r c' \<longleftrightarrow>
     pg_working c' = None \<and>
     (case r of
        Returns (Inr x) \<Rightarrow> (\<exists>w. act (tx_world c) = (Returns (Inr x), w) \<and> pg_committed c' = w_db w)
      | Returns (Inl e) \<Rightarrow>
          same_rows (pg_committed c) (pg_committed c') \<or>
          (\<exists>x w. act (tx_world c) = (Returns (Inr x), w) \<and> pg_committed c' = w_db w)
      | Panics \<Rightarrow> same_rows (pg_committed c) (pg_committed c') \<and> (\<exists>w. act (tx_world c) = (Panics, w)))"

lemma same_rows_abandoned: "same_rows db (pg_committed c) \<Longrightarrow> same_rows db (pg_committed (abandoned c))"
  by (auto simp: same_rows_iff abandoned_def split: option.split)

context postgres_driver
begin

lemma deferred_end:
  assumes "deferred_rollback rollback_tx (tx_steps commit_tx act err (opened c)) = (r, c')" and "pg_working c = None"
  shows "tx_ended act c r c' \<and>
    (\<forall>d w. err = None \<and> act (tx_world c) = (Returns (Inl d), w) \<longrightarrow>
       (\<exists>e. r = Returns (Inl e) \<and> (\<forall>k. err_is d k \<longrightarrow> err_is e k)))"
proof -
  obtain committed r1 c1 where steps: "tx_steps commit_tx act err (opened c) = (committed, r1, c1)"
    by (cases "tx_steps commit_tx act err (opened c)")
  note e = steps_end [OF steps]
  obtain ar w where act: "act (tx_world c) = (ar, w)" by force
  show ?thesis
  proof (cases committed)
    case True
    with e act assms(1) steps show ?thesis
      by (auto simp: tx_ended_def deferred_rollback_def split: option.splits run.splits sum.splits)
  next
    case False
    obtain re c2 where undo: "rollback_tx c1 = (re, c2)" by force
    from rollback_drops [OF this] have c2: "c2 = abandoned c1" .
    have fin: "r = joined r1 re" "c' = abandoned c1"
      using assms(1) steps False undo c2 by (simp_all add: deferred_rollback_def)
    have kept: "same_rows (pg_committed c) (pg_committed c') \<or>
        err = None \<and> (\<exists>x. ar = Returns (Inr x)) \<and> pg_committed c' = w_db w"
      using e act False unfolding fin
      by (auto simp: opened_def same_rows_abandoned split: option.splits run.splits sum.splits)
    have "(\<exists>d. r1 = Returns (Inl d)) \<or> r1 = Panics \<and> ar = Panics \<and> same_rows (pg_committed c) (pg_committed c')"
      using e act False unfolding fin
      by (auto simp: same_rows_abandoned split: option.splits run.splits sum.splits)
    then show ?thesis
    proof (elim disjE exE conjE)
      fix d assume d: "r1 = Returns (Inl d)"
      from joined_cases(2) [of d re] obtain d' where d': "r = Returns (Inl d')" "\<forall>k. err_is d k \<longrightarrow> err_is d' k"
        using fin(1) d by auto
      moreover have "r1 = Returns (Inl (Wrap ''transaction action failed'' e))"
        if "err = None" "ar = Returns (Inl e)" for e
        using that steps_end [OF steps] act by simp
      ultimately show ?thesis using kept d act fin(2) by (auto simp: tx_ended_def)
    next
      assume "r1 = Panics" "ar = Panics" "same_rows (pg_committed c) (pg_committed c')"
      then show ?thesis using act fin by (simp add: tx_ended_def joined_cases(1))
    qed
  qed
qed

end

text \<open>
  C27. A transaction is all or nothing and is never left open. Whatever the callback does, return a result, return an
  error or panic, and whatever the driver answers: when the function is left, no transaction is open on the
  connection. It reports success only when the callback succeeded, with exactly the tables the callback left; if it
  does not report success, the committed rows are what they were, unless the commit of a callback that had succeeded
  failed, where they are what the callback left. A panic comes from the callback alone. An error of the callback is
  found in the error that is returned, whatever the rollback adds to it.
\<close>

theorem withinTx_atomic:
  assumes "postgres_driver begin_tx commit_tx rollback_tx" and "pg_working c = None"
    and "withinTx given err begin_opt commit_tx rollback_tx action c = (r, c')"
    and "begin_opt = None \<or> begin_opt = Some begin_tx"
  shows "pg_working c' = None \<and>
    (case r of
       Returns (Inr x) \<Rightarrow> (\<exists>act w. action = Some act \<and> act (tx_world c) = (Returns (Inr x), w) \<and> pg_committed c' = w_db w)
     | Returns (Inl e) \<Rightarrow>
         same_rows (pg_committed c) (pg_committed c') \<or>
         (\<exists>act x w. action = Some act \<and> act (tx_world c) = (Returns (Inr x), w) \<and> pg_committed c' = w_db w)
     | Panics \<Rightarrow>
         same_rows (pg_committed c) (pg_committed c') \<and>
         (\<exists>act w. action = Some act \<and> act (tx_world c) = (Panics, w))) \<and>
    (\<forall>act d w. given \<and> err = None \<and> begin_opt \<noteq> None \<and> fst (begin_tx c) = (True, None) \<and> action = Some act \<and>
       act (tx_world c) = (Returns (Inl d), w) \<longrightarrow>
       (\<exists>e. r = Returns (Inl e) \<and> (\<forall>k. err_is d k \<longrightarrow> err_is e k)))"
proof (cases "given \<and> begin_opt \<noteq> None \<and> action \<noteq> None \<and> err = None")
  case True
  then obtain act where starts: "given" "begin_opt = Some begin_tx" "action = Some act" "err = None" using assms(4) by auto
  obtain has e c1 where b: "begin_tx c = ((has, e), c1)" by (cases "begin_tx c") auto
  show ?thesis
  proof (cases has)
    case True
    with b have "c1 = opened c" using postgres_driver.begin_opens [OF assms(1)] by simp
    with assms(3) starts b True have "deferred_rollback rollback_tx (tx_steps commit_tx act e (opened c)) = (r, c')"
      by (simp add: withinTx_def)
    from postgres_driver.deferred_end [OF assms(1) this assms(2)] show ?thesis
      unfolding tx_ended_def using b starts by (auto split: run.splits sum.splits)
  next
    case False
    with b have "c1 = c" using postgres_driver.begin_fails [OF assms(1)] by simp
    with assms(2,3) starts b False show ?thesis by (auto simp: withinTx_def split: option.splits)
  qed
next
  case False
  then have "\<exists>e. r = Returns (Inl e)" "c' = c"
    using assms(3) by (auto simp: withinTx_def split: if_splits option.splits)
  with False assms(2) show ?thesis by auto
qed

text \<open>A callback that writes and then panics, over a driver whose rollback reports a lost connection.\<close>

definition ex_lost :: tx_env where "ex_lost = ex_tx\<lparr>te_rollback_error := Some (Fail ''connection lost'')\<rparr>"

definition ex_conn :: pg_conn where "ex_conn = tx_conn (ex_world ex_db [])"

definition ex_panic :: "unit action" where "ex_panic w = (Panics, w\<lparr>w_db := (w_db w)\<lparr>db_users := []\<rparr>\<rparr>)"

definition ex_panicked :: "unit run \<times> pg_conn" where
  "ex_panicked = withinTx True None (Some (env_begin ex_lost)) (env_commit ex_lost) (env_rollback ex_lost) (Some ex_panic) ex_conn"

theorem withinTx_atomic_witness:
  "fst ex_panicked = Panics \<and> pg_working (snd ex_panicked) = None \<and>
   db_users (pg_committed (snd ex_panicked)) = db_users ex_db"
proof -
  have panics: "fst ex_panicked = Panics" by code_simp
  then have run: "withinTx True None (Some (env_begin ex_lost)) (env_commit ex_lost) (env_rollback ex_lost) (Some ex_panic) ex_conn
      = (Panics, snd ex_panicked)"
    unfolding ex_panicked_def by (metis prod.collapse)
  have "pg_working ex_conn = None" by (simp add: ex_conn_def tx_conn_def)
  from withinTx_atomic [OF env_driver.postgres_driver_axioms this run] panics show ?thesis
    by (auto simp: same_rows_iff ex_conn_def tx_conn_def)
qed

end
