(* ===== verification/TopicLists.thy ===== *)
theory TopicLists
  imports Unread Areas
begin

text \<open>
  The lists a reader starts from: the areas with their counts and latest posts (\<open>internal/store/areas.go\<close>) and
  the pages of topics of an area (\<open>topic_pages.go\<close>), over \<open>areas.sql.go\<close> and \<open>topics.sql.go\<close>. The
  queries filter by the access of the reader; the services check every row before they show it.
\<close>

subsection \<open>Visible areas\<close>

definition staff_actor :: "access_context \<Rightarrow> bool" where
  "staff_actor actor \<longleftrightarrow> ac_role actor = RoleModerator \<or> ac_role actor = RoleAdministrator"

definition area_shown :: "forum_db \<Rightarrow> bool \<Rightarrow> bool \<Rightarrow> int list \<Rightarrow> area_row \<Rightarrow> bool" where
  "area_shown db staff member groups a \<longleftrightarrow>
     staff \<or> a_visibility a = ''public'' \<or> (member \<and> a_visibility a = ''authenticated'') \<or>
     (member \<and> a_visibility a = ''groups'' \<and> groups \<noteq> [] \<and>
      list_ex (\<lambda>m. fst m = a_id a \<and> list_ex (\<lambda>g. snd m = g) groups) (db_area_groups db))"

definition shown_areas :: "forum_db \<Rightarrow> bool \<Rightarrow> bool \<Rightarrow> int list \<Rightarrow> area_row list" where
  "shown_areas db staff member groups =
     sort_key (\<lambda>a. (a_display_order a, a_id a)) (filter (area_shown db staff member groups) (db_areas db))"

definition query_ListVisibleAreas :: "bool \<Rightarrow> bool \<Rightarrow> int list \<Rightarrow> area_row list tx" where
  "query_ListVisibleAreas staff member groups = select_all (\<lambda>db. shown_areas db staff member groups)"

definition query_GetVisibleAreaBySlug :: "string \<Rightarrow> bool \<Rightarrow> bool \<Rightarrow> int list \<Rightarrow> area_row tx" where
  "query_GetVisibleAreaBySlug slug staff member groups =
     select_one (\<lambda>db. find (\<lambda>a. a_slug a = slug \<and> area_shown db staff member groups a) (db_areas db))"

definition ListVisibleAreas :: "auth_context \<Rightarrow> bool \<Rightarrow> access_context \<Rightarrow> area_row list tx" where
  "ListVisibleAreas cx querier actor =
     tx_bind (tx_guard (\<not> cx_given cx) (Fail ''visible area list context is required'')) (\<lambda>_.
     tx_bind (tx_guard (\<not> querier) (Fail ''visible area list querier is required'')) (\<lambda>_.
     tx_bind (tx_guard (\<not> Valid actor) (Fail ''visible area list access context is invalid'')) (\<lambda>_.
     tx_bind (auth_context_error ''list visible areas'' cx) (\<lambda>_.
     tx_wrap ''query visible areas''
       (query_ListVisibleAreas (staff_actor actor) (ac_authenticated actor) (ac_group_ids actor))))))"

definition GetVisibleAreaBySlug :: "auth_context \<Rightarrow> bool \<Rightarrow> string \<Rightarrow> access_context \<Rightarrow> area_row tx" where
  "GetVisibleAreaBySlug cx querier slug actor =
     tx_bind (tx_guard (\<not> cx_given cx) (Fail ''visible area lookup context is required'')) (\<lambda>_.
     tx_bind (tx_guard (\<not> querier) (Fail ''visible area lookup querier is required'')) (\<lambda>_.
     tx_bind (tx_guard (\<not> Valid actor) (Fail ''visible area lookup access context is invalid'')) (\<lambda>_.
     tx_bind (auth_context_error ''get visible area by slug'' cx) (\<lambda>_.
     tx_bind (tx_guard (\<not> ValidAreaSlug slug) (Wrap ''query visible area by slug'' (Sentinel NoRows))) (\<lambda>_.
     tx_wrap ''query visible area by slug''
       (query_GetVisibleAreaBySlug slug (staff_actor actor) (ac_authenticated actor) (ac_group_ids actor)))))))"

subsection \<open>Summaries\<close>

record latest_post =
  lp_topic_id :: int
  lp_title :: string
  lp_post_id :: int
  lp_number :: int
  lp_ordinal :: int
  lp_author :: string
  lp_created_at :: tstamp

text \<open>
  The columns of the latest post come from one joined row, so they are null together. The two columns on the read
  state are of the query for members.
\<close>

record summary_row =
  sm_area :: area_row
  sm_topics :: int
  sm_posts :: int
  sm_latest :: "latest_post option"
  sm_unread :: int
  sm_read_valid :: bool

definition shown_topics :: "forum_db \<Rightarrow> bool \<Rightarrow> area_row \<Rightarrow> topic_row list" where
  "shown_topics db staff a =
     filter (\<lambda>t. t_area_id t = a_id a \<and> t_deleted_at t = None \<and> (staff \<or> t_state t \<noteq> ''hidden'')) (db_topics db)"

definition shown_posts :: "forum_db \<Rightarrow> topic_row list \<Rightarrow> post_row list" where
  "shown_posts db topics =
     filter (\<lambda>p. p_deleted_at p = None \<and> list_ex (\<lambda>t. t_id t = p_topic_id p) topics) (db_posts db)"

text \<open>The position in the thread as members see it: tombstones count where something below them is left.\<close>

definition node_ordinal :: "forum_db \<Rightarrow> post_row \<Rightarrow> int option" where
  "node_ordinal db p =
     map_option fst (find (\<lambda>n. tn_post_id (snd n) = p_id p) (numbered_nodes db (p_topic_id p) False))"

definition latest_of :: "forum_db \<Rightarrow> topic_row list \<Rightarrow> latest_post option" where
  "latest_of db topics =
     (case rev (sort_key (\<lambda>p. (p_created_at p, p_id p))
             (filter (\<lambda>p. find_user db (p_author_id p) \<noteq> None \<and> node_ordinal db p \<noteq> None) (shown_posts db topics))) of
        [] \<Rightarrow> None
      | p # _ \<Rightarrow>
          (case (find (\<lambda>t. t_id t = p_topic_id p) topics, find_user db (p_author_id p), node_ordinal db p) of
             (Some t, Some u, Some n) \<Rightarrow>
               Some \<lparr>lp_topic_id = t_id t, lp_title = t_title t, lp_post_id = p_id p, lp_number = p_number p,
                     lp_ordinal = n, lp_author = u_display_name u, lp_created_at = p_created_at p\<rparr>
           | _ \<Rightarrow> None))"

text \<open>The greatest number of a post that counts for the reader, null when there is none.\<close>

definition eligible_head :: "forum_db \<Rightarrow> int \<Rightarrow> topic_row \<Rightarrow> int option" where
  "eligible_head db actor t =
     (case map p_number (filter (eligible actor) (topic_posts db (t_id t))) of
        [] \<Rightarrow> None | n # ns \<Rightarrow> Some (fold max ns n))"

definition topic_unread :: "forum_db \<Rightarrow> int \<Rightarrow> topic_row \<Rightarrow> bool" where
  "topic_unread db actor t =
     (case eligible_head db actor t of
        None \<Rightarrow> False
      | Some head \<Rightarrow>
          (case find_marker db actor (t_id t) of None \<Rightarrow> True | Some m \<Rightarrow> rd_last_read_id m < head))"

definition read_state_sound :: "forum_db \<Rightarrow> int \<Rightarrow> topic_row \<Rightarrow> bool" where
  "read_state_sound db actor t \<longleftrightarrow>
     (case eligible_head db actor t of None \<Rightarrow> True | Some head \<Rightarrow> head > 0 \<and> head \<le> t_next_post_number t - 1) \<and>
     (case find_marker db actor (t_id t) of
        None \<Rightarrow> True
      | Some m \<Rightarrow> rd_last_read_id m > 0 \<and> rd_last_read_id m \<le> t_next_post_number t - 1 \<and>
                  finite_ts (Some (rd_last_read_at m)))"

definition summary_of :: "forum_db \<Rightarrow> bool \<Rightarrow> int option \<Rightarrow> area_row \<Rightarrow> summary_row" where
  "summary_of db staff reader a =
     (let topics = shown_topics db staff a in
      \<lparr>sm_area = a, sm_topics = int (length topics), sm_posts = int (length (shown_posts db topics)),
       sm_latest = latest_of db topics,
       sm_unread = (case reader of None \<Rightarrow> 0 | Some actor \<Rightarrow> int (length (filter (topic_unread db actor) topics))),
       sm_read_valid = (case reader of None \<Rightarrow> True | Some actor \<Rightarrow> list_all (read_state_sound db actor) topics)\<rparr>)"

definition query_ListVisibleAreaSummaries :: "bool \<Rightarrow> bool \<Rightarrow> int list \<Rightarrow> summary_row list tx" where
  "query_ListVisibleAreaSummaries staff member groups =
     select_all (\<lambda>db. map (summary_of db staff None) (shown_areas db staff member groups))"

definition query_ListAuthenticatedVisibleAreaSummaries :: "bool \<Rightarrow> int list \<Rightarrow> int \<Rightarrow> summary_row list tx" where
  "query_ListAuthenticatedVisibleAreaSummaries staff groups actor =
     select_all (\<lambda>db. map (summary_of db staff (Some actor)) (shown_areas db staff True groups))"

record visible_area_summary =
  vs_area :: area_row
  vs_topics :: int
  vs_posts :: int
  vs_latest :: "latest_post option"
  vs_unread :: "int option"

definition valid_area_row :: "area_row \<Rightarrow> bool" where
  "valid_area_row a \<longleftrightarrow>
     a_id a > 0 \<and> ValidAreaSlug (a_slug a) \<and> a_name a \<noteq> [] \<and> a_display_order a \<ge> 0 \<and> a_created_by a > 0 \<and>
     a_updated_by a > 0 \<and> finite_ts (Some (a_created_at a)) \<and> finite_ts (Some (a_updated_at a)) \<and>
     \<not> ts_time (Some (a_updated_at a)) < ts_time (Some (a_created_at a)) \<and> closed_visibility (a_visibility a) \<and>
     closed_posting (a_posting_mode a)"

definition valid_latest :: "latest_post \<Rightarrow> bool" where
  "valid_latest l \<longleftrightarrow>
     lp_topic_id l > 0 \<and> lp_title l \<noteq> [] \<and> lp_post_id l > 0 \<and> lp_number l > 0 \<and> lp_ordinal l > 0 \<and> lp_author l \<noteq> [] \<and>
     finite_ts (Some (lp_created_at l))"

definition visibleAreaSummaryFromRow :: "summary_row \<Rightarrow> visible_area_summary option" where
  "visibleAreaSummaryFromRow row =
     (if \<not> valid_area_row (sm_area row) \<or> sm_topics row < 0 \<or> sm_posts row < 0 \<or> sm_posts row > 0 \<and> sm_topics row = 0
      then None
      else if (if sm_posts row = 0 then sm_latest row \<noteq> None
               else case sm_latest row of None \<Rightarrow> True | Some l \<Rightarrow> \<not> valid_latest l)
      then None
      else Some \<lparr>vs_area = sm_area row, vs_topics = sm_topics row, vs_posts = sm_posts row, vs_latest = sm_latest row,
                 vs_unread = None\<rparr>)"

definition authenticatedVisibleAreaSummaryFromRow :: "summary_row \<Rightarrow> visible_area_summary option" where
  "authenticatedVisibleAreaSummaryFromRow row =
     (case visibleAreaSummaryFromRow row of
        None \<Rightarrow> None
      | Some s \<Rightarrow>
          if \<not> sm_read_valid row \<or> sm_unread row < 0 \<or> sm_unread row > sm_topics row then None
          else Some (s\<lparr>vs_unread := Some (sm_unread row)\<rparr>))"

text \<open>The loop over the rows: a row that is not valid, or whose key was seen, is malformed. The message leaves out its index.\<close>

fun checked_rows :: "string \<Rightarrow> ('r \<Rightarrow> int) \<Rightarrow> ('r \<Rightarrow> 'v option) \<Rightarrow> int list \<Rightarrow> 'r list \<Rightarrow> go_error + 'v list" where
  "checked_rows msg key check seen [] = Inr []"
| "checked_rows msg key check seen (r # rs) =
     (case check r of
        None \<Rightarrow> Inl (Fail msg)
      | Some v \<Rightarrow>
          if key r \<in> set seen then Inl (Fail msg)
          else (case checked_rows msg key check (key r # seen) rs of Inl e \<Rightarrow> Inl e | Inr vs \<Rightarrow> Inr (v # vs)))"

definition ListVisibleAreaSummaries :: "auth_context \<Rightarrow> bool \<Rightarrow> access_context \<Rightarrow> visible_area_summary list tx" where
  "ListVisibleAreaSummaries cx querier actor =
     tx_bind (tx_guard (\<not> cx_given cx) (Fail ''visible area summary context is required'')) (\<lambda>_.
     tx_bind (tx_guard (\<not> querier) (Fail ''visible area summary querier is required'')) (\<lambda>_.
     tx_bind (tx_guard (\<not> Valid actor) (Fail ''visible area summary access context is invalid'')) (\<lambda>_.
     tx_bind (auth_context_error ''list visible area summaries'' cx) (\<lambda>_.
     if ac_authenticated actor
     then
       tx_bind (tx_wrap ''query authenticated visible area summaries''
                 (query_ListAuthenticatedVisibleAreaSummaries (staff_actor actor) (ac_group_ids actor) (ac_user_id actor)))
         (\<lambda>rows. tx_lift (checked_rows ''query authenticated visible area summaries: malformed row'' (a_id \<circ> sm_area)
                           authenticatedVisibleAreaSummaryFromRow [] rows))
     else
       tx_bind (tx_wrap ''query visible area summaries''
                 (query_ListVisibleAreaSummaries (staff_actor actor) False (ac_group_ids actor)))
         (\<lambda>rows. tx_lift (checked_rows ''query visible area summaries: malformed row'' (a_id \<circ> sm_area)
                           visibleAreaSummaryFromRow [] rows))))))"

subsection \<open>Topics of an area\<close>

definition TopicPageSize :: int where "TopicPageSize = 25"
definition MaximumTopicPage :: int where "MaximumTopicPage = 10000"

record topic_list_row =
  tl_topic :: topic_row
  tl_author :: string
  tl_total :: int
  tl_head :: int
  tl_marker :: "int option"
  tl_read_at :: "tstamp option"
  tl_state :: string

text \<open>Pinned topics first, the newest pin first, then the newest activity.\<close>

definition topic_order :: "topic_row \<Rightarrow> (nat \<times> tstamp) \<times> tstamp \<times> int" where
  "topic_order t =
     ((case t_pinned_at t of None \<Rightarrow> (0, NegInfinity) | Some s \<Rightarrow> (1, s)), t_last_activity_at t, t_id t)"

definition area_topics :: "forum_db \<Rightarrow> bool \<Rightarrow> area_row \<Rightarrow> topic_row list" where
  "area_topics db staff a =
     rev (sort_key topic_order (filter (\<lambda>t. find_user db (t_author_id t) \<noteq> None) (shown_topics db staff a)))"

definition paged :: "int \<Rightarrow> int \<Rightarrow> 'r list \<Rightarrow> 'r list" where
  "paged offset limit rows = take (nat limit) (drop (nat offset) rows)"

definition topic_author :: "forum_db \<Rightarrow> topic_row \<Rightarrow> string" where
  "topic_author db t = (case find_user db (t_author_id t) of None \<Rightarrow> [] | Some u \<Rightarrow> u_display_name u)"

definition query_ListVisibleTopicsByAreaSlug ::
  "string \<Rightarrow> bool \<Rightarrow> bool \<Rightarrow> int list \<Rightarrow> int \<Rightarrow> int \<Rightarrow> topic_list_row list tx" where
  "query_ListVisibleTopicsByAreaSlug slug staff member groups offset limit =
     select_all (\<lambda>db.
       case find (\<lambda>a. a_slug a = slug \<and> area_shown db staff member groups a) (db_areas db) of
         None \<Rightarrow> []
       | Some a \<Rightarrow>
           let topics = area_topics db staff a in
           map (\<lambda>t. \<lparr>tl_topic = t, tl_author = topic_author db t, tl_total = int (length topics), tl_head = 0,
                     tl_marker = None, tl_read_at = None, tl_state = []\<rparr>) (paged offset limit topics))"

definition query_ListAuthenticatedVisibleTopicsByAreaSlug ::
  "int \<Rightarrow> string \<Rightarrow> bool \<Rightarrow> int list \<Rightarrow> int \<Rightarrow> int \<Rightarrow> topic_list_row list tx" where
  "query_ListAuthenticatedVisibleTopicsByAreaSlug actor slug staff groups offset limit =
     select_all (\<lambda>db.
       case find (\<lambda>a. a_slug a = slug \<and> area_shown db staff True groups a) (db_areas db) of
         None \<Rightarrow> []
       | Some a \<Rightarrow>
           let topics = area_topics db staff a in
           map (\<lambda>t. let head = read_head (topic_posts db (t_id t)) actor; marker = find_marker db actor (t_id t) in
             \<lparr>tl_topic = t, tl_author = topic_author db t, tl_total = int (length topics), tl_head = head,
              tl_marker = map_option rd_last_read_id marker, tl_read_at = map_option rd_last_read_at marker,
              tl_state = (if head = 0 then ''read''
                          else case marker of
                            None \<Rightarrow> ''new''
                          | Some m \<Rightarrow> if rd_last_read_id m < head then ''unread'' else ''read'')\<rparr>)
             (paged offset limit topics))"

record listed_topic =
  lt_topic :: topic_row
  lt_author :: string
  lt_total :: int
  lt_read_state :: "string option"

definition visibleAreaTopicFromRow :: "topic_list_row \<Rightarrow> listed_topic option" where
  "visibleAreaTopicFromRow row =
     (let t = tl_topic row in
      if t_id t \<le> 0 \<or> t_title t = [] \<or> tl_author row = [] \<or> \<not> validVisibleTopicState (t_state t) \<or>
         t_reply_count t < 0 \<or> \<not> finite_ts (Some (t_last_activity_at t)) \<or> tl_total row \<le> 0 \<or>
         (t_pinned_at t \<noteq> None \<and> \<not> finite_ts (t_pinned_at t)) \<or> t_slug t = Some []
      then None
      else Some \<lparr>lt_topic = t, lt_author = tl_author row, lt_total = tl_total row, lt_read_state = None\<rparr>)"

definition authenticatedVisibleAreaTopicFromRow :: "topic_list_row \<Rightarrow> listed_topic option" where
  "authenticatedVisibleAreaTopicFromRow row =
     (let present = (tl_marker row \<noteq> None \<and> tl_read_at row \<noteq> None);
          absent = (tl_marker row = None \<and> tl_read_at row = None);
          number = (case tl_marker row of None \<Rightarrow> 0 | Some m \<Rightarrow> m);
          next_number = t_next_post_number (tl_topic row);
          expected = (if tl_head row > 0 \<and> absent then ReadStateNew
                      else if tl_head row > 0 \<and> number < tl_head row then ReadStateUnread
                      else ReadStateRead)
      in case visibleAreaTopicFromRow row of
        None \<Rightarrow> None
      | Some v \<Rightarrow>
          if next_number < 2 \<or> tl_head row < 0 \<or> tl_head row > next_number - 1 \<or> (\<not> present \<and> \<not> absent) \<or>
             (present \<and> (number \<le> 0 \<or> number > next_number - 1 \<or> \<not> finite_ts (tl_read_at row)))
          then None
          else if tl_state row \<noteq> expected then None
          else Some (v\<lparr>lt_read_state := Some expected\<rparr>))"

record topic_list =
  tp_area :: area_row
  tp_topics :: "listed_topic list"
  tp_number :: int
  tp_total :: int
  tp_pages :: int

definition check_topic_list :: "area_row \<Rightarrow> int \<Rightarrow> int \<Rightarrow> listed_topic list \<Rightarrow> go_error + topic_list" where
  "check_topic_list area page offset topics =
     (case topics of
        [] \<Rightarrow>
          if page \<noteq> 1 then Inl (Wrap ''get visible area topic page'' (Sentinel NoRows))
          else Inr \<lparr>tp_area = area, tp_topics = [], tp_number = page, tp_total = 0, tp_pages = 0\<rparr>
      | first # rest \<Rightarrow>
          let total = lt_total first; count = int (length topics);
              expected = min TopicPageSize (total - offset)
          in if count > TopicPageSize then Inl (Fail ''visible area topic query exceeded page size'')
             else if total < offset + count then Inl (Fail ''visible area topic query returned an invalid total'')
             else if list_ex (\<lambda>t. lt_total t \<noteq> total) rest
             then Inl (Fail ''visible area topic query returned inconsistent totals'')
             else if count \<noteq> expected then Inl (Fail ''visible area topic query returned an incomplete page'')
             else Inr \<lparr>tp_area = area, tp_topics = topics, tp_number = page, tp_total = total,
                       tp_pages = 1 + (total - 1) div TopicPageSize\<rparr>)"

definition page_topics :: "access_context \<Rightarrow> string \<Rightarrow> int \<Rightarrow> listed_topic list tx" where
  "page_topics actor slug offset =
     (if ac_authenticated actor
      then tx_bind (tx_wrap ''query authenticated visible area topics''
             (query_ListAuthenticatedVisibleTopicsByAreaSlug (ac_user_id actor) slug (staff_actor actor)
                (ac_group_ids actor) offset TopicPageSize)) (\<lambda>rows.
           tx_lift (checked_rows ''query authenticated visible area topics: malformed row'' (t_id \<circ> tl_topic)
             authenticatedVisibleAreaTopicFromRow [] rows))
      else tx_bind (tx_wrap ''query visible area topics''
             (query_ListVisibleTopicsByAreaSlug slug (staff_actor actor) False (ac_group_ids actor) offset TopicPageSize)) (\<lambda>rows.
           tx_lift (checked_rows ''query visible area topics: malformed row'' (t_id \<circ> tl_topic)
             visibleAreaTopicFromRow [] rows)))"

definition GetVisibleAreaTopicPage ::
  "auth_context \<Rightarrow> bool \<Rightarrow> string \<Rightarrow> int \<Rightarrow> access_context \<Rightarrow> topic_list tx" where
  "GetVisibleAreaTopicPage cx querier slug page actor =
     tx_bind (tx_guard (\<not> cx_given cx) (Fail ''visible area topic page context is required'')) (\<lambda>_.
     tx_bind (tx_guard (\<not> querier) (Fail ''visible area topic page querier is required'')) (\<lambda>_.
     tx_bind (auth_context_error ''get visible area topic page'' cx) (\<lambda>_.
     tx_bind (tx_guard (page < 1 \<or> page > MaximumTopicPage)
               (Wrap ''get visible area topic page'' (Sentinel NoRows))) (\<lambda>_.
     tx_bind (tx_wrap ''get topic page area'' (GetVisibleAreaBySlug cx querier slug actor)) (\<lambda>area.
     let offset = (page - 1) * TopicPageSize in
     tx_bind (page_topics actor slug offset) (\<lambda>topics.
     tx_lift (check_topic_list area page offset topics)))))))"

subsection \<open>What is shown\<close>

lemma checked_rows_Inr:
  "checked_rows msg key check seen rs = Inr vs \<Longrightarrow>
   list_all2 (\<lambda>r v. check r = Some v) rs vs \<and> distinct (map key rs) \<and> set (map key rs) \<inter> set seen = {}"
proof (induction rs arbitrary: seen vs)
  case (Cons r rs)
  from Cons.prems obtain v vs' where "check r = Some v" "key r \<notin> set seen" "vs = v # vs'"
      "checked_rows msg key check (key r # seen) rs = Inr vs'"
    by (auto split: option.splits if_splits sum.splits)
  with Cons.IH [OF this(4)] show ?case by auto
qed simp

text \<open>A page of topics is a slice of the topics the reader may see in the area, in the order of the list.\<close>

lemma visibleAreaTopicFromRow_topic: "visibleAreaTopicFromRow r = Some v \<Longrightarrow> lt_topic v = tl_topic r"
  by (auto simp: visibleAreaTopicFromRow_def Let_def split: if_splits)

lemma authenticatedVisibleAreaTopicFromRow_topic:
  "authenticatedVisibleAreaTopicFromRow r = Some v \<Longrightarrow> lt_topic v = tl_topic r"
  by (auto simp: authenticatedVisibleAreaTopicFromRow_def Let_def dest!: visibleAreaTopicFromRow_topic
      split: option.splits if_splits)

lemma checked_topics:
  assumes "checked_rows msg key check [] rs = Inr vs" and "\<And>r v. check r = Some v \<Longrightarrow> lt_topic v = tl_topic r"
  shows "map lt_topic vs = map tl_topic rs"
proof -
  from checked_rows_Inr [OF assms(1)] have "list_all2 (\<lambda>r v. check r = Some v) rs vs" by blast
  then show ?thesis by (induction rule: list_all2_induct) (auto dest: assms(2))
qed

lemmas checked_anonymous_topics = checked_topics [OF _ visibleAreaTopicFromRow_topic]
lemmas checked_member_topics = checked_topics [OF _ authenticatedVisibleAreaTopicFromRow_topic]

lemma page_topics_Inr:
  assumes "page_topics actor slug offset w = (Inr topics, w')"
    and "find (\<lambda>a. a_slug a = slug \<and> area_shown (w_db w) (staff_actor actor) (ac_authenticated actor) (ac_group_ids actor) a)
           (db_areas (w_db w)) = Some a"
  shows "map lt_topic topics = paged offset TopicPageSize (area_topics (w_db w) (staff_actor actor) a)"
proof (cases "ac_authenticated actor")
  case True
  then show ?thesis using assms
    by (auto simp: page_topics_def query_ListAuthenticatedVisibleTopicsByAreaSlug_def Let_def tx_bind_Inr tx_wrap_Inr
        tx_lift_Inr select_all_Inr comp_def dest!: checked_member_topics)
next
  case False
  then show ?thesis using assms
    by (auto simp: page_topics_def query_ListVisibleTopicsByAreaSlug_def Let_def tx_bind_Inr tx_wrap_Inr
        tx_lift_Inr select_all_Inr comp_def dest!: checked_anonymous_topics)
qed

lemma check_topic_list_Inr:
  "check_topic_list a page offset topics = Inr res \<Longrightarrow>
   tp_area res = a \<and> tp_topics res = topics \<and> tp_number res = page"
  by (auto simp: check_topic_list_def Let_def split: list.splits if_splits)

lemma GetVisibleAreaTopicPage_Inr:
  assumes "GetVisibleAreaTopicPage cx querier slug page actor w = (Inr res, w')"
  shows "1 \<le> page \<and> a_slug (tp_area res) = slug \<and> tp_area res \<in> set (db_areas (w_db w)) \<and>
    area_shown (w_db w) (staff_actor actor) (ac_authenticated actor) (ac_group_ids actor) (tp_area res) \<and>
    map lt_topic (tp_topics res) =
      paged ((page - 1) * TopicPageSize) TopicPageSize (area_topics (w_db w) (staff_actor actor) (tp_area res)) \<and>
    (\<forall>t \<in> set (map lt_topic (tp_topics res)). t_deleted_at t = None \<and> (staff_actor actor \<or> t_state t \<noteq> TopicHidden))"
proof -
  let ?staff = "staff_actor actor" and ?groups = "ac_group_ids actor" and ?offset = "(page - 1) * TopicPageSize"
  let ?find = "\<lambda>db. find (\<lambda>a. a_slug a = slug \<and> area_shown db ?staff (ac_authenticated actor) ?groups a) (db_areas db)"
  from assms obtain a topics w2 where page: "1 \<le> page"
    and area: "?find (w_db w) = Some a"
    and topics: "page_topics actor slug ?offset (after_statement w (w_db w)) = (Inr topics, w2)"
    and res: "check_topic_list a page ?offset topics = Inr res"
    by (auto simp: GetVisibleAreaTopicPage_def GetVisibleAreaBySlug_def query_GetVisibleAreaBySlug_def not_less
        auth_context_error_def Let_def tx_bind_Inr tx_guard_Inr tx_wrap_Inr tx_lift_Inr tx_return_Inr tx_fail_Inr
        select_one_Inr split: option.splits)
  have "map lt_topic topics = paged ?offset TopicPageSize (area_topics (w_db w) ?staff a)"
    using page_topics_Inr [OF topics] area by simp
  moreover have "a \<in> set (db_areas (w_db w))" "a_slug a = slug"
      "area_shown (w_db w) ?staff (ac_authenticated actor) ?groups a"
    using find_Some_iff2 [OF area] by auto
  moreover have "t_deleted_at t = None \<and> (?staff \<or> t_state t \<noteq> TopicHidden)"
    if "t \<in> set (paged ?offset TopicPageSize (area_topics (w_db w) ?staff a))" for t
    using that by (auto simp: paged_def area_topics_def shown_topics_def TopicHidden_def dest!: in_set_takeD in_set_dropD)
  ultimately show ?thesis using page check_topic_list_Inr [OF res] by auto
qed

end
