(* ===== verification/Spec2Isabelle.thy ===== *)
theory Spec2Isabelle
  imports RequestLimiter PageFacts UnreadFacts EditFacts ActivityFacts SearchFacts IdentityFacts GovernanceFacts
    PagingFacts ControlFacts RegistrationFacts AreaFacts Transaction TopicLists
begin

text \<open>
  A verification library for gotth-bb, a forum server in Go over PostgreSQL. It models the services below
  \<open>internal/\<close> that change or read the forum's tables, with the SQL statements they issue, and proves what
  they promise one by one and under every interleaving of their transactions.

  \<^bold>\<open>Parts of the program.\<close> A request reaches a service with an access context (who is asking, role, groups).
  A service validates its input, opens a transaction, locks and re-reads the rows its decision depends on, decides by
  the pure policy, writes, and appends an audit row. Rate limits, sessions, cursors and the calls to the identity
  provider stand around that core.

  \<^bold>\<open>Foundations.\<close> \<open>Prelude\<close> has Go errors as values (\<open>errors.Is\<close> is \<open>err_is\<close>), times, and tables as
  lists of rows with \<open>upd_where\<close>. \<open>GoStrings\<close>, \<open>Utf8\<close>, \<open>Bytes\<close> and \<open>Base64\<close> have what the code uses of
  the standard library on strings and bytes, as code. \<open>ForumDb\<close> has one record per table
  (\<open>store/db/models.go\<close>, \<open>migrations/\<close>); its columns are the ones the modelled statements use.

  \<^bold>\<open>Transactions.\<close> \<open>Transaction\<close> is \<open>store/transaction.go\<close> step by step: the checks, begin, callback, commit, the
  deferred rollback, errors and panics, over a connection with committed and working tables. pgx and PostgreSQL are
  parameters there; the locale \<open>postgres_driver\<close> states what they promise. \<open>Tx\<close> has the state monad the
  services are written in and the atomic step \<open>within_tx\<close>; \<open>withinTx_within_tx\<close> shows that for a callback
  which is given and does not panic the code is that step. A world holds the tables, the readings of the server's
  clock still to come, and a fault flag for every statement still to come, so any statement may fail at any time.
  Row locks are why a transaction is one step.

  \<^bold>\<open>Components\<close>, in the order of their dependencies:
  \<^item> \<open>Policy\<close>: \<open>policy/*.go\<close>, the access snapshot and every decision.
  \<^item> \<open>FixedWindow\<close>, \<open>Publication\<close>, \<open>RequestLimiter\<close>: \<open>abuse/publication.go\<close>, \<open>abuse/request_limiter.go\<close>; counters
    are 32-bit words, times saturate where \<open>time.Sub\<close> does. \<open>fixed_window\<close> is the locale both limits
    are shown to meet.
  \<^item> \<open>Publish\<close>, \<open>ControlledPublish\<close>, \<open>Editing\<close>: \<open>forum/publish.go\<close>, \<open>edit.go\<close>, \<open>delete.go\<close> with the statements and the
    path trigger; \<open>ControlledPublish\<close> has the entry points the server uses, which read the limit from the settings row.
  \<^item> \<open>Moderation\<close>, \<open>ModerationActions\<close>, \<open>Reports\<close>, \<open>Suspension\<close>: \<open>moderation/*.go\<close>.
  \<^item> \<open>TopicPage\<close>, \<open>TopicLists\<close>, \<open>Unread\<close>: \<open>store/topic_post_pages.go\<close>, \<open>areas.go\<close>, \<open>topic_pages.go\<close>,
    \<open>forum/unread.go\<close>.
  \<^item> \<open>Secrets\<close>, \<open>Sessions\<close>, \<open>Login\<close>, \<open>Identity\<close>: \<open>auth/*.go\<close>.
  \<^item> \<open>Governance\<close>: \<open>governance/*.go\<close>. \<open>Accounts\<close>, \<open>AccountActions\<close>, \<open>AdminSessions\<close>: \<open>administration/account.go\<close>,
    \<open>session.go\<close>. \<open>Control\<close>: \<open>control/settings.go\<close>, \<open>mutation.go\<close>. \<open>Areas\<close>, \<open>AreaActions\<close>, \<open>AreaReads\<close>:
    \<open>administration/area.go\<close>, \<open>completion.go\<close>.
  \<^item> \<open>Cursor\<close>, \<open>Activity\<close>, \<open>SearchRequest\<close>: \<open>discovery/cursor.go\<close>, \<open>store.go\<close>, \<open>runtime.go\<close>, \<open>request.go\<close>.
  \<^item> \<open>Gateway\<close>, \<open>Registration\<close>, \<open>RegistrationActions\<close>, \<open>Invitations\<close>, \<open>IdentitySync\<close>, \<open>IdentityActions\<close>:
    \<open>registration/*.go\<close>. A service that calls the provider between its transactions is a definition composed of
    its phases, and every phase is a step of its own, since other requests may come between.

  \<^bold>\<open>The board.\<close> \<open>Board\<close> puts every mutation (and the reads that lock) into one step relation: \<open>board_step\<close> is
  one run of one service under any context, clock and faults, \<open>board_run\<close> any sequence of them. Its locales state
  what a relation between tables has to satisfy at the statements that write (\<open>statement_relation\<close>, over
  \<open>registration_relation\<close> of \<open>RegistrationLaws\<close>; \<open>area_statements\<close>, \<open>account_statements\<close>, \<open>board_relation\<close>), or at whole
  services where only these keep it (\<open>service_relation\<close>); inside them the relation is carried through every
  service once. Each law of the development is an interpretation: \<open>BoardThreads\<close> refines the tables to the abstract
  threads of \<open>Threads\<close>, and \<open>BoardLaws\<close>, \<open>AuthLaws\<close>, \<open>GovernanceLaws\<close>, \<open>RegistrationFacts\<close>, \<open>AreaFacts\<close> and
  \<open>UnreadFacts\<close> have the rest.

  \<^bold>\<open>What is proved.\<close> For each service what success means on the rows as they were locked (\<open>PublishFacts\<close>, \<open>TopicFacts\<close>,
  \<open>EditFacts\<close>, \<open>ModerationFacts\<close>, \<open>SuspensionFacts\<close>, \<open>AccountFacts\<close>, \<open>GovernanceFacts\<close>, \<open>SessionFacts\<close>, \<open>IdentityFacts\<close>,
  \<open>RegistrationFacts\<close>, \<open>AreaFacts\<close>); what no run can undo: threading, audit rows, redactions, revocations, consumed
  login attempts, the set-up, the presence of an administrator, decisions, area keys; no lost updates; the rate
  bounds; round trips of login material, settings and cursors (\<open>IdentityFacts\<close>, \<open>ControlFacts\<close>, \<open>CursorFacts\<close>);
  agreement of SQL with Go (\<open>ActivityFacts\<close>, \<open>UnreadFacts\<close>, \<open>PageFacts\<close>); complete walks over the pages (\<open>PagingFacts\<close>,
  \<open>ActivityFacts\<close>); totality of the parser (\<open>SearchFacts\<close>). A call through \<open>CreateReplyWithControl\<close> or
  \<open>CreateTopicWithControl\<close> succeeds exactly as the fixed-policy call under the stored policy
  (\<open>CreateReplyWithControl_Inr\<close>, \<open>CreateTopicWithControl_Inr\<close>), so what is shown of the latter holds of the former.
  \<open>Example\<close> is the small board the witnesses run on. Lemmas named in the findings show behaviour that departs from
  the documentation.

  \<^bold>\<open>Parameters.\<close> The Markdown renderer and sanitizer, NFC, the folding of the unique index, HMAC, SHA-256 and AES-GCM,
  entropy, the discovery and code exchange of OpenID Connect, \<open>net/mail\<close>, RFC 3339 texts, the mailer, the answers of
  the provider's gateway, the advisory lock and the rows skipped under \<open>SKIP LOCKED\<close>. What a theorem needs of one is
  a hypothesis of it.

  \<^bold>\<open>Numbers and bounds.\<close> Table columns are unbounded integers with the overflow checks of the statements written out
  (\<open>max_int32\<close>, \<open>max_int64\<close>); words and wrap-around are used where the code converts or counts in fixed width. Walks
  over pages are recursion on the number of pages with a bound the theorems give; no definition needs fuel that a
  theorem does not supply.

  \<^bold>\<open>Not modelled.\<close> HTTP handlers, forms, cookies and templates (\<open>httpui\<close>), process wiring (\<open>cmd\<close>, \<open>app\<close>), the
  HTTP clients and servers of the provider (\<open>authentikcontrol\<close>, \<open>authentikgateway\<close>), SMTP, configuration, migrations and
  readiness probes, which are I/O around the services; the ranked full-text search, which is PostgreSQL's; the
  settings of outgoing mail, the search projection and rerender jobs, and the read-only listings of
  staff reports and users, which touch no state the services decide on. Audit states are records rather than JSON.
  Concurrency inside one transaction (lock waits, deadlocks) appears only as a failing statement.
\<close>

end
